(* ===== verification/Prelude.thy ===== *)
theory Prelude
  imports Main "HOL-Library.Char_ord" "HOL-Library.List_Lexorder" "HOL-Library.AList"
    "HOL-Library.Multiset"
begin

text \<open>
  Vocabulary shared by every component: Go's error values, the three ways a Go call can end,
  the state-passing computations the services are written in, and the generic list and
  association-list facts their proofs use.

  A Go function that returns \<open>(x, err)\<close> is a computation whose outcome is \<open>Ret x\<close> when
  \<open>err\<close> is nil and \<open>Fail err\<close> otherwise; \<open>Panic\<close> is a run-time panic (a nil dereference),
  which no \<open>if err != nil\<close> sees.
\<close>

subsection \<open>Error values\<close>

text \<open>
  The sentinel errors of \<^verbatim>\<open>internal/domain/types/error.go\<close> and of the services, then the
  errors of the database driver, of the JSON decoder and of other foreign code, and the
  three ways the code builds an error from another one.
\<close>

datatype go_error =
    ErrNotFound | ErrInvalidSearchTerm | ErrNoBodyFound | ErrTimeout | ErrLooseConnection
  | ErrInvalidUserID | ErrForbidden | ErrUnimplemented | ErrUnauthorized | ErrInvalidParam
  | ErrInvalidCredentials | ErrInternalError | ErrAlreadyInUse
  | ErrStateNotFound | ErrInvalidPaginationDirection
  | ErrBackupNotFound | ErrWrongVersion string
  | ErrIncompatibleRoomVersion | ErrMediaTooLarge | ErrMediaNotFound
  | Canceled | DeadlineExceeded
  | PgError string | JsonError string | ExtError string
  | Errorf string | Wrapf string go_error | Joined go_error go_error

text \<open>\<open>errors.Is(err, target)\<close>: the chain of wrapped errors is searched.\<close>

fun errors_is :: "go_error \<Rightarrow> go_error \<Rightarrow> bool" where
  "errors_is (Wrapf s e) t = (Wrapf s e = t \<or> errors_is e t)"
| "errors_is (Joined a b) t = (Joined a b = t \<or> errors_is a t \<or> errors_is b t)"
| "errors_is e t = (e = t)"

definition InternalError :: "go_error \<Rightarrow> go_error" where
  "InternalError reason = Joined ErrInternalError reason"

lemma errors_is_refl [simp]: "errors_is e e"
  by (cases e) auto

lemma errors_is_InternalError [simp]: "errors_is (InternalError e) ErrInternalError"
  by (simp add: InternalError_def)

subsection \<open>Outcomes and computations\<close>

datatype 'a outcome = Ret 'a | Fail go_error | Panic

type_synonym ('w, 'a) io = "'w \<Rightarrow> 'a outcome \<times> 'w"

definition returnM :: "'a \<Rightarrow> ('w, 'a) io" where
  "returnM a = (\<lambda>w. (Ret a, w))"

definition failM :: "go_error \<Rightarrow> ('w, 'a) io" where
  "failM e = (\<lambda>w. (Fail e, w))"

definition panicM :: "('w, 'a) io" where
  "panicM = (\<lambda>w. (Panic, w))"

text \<open>\<open>bindM m f\<close>: call \<open>m\<close>; on an error return it (\<open>if err != nil { return err }\<close>).\<close>

definition bindM :: "('w, 'a) io \<Rightarrow> ('a \<Rightarrow> ('w, 'b) io) \<Rightarrow> ('w, 'b) io" where
  "bindM m f = (\<lambda>w. case m w of (r, w') \<Rightarrow>
     (case r of Ret a \<Rightarrow> f a w' | Fail e \<Rightarrow> (Fail e, w') | Panic \<Rightarrow> (Panic, w')))"

text \<open>\<open>wrapM s m\<close>: an error of \<open>m\<close> is wrapped, as \<open>fmt.Errorf("s: %w", err)\<close> does.\<close>

definition wrapM :: "string \<Rightarrow> ('w, 'a) io \<Rightarrow> ('w, 'a) io" where
  "wrapM s m = (\<lambda>w. case m w of (r, w') \<Rightarrow>
     (case r of Ret a \<Rightarrow> (Ret a, w') | Fail e \<Rightarrow> (Fail (Wrapf s e), w') | Panic \<Rightarrow> (Panic, w')))"

text \<open>\<open>catchM m\<close>: the caller looks at \<open>err\<close> itself.\<close>

definition catchM :: "('w, 'a) io \<Rightarrow> ('w, go_error + 'a) io" where
  "catchM m = (\<lambda>w. case m w of (r, w') \<Rightarrow>
     (case r of Ret a \<Rightarrow> (Ret (Inr a), w') | Fail e \<Rightarrow> (Ret (Inl e), w') | Panic \<Rightarrow> (Panic, w')))"

text \<open>\<open>internalM m\<close>: an error of \<open>m\<close> is returned as \<open>types.InternalError(err)\<close>.\<close>

definition internalM :: "('w, 'a) io \<Rightarrow> ('w, 'a) io" where
  "internalM m = (\<lambda>w. case m w of (r, w') \<Rightarrow>
     (case r of Ret a \<Rightarrow> (Ret a, w') | Fail e \<Rightarrow> (Fail (InternalError e), w') | Panic \<Rightarrow> (Panic, w')))"

definition getsM :: "('w \<Rightarrow> 'a) \<Rightarrow> ('w, 'a) io" where
  "getsM f = (\<lambda>w. (Ret (f w), w))"

definition modifyM :: "('w \<Rightarrow> 'w) \<Rightarrow> ('w, unit) io" where
  "modifyM f = (\<lambda>w. (Ret (), f w))"

definition liftE :: "go_error + 'a \<Rightarrow> ('w, 'a) io" where
  "liftE r = (case r of Inl e \<Rightarrow> failM e | Inr a \<Rightarrow> returnM a)"

definition liftO :: "'a outcome \<Rightarrow> ('w, 'a) io" where
  "liftO r = (\<lambda>w. (r, w))"

text \<open>A \<open>for\<close> loop over a slice that stops at the first error.\<close>

fun forM :: "'a list \<Rightarrow> ('a \<Rightarrow> ('w, unit) io) \<Rightarrow> ('w, unit) io" where
  "forM [] f = returnM ()"
| "forM (x # xs) f = bindM (f x) (\<lambda>_. forM xs f)"

text \<open>A \<open>for\<close> loop that carries the local variables it assigns.\<close>

fun foldM :: "('a \<Rightarrow> 's \<Rightarrow> ('w, 's) io) \<Rightarrow> 'a list \<Rightarrow> 's \<Rightarrow> ('w, 's) io" where
  "foldM f [] s = returnM s"
| "foldM f (x # xs) s = bindM (f x s) (foldM f xs)"

subsection \<open>Running computations\<close>

text \<open>
  \<open>run_simps\<close> evaluates a computation in a given state; \<open>ret_simps\<close> reads a successful
  run backwards: which intermediate results and states it went through.
\<close>

named_theorems run_simps "forward evaluation of a computation"
named_theorems ret_simps "inversion of a successful run"

lemma run_return [run_simps]: "returnM a w = (Ret a, w)"
  by (simp add: returnM_def)

lemma run_fail [run_simps]: "failM e w = (Fail e, w)"
  by (simp add: failM_def)

lemma run_panic [run_simps]: "panicM w = (Panic, w)"
  by (simp add: panicM_def)

lemma run_bind [run_simps]:
  "bindM m f w = (case m w of (r, w') \<Rightarrow>
     (case r of Ret a \<Rightarrow> f a w' | Fail e \<Rightarrow> (Fail e, w') | Panic \<Rightarrow> (Panic, w')))"
  by (simp add: bindM_def)

lemma run_wrap [run_simps]:
  "wrapM s m w = (case m w of (r, w') \<Rightarrow>
     (case r of Ret a \<Rightarrow> (Ret a, w') | Fail e \<Rightarrow> (Fail (Wrapf s e), w') | Panic \<Rightarrow> (Panic, w')))"
  by (simp add: wrapM_def)

lemma run_catch [run_simps]:
  "catchM m w = (case m w of (r, w') \<Rightarrow>
     (case r of Ret a \<Rightarrow> (Ret (Inr a), w') | Fail e \<Rightarrow> (Ret (Inl e), w') | Panic \<Rightarrow> (Panic, w')))"
  by (simp add: catchM_def)

lemma run_internal [run_simps]:
  "internalM m w = (case m w of (r, w') \<Rightarrow>
     (case r of Ret a \<Rightarrow> (Ret a, w') | Fail e \<Rightarrow> (Fail (InternalError e), w') | Panic \<Rightarrow> (Panic, w')))"
  by (simp add: internalM_def)

lemma run_gets [run_simps]: "getsM f w = (Ret (f w), w)"
  by (simp add: getsM_def)

lemma run_modify [run_simps]: "modifyM f w = (Ret (), f w)"
  by (simp add: modifyM_def)

lemma run_liftE [run_simps]:
  "liftE r w = (case r of Inl e \<Rightarrow> (Fail e, w) | Inr a \<Rightarrow> (Ret a, w))"
  by (simp add: liftE_def run_simps split: sum.split)

lemma run_liftO [run_simps]: "liftO r w = (r, w)"
  by (simp add: liftO_def)

lemma ret_liftO [ret_simps]: "liftO r w = (Ret b, w') \<longleftrightarrow> r = Ret b \<and> w' = w"
  by (auto simp: liftO_def)

lemma ret_return [ret_simps]: "returnM a w = (Ret b, w') \<longleftrightarrow> b = a \<and> w' = w"
  by (auto simp: returnM_def)

lemma ret_fail [ret_simps]: "\<not> failM e w = (Ret b, w')"
  by (simp add: failM_def)

lemma ret_panic [ret_simps]: "\<not> panicM w = (Ret b, w')"
  by (simp add: panicM_def)

lemma ret_bind [ret_simps]:
  "bindM m f w = (Ret b, w'') \<longleftrightarrow> (\<exists>a w'. m w = (Ret a, w') \<and> f a w' = (Ret b, w''))"
  by (auto simp: bindM_def split: prod.splits outcome.splits)

lemma ret_wrap [ret_simps]: "wrapM s m w = (Ret b, w') \<longleftrightarrow> m w = (Ret b, w')"
  by (auto simp: wrapM_def split: prod.splits outcome.splits)

lemma ret_catch [ret_simps]:
  "catchM m w = (Ret b, w') \<longleftrightarrow>
     (case b of Inr a \<Rightarrow> m w = (Ret a, w') | Inl e \<Rightarrow> m w = (Fail e, w'))"
  by (auto simp: catchM_def split: prod.splits outcome.splits sum.splits)

lemma ret_internal [ret_simps]: "internalM m w = (Ret b, w') \<longleftrightarrow> m w = (Ret b, w')"
  by (auto simp: internalM_def split: prod.splits outcome.splits)

lemma ret_gets [ret_simps]: "getsM f w = (Ret b, w') \<longleftrightarrow> b = f w \<and> w' = w"
  by (auto simp: getsM_def)

lemma ret_modify [ret_simps]: "modifyM f w = (Ret b, w') \<longleftrightarrow> w' = f w"
  by (auto simp: modifyM_def)

lemma ret_liftE [ret_simps]: "liftE r w = (Ret b, w') \<longleftrightarrow> r = Inr b \<and> w' = w"
  by (auto simp: liftE_def returnM_def failM_def split: sum.splits)

end
