(* ===== verification/Go_Strings.thy ===== *)
theory Go_Strings
  imports Prelude
begin

text \<open>
  The parts of Go's \<open>strings\<close>, \<open>strconv\<close>, \<open>fmt\<close> and \<open>encoding/base64\<close> packages the program
  uses. A Go string is a sequence of bytes, here \<open>char list\<close>; an \<open>int64\<close> is an \<open>int\<close> whose
  range is written out where it matters.
\<close>

subsection \<open>int64\<close>

definition in_int64 :: "int \<Rightarrow> bool" where
  "in_int64 n \<longleftrightarrow> - (2 ^ 63) \<le> n \<and> n < 2 ^ 63"

text \<open>The value an \<open>int64\<close> variable holds after an assignment: arithmetic wraps around.\<close>

definition wrap64 :: "int \<Rightarrow> int" where
  "wrap64 n = (n + 2 ^ 63) mod 2 ^ 64 - 2 ^ 63"

lemma wrap64_in [simp]: "in_int64 (wrap64 n)"
proof -
  have "0 \<le> (n + 2 ^ 63) mod 2 ^ 64" "(n + 2 ^ 63) mod 2 ^ 64 < 2 ^ 64"
    by simp_all
  then show ?thesis by (simp add: in_int64_def wrap64_def)
qed

lemma wrap64_id: "in_int64 n \<Longrightarrow> wrap64 n = n"
proof -
  assume "in_int64 n"
  then have "0 \<le> n + 2 ^ 63" "n + 2 ^ 63 < 2 ^ 64" by (auto simp: in_int64_def)
  then have "(n + 2 ^ 63) mod 2 ^ 64 = n + 2 ^ 63" by (rule mod_pos_pos_trivial)
  then show ?thesis by (simp add: wrap64_def)
qed

subsection \<open>strings.Cut, strings.SplitN, strings.HasPrefix\<close>

text \<open>\<open>strings.Cut(s, sep)\<close> for a one-byte separator: before, after, found.\<close>

fun cut :: "char \<Rightarrow> string \<Rightarrow> string \<times> string \<times> bool" where
  "cut c [] = ([], [], False)"
| "cut c (x # xs) =
     (if x = c then ([], xs, True)
      else (case cut c xs of (a, b, f) \<Rightarrow> (x # a, b, f)))"

text \<open>\<open>strings.SplitN(s, sep, 2)\<close>.\<close>

definition splitN2 :: "char \<Rightarrow> string \<Rightarrow> string list" where
  "splitN2 c s = (case cut c s of (a, b, f) \<Rightarrow> if f then [a, b] else [s])"

text \<open>\<open>strings.Split(s, sep)\<close> for a one-byte separator.\<close>

fun split_on :: "char \<Rightarrow> string \<Rightarrow> string list" where
  "split_on c [] = [[]]"
| "split_on c (x # xs) =
     (if x = c then [] # split_on c xs
      else (case split_on c xs of [] \<Rightarrow> [[x]] | p # ps \<Rightarrow> (x # p) # ps))"

definition has_prefix :: "string \<Rightarrow> string \<Rightarrow> bool" where
  "has_prefix s p \<longleftrightarrow> take (length p) s = p"

definition trim_prefix :: "string \<Rightarrow> string \<Rightarrow> string" where
  "trim_prefix s p = (if has_prefix s p then drop (length p) s else s)"

definition is_space :: "char \<Rightarrow> bool" where
  "is_space c \<longleftrightarrow> of_char c \<in> {9, 10, 11, 12, 13, 32 :: nat}"

definition trim_left :: "(char \<Rightarrow> bool) \<Rightarrow> string \<Rightarrow> string" where
  "trim_left P s = dropWhile P s"

definition trim_both :: "(char \<Rightarrow> bool) \<Rightarrow> string \<Rightarrow> string" where
  "trim_both P s = rev (dropWhile P (rev (dropWhile P s)))"

definition trim_space :: "string \<Rightarrow> string" where
  "trim_space s = trim_both is_space s"

lemma cut_append [simp]: "c \<notin> set a \<Longrightarrow> cut c (a @ c # b) = (a, b, True)"
  by (induction a) auto

lemma cut_notin: "c \<notin> set s \<Longrightarrow> cut c s = (s, [], False)"
  by (induction s) auto

lemma cut_found: "cut c s = (a, b, True) \<Longrightarrow> s = a @ c # b \<and> c \<notin> set a"
  by (induction s arbitrary: a) (auto split: if_splits prod.splits)

lemma cut_not_found: "cut c s = (a, b, False) \<Longrightarrow> a = s \<and> b = [] \<and> c \<notin> set s"
  by (induction s arbitrary: a) (auto split: if_splits prod.splits)

lemma splitN2_two: "splitN2 c s = [a, b] \<longleftrightarrow> s = a @ c # b \<and> c \<notin> set a"
proof
  assume *: "splitN2 c s = [a, b]"
  obtain x y f where xyf: "cut c s = (x, y, f)" by (cases "cut c s") auto
  with * have "f" "x = a" "y = b" by (auto simp: splitN2_def split: if_splits)
  with xyf cut_found [of c s a b] show "s = a @ c # b \<and> c \<notin> set a" by simp
next
  assume "s = a @ c # b \<and> c \<notin> set a"
  then show "splitN2 c s = [a, b]" by (simp add: splitN2_def)
qed

lemma has_prefix_append [simp]: "has_prefix (p @ s) p"
  by (simp add: has_prefix_def)

lemma trim_prefix_append [simp]: "trim_prefix (p @ s) p = s"
  by (simp add: trim_prefix_def)

subsection \<open>Decimal numbers\<close>

definition digit_char :: "nat \<Rightarrow> char" where
  "digit_char d = char_of (48 + d)"

definition is_digit :: "char \<Rightarrow> bool" where
  "is_digit c \<longleftrightarrow> 48 \<le> (of_char c :: nat) \<and> (of_char c :: nat) \<le> 57"

definition digit_val :: "char \<Rightarrow> nat" where
  "digit_val c = of_char c - 48"

fun string_of_nat :: "nat \<Rightarrow> string" where
  "string_of_nat n =
     (if n < 10 then [digit_char n] else string_of_nat (n div 10) @ [digit_char (n mod 10)])"

declare string_of_nat.simps [simp del]

text \<open>\<open>strconv.FormatInt(n, 10)\<close> and the verb \<open>%d\<close>.\<close>

definition string_of_int :: "int \<Rightarrow> string" where
  "string_of_int n =
     (if n < 0 then CHR ''-'' # string_of_nat (nat (- n)) else string_of_nat (nat n))"

definition nat_of_digits :: "string \<Rightarrow> nat" where
  "nat_of_digits s = foldl (\<lambda>n c. 10 * n + digit_val c) 0 s"

text \<open>
  \<open>strconv.ParseInt(s, 10, 64)\<close>: an optional sign, at least one digit, nothing else, and a value
  in range; \<open>None\<close> for every error.
\<close>

definition parse_unsigned :: "string \<Rightarrow> nat option" where
  "parse_unsigned s = (if s \<noteq> [] \<and> list_all is_digit s then Some (nat_of_digits s) else None)"

definition ParseInt :: "string \<Rightarrow> int option" where
  "ParseInt s =
     (case s of
        [] \<Rightarrow> None
      | c # cs \<Rightarrow>
          (let neg = (c = CHR ''-''); ds = (if c = CHR ''-'' \<or> c = CHR ''+'' then cs else s)
           in case parse_unsigned ds of
                None \<Rightarrow> None
              | Some n \<Rightarrow>
                  (let v = (if neg then - int n else int n) in if in_int64 v then Some v else None)))"

lemma is_digit_char: "d < 10 \<Longrightarrow> is_digit (digit_char d)"
  by (simp add: is_digit_def digit_char_def of_char_of)

lemma digit_val_char: "d < 10 \<Longrightarrow> digit_val (digit_char d) = d"
  by (simp add: digit_val_def digit_char_def of_char_of)

lemma string_of_nat_not_Nil [simp]: "string_of_nat n \<noteq> []"
  by (subst string_of_nat.simps) simp

lemma string_of_nat_digits: "list_all is_digit (string_of_nat n)"
proof (induction n rule: string_of_nat.induct)
  case (1 n)
  then show ?case by (subst string_of_nat.simps) (simp add: is_digit_char)
qed

lemma nat_of_digits_snoc: "nat_of_digits (s @ [c]) = 10 * nat_of_digits s + digit_val c"
  by (simp add: nat_of_digits_def)

lemma nat_of_digits_string [simp]: "nat_of_digits (string_of_nat n) = n"
proof (induction n rule: string_of_nat.induct)
  case (1 n)
  show ?case
  proof (cases "n < 10")
    case True
    then show ?thesis
      by (subst string_of_nat.simps) (simp add: nat_of_digits_def digit_val_char)
  next
    case False
    then show ?thesis
      by (subst string_of_nat.simps) (simp add: nat_of_digits_snoc digit_val_char 1)
  qed
qed

lemma parse_unsigned_string [simp]: "parse_unsigned (string_of_nat n) = Some n"
  by (simp add: parse_unsigned_def string_of_nat_digits)

lemma is_digit_sign: "is_digit c \<Longrightarrow> c \<noteq> CHR ''-'' \<and> c \<noteq> CHR ''+''"
  by (auto simp: is_digit_def)

lemma string_of_nat_Cons:
  assumes "string_of_nat n = c # cs"
  shows "is_digit c"
  using string_of_nat_digits [of n] assms by simp

lemma ParseInt_string_of_int: "in_int64 n \<Longrightarrow> ParseInt (string_of_int n) = Some n"
proof (cases "n < 0")
  case True
  then show "in_int64 n \<Longrightarrow> ?thesis"
    by (simp add: ParseInt_def string_of_int_def)
next
  case False
  obtain c cs where s: "string_of_nat (nat n) = c # cs"
    by (cases "string_of_nat (nat n)") auto
  with False is_digit_sign [OF string_of_nat_Cons [OF s]]
  show "in_int64 n \<Longrightarrow> ?thesis"
    using parse_unsigned_string [of "nat n"]
    by (simp add: ParseInt_def string_of_int_def)
qed

subsection \<open>fmt.Sscanf with %d\<close>

text \<open>
  \<open>%d\<close> skips spaces and tabs (a newline is an error), takes an optional sign and the longest run of
  digits, and fails when there is no digit or the value is not an \<open>int64\<close>. A literal byte of the
  format must be the next byte of the input. What follows the last verb is not looked at.
\<close>

fun skip_blank :: "string \<Rightarrow> string option" where
  "skip_blank [] = Some []"
| "skip_blank (c # cs) =
     (if c = char_of (10 :: nat) then None
      else if c = char_of (13 :: nat) \<and> cs \<noteq> [] \<and> hd cs = char_of (10 :: nat) then None
      else if is_space c then skip_blank cs else Some (c # cs))"

definition scan_int :: "string \<Rightarrow> (int \<times> string) option" where
  "scan_int s =
     (case skip_blank s of
        None \<Rightarrow> None
      | Some t \<Rightarrow>
          (let sgn = takeWhile (\<lambda>c. c = CHR ''-'' \<or> c = CHR ''+'') (take 1 t);
               rest = drop (length sgn) t;
               ds = takeWhile is_digit rest
           in if ds = [] then None
              else (case ParseInt (sgn @ ds) of
                      None \<Rightarrow> None
                    | Some v \<Rightarrow> Some (v, dropWhile is_digit rest))))"

definition scan_lit :: "char \<Rightarrow> string \<Rightarrow> string option" where
  "scan_lit c s = (case s of [] \<Rightarrow> None | x # xs \<Rightarrow> if x = c then Some xs else None)"

lemma digit_not_space: "is_digit c \<Longrightarrow> \<not> is_space c"
  by (auto simp: is_digit_def is_space_def)

lemma digit_not_nl: "is_digit c \<Longrightarrow> c \<noteq> char_of (10 :: nat) \<and> c \<noteq> char_of (13 :: nat)"
  by (auto simp: is_digit_def of_char_of)

lemma minus_not_blank:
  "CHR ''-'' \<noteq> char_of (10 :: nat)" "CHR ''-'' \<noteq> char_of (13 :: nat)" "\<not> is_space CHR ''-''"
  by code_simp+

lemma takeWhile_digits:
  assumes "list_all is_digit ds" and "rest = [] \<or> \<not> is_digit (hd rest)"
  shows "takeWhile is_digit (ds @ rest) = ds" and "dropWhile is_digit (ds @ rest) = rest"
  using assms
  by (auto simp: list_all_iff takeWhile_append dropWhile_append takeWhile_eq_Nil_iff
      dropWhile_eq_self_iff)

lemma scan_int_string:
  assumes n: "in_int64 n" and rest: "rest = [] \<or> \<not> is_digit (hd rest)"
  shows "scan_int (string_of_int n @ rest) = Some (n, rest)"
proof (cases "n < 0")
  case True
  have "ParseInt (CHR ''-'' # string_of_nat (nat (- n))) = Some n"
    using ParseInt_string_of_int [OF n] True by (simp add: string_of_int_def)
  with True show ?thesis
    by (simp add: scan_int_def string_of_int_def minus_not_blank Let_def
        takeWhile_digits [OF string_of_nat_digits rest])
next
  case False
  obtain c cs where s: "string_of_nat (nat n) = c # cs"
    by (cases "string_of_nat (nat n)") auto
  note d = string_of_nat_Cons [OF s]
  have "ParseInt (string_of_nat (nat n)) = Some n"
    using ParseInt_string_of_int [OF n] False by (simp add: string_of_int_def)
  with False s d is_digit_sign [OF d] digit_not_space [OF d] digit_not_nl [OF d] show ?thesis
    using takeWhile_digits [OF string_of_nat_digits rest, of "nat n"]
    by (simp add: scan_int_def string_of_int_def Let_def)
qed

subsection \<open>base64\<close>

text \<open>
  \<open>base64.RawURLEncoding\<close> and \<open>RawStdEncoding\<close>: 6-bit groups, no padding. The two differ in the
  last two letters of the alphabet.
\<close>

definition b64_alphabet :: "bool \<Rightarrow> string" where
  "b64_alphabet url =
     ''ABCDEFGHIJKLMNOPQRSTUVWXYZabcdefghijklmnopqrstuvwxyz0123456789'' @
     (if url then ''-_'' else ''+/'')"

definition b64_char :: "bool \<Rightarrow> nat \<Rightarrow> char" where
  "b64_char url i = b64_alphabet url ! (i mod 64)"

fun b64_encode :: "bool \<Rightarrow> string \<Rightarrow> string" where
  "b64_encode u [] = []"
| "b64_encode u [a] = (let x = of_char a in [b64_char u (x div 4), b64_char u (x mod 4 * 16)])"
| "b64_encode u [a, b] =
     (let x = of_char a; y = of_char b
      in [b64_char u (x div 4), b64_char u (x mod 4 * 16 + y div 16), b64_char u (y mod 16 * 4)])"
| "b64_encode u (a # b # c # cs) =
     (let x = of_char a; y = of_char b; z = of_char c
      in b64_char u (x div 4) # b64_char u (x mod 4 * 16 + y div 16) #
         b64_char u (y mod 16 * 4 + z div 64) # b64_char u (z mod 64) # b64_encode u cs)"

definition RawURLEncoding :: "string \<Rightarrow> string" where
  "RawURLEncoding bs = b64_encode True bs"

definition RawStdEncoding :: "string \<Rightarrow> string" where
  "RawStdEncoding bs = b64_encode False bs"

lemma b64_encode_example: "b64_encode True ''hello'' = ''aGVsbG8''"
  by code_simp

end
