(* ===== verification/Go_Json.thy ===== *)
theory Go_Json
  imports Go_Strings
begin

text \<open>
  JSON values as \<open>encoding/json\<close> sees them. A \<open>json.RawMessage\<close> is a \<open>raw\<close>: \<open>None\<close> is the nil
  slice, \<open>Some v\<close> the bytes of the value \<open>v\<close> (objects keep their members in order, duplicates
  included). The decoders follow \<open>json.Unmarshal\<close>: a member goes to the struct field whose name it
  equals up to case folding, a later member overwrites an earlier one, \<open>null\<close> leaves a scalar
  field as it is, and a member of another type is an error that is reported after the remaining
  members have been decoded. An integer literal is \<open>JNum\<close>, one with a fraction or an exponent
  \<open>JFloat\<close>, which no integer field accepts.
\<close>

datatype json =
    JNull
  | JBool bool
  | JNum int
  | JFloat string
  | JStr string
  | JArr "json list"
  | JObj "(string \<times> json) list"

type_synonym raw = "json option"
type_synonym 'a decoded = "go_error + 'a"

subsection \<open>Members and field names\<close>

text \<open>
  \<open>foldName\<close>: ASCII letters are matched without case, and the two letters outside ASCII that fold
  into it (the long s, C5 BF, and the Kelvin sign, E2 84 AA).
\<close>

definition upper :: "char \<Rightarrow> char" where
  "upper c = (let n = of_char c :: nat in if 97 \<le> n \<and> n \<le> 122 then char_of (n - 32) else c)"

fun fold_name :: "string \<Rightarrow> string" where
  "fold_name (a # b # c # cs) =
     (if (of_char a :: nat) = 226 \<and> (of_char b :: nat) = 132 \<and> (of_char c :: nat) = 170
      then CHR ''K'' # fold_name cs
      else if (of_char a :: nat) = 197 \<and> (of_char b :: nat) = 191
      then CHR ''S'' # fold_name (c # cs)
      else upper a # fold_name (b # c # cs))"
| "fold_name [a, b] =
     (if (of_char a :: nat) = 197 \<and> (of_char b :: nat) = 191 then [CHR ''S''] else [upper a, upper b])"
| "fold_name [a] = [upper a]"
| "fold_name [] = []"

text \<open>The values a struct field is decoded from, in the order of the members.\<close>

definition field_vals :: "string \<Rightarrow> (string \<times> json) list \<Rightarrow> json list" where
  "field_vals name ms = map snd (filter (\<lambda>m. fold_name (fst m) = fold_name name) ms)"

text \<open>A lookup in a decoded \<open>map[string]T\<close> or in a \<open>JSONB\<close> object: the last duplicate counts.\<close>

definition member :: "string \<Rightarrow> (string \<times> json) list \<Rightarrow> json option" where
  "member k ms = map_of (rev ms) k"

subsection \<open>Decoding a struct field\<close>

text \<open>
  Each decoder folds over the values of its field, starting from the field's zero value, and says
  whether a type error occurred.
\<close>

definition dec_string :: "json list \<Rightarrow> string \<times> bool" where
  "dec_string vs =
     foldl (\<lambda>(s, bad) v. case v of JNull \<Rightarrow> (s, bad) | JStr t \<Rightarrow> (t, bad) | _ \<Rightarrow> (s, True)) ('''', False) vs"

definition dec_string_ptr :: "json list \<Rightarrow> string option \<times> bool" where
  "dec_string_ptr vs =
     foldl (\<lambda>(s, bad) v. case v of JNull \<Rightarrow> (None, bad) | JStr t \<Rightarrow> (Some t, bad)
                                 | _ \<Rightarrow> (Some (case s of None \<Rightarrow> '''' | Some t \<Rightarrow> t), True)) (None, False) vs"

definition dec_bool :: "json list \<Rightarrow> bool \<times> bool" where
  "dec_bool vs =
     foldl (\<lambda>(s, bad) v. case v of JNull \<Rightarrow> (s, bad) | JBool t \<Rightarrow> (t, bad) | _ \<Rightarrow> (s, True)) (False, False) vs"

definition dec_int64 :: "json list \<Rightarrow> int \<times> bool" where
  "dec_int64 vs =
     foldl (\<lambda>(i, bad) v. case v of JNull \<Rightarrow> (i, bad)
                                 | JNum n \<Rightarrow> if in_int64 n then (n, bad) else (i, True)
                                 | _ \<Rightarrow> (i, True)) (0, False) vs"

definition dec_raw :: "json list \<Rightarrow> raw" where
  "dec_raw vs = (if vs = [] then None else Some (last vs))"

text \<open>One element of a \<open>map[string]int64\<close>: a fresh zero value is decoded into.\<close>

definition dec_elem_int64 :: "json \<Rightarrow> int \<times> bool" where
  "dec_elem_int64 v = dec_int64 [v]"

definition dec_map_int64 :: "json list \<Rightarrow> (string \<times> int) list \<times> bool" where
  "dec_map_int64 vs =
     foldl (\<lambda>(m, bad) v. case v of
         JNull \<Rightarrow> ([], bad)
       | JObj ms \<Rightarrow>
           foldl (\<lambda>(m, bad) (k, e). (AList.update k (fst (dec_elem_int64 e)) m,
                                     bad \<or> snd (dec_elem_int64 e))) (m, bad) ms
       | _ \<Rightarrow> (m, True)) ([], False) vs"

definition dec_strings :: "json list \<Rightarrow> string list \<times> bool" where
  "dec_strings vs =
     foldl (\<lambda>(xs, bad) v. case v of
         JNull \<Rightarrow> ([], bad)
       | JArr es \<Rightarrow> (map (\<lambda>e. fst (dec_string [e])) es, bad \<or> list_ex (\<lambda>e. snd (dec_string [e])) es)
       | _ \<Rightarrow> (xs, True)) ([], False) vs"

definition dec_map_raw :: "json list \<Rightarrow> (string \<times> json) list \<times> bool" where
  "dec_map_raw vs =
     foldl (\<lambda>(m, bad) v. case v of
         JNull \<Rightarrow> ([], bad)
       | JObj ms \<Rightarrow> (foldl (\<lambda>m (k, e). AList.update k e m) m ms, bad)
       | _ \<Rightarrow> (m, True)) ([], False) vs"

text \<open>The members a struct is decoded from: \<open>null\<close> is accepted and changes nothing.\<close>

definition struct_members :: "raw \<Rightarrow> (string \<times> json) list decoded" where
  "struct_members r = (case r of
       None \<Rightarrow> Inl (JsonError ''unexpected end of JSON input'')
     | Some JNull \<Rightarrow> Inr []
     | Some (JObj ms) \<Rightarrow> Inr ms
     | Some _ \<Rightarrow> Inl (JsonError ''cannot unmarshal value into Go struct''))"

definition type_error :: "go_error" where
  "type_error = JsonError ''cannot unmarshal value into Go struct field''"

subsection \<open>Decoding into an interface, and encoding\<close>

text \<open>
  Members of a \<open>map[string]any\<close>: the last duplicate wins, and \<open>json.Marshal\<close> writes the keys in
  byte order.
\<close>

definition dedup_members :: "(string \<times> json) list \<Rightarrow> (string \<times> json) list" where
  "dedup_members ms = foldl (\<lambda>acc (k, v). AList.update k v acc) [] ms"

definition sort_members :: "(string \<times> json) list \<Rightarrow> (string \<times> json) list" where
  "sort_members ms = sort_key fst (dedup_members ms)"

text \<open>
  An integer literal decoded into \<open>any\<close> becomes a \<open>float64\<close>: exact up to \<open>2 ^ 53\<close>, rounded to
  the nearest multiple of a power of two (ties to even) beyond.
\<close>

function round53 :: "int \<Rightarrow> int \<Rightarrow> int" where
  "round53 p n =
     (if p \<le> 0 \<or> \<bar>n\<bar> \<le> 2 ^ 53 * p then
        (if p \<le> 1 then n
         else let q = n div p; r = n mod p
              in p * (if 2 * r < p then q else if 2 * r > p then q + 1 else if even q then q else q + 1))
      else round53 (2 * p) n)"
  by pat_completeness auto
termination
proof (relation "measure (\<lambda>(p, n). nat (\<bar>n\<bar> + 1 - p))")
  show "wf (measure (\<lambda>(p :: int, n :: int). nat (\<bar>n\<bar> + 1 - p)))" by simp
next
  fix p n :: int
  assume "\<not> (p \<le> 0 \<or> \<bar>n\<bar> \<le> 2 ^ 53 * p)"
  then have "0 < p" "2 ^ 53 * p < \<bar>n\<bar>" by auto
  moreover from \<open>0 < p\<close> have "2 * p \<le> 2 ^ 53 * p" by simp
  ultimately show "((2 * p, n), (p, n)) \<in> measure (\<lambda>(p, n). nat (\<bar>n\<bar> + 1 - p))" by auto
qed

declare round53.simps [simp del]

definition float64_of_int :: "int \<Rightarrow> int" where
  "float64_of_int n = round53 1 n"

lemma float64_exact: "\<bar>n\<bar> \<le> 2 ^ 53 \<Longrightarrow> float64_of_int n = n"
  by (simp add: float64_of_int_def round53.simps)

fun any_of_json :: "json \<Rightarrow> json" where
  "any_of_json (JObj ms) = JObj (sort_members (map (\<lambda>m. (fst m, any_of_json (snd m))) ms))"
| "any_of_json (JArr es) = JArr (map any_of_json es)"
| "any_of_json (JNum n) = JNum (float64_of_int n)"
| "any_of_json v = v"

text \<open>
  A Go map of interfaces as a value: \<open>JNull\<close> for the nil map, else an object with its members in any
  order; \<open>marshal_any\<close> is the value \<open>json.Marshal\<close> writes for it.
\<close>

fun marshal_any :: "json \<Rightarrow> json" where
  "marshal_any (JObj ms) = JObj (sort_members (map (\<lambda>m. (fst m, marshal_any (snd m))) ms))"
| "marshal_any (JArr es) = JArr (map marshal_any es)"
| "marshal_any v = v"

text \<open>
  A JSON text: \<open>json.Marshal\<close> escapes control bytes, quotes and the HTML specials and writes no
  blanks; a \<open>JSONB\<close> value printed by the database has a blank after each separator.
\<close>

definition hex_char :: "nat \<Rightarrow> char" where
  "hex_char d = (''0123456789abcdef'' ! (d mod 16))"

fun escape_bytes :: "bool \<Rightarrow> string \<Rightarrow> string" where
  "escape_bytes html [] = []"
| "escape_bytes html (c # cs) =
     (let n = of_char c :: nat; bs = char_of (92 :: nat) in
      if n = 34 \<or> n = 92 then bs # c # escape_bytes html cs
      else if n = 8 then bs # CHR ''b'' # escape_bytes html cs
      else if n = 12 then bs # CHR ''f'' # escape_bytes html cs
      else if n = 10 then bs # CHR ''n'' # escape_bytes html cs
      else if n = 13 then bs # CHR ''r'' # escape_bytes html cs
      else if n = 9 then bs # CHR ''t'' # escape_bytes html cs
      else if n < 32 \<or> html \<and> (n = 60 \<or> n = 62 \<or> n = 38) then
        bs # ''u00'' @ hex_char (n div 16) # hex_char n # escape_bytes html cs
      else if html \<and> n = 226 \<and> length cs \<ge> 2 \<and> (of_char (cs ! 0) :: nat) = 128 \<and>
              ((of_char (cs ! 1) :: nat) = 168 \<or> (of_char (cs ! 1) :: nat) = 169) then
        bs # ''u202'' @ hex_char (of_char (cs ! 1)) # escape_bytes html (drop 2 cs)
      else c # escape_bytes html cs)"

definition quote_string :: "bool \<Rightarrow> string \<Rightarrow> string" where
  "quote_string html s = char_of (34 :: nat) # escape_bytes html s @ [char_of (34 :: nat)]"

fun sep_concat :: "string \<Rightarrow> string list \<Rightarrow> string" where
  "sep_concat c [] = []"
| "sep_concat c [x] = x"
| "sep_concat c (x # y # xs) = x @ c @ sep_concat c (y # xs)"

fun json_text :: "bool \<Rightarrow> string \<Rightarrow> json \<Rightarrow> string" where
  "json_text html sp JNull = ''null''"
| "json_text html sp (JBool b) = (if b then ''true'' else ''false'')"
| "json_text html sp (JNum n) = string_of_int n"
| "json_text html sp (JFloat s) = s"
| "json_text html sp (JStr s) = quote_string html s"
| "json_text html sp (JArr es) =
     ''['' @ sep_concat (CHR '','' # sp) (map (json_text html sp) es) @ '']''"
| "json_text html sp (JObj ms) =
     ''{'' @ sep_concat (CHR '','' # sp)
       (map (\<lambda>m. quote_string html (fst m) @ CHR '':'' # sp @ json_text html sp (snd m)) ms) @ ''}''"

definition json_Marshal :: "json \<Rightarrow> string" where
  "json_Marshal v = json_text True '''' v"

definition jsonb_out :: "json \<Rightarrow> string" where
  "jsonb_out v = json_text False '' '' v"

text \<open>A nil \<open>RawMessage\<close> is written as \<open>null\<close>.\<close>

definition raw_json :: "raw \<Rightarrow> json" where
  "raw_json r = (case r of None \<Rightarrow> JNull | Some v \<Rightarrow> v)"

subsection \<open>JSONB\<close>

text \<open>
  A \<open>JSONB\<close> column stores an object with one member per key (the last one), ordered by key length,
  then by bytes.
\<close>

definition jsonb_members :: "(string \<times> json) list \<Rightarrow> (string \<times> json) list" where
  "jsonb_members ms = sort_key (\<lambda>m. length (fst m)) (sort_members ms)"

fun jsonb :: "json \<Rightarrow> json" where
  "jsonb (JObj ms) = JObj (jsonb_members (map (\<lambda>m. (fst m, jsonb (snd m))) ms))"
| "jsonb (JArr es) = JArr (map jsonb es)"
| "jsonb v = v"

text \<open>\<open>content->>'key'\<close>: the member as text; \<open>NULL\<close> when there is none or it is \<open>null\<close>.\<close>

definition jsonb_text :: "json \<Rightarrow> string \<Rightarrow> string option" where
  "jsonb_text v k = (case v of
       JObj ms \<Rightarrow> (case member k ms of None \<Rightarrow> None
                  | Some JNull \<Rightarrow> None
                  | Some (JStr s) \<Rightarrow> Some s
                  | Some x \<Rightarrow> Some (jsonb_out x))
     | _ \<Rightarrow> None)"

subsection \<open>Facts\<close>

lemma map_of_foldl_update:
  "map_of (foldl (\<lambda>acc (k, v). AList.update k v acc) acc ms) k =
     (case map_of (rev ms) k of None \<Rightarrow> map_of acc k | Some v \<Rightarrow> Some v)"
proof (induction ms arbitrary: acc)
  case Nil
  then show ?case by simp
next
  case (Cons m ms)
  obtain a b where m: "m = (a, b)" by (cases m)
  show ?case
    by (auto simp: m Cons.IH update_conv' map_add_def split: option.splits)
qed

lemma member_dedup: "map_of (dedup_members ms) k = member k ms"
  by (simp add: dedup_members_def member_def map_of_foldl_update split: option.splits)

lemma distinct_foldl_update:
  "distinct (map fst acc) \<Longrightarrow>
     distinct (map fst (foldl (\<lambda>acc (k, v). AList.update k v acc) acc ms))"
proof (induction ms arbitrary: acc)
  case (Cons m ms)
  then show ?case by (cases m) (simp add: distinct_update)
qed simp

lemma distinct_dedup: "distinct (map fst (dedup_members ms))"
  by (simp add: dedup_members_def distinct_foldl_update)

lemma distinct_map_sort_key: "distinct (map f (sort_key g xs)) = distinct (map f xs)"
proof -
  have "mset (map f (sort_key g xs)) = mset (map f xs)" by simp
  then show ?thesis using mset_eq_imp_distinct_iff by blast
qed

lemma member_distinct: "distinct (map fst ms) \<Longrightarrow> member k ms = map_of ms k"
  using map_of_inject_set [of "rev ms" ms] by (simp add: member_def rev_map [symmetric])

lemma member_sort_members: "member k (sort_members ms) = member k ms"
proof -
  have d: "distinct (map fst (sort_members ms))"
    by (simp add: sort_members_def distinct_map_sort_key distinct_dedup)
  have "map_of (sort_members ms) = map_of (dedup_members ms)"
    using d distinct_dedup [of ms]
    by (intro map_of_inject_set [THEN iffD2]) (simp_all add: sort_members_def)
  then show ?thesis using d by (simp add: member_distinct member_dedup)
qed

end
