(* ===== verification/Domain.thy ===== *)
theory Domain
  imports Go_Json
begin

text \<open>
  The data of \<^verbatim>\<open>internal/domain\<close>: the event, the room, the state tuple of state resolution and
  the sync token with its textual form. Record fields carry the prefix of their struct.
\<close>

subsection \<open>sync\_token.go\<close>

record SyncToken =
  TimelinePosition :: int
  PresencePosition :: int
  ReceiptPosition :: int
  ToDevicePosition :: int

definition zeroToken :: "SyncToken" where
  "zeroToken = \<lparr>TimelinePosition = 0, PresencePosition = 0, ReceiptPosition = 0, ToDevicePosition = 0\<rparr>"

definition Encode :: "SyncToken \<Rightarrow> string" where
  "Encode t =
     CHR ''s'' # string_of_int (TimelinePosition t) @ CHR ''_'' # string_of_int (PresencePosition t)
       @ CHR ''_'' # string_of_int (ReceiptPosition t) @ CHR ''_'' # string_of_int (ToDevicePosition t)"

text \<open>\<open>fmt.Sscanf(t, "s%d_%d_%d_%d", ...)\<close>: \<open>None\<close> when any of the seven items fails to match.\<close>

definition scanToken :: "string \<Rightarrow> SyncToken option" where
  "scanToken t =
     Option.bind (scan_lit CHR ''s'' t) (\<lambda>r0.
     Option.bind (scan_int r0) (\<lambda>(a, r1).
     Option.bind (scan_lit CHR ''_'' r1) (\<lambda>r2.
     Option.bind (scan_int r2) (\<lambda>(b, r3).
     Option.bind (scan_lit CHR ''_'' r3) (\<lambda>r4.
     Option.bind (scan_int r4) (\<lambda>(c, r5).
     Option.bind (scan_lit CHR ''_'' r5) (\<lambda>r6.
     Option.bind (scan_int r6) (\<lambda>(d, _).
       Some \<lparr>TimelinePosition = a, PresencePosition = b, ReceiptPosition = c, ToDevicePosition = d\<rparr>))))))))"

definition ParseToken :: "string \<Rightarrow> SyncToken" where
  "ParseToken t = (case scanToken t of None \<Rightarrow> zeroToken | Some token \<Rightarrow> token)"

definition SyncToken_MarshalJSON :: "SyncToken \<Rightarrow> json" where
  "SyncToken_MarshalJSON t = JStr (Encode t)"

definition SyncToken_UnmarshalJSON :: "json \<Rightarrow> SyncToken decoded" where
  "SyncToken_UnmarshalJSON v = (case v of
       JStr s \<Rightarrow> Inr (ParseToken s)
     | JNull \<Rightarrow> Inr (ParseToken '''')
     | _ \<Rightarrow> Inl type_error)"

text \<open>The positions are \<open>int64\<close> variables.\<close>

definition token_ok :: "SyncToken \<Rightarrow> bool" where
  "token_ok t \<longleftrightarrow> in_int64 (TimelinePosition t) \<and> in_int64 (PresencePosition t) \<and>
     in_int64 (ReceiptPosition t) \<and> in_int64 (ToDevicePosition t)"

subsection \<open>evento.go\<close>

record evento =
  ev_ID :: string
  ev_Tipo :: string
  ev_Content :: raw
  ev_CanalID :: string
  ev_Sender :: string
  ev_OrigemServidorTS :: int
  ev_StreamOrdering :: int
  ev_StateKey :: "string option"
  ev_Redacts :: string
  ev_PrevEventos :: "string list"
  ev_AuthEventos :: "string list"
  ev_Depth :: int
  ev_Hashes :: raw
  ev_Signatures :: raw
  ev_Unsigned :: raw

definition zeroEvento :: "evento" where
  "zeroEvento =
     \<lparr>ev_ID = '''', ev_Tipo = '''', ev_Content = None, ev_CanalID = '''', ev_Sender = '''',
      ev_OrigemServidorTS = 0, ev_StreamOrdering = 0, ev_StateKey = None, ev_Redacts = '''',
      ev_PrevEventos = [], ev_AuthEventos = [], ev_Depth = 0, ev_Hashes = None,
      ev_Signatures = None, ev_Unsigned = None\<rparr>"

record StrippedEvento =
  se_Tipo :: string
  se_Content :: raw
  se_StateKey :: "string option"
  se_Sender :: string

text \<open>\<open>json.Marshal(event)\<close>: the struct tags, with \<open>omitempty\<close>.\<close>

definition omitempty :: "bool \<Rightarrow> string \<Rightarrow> json \<Rightarrow> (string \<times> json) list" where
  "omitempty zero name v = (if zero then [] else [(name, v)])"

definition evento_members :: "evento \<Rightarrow> (string \<times> json) list" where
  "evento_members ev =
     [(''event_id'', JStr (ev_ID ev)),
      (''type'', JStr (ev_Tipo ev)),
      (''content'', raw_json (ev_Content ev)),
      (''room_id'', JStr (ev_CanalID ev)),
      (''sender'', JStr (ev_Sender ev)),
      (''origin_server_ts'', JNum (ev_OrigemServidorTS ev))] @
     (case ev_StateKey ev of None \<Rightarrow> [] | Some k \<Rightarrow> [(''state_key'', JStr k)]) @
     omitempty (ev_Redacts ev = '''') ''redacts'' (JStr (ev_Redacts ev)) @
     omitempty (ev_PrevEventos ev = []) ''prev_events'' (JArr (map JStr (ev_PrevEventos ev))) @
     omitempty (ev_AuthEventos ev = []) ''auth_events'' (JArr (map JStr (ev_AuthEventos ev))) @
     omitempty (ev_Depth ev = 0) ''depth'' (JNum (ev_Depth ev)) @
     omitempty (ev_Hashes ev = None) ''hashes'' (raw_json (ev_Hashes ev)) @
     omitempty (ev_Signatures ev = None) ''signatures'' (raw_json (ev_Signatures ev)) @
     omitempty (ev_Unsigned ev = None) ''unsigned'' (raw_json (ev_Unsigned ev))"

definition evento_json :: "evento \<Rightarrow> json" where
  "evento_json ev = JObj (evento_members ev)"

text \<open>\<open>json.Unmarshal(data, &event)\<close> into a zero event.\<close>

definition evento_of_json :: "raw \<Rightarrow> evento decoded" where
  "evento_of_json r = (case struct_members r of
       Inl e \<Rightarrow> Inl e
     | Inr ms \<Rightarrow>
         (let f = (\<lambda>name. field_vals name ms);
              bad = snd (dec_string (f ''event_id'')) \<or> snd (dec_string (f ''type'')) \<or>
                    snd (dec_string (f ''room_id'')) \<or> snd (dec_string (f ''sender'')) \<or>
                    snd (dec_int64 (f ''origin_server_ts'')) \<or> snd (dec_string_ptr (f ''state_key'')) \<or>
                    snd (dec_string (f ''redacts'')) \<or> snd (dec_strings (f ''prev_events'')) \<or>
                    snd (dec_strings (f ''auth_events'')) \<or> snd (dec_int64 (f ''depth''))
          in if bad then Inl type_error
             else Inr \<lparr>ev_ID = fst (dec_string (f ''event_id'')),
                       ev_Tipo = fst (dec_string (f ''type'')),
                       ev_Content = dec_raw (f ''content''),
                       ev_CanalID = fst (dec_string (f ''room_id'')),
                       ev_Sender = fst (dec_string (f ''sender'')),
                       ev_OrigemServidorTS = fst (dec_int64 (f ''origin_server_ts'')),
                       ev_StreamOrdering = 0,
                       ev_StateKey = fst (dec_string_ptr (f ''state_key'')),
                       ev_Redacts = fst (dec_string (f ''redacts'')),
                       ev_PrevEventos = fst (dec_strings (f ''prev_events'')),
                       ev_AuthEventos = fst (dec_strings (f ''auth_events'')),
                       ev_Depth = fst (dec_int64 (f ''depth'')),
                       ev_Hashes = dec_raw (f ''hashes''),
                       ev_Signatures = dec_raw (f ''signatures''),
                       ev_Unsigned = dec_raw (f ''unsigned'')\<rparr>))"

subsection \<open>state\_res.go\<close>

datatype StateTuple = StateTuple (st_EventType: string) (st_StateKey: string)

definition NewStateTuple :: "string \<Rightarrow> string option \<Rightarrow> StateTuple" where
  "NewStateTuple eventType stateKey =
     (let sk = (case stateKey of None \<Rightarrow> '''' | Some k \<Rightarrow> k) in StateTuple eventType sk)"

instantiation StateTuple :: linorder
begin

definition less_eq_StateTuple :: "StateTuple \<Rightarrow> StateTuple \<Rightarrow> bool" where
  "less_eq_StateTuple a b \<longleftrightarrow>
     st_EventType a < st_EventType b \<or> st_EventType a = st_EventType b \<and> st_StateKey a \<le> st_StateKey b"

definition less_StateTuple :: "StateTuple \<Rightarrow> StateTuple \<Rightarrow> bool" where
  "less_StateTuple a b \<longleftrightarrow>
     st_EventType a < st_EventType b \<or> st_EventType a = st_EventType b \<and> st_StateKey a < st_StateKey b"

instance
  by standard (auto simp: less_eq_StateTuple_def less_StateTuple_def intro: StateTuple.expand)

end

text \<open>
  A Go map is an association list with one entry per key; the order of the list stands for the
  iteration order, which the language leaves open.
\<close>

type_synonym StateMap = "(StateTuple \<times> string) list"

text \<open>The maps from event id to event; the pointers in them are never nil.\<close>

type_synonym EventsMap = "(string \<times> evento) list"

record StateResolutionInput =
  sri_RoomID :: string
  sri_StateSets :: "StateMap list"
  sri_AuthEventsMap :: EventsMap
  sri_EventsMap :: EventsMap

text \<open>\<open>maps.Copy(dst, src)\<close>.\<close>

definition maps_Copy :: "('k \<times> 'v) list \<Rightarrow> ('k \<times> 'v) list \<Rightarrow> ('k \<times> 'v) list" where
  "maps_Copy dst src = foldl (\<lambda>m (k, v). AList.update k v m) dst src"

subsection \<open>canal.go\<close>

record StateEntry =
  sen_Type :: string
  sen_StateKey :: string
  sen_IDEvento :: string

record Canal =
  ca_ID :: string
  ca_Versao :: string
  ca_Criador :: string
  ca_CreatedAt :: int
  ca_ForwardExtremeties :: "string list"
  ca_EstadoAtual :: "StateEntry list"

text \<open>\<open>(*Canal).GetStateEventID\<close>: the first matching entry.\<close>

fun find_state :: "StateEntry list \<Rightarrow> string \<Rightarrow> string \<Rightarrow> string \<times> bool" where
  "find_state [] eventType stateKey = ('''', False)"
| "find_state (st # sts) eventType stateKey =
     (if sen_Type st = eventType \<and> sen_StateKey st = stateKey then (sen_IDEvento st, True)
      else find_state sts eventType stateKey)"

definition Canal_GetStateEventID :: "Canal \<Rightarrow> string \<Rightarrow> string \<Rightarrow> string \<times> bool" where
  "Canal_GetStateEventID c eventType stateKey = find_state (ca_EstadoAtual c) eventType stateKey"

subsection \<open>Lemmas\<close>

lemma scan_lit_Cons [simp]: "scan_lit c (c # s) = Some s"
  by (simp add: scan_lit_def)

lemma underscore_not_digit [simp]: "\<not> is_digit CHR ''_''"
  by code_simp

lemma scan_int_end: "in_int64 n \<Longrightarrow> scan_int (string_of_int n) = Some (n, [])"
  using scan_int_string [of n "[]"] by simp

lemma scan_int_underscore:
  "in_int64 n \<Longrightarrow> scan_int (string_of_int n @ CHR ''_'' # s) = Some (n, CHR ''_'' # s)"
  by (simp add: scan_int_string)

lemma scanToken_Encode: "token_ok t \<Longrightarrow> scanToken (Encode t) = Some t"
  by (simp add: token_ok_def scanToken_def Encode_def scan_int_underscore scan_int_end)

lemma scan_int_in64: "scan_int s = Some (n, r) \<Longrightarrow> in_int64 n"
  by (auto simp: scan_int_def ParseInt_def Let_def split: option.splits if_splits list.splits)

lemma token_ok_ParseToken: "token_ok (ParseToken s)"
  by (auto simp: ParseToken_def scanToken_def zeroToken_def token_ok_def in_int64_def
      split: option.splits bind_splits dest!: scan_int_in64)

lemma map_of_maps_Copy:
  "map_of (maps_Copy dst src) k = (case map_of (rev src) k of None \<Rightarrow> map_of dst k | Some v \<Rightarrow> Some v)"
  by (simp add: maps_Copy_def map_of_foldl_update)

lemma distinct_maps_Copy: "distinct (map fst dst) \<Longrightarrow> distinct (map fst (maps_Copy dst src))"
  by (simp add: maps_Copy_def distinct_foldl_update)

lemma find_state_found:
  "find_state es ty k = (i, True) \<Longrightarrow>
     \<exists>e\<in>set es. sen_Type e = ty \<and> sen_StateKey e = k \<and> sen_IDEvento e = i"
  by (induction es) (auto split: if_splits)

lemma find_state_not_found:
  "find_state es ty k = (i, False) \<Longrightarrow> \<forall>e\<in>set es. \<not> (sen_Type e = ty \<and> sen_StateKey e = k)"
  by (induction es) (auto split: if_splits)

end
