(* ===== verification/Matrix_Util.thy ===== *)
theory Matrix_Util
  imports Domain
begin

text \<open>
  \<^verbatim>\<open>internal/util\<close>: server names of Matrix identifiers, event hashes, event signatures and the
  next sync token. The canonical JSON package and the cryptographic primitives are parameters,
  gathered in \<open>crypto\<close>; the JSON text they work on is given by its value.
\<close>

subsection \<open>Parameters\<close>

record crypto =
  cr_canon_Marshal :: "json \<Rightarrow> json decoded"
  cr_canon_Unmarshal :: "json \<Rightarrow> (string \<times> json) list decoded"
  cr_sha256 :: "json \<Rightarrow> string"
  cr_sign :: "string \<Rightarrow> json \<Rightarrow> string"

text \<open>The fields the services are constructed with.\<close>

record server =
  sv_crypto :: crypto
  sv_serverName :: string
  sv_keyID :: string
  sv_privateKey :: string

text \<open>
  What the hash relies on: reading a canonical text back gives a map with the same keys, each value
  a function of the value written, and the text written for a map depends on the map alone.
\<close>

definition canonicaljson_spec :: "crypto \<Rightarrow> bool" where
  "canonicaljson_spec cr \<longleftrightarrow>
     (\<exists>norm :: json \<Rightarrow> json. \<forall>ms v. cr_canon_Marshal cr (JObj ms) = Inr v \<longrightarrow>
        (\<exists>ms'. cr_canon_Unmarshal cr v = Inr ms' \<and>
               (\<forall>k. member k ms' = map_option norm (member k ms)))) \<and>
     (\<forall>ms ms'. (\<forall>k. member k ms = member k ms') \<longrightarrow>
        cr_canon_Marshal cr (JObj ms) = cr_canon_Marshal cr (JObj ms'))"

subsection \<open>matrix.go\<close>

text \<open>The 16 random bytes are an argument; \<open>rand.Read\<close> does not fail.\<close>

definition CreateRoomID :: "string \<Rightarrow> string \<Rightarrow> string" where
  "CreateRoomID bytes serverName =
     CHR ''!'' # RawURLEncoding bytes @ CHR '':'' # serverName"

definition ExtractDomainFromUserID :: "string \<Rightarrow> string" where
  "ExtractDomainFromUserID userID =
     (case splitN2 CHR '':'' userID of [_, d] \<Rightarrow> d | _ \<Rightarrow> '''')"

definition map_delete :: "string \<Rightarrow> (string \<times> json) list \<Rightarrow> (string \<times> json) list" where
  "map_delete k m = filter (\<lambda>p. fst p \<noteq> k) m"

definition CanonicalJSON :: "crypto \<Rightarrow> json \<Rightarrow> json decoded" where
  "CanonicalJSON cr obj = cr_canon_Marshal cr obj"

definition HashMatrixEvent :: "crypto \<Rightarrow> evento \<Rightarrow> string decoded" where
  "HashMatrixEvent cr event =
     (case CanonicalJSON cr (evento_json event) of
        Inl e \<Rightarrow> Inl (Wrapf ''failed to initial marshal'' e)
      | Inr rawBytes \<Rightarrow>
          (case cr_canon_Unmarshal cr rawBytes of
             Inl e \<Rightarrow> Inl (Wrapf ''failed to unmarshal to map'' e)
           | Inr eventMap \<Rightarrow>
               (let eventMap = map_delete ''unsigned'' eventMap;
                    eventMap = map_delete ''signatures'' eventMap;
                    eventMap = map_delete ''event_id'' eventMap
                in case CanonicalJSON cr (JObj eventMap) of
                     Inl e \<Rightarrow> Inl (Wrapf ''failed to encode canonical json'' e)
                   | Inr canonicalBytes \<Rightarrow>
                       Inr (CHR ''$'' # RawURLEncoding (cr_sha256 cr canonicalBytes)))))"

definition GenerateNextSinceToken :: "SyncToken \<Rightarrow> evento list \<Rightarrow> SyncToken" where
  "GenerateNextSinceToken since eventos =
     (if 0 < length eventos then since\<lparr>TimelinePosition := ev_StreamOrdering (last eventos)\<rparr> else since)"

subsection \<open>crypto.go\<close>

definition SignMatrixEvent :: "crypto \<Rightarrow> evento \<Rightarrow> string \<Rightarrow> string \<Rightarrow> string \<Rightarrow> json decoded" where
  "SignMatrixEvent cr event serverName keyID privateKey =
     (case any_of_json (evento_json event) of
        JObj eventMap \<Rightarrow>
          (let eventMap = map_delete ''signatures'' eventMap;
               eventMap = map_delete ''unsigned'' eventMap;
               eventMap = map_delete ''event_id'' eventMap;
               canonicalBytes = JObj eventMap;
               signature = cr_sign cr privateKey canonicalBytes;
               encodedSig = RawStdEncoding signature
           in Inr (JObj [(serverName, JObj [(keyID, JStr encodedSig)])]))
      | _ \<Rightarrow> Inl type_error)"

text \<open>\<open>content\<close> is \<open>None\<close> when the request has no body.\<close>

definition GenerateS2SAuthHeader ::
    "crypto \<Rightarrow> string \<Rightarrow> string \<Rightarrow> string \<Rightarrow> string \<Rightarrow> string \<Rightarrow> string \<Rightarrow> json option \<Rightarrow> string decoded" where
  "GenerateS2SAuthHeader cr serverName keyID privateKey mthd uri destination content =
     (let signObj = [(''method'', JStr mthd), (''uri'', JStr uri), (''origin'', JStr serverName),
                     (''destination'', JStr destination)];
          signObj = (case content of None \<Rightarrow> signObj | Some c \<Rightarrow> signObj @ [(''content'', c)])
      in case CanonicalJSON cr (JObj signObj) of
           Inl e \<Rightarrow> Inl e
         | Inr canonicalBytes \<Rightarrow>
             (let encodedSig = RawStdEncoding (cr_sign cr privateKey canonicalBytes); q = char_of (34 :: nat)
              in Inr (''X-Matrix origin='' @ q # serverName @ q # '',key='' @ q # keyID @ q #
                      '',sig='' @ q # encodedSig @ [q])))"

subsection \<open>fed.go\<close>

definition IsRemoteUser :: "string \<Rightarrow> string \<Rightarrow> bool" where
  "IsRemoteUser userID serverName =
     (case splitN2 CHR '':'' userID of [_, d] \<Rightarrow> d \<noteq> serverName | _ \<Rightarrow> False)"

subsection \<open>Lemmas\<close>

lemma map_delete_comm: "map_delete a (map_delete b m) = map_delete b (map_delete a m)"
  by (simp add: map_delete_def conj_commute)

text \<open>Two events that differ at most in the fields the hash leaves out.\<close>

definition same_for_hash :: "evento \<Rightarrow> evento \<Rightarrow> bool" where
  "same_for_hash a b \<longleftrightarrow>
     b = a\<lparr>ev_ID := ev_ID b, ev_StreamOrdering := ev_StreamOrdering b,
           ev_Signatures := ev_Signatures b, ev_Unsigned := ev_Unsigned b\<rparr>"

lemma member_Nil [simp]: "member k [] = None"
  by (simp add: member_def)

lemma member_append: "member k (a @ b) = (case member k b of None \<Rightarrow> member k a | Some v \<Rightarrow> Some v)"
  unfolding member_def by (simp add: map_add_def)

lemma member_Cons:
  "member k (p # b) =
     (case member k b of None \<Rightarrow> if fst p = k then Some (snd p) else None | Some v \<Rightarrow> Some v)"
  by (cases p) (auto simp: member_def map_add_def split: option.splits)

lemma member_map_delete: "member k (map_delete a m) = (if k = a then None else member k m)"
  by (induction m) (auto simp: member_Cons map_delete_def split: option.splits)

lemma member_omitempty:
  "member k (omitempty z n v) = (if \<not> z \<and> k = n then Some v else None)"
  by (simp add: omitempty_def member_Cons)

definition evento_core :: "evento \<Rightarrow> (string \<times> json) list" where
  "evento_core ev =
     [(''type'', JStr (ev_Tipo ev)),
      (''content'', raw_json (ev_Content ev)),
      (''room_id'', JStr (ev_CanalID ev)),
      (''sender'', JStr (ev_Sender ev)),
      (''origin_server_ts'', JNum (ev_OrigemServidorTS ev))] @
     (case ev_StateKey ev of None \<Rightarrow> [] | Some k \<Rightarrow> [(''state_key'', JStr k)]) @
     omitempty (ev_Redacts ev = '''') ''redacts'' (JStr (ev_Redacts ev)) @
     omitempty (ev_PrevEventos ev = []) ''prev_events'' (JArr (map JStr (ev_PrevEventos ev))) @
     omitempty (ev_AuthEventos ev = []) ''auth_events'' (JArr (map JStr (ev_AuthEventos ev))) @
     omitempty (ev_Depth ev = 0) ''depth'' (JNum (ev_Depth ev)) @
     omitempty (ev_Hashes ev = None) ''hashes'' (raw_json (ev_Hashes ev))"

lemma evento_members_core:
  "evento_members ev =
     [(''event_id'', JStr (ev_ID ev))] @ evento_core ev @
     omitempty (ev_Signatures ev = None) ''signatures'' (raw_json (ev_Signatures ev)) @
     omitempty (ev_Unsigned ev = None) ''unsigned'' (raw_json (ev_Unsigned ev))"
  by (simp add: evento_members_def evento_core_def)

lemma evento_member_same:
  assumes "same_for_hash a b" and "k \<notin> {''event_id'', ''signatures'', ''unsigned''}"
  shows "member k (evento_members a) = member k (evento_members b)"
proof -
  obtain i so s u where b: "b = a\<lparr>ev_ID := i, ev_StreamOrdering := so, ev_Signatures := s, ev_Unsigned := u\<rparr>"
    using assms(1) by (auto simp: same_for_hash_def)
  have "evento_core a = evento_core b" by (simp add: b evento_core_def)
  then show ?thesis
    using assms(2)
    by (auto simp: evento_members_core member_append member_omitempty member_Cons)
qed

lemma b64_encode_length:
  "length (b64_encode u xs) =
     4 * (length xs div 3) + (if length xs mod 3 = 0 then 0 else length xs mod 3 + 1)"
proof (induction u xs rule: b64_encode.induct)
  case (4 u a b c cs)
  have "length (a # b # c # cs) = 3 + length cs" by simp
  moreover have "(3 + length cs) div 3 = Suc (length cs div 3)" "(3 + length cs) mod 3 = length cs mod 3"
    by presburger+
  ultimately show ?case using 4 by (simp only: b64_encode.simps Let_def list.size) simp
qed (simp_all add: Let_def)

lemma HashMatrixEvent_cases:
  "HashMatrixEvent cr ev = Inr i \<Longrightarrow>
     \<exists>v ms c. cr_canon_Marshal cr (evento_json ev) = Inr v \<and> cr_canon_Unmarshal cr v = Inr ms \<and>
       cr_canon_Marshal cr (JObj (map_delete ''event_id'' (map_delete ''signatures'' (map_delete ''unsigned'' ms)))) = Inr c \<and>
       i = CHR ''$'' # RawURLEncoding (cr_sha256 cr c)"
  by (auto simp: HashMatrixEvent_def CanonicalJSON_def Let_def split: sum.splits)

end
