(* ===== verification/Tables.thy ===== *)
theory Tables
  imports Matrix_Util
begin

text \<open>
  The tables of \<^verbatim>\<open>migrations/\<close>. A table is the list of its rows in insertion order, and a \<open>SELECT\<close>
  without \<open>ORDER BY\<close> returns them in that order (one of the orders the database may choose). Primary
  keys, foreign keys and \<open>NOT NULL\<close> columns are checked by the statements of the next theories; the
  widths of \<open>VARCHAR\<close> columns are not modelled. Timestamps are milliseconds, a \<open>UUID\<close> is its canonical
  text.
\<close>

subsection \<open>Rows\<close>

record canal_row =
  cn_id :: string
  cn_versao :: string
  cn_criador :: string
  cn_created_at :: int

text \<open>\<open>Canal_Estado_Atual\<close>, \<open>Canal_Membership\<close>: primary key and columns.\<close>

record estado_row =
  es_canal :: string
  es_tipo :: string
  es_state_key :: string
  es_evento :: string

record membership_row =
  mb_canal :: string
  mb_usuario :: string
  mb_type :: string
  mb_evento :: string

record alias_row =
  al_canal :: string
  al_alias :: string
  al_evento :: string

record usuario_row =
  us_id :: string
  us_localpart :: string
  us_senha_hash :: string
  us_created_at :: int

record profile_row =
  pf_usuario :: string
  pf_nome :: string
  pf_foto :: "string option"

record account_row =
  ac_usuario :: string
  ac_canal :: string
  ac_tipo :: string
  ac_content :: json

record receipt_row =
  rr_room :: string
  rr_user :: string
  rr_event :: string
  rr_ts :: int

record typing_row =
  ty_room :: string
  ty_user :: string
  ty_is_typing :: bool
  ty_expires_at :: int

text \<open>Devices, presence, media.\<close>

record dispositivo_row =
  dv_id :: string
  dv_usuario :: string
  dv_nome :: string
  dv_refresh :: string
  dv_expires :: int
  dv_ip :: string
  dv_visto :: int

record presence_row =
  pr_usuario :: string
  pr_state :: string
  pr_msg :: "string option"
  pr_active :: int

record midia_row =
  mi_id :: string
  mi_origin :: string
  mi_ctype :: string
  mi_size :: int
  mi_name :: string
  mi_usuario :: string
  mi_created :: int

text \<open>Backups and end-to-end keys.\<close>

record versao_row =
  vb_id :: nat
  vb_usuario :: string
  vb_algorithm :: string
  vb_auth :: json
  vb_count :: int
  vb_etag :: string
  vb_created :: int

record chave_row =
  cb_versao :: nat
  cb_canal :: string
  cb_sessao :: string
  cb_first :: int
  cb_forwarded :: int
  cb_verified :: bool
  cb_data :: json

record devkeys_row =
  ck_device :: string
  ck_algorithms :: "string list"
  ck_keys :: json
  ck_signatures :: json

record otk_row =
  ot_id :: nat
  ot_device :: string
  ot_key :: string
  ot_algorithm :: string
  ot_data :: json

record fallback_row =
  fb_device :: string
  fb_algorithm :: string
  fb_key :: string
  fb_data :: json
  fb_usada :: bool

record cross_row =
  cs_usuario :: string
  cs_usage :: string
  cs_key :: string
  cs_public :: json
  cs_signatures :: json

record todevice_row =
  td_id :: nat
  td_usuario :: string
  td_device :: string
  td_sender :: string
  td_tipo :: string
  td_content :: json

record db =
  t_Evento :: "evento list"
  t_Canal :: "canal_row list"
  t_Extremidades :: "(string \<times> string) list"
  t_Estado :: "estado_row list"
  t_Membership :: "membership_row list"
  t_Alias :: "alias_row list"
  t_Usuario :: "usuario_row list"
  t_Profile :: "profile_row list"
  t_AccountData :: "account_row list"
  t_Receipts :: "receipt_row list"
  t_Typing :: "typing_row list"
  t_Dispositivo :: "dispositivo_row list"
  t_Presence :: "presence_row list"
  t_Midia :: "midia_row list"
  t_VersaoBackup :: "versao_row list"
  t_ChaveBackup :: "chave_row list"
  t_Chave_Dispositivo :: "devkeys_row list"
  t_Chave_Uso_Unico :: "otk_row list"
  t_Chave_Fallback :: "fallback_row list"
  t_Chave_Cross_Signing :: "cross_row list"
  t_Mensagem_ToDevice :: "todevice_row list"

text \<open>Sequences are outside transactions: a value taken by a failed statement is gone.\<close>

record seqs =
  sq_stream :: nat
  sq_backup :: nat
  sq_otk :: nat
  sq_todevice :: nat

definition seqs_le :: "seqs \<Rightarrow> seqs \<Rightarrow> bool" where
  "seqs_le s s' \<longleftrightarrow>
     sq_stream s \<le> sq_stream s' \<and> sq_backup s \<le> sq_backup s' \<and> sq_otk s \<le> sq_otk s' \<and> sq_todevice s \<le> sq_todevice s'"

type_synonym tables = "db \<times> seqs"

text \<open>Every \<open>BIGSERIAL\<close> column starts at 1.\<close>

definition start_seqs :: "seqs" where
  "start_seqs = \<lparr>sq_stream = 1, sq_backup = 1, sq_otk = 1, sq_todevice = 1\<rparr>"

lemma seqs_le_refl [simp]: "seqs_le s s"
  by (simp add: seqs_le_def)

lemma seqs_le_trans [trans]: "seqs_le a b \<Longrightarrow> seqs_le b c \<Longrightarrow> seqs_le a c"
  by (simp add: seqs_le_def)

lemma seqs_le_draw [simp]:
  "seqs_le s (s\<lparr>sq_stream := Suc (sq_stream s)\<rparr>)" "seqs_le s (s\<lparr>sq_backup := Suc (sq_backup s)\<rparr>)"
  "seqs_le s (s\<lparr>sq_otk := Suc (sq_otk s)\<rparr>)" "seqs_le s (s\<lparr>sq_todevice := Suc (sq_todevice s)\<rparr>)"
  by (simp_all add: seqs_le_def)

definition fk_violation :: "go_error" where
  "fk_violation = PgError ''foreign_key_violation''"

definition not_null_violation :: "go_error" where
  "not_null_violation = PgError ''not_null_violation''"

definition unique_violation :: "go_error" where
  "unique_violation = PgError ''unique_violation''"

definition evento_ids :: "db \<Rightarrow> string set" where
  "evento_ids d = ev_ID ` set (t_Evento d)"

definition canal_ids :: "db \<Rightarrow> string set" where
  "canal_ids d = cn_id ` set (t_Canal d)"

definition device_ids :: "db \<Rightarrow> string set" where
  "device_ids d = dv_id ` set (t_Dispositivo d)"

definition usuario_ids :: "db \<Rightarrow> string set" where
  "usuario_ids d = us_id ` set (t_Usuario d)"

subsection \<open>Upsert\<close>

text \<open>
  \<open>INSERT ... ON CONFLICT (key) DO UPDATE\<close>: the row with the key is rewritten, or the new row is
  added at the end.
\<close>

fun upsert_row :: "('r \<Rightarrow> bool) \<Rightarrow> ('r \<Rightarrow> 'r) \<Rightarrow> 'r \<Rightarrow> 'r list \<Rightarrow> 'r list" where
  "upsert_row P f new [] = [new]"
| "upsert_row P f new (r # rs) = (if P r then f r # rs else r # upsert_row P f new rs)"

lemma upsert_row_In:
  "r \<in> set (upsert_row P f new rs) \<Longrightarrow> r = new \<or> r \<in> set rs \<or> (\<exists>s\<in>set rs. P s \<and> r = f s)"
  by (induction rs) (auto split: if_splits)

lemma upsert_row_keys:
  assumes "\<And>r. P r \<longleftrightarrow> k r = k new" and "\<And>r. P r \<Longrightarrow> k (f r) = k r"
  shows "map k (upsert_row P f new rs) = (if k new \<in> k ` set rs then map k rs else map k rs @ [k new])"
  using assms by (induction rs) auto

lemma upsert_row_distinct:
  assumes "\<And>r. P r \<longleftrightarrow> k r = k new" and "\<And>r. P r \<Longrightarrow> k (f r) = k r" and "distinct (map k rs)"
  shows "distinct (map k (upsert_row P f new rs))"
  using assms(3) by (auto simp: upsert_row_keys [OF assms(1,2)])

text \<open>Reading by key after an upsert by key.\<close>

lemma upsert_row_find:
  assumes "\<And>r. P r \<longleftrightarrow> k r = k new" and "\<And>r. P r \<Longrightarrow> k (f r) = k r"
  shows "find (\<lambda>r. k r = x) (upsert_row P f new rs) =
    (if x = k new then Some (case find (\<lambda>r. k r = x) rs of None \<Rightarrow> new | Some r \<Rightarrow> f r)
     else find (\<lambda>r. k r = x) rs)"
  using assms by (induction rs) auto

end
