(* ===== verification/Database.thy ===== *)
theory Database
  imports Tables
begin

text \<open>
  The SQL statements on rooms, events and users as functions on the tables, and the constraints of the
  schema as a predicate.
\<close>

subsection \<open>Statements on rooms and events\<close>

definition insert_Canal :: "canal_row \<Rightarrow> db \<Rightarrow> go_error + db" where
  "insert_Canal r d =
     (if cn_id r \<in> canal_ids d then Inl unique_violation
      else Inr (d\<lparr>t_Canal := t_Canal d @ [r]\<rparr>))"

text \<open>
  \<open>INSERT INTO Evento ... ON CONFLICT (id_evento) DO NOTHING\<close>. The statement has no \<open>redacts\<close>
  column; the \<open>JSONB\<close> columns are normalised.
\<close>

definition evento_row :: "nat \<Rightarrow> evento \<Rightarrow> evento" where
  "evento_row so ev =
     ev\<lparr>ev_Content := map_option jsonb (ev_Content ev), ev_StreamOrdering := int so,
        ev_Redacts := '''', ev_Hashes := map_option jsonb (ev_Hashes ev),
        ev_Signatures := map_option jsonb (ev_Signatures ev),
        ev_Unsigned := map_option jsonb (ev_Unsigned ev)\<rparr>"

definition insert_Evento :: "nat \<Rightarrow> evento \<Rightarrow> db \<Rightarrow> go_error + db" where
  "insert_Evento so ev d =
     (if ev_Content ev = None then Inl not_null_violation
      else if ev_ID ev \<in> evento_ids d then Inr d
      else Inr (d\<lparr>t_Evento := t_Evento d @ [evento_row so ev]\<rparr>))"

definition upsert_Membership :: "string \<Rightarrow> string \<Rightarrow> string \<Rightarrow> string \<Rightarrow> db \<Rightarrow> go_error + db" where
  "upsert_Membership roomID userID membership eventID d =
     (if eventID \<notin> evento_ids d then Inl fk_violation
      else Inr (d\<lparr>t_Membership :=
        upsert_row (\<lambda>r. mb_canal r = roomID \<and> mb_usuario r = userID)
          (\<lambda>r. r\<lparr>mb_type := membership, mb_evento := eventID\<rparr>)
          \<lparr>mb_canal = roomID, mb_usuario = userID, mb_type = membership, mb_evento = eventID\<rparr>
          (t_Membership d)\<rparr>))"

definition upsert_Estado :: "string \<Rightarrow> string \<Rightarrow> string \<Rightarrow> string \<Rightarrow> db \<Rightarrow> go_error + db" where
  "upsert_Estado canalID stateType stateKey eventID d =
     (if canalID \<notin> canal_ids d \<or> eventID \<notin> evento_ids d then Inl fk_violation
      else Inr (d\<lparr>t_Estado :=
        upsert_row (\<lambda>r. es_canal r = canalID \<and> es_tipo r = stateType \<and> es_state_key r = stateKey)
          (\<lambda>r. r\<lparr>es_evento := eventID\<rparr>)
          \<lparr>es_canal = canalID, es_tipo = stateType, es_state_key = stateKey, es_evento = eventID\<rparr>
          (t_Estado d)\<rparr>))"

definition delete_Extremidades :: "string \<Rightarrow> string list \<Rightarrow> db \<Rightarrow> go_error + db" where
  "delete_Extremidades canalID events d =
     Inr (d\<lparr>t_Extremidades :=
        filter (\<lambda>r. \<not> (fst r = canalID \<and> snd r \<in> set events)) (t_Extremidades d)\<rparr>)"

definition insert_Extremidade :: "string \<Rightarrow> string \<Rightarrow> db \<Rightarrow> go_error + db" where
  "insert_Extremidade canalID eventID d =
     (if (canalID, eventID) \<in> set (t_Extremidades d) then Inr d
      else if canalID \<notin> canal_ids d \<or> eventID \<notin> evento_ids d then Inl fk_violation
      else Inr (d\<lparr>t_Extremidades := t_Extremidades d @ [(canalID, eventID)]\<rparr>))"

definition insert_Alias :: "string \<Rightarrow> string \<Rightarrow> db \<Rightarrow> go_error + db" where
  "insert_Alias roomID alias d =
     (if \<exists>r\<in>set (t_Alias d). al_canal r = roomID \<and> al_alias r = alias then Inr d
      else Inr (d\<lparr>t_Alias := t_Alias d @ [\<lparr>al_canal = roomID, al_alias = alias, al_evento = ''''\<rparr>]\<rparr>))"

text \<open>\<open>DELETE FROM Canal_Alias\<close>: whether a row was deleted.\<close>

definition delete_Alias :: "string \<Rightarrow> db \<Rightarrow> go_error + bool \<times> db" where
  "delete_Alias alias d =
     Inr (\<exists>r\<in>set (t_Alias d). al_alias r = alias, d\<lparr>t_Alias := filter (\<lambda>r. al_alias r \<noteq> alias) (t_Alias d)\<rparr>)"

definition upsert_Receipt :: "string \<Rightarrow> string \<Rightarrow> string \<Rightarrow> int \<Rightarrow> db \<Rightarrow> go_error + db" where
  "upsert_Receipt roomID userID eventID ts d =
     Inr (d\<lparr>t_Receipts :=
        upsert_row (\<lambda>r. rr_room r = roomID \<and> rr_user r = userID)
          (\<lambda>r. r\<lparr>rr_event := eventID, rr_ts := ts\<rparr>)
          \<lparr>rr_room = roomID, rr_user = userID, rr_event = eventID, rr_ts = ts\<rparr> (t_Receipts d)\<rparr>)"

definition upsert_Typing :: "string \<Rightarrow> string \<Rightarrow> bool \<Rightarrow> int \<Rightarrow> db \<Rightarrow> go_error + db" where
  "upsert_Typing roomID userID isTyping expiresAt d =
     Inr (d\<lparr>t_Typing :=
        upsert_row (\<lambda>r. ty_room r = roomID \<and> ty_user r = userID)
          (\<lambda>r. r\<lparr>ty_is_typing := isTyping, ty_expires_at := expiresAt\<rparr>)
          \<lparr>ty_room = roomID, ty_user = userID, ty_is_typing = isTyping, ty_expires_at = expiresAt\<rparr>
          (t_Typing d)\<rparr>)"

subsection \<open>Statements on users\<close>

text \<open>The check of the domain \<open>USUARIO_LOCALPART_T\<close>: one or more letters, digits or \<open>._=+-\<close>.\<close>

definition localpart_char :: "char \<Rightarrow> bool" where
  "localpart_char c = (let n = of_char c :: nat in
     48 \<le> n \<and> n \<le> 57 \<or> 65 \<le> n \<and> n \<le> 90 \<or> 97 \<le> n \<and> n \<le> 122 \<or> n \<in> {46, 95, 61, 43, 45} \<or> 128 \<le> n)"

definition insert_Usuario :: "usuario_row \<Rightarrow> db \<Rightarrow> go_error + db" where
  "insert_Usuario r d =
     (if us_localpart r = '''' \<or> \<not> list_all localpart_char (us_localpart r) then Inl (PgError ''check_violation'')
      else if us_id r \<in> usuario_ids d \<or> us_localpart r \<in> us_localpart ` set (t_Usuario d) then Inl unique_violation
      else Inr (d\<lparr>t_Usuario := t_Usuario d @ [r]\<rparr>))"

definition insert_Profile :: "string \<Rightarrow> string \<Rightarrow> db \<Rightarrow> go_error + db" where
  "insert_Profile userID nome d =
     (if userID \<in> pf_usuario ` set (t_Profile d) then Inl unique_violation
      else if userID \<notin> usuario_ids d then Inl fk_violation
      else Inr (d\<lparr>t_Profile := t_Profile d @ [\<lparr>pf_usuario = userID, pf_nome = nome, pf_foto = None\<rparr>]\<rparr>))"

definition update_Profile :: "string \<Rightarrow> string option \<Rightarrow> string option \<Rightarrow> db \<Rightarrow> go_error + db" where
  "update_Profile userID nome foto d =
     Inr (d\<lparr>t_Profile := map (\<lambda>r. if pf_usuario r = userID
        then r\<lparr>pf_nome := (case nome of None \<Rightarrow> pf_nome r | Some n \<Rightarrow> n),
               pf_foto := (case foto of None \<Rightarrow> pf_foto r | Some f \<Rightarrow> Some f)\<rparr>
        else r) (t_Profile d)\<rparr>)"

definition account_key :: "account_row \<Rightarrow> string \<times> string \<times> string" where
  "account_key r = (ac_usuario r, ac_canal r, ac_tipo r)"

definition insert_AccountData :: "account_row \<Rightarrow> db \<Rightarrow> go_error + db" where
  "insert_AccountData r d =
     (if account_key r \<in> account_key ` set (t_AccountData d) then Inr d
      else if ac_usuario r \<notin> usuario_ids d then Inl fk_violation
      else Inr (d\<lparr>t_AccountData := t_AccountData d @ [r]\<rparr>))"

definition upsert_AccountData :: "string \<Rightarrow> string \<Rightarrow> string \<Rightarrow> raw \<Rightarrow> db \<Rightarrow> go_error + db" where
  "upsert_AccountData userID roomID tipo content d =
     (case content of
        None \<Rightarrow> Inl not_null_violation
      | Some c \<Rightarrow>
          if userID \<notin> usuario_ids d then Inl fk_violation
          else Inr (d\<lparr>t_AccountData :=
            upsert_row (\<lambda>r. account_key r = (userID, roomID, tipo)) (\<lambda>r. r\<lparr>ac_content := jsonb c\<rparr>)
              \<lparr>ac_usuario = userID, ac_canal = roomID, ac_tipo = tipo, ac_content = jsonb c\<rparr>
              (t_AccountData d)\<rparr>))"

subsection \<open>Integrity\<close>

text \<open>The constraints the schema declares, as a predicate on the tables.\<close>

definition db_ok :: "db \<Rightarrow> bool" where
  "db_ok d \<longleftrightarrow>
     distinct (map ev_ID (t_Evento d)) \<and> distinct (map cn_id (t_Canal d)) \<and>
     (\<forall>e\<in>set (t_Evento d). ev_Content e \<noteq> None) \<and>
     distinct (t_Extremidades d) \<and>
     (\<forall>(c, e)\<in>set (t_Extremidades d). c \<in> canal_ids d \<and> e \<in> evento_ids d) \<and>
     distinct (map (\<lambda>r. (es_canal r, es_tipo r, es_state_key r)) (t_Estado d)) \<and>
     (\<forall>r\<in>set (t_Estado d). es_canal r \<in> canal_ids d \<and> es_evento r \<in> evento_ids d) \<and>
     distinct (map (\<lambda>r. (mb_canal r, mb_usuario r)) (t_Membership d)) \<and>
     (\<forall>r\<in>set (t_Membership d). mb_evento r \<in> evento_ids d)"

subsection \<open>Lemmas\<close>

lemma evento_row_simps [simp]:
  "ev_ID (evento_row n ev) = ev_ID ev" "ev_Tipo (evento_row n ev) = ev_Tipo ev"
  "ev_CanalID (evento_row n ev) = ev_CanalID ev" "ev_Sender (evento_row n ev) = ev_Sender ev"
  "ev_StateKey (evento_row n ev) = ev_StateKey ev" "ev_Depth (evento_row n ev) = ev_Depth ev"
  "ev_PrevEventos (evento_row n ev) = ev_PrevEventos ev" "ev_AuthEventos (evento_row n ev) = ev_AuthEventos ev"
  "ev_StreamOrdering (evento_row n ev) = int n"
  "ev_Content (evento_row n ev) = map_option jsonb (ev_Content ev)"
  by (simp_all add: evento_row_def)

end
