(* ===== verification/World.thy ===== *)
theory World
  imports Database
begin

text \<open>
  The state every service call works on, the database driver and the unit of work
  (\<^verbatim>\<open>internal/infrastructure/postgres/workeunit.go\<close>).

  \<open>w_db\<close> is the committed database. While a transaction is open, \<open>w_tx\<close> holds its view:
  statements sent with the transaction's context act on it, statements sent with any other context
  go to the pool and see \<open>w_db\<close>. A statement that fails inside a transaction aborts it: further
  statements fail and \<open>COMMIT\<close> rolls back and reports an error, as PostgreSQL does. The outside
  world is given by functions of the number of the call: \<open>w_fault n\<close> is the error with which the
  \<open>n\<close>-th call to the database or to Redis fails, if it does (such a call has no effect), \<open>w_clock\<close>
  the time in milliseconds, \<open>w_random\<close> random bytes, \<open>w_http\<close> the answer of a remote server and
  \<open>w_srv\<close> the \<open>SRV\<close> records of a name. Requests are served one at a time.
\<close>

datatype ctx = Ctx | TxCtx

datatype txn = NoTx | Active db | Aborted

text \<open>
  A goroutine started with \<open>go\<close>; it runs after the call that started it. To-device messages are a map
  from users to maps from devices to contents.
\<close>

type_synonym messages = "(string \<times> (string \<times> json) list) list"

datatype task =
    TaskSend string evento
  | TaskFlush string
  | TaskToDevice string string string messages

record http_request =
  rq_method :: string
  rq_url :: string
  rq_auth :: string
  rq_body :: "json option"

text \<open>
  An answer has a status, its content type, its bytes, and the JSON value they are, if they are one.
  \<open>w_retries\<close> are the Redis lists of events kept for other servers, each with the time it expires if it
  has one, \<open>w_objects\<close> is the object store (id, content type, bytes), \<open>w_cache\<close> the values kept in Redis with the
  time they expire, \<open>w_keyCache\<close> the server's map of the public keys of other servers.
\<close>

record http_response =
  rs_status :: int
  rs_ctype :: string
  rs_bytes :: string
  rs_body :: "json option"

record world =
  w_db :: db
  w_tx :: txn
  w_seqs :: seqs
  w_calls :: nat
  w_fault :: "nat \<Rightarrow> go_error option"
  w_ticks :: nat
  w_clock :: "nat \<Rightarrow> int"
  w_draws :: nat
  w_random :: "nat \<Rightarrow> string"
  w_woken :: "string list"
  w_outbound :: "json list"
  w_retries :: "(string \<times> json list \<times> int option) list"
  w_tasks :: "task list"
  w_sent :: "http_request list"
  w_objects :: "(string \<times> string \<times> string) list"
  w_cache :: "(string \<times> string \<times> int) list"
  w_keyCache :: "(string \<times> string) list"
  w_http :: "nat \<Rightarrow> http_request \<Rightarrow> go_error + http_response"
  w_srv :: "string \<Rightarrow> go_error + (string \<times> int) list"

type_synonym 'a op = "(world, 'a) io"

subsection \<open>Clock, randomness, notifications\<close>

definition nowM :: "int op" where
  "nowM = (\<lambda>w. (Ret (w_clock w (w_ticks w)), w\<lparr>w_ticks := Suc (w_ticks w)\<rparr>))"

definition randomM :: "string op" where
  "randomM = (\<lambda>w. (Ret (w_random w (w_draws w)), w\<lparr>w_draws := Suc (w_draws w)\<rparr>))"

definition WakeUpUsers :: "string \<Rightarrow> unit op" where
  "WakeUpUsers userID = modifyM (\<lambda>w. w\<lparr>w_woken := w_woken w @ [userID]\<rparr>)"

definition spawn :: "task \<Rightarrow> unit op" where
  "spawn t = modifyM (\<lambda>w. w\<lparr>w_tasks := w_tasks w @ [t]\<rparr>)"

subsection \<open>Statements\<close>

text \<open>
  \<open>getTxOrPool\<close>: the transaction in the context, or the pool. A statement reads and writes one view
  of the database and may draw sequence values.
\<close>

type_synonym 'a stmt = "db \<Rightarrow> seqs \<Rightarrow> (go_error + 'a \<times> db) \<times> seqs"

text \<open>The counter of outside calls moves on, whether the call works or not.\<close>

definition ticked :: "world \<Rightarrow> world" where
  "ticked w = w\<lparr>w_calls := Suc (w_calls w)\<rparr>"

definition abort :: "ctx \<Rightarrow> world \<Rightarrow> world" where
  "abort c w = (case c of Ctx \<Rightarrow> w | TxCtx \<Rightarrow> w\<lparr>w_tx := Aborted\<rparr>)"

definition view :: "ctx \<Rightarrow> world \<Rightarrow> go_error + db" where
  "view c w = (case c of
       Ctx \<Rightarrow> Inr (w_db w)
     | TxCtx \<Rightarrow> (case w_tx w of
           Active d \<Rightarrow> Inr d
         | Aborted \<Rightarrow> Inl (PgError ''current transaction is aborted'')
         | NoTx \<Rightarrow> Inl (PgError ''tx is closed'')))"

definition store :: "ctx \<Rightarrow> db \<Rightarrow> world \<Rightarrow> world" where
  "store c d w = (case c of Ctx \<Rightarrow> w\<lparr>w_db := d\<rparr> | TxCtx \<Rightarrow> w\<lparr>w_tx := Active d\<rparr>)"

definition getTxOrPool :: "ctx \<Rightarrow> 'a stmt \<Rightarrow> 'a op" where
  "getTxOrPool c q = (\<lambda>w.
     case w_fault w (w_calls w) of
       Some e \<Rightarrow> (Fail e, abort c (ticked w))
     | None \<Rightarrow>
         (case view c w of
            Inl e \<Rightarrow> (Fail e, ticked w)
          | Inr d \<Rightarrow>
              (case q d (w_seqs w) of
                 (Inl e, s) \<Rightarrow> (Fail e, (abort c (ticked w))\<lparr>w_seqs := s\<rparr>)
               | (Inr (a, d'), s) \<Rightarrow> (Ret a, (store c d' (ticked w))\<lparr>w_seqs := s\<rparr>))))"

text \<open>A query, and a statement without result that draws no sequence value.\<close>

definition db_query :: "ctx \<Rightarrow> (db \<Rightarrow> 'a) \<Rightarrow> 'a op" where
  "db_query c q = getTxOrPool c (\<lambda>d s. (Inr (q d, d), s))"

definition db_exec :: "ctx \<Rightarrow> (db \<Rightarrow> go_error + db) \<Rightarrow> unit op" where
  "db_exec c f = getTxOrPool c (\<lambda>d s. (case f d of Inl e \<Rightarrow> Inl e | Inr d' \<Rightarrow> Inr ((), d'), s))"

subsection \<open>Execute\<close>

text \<open>
  \<open>Begin\<close>, the body with the transaction's context, then \<open>Commit\<close>; the deferred \<open>Rollback\<close> runs on
  every path, a panic of the body included. The body also returns what its closure assigns.
\<close>

definition begin_tx :: "unit op" where
  "begin_tx = (\<lambda>w.
     case w_fault w (w_calls w) of
       Some e \<Rightarrow> (Fail e, ticked w)
     | None \<Rightarrow> (Ret (), (ticked w)\<lparr>w_tx := Active (w_db w)\<rparr>))"

definition commit_tx :: "unit op" where
  "commit_tx = (\<lambda>w.
     case w_fault w (w_calls w) of
       Some e \<Rightarrow> (Fail e, (ticked w)\<lparr>w_tx := NoTx\<rparr>)
     | None \<Rightarrow>
         (case w_tx w of
            Active d \<Rightarrow> (Ret (), (ticked w)\<lparr>w_db := d, w_tx := NoTx\<rparr>)
          | Aborted \<Rightarrow> (Fail (PgError ''commit unexpectedly resulted in rollback''), (ticked w)\<lparr>w_tx := NoTx\<rparr>)
          | NoTx \<Rightarrow> (Fail (PgError ''tx is closed''), ticked w)))"

definition rollback_tx :: "world \<Rightarrow> world" where
  "rollback_tx w = w\<lparr>w_tx := NoTx\<rparr>"

definition Execute :: "(ctx \<Rightarrow> 'a op) \<Rightarrow> 'a op" where
  "Execute fn = bindM begin_tx (\<lambda>_. (\<lambda>w.
     case fn TxCtx w of
       (Ret a, w') \<Rightarrow>
         (case commit_tx w' of
            (Ret _, w'') \<Rightarrow> (Ret a, w'')
          | (Fail e, w'') \<Rightarrow> (Fail e, w'')
          | (Panic, w'') \<Rightarrow> (Panic, w''))
     | (Fail e, w') \<Rightarrow> (Fail e, rollback_tx w')
     | (Panic, w') \<Rightarrow> (Panic, rollback_tx w')))"

subsection \<open>Redis\<close>

definition redis_call :: "(world \<Rightarrow> 'a \<times> world) \<Rightarrow> 'a op" where
  "redis_call f = (\<lambda>w.
     case w_fault w (w_calls w) of
       Some e \<Rightarrow> (Fail e, ticked w)
     | None \<Rightarrow> (case f (ticked w) of (a, w') \<Rightarrow> (Ret a, w')))"

subsection \<open>Remote servers\<close>

definition http_do :: "http_request \<Rightarrow> http_response op" where
  "http_do rq = (\<lambda>w.
     case w_http w (length (w_sent w)) rq of
       Inl e \<Rightarrow> (Fail e, w\<lparr>w_sent := w_sent w @ [rq]\<rparr>)
     | Inr rs \<Rightarrow> (Ret rs, w\<lparr>w_sent := w_sent w @ [rq]\<rparr>))"

subsection \<open>Successful runs\<close>

lemma ret_now [ret_simps]:
  "nowM w = (Ret t, w') \<longleftrightarrow> t = w_clock w (w_ticks w) \<and> w' = w\<lparr>w_ticks := Suc (w_ticks w)\<rparr>"
  by (auto simp: nowM_def)

lemma ret_random [ret_simps]:
  "randomM w = (Ret t, w') \<longleftrightarrow> t = w_random w (w_draws w) \<and> w' = w\<lparr>w_draws := Suc (w_draws w)\<rparr>"
  by (auto simp: randomM_def)

lemma ret_stmt:
  "getTxOrPool c q w = (Ret a, w') \<longleftrightarrow>
     w_fault w (w_calls w) = None \<and>
     (\<exists>d d' s. view c w = Inr d \<and> q d (w_seqs w) = (Inr (a, d'), s) \<and>
        w' = (store c d' (ticked w))\<lparr>w_seqs := s\<rparr>)"
  by (auto simp: getTxOrPool_def split: option.splits sum.splits prod.splits)

lemma store_view: "view c w = Inr d \<Longrightarrow> store c d (ticked w) = ticked w"
  by (cases c) (auto simp: view_def store_def ticked_def split: txn.splits)

lemma w_seqs_ticked: "(ticked w)\<lparr>w_seqs := w_seqs w\<rparr> = ticked w"
  by (simp add: ticked_def)

lemma ret_query [ret_simps]:
  "db_query c q w = (Ret a, w') \<longleftrightarrow>
     w_fault w (w_calls w) = None \<and> (\<exists>d. view c w = Inr d \<and> a = q d) \<and> w' = ticked w"
  by (auto simp: db_query_def ret_stmt store_view w_seqs_ticked)

lemma ret_exec:
  "db_exec c f w = (Ret a, w') \<longleftrightarrow>
     w_fault w (w_calls w) = None \<and>
     (\<exists>d d'. view c w = Inr d \<and> f d = Inr d' \<and> w' = store c d' (ticked w))"
proof -
  have "(store c d' (ticked w))\<lparr>w_seqs := w_seqs w\<rparr> = store c d' (ticked w)" for d'
    by (cases c) (simp_all add: store_def ticked_def)
  then show ?thesis
    by (auto simp: db_exec_def getTxOrPool_def split: option.splits sum.splits)
qed

lemma ret_exec_pool:
  "db_exec Ctx f w = (Ret a, w') \<longleftrightarrow>
     w_fault w (w_calls w) = None \<and> (\<exists>d'. f (w_db w) = Inr d' \<and> w' = (ticked w)\<lparr>w_db := d'\<rparr>)"
  by (auto simp: ret_exec view_def store_def)

lemma ret_exec_tx:
  "db_exec TxCtx f w = (Ret a, w') \<longleftrightarrow>
     w_fault w (w_calls w) = None \<and>
     (\<exists>d d'. w_tx w = Active d \<and> f d = Inr d' \<and> w' = (ticked w)\<lparr>w_tx := Active d'\<rparr>)"
  by (auto simp: ret_exec view_def store_def split: txn.splits)

text \<open>A committed unit of work: its view started as the committed database and became it.\<close>

lemma ret_Execute:
  "Execute fn w = (Ret a, w') \<longleftrightarrow>
     (\<exists>w1 d. w_fault w (w_calls w) = None \<and>
        fn TxCtx ((ticked w)\<lparr>w_tx := Active (w_db w)\<rparr>) = (Ret a, w1) \<and>
        w_fault w1 (w_calls w1) = None \<and> w_tx w1 = Active d \<and>
        w' = (ticked w1)\<lparr>w_db := d, w_tx := NoTx\<rparr>)"
  by (auto simp: Execute_def begin_tx_def commit_tx_def bindM_def
      split: prod.splits outcome.splits option.splits txn.splits)

end
