(* ===== verification/Canal_Storage.thy ===== *)
theory Canal_Storage
  imports World
begin

text \<open>
  \<^verbatim>\<open>internal/infrastructure/postgres/canal_storage.go\<close>: rooms, current state, membership, forward
  extremities and aliases. A method that names \<open>s.db\<close> always asks the pool; one that calls
  \<open>getTxOrPool\<close> follows its context.
\<close>

subsection \<open>Queries\<close>

definition sel_Canal :: "string \<Rightarrow> db \<Rightarrow> canal_row option" where
  "sel_Canal canalID d = find (\<lambda>r. cn_id r = canalID) (t_Canal d)"

definition sel_Extremidades :: "string \<Rightarrow> db \<Rightarrow> string list" where
  "sel_Extremidades canalID d = map snd (filter (\<lambda>r. fst r = canalID) (t_Extremidades d))"

definition sel_Estado :: "string \<Rightarrow> db \<Rightarrow> estado_row list" where
  "sel_Estado canalID d = filter (\<lambda>r. es_canal r = canalID) (t_Estado d)"

definition sel_Evento :: "string \<Rightarrow> db \<Rightarrow> evento option" where
  "sel_Evento eventID d = find (\<lambda>e. ev_ID e = eventID) (t_Evento d)"

definition sel_membership :: "string \<Rightarrow> string \<Rightarrow> db \<Rightarrow> membership_row option" where
  "sel_membership roomID userID d =
     find (\<lambda>r. mb_usuario r = userID \<and> mb_canal r = roomID) (t_Membership d)"

definition sel_state_event :: "string \<Rightarrow> string \<Rightarrow> string \<Rightarrow> db \<Rightarrow> string option" where
  "sel_state_event canalID stateType stateKey d =
     map_option es_evento (find (\<lambda>r. es_canal r = canalID \<and> es_tipo r = stateType \<and> es_state_key r = stateKey)
       (t_Estado d))"

text \<open>\<open>e.content->>'key'\<close> of an event row.\<close>

definition content_text :: "evento \<Rightarrow> string \<Rightarrow> string option" where
  "content_text ev k = Option.bind (ev_Content ev) (\<lambda>v. jsonb_text v k)"

definition sel_join_rules :: "string \<Rightarrow> db \<Rightarrow> string option list" where
  "sel_join_rules roomID d =
     concat (map (\<lambda>c. case sel_Evento (es_evento c) d of
         Some e \<Rightarrow> [content_text e ''join_rule''] | None \<Rightarrow> [])
       (filter (\<lambda>c. es_tipo c = ''m.room.join_rules'') (sel_Estado roomID d)))"

text \<open>\<open>LIMIT l OFFSET o\<close>; a negative value is an error.\<close>

definition limit_offset :: "int \<Rightarrow> int \<Rightarrow> 'a list \<Rightarrow> go_error + 'a list" where
  "limit_offset l off xs =
     (if l < 0 then Inl (PgError ''LIMIT must not be negative'')
      else if off < 0 then Inl (PgError ''OFFSET must not be negative'')
      else Inr (take (nat l) (drop (nat off) xs)))"

definition sel_public :: "db \<Rightarrow> canal_row list" where
  "sel_public d =
     sort_key (\<lambda>c. - cn_created_at c)
       (concat (map (\<lambda>c. map (\<lambda>_. c)
          (filter (\<lambda>e. case sel_Evento (es_evento e) d of
               None \<Rightarrow> False
             | Some e2 \<Rightarrow> ev_Tipo e2 = ''m.room.join_rules'' \<and> content_text e2 ''join_rule'' = Some ''public'')
            (sel_Estado (cn_id c) d))) (t_Canal d)))"

text \<open>\<open>substr(id_usuario, strpos(id_usuario, ':') + 1)\<close>: the whole id when there is no colon.\<close>

definition domain_part :: "string \<Rightarrow> string" where
  "domain_part userID = (case cut CHR '':'' userID of (a, b, f) \<Rightarrow> if f then b else userID)"

definition sel_servers :: "string \<Rightarrow> db \<Rightarrow> string list" where
  "sel_servers canalID d =
     remdups (map (\<lambda>r. domain_part (mb_usuario r))
       (filter (\<lambda>r. mb_canal r = canalID \<and> mb_type r \<in> {''join'', ''invite''}) (t_Membership d)))"

subsection \<open>Methods\<close>

definition canal_of_row :: "canal_row \<Rightarrow> Canal" where
  "canal_of_row r =
     \<lparr>ca_ID = cn_id r, ca_Versao = cn_versao r, ca_Criador = cn_criador r, ca_CreatedAt = cn_created_at r,
      ca_ForwardExtremeties = [], ca_EstadoAtual = []\<rparr>"

text \<open>\<open>CURRENT_TIMESTAMP\<close> is read with the statement.\<close>

definition Canal_Create :: "ctx \<Rightarrow> string \<Rightarrow> string \<Rightarrow> string \<Rightarrow> Canal op" where
  "Canal_Create c roomID userID roomVersion =
     (let roomVersion = (if roomVersion = '''' then ''11'' else roomVersion)
      in bindM nowM (\<lambda>now.
           let row = \<lparr>cn_id = roomID, cn_versao = roomVersion, cn_criador = userID, cn_created_at = now\<rparr>
           in bindM (wrapM ''failed to create canal'' (db_exec c (insert_Canal row))) (\<lambda>_.
              returnM (canal_of_row row))))"

definition GetForwardExtremities :: "ctx \<Rightarrow> string \<Rightarrow> string list op" where
  "GetForwardExtremities c canalID =
     wrapM ''failed to get extremities'' (db_query c (sel_Extremidades canalID))"

definition GetCanalEstadoAtual :: "string \<Rightarrow> StateEntry list op" where
  "GetCanalEstadoAtual canalID =
     wrapM ''failed to get canal estado atual'' (db_query Ctx (\<lambda>d.
       map (\<lambda>r. \<lparr>sen_Type = es_tipo r, sen_StateKey = es_state_key r, sen_IDEvento = es_evento r\<rparr>)
         (sel_Estado canalID d)))"

definition Canal_GetByID :: "ctx \<Rightarrow> string \<Rightarrow> Canal option op" where
  "Canal_GetByID c canalID =
     bindM (wrapM ''failed to get canal'' (db_query Ctx (sel_Canal canalID))) (\<lambda>row.
       case row of
         None \<Rightarrow> returnM None
       | Some r \<Rightarrow>
           bindM (catchM (GetForwardExtremities c canalID)) (\<lambda>extremeties.
           bindM (catchM (GetCanalEstadoAtual canalID)) (\<lambda>estadoAtual.
             returnM (Some ((canal_of_row r)
               \<lparr>ca_ForwardExtremeties := (case extremeties of Inl _ \<Rightarrow> [] | Inr xs \<Rightarrow> xs),
                ca_EstadoAtual := (case estadoAtual of Inl _ \<Rightarrow> [] | Inr es \<Rightarrow> es)\<rparr>)))))"

definition GetJoinRule :: "string \<Rightarrow> string op" where
  "GetJoinRule roomID =
     bindM (wrapM ''failed to get join rule'' (db_query Ctx (sel_join_rules roomID))) (\<lambda>rows.
       case rows of
         [] \<Rightarrow> returnM ''invite''
       | r # _ \<Rightarrow>
           (case r of
              Some rule \<Rightarrow> returnM rule
            | None \<Rightarrow> failM (Wrapf ''failed to get join rule'' (ExtError ''cannot scan NULL into *string''))))"

definition GetUserJoinedRooms :: "string \<Rightarrow> string list op" where
  "GetUserJoinedRooms userID =
     wrapM ''failed to get joined rooms'' (db_query Ctx (\<lambda>d.
       map mb_canal (filter (\<lambda>r. mb_usuario r = userID \<and> mb_type r = ''join'') (t_Membership d))))"

definition GetUserLeftRooms :: "string \<Rightarrow> string list op" where
  "GetUserLeftRooms userID =
     wrapM ''failed to get left rooms'' (db_query Ctx (\<lambda>d.
       map mb_canal (filter (\<lambda>r. mb_usuario r = userID \<and> mb_type r = ''leave'') (t_Membership d))))"

definition GetUserMembership :: "string \<Rightarrow> string \<Rightarrow> string op" where
  "GetUserMembership roomID userID =
     bindM (wrapM ''failed to get membership'' (db_query Ctx (sel_membership roomID userID))) (\<lambda>row.
       returnM (case row of None \<Rightarrow> ''leave'' | Some r \<Rightarrow> mb_type r))"

definition GetUserMembershipRecord :: "string \<Rightarrow> string \<Rightarrow> (string \<times> bool) op" where
  "GetUserMembershipRecord roomID userID =
     bindM (wrapM ''failed to get membership record'' (db_query Ctx (sel_membership roomID userID))) (\<lambda>row.
       returnM (case row of None \<Rightarrow> ('''', False) | Some r \<Rightarrow> (mb_type r, True)))"

text \<open>Every error counts as not found.\<close>

definition GetStateEventID :: "string \<Rightarrow> string \<Rightarrow> string \<Rightarrow> (string \<times> bool) op" where
  "GetStateEventID canalID stateType stateKey =
     bindM (catchM (db_query Ctx (sel_state_event canalID stateType stateKey))) (\<lambda>r.
       returnM (case r of
           Inl _ \<Rightarrow> ('''', False)
         | Inr None \<Rightarrow> ('''', False)
         | Inr (Some eventID) \<Rightarrow> (eventID, True)))"

definition UpsertMembership :: "ctx \<Rightarrow> string \<Rightarrow> string \<Rightarrow> string \<Rightarrow> string \<Rightarrow> unit op" where
  "UpsertMembership c roomID userID membership id_evento =
     wrapM ''failed to upsert membership'' (db_exec c (upsert_Membership roomID userID membership id_evento))"

definition UpsertCurrentState :: "ctx \<Rightarrow> string \<Rightarrow> string \<Rightarrow> string \<Rightarrow> string \<Rightarrow> unit op" where
  "UpsertCurrentState c canalID stateType stateKey eventID =
     wrapM ''failed to upsert current state'' (db_exec c (upsert_Estado canalID stateType stateKey eventID))"

definition GetAllPublic :: "ctx \<Rightarrow> int \<Rightarrow> int \<Rightarrow> Canal list op" where
  "GetAllPublic c off limit =
     wrapM ''failed to get public canals'' (getTxOrPool c (\<lambda>d s.
       (case limit_offset limit off (sel_public d) of
          Inl e \<Rightarrow> Inl e
        | Inr rows \<Rightarrow> Inr (map canal_of_row rows, d), s)))"

definition UpdateForwardExtremities :: "ctx \<Rightarrow> string \<Rightarrow> string \<Rightarrow> string list \<Rightarrow> unit op" where
  "UpdateForwardExtremities c canalID eventID prevEvents =
     bindM (if 0 < length prevEvents
            then wrapM ''failed to delete old extremities'' (db_exec c (delete_Extremidades canalID prevEvents))
            else returnM ()) (\<lambda>_.
     wrapM ''failed to insert new extremity'' (db_exec c (insert_Extremidade canalID eventID)))"

definition SaveAlias :: "ctx \<Rightarrow> string \<Rightarrow> string \<Rightarrow> unit op" where
  "SaveAlias c roomID fullAlias =
     wrapM ''failed to save alias'' (db_exec c (insert_Alias roomID fullAlias))"

definition GetCanalParticipatingServers :: "string \<Rightarrow> string list op" where
  "GetCanalParticipatingServers canalID =
     bindM (wrapM ''failed to get participating server'' (db_query Ctx (sel_servers canalID))) (\<lambda>domains.
       returnM (filter (\<lambda>domain. domain \<noteq> '''') domains))"

end
