(* ===== verification/Evento_Storage.thy ===== *)
theory Evento_Storage
  imports Canal_Storage
begin

text \<open>
  \<^verbatim>\<open>internal/infrastructure/postgres/evento_storage.go\<close>: the event log and the walks over the event
  graph. The queries differ in the columns they select; a column left out stays at its zero value.
\<close>

subsection \<open>Column lists\<close>

text \<open>Without \<open>stream_ordering\<close>; without the two reference columns and \<open>depth\<close>.\<close>

definition no_ordering :: "evento \<Rightarrow> evento" where
  "no_ordering ev = ev\<lparr>ev_StreamOrdering := 0\<rparr>"

definition no_refs :: "evento \<Rightarrow> evento" where
  "no_refs ev = ev\<lparr>ev_PrevEventos := [], ev_AuthEventos := [], ev_Depth := 0\<rparr>"

definition by_stream :: "evento list \<Rightarrow> evento list" where
  "by_stream es = sort_key ev_StreamOrdering es"

subsection \<open>The log\<close>

definition sel_max_ordering :: "db \<Rightarrow> int" where
  "sel_max_ordering d = (case t_Evento d of [] \<Rightarrow> 0 | e # es \<Rightarrow> Max (set (map ev_StreamOrdering (e # es))))"

definition GetMaxStreamOrdering :: "int op" where
  "GetMaxStreamOrdering = wrapM ''failed to get max stream ordering'' (db_query Ctx sel_max_ordering)"

text \<open>\<open>COALESCE(MAX(depth), 0)\<close> over the known events among \<open>ids\<close>.\<close>

definition sel_max_depth :: "string list \<Rightarrow> db \<Rightarrow> int" where
  "sel_max_depth ids d =
     (case filter (\<lambda>e. ev_ID e \<in> set ids) (t_Evento d) of
        [] \<Rightarrow> 0 | e # es \<Rightarrow> Max (set (map ev_Depth (e # es))))"

definition GetMaxDepthFromEventos :: "string list \<Rightarrow> int op" where
  "GetMaxDepthFromEventos prevEventos =
     (if length prevEventos = 0 then returnM 0
      else wrapM ''failed to get max depth'' (db_query Ctx (sel_max_depth prevEventos)))"

text \<open>The default of \<open>stream_ordering\<close> draws a value even when the row is not inserted.\<close>

definition SaveEvento :: "ctx \<Rightarrow> evento \<Rightarrow> unit op" where
  "SaveEvento c event =
     wrapM ''failed to save event'' (getTxOrPool c (\<lambda>d s.
       (case insert_Evento (sq_stream s) event d of Inl e \<Rightarrow> Inl e | Inr d' \<Rightarrow> Inr ((), d'),
        s\<lparr>sq_stream := Suc (sq_stream s)\<rparr>)))"

definition CheckEventoExists :: "string \<Rightarrow> bool op" where
  "CheckEventoExists eventID =
     wrapM ''failed to check event exists'' (db_query Ctx (\<lambda>d. list_ex (\<lambda>e. ev_ID e = eventID) (t_Evento d)))"

text \<open>No row is \<open>pgx.ErrNoRows\<close>, wrapped.\<close>

definition GetEvento :: "string \<Rightarrow> evento op" where
  "GetEvento eventID =
     bindM (wrapM ''failed to scan event'' (db_query Ctx (sel_Evento eventID))) (\<lambda>r.
       case r of
         None \<Rightarrow> failM (Wrapf ''failed to scan event'' (ExtError ''no rows in result set''))
       | Some ev \<Rightarrow> returnM (no_ordering ev))"

subsection \<open>Current state and members\<close>

definition sel_state_events :: "string \<Rightarrow> db \<Rightarrow> evento list" where
  "sel_state_events roomID d =
     concat (map (\<lambda>r. case sel_Evento (es_evento r) d of None \<Rightarrow> [] | Some e \<Rightarrow> [e]) (sel_Estado roomID d))"

definition GetCurrentStateEvents :: "string \<Rightarrow> evento list op" where
  "GetCurrentStateEvents roomID =
     wrapM ''failed to get current state events'' (db_query Ctx (\<lambda>d. map no_ordering (sel_state_events roomID d)))"

definition GetRoomMemberEvents :: "string \<Rightarrow> evento list op" where
  "GetRoomMemberEvents roomID =
     wrapM ''failed to get room member events'' (db_query Ctx (\<lambda>d.
       map no_ordering (filter (\<lambda>e. ev_Tipo e = ''m.room.member'') (sel_state_events roomID d))))"

subsection \<open>Timelines\<close>

definition sel_since :: "string \<Rightarrow> int \<Rightarrow> db \<Rightarrow> evento list" where
  "sel_since userID pos d =
     by_stream (filter (\<lambda>e. ev_StreamOrdering e > pos \<and>
        ((\<exists>m\<in>set (t_Membership d). mb_canal m = ev_CanalID e \<and> mb_usuario m = userID \<and>
             mb_type m \<in> {''join'', ''invite''}) \<or>
         ev_Tipo e = ''m.room.member'' \<and> ev_StateKey e = Some userID)) (t_Evento d))"

definition GetSince :: "string \<Rightarrow> SyncToken \<Rightarrow> evento list op" where
  "GetSince userID since =
     wrapM ''failed to get events'' (db_query Ctx (sel_since userID (TimelinePosition since)))"

definition sel_canal_since :: "string \<Rightarrow> string \<Rightarrow> int \<Rightarrow> db \<Rightarrow> evento list" where
  "sel_canal_since userID roomID pos d =
     by_stream (filter (\<lambda>e. ev_CanalID e = roomID \<and> ev_StreamOrdering e > pos \<and>
        sel_membership roomID userID d \<noteq> None) (t_Evento d))"

definition GetEventsOfCanalSince :: "string \<Rightarrow> string \<Rightarrow> SyncToken \<Rightarrow> evento list op" where
  "GetEventsOfCanalSince userID roomID since =
     wrapM ''failed to get events of canal since''
       (db_query Ctx (sel_canal_since userID roomID (TimelinePosition since)))"

text \<open>Up to the event of the user's \<open>leave\<close> row; without such a row the comparison is \<open>NULL\<close>.\<close>

definition sel_canal_left :: "string \<Rightarrow> string \<Rightarrow> int \<Rightarrow> db \<Rightarrow> evento list" where
  "sel_canal_left userID roomID pos d =
     (case sel_membership roomID userID d of
        None \<Rightarrow> []
      | Some m \<Rightarrow>
          if mb_type m \<noteq> ''leave'' then []
          else (case sel_Evento (mb_evento m) d of
                  None \<Rightarrow> []
                | Some ev \<Rightarrow>
                    by_stream (filter (\<lambda>e. ev_CanalID e = roomID \<and> ev_StreamOrdering e > pos \<and>
                      ev_StreamOrdering e \<le> ev_StreamOrdering ev) (t_Evento d))))"

definition GetEventsOfCanalSinceLeft :: "string \<Rightarrow> string \<Rightarrow> SyncToken \<Rightarrow> evento list op" where
  "GetEventsOfCanalSinceLeft userID roomID since =
     wrapM ''failed to get events of canal since left''
       (db_query Ctx (sel_canal_left userID roomID (TimelinePosition since)))"

definition sel_history :: "string \<Rightarrow> int \<Rightarrow> string \<Rightarrow> db \<Rightarrow> evento list" where
  "sel_history roomID fromToken dir d =
     (let room = filter (\<lambda>e. ev_CanalID e = roomID) (t_Evento d)
      in if dir = ''b'' then
           (if fromToken = 0 then rev (by_stream room)
            else rev (by_stream (filter (\<lambda>e. ev_StreamOrdering e \<le> fromToken) room)))
         else by_stream (filter (\<lambda>e. ev_StreamOrdering e > fromToken) room))"

definition GetRoomMessagesHistory :: "string \<Rightarrow> int \<Rightarrow> string \<Rightarrow> int \<Rightarrow> evento list op" where
  "GetRoomMessagesHistory roomID fromToken dir limit =
     wrapM ''failed to execute history query'' (getTxOrPool Ctx (\<lambda>d s.
       (case limit_offset limit 0 (sel_history roomID fromToken dir d) of
          Inl e \<Rightarrow> Inl e
        | Inr rows \<Rightarrow> Inr (map no_refs rows, d), s)))"

subsection \<open>Recursive queries\<close>

text \<open>
  \<open>WITH RECURSIVE ... UNION\<close>: \<open>work\<close> holds the rows the last round added, \<open>acc\<close> all rows so far.
  A row is an event with its distance; rows of one event and one distance are equal.
\<close>

type_synonym walk_row = "evento \<times> int"

definition prev_rows :: "(evento \<Rightarrow> bool) \<Rightarrow> int \<Rightarrow> db \<Rightarrow> walk_row list \<Rightarrow> walk_row list" where
  "prev_rows keep limit d work =
     concat (map (\<lambda>(ev, distance).
       if distance < limit then
         map (\<lambda>e. (e, distance + 1)) (filter (\<lambda>e. ev_ID e \<in> set (ev_PrevEventos ev) \<and> keep e) (t_Evento d))
       else []) work)"

text \<open>Every round raises the distance by one, so \<open>limit\<close> rounds are enough; \<open>n\<close> counts them down.\<close>

fun dag_walk :: "(evento \<Rightarrow> bool) \<Rightarrow> int \<Rightarrow> db \<Rightarrow> nat \<Rightarrow> walk_row list \<Rightarrow> walk_row list \<Rightarrow> walk_row list" where
  "dag_walk keep limit d 0 acc work = acc"
| "dag_walk keep limit d (Suc n) acc work =
     (let new = filter (\<lambda>r. r \<notin> set acc) (remdups (prev_rows keep limit d work))
      in if new = [] then acc else dag_walk keep limit d n (acc @ new) new)"

definition start_rows :: "string \<Rightarrow> string list \<Rightarrow> db \<Rightarrow> walk_row list" where
  "start_rows roomID ids d =
     map (\<lambda>e. (e, 1)) (filter (\<lambda>e. ev_CanalID e = roomID \<and> ev_ID e \<in> set ids) (t_Evento d))"

definition sel_backfill :: "string \<Rightarrow> int \<Rightarrow> string list \<Rightarrow> db \<Rightarrow> evento list" where
  "sel_backfill roomID limit ids d =
     (let start = start_rows roomID ids d
      in map fst (sort_key (\<lambda>r. - ev_Depth (fst r))
           (sort_key snd (dag_walk (\<lambda>_. True) limit d (nat limit) start start))))"

definition GetEventsSince :: "string \<Rightarrow> int \<Rightarrow> string list \<Rightarrow> evento list op" where
  "GetEventsSince roomID limit events =
     wrapM ''failed to get events for backfill'' (getTxOrPool Ctx (\<lambda>d s.
       (case limit_offset limit 0 (sel_backfill roomID limit events d) of
          Inl e \<Rightarrow> Inl e | Inr rows \<Rightarrow> Inr (rows, d), s)))"

definition sel_missing :: "string \<Rightarrow> string list \<Rightarrow> string list \<Rightarrow> int \<Rightarrow> int \<Rightarrow> db \<Rightarrow> evento list" where
  "sel_missing roomID earliest latest limit minDepth d =
     (let start = start_rows roomID latest d
      in sort_key ev_Depth (filter (\<lambda>e. ev_ID e \<notin> set earliest)
           (map fst (dag_walk (\<lambda>e. ev_ID e \<notin> set earliest \<and> ev_Depth e \<ge> minDepth) limit d (nat limit) start start))))"

definition GetMissingEvents :: "string \<Rightarrow> string list \<Rightarrow> string list \<Rightarrow> int \<Rightarrow> int \<Rightarrow> evento list op" where
  "GetMissingEvents roomID earliestEvents latestEvents limit minDepth =
     wrapM ''query missing events failed'' (getTxOrPool Ctx (\<lambda>d s.
       (case limit_offset limit 0 (sel_missing roomID earliestEvents latestEvents limit minDepth d) of
          Inl e \<Rightarrow> Inl e | Inr rows \<Rightarrow> Inr (rows, d), s)))"

text \<open>
  The \<open>auth_tree\<close>: all ids reachable through \<open>auth_eventos\<close>. A round that finds no new id ends the
  walk, and every id is a reference of some stored event.
\<close>

definition auth_refs :: "db \<Rightarrow> string list \<Rightarrow> string list" where
  "auth_refs d ids = concat (map ev_AuthEventos (filter (\<lambda>e. ev_ID e \<in> set ids) (t_Evento d)))"

definition all_refs :: "db \<Rightarrow> string set" where
  "all_refs d = (\<Union>e\<in>set (t_Evento d). set (ev_AuthEventos e))"

lemma auth_refs_subset: "set (auth_refs d ids) \<subseteq> all_refs d"
  by (auto simp: auth_refs_def all_refs_def)

lemma finite_all_refs [simp]: "finite (all_refs d)"
  by (simp add: all_refs_def)

function auth_walk :: "db \<Rightarrow> string list \<Rightarrow> string list \<Rightarrow> string list" where
  "auth_walk d acc work =
     (let new = filter (\<lambda>i. i \<notin> set acc) (remdups (auth_refs d work))
      in if new = [] then acc else auth_walk d (acc @ new) new)"
  by pat_completeness auto
termination
proof (relation "measure (\<lambda>(d, acc, work). card (all_refs d - set acc))")
  fix d acc work new
  assume new: "new = filter (\<lambda>i. i \<notin> set acc) (remdups (auth_refs d work))" "new \<noteq> []"
  from new(2) obtain i where i: "i \<in> set new" by (meson list.set_sel(1))
  then have "i \<in> all_refs d" "i \<notin> set acc" using new(1) auth_refs_subset [of d work] by auto
  with i have "all_refs d - set (acc @ new) \<subset> all_refs d - set acc" by auto
  then show "((d, acc @ new, new), d, acc, work) \<in> measure (\<lambda>(d, acc, work). card (all_refs d - set acc))"
    by (simp add: psubset_card_mono)
qed simp

declare auth_walk.simps [simp del]

definition sel_auth_tree :: "string list \<Rightarrow> db \<Rightarrow> string list" where
  "sel_auth_tree pduIDs d = (let base = remdups (auth_refs d pduIDs) in auth_walk d base base)"

definition GetStateAndAuthChainIDs :: "string \<Rightarrow> string \<Rightarrow> (string list \<times> string list) op" where
  "GetStateAndAuthChainIDs roomID eventID =
     bindM (wrapM ''query state failed'' (db_query Ctx (\<lambda>d. map ev_ID (sel_state_events roomID d)))) (\<lambda>pduIDs.
       if length pduIDs = 0 then returnM ([], [])
       else bindM (wrapM ''query auth chain failed'' (db_query Ctx (sel_auth_tree pduIDs))) (\<lambda>authChainIDs.
         returnM (pduIDs, authChainIDs)))"

definition GetStateAndAuthChainEvents :: "string \<Rightarrow> string \<Rightarrow> (evento list \<times> evento list) op" where
  "GetStateAndAuthChainEvents roomID userID =
     bindM (wrapM ''query state failed'' (db_query Ctx (sel_state_events roomID))) (\<lambda>pdus.
       if length pdus = 0 then returnM ([], [])
       else bindM (wrapM ''query auth chain events failed'' (db_query Ctx (\<lambda>d.
              filter (\<lambda>e. ev_ID e \<in> set (sel_auth_tree (map ev_ID pdus) d)) (t_Evento d)))) (\<lambda>authChain.
         returnM (pdus, authChain)))"

subsection \<open>Receipts and typing\<close>

definition SaveReceipt :: "string \<Rightarrow> string \<Rightarrow> string \<Rightarrow> string \<Rightarrow> int \<Rightarrow> unit op" where
  "SaveReceipt userID roomID receiptType eventID ts =
     wrapM ''failed to execute upsert read receipt query'' (db_exec Ctx (upsert_Receipt roomID userID eventID ts))"

definition SaveTypingState :: "string \<Rightarrow> string \<Rightarrow> bool \<Rightarrow> int \<Rightarrow> unit op" where
  "SaveTypingState roomID userID isTyping expiresAt =
     wrapM ''failed to upsert typing state'' (db_exec Ctx (upsert_Typing roomID userID isTyping expiresAt))"

end
