(* ===== verification/Usuario_Storage.thy ===== *)
theory Usuario_Storage
  imports Evento_Storage
begin

text \<open>
  \<^verbatim>\<open>internal/infrastructure/postgres/usuario_storage.go\<close>: accounts, profiles, account data and the
  invitations of a user.
\<close>

record Usuario =
  u_ID :: string
  u_LocalPart :: string
  u_SenhaHash :: string
  u_DataCriacao :: int

record Profile =
  p_IDUsuario :: string
  p_DisplayName :: "string option"
  p_AvatarURL :: "string option"

record AccountData =
  a_IDUsuario :: string
  a_IDCanal :: string
  a_Tipo :: string
  a_Content :: raw

definition usuario_of_row :: "usuario_row \<Rightarrow> Usuario" where
  "usuario_of_row r =
     \<lparr>u_ID = us_id r, u_LocalPart = us_localpart r, u_SenhaHash = us_senha_hash r,
      u_DataCriacao = us_created_at r\<rparr>"

definition profile_of_row :: "profile_row \<Rightarrow> Profile" where
  "profile_of_row r =
     \<lparr>p_IDUsuario = pf_usuario r, p_DisplayName = Some (pf_nome r), p_AvatarURL = pf_foto r\<rparr>"

definition account_of_row :: "account_row \<Rightarrow> AccountData" where
  "account_of_row r =
     \<lparr>a_IDUsuario = ac_usuario r, a_IDCanal = ac_canal r, a_Tipo = ac_tipo r, a_Content = Some (ac_content r)\<rparr>"

definition CreateUsuarioAndProfile :: "ctx \<Rightarrow> Usuario \<Rightarrow> Usuario op" where
  "CreateUsuarioAndProfile c userProps =
     (let row = \<lparr>us_id = u_ID userProps, us_localpart = u_LocalPart userProps,
                 us_senha_hash = u_SenhaHash userProps, us_created_at = u_DataCriacao userProps\<rparr>
      in bindM (wrapM ''failed to create usuario'' (db_exec c (insert_Usuario row))) (\<lambda>_.
         bindM (wrapM ''failed to create profile'' (db_exec c (insert_Profile (us_id row) ''''))) (\<lambda>_.
           returnM (usuario_of_row row))))"

definition GetUsuarioByID :: "ctx \<Rightarrow> string \<Rightarrow> Usuario op" where
  "GetUsuarioByID c userID =
     bindM (wrapM ''failed to get usuario'' (db_query c (\<lambda>d. find (\<lambda>r. us_id r = userID) (t_Usuario d)))) (\<lambda>row.
       case row of None \<Rightarrow> failM ErrNotFound | Some r \<Rightarrow> returnM (usuario_of_row r))"

definition GetProfileByID :: "ctx \<Rightarrow> string \<Rightarrow> Profile option op" where
  "GetProfileByID c userID =
     bindM (wrapM ''failed to get profile'' (db_query c (\<lambda>d. find (\<lambda>r. pf_usuario r = userID) (t_Profile d)))) (\<lambda>row.
       returnM (map_option profile_of_row row))"

definition Storage_UpdateProfile :: "ctx \<Rightarrow> Profile \<Rightarrow> unit op" where
  "Storage_UpdateProfile c profile =
     wrapM ''failed to update profile''
       (db_exec c (update_Profile (p_IDUsuario profile) (p_DisplayName profile) (p_AvatarURL profile)))"

text \<open>
  \<open>ilike s p\<close> is PostgreSQL's \<open>s ILIKE p\<close>, whose letters without case follow the locale of the database.
  The rooms in the filter are not used.
\<close>

record SearchFilter =
  sf_IDCanais :: "string list"
  sf_Term :: string
  sf_Limit :: int
  sf_NextToken :: string

definition pattern_of :: "string \<Rightarrow> string" where
  "pattern_of term = CHR ''%'' # term @ ''%''"

definition Storage_SearchProfiles :: "(string \<Rightarrow> string \<Rightarrow> bool) \<Rightarrow> SearchFilter \<Rightarrow> Profile list op" where
  "Storage_SearchProfiles ilike filt =
     (let pat = pattern_of (sf_Term filt);
          offset = (if sf_NextToken filt = '''' then 0
                    else case scan_int (sf_NextToken filt) of None \<Rightarrow> 0 | Some (n, _) \<Rightarrow> n)
      in wrapM ''failed to search profiles'' (getTxOrPool Ctx (\<lambda>d s.
           (case limit_offset (sf_Limit filt) offset
                (filter (\<lambda>r. ilike (pf_nome r) pat \<or> ilike (pf_usuario r) pat) (t_Profile d)) of
              Inl e \<Rightarrow> Inl e
            | Inr rows \<Rightarrow> Inr (map profile_of_row rows, d), s))))"

definition direct_content :: "json" where
  "direct_content = JObj [(''friend'', JStr ''true'')]"

definition AddDirectMessage :: "ctx \<Rightarrow> string \<Rightarrow> string \<Rightarrow> string \<Rightarrow> unit op" where
  "AddDirectMessage c senderID receiverID roomID =
     wrapM ''failed to add direct message'' (db_exec c (insert_AccountData
       \<lparr>ac_usuario = senderID, ac_canal = roomID, ac_tipo = ''m.direct'', ac_content = direct_content\<rparr>))"

definition SaveAccountData :: "ctx \<Rightarrow> AccountData \<Rightarrow> unit op" where
  "SaveAccountData c account =
     wrapM ''failed to save account data''
       (db_exec c (upsert_AccountData (a_IDUsuario account) (a_IDCanal account) (a_Tipo account) (a_Content account)))"

definition GetAccountData :: "ctx \<Rightarrow> string \<Rightarrow> string \<Rightarrow> string \<Rightarrow> AccountData option op" where
  "GetAccountData c userID roomID tipo =
     bindM (wrapM ''failed to get account data''
       (db_query c (\<lambda>d. find (\<lambda>r. account_key r = (userID, roomID, tipo)) (t_AccountData d)))) (\<lambda>row.
       returnM (map_option account_of_row row))"

text \<open>The query has no condition on the room: rows of every room are returned.\<close>

definition GetGlobalAccountData :: "ctx \<Rightarrow> string \<Rightarrow> AccountData list op" where
  "GetGlobalAccountData c userID =
     wrapM ''failed to get global account data'' (db_query c (\<lambda>d.
       map account_of_row (filter (\<lambda>r. ac_usuario r = userID) (t_AccountData d))))"

definition GetAccountDataOfCanal :: "ctx \<Rightarrow> string \<Rightarrow> string \<Rightarrow> AccountData list op" where
  "GetAccountDataOfCanal c userID canalID =
     wrapM ''failed to get account data of canal'' (db_query c (\<lambda>d.
       map account_of_row (filter (\<lambda>r. ac_usuario r = userID \<and> ac_canal r = canalID) (t_AccountData d))))"

definition sel_invites :: "string \<Rightarrow> int \<Rightarrow> db \<Rightarrow> evento list" where
  "sel_invites userID pos d =
     by_stream (map no_refs (filter (\<lambda>e. ev_StreamOrdering e > pos)
       (concat (map (\<lambda>m. case sel_Evento (mb_evento m) d of None \<Rightarrow> [] | Some e \<Rightarrow> [e])
          (filter (\<lambda>m. mb_usuario m = userID \<and> mb_type m = ''invite'') (t_Membership d))))))"

definition GetInviteEventsSince :: "ctx \<Rightarrow> string \<Rightarrow> SyncToken \<Rightarrow> evento list op" where
  "GetInviteEventsSince c userID since =
     wrapM ''failed to get invite events since'' (db_query c (sel_invites userID (TimelinePosition since)))"

end
