(* ===== verification/Federation_Client.thy ===== *)
theory Federation_Client
  imports Evento_Storage
begin

text \<open>
  The outgoing half of federation: \<open>ResolveServerName\<close> of \<^verbatim>\<open>internal/util/fed.go\<close>, the Redis queues of
  \<^verbatim>\<open>internal/infrastructure/redis_infra/federation_cache.go\<close>, and from
  \<^verbatim>\<open>internal/usecase/federation_service.go\<close> the delivery of events and the requests sent to other
  servers. A remote server is the oracle \<open>w_http\<close>; the request sent is recorded in \<open>w_sent\<close>.
\<close>

subsection \<open>Server names\<close>

definition trim_suffix :: "string \<Rightarrow> string \<Rightarrow> string" where
  "trim_suffix s x = (if has_prefix (rev s) (rev x) then take (length s - length x) s else s)"

definition well_known_server :: "http_response \<Rightarrow> string option" where
  "well_known_server rs =
     (if rs_status rs \<noteq> 200 then None
      else (case struct_members (rs_body rs) of
              Inl _ \<Rightarrow> None
            | Inr ms \<Rightarrow>
                (let (m, bad) = dec_string (field_vals ''m.server'' ms)
                 in if bad \<or> m = '''' then None else Some m)))"

definition ResolveServerName :: "string \<Rightarrow> string op" where
  "ResolveServerName serverName =
     (if CHR '':'' \<in> set serverName then returnM serverName
      else bindM (catchM (http_do \<lparr>rq_method = ''GET'',
             rq_url = ''http://'' @ serverName @ ''/.well-known/matrix/server'', rq_auth = '''', rq_body = None\<rparr>))
        (\<lambda>r. case (case r of Inl _ \<Rightarrow> None | Inr rs \<Rightarrow> well_known_server rs) of
               Some m \<Rightarrow> returnM m
             | None \<Rightarrow>
                 bindM (getsM (\<lambda>w. w_srv w serverName)) (\<lambda>srv.
                   returnM (case srv of
                       Inr ((target, port) # _) \<Rightarrow> trim_suffix target ''.'' @ CHR '':'' # string_of_int port
                     | _ \<Rightarrow> serverName @ '':8448''))))"

definition buildFederationURL :: "string \<Rightarrow> string \<Rightarrow> string" where
  "buildFederationURL targetHost uri = ''http://'' @ targetHost @ uri"

subsection \<open>Redis\<close>

definition PushOutboundQueue :: "evento \<Rightarrow> unit op" where
  "PushOutboundQueue event =
     wrapM ''failed to push to redis outbound queue''
       (redis_call (\<lambda>w. ((), w\<lparr>w_outbound := w_outbound w @ [evento_json event]\<rparr>)))"

text \<open>\<open>None\<close>: the timeout passed with an empty queue.\<close>

definition PopOutboundQueue :: "evento option op" where
  "PopOutboundQueue =
     bindM (wrapM ''redis BLPOP failed'' (redis_call (\<lambda>w.
       case w_outbound w of [] \<Rightarrow> (None, w) | v # vs \<Rightarrow> (Some v, w\<lparr>w_outbound := vs\<rparr>)))) (\<lambda>r.
       case r of
         None \<Rightarrow> returnM None
       | Some v \<Rightarrow>
           (case evento_of_json (Some v) of
              Inl e \<Rightarrow> failM (Wrapf ''failed to unmarshal event from queue'' e)
            | Inr ev \<Rightarrow> returnM (Some ev)))"

text \<open>A list whose time has passed is gone. \<open>RPUSH\<close> keeps the time of the list, \<open>EXPIRE\<close> sets it anew.\<close>

definition retry_entry :: "string \<Rightarrow> world \<Rightarrow> json list \<times> int option" where
  "retry_entry destServer w = (case map_of (w_retries w) destServer of
       Some (vs, expires) \<Rightarrow>
         (case expires of
            Some t \<Rightarrow> if w_clock w (w_ticks w) < t then (vs, expires) else ([], None)
          | None \<Rightarrow> (vs, None))
     | None \<Rightarrow> ([], None))"

definition retry_list :: "string \<Rightarrow> world \<Rightarrow> json list" where
  "retry_list destServer w = fst (retry_entry destServer w)"

definition SavePendingRetry :: "string \<Rightarrow> evento \<Rightarrow> int \<Rightarrow> unit op" where
  "SavePendingRetry destServer event ttl =
     wrapM ''redis pipeline failed on SavePendingRetry'' (redis_call (\<lambda>w.
       ((), w\<lparr>w_retries := AList.update destServer
         (retry_list destServer w @ [evento_json event],
          if ttl > 0 then Some (w_clock w (w_ticks w) + ttl) else snd (retry_entry destServer w)) (w_retries w)\<rparr>)))"

definition decode_all :: "json list \<Rightarrow> evento list" where
  "decode_all vs = concat (map (\<lambda>v. case evento_of_json (Some v) of Inl _ \<Rightarrow> [] | Inr ev \<Rightarrow> [ev]) vs)"

definition GetAndClearPendingRetries :: "string \<Rightarrow> evento list op" where
  "GetAndClearPendingRetries destServer =
     wrapM ''redis tx failed on GetAndClearPendingRetries'' (redis_call (\<lambda>w.
       (decode_all (retry_list destServer w), w\<lparr>w_retries := AList.delete destServer (w_retries w)\<rparr>)))"

subsection \<open>Delivery\<close>

definition QueueOutgoing :: "evento \<Rightarrow> unit op" where
  "QueueOutgoing event = internalM (wrapM ''Failed to push to outbound queue'' (PushOutboundQueue event))"

text \<open>A signed request to \<open>host\<close>; \<open>signed\<close> is the content the signature covers.\<close>

definition fed_send ::
    "server \<Rightarrow> string \<Rightarrow> string \<Rightarrow> string \<Rightarrow> string \<Rightarrow> json option \<Rightarrow> json option \<Rightarrow> http_response op" where
  "fed_send sv mthd host dest uri body signed =
     bindM (liftE (case body of
         None \<Rightarrow> Inr None
       | Some b \<Rightarrow> (case CanonicalJSON (sv_crypto sv) b of
             Inl e \<Rightarrow> Inl (Wrapf ''failed to canonicalize payload'' e) | Inr v \<Rightarrow> Inr (Some v)))) (\<lambda>payload.
     bindM (wrapM ''failed to sign request'' (liftE (GenerateS2SAuthHeader (sv_crypto sv) (sv_serverName sv)
         (sv_keyID sv) (sv_privateKey sv) mthd uri dest signed))) (\<lambda>authHeader.
     wrapM ''failed to contact remote server'' (http_do
       \<lparr>rq_method = mthd, rq_url = buildFederationURL host uri, rq_auth = authHeader, rq_body = payload\<rparr>)))"

definition fed_call ::
    "server \<Rightarrow> string \<Rightarrow> string \<Rightarrow> string \<Rightarrow> json option \<Rightarrow> json option \<Rightarrow> http_response op" where
  "fed_call sv mthd dest uri body signed =
     bindM (ResolveServerName dest) (\<lambda>host. fed_send sv mthd host dest uri body signed)"

definition sendTransaction :: "server \<Rightarrow> string \<Rightarrow> string \<Rightarrow> evento \<Rightarrow> unit op" where
  "sendTransaction sv targetHost dest event =
     bindM nowM (\<lambda>now.
     (let uri = ''/_matrix/federation/v1/send/'' @ string_of_int now;
          txnPayload = JObj [(''origin'', JStr (sv_serverName sv)),
                             (''origin_server_ts'', JNum (ev_OrigemServidorTS event)),
                             (''pdus'', JArr [evento_json event])]
      in bindM (fed_send sv ''PUT'' targetHost dest uri (Some txnPayload) (Some txnPayload)) (\<lambda>resp.
           if rs_status resp < 200 \<or> rs_status resp \<ge> 300 then failM (Errorf ''unexpected status code'')
           else returnM ())))"

definition week :: int where
  "week = 7 * 24 * 60 * 60 * 1000"

definition storePendingRetry :: "string \<Rightarrow> evento \<Rightarrow> unit op" where
  "storePendingRetry dest event =
     bindM (catchM (SavePendingRetry dest event week)) (\<lambda>_. returnM ())"

text \<open>\<open>for i := range maxRetries\<close>; the waits between the attempts take no part in the model.\<close>

fun send_attempts :: "server \<Rightarrow> string \<Rightarrow> string \<Rightarrow> evento \<Rightarrow> nat \<Rightarrow> unit op" where
  "send_attempts sv targetHost dest event 0 = storePendingRetry dest event"
| "send_attempts sv targetHost dest event (Suc n) =
     bindM (catchM (sendTransaction sv targetHost dest event)) (\<lambda>r.
       case r of Inr _ \<Rightarrow> returnM () | Inl _ \<Rightarrow> send_attempts sv targetHost dest event n)"

definition sendWithRetry :: "server \<Rightarrow> string \<Rightarrow> evento \<Rightarrow> unit op" where
  "sendWithRetry sv dest event =
     bindM (ResolveServerName dest) (\<lambda>targetHost. send_attempts sv targetHost dest event 5)"

definition FlushPendingRetries :: "string \<Rightarrow> unit op" where
  "FlushPendingRetries dest =
     bindM (catchM (GetAndClearPendingRetries dest)) (\<lambda>r.
       case r of Inl _ \<Rightarrow> returnM () | Inr events \<Rightarrow> forM events (\<lambda>event. spawn (TaskSend dest event)))"

text \<open>\<open>content["membership"].(string)\<close>.\<close>

definition membership_text :: "raw \<Rightarrow> string option" where
  "membership_text r = (case r of
       Some (JObj ms) \<Rightarrow> (case member ''membership'' ms of Some (JStr m) \<Rightarrow> Some m | _ \<Rightarrow> None)
     | _ \<Rightarrow> None)"

definition target_domains :: "evento \<Rightarrow> string list" where
  "target_domains event =
     (case (ev_Tipo event = ''m.room.member'', ev_StateKey event, membership_text (ev_Content event)) of
        (True, Some k, Some m) \<Rightarrow>
          if m \<in> {''invite'', ''leave'', ''ban'', ''knock''} \<and> ExtractDomainFromUserID k \<noteq> ''''
          then [ExtractDomainFromUserID k] else []
      | _ \<Rightarrow> [])"

definition extractDestionations :: "server \<Rightarrow> evento \<Rightarrow> string list op" where
  "extractDestionations sv event =
     bindM (catchM (GetCanalParticipatingServers (ev_CanalID event))) (\<lambda>r.
       (let servers = (case r of Inl _ \<Rightarrow> [] | Inr s \<Rightarrow> s);
            destinations = remdups (servers @ target_domains event)
        in returnM (filter (\<lambda>dom. dom \<noteq> '''' \<and> dom \<noteq> sv_serverName sv) destinations)))"

text \<open>One round of the worker's loop.\<close>

definition workerRound :: "server \<Rightarrow> unit op" where
  "workerRound sv =
     bindM (catchM PopOutboundQueue) (\<lambda>r.
       case r of
         Inl _ \<Rightarrow> returnM ()
       | Inr None \<Rightarrow> returnM ()
       | Inr (Some event) \<Rightarrow>
           bindM (extractDestionations sv event) (\<lambda>destinations.
             forM (filter (\<lambda>dest. dest \<noteq> sv_serverName sv) destinations)
               (\<lambda>dest. spawn (TaskSend dest event))))"

text \<open>To-device messages for the users of another server: one attempt, every error is only logged.\<close>

definition messages_json :: "messages \<Rightarrow> json" where
  "messages_json messages = JObj (sort_members (map (\<lambda>(u, ds). (u, JObj (sort_members ds))) messages))"

definition SendToDeviceCall :: "server \<Rightarrow> string \<Rightarrow> string \<Rightarrow> string \<Rightarrow> messages \<Rightarrow> unit op" where
  "SendToDeviceCall sv remoteServer sender eventType messages =
     bindM (ResolveServerName remoteServer) (\<lambda>targetHost.
     bindM nowM (\<lambda>now.
     bindM nowM (\<lambda>ts.
     (let txnID = string_of_int now;
          uri = ''/_matrix/federation/v1/send/'' @ txnID;
          eduContent = JObj [(''message_id'', JStr txnID), (''messages'', messages_json messages),
                             (''sender'', JStr sender), (''type'', JStr eventType)];
          txnPayload = JObj [(''origin'', JStr (sv_serverName sv)), (''origin_server_ts'', JNum ts), (''pdus'', JArr []),
                             (''edus'', JArr [JObj [(''edu_type'', JStr ''m.direct_to_device''), (''content'', eduContent)]])]
      in bindM (catchM (fed_send sv ''PUT'' targetHost remoteServer uri (Some txnPayload) (Some txnPayload))) (\<lambda>_. returnM ())))))"

text \<open>The body of a goroutine the service starts.\<close>

definition run_task :: "server \<Rightarrow> task \<Rightarrow> unit op" where
  "run_task sv t = (case t of
       TaskSend dest event \<Rightarrow> sendWithRetry sv dest event
     | TaskFlush dest \<Rightarrow> FlushPendingRetries dest
     | TaskToDevice dest sender eventType messages \<Rightarrow> SendToDeviceCall sv dest sender eventType messages)"

subsection \<open>Requests to other servers\<close>

definition dec_eventos :: "json list \<Rightarrow> evento list \<times> bool" where
  "dec_eventos vs =
     (case dec_raw vs of
        None \<Rightarrow> ([], False)
      | Some JNull \<Rightarrow> ([], False)
      | Some (JArr es) \<Rightarrow>
          (map (\<lambda>e. case evento_of_json (Some e) of Inl _ \<Rightarrow> zeroEvento | Inr ev \<Rightarrow> ev) es,
           list_ex (\<lambda>e. case evento_of_json (Some e) of Inl _ \<Rightarrow> True | Inr _ \<Rightarrow> False) es)
      | Some _ \<Rightarrow> ([], True))"

definition decodeMakeJoin :: "raw \<Rightarrow> (evento \<times> string) decoded" where
  "decodeMakeJoin body = (case struct_members body of
       Inl e \<Rightarrow> Inl e
     | Inr ms \<Rightarrow>
         (let (version, bad) = dec_string (field_vals ''room_version'' ms)
          in if bad then Inl type_error
             else (case dec_raw (field_vals ''event'' ms) of
                     None \<Rightarrow> Inr (zeroEvento, version)
                   | Some v \<Rightarrow> (case evento_of_json (Some v) of Inl e \<Rightarrow> Inl e | Inr ev \<Rightarrow> Inr (ev, version)))))"

definition MakeJoinCall :: "server \<Rightarrow> string \<Rightarrow> string \<Rightarrow> string \<Rightarrow> (evento \<times> string) op" where
  "MakeJoinCall sv remoteServer roomID userID =
     (let uri = ''/_matrix/federation/v1/make_join/'' @ roomID @ CHR ''/'' # userID @ ''?ver=11''
      in bindM (fed_call sv ''GET'' remoteServer uri None None) (\<lambda>resp.
           if rs_status resp \<noteq> 200 then failM (Errorf ''remote server rejected make_join'')
           else liftE (decodeMakeJoin (rs_body resp))))"

record SendJoinResponse =
  sj_StateEvents :: "evento list"
  sj_AuthChain :: "evento list"

definition decodeSendJoin :: "raw \<Rightarrow> SendJoinResponse decoded" where
  "decodeSendJoin body = (case struct_members body of
       Inl e \<Rightarrow> Inl e
     | Inr ms \<Rightarrow>
         (let (st, b1) = dec_eventos (field_vals ''state'' ms);
              (chain, b2) = dec_eventos (field_vals ''auth_chain'' ms)
          in if b1 \<or> b2 then Inl type_error else Inr \<lparr>sj_StateEvents = st, sj_AuthChain = chain\<rparr>))"

definition sendJoinPayload :: "server \<Rightarrow> string \<Rightarrow> evento \<Rightarrow> json" where
  "sendJoinPayload sv roomID signedEvent =
     JObj [(''content'', raw_json (ev_Content signedEvent)),
           (''origin'', JStr (sv_serverName sv)),
           (''origin_server_ts'', JNum (ev_OrigemServidorTS signedEvent)),
           (''sender'', JStr (ev_Sender signedEvent)),
           (''state_key'', JStr (case ev_StateKey signedEvent of Some k \<Rightarrow> k | None \<Rightarrow> '''')),
           (''type'', JStr ''m.room.member''),
           (''room_id'', JStr roomID),
           (''event_id'', JStr (ev_ID signedEvent)),
           (''signatures'', raw_json (ev_Signatures signedEvent)),
           (''depth'', JNum (ev_Depth signedEvent)),
           (''prev_events'', JArr (map JStr (ev_PrevEventos signedEvent))),
           (''auth_events'', JArr (map JStr (ev_AuthEventos signedEvent)))]"

text \<open>The signature covers the event, not the payload that is sent.\<close>

definition SendJoinCall :: "server \<Rightarrow> string \<Rightarrow> string \<Rightarrow> evento \<Rightarrow> SendJoinResponse op" where
  "SendJoinCall sv remoteServer roomID signedEvent =
     (let uri = ''/_matrix/federation/v1/send_join/'' @ roomID @ CHR ''/'' # ev_ID signedEvent
      in bindM (fed_call sv ''PUT'' remoteServer uri (Some (sendJoinPayload sv roomID signedEvent))
                  (Some (evento_json signedEvent))) (\<lambda>resp.
           if rs_status resp \<noteq> 200 then failM (Errorf ''remote server rejected send_join'')
           else liftE (decodeSendJoin (rs_body resp))))"

definition stripped_json :: "StrippedEvento \<Rightarrow> json" where
  "stripped_json s =
     JObj ([(''type'', JStr (se_Tipo s)), (''content'', raw_json (se_Content s))] @
           (case se_StateKey s of None \<Rightarrow> [] | Some k \<Rightarrow> [(''state_key'', JStr k)]) @
           [(''sender'', JStr (se_Sender s))])"

definition decodeErrcode :: "raw \<Rightarrow> string" where
  "decodeErrcode body = (case struct_members body of
       Inl _ \<Rightarrow> '''' | Inr ms \<Rightarrow> fst (dec_string (field_vals ''errcode'' ms)))"

definition decodeSigned :: "raw \<Rightarrow> evento decoded" where
  "decodeSigned body = (case struct_members body of
       Inl e \<Rightarrow> Inl (Wrapf ''failed to decode invite response'' e)
     | Inr ms \<Rightarrow>
         (case evento_of_json (dec_raw (field_vals ''event'' ms)) of
            Inl e \<Rightarrow> Inl (Wrapf ''failed to parse signed invite event'' e)
          | Inr ev \<Rightarrow> Inr ev))"

definition SendInviteCall ::
    "server \<Rightarrow> string \<Rightarrow> string \<Rightarrow> string \<Rightarrow> evento \<Rightarrow> StrippedEvento list \<Rightarrow> evento op" where
  "SendInviteCall sv remoteServer roomID roomVersion inviteEvent inviteRoomState =
     bindM (ResolveServerName remoteServer) (\<lambda>targetHost.
     bindM (wrapM ''failed to serialize invite event''
              (liftE (CanonicalJSON (sv_crypto sv) (evento_json inviteEvent)))) (\<lambda>eventBytes.
     (let uri = ''/_matrix/federation/v2/invite/'' @ roomID @ CHR ''/'' # ev_ID inviteEvent;
          payload = JObj [(''room_version'', JStr roomVersion), (''event'', eventBytes),
                          (''invite_room_state'', JArr (map stripped_json inviteRoomState))]
      in bindM (fed_send sv ''PUT'' targetHost remoteServer uri (Some payload) (Some payload)) (\<lambda>resp.
           if rs_status resp \<noteq> 200 then
             (if decodeErrcode (rs_body resp) = ''M_UNSUPPORTED_ROOM_VERSION'' then failM ErrIncompatibleRoomVersion
              else failM (Errorf ''remote server rejected invite''))
           else liftE (decodeSigned (rs_body resp))))))"

end
