(* ===== verification/Device_Database.thy ===== *)
theory Device_Database
  imports Database
begin

text \<open>
  The SQL statements on devices, presence, media, key backups, end-to-end keys and to-device messages.
  A parameter compared with a \<open>UUID\<close> column is read as one first.
\<close>

subsection \<open>UUID input\<close>

text \<open>
  PostgreSQL's \<open>uuid_in\<close>: 32 hexadecimal digits, a hyphen allowed after each group of four, optional
  braces around; the result is the canonical text. \<open>uuid_digits n s\<close> reads the last \<open>n\<close> bytes.
\<close>

definition is_hex :: "char \<Rightarrow> bool" where
  "is_hex c = (let n = of_char c :: nat in 48 \<le> n \<and> n \<le> 57 \<or> 65 \<le> n \<and> n \<le> 70 \<or> 97 \<le> n \<and> n \<le> 102)"

definition lower :: "char \<Rightarrow> char" where
  "lower c = (let n = of_char c :: nat in if 65 \<le> n \<and> n \<le> 90 then char_of (n + 32) else c)"

fun uuid_digits :: "nat \<Rightarrow> string \<Rightarrow> (string \<times> string) option" where
  "uuid_digits 0 s = Some ([], s)"
| "uuid_digits (Suc n) (a # b # s) =
     (if is_hex a \<and> is_hex b then
        (let s' = (case s of c # cs \<Rightarrow> if c = CHR ''-'' \<and> even n \<and> 0 < n then cs else s | [] \<Rightarrow> s)
         in map_option (\<lambda>(ds, rest). (lower a # lower b # ds, rest)) (uuid_digits n s'))
      else None)"
| "uuid_digits (Suc n) s = None"

definition uuid_text :: "string \<Rightarrow> string" where
  "uuid_text ds =
     take 8 ds @ CHR ''-'' # take 4 (drop 8 ds) @ CHR ''-'' # take 4 (drop 12 ds) @ CHR ''-'' #
     take 4 (drop 16 ds) @ CHR ''-'' # drop 20 ds"

definition uuid_in :: "string \<Rightarrow> string option" where
  "uuid_in s =
     (case s of
        [] \<Rightarrow> None
      | c # cs \<Rightarrow>
          if c = CHR ''{'' then
            (case uuid_digits 16 cs of Some (ds, rest) \<Rightarrow> if rest = ''}'' then Some (uuid_text ds) else None | None \<Rightarrow> None)
          else
            (case uuid_digits 16 s of Some (ds, rest) \<Rightarrow> if rest = [] then Some (uuid_text ds) else None | None \<Rightarrow> None))"

definition uuid_error :: "go_error" where
  "uuid_error = PgError ''invalid input syntax for type uuid''"

subsection \<open>Devices\<close>

text \<open>\<open>INSERT ... ON CONFLICT (id) DO UPDATE\<close>: all columns but the owner; refresh tokens are unique.\<close>

definition upsert_Dispositivo :: "dispositivo_row \<Rightarrow> db \<Rightarrow> go_error + db" where
  "upsert_Dispositivo r d =
     (if \<exists>x\<in>set (t_Dispositivo d). dv_refresh x = dv_refresh r \<and> dv_id x \<noteq> dv_id r then Inl unique_violation
      else if dv_id r \<notin> device_ids d \<and> dv_usuario r \<notin> usuario_ids d then Inl fk_violation
      else Inr (d\<lparr>t_Dispositivo :=
        upsert_row (\<lambda>x. dv_id x = dv_id r) (\<lambda>x. r\<lparr>dv_usuario := dv_usuario x\<rparr>) r (t_Dispositivo d)\<rparr>))"

definition update_Dispositivo :: "dispositivo_row \<Rightarrow> db \<Rightarrow> go_error + db" where
  "update_Dispositivo r d =
     (if dv_id r \<in> device_ids d \<and> (\<exists>x\<in>set (t_Dispositivo d). dv_refresh x = dv_refresh r \<and> dv_id x \<noteq> dv_id r)
      then Inl unique_violation
      else Inr (d\<lparr>t_Dispositivo :=
        map (\<lambda>x. if dv_id x = dv_id r then r\<lparr>dv_usuario := dv_usuario x\<rparr> else x) (t_Dispositivo d)\<rparr>))"

subsection \<open>Presence and media\<close>

definition upsert_Presence :: "presence_row \<Rightarrow> db \<Rightarrow> go_error + db" where
  "upsert_Presence r d =
     (if pr_usuario r \<notin> usuario_ids d then Inl fk_violation
      else Inr (d\<lparr>t_Presence := upsert_row (\<lambda>x. pr_usuario x = pr_usuario r) (\<lambda>_. r) r (t_Presence d)\<rparr>))"

definition insert_Midia :: "midia_row \<Rightarrow> db \<Rightarrow> go_error + db" where
  "insert_Midia r d =
     (if \<exists>x\<in>set (t_Midia d). mi_origin x = mi_origin r \<and> mi_id x = mi_id r then Inl unique_violation
      else Inr (d\<lparr>t_Midia := t_Midia d @ [r]\<rparr>))"

subsection \<open>Key backups\<close>

definition insert_VersaoBackup :: "nat \<Rightarrow> string \<Rightarrow> string \<Rightarrow> raw \<Rightarrow> int \<Rightarrow> string \<Rightarrow> int \<Rightarrow> db \<Rightarrow> go_error + db" where
  "insert_VersaoBackup n userID algorithm auth cnt etag now d =
     (case auth of
        None \<Rightarrow> Inl not_null_violation
      | Some a \<Rightarrow>
          if userID \<notin> usuario_ids d then Inl fk_violation
          else Inr (d\<lparr>t_VersaoBackup := t_VersaoBackup d @
            [\<lparr>vb_id = n, vb_usuario = userID, vb_algorithm = algorithm, vb_auth = jsonb a, vb_count = cnt,
              vb_etag = etag, vb_created = now\<rparr>]\<rparr>))"

definition chave_key :: "chave_row \<Rightarrow> nat \<times> string \<times> string" where
  "chave_key r = (cb_versao r, cb_canal r, cb_sessao r)"

text \<open>A version number that is no \<open>BIGSERIAL\<close> value is the key of no row.\<close>

definition has_versao :: "int \<Rightarrow> db \<Rightarrow> bool" where
  "has_versao v d \<longleftrightarrow> 0 \<le> v \<and> nat v \<in> vb_id ` set (t_VersaoBackup d)"

definition upsert_ChaveBackup :: "int \<Rightarrow> string \<Rightarrow> string \<Rightarrow> int \<Rightarrow> int \<Rightarrow> bool \<Rightarrow> raw \<Rightarrow> db \<Rightarrow> go_error + db" where
  "upsert_ChaveBackup v canal sessao first forwarded verified sessionData d =
     (case sessionData of
        None \<Rightarrow> Inl not_null_violation
      | Some j \<Rightarrow>
          if \<not> has_versao v d then Inl fk_violation
          else (let r = \<lparr>cb_versao = nat v, cb_canal = canal, cb_sessao = sessao, cb_first = first,
                         cb_forwarded = forwarded, cb_verified = verified, cb_data = jsonb j\<rparr>
                in Inr (d\<lparr>t_ChaveBackup := upsert_row (\<lambda>x. chave_key x = chave_key r) (\<lambda>_. r) r (t_ChaveBackup d)\<rparr>)))"

definition delete_ChaveBackup :: "int \<Rightarrow> db \<Rightarrow> go_error + db" where
  "delete_ChaveBackup v d = Inr (d\<lparr>t_ChaveBackup := filter (\<lambda>x. int (cb_versao x) \<noteq> v) (t_ChaveBackup d)\<rparr>)"

text \<open>\<open>(etag::bigint + 1)::text\<close>.\<close>

definition next_etag :: "string \<Rightarrow> go_error + string" where
  "next_etag etag =
     (case ParseInt etag of
        None \<Rightarrow> Inl (PgError ''invalid input syntax for type bigint'')
      | Some n \<Rightarrow> if in_int64 (n + 1) then Inr (string_of_int (n + 1)) else Inl (PgError ''bigint out of range''))"

definition count_keys :: "int \<Rightarrow> db \<Rightarrow> int" where
  "count_keys v d = int (length (filter (\<lambda>x. int (cb_versao x) = v) (t_ChaveBackup d)))"

text \<open>\<open>UPDATE VersaoBackup SET count, etag ... RETURNING\<close>: \<open>None\<close> when no row was updated.\<close>

definition update_VersaoBackup :: "int \<Rightarrow> int \<Rightarrow> db \<Rightarrow> go_error + (int \<times> string) option \<times> db" where
  "update_VersaoBackup v cnt d =
     (case find (\<lambda>r. int (vb_id r) = v) (t_VersaoBackup d) of
        None \<Rightarrow> Inr (None, d)
      | Some r \<Rightarrow>
          (case next_etag (vb_etag r) of
             Inl e \<Rightarrow> Inl e
           | Inr etag \<Rightarrow>
               Inr (Some (cnt, etag), d\<lparr>t_VersaoBackup :=
                 map (\<lambda>x. if int (vb_id x) = v then x\<lparr>vb_count := cnt, vb_etag := etag\<rparr> else x) (t_VersaoBackup d)\<rparr>)))"

subsection \<open>Device keys\<close>

definition upsert_Chave_Dispositivo :: "string \<Rightarrow> string list \<Rightarrow> raw \<Rightarrow> raw \<Rightarrow> db \<Rightarrow> go_error + db" where
  "upsert_Chave_Dispositivo deviceID algorithms ks sigs d =
     (case uuid_in deviceID of
        None \<Rightarrow> Inl uuid_error
      | Some dev \<Rightarrow>
          (case (ks, sigs) of
             (Some k, Some s) \<Rightarrow>
               if dev \<notin> device_ids d then Inl fk_violation
               else (let r = \<lparr>ck_device = dev, ck_algorithms = algorithms, ck_keys = jsonb k, ck_signatures = jsonb s\<rparr>
                     in Inr (d\<lparr>t_Chave_Dispositivo :=
                          upsert_row (\<lambda>x. ck_device x = dev) (\<lambda>_. r) r (t_Chave_Dispositivo d)\<rparr>))
           | _ \<Rightarrow> Inl not_null_violation))"

definition set_device_signatures :: "string \<Rightarrow> json \<Rightarrow> db \<Rightarrow> go_error + db" where
  "set_device_signatures deviceID sigs d =
     (case uuid_in deviceID of
        None \<Rightarrow> Inl uuid_error
      | Some dev \<Rightarrow> Inr (d\<lparr>t_Chave_Dispositivo :=
          map (\<lambda>x. if ck_device x = dev then x\<lparr>ck_signatures := jsonb sigs\<rparr> else x) (t_Chave_Dispositivo d)\<rparr>))"

text \<open>One-time keys: an insertion ignores a key id the device already has.\<close>

definition insert_Chave_Uso_Unico :: "nat \<Rightarrow> string \<Rightarrow> string \<Rightarrow> string \<Rightarrow> raw \<Rightarrow> db \<Rightarrow> go_error + db" where
  "insert_Chave_Uso_Unico n deviceID keyID algorithm keyData d =
     (case uuid_in deviceID of
        None \<Rightarrow> Inl uuid_error
      | Some dev \<Rightarrow>
          (case keyData of
             None \<Rightarrow> Inl not_null_violation
           | Some k \<Rightarrow>
               if \<exists>x\<in>set (t_Chave_Uso_Unico d). ot_device x = dev \<and> ot_key x = keyID then Inr d
               else if dev \<notin> device_ids d then Inl fk_violation
               else Inr (d\<lparr>t_Chave_Uso_Unico := t_Chave_Uso_Unico d @
                 [\<lparr>ot_id = n, ot_device = dev, ot_key = keyID, ot_algorithm = algorithm, ot_data = jsonb k\<rparr>]\<rparr>)))"

definition otks_of :: "string \<Rightarrow> string \<Rightarrow> db \<Rightarrow> otk_row list" where
  "otks_of dev algorithm d = filter (\<lambda>x. ot_device x = dev \<and> ot_algorithm x = algorithm) (t_Chave_Uso_Unico d)"

text \<open>\<open>DELETE ... WHERE id = (SELECT id ... ORDER BY id LIMIT 1) RETURNING\<close>.\<close>

definition claim_Chave_Uso_Unico :: "string \<Rightarrow> string \<Rightarrow> db \<Rightarrow> go_error + otk_row option \<times> db" where
  "claim_Chave_Uso_Unico deviceID algorithm d =
     (case uuid_in deviceID of
        None \<Rightarrow> Inl uuid_error
      | Some dev \<Rightarrow>
          (case sort_key ot_id (otks_of dev algorithm d) of
             [] \<Rightarrow> Inr (None, d)
           | r # _ \<Rightarrow> Inr (Some r, d\<lparr>t_Chave_Uso_Unico :=
                filter (\<lambda>x. ot_id x \<noteq> ot_id r) (t_Chave_Uso_Unico d)\<rparr>)))"

definition upsert_Chave_Fallback :: "string \<Rightarrow> string \<Rightarrow> string \<Rightarrow> raw \<Rightarrow> db \<Rightarrow> go_error + db" where
  "upsert_Chave_Fallback deviceID algorithm keyID keyData d =
     (case uuid_in deviceID of
        None \<Rightarrow> Inl uuid_error
      | Some dev \<Rightarrow>
          (case keyData of
             None \<Rightarrow> Inl not_null_violation
           | Some k \<Rightarrow>
               if dev \<notin> device_ids d then Inl fk_violation
               else (let r = \<lparr>fb_device = dev, fb_algorithm = algorithm, fb_key = keyID, fb_data = jsonb k, fb_usada = False\<rparr>
                     in Inr (d\<lparr>t_Chave_Fallback :=
                          upsert_row (\<lambda>x. fb_device x = dev \<and> fb_algorithm x = algorithm) (\<lambda>_. r) r (t_Chave_Fallback d)\<rparr>))))"

definition claim_Chave_Fallback :: "string \<Rightarrow> string \<Rightarrow> db \<Rightarrow> go_error + fallback_row option \<times> db" where
  "claim_Chave_Fallback deviceID algorithm d =
     (case uuid_in deviceID of
        None \<Rightarrow> Inl uuid_error
      | Some dev \<Rightarrow>
          (case find (\<lambda>x. fb_device x = dev \<and> fb_algorithm x = algorithm) (t_Chave_Fallback d) of
             None \<Rightarrow> Inr (None, d)
           | Some r \<Rightarrow> Inr (Some (r\<lparr>fb_usada := True\<rparr>), d\<lparr>t_Chave_Fallback :=
                map (\<lambda>x. if fb_device x = dev \<and> fb_algorithm x = algorithm then x\<lparr>fb_usada := True\<rparr> else x)
                  (t_Chave_Fallback d)\<rparr>)))"

subsection \<open>Cross-signing keys\<close>

definition upsert_Cross :: "string \<Rightarrow> string \<Rightarrow> string \<Rightarrow> raw \<Rightarrow> json \<Rightarrow> db \<Rightarrow> go_error + db" where
  "upsert_Cross userID usage keyID ks sigs d =
     (case ks of
        None \<Rightarrow> Inl not_null_violation
      | Some k \<Rightarrow>
          if usage \<notin> {''master'', ''self_signing'', ''user_signing''} then Inl (PgError ''check_violation'')
          else if userID \<notin> usuario_ids d then Inl fk_violation
          else (let r = \<lparr>cs_usuario = userID, cs_usage = usage, cs_key = keyID, cs_public = jsonb k, cs_signatures = jsonb sigs\<rparr>
                in Inr (d\<lparr>t_Chave_Cross_Signing :=
                     upsert_row (\<lambda>x. cs_usuario x = userID \<and> cs_usage x = usage) (\<lambda>_. r) r (t_Chave_Cross_Signing d)\<rparr>)))"

definition set_cross_signatures :: "string \<Rightarrow> string \<Rightarrow> json \<Rightarrow> db \<Rightarrow> go_error + db" where
  "set_cross_signatures userID keyID sigs d =
     Inr (d\<lparr>t_Chave_Cross_Signing :=
       map (\<lambda>x. if cs_usuario x = userID \<and> cs_key x = keyID then x\<lparr>cs_signatures := jsonb sigs\<rparr> else x)
         (t_Chave_Cross_Signing d)\<rparr>)"

subsection \<open>To-device messages\<close>

definition insert_ToDevice :: "nat \<Rightarrow> string \<Rightarrow> string \<Rightarrow> string \<Rightarrow> string \<Rightarrow> raw \<Rightarrow> db \<Rightarrow> go_error + db" where
  "insert_ToDevice n userID deviceID sender tipo content d =
     (case uuid_in deviceID of
        None \<Rightarrow> Inl uuid_error
      | Some dev \<Rightarrow>
          (case content of
             None \<Rightarrow> Inl not_null_violation
           | Some c \<Rightarrow>
               if userID \<notin> usuario_ids d \<or> dev \<notin> device_ids d then Inl fk_violation
               else Inr (d\<lparr>t_Mensagem_ToDevice := t_Mensagem_ToDevice d @
                 [\<lparr>td_id = n, td_usuario = userID, td_device = dev, td_sender = sender, td_tipo = tipo,
                   td_content = jsonb c\<rparr>]\<rparr>)))"

definition delete_ToDevice :: "string \<Rightarrow> string \<Rightarrow> int \<Rightarrow> db \<Rightarrow> go_error + db" where
  "delete_ToDevice userID deviceID upTo d =
     (case uuid_in deviceID of
        None \<Rightarrow> Inl uuid_error
      | Some dev \<Rightarrow> Inr (d\<lparr>t_Mensagem_ToDevice :=
          filter (\<lambda>m. \<not> (td_usuario m = userID \<and> td_device m = dev \<and> int (td_id m) \<le> upTo)) (t_Mensagem_ToDevice d)\<rparr>))"

subsection \<open>One successful statement\<close>

text \<open>
  The effect of one statement on the tables and on the sequences it draws from, as the statements
  of the storages send them.
\<close>

inductive dev_step :: "tables \<Rightarrow> tables \<Rightarrow> bool" where
  dev_upsert: "upsert_Dispositivo r d = Inr d' \<Longrightarrow> dev_step (d, s) (d', s)"
| dev_update: "update_Dispositivo r d = Inr d' \<Longrightarrow> dev_step (d, s) (d', s)"
| dev_presence: "upsert_Presence p d = Inr d' \<Longrightarrow> dev_step (d, s) (d', s)"
| dev_midia: "insert_Midia m d = Inr d' \<Longrightarrow> dev_step (d, s) (d', s)"
| dev_versao: "insert_VersaoBackup (sq_backup s) u a j c e t d = Inr d' \<Longrightarrow>
    dev_step (d, s) (d', s\<lparr>sq_backup := Suc (sq_backup s)\<rparr>)"
| dev_chave: "upsert_ChaveBackup v r k i f b j d = Inr d' \<Longrightarrow> dev_step (d, s) (d', s)"
| dev_delete_chaves: "delete_ChaveBackup v d = Inr d' \<Longrightarrow> dev_step (d, s) (d', s)"
| dev_count: "update_VersaoBackup v c d = Inr (q, d') \<Longrightarrow> dev_step (d, s) (d', s)"
| dev_keys: "upsert_Chave_Dispositivo i as k g d = Inr d' \<Longrightarrow> dev_step (d, s) (d', s)"
| dev_signatures: "set_device_signatures i g d = Inr d' \<Longrightarrow> dev_step (d, s) (d', s)"
| dev_otk: "insert_Chave_Uso_Unico (sq_otk s) i k a j d = Inr d' \<Longrightarrow>
    dev_step (d, s) (d', s\<lparr>sq_otk := Suc (sq_otk s)\<rparr>)"
| dev_claim: "claim_Chave_Uso_Unico i a d = Inr (o', d') \<Longrightarrow> dev_step (d, s) (d', s)"
| dev_fallback: "upsert_Chave_Fallback i a k j d = Inr d' \<Longrightarrow> dev_step (d, s) (d', s)"
| dev_claim_fallback: "claim_Chave_Fallback i a d = Inr (f', d') \<Longrightarrow> dev_step (d, s) (d', s)"
| dev_cross: "upsert_Cross u g k j sg d = Inr d' \<Longrightarrow> dev_step (d, s) (d', s)"
| dev_cross_signatures: "set_cross_signatures u k g d = Inr d' \<Longrightarrow> dev_step (d, s) (d', s)"
| dev_todevice: "insert_ToDevice (sq_todevice s) u i f t j d = Inr d' \<Longrightarrow>
    dev_step (d, s) (d', s\<lparr>sq_todevice := Suc (sq_todevice s)\<rparr>)"
| dev_delete_todevice: "delete_ToDevice u i n d = Inr d' \<Longrightarrow> dev_step (d, s) (d', s)"

inductive_cases dev_stepE: "dev_step (d, s) (d', s')"

lemma dev_step_seqs: "dev_step x y \<Longrightarrow> seqs_le (snd x) (snd y)"
  by (induction rule: dev_step.induct) simp_all

subsection \<open>What these statements leave alone\<close>

text \<open>The tables of rooms, events and users.\<close>

definition room_tables :: "db \<Rightarrow> db" where
  "room_tables d = d\<lparr>t_Dispositivo := [], t_Presence := [], t_Midia := [], t_VersaoBackup := [], t_ChaveBackup := [],
      t_Chave_Dispositivo := [], t_Chave_Uso_Unico := [], t_Chave_Fallback := [], t_Chave_Cross_Signing := [],
      t_Mensagem_ToDevice := []\<rparr>"

lemma room_tables_eqD:
  assumes "room_tables d' = room_tables d"
  shows "t_Evento d' = t_Evento d" "t_Canal d' = t_Canal d" "t_Extremidades d' = t_Extremidades d"
    "t_Estado d' = t_Estado d" "t_Membership d' = t_Membership d" "t_Alias d' = t_Alias d"
    "t_Usuario d' = t_Usuario d" "t_Profile d' = t_Profile d" "t_AccountData d' = t_AccountData d"
    "t_Receipts d' = t_Receipts d" "t_Typing d' = t_Typing d"
  using assms [THEN arg_cong, of t_Evento]
    assms [THEN arg_cong, of t_Canal]
    assms [THEN arg_cong, of t_Extremidades]
    assms [THEN arg_cong, of t_Estado]
    assms [THEN arg_cong, of t_Membership]
    assms [THEN arg_cong, of t_Alias]
    assms [THEN arg_cong, of t_Usuario]
    assms [THEN arg_cong, of t_Profile]
    assms [THEN arg_cong, of t_AccountData]
    assms [THEN arg_cong, of t_Receipts]
    assms [THEN arg_cong, of t_Typing]
  by (simp_all add: room_tables_def)

lemmas dev_statements = upsert_Dispositivo_def update_Dispositivo_def upsert_Presence_def insert_Midia_def
  insert_VersaoBackup_def upsert_ChaveBackup_def delete_ChaveBackup_def update_VersaoBackup_def
  upsert_Chave_Dispositivo_def set_device_signatures_def insert_Chave_Uso_Unico_def claim_Chave_Uso_Unico_def
  upsert_Chave_Fallback_def claim_Chave_Fallback_def upsert_Cross_def set_cross_signatures_def
  insert_ToDevice_def delete_ToDevice_def

lemma dev_step_room: "dev_step x y \<Longrightarrow> room_tables (fst y) = room_tables (fst x) \<and> sq_stream (snd y) = sq_stream (snd x)"
  by (induction rule: dev_step.induct)
    (auto simp: dev_statements room_tables_def Let_def split: if_splits option.splits prod.splits sum.splits list.splits)

lemma db_ok_room_tables: "room_tables d' = room_tables d \<Longrightarrow> db_ok d' = db_ok d"
  by (simp add: db_ok_def evento_ids_def canal_ids_def room_tables_eqD [of d' d])

end
