(* ===== verification/Storage_Laws.thy ===== *)
theory Storage_Laws
  imports Usuario_Storage Federation_Client Device_Database
begin

text \<open>
  What a computation may do to the database. \<open>sql_step\<close> is the effect of one successful statement of
  the storage layer on the tables and the sequences. Inside a unit of work a computation leaves the
  committed database alone and moves the transaction's view along such steps (\<open>body_rel\<close>); a service
  call that starts outside any transaction ends outside one and moves the committed database along
  them (\<open>call_rel\<close>); a silent computation touches neither (\<open>silent_rel\<close>). None of them changes which
  later calls fail. The three relations are reflexive and transitive, and the rules for the program
  constructs are proved once for such a relation, in the locale \<open>effect\<close>.
\<close>

subsection \<open>Statements\<close>

inductive sql_step :: "tables \<Rightarrow> tables \<Rightarrow> bool" where
  sql_draw: "seqs_le s s' \<Longrightarrow> sql_step (d, s) (d, s')"
| sql_Canal: "insert_Canal r d = Inr d' \<Longrightarrow> sql_step (d, s) (d', s)"
| sql_Evento: "insert_Evento (sq_stream s) ev d = Inr d' \<Longrightarrow>
    sql_step (d, s) (d', s\<lparr>sq_stream := Suc (sq_stream s)\<rparr>)"
| sql_Membership: "upsert_Membership a b c e d = Inr d' \<Longrightarrow> sql_step (d, s) (d', s)"
| sql_Estado: "upsert_Estado a b c e d = Inr d' \<Longrightarrow> sql_step (d, s) (d', s)"
| sql_delete: "delete_Extremidades a es d = Inr d' \<Longrightarrow> sql_step (d, s) (d', s)"
| sql_Extremidade: "insert_Extremidade a e d = Inr d' \<Longrightarrow> sql_step (d, s) (d', s)"
| sql_Alias: "insert_Alias a b d = Inr d' \<Longrightarrow> sql_step (d, s) (d', s)"
| sql_Receipt: "upsert_Receipt a b e ts d = Inr d' \<Longrightarrow> sql_step (d, s) (d', s)"
| sql_Typing: "upsert_Typing a b t ts d = Inr d' \<Longrightarrow> sql_step (d, s) (d', s)"
| sql_Usuario: "insert_Usuario us d = Inr d' \<Longrightarrow> sql_step (d, s) (d', s)"
| sql_Profile: "insert_Profile a b d = Inr d' \<Longrightarrow> sql_step (d, s) (d', s)"
| sql_UpdateProfile: "update_Profile a n f d = Inr d' \<Longrightarrow> sql_step (d, s) (d', s)"
| sql_AddDirect: "insert_AccountData ac d = Inr d' \<Longrightarrow> sql_step (d, s) (d', s)"
| sql_AccountData: "upsert_AccountData a b t j d = Inr d' \<Longrightarrow> sql_step (d, s) (d', s)"
| sql_DeleteAlias: "delete_Alias a d = Inr (b, d') \<Longrightarrow> sql_step (d, s) (d', s)"
| sql_device: "dev_step x y \<Longrightarrow> sql_step x y"

inductive_cases sql_stepE: "sql_step (d, s) (d', s')"

abbreviation sql_steps :: "tables \<Rightarrow> tables \<Rightarrow> bool" where
  "sql_steps \<equiv> sql_step\<^sup>*\<^sup>*"

definition tables :: "world \<Rightarrow> tables" where
  "tables w = (w_db w, w_seqs w)"

text \<open>The sequences never go back, and a step of the sequences alone is a step.\<close>

lemma sql_step_seqs: "sql_step x y \<Longrightarrow> seqs_le (snd x) (snd y)"
  by (induction rule: sql_step.induct) (simp_all add: dev_step_seqs)

lemma sql_steps_seqs: "sql_steps x y \<Longrightarrow> seqs_le (snd x) (snd y)"
  by (induction rule: rtranclp_induct) (simp, blast intro: sql_step_seqs seqs_le_trans)

subsection \<open>Effects\<close>

definition keeps :: "(world \<Rightarrow> world \<Rightarrow> bool) \<Rightarrow> 'a op \<Rightarrow> bool" where
  "keeps R m \<longleftrightarrow> (\<forall>w. R w (snd (m w)))"

lemma keepsI: "(\<And>w. R w (snd (m w))) \<Longrightarrow> keeps R m"
  by (simp add: keeps_def)

lemma keepsD: "keeps R m \<Longrightarrow> m w = (r, w') \<Longrightarrow> R w w'"
  by (metis keeps_def snd_conv)

locale effect =
  fixes R :: "world \<Rightarrow> world \<Rightarrow> bool"
  assumes R_refl: "R w w"
    and R_trans: "R u v \<Longrightarrow> R v w \<Longrightarrow> R u w"
begin

lemma keeps_return: "keeps R (returnM a)"
  by (simp add: keeps_def run_simps R_refl)

lemma keeps_fail: "keeps R (failM e)"
  by (simp add: keeps_def run_simps R_refl)

lemma keeps_gets: "keeps R (getsM f)"
  by (simp add: keeps_def run_simps R_refl)

lemma keeps_liftE: "keeps R (liftE r)"
  by (simp add: keeps_def run_simps R_refl split: sum.split)

lemma keeps_liftO: "keeps R (liftO r)"
  by (simp add: keeps_def run_simps R_refl)

lemma keeps_bind:
  assumes "keeps R m" and "\<And>a. keeps R (f a)"
  shows "keeps R (bindM m f)"
proof (rule keepsI)
  fix w :: world
  obtain r w' where m: "m w = (r, w')" by fastforce
  have "R w w'" using assms(1) m by (rule keepsD)
  moreover have "R w' (snd (f a w'))" for a using assms(2) by (simp add: keeps_def)
  ultimately show "R w (snd (bindM m f w))"
    by (cases r) (auto simp: run_simps m intro: R_trans)
qed

lemma keeps_wrap: "keeps R m \<Longrightarrow> keeps R (wrapM s m)"
  by (auto simp: keeps_def run_simps split: prod.splits outcome.splits) (metis snd_conv)+

lemma keeps_internal: "keeps R m \<Longrightarrow> keeps R (internalM m)"
  by (auto simp: keeps_def run_simps split: prod.splits outcome.splits) (metis snd_conv)+

lemma keeps_catch: "keeps R m \<Longrightarrow> keeps R (catchM m)"
  by (auto simp: keeps_def run_simps split: prod.splits outcome.splits) (metis snd_conv)+

lemma keeps_forM: "(\<And>x. keeps R (f x)) \<Longrightarrow> keeps R (forM xs f)"
  by (induction xs) (auto intro: keeps_bind keeps_return)

lemma keeps_foldM: "(\<And>x s. keeps R (f x s)) \<Longrightarrow> keeps R (foldM f xs s)"
  by (induction xs arbitrary: s) (auto intro: keeps_bind keeps_return)

lemma keeps_if: "keeps R a \<Longrightarrow> keeps R b \<Longrightarrow> keeps R (if c then a else b)"
  by simp

lemma keeps_let: "(\<And>x. keeps R (f x)) \<Longrightarrow> keeps R (Let a f)"
  by simp

lemma keeps_prod: "(\<And>a b. keeps R (f a b)) \<Longrightarrow> keeps R (case p of (a, b) \<Rightarrow> f a b)"
  by (cases p) simp

lemma keeps_option: "keeps R a \<Longrightarrow> (\<And>x. keeps R (f x)) \<Longrightarrow> keeps R (case p of None \<Rightarrow> a | Some x \<Rightarrow> f x)"
  by (cases p) simp_all

lemma keeps_sum: "(\<And>e. keeps R (f e)) \<Longrightarrow> (\<And>x. keeps R (g x)) \<Longrightarrow> keeps R (case p of Inl e \<Rightarrow> f e | Inr x \<Rightarrow> g x)"
  by (cases p) simp_all

lemma keeps_list: "keeps R a \<Longrightarrow> (\<And>x xs. keeps R (f x xs)) \<Longrightarrow> keeps R (case p of [] \<Rightarrow> a | x # xs \<Rightarrow> f x xs)"
  by (cases p) simp_all

lemmas keeps_rules = keeps_return keeps_fail keeps_gets keeps_liftE keeps_liftO keeps_bind keeps_wrap
  keeps_internal keeps_catch keeps_forM keeps_foldM keeps_if keeps_let keeps_prod keeps_option keeps_sum keeps_list

end

definition silent_rel :: "world \<Rightarrow> world \<Rightarrow> bool" where
  "silent_rel w w' \<longleftrightarrow> tables w' = tables w \<and> w_tx w' = w_tx w \<and> w_fault w' = w_fault w"

definition body_rel :: "world \<Rightarrow> world \<Rightarrow> bool" where
  "body_rel w w' \<longleftrightarrow>
     w_db w' = w_db w \<and> seqs_le (w_seqs w) (w_seqs w') \<and> w_fault w' = w_fault w \<and>
     (w_tx w = Aborted \<longrightarrow> w_tx w' = Aborted) \<and>
     (\<forall>d. w_tx w = Active d \<longrightarrow>
        w_tx w' = Aborted \<or> (\<exists>d'. w_tx w' = Active d' \<and> sql_steps (d, w_seqs w) (d', w_seqs w')))"

definition call_rel :: "world \<Rightarrow> world \<Rightarrow> bool" where
  "call_rel w w' \<longleftrightarrow> w_fault w' = w_fault w \<and> (w_tx w = NoTx \<longrightarrow> w_tx w' = NoTx \<and> sql_steps (tables w) (tables w'))"

interpretation silent: effect silent_rel
  by unfold_locales (auto simp: silent_rel_def)

lemma body_rel_trans:
  assumes uv: "body_rel u v" and vw: "body_rel v w"
  shows "body_rel u w"
proof -
  have "w_tx w = Aborted \<or> (\<exists>d'. w_tx w = Active d' \<and> sql_steps (d, w_seqs u) (d', w_seqs w))"
    if u: "w_tx u = Active d" for d
  proof (cases "w_tx v = Aborted")
    case True
    then show ?thesis using vw by (simp add: body_rel_def)
  next
    case False
    then obtain d1 where d1: "w_tx v = Active d1" "sql_steps (d, w_seqs u) (d1, w_seqs v)"
      using uv u unfolding body_rel_def by blast
    then show ?thesis using vw by (auto simp: body_rel_def intro: rtranclp_trans)
  qed
  then show ?thesis using uv vw by (auto simp: body_rel_def intro: seqs_le_trans)
qed

interpretation body: effect body_rel
proof
  show "body_rel w w" for w by (simp add: body_rel_def)
qed (rule body_rel_trans)

interpretation call: effect call_rel
  by unfold_locales (auto simp: call_rel_def)

named_theorems silent_intros "a computation without effect on the database"
named_theorems silent_ops "the operations among them, without the rules for program constructs"
named_theorems body_intros "a computation inside a unit of work"
named_theorems call_intros "a service call"

lemmas silent_rules [silent_intros] = silent.keeps_rules
lemmas body_rules [body_intros] = body.keeps_rules
lemmas call_rules [call_intros] = call.keeps_rules

lemma silent_body: "keeps silent_rel m \<Longrightarrow> keeps body_rel m"
  by (auto simp: keeps_def silent_rel_def body_rel_def tables_def)

lemma silent_call: "keeps silent_rel m \<Longrightarrow> keeps call_rel m"
  by (auto simp: keeps_def silent_rel_def call_rel_def)

subsection \<open>Silent computations\<close>

lemma silent_now [silent_intros, silent_ops]: "keeps silent_rel nowM"
  by (simp add: keeps_def silent_rel_def tables_def nowM_def)

lemma silent_random [silent_intros, silent_ops]: "keeps silent_rel randomM"
  by (simp add: keeps_def silent_rel_def tables_def randomM_def)

lemma silent_wake [silent_intros, silent_ops]: "keeps silent_rel (WakeUpUsers u)"
  by (simp add: keeps_def silent_rel_def tables_def WakeUpUsers_def run_simps)

lemma silent_spawn [silent_intros, silent_ops]: "keeps silent_rel (spawn t)"
  by (simp add: keeps_def silent_rel_def tables_def spawn_def run_simps)

lemma silent_http [silent_intros, silent_ops]: "keeps silent_rel (http_do rq)"
  by (simp add: keeps_def silent_rel_def tables_def http_do_def split: sum.split)

lemma silent_redis:
  assumes "\<And>w. silent_rel w (snd (f w))"
  shows "keeps silent_rel (redis_call f)"
proof (rule keepsI)
  fix w :: world
  obtain a w' where f: "f (ticked w) = (a, w')" by fastforce
  show "silent_rel w (snd (redis_call f w))"
    using assms [of "ticked w"]
    by (auto simp: redis_call_def silent_rel_def tables_def ticked_def f [unfolded ticked_def] split: option.split)
qed

text \<open>A statement sent to the pool that changes nothing.\<close>

lemma silent_pool:
  assumes "\<And>d s. snd (q d s) = s" and "\<And>d s a d' s'. q d s = (Inr (a, d'), s') \<Longrightarrow> d' = d"
  shows "keeps silent_rel (getTxOrPool Ctx q)"
proof (rule keepsI)
  fix w :: world
  obtain r s' where q: "q (w_db w) (w_seqs w) = (r, s')" by fastforce
  with assms(1) [of "w_db w" "w_seqs w"] have "s' = w_seqs w" by simp
  then show "silent_rel w (snd (getTxOrPool Ctx q w))"
    using assms(2) [of "w_db w" "w_seqs w"] q
    by (auto simp: getTxOrPool_def silent_rel_def tables_def ticked_def abort_def view_def store_def
        split: option.split sum.split prod.split)
qed

lemma silent_query [silent_intros, silent_ops]: "keeps silent_rel (db_query Ctx q)"
  unfolding db_query_def by (rule silent_pool) auto

subsection \<open>Statements in a unit of work and on the pool\<close>

lemma body_stmt:
  assumes "\<And>d s r s'. q d s = (r, s') \<Longrightarrow> seqs_le s s'"
    and "\<And>d s a d' s'. q d s = (Inr (a, d'), s') \<Longrightarrow> sql_steps (d, s) (d', s')"
  shows "keeps body_rel (getTxOrPool TxCtx q)"
proof (rule keepsI)
  fix w :: world
  obtain r s' where q: "\<And>d. w_tx w = Active d \<Longrightarrow> q d (w_seqs w) = (r, s')"
    by (cases "w_tx w") (auto simp: prod_eq_iff)
  show "body_rel w (snd (getTxOrPool TxCtx q w))"
    using assms(1) [OF q] assms(2) [of _ "w_seqs w"] q
    by (cases "w_tx w")
      (auto simp: getTxOrPool_def body_rel_def ticked_def abort_def view_def store_def
        split: option.split sum.split prod.split)
qed

lemma call_stmt:
  assumes "\<And>d s r s'. q d s = (r, s') \<Longrightarrow> seqs_le s s'"
    and "\<And>d s a d' s'. q d s = (Inr (a, d'), s') \<Longrightarrow> sql_steps (d, s) (d', s')"
  shows "keeps call_rel (getTxOrPool Ctx q)"
proof (rule keepsI)
  fix w :: world
  obtain r s' where q: "q (w_db w) (w_seqs w) = (r, s')" by fastforce
  have "sql_steps (w_db w, w_seqs w) (w_db w, s')"
    using assms(1) [OF q] by (simp add: r_into_rtranclp sql_draw)
  then show "call_rel w (snd (getTxOrPool Ctx q w))"
    using assms(2) [of "w_db w" "w_seqs w"] q
    by (auto simp: getTxOrPool_def call_rel_def tables_def ticked_def abort_def view_def store_def
        split: option.split sum.split prod.split)
qed

lemma body_query [body_intros]: "keeps body_rel (db_query TxCtx q)"
  unfolding db_query_def by (rule body_stmt) auto

lemma body_exec:
  "(\<And>d d' s. f d = Inr d' \<Longrightarrow> sql_step (d, s) (d', s)) \<Longrightarrow> keeps body_rel (db_exec TxCtx f)"
  unfolding db_exec_def by (rule body_stmt) (auto split: sum.splits)

lemma call_exec:
  "(\<And>d d' s. f d = Inr d' \<Longrightarrow> sql_step (d, s) (d', s)) \<Longrightarrow> keeps call_rel (db_exec Ctx f)"
  unfolding db_exec_def by (rule call_stmt) (auto split: sum.splits)

subsection \<open>Units of work\<close>

lemma call_Execute [call_intros]:
  assumes "keeps body_rel (fn TxCtx)"
  shows "keeps call_rel (Execute fn)"
proof (rule keepsI)
  fix w :: world
  let ?b = "(ticked w)\<lparr>w_tx := Active (w_db w)\<rparr>"
  obtain r w1 where r: "fn TxCtx ?b = (r, w1)" by fastforce
  have b: "body_rel ?b w1" using assms r by (rule keepsD)
  then have db: "w_db w1 = w_db w" "seqs_le (w_seqs w) (w_seqs w1)" "w_fault w1 = w_fault w"
    by (simp_all add: body_rel_def ticked_def)
  then have s: "sql_steps (w_db w, w_seqs w) (w_db w, w_seqs w1)" by (simp add: r_into_rtranclp sql_draw)
  have tx: "w_tx w1 = Aborted \<or> (\<exists>d'. w_tx w1 = Active d' \<and> sql_steps (w_db w, w_seqs w) (d', w_seqs w1))"
    using b by (auto simp: body_rel_def ticked_def)
  have e: "Execute fn w = (case w_fault w (w_calls w) of Some e \<Rightarrow> (Fail e, ticked w)
    | None \<Rightarrow> (case r of
         Ret a \<Rightarrow> (case commit_tx w1 of (Ret _, w') \<Rightarrow> (Ret a, w') | (Fail e, w') \<Rightarrow> (Fail e, w') | (Panic, w') \<Rightarrow> (Panic, w'))
       | Fail e \<Rightarrow> (Fail e, rollback_tx w1) | Panic \<Rightarrow> (Panic, rollback_tx w1)))"
    by (simp add: Execute_def begin_tx_def run_simps r split: option.split outcome.split)
  show "call_rel w (snd (Execute fn w))"
    unfolding e using db s tx
    by (auto simp: commit_tx_def rollback_tx_def ticked_def call_rel_def tables_def
        split: option.split outcome.split)
qed

subsection \<open>Reads of the storage\<close>

lemma silent_select [silent_intros]:
  "keeps silent_rel (getTxOrPool Ctx (\<lambda>d s. (case f d of Inl e \<Rightarrow> Inl e | Inr a \<Rightarrow> Inr (g a, d), s)))"
  by (rule silent_pool) (auto split: sum.splits)

lemma silent_GetForwardExtremities [silent_intros, silent_ops]: "keeps silent_rel (GetForwardExtremities Ctx canalID)"
  unfolding GetForwardExtremities_def by (intro silent_intros)

lemma silent_GetCanalEstadoAtual [silent_intros, silent_ops]: "keeps silent_rel (GetCanalEstadoAtual canalID)"
  unfolding GetCanalEstadoAtual_def by (intro silent_intros)

lemma silent_Canal_GetByID [silent_intros, silent_ops]: "keeps silent_rel (Canal_GetByID Ctx canalID)"
  unfolding Canal_GetByID_def by (intro silent_intros)

lemma silent_GetJoinRule [silent_intros, silent_ops]: "keeps silent_rel (GetJoinRule roomID)"
  unfolding GetJoinRule_def by (intro silent_intros)

lemma silent_GetUserJoinedRooms [silent_intros, silent_ops]: "keeps silent_rel (GetUserJoinedRooms u)"
  unfolding GetUserJoinedRooms_def by (intro silent_intros)

lemma silent_GetUserLeftRooms [silent_intros, silent_ops]: "keeps silent_rel (GetUserLeftRooms u)"
  unfolding GetUserLeftRooms_def by (intro silent_intros)

lemma silent_GetUserMembership [silent_intros, silent_ops]: "keeps silent_rel (GetUserMembership r u)"
  unfolding GetUserMembership_def by (intro silent_intros)

lemma silent_GetUserMembershipRecord [silent_intros, silent_ops]: "keeps silent_rel (GetUserMembershipRecord r u)"
  unfolding GetUserMembershipRecord_def by (intro silent_intros)

lemma silent_GetStateEventID [silent_intros, silent_ops]: "keeps silent_rel (GetStateEventID r t k)"
  unfolding GetStateEventID_def by (intro silent_intros)

lemma silent_GetCanalParticipatingServers [silent_intros, silent_ops]: "keeps silent_rel (GetCanalParticipatingServers r)"
  unfolding GetCanalParticipatingServers_def by (intro silent_intros)

lemma silent_GetMaxStreamOrdering [silent_intros, silent_ops]: "keeps silent_rel GetMaxStreamOrdering"
  unfolding GetMaxStreamOrdering_def by (intro silent_intros)

lemma silent_GetMaxDepthFromEventos [silent_intros, silent_ops]: "keeps silent_rel (GetMaxDepthFromEventos ids)"
  unfolding GetMaxDepthFromEventos_def by (intro silent_intros)

lemma silent_CheckEventoExists [silent_intros, silent_ops]: "keeps silent_rel (CheckEventoExists i)"
  unfolding CheckEventoExists_def by (intro silent_intros)

lemma silent_GetEvento [silent_intros, silent_ops]: "keeps silent_rel (GetEvento i)"
  unfolding GetEvento_def by (intro silent_intros)

lemma silent_GetCurrentStateEvents [silent_intros, silent_ops]: "keeps silent_rel (GetCurrentStateEvents r)"
  unfolding GetCurrentStateEvents_def by (intro silent_intros)

lemma silent_GetRoomMemberEvents [silent_intros, silent_ops]: "keeps silent_rel (GetRoomMemberEvents r)"
  unfolding GetRoomMemberEvents_def by (intro silent_intros)

lemma silent_GetSince [silent_intros, silent_ops]: "keeps silent_rel (GetSince u t)"
  unfolding GetSince_def by (intro silent_intros)

lemma silent_GetEventsOfCanalSince [silent_intros, silent_ops]: "keeps silent_rel (GetEventsOfCanalSince u r t)"
  unfolding GetEventsOfCanalSince_def by (intro silent_intros)

lemma silent_GetEventsOfCanalSinceLeft [silent_intros, silent_ops]: "keeps silent_rel (GetEventsOfCanalSinceLeft u r t)"
  unfolding GetEventsOfCanalSinceLeft_def by (intro silent_intros)

lemma silent_GetStateAndAuthChainIDs [silent_intros, silent_ops]: "keeps silent_rel (GetStateAndAuthChainIDs r e)"
  unfolding GetStateAndAuthChainIDs_def by (intro silent_intros)

lemma silent_GetStateAndAuthChainEvents [silent_intros, silent_ops]: "keeps silent_rel (GetStateAndAuthChainEvents r e)"
  unfolding GetStateAndAuthChainEvents_def by (intro silent_intros)

lemma silent_GetUsuarioByID [silent_intros, silent_ops]: "keeps silent_rel (GetUsuarioByID Ctx u)"
  unfolding GetUsuarioByID_def by (intro silent_intros)

lemma silent_GetProfileByID [silent_intros, silent_ops]: "keeps silent_rel (GetProfileByID Ctx u)"
  unfolding GetProfileByID_def by (intro silent_intros)

lemma silent_GetAccountData [silent_intros, silent_ops]: "keeps silent_rel (GetAccountData Ctx u r t)"
  unfolding GetAccountData_def by (intro silent_intros)

lemma silent_GetGlobalAccountData [silent_intros, silent_ops]: "keeps silent_rel (GetGlobalAccountData Ctx u)"
  unfolding GetGlobalAccountData_def by (intro silent_intros)

lemma silent_GetAccountDataOfCanal [silent_intros, silent_ops]: "keeps silent_rel (GetAccountDataOfCanal Ctx u r)"
  unfolding GetAccountDataOfCanal_def by (intro silent_intros)

lemma silent_GetInviteEventsSince [silent_intros, silent_ops]: "keeps silent_rel (GetInviteEventsSince Ctx u t)"
  unfolding GetInviteEventsSince_def by (intro silent_intros)

lemma silent_GetAllPublic [silent_intros, silent_ops]: "keeps silent_rel (GetAllPublic Ctx off l)"
  unfolding GetAllPublic_def by (rule silent.keeps_wrap, rule silent_pool) (auto split: sum.splits)

lemma silent_GetRoomMessagesHistory [silent_intros, silent_ops]: "keeps silent_rel (GetRoomMessagesHistory r f d l)"
  unfolding GetRoomMessagesHistory_def by (rule silent.keeps_wrap, rule silent_pool) (auto split: sum.splits)

lemma silent_GetEventsSince [silent_intros, silent_ops]: "keeps silent_rel (GetEventsSince r l es)"
  unfolding GetEventsSince_def by (rule silent.keeps_wrap, rule silent_pool) (auto split: sum.splits)

lemma silent_GetMissingEvents [silent_intros, silent_ops]: "keeps silent_rel (GetMissingEvents r es ls l d)"
  unfolding GetMissingEvents_def by (rule silent.keeps_wrap, rule silent_pool) (auto split: sum.splits)

subsection \<open>Writes of the storage\<close>

lemma body_UpsertMembership [body_intros]: "keeps body_rel (UpsertMembership TxCtx a u m e)"
  unfolding UpsertMembership_def by (intro body_intros body_exec sql_Membership)

lemma call_UpsertMembership [call_intros]: "keeps call_rel (UpsertMembership Ctx a u m e)"
  unfolding UpsertMembership_def by (intro call_intros call_exec sql_Membership)

lemma body_UpsertCurrentState [body_intros]: "keeps body_rel (UpsertCurrentState TxCtx a u m e)"
  unfolding UpsertCurrentState_def by (intro body_intros body_exec sql_Estado)

lemma call_UpsertCurrentState [call_intros]: "keeps call_rel (UpsertCurrentState Ctx a u m e)"
  unfolding UpsertCurrentState_def by (intro call_intros call_exec sql_Estado)

lemma body_SaveAlias [body_intros]: "keeps body_rel (SaveAlias TxCtx r a)"
  unfolding SaveAlias_def by (intro body_intros body_exec sql_Alias)

lemma call_SaveAlias [call_intros]: "keeps call_rel (SaveAlias Ctx r a)"
  unfolding SaveAlias_def by (intro call_intros call_exec sql_Alias)

lemma body_AddDirectMessage [body_intros]: "keeps body_rel (AddDirectMessage TxCtx u v r)"
  unfolding AddDirectMessage_def by (intro body_intros body_exec sql_AddDirect)

lemma call_AddDirectMessage [call_intros]: "keeps call_rel (AddDirectMessage Ctx u v r)"
  unfolding AddDirectMessage_def by (intro call_intros call_exec sql_AddDirect)

lemma body_SaveAccountData [body_intros]: "keeps body_rel (SaveAccountData TxCtx a)"
  unfolding SaveAccountData_def by (intro body_intros body_exec sql_AccountData)

lemma call_SaveAccountData [call_intros]: "keeps call_rel (SaveAccountData Ctx a)"
  unfolding SaveAccountData_def by (intro call_intros call_exec sql_AccountData)

lemma body_Storage_UpdateProfile [body_intros]: "keeps body_rel (Storage_UpdateProfile TxCtx p)"
  unfolding Storage_UpdateProfile_def by (intro body_intros body_exec sql_UpdateProfile)

lemma call_Storage_UpdateProfile [call_intros]: "keeps call_rel (Storage_UpdateProfile Ctx p)"
  unfolding Storage_UpdateProfile_def by (intro call_intros call_exec sql_UpdateProfile)

lemma body_UpdateForwardExtremities [body_intros]: "keeps body_rel (UpdateForwardExtremities TxCtx r e ps)"
  unfolding UpdateForwardExtremities_def by (intro body_intros body_exec) (auto intro: sql_delete sql_Extremidade)

lemma body_Canal_Create [body_intros]: "keeps body_rel (Canal_Create TxCtx r u v)"
  unfolding Canal_Create_def by (intro body_intros silent_body silent_now body_exec sql_Canal)

lemma body_CreateUsuarioAndProfile [body_intros]: "keeps body_rel (CreateUsuarioAndProfile TxCtx u)"
  unfolding CreateUsuarioAndProfile_def by (intro body_intros body_exec) (auto intro: sql_Usuario sql_Profile)

lemma body_SaveEvento [body_intros]: "keeps body_rel (SaveEvento TxCtx e)"
  unfolding SaveEvento_def
  by (intro body.keeps_wrap body_stmt) (auto split: sum.splits intro: sql_Evento)

lemma call_UpdateForwardExtremities [call_intros]: "keeps call_rel (UpdateForwardExtremities Ctx r e ps)"
  unfolding UpdateForwardExtremities_def by (intro call_intros call_exec) (auto intro: sql_delete sql_Extremidade)

lemma call_Canal_Create [call_intros]: "keeps call_rel (Canal_Create Ctx r u v)"
  unfolding Canal_Create_def by (intro call_intros silent_call silent_now call_exec sql_Canal)

lemma call_CreateUsuarioAndProfile [call_intros]: "keeps call_rel (CreateUsuarioAndProfile Ctx u)"
  unfolding CreateUsuarioAndProfile_def by (intro call_intros call_exec) (auto intro: sql_Usuario sql_Profile)

lemma call_SaveEvento [call_intros]: "keeps call_rel (SaveEvento Ctx e)"
  unfolding SaveEvento_def
  by (intro call.keeps_wrap call_stmt) (auto split: sum.splits intro: sql_Evento)

lemma call_SaveReceipt [call_intros]: "keeps call_rel (SaveReceipt u r t e ts)"
  unfolding SaveReceipt_def by (intro call_intros call_exec sql_Receipt)

lemma call_SaveTypingState [call_intros]: "keeps call_rel (SaveTypingState r u t ts)"
  unfolding SaveTypingState_def by (intro call_intros call_exec sql_Typing)

lemma body_Canal_GetByID [body_intros]: "keeps body_rel (Canal_GetByID TxCtx r)"
  unfolding Canal_GetByID_def GetForwardExtremities_def
  by (intro body_intros silent_body silent_query silent_GetCanalEstadoAtual)

end
