(* ===== verification/Event_Builder.thy ===== *)
theory Event_Builder
  imports World
begin

text \<open>
  \<^verbatim>\<open>internal/usecase/event_builder.go\<close> and \<^verbatim>\<open>dag_manage.go\<close>: the events a room starts with, and the
  linking, hashing and signing of that first chain.
\<close>

subsection \<open>event\_builder.go\<close>

definition newBaseEvent :: "string \<Rightarrow> string \<Rightarrow> string \<Rightarrow> string option \<Rightarrow> json \<Rightarrow> evento op" where
  "newBaseEvent canalID sender tipo stateKey content =
     bindM nowM (\<lambda>now. returnM (zeroEvento
       \<lparr>ev_CanalID := canalID, ev_Sender := sender, ev_Tipo := tipo, ev_Content := Some (marshal_any content),
        ev_StateKey := stateKey, ev_OrigemServidorTS := now\<rparr>))"

definition buildCreateEvent :: "string \<Rightarrow> string \<Rightarrow> string \<Rightarrow> evento op" where
  "buildCreateEvent canalID creatorID version =
     newBaseEvent canalID creatorID ''m.room.create'' (Some '''')
       (JObj [(''creator'', JStr creatorID), (''room_version'', JStr version)])"

definition buildJoinEvent :: "string \<Rightarrow> string \<Rightarrow> string \<Rightarrow> string \<Rightarrow> evento op" where
  "buildJoinEvent roomID userID displayName avatarURL =
     newBaseEvent roomID userID ''m.room.member'' (Some userID)
       (JObj ([(''membership'', JStr ''join'')] @
              (if displayName \<noteq> '''' then [(''displayname'', JStr displayName)] else []) @
              (if avatarURL \<noteq> '''' then [(''avatar_url'', JStr avatarURL)] else [])))"

definition buildLeaveEvent :: "string \<Rightarrow> string \<Rightarrow> string \<Rightarrow> string \<Rightarrow> evento op" where
  "buildLeaveEvent canalID sender displayName avatarURL =
     newBaseEvent canalID sender ''m.room.member'' (Some sender) (JObj [(''membership'', JStr ''leave'')])"

definition buildPowerLevelEvent :: "string \<Rightarrow> string \<Rightarrow> evento op" where
  "buildPowerLevelEvent canalID creatorID =
     newBaseEvent canalID creatorID ''m.room.power_levels'' (Some '''')
       (JObj [(''users_default'', JNum 0), (''events_default'', JNum 0), (''state_default'', JNum 50),
              (''ban'', JNum 50), (''kick'', JNum 50), (''redact'', JNum 50), (''invite'', JNum 0),
              (''users'', JObj [(creatorID, JNum 100)]),
              (''events'', JObj [(''m.room.name'', JNum 50), (''m.room.power_levels'', JNum 100)])])"

definition buildJoinRulesEvent :: "string \<Rightarrow> string \<Rightarrow> string \<Rightarrow> evento op" where
  "buildJoinRulesEvent canalID creatorID rule =
     newBaseEvent canalID creatorID ''m.room.join_rules'' (Some '''') (JObj [(''join_rule'', JStr rule)])"

definition buildNameEvent :: "string \<Rightarrow> string \<Rightarrow> string \<Rightarrow> evento op" where
  "buildNameEvent canalID sender name =
     newBaseEvent canalID sender ''m.room.name'' (Some '''') (JObj [(''name'', JStr name)])"

definition buildTopicEvent :: "string \<Rightarrow> string \<Rightarrow> string \<Rightarrow> evento op" where
  "buildTopicEvent canalID sender topic =
     newBaseEvent canalID sender ''m.room.topic'' (Some '''') (JObj [(''topic'', JStr topic)])"

definition buildInviteEvent :: "string \<Rightarrow> string \<Rightarrow> string \<Rightarrow> evento op" where
  "buildInviteEvent canalID sender invitee =
     newBaseEvent canalID sender ''m.room.member'' (Some invitee) (JObj [(''membership'', JStr ''invite'')])"

definition buildAliasEvent :: "string \<Rightarrow> string \<Rightarrow> string \<Rightarrow> evento op" where
  "buildAliasEvent canalID sender alias =
     newBaseEvent canalID sender ''m.room.canonical_alias'' (Some '''') (JObj [(''alias'', JStr alias)])"

definition isProtectedGenesisEvent :: "string \<Rightarrow> bool" where
  "isProtectedGenesisEvent eventType \<longleftrightarrow>
     eventType \<in> {''m.room.create'', ''m.room.member'', ''m.room.power_levels'', ''m.room.join_rules'',
       ''m.room.history_visibility'', ''m.room.name'', ''m.room.topic'', ''m.room.canonical_alias''}"

text \<open>\<open>Content map[string]any\<close>: \<open>JNull\<close> when nil.\<close>

record StateEventParams =
  sp_StateKey :: "string option"
  sp_Type :: string
  sp_Content :: json

fun buildInitialStateEvents :: "string \<Rightarrow> string \<Rightarrow> StateEventParams list \<Rightarrow> evento list op" where
  "buildInitialStateEvents roomID creatorID [] = returnM []"
| "buildInitialStateEvents roomID creatorID (reqEv # rawEvents) =
     (if isProtectedGenesisEvent (sp_Type reqEv) then buildInitialStateEvents roomID creatorID rawEvents
      else bindM (newBaseEvent roomID creatorID (sp_Type reqEv)
                    (Some (case sp_StateKey reqEv of None \<Rightarrow> '''' | Some k \<Rightarrow> k)) (sp_Content reqEv)) (\<lambda>newEvent.
           bindM (buildInitialStateEvents roomID creatorID rawEvents) (\<lambda>domainEvents.
             returnM (newEvent # domainEvents))))"

subsection \<open>dag\_manage.go\<close>

text \<open>The keys of \<open>authCache\<close> are the strings \<open>"type|state_key"\<close>.\<close>

record genesisState =
  gs_latestDepth :: int
  gs_latestEventID :: string
  gs_authCache :: "(string \<times> string) list"

definition cache_key :: "string \<Rightarrow> string \<Rightarrow> string" where
  "cache_key eventType stateKey = eventType @ CHR ''|'' # stateKey"

definition getAuth :: "genesisState \<Rightarrow> string \<Rightarrow> string \<Rightarrow> string option" where
  "getAuth g eventType stateKey = map_of (gs_authCache g) (cache_key eventType stateKey)"

definition appendAuth :: "genesisState \<Rightarrow> string \<Rightarrow> string \<Rightarrow> string list \<Rightarrow> string list" where
  "appendAuth g eType sKey auths =
     (case getAuth g eType sKey of Some i \<Rightarrow> auths @ [i] | None \<Rightarrow> auths)"

text \<open>\<open>*ev.StateKey\<close> of a member event without state key is a nil dereference.\<close>

definition resolveGenesisAuth :: "evento \<Rightarrow> genesisState \<Rightarrow> string list outcome" where
  "resolveGenesisAuth ev g =
     (if ev_Tipo ev = ''m.room.create'' then Ret []
      else
        (let auths = appendAuth g ''m.room.create'' '''' [];
             general = (let auths = appendAuth g ''m.room.power_levels'' '''' auths;
                            auths = appendAuth g ''m.room.member'' (ev_Sender ev) auths
                        in if ev_Tipo ev = ''m.room.member'' then appendAuth g ''m.room.join_rules'' '''' auths
                           else auths)
         in if ev_Tipo ev = ''m.room.member'' then
              (case ev_StateKey ev of
                 None \<Rightarrow> Panic
               | Some k \<Rightarrow>
                   if k = ev_Sender ev then
                     Ret (if getAuth g ''m.room.power_levels'' '''' \<noteq> None
                          then appendAuth g ''m.room.power_levels'' '''' auths else auths)
                   else Ret general)
            else Ret general))"

text \<open>One round of \<open>linkAndHashGenesis\<close> after \<open>PrevEventos\<close> and \<open>Depth\<close> are set.\<close>

definition seal_event :: "server \<Rightarrow> genesisState \<Rightarrow> evento \<Rightarrow> evento outcome" where
  "seal_event sv g ev =
     (case resolveGenesisAuth ev g of
        Ret auths \<Rightarrow>
          (let ev = ev\<lparr>ev_AuthEventos := auths\<rparr>
           in case HashMatrixEvent (sv_crypto sv) ev of
                Inl e \<Rightarrow> Fail (Wrapf ''failed to hash event'' e)
              | Inr eventID \<Rightarrow>
                  (let ev = ev\<lparr>ev_ID := eventID\<rparr>
                   in case SignMatrixEvent (sv_crypto sv) ev (sv_serverName sv) (sv_keyID sv) (sv_privateKey sv) of
                        Inl e \<Rightarrow> Fail (Wrapf ''failed to sign genesis event'' e)
                      | Inr sigJSON \<Rightarrow> Ret (ev\<lparr>ev_Signatures := Some sigJSON\<rparr>)))
      | Fail e \<Rightarrow> Fail e
      | Panic \<Rightarrow> Panic)"

definition track :: "genesisState \<Rightarrow> evento \<Rightarrow> genesisState" where
  "track g ev =
     \<lparr>gs_latestDepth = ev_Depth ev, gs_latestEventID = ev_ID ev,
      gs_authCache = (case ev_StateKey ev of
          None \<Rightarrow> gs_authCache g
        | Some k \<Rightarrow> AList.update (cache_key (ev_Tipo ev) k) (ev_ID ev) (gs_authCache g))\<rparr>"

text \<open>The rounds after the first: \<open>i > 0\<close>.\<close>

fun link_rest :: "server \<Rightarrow> genesisState \<Rightarrow> evento list \<Rightarrow> evento list outcome" where
  "link_rest sv g [] = Ret []"
| "link_rest sv g (ev # evs) =
     (case seal_event sv g (ev\<lparr>ev_PrevEventos := [gs_latestEventID g], ev_Depth := wrap64 (gs_latestDepth g + 1)\<rparr>) of
        Ret ev' \<Rightarrow>
          (case link_rest sv (track g ev') evs of
             Ret evs' \<Rightarrow> Ret (ev' # evs') | Fail e \<Rightarrow> Fail e | Panic \<Rightarrow> Panic)
      | Fail e \<Rightarrow> Fail e
      | Panic \<Rightarrow> Panic)"

definition linkAndHashGenesis :: "server \<Rightarrow> evento list \<Rightarrow> evento list outcome" where
  "linkAndHashGenesis sv events =
     (let g = \<lparr>gs_latestDepth = 0, gs_latestEventID = '''', gs_authCache = []\<rparr>
      in case events of
           [] \<Rightarrow> Ret []
         | ev # evs \<Rightarrow>
             (case seal_event sv g (ev\<lparr>ev_PrevEventos := [], ev_Depth := 0\<rparr>) of
                Ret ev' \<Rightarrow>
                  (case link_rest sv (track g ev') evs of
                     Ret evs' \<Rightarrow> Ret (ev' # evs') | Fail e \<Rightarrow> Fail e | Panic \<Rightarrow> Panic)
              | Fail e \<Rightarrow> Fail e
              | Panic \<Rightarrow> Panic))"

subsection \<open>Lemmas on the chain\<close>

lemma seal_event_Ret:
  "seal_event sv g ev = Ret ev' \<Longrightarrow>
     ev_PrevEventos ev' = ev_PrevEventos ev \<and> ev_Depth ev' = ev_Depth ev \<and> ev_Tipo ev' = ev_Tipo ev \<and>
     ev_StateKey ev' = ev_StateKey ev \<and> ev_Sender ev' = ev_Sender ev \<and> ev_CanalID ev' = ev_CanalID ev \<and>
     ev_Content ev' = ev_Content ev \<and> resolveGenesisAuth ev g = Ret (ev_AuthEventos ev') \<and>
     HashMatrixEvent (sv_crypto sv) (ev\<lparr>ev_AuthEventos := ev_AuthEventos ev'\<rparr>) = Inr (ev_ID ev')"
  by (auto simp: seal_event_def Let_def split: outcome.splits sum.splits)

text \<open>The chain after an event with id \<open>i\<close> and depth \<open>n\<close>: each event points at the one before it.\<close>

fun chained :: "string \<Rightarrow> int \<Rightarrow> evento list \<Rightarrow> bool" where
  "chained i n [] = True"
| "chained i n (ev # evs) =
     (ev_PrevEventos ev = [i] \<and> ev_Depth ev = n + 1 \<and> chained (ev_ID ev) (n + 1) evs)"

lemma link_rest_chained:
  assumes "link_rest sv g evs = Ret evs'" and "0 \<le> gs_latestDepth g"
    and "gs_latestDepth g + int (length evs) < 2 ^ 63"
  shows "chained (gs_latestEventID g) (gs_latestDepth g) evs' \<and> map ev_Tipo evs' = map ev_Tipo evs \<and>
    map ev_StateKey evs' = map ev_StateKey evs"
  using assms
proof (induction evs arbitrary: g evs')
  case (Cons ev evs)
  let ?ev = "ev\<lparr>ev_PrevEventos := [gs_latestEventID g], ev_Depth := wrap64 (gs_latestDepth g + 1)\<rparr>"
  obtain e es where e: "seal_event sv g ?ev = Ret e" "link_rest sv (track g e) evs = Ret es" "evs' = e # es"
    using Cons.prems(1) by (auto split: outcome.splits)
  have w: "wrap64 (gs_latestDepth g + 1) = gs_latestDepth g + 1"
    using Cons.prems(2,3) by (intro wrap64_id) (simp add: in_int64_def)
  note s = seal_event_Ret [OF e(1)]
  from Cons.IH [OF e(2)] Cons.prems(2,3) show ?case
    using s by (auto simp: e(3) track_def w)
qed simp

end
