(* ===== verification/Auth_Rules.thy ===== *)
theory Auth_Rules
  imports Matrix_Util
begin

text \<open>
  The pure half of \<^verbatim>\<open>internal/usecase/auth_rule_resolver.go\<close> (\<open>CheckAuth\<close>) and the power-level
  lookup of \<^verbatim>\<open>state_res_sort.go\<close>. The state an event is checked against is a \<open>StateMap\<close>, the
  events themselves are in an \<open>EventsMap\<close>; a missing entry is a nil pointer, \<open>None\<close> here.
\<close>

subsection \<open>Event contents\<close>

text \<open>\<open>struct { Users map[string]int64; UsersDefault int64 }\<close>.\<close>

definition decode_users :: "raw \<Rightarrow> ((string \<times> int) list \<times> int) decoded" where
  "decode_users r = (case struct_members r of
       Inl e \<Rightarrow> Inl e
     | Inr ms \<Rightarrow>
         (let (users, b1) = dec_map_int64 (field_vals ''users'' ms);
              (usersDefault, b2) = dec_int64 (field_vals ''users_default'' ms)
          in if b1 \<or> b2 then Inl type_error else Inr (users, usersDefault)))"

text \<open>\<open>struct { StateDefault int64; Events map[string]int64 }\<close>.\<close>

definition decode_events :: "raw \<Rightarrow> (int \<times> (string \<times> int) list) decoded" where
  "decode_events r = (case struct_members r of
       Inl e \<Rightarrow> Inl e
     | Inr ms \<Rightarrow>
         (let (stateDefault, b1) = dec_int64 (field_vals ''state_default'' ms);
              (events, b2) = dec_map_int64 (field_vals ''events'' ms)
          in if b1 \<or> b2 then Inl type_error else Inr (stateDefault, events)))"

text \<open>\<open>struct { Membership string }\<close>.\<close>

definition decode_membership :: "raw \<Rightarrow> string decoded" where
  "decode_membership r = (case struct_members r of
       Inl e \<Rightarrow> Inl e
     | Inr ms \<Rightarrow>
         (let (membership, bad) = dec_string (field_vals ''membership'' ms)
          in if bad then Inl type_error else Inr membership))"

subsection \<open>Power levels\<close>

definition getEffectivePowerLevel :: "string \<Rightarrow> evento option \<Rightarrow> int" where
  "getEffectivePowerLevel sender powerLevelsEvent =
     (case powerLevelsEvent of
        None \<Rightarrow> 0
      | Some ev \<Rightarrow>
          (case decode_users (ev_Content ev) of
             Inl _ \<Rightarrow> 0
           | Inr (users, usersDefault) \<Rightarrow>
               (case map_of users sender of Some pl \<Rightarrow> pl | None \<Rightarrow> usersDefault)))"

definition getStateEvent :: "StateMap \<Rightarrow> EventsMap \<Rightarrow> string \<Rightarrow> string \<Rightarrow> evento option" where
  "getStateEvent currentState eventsMap eType sKey =
     (case map_of currentState (NewStateTuple eType (Some sKey)) of
        Some i \<Rightarrow> map_of eventsMap i
      | None \<Rightarrow> None)"

definition getUserPowerLevel :: "evento option \<Rightarrow> evento option \<Rightarrow> string \<Rightarrow> int" where
  "getUserPowerLevel plEvent createEvent userID =
     (case plEvent of
        None \<Rightarrow>
          (case createEvent of
             Some c \<Rightarrow> if ev_Sender c = userID then 100 else 0
           | None \<Rightarrow> 0)
      | Some pe \<Rightarrow>
          (case decode_users (ev_Content pe) of
             Inr (users, usersDefault) \<Rightarrow>
               (case map_of users userID of Some pl \<Rightarrow> pl | None \<Rightarrow> usersDefault)
           | Inl _ \<Rightarrow> 0))"

subsection \<open>CheckAuth\<close>

definition memberRule :: "evento \<Rightarrow> (string \<Rightarrow> int) \<Rightarrow> bool" where
  "memberRule ev powerOf =
     (case decode_membership (ev_Content ev) of
        Inl _ \<Rightarrow> False
      | Inr membership \<Rightarrow>
          (let targetUserID = (case ev_StateKey ev of None \<Rightarrow> '''' | Some k \<Rightarrow> k)
           in if membership = ''join'' \<and> targetUserID = ev_Sender ev then True
              else if targetUserID \<noteq> ev_Sender ev then powerOf (ev_Sender ev) > powerOf targetUserID
              else True))"

definition powerLevelsRule :: "evento option \<Rightarrow> int \<Rightarrow> bool" where
  "powerLevelsRule plEvent senderPL =
     (let reqPL =
        (case plEvent of
           None \<Rightarrow> 100
         | Some pe \<Rightarrow>
             (case decode_events (ev_Content pe) of
                Inl _ \<Rightarrow> 100
              | Inr (stateDefault, events) \<Rightarrow>
                  (case map_of events ''m.room.power_levels'' of
                     Some pl \<Rightarrow> pl
                   | None \<Rightarrow> if stateDefault > 0 then stateDefault else 100)))
      in senderPL \<ge> reqPL)"

definition stateRule ::
    "evento \<Rightarrow> evento option \<Rightarrow> evento option \<Rightarrow> int \<Rightarrow> bool" where
  "stateRule ev memberEv plEvent senderPL =
     (case memberEv of
        None \<Rightarrow> False
      | Some m \<Rightarrow>
          (case decode_membership (ev_Content m) of
             Inl _ \<Rightarrow> False
           | Inr membership \<Rightarrow>
               if membership \<noteq> ''join'' then False
               else
                 (let reqPL =
                    (case plEvent of
                       None \<Rightarrow> 50
                     | Some pe \<Rightarrow>
                         (case decode_events (ev_Content pe) of
                            Inl _ \<Rightarrow> 50
                          | Inr (stateDefault, events) \<Rightarrow>
                              (case map_of events (ev_Tipo ev) of
                                 Some pl \<Rightarrow> pl
                               | None \<Rightarrow> if stateDefault \<noteq> 0 then stateDefault else 50)))
                  in senderPL \<ge> reqPL)))"

definition CheckAuth :: "evento \<Rightarrow> StateMap \<Rightarrow> EventsMap \<Rightarrow> bool" where
  "CheckAuth ev currentState eventsMap =
     (if ev_Tipo ev = ''m.room.create'' then True
      else
        (let plEvent = getStateEvent currentState eventsMap ''m.room.power_levels'' '''';
             createEvent = getStateEvent currentState eventsMap ''m.room.create'' '''';
             powerOf = getUserPowerLevel plEvent createEvent;
             senderPL = powerOf (ev_Sender ev)
         in if ev_Tipo ev = ''m.room.member'' then memberRule ev powerOf
            else if ev_Tipo ev = ''m.room.power_levels'' then powerLevelsRule plEvent senderPL
            else stateRule ev (getStateEvent currentState eventsMap ''m.room.member'' (ev_Sender ev))
                   plEvent senderPL))"

subsection \<open>The interface state resolution uses\<close>

text \<open>
  What the resolver's client relies on: the verdict depends on the contents of the two maps, not on
  the order of their entries.
\<close>

locale auth_resolver =
  fixes check :: "evento \<Rightarrow> StateMap \<Rightarrow> EventsMap \<Rightarrow> bool"
  assumes check_cong:
    "map_of st = map_of st' \<Longrightarrow> map_of em = map_of em' \<Longrightarrow> check ev st em = check ev st' em'"

lemma getStateEvent_cong:
  "map_of st = map_of st' \<Longrightarrow> map_of em = map_of em' \<Longrightarrow>
     getStateEvent st em ty k = getStateEvent st' em' ty k"
  by (simp add: getStateEvent_def split: option.split)

lemma CheckAuth_cong:
  assumes "map_of st = map_of st'" and "map_of em = map_of em'"
  shows "CheckAuth ev st em = CheckAuth ev st' em'"
  unfolding CheckAuth_def by (simp only: getStateEvent_cong [OF assms])

interpretation car: auth_resolver CheckAuth
  by unfold_locales (rule CheckAuth_cong)

end
