(* ===== verification/State_Resolution.thy ===== *)
theory State_Resolution
  imports Auth_Rules "HOL-Library.Product_Lexorder"
begin

text \<open>
  \<^verbatim>\<open>internal/usecase/state_res_sort.go\<close>: state resolution. The iteration order of the three maps
  the code ranges over is an argument, \<open>range_orders\<close>.
\<close>

record range_orders =
  ro_tuples :: "StateTuple list \<Rightarrow> StateTuple list"
  ro_ids :: "string list \<Rightarrow> string list"
  ro_zero :: "string list \<Rightarrow> string list"

definition orders_ok :: "range_orders \<Rightarrow> bool" where
  "orders_ok ro \<longleftrightarrow> (\<forall>xs. mset (ro_tuples ro xs) = mset xs) \<and>
     (\<forall>xs. mset (ro_ids ro xs) = mset xs) \<and> (\<forall>xs. mset (ro_zero ro xs) = mset xs)"

subsection \<open>partitionState\<close>

type_synonym TupleCounts = "(StateTuple \<times> (string \<times> nat) list) list"

definition count_entry :: "StateTuple \<times> string \<Rightarrow> TupleCounts \<Rightarrow> TupleCounts" where
  "count_entry p tc =
     (let inner = (case map_of tc (fst p) of None \<Rightarrow> [] | Some m \<Rightarrow> m);
          n = (case map_of inner (snd p) of None \<Rightarrow> 0 | Some n \<Rightarrow> n)
      in AList.update (fst p) (AList.update (snd p) (Suc n) inner) tc)"

definition tuple_counts :: "StateMap list \<Rightarrow> TupleCounts" where
  "tuple_counts sets = foldl (\<lambda>tc set. foldl (\<lambda>tc p. count_entry p tc) tc set) [] sets"

definition partition_step ::
    "nat \<Rightarrow> TupleCounts \<Rightarrow> StateTuple \<Rightarrow> StateMap \<times> StateTuple list \<Rightarrow> StateMap \<times> StateTuple list" where
  "partition_step nsets tc tuple acc =
     (let ids = (case map_of tc tuple of None \<Rightarrow> [] | Some m \<Rightarrow> m)
      in if length ids = 1 then
           foldl (\<lambda>(unconflicted, conflicted) (eventID, cnt).
                    if cnt = nsets then (AList.update tuple eventID unconflicted, conflicted)
                    else (unconflicted, conflicted @ [tuple])) acc ids
         else (fst acc, snd acc @ [tuple]))"

definition partitionState :: "range_orders \<Rightarrow> StateMap list \<Rightarrow> StateMap \<times> StateTuple list" where
  "partitionState ro sets =
     (let tc = tuple_counts sets
      in foldl (\<lambda>acc tuple. partition_step (length sets) tc tuple acc) ([], []) (ro_tuples ro (map fst tc)))"

subsection \<open>sortEventsTopologically\<close>

text \<open>\<open>sort.SliceStable\<close>: each element moves left while it is less than its neighbour.\<close>

fun ins_right :: "('a \<Rightarrow> 'a \<Rightarrow> bool) \<Rightarrow> 'a \<Rightarrow> 'a list \<Rightarrow> 'a list" where
  "ins_right lt x [] = [x]"
| "ins_right lt x (y # ys) = (if lt x y then y # ins_right lt x ys else x # y # ys)"

definition SliceStable :: "('a \<Rightarrow> 'a \<Rightarrow> bool) \<Rightarrow> 'a list \<Rightarrow> 'a list" where
  "SliceStable lt xs = rev (foldl (\<lambda>acc x. ins_right lt x acc) [] xs)"

text \<open>The comparator of \<open>sortCandidates\<close>.\<close>

definition candidate_less :: "EventsMap \<Rightarrow> evento option \<Rightarrow> string \<Rightarrow> string \<Rightarrow> bool" where
  "candidate_less eventsMap plEvent ci cj =
     (case (map_of eventsMap ci, map_of eventsMap cj) of
        (Some evI, Some evJ) \<Rightarrow>
          (let plI = getEffectivePowerLevel (ev_Sender evI) plEvent;
               plJ = getEffectivePowerLevel (ev_Sender evJ) plEvent
           in if plI \<noteq> plJ then plI > plJ
              else if ev_OrigemServidorTS evI \<noteq> ev_OrigemServidorTS evJ
              then ev_OrigemServidorTS evI < ev_OrigemServidorTS evJ
              else ev_ID evI < ev_ID evJ)
      | _ \<Rightarrow> ci < cj)"

definition sortCandidates :: "EventsMap \<Rightarrow> evento option \<Rightarrow> string list \<Rightarrow> string list" where
  "sortCandidates eventsMap plEvent candidates = SliceStable (candidate_less eventsMap plEvent) candidates"

text \<open>Reading a missing key of a Go map gives the zero value.\<close>

definition deg_of :: "(string \<times> int) list \<Rightarrow> string \<Rightarrow> int" where
  "deg_of inDegree k = (case map_of inDegree k of None \<Rightarrow> 0 | Some d \<Rightarrow> d)"

definition nbrs_of :: "(string \<times> string list) list \<Rightarrow> string \<Rightarrow> string list" where
  "nbrs_of graph k = (case map_of graph k of None \<Rightarrow> [] | Some ns \<Rightarrow> ns)"

definition init_degrees :: "string list \<Rightarrow> (string \<times> int) list" where
  "init_degrees eventIDs = foldl (\<lambda>d i. AList.update i 0 d) [] eventIDs"

type_synonym dep_graph = "(string \<times> int) list \<times> (string \<times> string list) list"

definition add_dep :: "string \<Rightarrow> string \<Rightarrow> dep_graph \<Rightarrow> dep_graph" where
  "add_dep i authID g =
     (case g of (inDegree, graph) \<Rightarrow>
        if map_of inDegree authID \<noteq> None then
          (AList.update i (deg_of inDegree i + 1) inDegree,
           AList.update authID (nbrs_of graph authID @ [i]) graph)
        else (inDegree, graph))"

definition add_event :: "EventsMap \<Rightarrow> string \<Rightarrow> dep_graph \<Rightarrow> dep_graph" where
  "add_event eventsMap i g =
     (case map_of eventsMap i of
        None \<Rightarrow> g
      | Some ev \<Rightarrow> foldl (\<lambda>g authID. add_dep i authID g) g (ev_AuthEventos ev))"

definition build_graph :: "EventsMap \<Rightarrow> string list \<Rightarrow> dep_graph" where
  "build_graph eventsMap eventIDs =
     foldl (\<lambda>g i. add_event eventsMap i g) (init_degrees eventIDs, []) eventIDs"

text \<open>The inner loop: lower the in-degree of each dependent, queue those that reach zero.\<close>

definition relax_one ::
    "string \<Rightarrow> (string \<times> int) list \<times> string list \<Rightarrow> (string \<times> int) list \<times> string list" where
  "relax_one neighbor s =
     (case s of (inDegree, zeroDegree) \<Rightarrow>
        (let d = deg_of inDegree neighbor - 1
         in (AList.update neighbor d inDegree,
             if d = 0 then zeroDegree @ [neighbor] else zeroDegree)))"

definition relax ::
    "string list \<Rightarrow> (string \<times> int) list \<times> string list \<Rightarrow> (string \<times> int) list \<times> string list" where
  "relax neighbors s = foldl (\<lambda>s n. relax_one n s) s neighbors"

text \<open>An id can be queued again only by a degree that drops from one to zero.\<close>

definition kahn_measure :: "(string \<times> int) list \<Rightarrow> string list \<Rightarrow> nat" where
  "kahn_measure inDegree zeroDegree = length zeroDegree + length (filter (\<lambda>p. 1 \<le> snd p) inDegree)"

lemma deg_of_Cons: "deg_of (p # d) k = (if fst p = k then snd p else deg_of d k)"
  by (cases p) (simp add: deg_of_def)

lemma positive_update:
  "deg_of d k = 1 \<Longrightarrow>
     Suc (length (filter (\<lambda>p. 1 \<le> snd p) (AList.update k 0 d))) = length (filter (\<lambda>p. 1 \<le> snd p) d)"
  by (induction d) (auto simp: deg_of_def split: if_splits)

lemma positive_update_le:
  "length (filter (\<lambda>p. 1 \<le> snd p) (AList.update k (deg_of d k - 1) d))
     \<le> length (filter (\<lambda>p. 1 \<le> snd p) d)"
proof (induction d)
  case Nil
  then show ?case by (simp add: deg_of_def)
next
  case (Cons p d)
  then show ?case by (cases p) (auto simp: deg_of_Cons)
qed

lemma relax_one_measure:
  "kahn_measure (fst (relax_one n (d, z))) (snd (relax_one n (d, z))) \<le> kahn_measure d z"
  using positive_update [of d n] positive_update_le [of n d]
  by (auto simp: relax_one_def kahn_measure_def Let_def)

lemma relax_measure:
  "kahn_measure (fst (relax ns s)) (snd (relax ns s)) \<le> kahn_measure (fst s) (snd s)"
proof (induction ns arbitrary: s)
  case (Cons n ns)
  show ?case
    using Cons [of "relax_one n s"] relax_one_measure [of n "fst s" "snd s"]
    by (simp add: relax_def)
qed (simp add: relax_def)

lemma length_ins_right [simp]: "length (ins_right lt x ys) = Suc (length ys)"
  by (induction ys) auto

lemma length_foldl_ins: "length (foldl (\<lambda>acc x. ins_right lt x acc) acc xs) = length acc + length xs"
  by (induction xs arbitrary: acc) auto

lemma length_SliceStable [simp]: "length (SliceStable lt xs) = length xs"
  by (simp add: SliceStable_def length_foldl_ins)

function kahn ::
    "EventsMap \<Rightarrow> evento option \<Rightarrow> (string \<times> string list) list \<Rightarrow> (string \<times> int) list \<Rightarrow> string list
      \<Rightarrow> string list \<Rightarrow> string list" where
  "kahn eventsMap plEvent graph inDegree zeroDegree out =
     (case sortCandidates eventsMap plEvent zeroDegree of
        [] \<Rightarrow> out
      | cur # zero' \<Rightarrow>
          (let s = relax (nbrs_of graph cur) (inDegree, zero')
           in kahn eventsMap plEvent graph (fst s) (snd s) (out @ [cur])))"
  by pat_completeness auto
termination
proof (relation "measure (\<lambda>(em, pl, graph, d, z, s). kahn_measure d z)")
  fix em :: EventsMap and pl graph d z s cur zero' st
  assume "sortCandidates em pl z = cur # zero'"
  then have "length z = Suc (length zero')"
    by (metis length_Cons length_SliceStable sortCandidates_def)
  moreover assume "st = relax (nbrs_of graph cur) (d, zero')"
  ultimately show "((em, pl, graph, fst st, snd st, s @ [cur]), em, pl, graph, d, z, s)
      \<in> measure (\<lambda>(em, pl, graph, d, z, s). kahn_measure d z)"
    using relax_measure [of "nbrs_of graph cur" "(d, zero')"] by (simp add: kahn_measure_def)
qed simp

declare kahn.simps [simp del]

definition sortEventsTopologically ::
    "range_orders \<Rightarrow> string list \<Rightarrow> EventsMap \<Rightarrow> evento option \<Rightarrow> string list" where
  "sortEventsTopologically ro eventIDs eventsMap plEvent =
     (case build_graph eventsMap eventIDs of (inDegree, graph) \<Rightarrow>
        (let zeroDegree = filter (\<lambda>i. deg_of inDegree i = 0) (ro_zero ro (map fst inDegree))
         in kahn eventsMap plEvent graph inDegree zeroDegree []))"

subsection \<open>Resolve\<close>

definition conflicted_ids :: "StateMap list \<Rightarrow> StateTuple list \<Rightarrow> string list" where
  "conflicted_ids sets tuples =
     foldl (\<lambda>acc set. foldl (\<lambda>acc tuple.
         case map_of set tuple of
           Some i \<Rightarrow> if i \<in> List.set acc then acc else acc @ [i]
         | None \<Rightarrow> acc) acc tuples) [] sets"

datatype phase = Phase1 | Phase2 | Phase3

definition phase_of :: "string \<Rightarrow> phase" where
  "phase_of tipo =
     (if tipo \<in> {''m.room.create'', ''m.room.power_levels'', ''m.room.join_rules''} then Phase1
      else if tipo \<in> {''m.room.member'', ''m.room.third_party_invite''} then Phase2
      else Phase3)"

definition phase_ids :: "EventsMap \<Rightarrow> string list \<Rightarrow> phase \<Rightarrow> string list" where
  "phase_ids allEvents ids ph =
     filter (\<lambda>i. case map_of allEvents i of None \<Rightarrow> False | Some ev \<Rightarrow> phase_of (ev_Tipo ev) = ph) ids"

text \<open>One candidate; the ids come from \<open>phase_ids\<close>, so the lookup succeeds.\<close>

definition apply_candidate ::
    "(evento \<Rightarrow> StateMap \<Rightarrow> EventsMap \<Rightarrow> bool) \<Rightarrow> EventsMap \<Rightarrow> StateMap \<times> evento option \<Rightarrow> string
      \<Rightarrow> StateMap \<times> evento option" where
  "apply_candidate check allEvents acc i =
     (case map_of allEvents i of
        None \<Rightarrow> acc
      | Some ev \<Rightarrow>
          (let tuple = NewStateTuple (ev_Tipo ev) (ev_StateKey ev)
           in if check ev (fst acc) allEvents then
                (AList.update tuple i (fst acc),
                 if st_EventType tuple = ''m.room.power_levels'' \<and> st_StateKey tuple = '''' then Some ev
                 else snd acc)
              else acc))"

definition applyPhase ::
    "range_orders \<Rightarrow> (evento \<Rightarrow> StateMap \<Rightarrow> EventsMap \<Rightarrow> bool) \<Rightarrow> EventsMap \<Rightarrow> string list
      \<Rightarrow> StateMap \<times> evento option \<Rightarrow> StateMap \<times> evento option" where
  "applyPhase ro check allEvents eventIDs acc =
     foldl (apply_candidate check allEvents) acc
       (sortEventsTopologically ro eventIDs allEvents (snd acc))"

definition Resolve ::
    "range_orders \<Rightarrow> (evento \<Rightarrow> StateMap \<Rightarrow> EventsMap \<Rightarrow> bool) \<Rightarrow> StateResolutionInput
      \<Rightarrow> StateMap decoded" where
  "Resolve ro check input =
     (let sets = sri_StateSets input in
      if length sets = 0 then Inl (Errorf ''no state sets provided for resolution'')
      else if length sets = 1 then Inr (sets ! 0)
      else
        (case partitionState ro sets of (unconflicted, conflictedTuples) \<Rightarrow>
           if length conflictedTuples = 0 then Inr unconflicted
           else
             (let allEvents = maps_Copy (maps_Copy [] (sri_EventsMap input)) (sri_AuthEventsMap input);
                  plEvent = (case map_of unconflicted (StateTuple ''m.room.power_levels'' '''') of
                               Some plID \<Rightarrow> map_of allEvents plID | None \<Rightarrow> None);
                  ids = ro_ids ro (conflicted_ids sets conflictedTuples);
                  resolved = maps_Copy [] unconflicted;
                  s1 = applyPhase ro check allEvents (phase_ids allEvents ids Phase1) (resolved, plEvent);
                  s2 = applyPhase ro check allEvents (phase_ids allEvents ids Phase2) s1;
                  s3 = applyPhase ro check allEvents (phase_ids allEvents ids Phase3) s2
              in Inr (fst s3))))"

end
