(* ===== verification/Room_Membership.thy ===== *)
theory Room_Membership
  imports Federation_Client Usuario_Storage Event_Builder State_Resolution
begin

text \<open>
  \<open>ResolveEventDependencies\<close> of \<^verbatim>\<open>internal/usecase/auth_rule_resolver.go\<close> and the service of
  \<^verbatim>\<open>room_membership.go\<close>: leaving, joining (locally or through another server) and inviting.
\<close>

subsection \<open>ResolveEventDependencies\<close>

definition appendState :: "string \<Rightarrow> string \<Rightarrow> string \<Rightarrow> string list \<Rightarrow> string list op" where
  "appendState roomID stateType stateKey authEvents =
     bindM (GetStateEventID roomID stateType stateKey) (\<lambda>(eventID, found).
       returnM (if found then authEvents @ [eventID] else authEvents))"

definition ResolveEventDependencies ::
    "ctx \<Rightarrow> string \<Rightarrow> string \<Rightarrow> string \<Rightarrow> string option \<Rightarrow> (string list \<times> string list) op" where
  "ResolveEventDependencies c roomID sender eventType stateKey =
     bindM (wrapM ''failed to get extremities'' (GetForwardExtremities c roomID)) (\<lambda>prevEvents.
     bindM (appendState roomID ''m.room.create'' '''' []) (\<lambda>authEvents.
     bindM (appendState roomID ''m.room.power_levels'' '''' authEvents) (\<lambda>authEvents.
     bindM (appendState roomID ''m.room.member'' sender authEvents) (\<lambda>authEvents.
     bindM (case stateKey of
         Some k \<Rightarrow>
           if eventType = ''m.room.member'' then
             bindM (appendState roomID ''m.room.member'' k authEvents) (\<lambda>authEvents.
               appendState roomID ''m.room.join_rules'' '''' authEvents)
           else returnM authEvents
       | None \<Rightarrow> returnM authEvents) (\<lambda>authEvents.
       returnM (prevEvents, authEvents))))))"

subsection \<open>Shared steps\<close>

text \<open>The display name and avatar of a profile, both empty when the lookup fails.\<close>

definition profileNames :: "ctx \<Rightarrow> string \<Rightarrow> (string \<times> string) op" where
  "profileNames c userID =
     bindM (catchM (GetProfileByID c userID)) (\<lambda>r.
       returnM (case r of
           Inr (Some p) \<Rightarrow>
             ((case p_DisplayName p of None \<Rightarrow> '''' | Some n \<Rightarrow> n), (case p_AvatarURL p of None \<Rightarrow> '''' | Some a \<Rightarrow> a))
         | _ \<Rightarrow> ('''', '''')))"

text \<open>\<open>eventID, _ := util.HashMatrixEvent(ev)\<close>.\<close>

definition hashOrEmpty :: "server \<Rightarrow> evento \<Rightarrow> string" where
  "hashOrEmpty sv ev = (case HashMatrixEvent (sv_crypto sv) ev of Inl _ \<Rightarrow> '''' | Inr i \<Rightarrow> i)"

subsection \<open>LeaveRoom\<close>

text \<open>The body of the unit of work: the reads go to the pool, the writes to the transaction.\<close>

definition leaveBody :: "server \<Rightarrow> string \<Rightarrow> string \<Rightarrow> evento \<Rightarrow> ctx \<Rightarrow> evento op" where
  "leaveBody sv userID roomID leaveEvent txCtx =
     bindM (ResolveEventDependencies Ctx roomID userID ''m.room.member'' (Some userID)) (\<lambda>(prevs, auths).
     bindM (wrapM ''failed to get event depth'' (GetMaxDepthFromEventos prevs)) (\<lambda>maxDepth.
     (let leaveEvent = leaveEvent\<lparr>ev_PrevEventos := prevs, ev_AuthEventos := auths,
                                  ev_Depth := wrap64 (maxDepth + 1)\<rparr>;
          eventID = hashOrEmpty sv leaveEvent;
          leaveEvent = leaveEvent\<lparr>ev_ID := eventID\<rparr>
      in bindM (SaveEvento txCtx leaveEvent) (\<lambda>_.
         bindM (UpdateForwardExtremities txCtx roomID eventID prevs) (\<lambda>_.
         bindM (UpsertCurrentState txCtx roomID ''m.room.member'' userID eventID) (\<lambda>_.
         bindM (UpsertMembership txCtx roomID userID ''leave'' eventID) (\<lambda>_.
           returnM leaveEvent)))))))"

definition LeaveRoom :: "server \<Rightarrow> string \<Rightarrow> string \<Rightarrow> unit op" where
  "LeaveRoom sv userID roomID =
     bindM (wrapM ''failed to check membership'' (GetUserMembership roomID userID)) (\<lambda>currentStatus.
       if currentStatus = ''leave'' \<or> currentStatus = ''ban'' then returnM ()
       else if currentStatus \<noteq> ''join'' \<and> currentStatus \<noteq> ''invite''
       then failM (Errorf ''user is not in a state to leave this room'')
       else
         bindM (profileNames Ctx userID) (\<lambda>(displayName, avatarURL).
         bindM (buildLeaveEvent roomID userID displayName avatarURL) (\<lambda>leaveEvent.
         bindM (Execute (leaveBody sv userID roomID leaveEvent)) (\<lambda>leaveEvent.
         bindM (WakeUpUsers userID) (\<lambda>_.
         bindM (catchM (QueueOutgoing leaveEvent)) (\<lambda>_.
           returnM ()))))))"

definition GetJoinedRooms :: "string \<Rightarrow> string list op" where
  "GetJoinedRooms userID = GetUserJoinedRooms userID"

subsection \<open>JoinLocalRoom\<close>

definition joinBody :: "server \<Rightarrow> string \<Rightarrow> string \<Rightarrow> evento \<Rightarrow> ctx \<Rightarrow> evento op" where
  "joinBody sv userID roomID joinEvent txCtx =
     bindM (ResolveEventDependencies Ctx roomID userID ''m.room.member'' (Some userID)) (\<lambda>(prevs, auths).
     bindM (wrapM ''failed to get event depth'' (GetMaxDepthFromEventos prevs)) (\<lambda>maxDepth.
     (let joinEvent = joinEvent\<lparr>ev_PrevEventos := prevs, ev_AuthEventos := auths,
                                ev_Depth := wrap64 (maxDepth + 1)\<rparr>;
          eventID = hashOrEmpty sv joinEvent;
          joinEvent = joinEvent\<lparr>ev_ID := eventID\<rparr>
      in bindM (SaveEvento txCtx joinEvent) (\<lambda>_.
         bindM (UpdateForwardExtremities txCtx roomID eventID prevs) (\<lambda>_.
         bindM (UpsertCurrentState txCtx roomID ''m.room.member'' userID eventID) (\<lambda>_.
         bindM (UpsertMembership txCtx roomID userID ''join'' eventID) (\<lambda>_.
           returnM joinEvent)))))))"

text \<open>\<open>status, _ := GetUserMembership(...)\<close>: an error leaves the empty string.\<close>

definition joinAllowed :: "string \<Rightarrow> string \<Rightarrow> string \<Rightarrow> unit op" where
  "joinAllowed userID roomID joinRule =
     (if joinRule = ''invite'' \<or> joinRule = ''private'' then
        bindM (catchM (GetUserMembership roomID userID)) (\<lambda>r.
          if (case r of Inl _ \<Rightarrow> '''' | Inr status \<Rightarrow> status) \<noteq> ''invite''
          then failM (Errorf ''M_FORBIDDEN: You must be invited to join this room'')
          else returnM ())
      else if joinRule \<noteq> ''public'' then failM (Errorf ''M_FORBIDDEN: Room is not public'')
      else returnM ())"

definition JoinLocalRoom :: "server \<Rightarrow> string \<Rightarrow> string \<Rightarrow> unit op" where
  "JoinLocalRoom sv userID roomID =
     bindM (wrapM ''Failure'' (GetJoinRule roomID)) (\<lambda>joinRule.
     bindM (joinAllowed userID roomID joinRule) (\<lambda>_.
     bindM (profileNames Ctx userID) (\<lambda>(displayName, avatarURL).
     bindM (buildJoinEvent roomID userID displayName avatarURL) (\<lambda>joinEvent.
     bindM (Execute (joinBody sv userID roomID joinEvent)) (\<lambda>joinEvent.
     bindM (catchM (QueueOutgoing joinEvent)) (\<lambda>_.
       returnM ()))))))"

subsection \<open>JoinRemoteRoom\<close>

text \<open>\<open>m[ev.ID] = ev\<close> and the state map of a list of events.\<close>

definition add_events :: "evento list \<Rightarrow> EventsMap \<Rightarrow> EventsMap" where
  "add_events evs m = foldl (\<lambda>m ev. AList.update (ev_ID ev) ev m) m evs"

definition state_map_of :: "evento list \<Rightarrow> StateMap" where
  "state_map_of evs =
     foldl (\<lambda>m ev. case ev_StateKey ev of
         None \<Rightarrow> m
       | Some k \<Rightarrow> AList.update (NewStateTuple (ev_Tipo ev) (ev_StateKey ev)) (ev_ID ev) m) [] evs"

text \<open>\<open>json.Unmarshal\<close> into \<open>struct { Membership string }\<close> worked and gave a non-empty string.\<close>

definition membershipOf :: "evento \<Rightarrow> string option" where
  "membershipOf ev = (case decode_membership (ev_Content ev) of
       Inl _ \<Rightarrow> None | Inr m \<Rightarrow> if m = '''' then None else Some m)"

definition persistResolved :: "string \<Rightarrow> EventsMap \<Rightarrow> StateTuple \<times> string \<Rightarrow> unit op" where
  "persistResolved roomID eventsMap entry =
     (case entry of (tuple, winningID) \<Rightarrow>
        bindM (wrapM ''failed to upsert resolved state''
                 (UpsertCurrentState TxCtx roomID (st_EventType tuple) (st_StateKey tuple) winningID)) (\<lambda>_.
          if st_EventType tuple = ''m.room.member'' then
            (case map_of eventsMap winningID of
               None \<Rightarrow> returnM ()
             | Some ev \<Rightarrow>
                 (case (ev_StateKey ev, membershipOf ev) of
                    (Some k, Some m) \<Rightarrow>
                      wrapM ''failed to upsert resolved membership'' (UpsertMembership TxCtx roomID k m winningID)
                  | _ \<Rightarrow> returnM ()))
          else returnM ()))"

definition ensureCanal :: "ctx \<Rightarrow> string \<Rightarrow> string \<Rightarrow> string \<Rightarrow> unit op" where
  "ensureCanal txCtx roomID sender version =
     bindM (wrapM ''failed to check existing room'' (Canal_GetByID txCtx roomID)) (\<lambda>existingCanal.
       if existingCanal = None then
         bindM (wrapM ''failed to create local room stub'' (Canal_Create txCtx roomID sender version)) (\<lambda>_. returnM ())
       else returnM ())"

definition remoteJoinBody ::
    "range_orders \<Rightarrow> (evento \<Rightarrow> StateMap \<Rightarrow> EventsMap \<Rightarrow> bool) \<Rightarrow> string \<Rightarrow> string \<Rightarrow> evento \<Rightarrow> string
      \<Rightarrow> SendJoinResponse \<Rightarrow> ctx \<Rightarrow> unit op" where
  "remoteJoinBody ro check userID roomID protoEvent remoteRoomVersion roomStateContext txCtx =
     (let authEventsMap = add_events (sj_AuthChain roomStateContext) [];
          eventsMap = AList.update (ev_ID protoEvent) protoEvent (add_events (sj_StateEvents roomStateContext) []);
          remoteStateMap = state_map_of (sj_StateEvents roomStateContext)
      in bindM (ensureCanal txCtx roomID (ev_Sender protoEvent) remoteRoomVersion) (\<lambda>_.
         bindM (catchM (GetCurrentStateEvents roomID)) (\<lambda>r.
         (let localStateEvents = (case r of Inl _ \<Rightarrow> [] | Inr es \<Rightarrow> es);
              eventsMap = add_events localStateEvents eventsMap;
              localStateMap = state_map_of localStateEvents
          in bindM (forM (sj_AuthChain roomStateContext)
                 (\<lambda>authEv. wrapM ''failed to save auth chain event'' (SaveEvento txCtx authEv))) (\<lambda>_.
             bindM (forM (sj_StateEvents roomStateContext)
                 (\<lambda>stateEv. wrapM ''failed to save state event'' (SaveEvento txCtx stateEv))) (\<lambda>_.
             bindM (wrapM ''failed to save join event'' (SaveEvento txCtx protoEvent)) (\<lambda>_.
             (let stateSets = remoteStateMap # (if 0 < length localStateMap then [localStateMap] else []);
                  input = \<lparr>sri_RoomID = roomID, sri_StateSets = stateSets,
                           sri_AuthEventsMap = authEventsMap, sri_EventsMap = eventsMap\<rparr>
              in bindM (wrapM ''state resolution v2 failed during remote join''
                          (liftE (Resolve ro check input))) (\<lambda>resolvedState.
                 (let joinTuple = NewStateTuple ''m.room.member'' (Some userID);
                      resolvedState = AList.update joinTuple (ev_ID protoEvent) resolvedState
                  in bindM (forM resolvedState (persistResolved roomID eventsMap)) (\<lambda>_.
                     bindM (wrapM ''failed to update forward extremities''
                        (UpdateForwardExtremities txCtx roomID (ev_ID protoEvent) (ev_PrevEventos protoEvent))) (\<lambda>_.
                     wrapM ''failed to upsert membership''
                        (UpsertMembership txCtx roomID userID ''join'' (ev_ID protoEvent))))))))))))))"

definition JoinRemoteRoom ::
    "range_orders \<Rightarrow> (evento \<Rightarrow> StateMap \<Rightarrow> EventsMap \<Rightarrow> bool) \<Rightarrow> server \<Rightarrow> string \<Rightarrow> string \<Rightarrow> string \<Rightarrow> unit op" where
  "JoinRemoteRoom ro check sv userID roomID remoteServer =
     bindM (wrapM ''federated make_join failed'' (MakeJoinCall sv remoteServer roomID userID))
       (\<lambda>(protoEvent, remoteRoomVersion).
     bindM nowM (\<lambda>now.
     (let protoEvent = protoEvent\<lparr>ev_OrigemServidorTS := now\<rparr>
      in bindM (wrapM ''failed to hash remote join event'' (liftE (HashMatrixEvent (sv_crypto sv) protoEvent)))
           (\<lambda>eventID.
         (let protoEvent = protoEvent\<lparr>ev_ID := eventID\<rparr>
          in bindM (wrapM ''failed to sign remote join event''
                 (liftE (SignMatrixEvent (sv_crypto sv) protoEvent (sv_serverName sv) (sv_keyID sv) (sv_privateKey sv))))
               (\<lambda>signatures.
             (let protoEvent = protoEvent\<lparr>ev_Signatures := Some signatures\<rparr>
              in bindM (wrapM ''federated send_join failed'' (SendJoinCall sv remoteServer roomID protoEvent))
                   (\<lambda>roomStateContext.
                     Execute (remoteJoinBody ro check userID roomID protoEvent remoteRoomVersion roomStateContext)))))))))"

subsection \<open>InviteUser\<close>

text \<open>\<open>struct { Invite *int; UsersDefault *int; Users map[string]int }\<close>.\<close>

definition dec_int64_ptr :: "json list \<Rightarrow> int option \<times> bool" where
  "dec_int64_ptr vs =
     foldl (\<lambda>(i, bad) v. case v of JNull \<Rightarrow> (None, bad)
         | JNum n \<Rightarrow> if in_int64 n then (Some n, bad) else (i, True)
         | _ \<Rightarrow> (i, True)) (None, False) vs"

definition decode_invite_levels :: "raw \<Rightarrow> (int option \<times> int option \<times> (string \<times> int) list) decoded" where
  "decode_invite_levels r = (case struct_members r of
       Inl e \<Rightarrow> Inl e
     | Inr ms \<Rightarrow>
         (let (invite, b1) = dec_int64_ptr (field_vals ''invite'' ms);
              (usersDefault, b2) = dec_int64_ptr (field_vals ''users_default'' ms);
              (users, b3) = dec_map_int64 (field_vals ''users'' ms)
          in if b1 \<or> b2 \<or> b3 then Inl type_error else Inr (invite, usersDefault, users)))"

definition checkInvitePowerLevel :: "string \<Rightarrow> string \<Rightarrow> unit op" where
  "checkInvitePowerLevel roomID inviterID =
     bindM (GetStateEventID roomID ''m.room.power_levels'' '''') (\<lambda>(eventID, found).
       if \<not> found then returnM ()
       else bindM (wrapM ''failed to fetch power levels event'' (GetEvento eventID)) (\<lambda>plEvent.
            bindM (wrapM ''failed to parse power levels content'' (liftE (decode_invite_levels (ev_Content plEvent))))
              (\<lambda>(invite, usersDefault, users).
                (let inviteLevel = (case invite of None \<Rightarrow> 0 | Some l \<Rightarrow> l);
                     usersDefault = (case usersDefault of None \<Rightarrow> 0 | Some l \<Rightarrow> l);
                     inviterLevel = (case map_of users inviterID of Some lvl \<Rightarrow> lvl | None \<Rightarrow> usersDefault)
                 in if inviterLevel < inviteLevel
                    then failM (Wrapf ''insufficient power level to invite'' ErrForbidden)
                    else returnM ()))))"

definition stripState :: "string \<Rightarrow> string \<Rightarrow> StrippedEvento list \<Rightarrow> StrippedEvento list op" where
  "stripState roomID t stripped =
     bindM (GetStateEventID roomID t '''') (\<lambda>(eventID, found).
       if \<not> found then returnM stripped
       else bindM (catchM (GetEvento eventID)) (\<lambda>r.
         returnM (case r of
             Inl _ \<Rightarrow> stripped
           | Inr ev \<Rightarrow> stripped @ [\<lparr>se_Tipo = ev_Tipo ev, se_Content = ev_Content ev,
                                     se_StateKey = ev_StateKey ev, se_Sender = ev_Sender ev\<rparr>])))"

definition buildInviteRoomState :: "string \<Rightarrow> StrippedEvento list op" where
  "buildInviteRoomState roomID =
     foldM (stripState roomID)
       [''m.room.create'', ''m.room.join_rules'', ''m.room.canonical_alias'', ''m.room.name'', ''m.room.avatar'',
        ''m.room.topic'', ''m.room.encryption''] []"

definition inviteContent :: "string \<Rightarrow> bool \<Rightarrow> Profile option \<Rightarrow> json" where
  "inviteContent reason isDirect profile =
     JObj ([(''membership'', JStr ''invite'')] @
           (if reason \<noteq> '''' then [(''reason'', JStr reason)] else []) @
           (if isDirect then [(''is_direct'', JBool True)] else []) @
           (case profile of
              None \<Rightarrow> []
            | Some p \<Rightarrow>
                (case p_DisplayName p of None \<Rightarrow> [] | Some n \<Rightarrow> [(''displayname'', JStr n)]) @
                (case p_AvatarURL p of None \<Rightarrow> [] | Some a \<Rightarrow> [(''avatar_url'', JStr a)])))"

text \<open>The handshake with the server of a remote invitee; the event it returns replaces ours.\<close>

definition remoteInvite :: "server \<Rightarrow> string \<Rightarrow> string \<Rightarrow> evento \<Rightarrow> evento op" where
  "remoteInvite sv roomID inviteeID inviteEvent =
     bindM (wrapM ''failed to sign invite event'' (liftE (SignMatrixEvent (sv_crypto sv) inviteEvent
         (sv_serverName sv) (sv_keyID sv) (sv_privateKey sv)))) (\<lambda>sigs.
     (let inviteEvent = inviteEvent\<lparr>ev_Signatures := Some sigs\<rparr>
      in bindM (wrapM ''failed to look up room'' (Canal_GetByID Ctx roomID)) (\<lambda>canal.
         (let roomVersion = (case canal of
                Some cn \<Rightarrow> if ca_Versao cn \<noteq> '''' then ca_Versao cn else ''11'' | None \<Rightarrow> ''11'');
              remoteServer = ExtractDomainFromUserID inviteeID
          in bindM (buildInviteRoomState roomID) (\<lambda>inviteRoomState.
             wrapM ''federated invite failed''
               (SendInviteCall sv remoteServer roomID roomVersion inviteEvent inviteRoomState))))))"

definition inviteBody :: "string \<Rightarrow> string \<Rightarrow> evento \<Rightarrow> ctx \<Rightarrow> unit op" where
  "inviteBody roomID inviteeID inviteEvent txCtx =
     bindM (SaveEvento txCtx inviteEvent) (\<lambda>_.
     bindM (UpdateForwardExtremities txCtx roomID (ev_ID inviteEvent) (ev_PrevEventos inviteEvent)) (\<lambda>_.
     bindM (UpsertCurrentState txCtx roomID ''m.room.member'' inviteeID (ev_ID inviteEvent)) (\<lambda>_.
       UpsertMembership txCtx roomID inviteeID ''invite'' (ev_ID inviteEvent))))"

definition inviteGuard :: "string \<Rightarrow> string \<Rightarrow> string \<Rightarrow> unit op" where
  "inviteGuard roomID inviterID inviteeID =
     bindM (wrapM ''failed to check inviter membership'' (GetUserMembership roomID inviterID)) (\<lambda>inviterStatus.
       if inviterStatus \<noteq> ''join'' then failM (Wrapf ''inviter is not currently in the room'' ErrForbidden)
       else bindM (wrapM ''failed to check invitee membership'' (GetUserMembership roomID inviteeID)) (\<lambda>inviteeStatus.
         if inviteeStatus = ''ban'' then failM (Wrapf ''user is banned from the room'' ErrForbidden)
         else if inviteeStatus = ''join'' then failM (Wrapf ''user is already a member of the room'' ErrForbidden)
         else checkInvitePowerLevel roomID inviterID))"

definition InviteUser :: "server \<Rightarrow> string \<Rightarrow> string \<Rightarrow> string \<Rightarrow> string \<Rightarrow> bool \<Rightarrow> unit op" where
  "InviteUser sv roomID inviterID inviteeID reason isDirect =
     bindM (inviteGuard roomID inviterID inviteeID) (\<lambda>_.
     bindM (catchM (GetProfileByID Ctx inviteeID)) (\<lambda>r.
     bindM (newBaseEvent roomID inviterID ''m.room.member'' (Some inviteeID)
              (inviteContent reason isDirect (case r of Inl _ \<Rightarrow> None | Inr p \<Rightarrow> p))) (\<lambda>inviteEvent.
     bindM (ResolveEventDependencies Ctx roomID inviterID ''m.room.member'' (Some inviteeID)) (\<lambda>(prevs, auths).
     bindM (wrapM ''failed to get event depth'' (GetMaxDepthFromEventos prevs)) (\<lambda>maxDepth.
     (let inviteEvent = inviteEvent\<lparr>ev_PrevEventos := prevs, ev_AuthEventos := auths,
                                    ev_Depth := wrap64 (maxDepth + 1)\<rparr>
      in bindM (wrapM ''failed to hash invite event'' (liftE (HashMatrixEvent (sv_crypto sv) inviteEvent))) (\<lambda>eventID.
         (let inviteEvent = inviteEvent\<lparr>ev_ID := eventID\<rparr>
          in bindM (if IsRemoteUser inviteeID (sv_serverName sv) then remoteInvite sv roomID inviteeID inviteEvent
                    else returnM inviteEvent) (\<lambda>inviteEvent.
             bindM (Execute (inviteBody roomID inviteeID inviteEvent)) (\<lambda>_.
             bindM (catchM (QueueOutgoing inviteEvent)) (\<lambda>_.
               returnM ())))))))))))"

end
