(* ===== verification/Room_Interaction.thy ===== *)
theory Room_Interaction
  imports Room_Membership
begin

text \<open>
  \<^verbatim>\<open>internal/usecase/room_interaction.go\<close>: sending events and state, reading timelines, state and
  members, receipts and typing notices.
\<close>

subsection \<open>Membership check\<close>

text \<open>\<open>if err != nil || status != "join" { return ErrForbidden }\<close>.\<close>

definition requireStatus :: "string list \<Rightarrow> string \<Rightarrow> string \<Rightarrow> unit op" where
  "requireStatus allowed roomID userID =
     bindM (catchM (GetUserMembership roomID userID)) (\<lambda>r.
       case r of
         Inl _ \<Rightarrow> failM ErrForbidden
       | Inr status \<Rightarrow> if status \<in> set allowed then returnM () else failM ErrForbidden)"

subsection \<open>SendStateEvent\<close>

record StateParams =
  sta_RoomID :: string
  sta_UserID :: string
  sta_EventType :: string
  sta_StateKey :: string
  sta_Content :: json

record EventParams =
  evp_RoomID :: string
  evp_SenderID :: string
  evp_Content :: json
  evp_EventType :: string
  evp_TxnID :: string

text \<open>Dependencies, depth, hash and signature, the same in both senders.\<close>

definition linkEvent :: "server \<Rightarrow> string \<Rightarrow> string \<Rightarrow> string \<Rightarrow> string option \<Rightarrow> evento \<Rightarrow> (evento \<times> string list) op" where
  "linkEvent sv roomID sender eventType stateKey newEvent =
     bindM (wrapM ''failed to resolve DAG dependencies''
              (ResolveEventDependencies Ctx roomID sender eventType stateKey)) (\<lambda>(prevs, auths).
     bindM (wrapM ''failed to get event depth'' (GetMaxDepthFromEventos prevs)) (\<lambda>maxDepth.
     (let newEvent = newEvent\<lparr>ev_PrevEventos := prevs, ev_AuthEventos := auths,
                              ev_Depth := wrap64 (maxDepth + 1)\<rparr>
      in bindM (wrapM ''failed to hash event'' (liftE (HashMatrixEvent (sv_crypto sv) newEvent))) (\<lambda>eventID.
         (let newEvent = newEvent\<lparr>ev_ID := eventID\<rparr>
          in bindM (wrapM ''failed to sign event'' (liftE (SignMatrixEvent (sv_crypto sv) newEvent
                 (sv_serverName sv) (sv_keyID sv) (sv_privateKey sv)))) (\<lambda>signJSON.
               returnM (newEvent\<lparr>ev_Signatures := Some signJSON\<rparr>, prevs)))))))"

definition stateBody :: "server \<Rightarrow> StateParams \<Rightarrow> evento \<Rightarrow> ctx \<Rightarrow> evento op" where
  "stateBody sv params newEvent txCtx =
     bindM (linkEvent sv (sta_RoomID params) (sta_UserID params) (sta_EventType params)
              (Some (sta_StateKey params)) newEvent) (\<lambda>(newEvent, prevs).
     bindM (SaveEvento txCtx newEvent) (\<lambda>_.
     bindM (UpdateForwardExtremities txCtx (sta_RoomID params) (ev_ID newEvent) prevs) (\<lambda>_.
     bindM (UpsertCurrentState txCtx (sta_RoomID params) (sta_EventType params) (sta_StateKey params) (ev_ID newEvent)) (\<lambda>_.
     bindM (if sta_EventType params = ''m.room.member'' then
              (case membershipOf newEvent of
                 None \<Rightarrow> returnM ()
               | Some m \<Rightarrow> UpsertMembership txCtx (sta_RoomID params) (sta_StateKey params) m (ev_ID newEvent))
            else returnM ()) (\<lambda>_.
       returnM newEvent)))))"

definition SendStateEvent :: "server \<Rightarrow> StateParams \<Rightarrow> string op" where
  "SendStateEvent sv params =
     bindM (requireStatus [''join''] (sta_RoomID params) (sta_UserID params)) (\<lambda>_.
     bindM nowM (\<lambda>now.
     (let newEvent = zeroEvento
            \<lparr>ev_CanalID := sta_RoomID params, ev_Sender := sta_UserID params, ev_Tipo := sta_EventType params,
             ev_StateKey := Some (sta_StateKey params), ev_Content := Some (marshal_any (sta_Content params)),
             ev_OrigemServidorTS := now\<rparr>
      in bindM (wrapM ''transaction failed'' (Execute (stateBody sv params newEvent))) (\<lambda>newEvent.
         bindM (catchM (QueueOutgoing newEvent)) (\<lambda>_.
           returnM (ev_ID newEvent))))))"

subsection \<open>SendEvent\<close>

definition eventBody :: "server \<Rightarrow> EventParams \<Rightarrow> evento \<Rightarrow> ctx \<Rightarrow> evento op" where
  "eventBody sv params newEvent txCtx =
     bindM (linkEvent sv (evp_RoomID params) (evp_SenderID params) (evp_EventType params) None newEvent)
       (\<lambda>(newEvent, prevs).
     bindM (SaveEvento txCtx newEvent) (\<lambda>_.
     bindM (UpdateForwardExtremities txCtx (evp_RoomID params) (ev_ID newEvent) prevs) (\<lambda>_.
       returnM newEvent)))"

definition SendEvent :: "server \<Rightarrow> EventParams \<Rightarrow> string op" where
  "SendEvent sv params =
     bindM (requireStatus [''join''] (evp_RoomID params) (evp_SenderID params)) (\<lambda>_.
     bindM nowM (\<lambda>now.
     (let newEvent = zeroEvento
            \<lparr>ev_CanalID := evp_RoomID params, ev_Sender := evp_SenderID params, ev_Tipo := evp_EventType params,
             ev_StateKey := None, ev_Content := Some (marshal_any (evp_Content params)),
             ev_OrigemServidorTS := now\<rparr>;
          newEvent = (if evp_TxnID params \<noteq> ''''
             then newEvent\<lparr>ev_Unsigned := Some (JObj [(''transaction_id'', JStr (evp_TxnID params))])\<rparr>
             else newEvent)
      in bindM (wrapM ''transaction failed'' (Execute (eventBody sv params newEvent))) (\<lambda>newEvent.
         bindM (catchM (QueueOutgoing newEvent)) (\<lambda>_.
           returnM (ev_ID newEvent))))))"

subsection \<open>Reading\<close>

definition RetrieveSingleEvent :: "string \<Rightarrow> evento op" where
  "RetrieveSingleEvent eventID = GetEvento eventID"

definition BackfillRoomEvents :: "string \<Rightarrow> int \<Rightarrow> string list \<Rightarrow> evento list op" where
  "BackfillRoomEvents roomID limit eventIDs = GetEventsSince roomID limit eventIDs"

record GetMessagesResponse =
  gm_Start :: string
  gm_End :: string
  gm_Chunk :: "evento list"

definition timeline_token :: "int \<Rightarrow> string" where
  "timeline_token n = Encode (zeroToken\<lparr>TimelinePosition := n\<rparr>)"

text \<open>The \<open>from\<close> parameter: a sync token, else a bare number, else zero.\<close>

definition parse_from :: "string \<Rightarrow> int" where
  "parse_from frm =
     (if frm = '''' then 0
      else (let token = ParseToken frm
            in if TimelinePosition token \<noteq> 0 then TimelinePosition token
               else (case ParseInt frm of Some n \<Rightarrow> n | None \<Rightarrow> 0)))"

definition GetMessages :: "string \<Rightarrow> string \<Rightarrow> string \<Rightarrow> string \<Rightarrow> int \<Rightarrow> GetMessagesResponse op" where
  "GetMessages roomID userID frm dir limit =
     bindM (requireStatus [''join''] roomID userID) (\<lambda>_.
       if dir \<noteq> ''b'' \<and> dir \<noteq> ''f'' then failM ErrInvalidPaginationDirection
       else
         (let fromToken = parse_from frm
          in bindM (wrapM ''failed to get messages history'' (GetRoomMessagesHistory roomID fromToken dir limit))
               (\<lambda>eventos.
                 returnM
                   \<lparr>gm_Start = (if frm \<noteq> '''' then frm
                               else (case eventos of e # _ \<Rightarrow> timeline_token (ev_StreamOrdering e)
                                                   | [] \<Rightarrow> timeline_token fromToken)),
                    gm_End = (if 0 < length eventos then timeline_token (ev_StreamOrdering (last eventos)) else ''''),
                    gm_Chunk = eventos\<rparr>)))"

definition GetEvent :: "string \<Rightarrow> string \<Rightarrow> string \<Rightarrow> evento op" where
  "GetEvent userID roomID eventID =
     bindM (requireStatus [''join''] roomID userID) (\<lambda>_.
     bindM (wrapM ''failed to fetch event'' (GetEvento eventID)) (\<lambda>evento.
       if ev_CanalID evento \<noteq> roomID then failM ErrForbidden else returnM evento))"

definition GetRoomState :: "string \<Rightarrow> string \<Rightarrow> evento list op" where
  "GetRoomState userID roomID =
     bindM (requireStatus [''join''] roomID userID) (\<lambda>_.
       wrapM ''failed to fetch current state events'' (GetCurrentStateEvents roomID))"

definition member_matches :: "string \<Rightarrow> string \<Rightarrow> evento \<Rightarrow> bool" where
  "member_matches membershipFilter notMembershipFilter ev =
     (case membership_text (ev_Content ev) of
        None \<Rightarrow> False
      | Some memState \<Rightarrow>
          (membershipFilter = '''' \<or> memState = membershipFilter) \<and>
          (notMembershipFilter = '''' \<or> memState \<noteq> notMembershipFilter))"

definition GetRoomMembers :: "string \<Rightarrow> string \<Rightarrow> string \<Rightarrow> string \<Rightarrow> evento list op" where
  "GetRoomMembers userID roomID membershipFilter notMembershipFilter =
     bindM (requireStatus [''join''] roomID userID) (\<lambda>_.
     bindM (wrapM ''failed to fetch member events'' (GetRoomMemberEvents roomID)) (\<lambda>memberEvents.
       returnM (if membershipFilter = '''' \<and> notMembershipFilter = '''' then memberEvents
                else filter (member_matches membershipFilter notMembershipFilter) memberEvents)))"

record JoinedMemberProfile =
  jm_DisplayName :: "string option"
  jm_AvatarURL :: "string option"

definition decode_member_profile :: "raw \<Rightarrow> (string \<times> JoinedMemberProfile) decoded" where
  "decode_member_profile r = (case struct_members r of
       Inl e \<Rightarrow> Inl e
     | Inr ms \<Rightarrow>
         (let (membership, b1) = dec_string (field_vals ''membership'' ms);
              (displayName, b2) = dec_string_ptr (field_vals ''displayname'' ms);
              (avatarURL, b3) = dec_string_ptr (field_vals ''avatar_url'' ms)
          in if b1 \<or> b2 \<or> b3 then Inl type_error
             else Inr (membership, \<lparr>jm_DisplayName = displayName, jm_AvatarURL = avatarURL\<rparr>)))"

definition add_joined :: "evento \<Rightarrow> (string \<times> JoinedMemberProfile) list \<Rightarrow> (string \<times> JoinedMemberProfile) list" where
  "add_joined ev joined =
     (case ev_StateKey ev of
        None \<Rightarrow> joined
      | Some k \<Rightarrow>
          if k = '''' then joined
          else (case decode_member_profile (ev_Content ev) of
                  Inl _ \<Rightarrow> joined
                | Inr (membership, p) \<Rightarrow> if membership = ''join'' then AList.update k p joined else joined))"

definition GetJoinedMembers :: "string \<Rightarrow> string \<Rightarrow> (string \<times> JoinedMemberProfile) list op" where
  "GetJoinedMembers userID roomID =
     bindM (requireStatus [''join''] roomID userID) (\<lambda>_.
     bindM (wrapM ''failed to fetch member events'' (GetRoomMemberEvents roomID)) (\<lambda>memberEvents.
       returnM (foldl (\<lambda>joined ev. add_joined ev joined) [] memberEvents)))"

definition GetStateEventContent :: "string \<Rightarrow> string \<Rightarrow> string \<Rightarrow> string \<Rightarrow> evento op" where
  "GetStateEventContent roomID userID eventType stateKey =
     bindM (wrapM ''failed to check membership'' (GetUserMembershipRecord roomID userID)) (\<lambda>(status, found).
       if \<not> found \<or> status \<noteq> ''join'' \<and> status \<noteq> ''leave'' then failM ErrForbidden
       else bindM (GetStateEventID roomID eventType stateKey) (\<lambda>(eventID, stateFound).
         if \<not> stateFound then failM ErrStateNotFound
         else wrapM ''failed to fetch state event'' (GetEvento eventID)))"

subsection \<open>Receipts and typing\<close>

definition SendReceipt :: "string \<Rightarrow> string \<Rightarrow> string \<Rightarrow> string \<Rightarrow> unit op" where
  "SendReceipt userID roomID receiptType eventID =
     bindM (requireStatus [''join'', ''invite''] roomID userID) (\<lambda>_.
     bindM nowM (\<lambda>ts.
       wrapM ''failed to persist receipt'' (SaveReceipt userID roomID receiptType eventID ts)))"

definition SetTyping :: "string \<Rightarrow> string \<Rightarrow> bool \<Rightarrow> int \<Rightarrow> unit op" where
  "SetTyping userID roomID isTyping timeout =
     bindM (requireStatus [''join''] roomID userID) (\<lambda>_.
     bindM (if isTyping
            then bindM nowM (\<lambda>now. returnM (wrap64 (now + (if timeout \<le> 0 then 30000 else timeout))))
            else returnM 0) (\<lambda>expiresAt.
       wrapM ''failed to persist typing state'' (SaveTypingState roomID userID isTyping expiresAt)))"

end
