(* ===== verification/Room_Admin.thy ===== *)
theory Room_Admin
  imports Room_Membership
begin

text \<open>
  \<^verbatim>\<open>internal/usecase/room_admin.go\<close>: creating a room. The chain of genesis events is built in memory,
  stored in one unit of work, and the invitations go out afterwards.
\<close>

record CreateRoomParams =
  cr_CreatorID :: string
  cr_Visibility :: string
  cr_Alias :: string
  cr_Name :: string
  cr_Version :: string
  cr_Topic :: string
  cr_Invite :: "string list"
  cr_IsDirect :: bool
  cr_InitialState :: "StateEventParams list"
  cr_Preset :: "string option"

definition room_version :: "CreateRoomParams \<Rightarrow> string" where
  "room_version props = (if cr_Version props \<noteq> '''' then cr_Version props else ''11'')"

definition full_alias :: "server \<Rightarrow> CreateRoomParams \<Rightarrow> string" where
  "full_alias sv props =
     (if cr_Alias props \<noteq> '''' then CHR ''#'' # cr_Alias props @ CHR '':'' # sv_serverName sv else '''')"

definition preset_rule :: "string option \<Rightarrow> string" where
  "preset_rule preset =
     (let present = (case preset of None \<Rightarrow> ''private'' | Some p \<Rightarrow> p)
      in if present = ''public_chat'' then ''public'' else ''invite'')"

text \<open>\<open>if cond { eventsToSave = append(eventsToSave, build...) }\<close>.\<close>

definition appendIf :: "bool \<Rightarrow> evento op \<Rightarrow> evento list \<Rightarrow> evento list op" where
  "appendIf b m evs = (if b then bindM m (\<lambda>ev. returnM (evs @ [ev])) else returnM evs)"

definition genesisEvents :: "server \<Rightarrow> string \<Rightarrow> CreateRoomParams \<Rightarrow> evento list op" where
  "genesisEvents sv roomID props =
     (let creator = cr_CreatorID props in
      bindM (buildCreateEvent roomID creator (room_version props)) (\<lambda>createEvent.
      bindM (profileNames Ctx creator) (\<lambda>(displayName, avatarURL).
      bindM (buildJoinEvent roomID creator displayName avatarURL) (\<lambda>creatorJoinEvent.
      bindM (buildPowerLevelEvent roomID creator) (\<lambda>powerEvent.
      bindM (buildJoinRulesEvent roomID creator (preset_rule (cr_Preset props))) (\<lambda>rulesEvent.
      bindM (appendIf (cr_Name props \<noteq> '''') (buildNameEvent roomID creator (cr_Name props))
               [createEvent, creatorJoinEvent, powerEvent, rulesEvent]) (\<lambda>evs.
      bindM (appendIf (cr_Topic props \<noteq> '''') (buildTopicEvent roomID creator (cr_Topic props)) evs) (\<lambda>evs.
      bindM (appendIf (cr_Alias props \<noteq> '''') (buildAliasEvent roomID creator (full_alias sv props)) evs) (\<lambda>evs.
      bindM (buildInitialStateEvents roomID creator (cr_InitialState props)) (\<lambda>customEvents.
        returnM (evs @ customEvents)))))))))))"

definition saveGenesis :: "ctx \<Rightarrow> string \<Rightarrow> evento \<Rightarrow> unit op" where
  "saveGenesis txCtx roomID event =
     bindM (SaveEvento txCtx event) (\<lambda>_.
       case ev_StateKey event of
         None \<Rightarrow> returnM ()
       | Some k \<Rightarrow> UpsertCurrentState txCtx roomID (ev_Tipo event) k (ev_ID event))"

text \<open>The creator's join event is the second of the chain. The error of \<open>AddDirectMessage\<close> is dropped.\<close>

definition createBody :: "server \<Rightarrow> string \<Rightarrow> CreateRoomParams \<Rightarrow> evento list \<Rightarrow> ctx \<Rightarrow> unit op" where
  "createBody sv roomID props eventsToSave txCtx =
     bindM (Canal_Create txCtx roomID (cr_CreatorID props) (room_version props)) (\<lambda>_.
     bindM (forM eventsToSave (saveGenesis txCtx roomID)) (\<lambda>_.
     (let lastEvent = last eventsToSave
      in bindM (UpdateForwardExtremities txCtx roomID (ev_ID lastEvent) (ev_PrevEventos lastEvent)) (\<lambda>_.
         bindM (UpsertMembership txCtx roomID (cr_CreatorID props) ''join'' (ev_ID (eventsToSave ! 1))) (\<lambda>_.
         bindM (if full_alias sv props \<noteq> '''' then SaveAlias txCtx roomID (full_alias sv props) else returnM ()) (\<lambda>_.
           if cr_IsDirect props \<and> 0 < length (cr_Invite props) then
             bindM (catchM (AddDirectMessage txCtx (cr_CreatorID props) (cr_Invite props ! 0) roomID)) (\<lambda>_. returnM ())
           else returnM ()))))))"

definition CreateRoom :: "server \<Rightarrow> CreateRoomParams \<Rightarrow> Canal option op" where
  "CreateRoom sv props =
     bindM randomM (\<lambda>bytes.
     (let roomID = CreateRoomID bytes (sv_serverName sv)
      in bindM (genesisEvents sv roomID props) (\<lambda>evs.
         bindM (liftO (linkAndHashGenesis sv evs)) (\<lambda>eventsToSave.
         bindM (Execute (createBody sv roomID props eventsToSave)) (\<lambda>_.
         bindM (forM (cr_Invite props)
                 (\<lambda>invitee. InviteUser sv roomID (cr_CreatorID props) invitee '''' (cr_IsDirect props))) (\<lambda>_.
           Canal_GetByID Ctx roomID))))))"

end
