(* ===== verification/Federation_Service.thy ===== *)
theory Federation_Service
  imports Room_Membership
begin

text \<open>
  The incoming half of \<^verbatim>\<open>internal/usecase/federation_service.go\<close>: events pushed by other servers, the
  join, leave and invite handshakes, and the answers to their questions about a room.
\<close>

subsection \<open>State of the room\<close>

definition updateRoomStateAndMembership :: "ctx \<Rightarrow> evento \<Rightarrow> unit op" where
  "updateRoomStateAndMembership c pdu =
     (case ev_StateKey pdu of
        None \<Rightarrow> returnM ()
      | Some k \<Rightarrow>
          bindM (wrapM ''falha ao atualizar estado da sala''
                   (UpsertCurrentState c (ev_CanalID pdu) (ev_Tipo pdu) k (ev_ID pdu))) (\<lambda>_.
            if ev_Tipo pdu = ''m.room.member'' then
              (case membershipOf pdu of
                 None \<Rightarrow> returnM ()
               | Some m \<Rightarrow>
                   wrapM ''falha ao atualizar membership'' (UpsertMembership c (ev_CanalID pdu) k m (ev_ID pdu)))
            else returnM ()))"

subsection \<open>resolveStateAtIngestion\<close>

text \<open>\<open>m[id] = true\<close> on a set of ids.\<close>

definition add_id :: "string \<Rightarrow> string list \<Rightarrow> string list" where
  "add_id i xs = (if i \<in> set xs then xs else xs @ [i])"

definition add_ids :: "string list \<Rightarrow> string list \<Rightarrow> string list" where
  "add_ids is xs = foldl (\<lambda>acc i. add_id i acc) xs is"

text \<open>First loop: how many branches could be read, and the ids they mention.\<close>

definition branchStep :: "string \<Rightarrow> string \<Rightarrow> nat \<times> string list \<times> string list
    \<Rightarrow> (nat \<times> string list \<times> string list) op" where
  "branchStep roomID prevID s =
     (case s of (nsets, stateIDs, authIDs) \<Rightarrow>
        bindM (catchM (GetStateAndAuthChainIDs roomID prevID)) (\<lambda>r.
          returnM (case r of
              Inl _ \<Rightarrow> s
            | Inr (st, au) \<Rightarrow> (Suc nsets, add_ids st stateIDs, add_ids au authIDs))))"

definition loadStep :: "string \<Rightarrow> EventsMap \<Rightarrow> EventsMap op" where
  "loadStep i m =
     bindM (catchM (GetEvento i)) (\<lambda>r. returnM (case r of Inl _ \<Rightarrow> m | Inr ev \<Rightarrow> AList.update i ev m))"

definition branch_state :: "EventsMap \<Rightarrow> string list \<Rightarrow> StateMap" where
  "branch_state eventsMap ids =
     foldl (\<lambda>m i. case map_of eventsMap i of
         None \<Rightarrow> m
       | Some ev \<Rightarrow> AList.update (NewStateTuple (ev_Tipo ev) (ev_StateKey ev)) i m) [] ids"

text \<open>Third loop: the state sets are filled by the position of the branch among all \<open>prev_events\<close>.\<close>

fun fillSets :: "string \<Rightarrow> EventsMap \<Rightarrow> nat \<Rightarrow> string list \<Rightarrow> StateMap list op" where
  "fillSets roomID eventsMap 0 prevEvents = returnM []"
| "fillSets roomID eventsMap (Suc n) [] = returnM (replicate (Suc n) [])"
| "fillSets roomID eventsMap (Suc n) (prevID # prevEvents) =
     bindM (catchM (GetStateAndAuthChainIDs roomID prevID)) (\<lambda>r.
     bindM (fillSets roomID eventsMap n prevEvents) (\<lambda>sets.
       returnM (branch_state eventsMap (case r of Inl _ \<Rightarrow> [] | Inr (st, _) \<Rightarrow> st) # sets)))"

definition resolveStateAtIngestion ::
    "range_orders \<Rightarrow> (evento \<Rightarrow> StateMap \<Rightarrow> EventsMap \<Rightarrow> bool) \<Rightarrow> string \<Rightarrow> string list \<Rightarrow> StateMap op" where
  "resolveStateAtIngestion ro check roomID prevEvents =
     (if length prevEvents = 0 then returnM []
      else
        bindM (foldM (branchStep roomID) prevEvents (0, [], [])) (\<lambda>(nsets, allState, allAuth).
          if nsets = 0 then failM (Errorf ''could not resolve state from any prev_events'')
          else
            bindM (foldM loadStep allState []) (\<lambda>eventsMap.
            bindM (foldM loadStep allAuth []) (\<lambda>authEventsMap.
            bindM (fillSets roomID eventsMap nsets prevEvents) (\<lambda>stateSets.
              if length stateSets = 1 then returnM (stateSets ! 0)
              else wrapM ''state resolution v2 failed'' (liftE (Resolve ro check
                \<lparr>sri_RoomID = roomID, sri_StateSets = stateSets, sri_AuthEventsMap = authEventsMap,
                 sri_EventsMap = eventsMap\<rparr>)))))))"

subsection \<open>ProcessInboundPDU\<close>

fun checkMissingEvents :: "string list \<Rightarrow> string list op" where
  "checkMissingEvents [] = returnM []"
| "checkMissingEvents (i # prevEvents) =
     bindM (CheckEventoExists i) (\<lambda>found.
     bindM (checkMissingEvents prevEvents) (\<lambda>missing.
       returnM (if found then missing else i # missing)))"

definition decodeMissing :: "raw \<Rightarrow> evento list decoded" where
  "decodeMissing body = (case struct_members body of
       Inl e \<Rightarrow> Inl e
     | Inr ms \<Rightarrow>
         (let (events, bad) = dec_eventos (field_vals ''events'' ms)
          in if bad then Inl type_error else Inr events))"

definition fetchMissingEvents :: "server \<Rightarrow> string \<Rightarrow> string \<Rightarrow> string list \<Rightarrow> evento list op" where
  "fetchMissingEvents sv originServer roomID missingPrev =
     bindM (ResolveServerName originServer) (\<lambda>targetHost.
     bindM (catchM (GetForwardExtremities Ctx roomID)) (\<lambda>r.
     (let uri = ''/_matrix/federation/v1/get_missing_events/'' @ roomID;
          knownExtremities = (case r of Inl _ \<Rightarrow> [] | Inr xs \<Rightarrow> xs);
          payload = JObj [(''earliest_events'', JArr (map JStr knownExtremities)),
                          (''latest_events'', JArr (map JStr missingPrev)),
                          (''limit'', JNum 10), (''min_depth'', JNum 0)]
      in bindM (fed_send sv ''POST'' targetHost originServer uri (Some payload) (Some payload)) (\<lambda>resp.
           if rs_status resp \<noteq> 200 then failM (Errorf ''servidor remoto rejeitou get_missing_events'')
           else wrapM ''falha ao decodificar a resposta de missing events'' (liftE (decodeMissing (rs_body resp)))))))"

definition pduBody :: "evento \<Rightarrow> ctx \<Rightarrow> unit op" where
  "pduBody pdu txCtx =
     bindM (wrapM ''falha ao salvar evento'' (SaveEvento txCtx pdu)) (\<lambda>_.
     bindM (wrapM ''falha ao atualizar extremidades''
              (UpdateForwardExtremities txCtx (ev_CanalID pdu) (ev_ID pdu) (ev_PrevEventos pdu))) (\<lambda>_.
       wrapM ''falha ao atualizar estado da sala'' (updateRoomStateAndMembership txCtx pdu)))"

definition saveHistorical :: "server \<Rightarrow> evento \<Rightarrow> unit op" where
  "saveHistorical sv histPDU =
     (let histID = hashOrEmpty sv histPDU;
          histPDU = (if ev_ID histPDU = '''' then histPDU\<lparr>ev_ID := histID\<rparr> else histPDU)
      in if histID = ev_ID histPDU then
           bindM (catchM (Execute (\<lambda>txCtx.
             bindM (SaveEvento txCtx histPDU) (\<lambda>_.
             bindM (UpdateForwardExtremities txCtx (ev_CanalID histPDU) (ev_ID histPDU) (ev_PrevEventos histPDU)) (\<lambda>_.
               updateRoomStateAndMembership txCtx histPDU))))) (\<lambda>_. returnM ())
         else returnM ())"

definition pduHashOk :: "server \<Rightarrow> evento \<Rightarrow> bool" where
  "pduHashOk sv pdu = (HashMatrixEvent (sv_crypto sv) pdu = Inr (ev_ID pdu))"

definition ProcessInboundPDU ::
    "range_orders \<Rightarrow> (evento \<Rightarrow> StateMap \<Rightarrow> EventsMap \<Rightarrow> bool) \<Rightarrow> server \<Rightarrow> string \<Rightarrow> evento \<Rightarrow> unit op" where
  "ProcessInboundPDU ro check sv origin pdu =
     (if \<not> pduHashOk sv pdu then failM (Errorf ''evento com ID incorreto'')
      else
        bindM (spawn (TaskFlush origin)) (\<lambda>_.
        bindM (wrapM ''falha ao resolver extremidades'' (checkMissingEvents (ev_PrevEventos pdu))) (\<lambda>missingPrevs.
        bindM (if 0 < length missingPrevs then
                 bindM (fetchMissingEvents sv origin (ev_CanalID pdu) missingPrevs) (\<lambda>historicalEvents.
                   forM historicalEvents (saveHistorical sv))
               else returnM ()) (\<lambda>_.
        bindM (wrapM ''falha no consenso do estado (State Res v2)''
                 (resolveStateAtIngestion ro check (ev_CanalID pdu) (ev_PrevEventos pdu))) (\<lambda>_.
        bindM (wrapM ''falha ao resolver dependencias''
                 (ResolveEventDependencies Ctx (ev_CanalID pdu) (ev_Sender pdu) (ev_Tipo pdu) (ev_StateKey pdu))) (\<lambda>_.
          Execute (pduBody pdu)))))))"

subsection \<open>Join and leave handshakes\<close>

record MakeResult =
  mk_RoomVersion :: string
  mk_Sender :: string
  mk_RoomID :: string
  mk_Origin :: string
  mk_Timestamp :: int

definition MakeJoin :: "server \<Rightarrow> string \<Rightarrow> string \<Rightarrow> string list \<Rightarrow> MakeResult op" where
  "MakeJoin sv roomID userID supportedVersions =
     bindM (wrapM ''failed to look up room'' (Canal_GetByID Ctx roomID)) (\<lambda>r.
       case r of
         None \<Rightarrow> failM ErrNotFound
       | Some canal \<Rightarrow>
           if ca_Versao canal \<notin> set supportedVersions then failM ErrIncompatibleRoomVersion
           else
             bindM (wrapM ''failed to get join rule'' (GetJoinRule roomID)) (\<lambda>joinRule.
             bindM (if joinRule = ''invite'' then
                      bindM (wrapM ''failed to get user membership'' (GetUserMembership roomID userID)) (\<lambda>membership.
                        if membership \<noteq> ''invite'' then failM ErrForbidden else returnM ())
                    else if joinRule \<noteq> ''public'' then failM ErrForbidden else returnM ()) (\<lambda>_.
             bindM nowM (\<lambda>now.
               returnM \<lparr>mk_RoomVersion = ca_Versao canal, mk_Sender = userID, mk_RoomID = roomID,
                        mk_Origin = sv_serverName sv, mk_Timestamp = now\<rparr>))))"

record SendJoinResult =
  sr_StateEvents :: "evento list"
  sr_ServersInRoom :: "string list"

definition memberBody :: "string \<Rightarrow> string \<Rightarrow> evento \<Rightarrow> ctx \<Rightarrow> unit op" where
  "memberBody membership roomID event txCtx =
     bindM (wrapM ''failed to save member event'' (SaveEvento txCtx event)) (\<lambda>_.
     bindM (wrapM ''failed to upsert current state''
              (UpsertCurrentState txCtx roomID ''m.room.member'' (ev_Sender event) (ev_ID event))) (\<lambda>_.
       wrapM ''failed to upsert membership''
         (UpsertMembership txCtx roomID (ev_Sender event) membership (ev_ID event))))"

definition ProcessSendJoin :: "string \<Rightarrow> evento \<Rightarrow> SendJoinResult op" where
  "ProcessSendJoin roomID joinEvent =
     bindM (wrapM ''failed to check room'' (Canal_GetByID Ctx roomID)) (\<lambda>canal.
       if canal = None then failM ErrNotFound
       else
         bindM (Execute (memberBody ''join'' roomID joinEvent)) (\<lambda>_.
         bindM (wrapM ''failed to get current state'' (GetCurrentStateEvents roomID)) (\<lambda>stateEvents.
         bindM (catchM (GetCanalParticipatingServers roomID)) (\<lambda>servers.
           returnM \<lparr>sr_StateEvents = stateEvents,
                    sr_ServersInRoom = (case servers of Inl _ \<Rightarrow> [] | Inr s \<Rightarrow> s)\<rparr>))))"

definition MakeLeave :: "server \<Rightarrow> string \<Rightarrow> string \<Rightarrow> MakeResult op" where
  "MakeLeave sv roomID userID =
     bindM (wrapM ''failed to look up room'' (Canal_GetByID Ctx roomID)) (\<lambda>r.
       case r of
         None \<Rightarrow> failM ErrNotFound
       | Some canal \<Rightarrow>
           bindM (catchM (GetUserMembership roomID userID)) (\<lambda>m.
             if (case m of Inl _ \<Rightarrow> True | Inr membership \<Rightarrow> membership \<noteq> ''join'' \<and> membership \<noteq> ''invite'')
             then failM ErrForbidden
             else bindM nowM (\<lambda>now.
               returnM \<lparr>mk_RoomVersion = ca_Versao canal, mk_Sender = userID, mk_RoomID = roomID,
                        mk_Origin = sv_serverName sv, mk_Timestamp = now\<rparr>)))"

definition ProcessSendLeave :: "string \<Rightarrow> evento \<Rightarrow> unit op" where
  "ProcessSendLeave roomID leaveEvent =
     bindM (wrapM ''failed to check room'' (Canal_GetByID Ctx roomID)) (\<lambda>canal.
       if canal = None then failM ErrNotFound
       else Execute (memberBody ''leave'' roomID leaveEvent))"

subsection \<open>ProcessInvite\<close>

definition previewStep :: "ctx \<Rightarrow> string \<Rightarrow> int \<Rightarrow> StrippedEvento \<Rightarrow> unit op" where
  "previewStep txCtx roomID ts stripped =
     bindM randomM (\<lambda>uuid.
     (let stateKey = (case se_StateKey stripped of None \<Rightarrow> '''' | Some k \<Rightarrow> k);
          previewEvent = zeroEvento
            \<lparr>ev_ID := ''$invite-preview-'' @ uuid, ev_Tipo := se_Tipo stripped, ev_Content := se_Content stripped,
             ev_CanalID := roomID, ev_Sender := se_Sender stripped, ev_OrigemServidorTS := ts,
             ev_StateKey := Some stateKey, ev_PrevEventos := [], ev_AuthEventos := [], ev_Depth := 0\<rparr>
      in bindM (wrapM ''failed to save invite room state preview'' (SaveEvento txCtx previewEvent)) (\<lambda>_.
           wrapM ''failed to upsert invite room state''
             (UpsertCurrentState txCtx roomID (se_Tipo stripped) stateKey (ev_ID previewEvent)))))"

definition processInviteBody ::
    "string \<Rightarrow> string \<Rightarrow> evento \<Rightarrow> StrippedEvento list \<Rightarrow> ctx \<Rightarrow> unit op" where
  "processInviteBody roomID roomVersion inviteEvent inviteRoomState txCtx =
     bindM (catchM (Canal_GetByID txCtx roomID)) (\<lambda>r.
     bindM (case r of
         Inl e \<Rightarrow> if errors_is e ErrNotFound then returnM None else failM (Wrapf ''Could not check the room'' e)
       | Inr canal \<Rightarrow> returnM canal) (\<lambda>canal.
     bindM (if canal = None
            then bindM (wrapM ''could not create room''
                   (Canal_Create txCtx roomID (ev_Sender inviteEvent) roomVersion)) (\<lambda>_. returnM ())
            else returnM ()) (\<lambda>_.
     bindM (wrapM ''failed to save invite event'' (SaveEvento txCtx inviteEvent)) (\<lambda>_.
     bindM (case ev_StateKey inviteEvent of
         None \<Rightarrow> returnM ()
       | Some k \<Rightarrow>
           bindM (wrapM ''failed to upsert current state''
                    (UpsertCurrentState txCtx roomID ''m.room.member'' k (ev_ID inviteEvent))) (\<lambda>_.
             wrapM ''failed to upsert membership''
               (UpsertMembership txCtx roomID k ''invite'' (ev_ID inviteEvent)))) (\<lambda>_.
       forM inviteRoomState (previewStep txCtx roomID (ev_OrigemServidorTS inviteEvent)))))))"

definition ProcessInvite :: "string \<Rightarrow> string \<Rightarrow> evento \<Rightarrow> StrippedEvento list \<Rightarrow> unit op" where
  "ProcessInvite roomID roomVersion inviteEvent inviteRoomState =
     Execute (processInviteBody roomID roomVersion inviteEvent inviteRoomState)"

subsection \<open>Questions about a room\<close>

definition requireEvento :: "string \<Rightarrow> unit op" where
  "requireEvento eventID =
     bindM (catchM (CheckEventoExists eventID)) (\<lambda>r.
       case r of
         Inl e \<Rightarrow> failM (Wrapf ''event not found or db error'' e)
       | Inr found \<Rightarrow> if found then returnM () else failM (Errorf ''event not found or db error''))"

definition GetRoomStateSnapShot :: "string \<Rightarrow> string \<Rightarrow> (evento list \<times> evento list) op" where
  "GetRoomStateSnapShot roomID eventID =
     bindM (requireEvento eventID) (\<lambda>_.
       wrapM ''failed to fetch state snapshot'' (GetStateAndAuthChainEvents roomID eventID))"

definition GetStateIDsForEvent :: "string \<Rightarrow> string \<Rightarrow> (string list \<times> string list) op" where
  "GetStateIDsForEvent roomID eventID =
     bindM (requireEvento eventID) (\<lambda>_.
       wrapM ''failed to fetch state ids'' (GetStateAndAuthChainIDs roomID eventID))"

record BackfillResult =
  bf_Origin :: string
  bf_OriginServerTS :: int
  bf_PDUs :: "evento list"

definition HandleBackfill :: "server \<Rightarrow> string \<Rightarrow> string list \<Rightarrow> int \<Rightarrow> BackfillResult op" where
  "HandleBackfill sv roomID eventIDs limit =
     bindM (wrapM ''failed to fetch backfill events'' (GetEventsSince roomID limit eventIDs)) (\<lambda>eventos.
     bindM nowM (\<lambda>now.
       returnM \<lparr>bf_Origin = sv_serverName sv, bf_OriginServerTS = now, bf_PDUs = eventos\<rparr>))"

definition HandleGetMissingEvents ::
    "string \<Rightarrow> string list \<Rightarrow> string list \<Rightarrow> int \<Rightarrow> int \<Rightarrow> evento list op" where
  "HandleGetMissingEvents roomID earliestEvents latestEvents limit minDepth =
     wrapM ''failed to retrieve missing events''
       (GetMissingEvents roomID earliestEvents latestEvents limit minDepth)"

end
