(* ===== verification/Service_Laws.thy ===== *)
theory Service_Laws
  imports Storage_Laws Room_Interaction Room_Admin Federation_Service
begin

text \<open>
  Every unit of work and every service call is one of the computations of \<open>Storage_Laws\<close>: reads and
  federation traffic are silent, the bodies handed to \<open>Execute\<close> stay inside their transaction, and a
  service call moves the committed database along SQL steps. \<open>api_step\<close> collects the calls the
  routes and the federation worker make; its reachable worlds carry every invariant the single
  statements keep.
\<close>

subsection \<open>Silent computations\<close>

lemma silent_ResolveServerName [silent_intros, silent_ops]: "keeps silent_rel (ResolveServerName s)"
  unfolding ResolveServerName_def by (intro silent_intros)

lemma silent_PushOutboundQueue [silent_intros, silent_ops]: "keeps silent_rel (PushOutboundQueue ev)"
  unfolding PushOutboundQueue_def by (intro silent_intros silent_redis) (auto simp: silent_rel_def tables_def split: list.split)

lemma silent_PopOutboundQueue [silent_intros, silent_ops]: "keeps silent_rel PopOutboundQueue"
  unfolding PopOutboundQueue_def by (intro silent_intros silent_redis) (auto simp: silent_rel_def tables_def split: list.split)

lemma silent_SavePendingRetry [silent_intros, silent_ops]: "keeps silent_rel (SavePendingRetry s ev ttl)"
  unfolding SavePendingRetry_def by (intro silent_intros silent_redis) (auto simp: silent_rel_def tables_def split: list.split)

lemma silent_GetAndClearPendingRetries [silent_intros, silent_ops]: "keeps silent_rel (GetAndClearPendingRetries s)"
  unfolding GetAndClearPendingRetries_def by (intro silent_intros silent_redis) (auto simp: silent_rel_def tables_def split: list.split)

lemma silent_QueueOutgoing [silent_intros, silent_ops]: "keeps silent_rel (QueueOutgoing ev)"
  using silent_PushOutboundQueue [of ev]
  unfolding QueueOutgoing_def by (intro silent_intros)

lemma silent_fed_send [silent_intros, silent_ops]: "keeps silent_rel (fed_send sv m h d u b s)"
  unfolding fed_send_def by (intro silent_intros)

lemma silent_fed_call [silent_intros, silent_ops]: "keeps silent_rel (fed_call sv m d u b s)"
  unfolding fed_call_def by (intro silent_intros)

lemma silent_sendTransaction [silent_intros, silent_ops]: "keeps silent_rel (sendTransaction sv h d ev)"
  unfolding sendTransaction_def by (intro silent_intros)

lemma silent_storePendingRetry [silent_intros, silent_ops]: "keeps silent_rel (storePendingRetry d ev)"
  unfolding storePendingRetry_def by (intro silent_intros)

lemma silent_send_attempts [silent_intros, silent_ops]: "keeps silent_rel (send_attempts sv h d ev n)"
  by (induction n) (simp_all, intro silent_intros, intro silent_intros)

lemma silent_sendWithRetry [silent_intros, silent_ops]: "keeps silent_rel (sendWithRetry sv d ev)"
  unfolding sendWithRetry_def by (intro silent_intros)

lemma silent_FlushPendingRetries [silent_intros, silent_ops]: "keeps silent_rel (FlushPendingRetries d)"
  unfolding FlushPendingRetries_def by (intro silent_intros)

lemma silent_extractDestionations [silent_intros, silent_ops]: "keeps silent_rel (extractDestionations sv ev)"
  unfolding extractDestionations_def by (intro silent_intros)

lemma silent_workerRound [silent_intros, silent_ops]: "keeps silent_rel (workerRound sv)"
  unfolding workerRound_def by (intro silent_intros)

lemma silent_MakeJoinCall [silent_intros, silent_ops]: "keeps silent_rel (MakeJoinCall sv s r u)"
  unfolding MakeJoinCall_def by (intro silent_intros)

lemma silent_SendJoinCall [silent_intros, silent_ops]: "keeps silent_rel (SendJoinCall sv s r ev)"
  unfolding SendJoinCall_def by (intro silent_intros)

lemma silent_SendInviteCall [silent_intros, silent_ops]: "keeps silent_rel (SendInviteCall sv s r v ev st)"
  unfolding SendInviteCall_def by (intro silent_intros)

lemma silent_appendState [silent_intros, silent_ops]: "keeps silent_rel (appendState r t k as)"
  unfolding appendState_def by (intro silent_intros)

lemma silent_ResolveEventDependencies [silent_intros, silent_ops]: "keeps silent_rel (ResolveEventDependencies Ctx r s t k)"
  unfolding ResolveEventDependencies_def by (intro silent_intros)

lemma silent_profileNames [silent_intros, silent_ops]: "keeps silent_rel (profileNames Ctx u)"
  unfolding profileNames_def by (intro silent_intros)

lemma silent_joinAllowed [silent_intros, silent_ops]: "keeps silent_rel (joinAllowed u r jr)"
  unfolding joinAllowed_def by (intro silent_intros)

lemma silent_GetJoinedRooms [silent_intros, silent_ops]: "keeps silent_rel (GetJoinedRooms u)"
  unfolding GetJoinedRooms_def by (intro silent_intros)

lemma silent_checkInvitePowerLevel [silent_intros, silent_ops]: "keeps silent_rel (checkInvitePowerLevel r u)"
  unfolding checkInvitePowerLevel_def by (intro silent_intros)

lemma silent_stripState [silent_intros, silent_ops]: "keeps silent_rel (stripState r t st)"
  unfolding stripState_def by (intro silent_intros)

lemma silent_buildInviteRoomState [silent_intros, silent_ops]: "keeps silent_rel (buildInviteRoomState r)"
  unfolding buildInviteRoomState_def by (intro silent_intros)

lemma silent_newBaseEvent [silent_intros, silent_ops]: "keeps silent_rel (newBaseEvent c s t k v)"
  unfolding newBaseEvent_def by (intro silent_intros)

lemma silent_remoteInvite [silent_intros, silent_ops]: "keeps silent_rel (remoteInvite sv r u ev)"
  unfolding remoteInvite_def by (intro silent_intros)

lemma silent_inviteGuard [silent_intros, silent_ops]: "keeps silent_rel (inviteGuard r u v)"
  unfolding inviteGuard_def by (intro silent_intros)

lemma silent_requireStatus [silent_intros, silent_ops]: "keeps silent_rel (requireStatus al r u)"
  unfolding requireStatus_def by (intro silent_intros)

lemma silent_linkEvent [silent_intros, silent_ops]: "keeps silent_rel (linkEvent sv r s t k ev)"
  unfolding linkEvent_def by (intro silent_intros)

lemma silent_RetrieveSingleEvent [silent_intros, silent_ops]: "keeps silent_rel (RetrieveSingleEvent e)"
  unfolding RetrieveSingleEvent_def by (intro silent_intros)

lemma silent_BackfillRoomEvents [silent_intros, silent_ops]: "keeps silent_rel (BackfillRoomEvents r l es)"
  unfolding BackfillRoomEvents_def by (intro silent_intros)

lemma silent_GetMessages [silent_intros, silent_ops]: "keeps silent_rel (GetMessages r u f d l)"
  unfolding GetMessages_def by (intro silent_intros)

lemma silent_GetEvent [silent_intros, silent_ops]: "keeps silent_rel (GetEvent u r e)"
  unfolding GetEvent_def by (intro silent_intros)

lemma silent_GetRoomState [silent_intros, silent_ops]: "keeps silent_rel (GetRoomState u r)"
  unfolding GetRoomState_def by (intro silent_intros)

lemma silent_GetRoomMembers [silent_intros, silent_ops]: "keeps silent_rel (GetRoomMembers u r f g)"
  unfolding GetRoomMembers_def by (intro silent_intros)

lemma silent_GetJoinedMembers [silent_intros, silent_ops]: "keeps silent_rel (GetJoinedMembers u r)"
  unfolding GetJoinedMembers_def by (intro silent_intros)

lemma silent_GetStateEventContent [silent_intros, silent_ops]: "keeps silent_rel (GetStateEventContent r u t k)"
  unfolding GetStateEventContent_def by (intro silent_intros)

lemma silent_buildCreateEvent [silent_intros, silent_ops]: "keeps silent_rel (buildCreateEvent c u v)"
  unfolding buildCreateEvent_def by (intro silent_intros)

lemma silent_buildJoinEvent [silent_intros, silent_ops]: "keeps silent_rel (buildJoinEvent r u d a)"
  unfolding buildJoinEvent_def by (intro silent_intros)

lemma silent_buildLeaveEvent [silent_intros, silent_ops]: "keeps silent_rel (buildLeaveEvent r u d a)"
  unfolding buildLeaveEvent_def by (intro silent_intros)

lemma silent_buildPowerLevelEvent [silent_intros, silent_ops]: "keeps silent_rel (buildPowerLevelEvent c u)"
  unfolding buildPowerLevelEvent_def by (intro silent_intros)

lemma silent_buildJoinRulesEvent [silent_intros, silent_ops]: "keeps silent_rel (buildJoinRulesEvent c u v)"
  unfolding buildJoinRulesEvent_def by (intro silent_intros)

lemma silent_buildNameEvent [silent_intros, silent_ops]: "keeps silent_rel (buildNameEvent c u v)"
  unfolding buildNameEvent_def by (intro silent_intros)

lemma silent_buildTopicEvent [silent_intros, silent_ops]: "keeps silent_rel (buildTopicEvent c u v)"
  unfolding buildTopicEvent_def by (intro silent_intros)

lemma silent_buildAliasEvent [silent_intros, silent_ops]: "keeps silent_rel (buildAliasEvent c u v)"
  unfolding buildAliasEvent_def by (intro silent_intros)

lemma silent_SendToDeviceCall [silent_intros, silent_ops]: "keeps silent_rel (SendToDeviceCall sv s u t ms)"
  unfolding SendToDeviceCall_def by (intro silent_intros)

lemma silent_run_task [silent_intros, silent_ops]: "keeps silent_rel (run_task sv t)"
  by (cases t) (simp_all add: run_task_def silent_sendWithRetry silent_FlushPendingRetries silent_SendToDeviceCall)

lemma silent_buildInitialStateEvents [silent_intros, silent_ops]: "keeps silent_rel (buildInitialStateEvents r u evs)"
  by (induction evs) (simp_all, intro silent_intros, intro impI silent_intros)

lemma silent_appendIf [silent_intros]: "keeps silent_rel m \<Longrightarrow> keeps silent_rel (appendIf b m evs)"
  unfolding appendIf_def by (intro silent_intros)

lemma silent_genesisEvents [silent_intros, silent_ops]: "keeps silent_rel (genesisEvents sv r p)"
  unfolding genesisEvents_def by (intro silent_intros)

lemma silent_branchStep [silent_intros, silent_ops]: "keeps silent_rel (branchStep r p s)"
  unfolding branchStep_def by (intro silent_intros)

lemma silent_loadStep [silent_intros, silent_ops]: "keeps silent_rel (loadStep i m)"
  unfolding loadStep_def by (intro silent_intros)

lemma silent_fillSets [silent_intros, silent_ops]: "keeps silent_rel (fillSets r m n ps)"
  by (induction r m n ps rule: fillSets.induct) (simp_all, intro silent_intros, intro silent_intros, intro silent_intros)

lemma silent_checkMissingEvents [silent_intros, silent_ops]: "keeps silent_rel (checkMissingEvents ps)"
  by (induction ps) (simp_all, intro silent_intros, intro silent_intros)

lemma silent_resolveStateAtIngestion [silent_intros, silent_ops]: "keeps silent_rel (resolveStateAtIngestion ro ck r ps)"
  unfolding resolveStateAtIngestion_def by (intro silent_intros)

lemma silent_fetchMissingEvents [silent_intros, silent_ops]: "keeps silent_rel (fetchMissingEvents sv s r ps)"
  unfolding fetchMissingEvents_def by (intro silent_intros)

lemma silent_MakeJoin [silent_intros, silent_ops]: "keeps silent_rel (MakeJoin sv r u vs)"
  unfolding MakeJoin_def by (intro silent_intros)

lemma silent_MakeLeave [silent_intros, silent_ops]: "keeps silent_rel (MakeLeave sv r u)"
  unfolding MakeLeave_def by (intro silent_intros)

lemma silent_requireEvento [silent_intros, silent_ops]: "keeps silent_rel (requireEvento e)"
  unfolding requireEvento_def by (intro silent_intros)

lemma silent_GetRoomStateSnapShot [silent_intros, silent_ops]: "keeps silent_rel (GetRoomStateSnapShot r e)"
  unfolding GetRoomStateSnapShot_def by (intro silent_intros)

lemma silent_GetStateIDsForEvent [silent_intros, silent_ops]: "keeps silent_rel (GetStateIDsForEvent r e)"
  unfolding GetStateIDsForEvent_def by (intro silent_intros)

lemma silent_HandleBackfill [silent_intros, silent_ops]: "keeps silent_rel (HandleBackfill sv r es l)"
  unfolding HandleBackfill_def by (intro silent_intros)

lemma silent_HandleGetMissingEvents [silent_intros, silent_ops]: "keeps silent_rel (HandleGetMissingEvents r es ls l d)"
  unfolding HandleGetMissingEvents_def by (intro silent_intros)

subsection \<open>Units of work\<close>

lemmas body_reads [body_intros] = silent_ops [THEN silent_body]
lemmas call_reads [call_intros] = silent_ops [THEN silent_call]

lemma body_leaveBody [body_intros]: "keeps body_rel (leaveBody sv u r ev TxCtx)"
  unfolding leaveBody_def by (intro body_intros)

lemma body_joinBody [body_intros]: "keeps body_rel (joinBody sv u r ev TxCtx)"
  unfolding joinBody_def by (intro body_intros)

lemma body_persistResolved [body_intros]: "keeps body_rel (persistResolved r m x)"
  unfolding persistResolved_def by (intro body_intros)

lemma body_ensureCanal [body_intros]: "keeps body_rel (ensureCanal TxCtx r u v)"
  unfolding ensureCanal_def by (intro body_intros)

lemma body_remoteJoinBody [body_intros]: "keeps body_rel (remoteJoinBody ro ck u r ev v ctx TxCtx)"
  unfolding remoteJoinBody_def by (intro body_intros)

lemma body_inviteBody [body_intros]: "keeps body_rel (inviteBody r u ev TxCtx)"
  unfolding inviteBody_def by (intro body_intros)

lemma body_stateBody [body_intros]: "keeps body_rel (stateBody sv p ev TxCtx)"
  unfolding stateBody_def by (intro body_intros)

lemma body_eventBody [body_intros]: "keeps body_rel (eventBody sv p ev TxCtx)"
  unfolding eventBody_def by (intro body_intros)

lemma body_saveGenesis [body_intros]: "keeps body_rel (saveGenesis TxCtx r ev)"
  unfolding saveGenesis_def by (intro body_intros)

lemma body_createBody [body_intros]: "keeps body_rel (createBody sv r p evs TxCtx)"
  unfolding createBody_def by (intro body_intros)

lemma body_updateRoomStateAndMembership [body_intros]: "keeps body_rel (updateRoomStateAndMembership TxCtx ev)"
  unfolding updateRoomStateAndMembership_def by (intro body_intros)

lemma body_pduBody [body_intros]: "keeps body_rel (pduBody ev TxCtx)"
  unfolding pduBody_def by (intro body_intros)

lemma body_memberBody [body_intros]: "keeps body_rel (memberBody m r ev TxCtx)"
  unfolding memberBody_def by (intro body_intros)

lemma body_previewStep [body_intros]: "keeps body_rel (previewStep TxCtx r ts ev)"
  unfolding previewStep_def by (intro body_intros)

lemma body_processInviteBody [body_intros]: "keeps body_rel (processInviteBody r v ev st TxCtx)"
  unfolding processInviteBody_def by (intro body_intros)

subsection \<open>Service calls\<close>

lemma call_LeaveRoom [call_intros]: "keeps call_rel (LeaveRoom sv u r)"
  unfolding LeaveRoom_def by (intro call_intros body_intros)

lemma call_JoinLocalRoom [call_intros]: "keeps call_rel (JoinLocalRoom sv u r)"
  unfolding JoinLocalRoom_def by (intro call_intros body_intros)

lemma call_JoinRemoteRoom [call_intros]: "keeps call_rel (JoinRemoteRoom ro ck sv u r s)"
  unfolding JoinRemoteRoom_def by (intro call_intros body_intros)

lemma call_InviteUser [call_intros]: "keeps call_rel (InviteUser sv r u v why dm)"
  unfolding InviteUser_def by (intro call_intros body_intros)

lemma call_CreateRoom [call_intros]: "keeps call_rel (CreateRoom sv p)"
  unfolding CreateRoom_def by (intro call_intros body_intros)

lemma call_SendStateEvent [call_intros]: "keeps call_rel (SendStateEvent sv p)"
  unfolding SendStateEvent_def by (intro call_intros body_intros)

lemma call_SendEvent [call_intros]: "keeps call_rel (SendEvent sv p)"
  unfolding SendEvent_def by (intro call_intros body_intros)

lemma call_SendReceipt [call_intros]: "keeps call_rel (SendReceipt u r t e)"
  unfolding SendReceipt_def by (intro call_intros body_intros)

lemma call_SetTyping [call_intros]: "keeps call_rel (SetTyping u r b t)"
  unfolding SetTyping_def by (intro call_intros body_intros)

lemma call_saveHistorical [call_intros]: "keeps call_rel (saveHistorical sv ev)"
  unfolding saveHistorical_def by (intro call_intros body_intros)

lemma call_ProcessInboundPDU [call_intros]: "keeps call_rel (ProcessInboundPDU ro ck sv s ev)"
  unfolding ProcessInboundPDU_def by (intro call_intros body_intros)

lemma call_ProcessSendJoin [call_intros]: "keeps call_rel (ProcessSendJoin r ev)"
  unfolding ProcessSendJoin_def by (intro call_intros body_intros)

lemma call_ProcessSendLeave [call_intros]: "keeps call_rel (ProcessSendLeave r ev)"
  unfolding ProcessSendLeave_def by (intro call_intros body_intros)

lemma call_ProcessInvite [call_intros]: "keeps call_rel (ProcessInvite r v ev st)"
  unfolding ProcessInvite_def by (intro call_intros body_intros)

end
