(* ===== verification/Device_Storage.thy ===== *)
theory Device_Storage
  imports Usuario_Storage Device_Database
begin

text \<open>
  The storages of devices, presence, media and to-device messages:
  \<^verbatim>\<open>device_storage.go\<close>, \<^verbatim>\<open>presence_storage.go\<close>, \<^verbatim>\<open>midia_storage.go\<close> and \<^verbatim>\<open>to_device_storage.go\<close> in
  \<^verbatim>\<open>internal/infrastructure/postgres\<close>.
\<close>

subsection \<open>Statements with a result\<close>

definition db_returning :: "ctx \<Rightarrow> (db \<Rightarrow> go_error + 'a \<times> db) \<Rightarrow> 'a op" where
  "db_returning c f = getTxOrPool c (\<lambda>d s. (f d, s))"

text \<open>An insertion that draws the next value of a sequence, whether it succeeds or not.\<close>

definition db_insert :: "ctx \<Rightarrow> (seqs \<Rightarrow> seqs) \<Rightarrow> (seqs \<Rightarrow> nat) \<Rightarrow> (nat \<Rightarrow> db \<Rightarrow> go_error + db) \<Rightarrow> nat op" where
  "db_insert c draw nextval f = getTxOrPool c (\<lambda>d s.
     (case f (nextval s) d of Inl e \<Rightarrow> Inl e | Inr d' \<Rightarrow> Inr (nextval s, d'), draw s))"

text \<open>A query with a parameter compared with a \<open>UUID\<close> column.\<close>

definition db_query_uuid :: "ctx \<Rightarrow> string \<Rightarrow> (string \<Rightarrow> db \<Rightarrow> 'a) \<Rightarrow> 'a op" where
  "db_query_uuid c deviceID q = db_returning c (\<lambda>d. case uuid_in deviceID of None \<Rightarrow> Inl uuid_error | Some dev \<Rightarrow> Inr (q dev d, d))"

subsection \<open>Devices\<close>

record Dispositivo =
  d_ID :: string
  d_Nome :: string
  d_UsuarioID :: string
  d_RefreshToken :: string
  d_RefreshTokenExpiresAt :: int
  d_UltimoIPVisto :: string
  d_UltimoTimestampVisto :: int

definition row_of_dispositivo :: "Dispositivo \<Rightarrow> dispositivo_row" where
  "row_of_dispositivo v =
     \<lparr>dv_id = d_ID v, dv_usuario = d_UsuarioID v, dv_nome = d_Nome v, dv_refresh = d_RefreshToken v,
      dv_expires = d_RefreshTokenExpiresAt v, dv_ip = d_UltimoIPVisto v, dv_visto = d_UltimoTimestampVisto v\<rparr>"

definition dispositivo_of_row :: "dispositivo_row \<Rightarrow> Dispositivo" where
  "dispositivo_of_row r =
     \<lparr>d_ID = dv_id r, d_Nome = dv_nome r, d_UsuarioID = dv_usuario r, d_RefreshToken = dv_refresh r,
      d_RefreshTokenExpiresAt = dv_expires r, d_UltimoIPVisto = dv_ip r, d_UltimoTimestampVisto = dv_visto r\<rparr>"

definition GetDeviceByID :: "string \<Rightarrow> Dispositivo option op" where
  "GetDeviceByID deviceID =
     wrapM ''failed to get device'' (db_query_uuid Ctx deviceID (\<lambda>dev d.
       map_option dispositivo_of_row (find (\<lambda>r. dv_id r = dev) (t_Dispositivo d))))"

definition GetDispositivoByRefreshToken :: "string \<Rightarrow> Dispositivo option op" where
  "GetDispositivoByRefreshToken refreshToken =
     wrapM ''failed to get device by refresh token'' (db_query Ctx (\<lambda>d.
       map_option dispositivo_of_row (find (\<lambda>r. dv_refresh r = refreshToken) (t_Dispositivo d))))"

definition UpsertDispositivo :: "ctx \<Rightarrow> Dispositivo \<Rightarrow> unit op" where
  "UpsertDispositivo c device =
     wrapM ''failed to upsert device'' (db_exec c (upsert_Dispositivo (row_of_dispositivo device)))"

definition UpdateDevice :: "ctx \<Rightarrow> Dispositivo \<Rightarrow> unit op" where
  "UpdateDevice c device =
     wrapM ''failed to update device'' (db_exec c (update_Dispositivo (row_of_dispositivo device)))"

subsection \<open>Presence\<close>

record Presence =
  pn_IDUsuario :: string
  pn_State :: string
  pn_StatusMsg :: "string option"
  pn_LastActiveAt :: int

definition UpsertPresence :: "ctx \<Rightarrow> Presence \<Rightarrow> unit op" where
  "UpsertPresence c presence =
     wrapM ''failed to upsert presence'' (db_exec c (upsert_Presence
       \<lparr>pr_usuario = pn_IDUsuario presence, pr_state = pn_State presence, pr_msg = pn_StatusMsg presence,
        pr_active = pn_LastActiveAt presence\<rparr>))"

definition presence_of_row :: "presence_row \<Rightarrow> Presence" where
  "presence_of_row r =
     \<lparr>pn_IDUsuario = pr_usuario r, pn_State = pr_state r, pn_StatusMsg = pr_msg r, pn_LastActiveAt = pr_active r\<rparr>"

definition Storage_GetPresence :: "ctx \<Rightarrow> string \<Rightarrow> Presence option op" where
  "Storage_GetPresence c userID =
     wrapM ''failed to get presence'' (db_query c (\<lambda>d.
       map_option presence_of_row (find (\<lambda>r. pr_usuario r = userID) (t_Presence d))))"

subsection \<open>Media metadata\<close>

record Midia =
  m_IDMidia :: string
  m_Origin :: string
  m_ContentType :: string
  m_SizeBytes :: int
  m_UploadName :: string
  m_IDUsuario :: string
  m_CreatedAt :: int

definition row_of_midia :: "Midia \<Rightarrow> midia_row" where
  "row_of_midia m =
     \<lparr>mi_id = m_IDMidia m, mi_origin = m_Origin m, mi_ctype = m_ContentType m, mi_size = m_SizeBytes m,
      mi_name = m_UploadName m, mi_usuario = m_IDUsuario m, mi_created = m_CreatedAt m\<rparr>"

definition midia_of_row :: "midia_row \<Rightarrow> Midia" where
  "midia_of_row r =
     \<lparr>m_IDMidia = mi_id r, m_Origin = mi_origin r, m_ContentType = mi_ctype r, m_SizeBytes = mi_size r,
      m_UploadName = mi_name r, m_IDUsuario = mi_usuario r, m_CreatedAt = mi_created r\<rparr>"

definition SaveMidia :: "Midia \<Rightarrow> unit op" where
  "SaveMidia midia = wrapM ''failure to save media metadata'' (db_exec Ctx (insert_Midia (row_of_midia midia)))"

definition GetMidiaByID :: "string \<Rightarrow> string \<Rightarrow> Midia option op" where
  "GetMidiaByID origin idMidia =
     wrapM ''failed to fetch media'' (db_query Ctx (\<lambda>d.
       map_option midia_of_row (find (\<lambda>r. mi_origin r = origin \<and> mi_id r = idMidia) (t_Midia d))))"

subsection \<open>To-device messages\<close>

record ToDeviceMessage =
  tm_ID :: int
  tm_UserID :: string
  tm_DeviceID :: string
  tm_Sender :: string
  tm_Type :: string
  tm_Content :: raw

definition InsertToDeviceMessages :: "ctx \<Rightarrow> ToDeviceMessage list \<Rightarrow> unit op" where
  "InsertToDeviceMessages c messages = forM messages (\<lambda>m.
     bindM (wrapM ''failed to insert to-device message''
       (db_insert c (\<lambda>s. s\<lparr>sq_todevice := Suc (sq_todevice s)\<rparr>) sq_todevice
         (\<lambda>n. insert_ToDevice n (tm_UserID m) (tm_DeviceID m) (tm_Sender m) (tm_Type m) (tm_Content m))))
       (\<lambda>_. returnM ()))"

definition todevice_of_row :: "todevice_row \<Rightarrow> ToDeviceMessage" where
  "todevice_of_row r =
     \<lparr>tm_ID = int (td_id r), tm_UserID = td_usuario r, tm_DeviceID = td_device r, tm_Sender = td_sender r,
      tm_Type = td_tipo r, tm_Content = Some (td_content r)\<rparr>"

definition sel_todevice :: "string \<Rightarrow> string \<Rightarrow> int \<Rightarrow> nat \<Rightarrow> db \<Rightarrow> todevice_row list" where
  "sel_todevice userID dev since limit d =
     take limit (sort_key td_id (filter (\<lambda>m. td_usuario m = userID \<and> td_device m = dev \<and> since < int (td_id m))
       (t_Mensagem_ToDevice d)))"

definition GetToDeviceMessagesSince :: "ctx \<Rightarrow> string \<Rightarrow> string \<Rightarrow> int \<Rightarrow> nat \<Rightarrow> ToDeviceMessage list op" where
  "GetToDeviceMessagesSince c userID deviceID since limit =
     wrapM ''failed to fetch to-device messages'' (db_query_uuid c deviceID (\<lambda>dev d.
       map todevice_of_row (sel_todevice userID dev since limit d)))"

definition DeleteToDeviceMessagesUpTo :: "ctx \<Rightarrow> string \<Rightarrow> string \<Rightarrow> int \<Rightarrow> unit op" where
  "DeleteToDeviceMessagesUpTo c userID deviceID upTo =
     wrapM ''failed to delete delivered to-device messages'' (db_exec c (delete_ToDevice userID deviceID upTo))"

end
