(* ===== verification/Backup_Storage.thy ===== *)
theory Backup_Storage
  imports Device_Storage
begin

text \<open>
  \<^verbatim>\<open>internal/infrastructure/postgres/backup_storage.go\<close> and \<^verbatim>\<open>internal/domain/backup.go\<close>: versions of a
  user's key backup and the session keys stored in them.
\<close>

record VersaoBackup =
  v_IDVersao :: int
  v_IDUsuario :: string
  v_Algorithm :: string
  v_AuthData :: raw
  v_Count :: int
  v_ETag :: string
  v_CreatedAt :: int

record ChaveBackup =
  c_IDVersao :: int
  c_IDCanal :: string
  c_IDSessao :: string
  c_FirstMessageIndex :: int
  c_ForwardedCount :: int
  c_IsVerified :: bool
  c_SessionData :: raw

definition VersionString :: "VersaoBackup \<Rightarrow> string" where
  "VersionString v = string_of_int (v_IDVersao v)"

definition versao_of_row :: "versao_row \<Rightarrow> VersaoBackup" where
  "versao_of_row r =
     \<lparr>v_IDVersao = int (vb_id r), v_IDUsuario = vb_usuario r, v_Algorithm = vb_algorithm r,
      v_AuthData = Some (vb_auth r), v_Count = vb_count r, v_ETag = vb_etag r, v_CreatedAt = vb_created r\<rparr>"

definition chave_of_row :: "chave_row \<Rightarrow> ChaveBackup" where
  "chave_of_row r =
     \<lparr>c_IDVersao = int (cb_versao r), c_IDCanal = cb_canal r, c_IDSessao = cb_sessao r,
      c_FirstMessageIndex = cb_first r, c_ForwardedCount = cb_forwarded r, c_IsVerified = cb_verified r,
      c_SessionData = Some (cb_data r)\<rparr>"

text \<open>The columns the insertion returns are assigned to the argument.\<close>

definition Storage_CreateBackupVersion :: "VersaoBackup \<Rightarrow> VersaoBackup op" where
  "Storage_CreateBackupVersion backup =
     bindM nowM (\<lambda>now.
     bindM (wrapM ''failure to create backup version''
       (db_insert Ctx (\<lambda>s. s\<lparr>sq_backup := Suc (sq_backup s)\<rparr>) sq_backup
         (\<lambda>n. insert_VersaoBackup n (v_IDUsuario backup) (v_Algorithm backup) (v_AuthData backup) (v_Count backup)
            (v_ETag backup) now))) (\<lambda>n.
       returnM (backup\<lparr>v_IDVersao := int n, v_CreatedAt := now\<rparr>)))"

text \<open>\<open>ORDER BY id_versao DESC LIMIT 1\<close>.\<close>

definition sel_latest :: "string \<Rightarrow> db \<Rightarrow> versao_row option" where
  "sel_latest userID d =
     (case rev (sort_key vb_id (filter (\<lambda>r. vb_usuario r = userID) (t_VersaoBackup d))) of [] \<Rightarrow> None | r # _ \<Rightarrow> Some r)"

definition Storage_GetLatestBackupVersion :: "string \<Rightarrow> VersaoBackup option op" where
  "Storage_GetLatestBackupVersion userID =
     wrapM ''failed to fetch latest backup version'' (db_query Ctx (\<lambda>d. map_option versao_of_row (sel_latest userID d)))"

definition GetBackupVersionByID :: "ctx \<Rightarrow> string \<Rightarrow> int \<Rightarrow> VersaoBackup option op" where
  "GetBackupVersionByID c userID versionID =
     wrapM ''failed to fetch backup version'' (db_query c (\<lambda>d.
       map_option versao_of_row (find (\<lambda>r. vb_usuario r = userID \<and> int (vb_id r) = versionID) (t_VersaoBackup d))))"

definition Storage_GetRoomKeys :: "ctx \<Rightarrow> int \<Rightarrow> ChaveBackup list op" where
  "Storage_GetRoomKeys c versionID =
     wrapM ''failed to fetch room keys'' (db_query c (\<lambda>d.
       map chave_of_row (filter (\<lambda>r. int (cb_versao r) = versionID) (t_ChaveBackup d))))"

text \<open>\<open>Scan\<close> of an \<open>UPDATE ... RETURNING\<close> that updated no row fails with \<open>pgx.ErrNoRows\<close>.\<close>

definition scan_row :: "'a option \<Rightarrow> 'a op" where
  "scan_row r = (case r of None \<Rightarrow> failM (PgError ''no rows in result set'') | Some x \<Rightarrow> returnM x)"

definition Storage_PutRoomKeys :: "ctx \<Rightarrow> int \<Rightarrow> ChaveBackup list \<Rightarrow> (int \<times> string) op" where
  "Storage_PutRoomKeys c versionID ks =
     bindM (forM ks (\<lambda>k. wrapM ''failed to upsert room key'' (db_exec c
       (upsert_ChaveBackup versionID (c_IDCanal k) (c_IDSessao k) (c_FirstMessageIndex k) (c_ForwardedCount k)
          (c_IsVerified k) (c_SessionData k))))) (\<lambda>_.
     wrapM ''failed to update backup version after put''
       (bindM (db_returning c (\<lambda>d. update_VersaoBackup versionID (count_keys versionID d) d)) scan_row))"

definition Storage_DeleteRoomKeys :: "ctx \<Rightarrow> int \<Rightarrow> (int \<times> string) op" where
  "Storage_DeleteRoomKeys c versionID =
     bindM (wrapM ''failed to delete room keys'' (db_exec c (delete_ChaveBackup versionID))) (\<lambda>_.
     wrapM ''failed to update backup version after delete''
       (bindM (db_returning c (update_VersaoBackup versionID 0)) (\<lambda>r.
        bindM (scan_row r) (\<lambda>(_, etag). returnM (0, etag)))))"

end
