(* ===== verification/Backup_Service.thy ===== *)
theory Backup_Service
  imports Backup_Storage
begin

text \<open>
  \<^verbatim>\<open>internal/usecase/backup_service.go\<close>: key backups. Keys are written to the latest version only, in
  one unit of work with the new count and etag.
\<close>

record CreateBackupParams =
  cbp_UserID :: string
  cbp_Algorithm :: string
  cbp_AuthData :: raw

definition CreateBackupVersion :: "CreateBackupParams \<Rightarrow> VersaoBackup op" where
  "CreateBackupVersion params =
     (let backup = \<lparr>v_IDVersao = 0, v_IDUsuario = cbp_UserID params, v_Algorithm = cbp_Algorithm params,
                    v_AuthData = cbp_AuthData params, v_Count = 0, v_ETag = ''0'', v_CreatedAt = 0\<rparr>
      in wrapM ''failed to create backup version'' (Storage_CreateBackupVersion backup))"

definition GetLatestBackupVersion :: "string \<Rightarrow> VersaoBackup op" where
  "GetLatestBackupVersion userID =
     bindM (wrapM ''failed to fetch latest backup version'' (Storage_GetLatestBackupVersion userID)) (\<lambda>backup.
       case backup of None \<Rightarrow> failM ErrBackupNotFound | Some b \<Rightarrow> returnM b)"

definition parseVersion :: "string \<Rightarrow> int option" where
  "parseVersion version = ParseInt version"

definition GetRoomKeys :: "string \<Rightarrow> string \<Rightarrow> ChaveBackup list op" where
  "GetRoomKeys userID version =
     (case parseVersion version of
        None \<Rightarrow> failM ErrBackupNotFound
      | Some versionID \<Rightarrow>
          bindM (wrapM ''failed to fetch backup version'' (GetBackupVersionByID Ctx userID versionID)) (\<lambda>backup.
            if backup = None then failM ErrBackupNotFound
            else wrapM ''failed to fetch room keys'' (Storage_GetRoomKeys Ctx versionID)))"

record PutRoomKeysParams =
  prk_UserID :: string
  prk_Version :: string
  prk_Keys :: "ChaveBackup list"

definition PutRoomKeys :: "PutRoomKeysParams \<Rightarrow> (int \<times> string) op" where
  "PutRoomKeys params =
     (case parseVersion (prk_Version params) of
        None \<Rightarrow> failM ErrBackupNotFound
      | Some versionID \<Rightarrow>
          bindM (wrapM ''failed to fetch latest backup version'' (Storage_GetLatestBackupVersion (prk_UserID params))) (\<lambda>latest.
            case latest of
              None \<Rightarrow> failM ErrBackupNotFound
            | Some l \<Rightarrow>
                if v_IDVersao l \<noteq> versionID then
                  bindM (wrapM ''failed to fetch backup version'' (GetBackupVersionByID Ctx (prk_UserID params) versionID)) (\<lambda>backup.
                    if backup = None then failM ErrBackupNotFound else failM (ErrWrongVersion (VersionString l)))
                else
                  (let ks = map (\<lambda>k. k\<lparr>c_IDVersao := versionID\<rparr>) (prk_Keys params)
                   in wrapM ''failed to store room keys'' (Execute (\<lambda>txCtx. Storage_PutRoomKeys txCtx versionID ks)))))"

definition DeleteRoomKeys :: "string \<Rightarrow> string \<Rightarrow> (int \<times> string) op" where
  "DeleteRoomKeys userID version =
     (case parseVersion version of
        None \<Rightarrow> failM ErrBackupNotFound
      | Some versionID \<Rightarrow>
          bindM (wrapM ''failed to fetch backup version'' (GetBackupVersionByID Ctx userID versionID)) (\<lambda>backup.
            if backup = None then failM ErrBackupNotFound
            else wrapM ''failed to delete room keys'' (Execute (\<lambda>txCtx. Storage_DeleteRoomKeys txCtx versionID))))"

end
