(* ===== verification/Keys_Storage.thy ===== *)
theory Keys_Storage
  imports Device_Storage
begin

text \<open>
  The storages of end-to-end keys: \<^verbatim>\<open>device_keys_storage.go\<close> and \<^verbatim>\<open>cross_signing_storage.go\<close> in
  \<^verbatim>\<open>internal/infrastructure/postgres\<close>, and the data they move (\<^verbatim>\<open>internal/domain/chaves_dispositivos.go\<close>).
  A Go map is an association list with distinct keys; the order of the list is the order of a \<open>range\<close>.
\<close>

subsection \<open>Device keys\<close>

record ChavesDispositivo =
  cd_DispositivoID :: string
  cd_UsuarioID :: string
  cd_NomeDispositivo :: string
  cd_Algorithms :: "string list"
  cd_Keys :: raw
  cd_Signatures :: raw

record ChaveUsoUnico =
  ku_DispositivoID :: string
  ku_KeyID :: string
  ku_Algorithm :: string
  ku_KeyData :: raw

record ChaveFallback =
  kf_DispositivoID :: string
  kf_Algorithm :: string
  kf_KeyID :: string
  kf_KeyData :: raw
  kf_Usada :: bool

record ChaveCrossSigning =
  kc_UsuarioID :: string
  kc_Usage :: string
  kc_KeyID :: string
  kc_Keys :: raw
  kc_Signatures :: raw

definition UpsertDeviceKeys :: "ctx \<Rightarrow> ChavesDispositivo \<Rightarrow> unit op" where
  "UpsertDeviceKeys c ks =
     wrapM ''failed to upsert device keys'' (db_exec c
       (upsert_Chave_Dispositivo (cd_DispositivoID ks) (cd_Algorithms ks) (cd_Keys ks) (cd_Signatures ks)))"

text \<open>\<open>Dispositivo JOIN Chave_Dispositivo\<close> for the devices of a user; no ids means all of them.\<close>

definition sel_device_keys :: "string \<Rightarrow> string list \<Rightarrow> db \<Rightarrow> ChavesDispositivo list" where
  "sel_device_keys userID deviceIDs d =
     concat (map (\<lambda>v. map (\<lambda>k.
         \<lparr>cd_DispositivoID = dv_id v, cd_UsuarioID = userID, cd_NomeDispositivo = dv_nome v,
          cd_Algorithms = ck_algorithms k, cd_Keys = Some (ck_keys k), cd_Signatures = Some (ck_signatures k)\<rparr>)
       (filter (\<lambda>k. ck_device k = dv_id v) (t_Chave_Dispositivo d)))
     (filter (\<lambda>v. dv_usuario v = userID \<and> (deviceIDs = [] \<or> dv_id v \<in> set deviceIDs)) (t_Dispositivo d)))"

definition GetDeviceKeys :: "ctx \<Rightarrow> string \<Rightarrow> string list \<Rightarrow> ChavesDispositivo list op" where
  "GetDeviceKeys c userID deviceIDs =
     wrapM ''failed to query device keys'' (db_query c (sel_device_keys userID deviceIDs))"

definition UpsertOneTimeKeys :: "ctx \<Rightarrow> string \<Rightarrow> ChaveUsoUnico list \<Rightarrow> unit op" where
  "UpsertOneTimeKeys c deviceID ks = forM ks (\<lambda>k.
     bindM (wrapM ''failed to insert one-time key''
       (db_insert c (\<lambda>s. s\<lparr>sq_otk := Suc (sq_otk s)\<rparr>) sq_otk
         (\<lambda>n. insert_Chave_Uso_Unico n deviceID (ku_KeyID k) (ku_Algorithm k) (ku_KeyData k))))
       (\<lambda>_. returnM ()))"

definition ClaimOneTimeKey :: "ctx \<Rightarrow> string \<Rightarrow> string \<Rightarrow> ChaveUsoUnico option op" where
  "ClaimOneTimeKey c deviceID algorithm =
     bindM (wrapM ''failed to claim one-time key'' (db_returning c (claim_Chave_Uso_Unico deviceID algorithm))) (\<lambda>row.
       returnM (map_option (\<lambda>r.
         \<lparr>ku_DispositivoID = deviceID, ku_KeyID = ot_key r, ku_Algorithm = algorithm, ku_KeyData = Some (ot_data r)\<rparr>) row))"

definition CountOneTimeKeys :: "ctx \<Rightarrow> string \<Rightarrow> (string \<times> int) list op" where
  "CountOneTimeKeys c deviceID =
     wrapM ''failed to count one-time keys'' (db_query_uuid c deviceID (\<lambda>dev d.
       map (\<lambda>a. (a, int (length (otks_of dev a d))))
         (remdups (map ot_algorithm (filter (\<lambda>x. ot_device x = dev) (t_Chave_Uso_Unico d))))))"

definition UpsertFallbackKey :: "ctx \<Rightarrow> ChaveFallback \<Rightarrow> unit op" where
  "UpsertFallbackKey c k =
     wrapM ''failed to upsert fallback key'' (db_exec c
       (upsert_Chave_Fallback (kf_DispositivoID k) (kf_Algorithm k) (kf_KeyID k) (kf_KeyData k)))"

definition ClaimFallbackKey :: "ctx \<Rightarrow> string \<Rightarrow> string \<Rightarrow> ChaveFallback option op" where
  "ClaimFallbackKey c deviceID algorithm =
     bindM (wrapM ''failed to claim fallback key'' (db_returning c (claim_Chave_Fallback deviceID algorithm))) (\<lambda>row.
       returnM (map_option (\<lambda>r.
         \<lparr>kf_DispositivoID = deviceID, kf_Algorithm = algorithm, kf_KeyID = fb_key r, kf_KeyData = Some (fb_data r),
          kf_Usada = fb_usada r\<rparr>) row))"

subsection \<open>Cross-signing keys\<close>

definition UpsertCrossSigningKey :: "ctx \<Rightarrow> ChaveCrossSigning \<Rightarrow> unit op" where
  "UpsertCrossSigningKey c k =
     (let signatures = (case kc_Signatures k of None \<Rightarrow> JObj [] | Some s \<Rightarrow> s)
      in wrapM ''failed to upsert cross-signing key'' (db_exec c
           (upsert_Cross (kc_UsuarioID k) (kc_Usage k) (kc_KeyID k) (kc_Keys k) signatures)))"

definition cross_of_row :: "cross_row \<Rightarrow> ChaveCrossSigning" where
  "cross_of_row r =
     \<lparr>kc_UsuarioID = cs_usuario r, kc_Usage = cs_usage r, kc_KeyID = cs_key r, kc_Keys = Some (cs_public r),
      kc_Signatures = Some (cs_signatures r)\<rparr>"

definition GetCrossSigningKeys :: "ctx \<Rightarrow> string \<Rightarrow> (string \<times> ChaveCrossSigning) list op" where
  "GetCrossSigningKeys c userID =
     wrapM ''failed to fetch cross-signing keys'' (db_query c (\<lambda>d.
       foldl (\<lambda>m r. AList.update (cs_usage r) (cross_of_row r) m) []
         (filter (\<lambda>r. cs_usuario r = userID) (t_Chave_Cross_Signing d))))"

text \<open>
  A \<open>map[string]map[string]json.RawMessage\<close>: \<open>None\<close> is the nil map, outside and inside. Decoding an
  element starts from a nil inner map.
\<close>

type_synonym sig_map = "(string \<times> (string \<times> json) list option) list"

definition dec_inner :: "json \<Rightarrow> (string \<times> json) list option \<times> bool" where
  "dec_inner v = (case v of JNull \<Rightarrow> (None, False) | JObj ms \<Rightarrow> (Some (dedup_members ms), False) | _ \<Rightarrow> (None, True))"

definition unmarshal_sigs :: "json \<Rightarrow> sig_map option decoded" where
  "unmarshal_sigs v = (case v of
       JNull \<Rightarrow> Inr None
     | JObj ms \<Rightarrow>
         if list_ex (\<lambda>m. snd (dec_inner (snd m))) ms then Inl type_error
         else Inr (Some (foldl (\<lambda>acc (k, x). AList.update k (fst (dec_inner x)) acc) [] ms))
     | _ \<Rightarrow> Inl type_error)"

text \<open>
  The two nested loops over the incoming signatures. Assigning to an entry of the nil map panics; an
  inner map that is nil is made first.
\<close>

definition merge_user :: "string \<times> (string \<times> json) list option \<Rightarrow> sig_map \<Rightarrow> sig_map" where
  "merge_user p merged =
     (let old = (case map_of merged (fst p) of Some (Some ks) \<Rightarrow> ks | _ \<Rightarrow> []);
          sigs = (case snd p of None \<Rightarrow> [] | Some ks \<Rightarrow> ks)
      in AList.update (fst p) (Some (foldl (\<lambda>ks (keyID, sig). AList.update keyID sig ks) old sigs)) merged)"

definition marshal_sigs :: "sig_map \<Rightarrow> json" where
  "marshal_sigs m =
     JObj (sort_members (map (\<lambda>(k, i). (k, case i of None \<Rightarrow> JNull | Some ks \<Rightarrow> JObj (sort_members ks))) m))"

definition mergeSignatures :: "raw \<Rightarrow> raw \<Rightarrow> json outcome" where
  "mergeSignatures current incoming =
     (case (case current of None \<Rightarrow> Inr (Some []) | Some v \<Rightarrow> unmarshal_sigs v) of
        Inl e \<Rightarrow> Fail e
      | Inr merged \<Rightarrow>
          (case (case incoming of None \<Rightarrow> Inr None | Some v \<Rightarrow> unmarshal_sigs v) of
             Inl e \<Rightarrow> Fail e
           | Inr incomingMap \<Rightarrow>
               (let inc = (case incomingMap of None \<Rightarrow> [] | Some m \<Rightarrow> m)
                in case merged of
                     None \<Rightarrow> if inc = [] then Ret JNull else Panic
                   | Some m \<Rightarrow> Ret (marshal_sigs (fold merge_user inc m)))))"

definition MergeDeviceSignatures :: "ctx \<Rightarrow> string \<Rightarrow> string \<Rightarrow> raw \<Rightarrow> bool op" where
  "MergeDeviceSignatures c userID deviceID newSignatures =
     bindM (wrapM ''failed to read device signatures'' (db_query c (\<lambda>d.
       find (\<lambda>k. \<exists>v\<in>set (t_Dispositivo d). dv_id v = ck_device k \<and> dv_usuario v = userID \<and> dv_id v = deviceID)
         (t_Chave_Dispositivo d)))) (\<lambda>row.
     case row of
       None \<Rightarrow> returnM False
     | Some k \<Rightarrow>
         bindM (wrapM ''failed to merge device signatures'' (liftO (mergeSignatures (Some (ck_signatures k)) newSignatures))) (\<lambda>merged.
         bindM (wrapM ''failed to persist merged device signatures'' (db_exec c (set_device_signatures deviceID merged))) (\<lambda>_.
           returnM True)))"

definition MergeCrossSigningSignatures :: "ctx \<Rightarrow> string \<Rightarrow> string \<Rightarrow> raw \<Rightarrow> bool op" where
  "MergeCrossSigningSignatures c userID publicKeyID newSignatures =
     bindM (wrapM ''failed to read cross-signing signatures'' (db_query c (\<lambda>d.
       find (\<lambda>k. cs_usuario k = userID \<and> cs_key k = publicKeyID) (t_Chave_Cross_Signing d)))) (\<lambda>row.
     case row of
       None \<Rightarrow> returnM False
     | Some k \<Rightarrow>
         bindM (wrapM ''failed to merge cross-signing signatures'' (liftO (mergeSignatures (Some (cs_signatures k)) newSignatures))) (\<lambda>merged.
         bindM (wrapM ''failed to persist merged cross-signing signatures'' (db_exec c (set_cross_signatures userID publicKeyID merged))) (\<lambda>_.
           returnM True)))"

end
