(* ===== verification/Federation_Queries.thy ===== *)
theory Federation_Queries
  imports Federation_Client
begin

text \<open>
  The questions of \<^verbatim>\<open>internal/usecase/federation_service.go\<close> to other servers about aliases, public
  rooms and keys. What comes back is decoded as \<open>encoding/json\<close> does it.
\<close>

subsection \<open>Maps in the answers\<close>

text \<open>
  Decoding a Go map from the values of its field: a later object is merged into the map, \<open>null\<close> empties
  it, and each element is decoded from a fresh zero value.
\<close>

definition dec_map :: "(json \<Rightarrow> 'a \<times> bool) \<Rightarrow> json list \<Rightarrow> (string \<times> 'a) list \<times> bool" where
  "dec_map f vs =
     foldl (\<lambda>(m, bad) v. case v of
         JNull \<Rightarrow> ([], bad)
       | JObj ms \<Rightarrow> foldl (\<lambda>(m, bad) (k, e). (AList.update k (fst (f e)) m, bad \<or> snd (f e))) (m, bad) ms
       | _ \<Rightarrow> (m, True)) ([], False) vs"

definition elem_raw :: "json \<Rightarrow> json \<times> bool" where
  "elem_raw e = (e, False)"

definition elem_string :: "json \<Rightarrow> string \<times> bool" where
  "elem_string e = dec_string [e]"

definition elem_map :: "(json \<Rightarrow> 'a \<times> bool) \<Rightarrow> json \<Rightarrow> (string \<times> 'a) list \<times> bool" where
  "elem_map f e = dec_map f [e]"

text \<open>A \<open>[]string\<close> element; \<open>None\<close> is the nil slice.\<close>

definition elem_strings :: "json \<Rightarrow> string list option \<times> bool" where
  "elem_strings e = (case e of
       JNull \<Rightarrow> (None, False)
     | JArr es \<Rightarrow> (Some (map (\<lambda>x. fst (dec_string [x])) es), list_ex (\<lambda>x. snd (dec_string [x])) es)
     | _ \<Rightarrow> (None, True))"

definition strings_json :: "string list option \<Rightarrow> json" where
  "strings_json xs = (case xs of None \<Rightarrow> JNull | Some ss \<Rightarrow> JArr (map JStr ss))"

subsection \<open>Directory\<close>

text \<open>\<open>url.QueryEscape\<close>.\<close>

definition unreserved :: "char \<Rightarrow> bool" where
  "unreserved c = (let n = of_char c :: nat in
     48 \<le> n \<and> n \<le> 57 \<or> 65 \<le> n \<and> n \<le> 90 \<or> 97 \<le> n \<and> n \<le> 122 \<or> n \<in> {45, 95, 46, 126})"

definition hex_upper :: "nat \<Rightarrow> char" where
  "hex_upper n = (''0123456789ABCDEF'' ! (n mod 16))"

definition QueryEscape :: "string \<Rightarrow> string" where
  "QueryEscape s = concat (map (\<lambda>c.
     if unreserved c then [c] else if c = CHR '' '' then ''+''
     else [CHR ''%'', hex_upper (of_char c div 16), hex_upper (of_char c)]) s)"

definition decodeQueryDirectory :: "raw \<Rightarrow> (string \<times> string list) decoded" where
  "decodeQueryDirectory body = (case struct_members body of
       Inl e \<Rightarrow> Inl e
     | Inr ms \<Rightarrow>
         (let (roomID, b1) = dec_string (field_vals ''room_id'' ms);
              (servers, b2) = dec_strings (field_vals ''servers'' ms)
          in if b1 \<or> b2 then Inl type_error else Inr (roomID, servers)))"

definition QueryDirectory :: "server \<Rightarrow> string \<Rightarrow> string \<Rightarrow> (string \<times> string list) op" where
  "QueryDirectory sv remoteServer roomAlias =
     (let uri = ''/_matrix/federation/v1/query/directory?room_alias='' @ QueryEscape roomAlias
      in bindM (fed_call sv ''GET'' remoteServer uri None None) (\<lambda>resp.
           if rs_status resp = 404 then failM ErrNotFound
           else if rs_status resp \<noteq> 200 then failM (Errorf ''remote server rejected query/directory'')
           else wrapM ''failed to decode query/directory response'' (liftE (decodeQueryDirectory (rs_body resp)))))"

text \<open>\<^verbatim>\<open>internal/domain/canal.go\<close>: an entry of the directory and a page of it.\<close>

record PublicRoomEntry =
  pe_RoomID :: string
  pe_Name :: "string option"
  pe_Topic :: "string option"
  pe_AvatarURL :: "string option"
  pe_CanonicalAlias :: "string option"
  pe_NumJoinedMembers :: int
  pe_WorldReadable :: bool
  pe_GuestCanJoin :: bool
  pe_JoinRule :: "string option"

record PublicRoomsChunck =
  pc_Chunk :: "PublicRoomEntry list"
  pc_NextBatch :: string
  pc_PrevBatch :: string
  pc_TotalRoomCountEstimate :: int

definition zeroEntry :: "PublicRoomEntry" where
  "zeroEntry =
     \<lparr>pe_RoomID = '''', pe_Name = None, pe_Topic = None, pe_AvatarURL = None, pe_CanonicalAlias = None,
      pe_NumJoinedMembers = 0, pe_WorldReadable = False, pe_GuestCanJoin = False, pe_JoinRule = None\<rparr>"

definition dec_entry :: "json \<Rightarrow> PublicRoomEntry \<times> bool" where
  "dec_entry v = (case struct_members (Some v) of
       Inl _ \<Rightarrow> (zeroEntry, True)
     | Inr ms \<Rightarrow>
         (let (roomID, b1) = dec_string (field_vals ''room_id'' ms);
              (name, b2) = dec_string_ptr (field_vals ''name'' ms);
              (topic, b3) = dec_string_ptr (field_vals ''topic'' ms);
              (avatar, b4) = dec_string_ptr (field_vals ''avatar_url'' ms);
              (canonical, b5) = dec_string_ptr (field_vals ''canonical_alias'' ms);
              (num, b6) = dec_int64 (field_vals ''num_joined_members'' ms);
              (readable, b7) = dec_bool (field_vals ''world_readable'' ms);
              (guest, b8) = dec_bool (field_vals ''guest_can_join'' ms);
              (rule, b9) = dec_string_ptr (field_vals ''join_rule'' ms)
          in (\<lparr>pe_RoomID = roomID, pe_Name = name, pe_Topic = topic, pe_AvatarURL = avatar, pe_CanonicalAlias = canonical,
               pe_NumJoinedMembers = num, pe_WorldReadable = readable, pe_GuestCanJoin = guest, pe_JoinRule = rule\<rparr>,
              b1 \<or> b2 \<or> b3 \<or> b4 \<or> b5 \<or> b6 \<or> b7 \<or> b8 \<or> b9)))"

text \<open>The last \<open>chunk\<close> member counts.\<close>

definition dec_chunk :: "json list \<Rightarrow> PublicRoomEntry list \<times> bool" where
  "dec_chunk vs = (case dec_raw vs of
       None \<Rightarrow> ([], False)
     | Some JNull \<Rightarrow> ([], False)
     | Some (JArr es) \<Rightarrow> (map (\<lambda>e. fst (dec_entry e)) es, list_ex (\<lambda>e. snd (dec_entry e)) es)
     | Some _ \<Rightarrow> ([], True))"

definition decodePublicRooms :: "raw \<Rightarrow> PublicRoomsChunck decoded" where
  "decodePublicRooms body = (case struct_members body of
       Inl e \<Rightarrow> Inl e
     | Inr ms \<Rightarrow>
         (let (chunk, b1) = dec_chunk (field_vals ''chunk'' ms);
              (nextBatch, b2) = dec_string (field_vals ''next_batch'' ms);
              (prevBatch, b3) = dec_string (field_vals ''prev_batch'' ms);
              (total, b4) = dec_int64 (field_vals ''total_room_count_estimate'' ms)
          in if b1 \<or> b2 \<or> b3 \<or> b4 then Inl type_error
             else Inr \<lparr>pc_Chunk = chunk, pc_NextBatch = nextBatch, pc_PrevBatch = prevBatch,
                       pc_TotalRoomCountEstimate = total\<rparr>))"

definition QueryPublicRooms :: "server \<Rightarrow> string \<Rightarrow> string \<Rightarrow> int \<Rightarrow> int \<Rightarrow> PublicRoomsChunck op" where
  "QueryPublicRooms sv remoteServer searchTerm limit offset =
     (let payload = JObj (
            omitempty (searchTerm = '''') ''filter'' (JObj [(''generic_search_term'', JStr searchTerm)]) @
            omitempty (limit = 0) ''limit'' (JNum limit) @
            omitempty (\<not> offset > 0) ''since'' (JStr (string_of_int offset)))
      in bindM (fed_call sv ''POST'' remoteServer ''/_matrix/federation/v1/publicRooms'' (Some payload) (Some payload)) (\<lambda>resp.
           if rs_status resp \<noteq> 200 then failM (Errorf ''remote server rejected publicRooms'')
           else wrapM ''failed to decode publicRooms response'' (liftE (decodePublicRooms (rs_body resp)))))"

subsection \<open>Keys\<close>

record KeysQueryResponse =
  kq_DeviceKeys :: "(string \<times> (string \<times> json) list) list"
  kq_MasterKeys :: "(string \<times> json) list"
  kq_SelfSigningKeys :: "(string \<times> json) list"

definition decodeKeysQuery :: "raw \<Rightarrow> KeysQueryResponse decoded" where
  "decodeKeysQuery body = (case struct_members body of
       Inl e \<Rightarrow> Inl e
     | Inr ms \<Rightarrow>
         (let (devices, b1) = dec_map (elem_map elem_raw) (field_vals ''device_keys'' ms);
              (master, b2) = dec_map elem_raw (field_vals ''master_keys'' ms);
              (self, b3) = dec_map elem_raw (field_vals ''self_signing_keys'' ms)
          in if b1 \<or> b2 \<or> b3 then Inl type_error
             else Inr \<lparr>kq_DeviceKeys = devices, kq_MasterKeys = master, kq_SelfSigningKeys = self\<rparr>))"

type_synonym key_query = "(string \<times> string list option) list"

definition QueryKeysCall :: "server \<Rightarrow> string \<Rightarrow> key_query \<Rightarrow> KeysQueryResponse op" where
  "QueryKeysCall sv remoteServer deviceKeys =
     (let payload = JObj [(''device_keys'', JObj (sort_members (map (\<lambda>(u, ds). (u, strings_json ds)) deviceKeys)))]
      in bindM (fed_call sv ''POST'' remoteServer ''/_matrix/federation/v1/user/keys/query'' (Some payload) (Some payload)) (\<lambda>resp.
           if rs_status resp \<noteq> 200 then failM (Errorf ''remote server rejected keys/query'')
           else wrapM ''failed to decode keys/query response'' (liftE (decodeKeysQuery (rs_body resp)))))"

type_synonym claims = "(string \<times> (string \<times> string) list) list"
type_synonym claimed_keys = "(string \<times> (string \<times> (string \<times> json) list) list) list"

definition decodeKeysClaim :: "raw \<Rightarrow> claimed_keys decoded" where
  "decodeKeysClaim body = (case struct_members body of
       Inl e \<Rightarrow> Inl e
     | Inr ms \<Rightarrow>
         (let (ks, bad) = dec_map (elem_map (elem_map elem_raw)) (field_vals ''one_time_keys'' ms)
          in if bad then Inl type_error else Inr ks))"

definition ClaimKeysCall :: "server \<Rightarrow> string \<Rightarrow> claims \<Rightarrow> claimed_keys op" where
  "ClaimKeysCall sv remoteServer oneTimeKeys =
     (let payload = JObj [(''one_time_keys'', JObj (sort_members
            (map (\<lambda>(u, ds). (u, JObj (sort_members (map (\<lambda>(d, a). (d, JStr a)) ds)))) oneTimeKeys)))]
      in bindM (fed_call sv ''POST'' remoteServer ''/_matrix/federation/v1/user/keys/claim'' (Some payload) (Some payload)) (\<lambda>resp.
           if rs_status resp \<noteq> 200 then failM (Errorf ''remote server rejected keys/claim'')
           else wrapM ''failed to decode keys/claim response'' (liftE (decodeKeysClaim (rs_body resp)))))"

end
