(* ===== verification/Keys_Service.thy ===== *)
theory Keys_Service
  imports Keys_Storage Federation_Queries
begin

text \<open>
  \<^verbatim>\<open>internal/usecase/keys_service.go\<close>: device keys, one-time keys, fallback keys and cross-signing keys.
  A Go map is an association list, its order the order of the \<open>range\<close> loop over it.
\<close>

subsection \<open>UploadKeys\<close>

record UploadKeysParams =
  uk_UserID :: string
  uk_DeviceID :: string
  uk_Algorithms :: "string list"
  uk_IdentityKeys :: raw
  uk_Signatures :: raw
  uk_OneTimeKeys :: "(string \<times> json) list"
  uk_FallbackKeys :: "(string \<times> json) list"

definition uploadBody :: "UploadKeysParams \<Rightarrow> ctx \<Rightarrow> (string \<times> int) list op" where
  "uploadBody params txCtx =
     bindM (if 0 < length (uk_Algorithms params)
            then UpsertDeviceKeys txCtx
              \<lparr>cd_DispositivoID = uk_DeviceID params, cd_UsuarioID = uk_UserID params, cd_NomeDispositivo = '''',
               cd_Algorithms = uk_Algorithms params, cd_Keys = uk_IdentityKeys params, cd_Signatures = uk_Signatures params\<rparr>
            else returnM ()) (\<lambda>_.
     bindM (if 0 < length (uk_OneTimeKeys params)
            then UpsertOneTimeKeys txCtx (uk_DeviceID params) (map (\<lambda>(keyID, dat).
              \<lparr>ku_DispositivoID = uk_DeviceID params, ku_KeyID = keyID, ku_Algorithm = fst (cut CHR '':'' keyID),
               ku_KeyData = Some dat\<rparr>) (uk_OneTimeKeys params))
            else returnM ()) (\<lambda>_.
     bindM (forM (uk_FallbackKeys params) (\<lambda>(keyID, dat). UpsertFallbackKey txCtx
              \<lparr>kf_DispositivoID = uk_DeviceID params, kf_Algorithm = fst (cut CHR '':'' keyID), kf_KeyID = keyID,
               kf_KeyData = Some dat, kf_Usada = False\<rparr>)) (\<lambda>_.
       CountOneTimeKeys txCtx (uk_DeviceID params))))"

definition UploadKeys :: "UploadKeysParams \<Rightarrow> (string \<times> int) list op" where
  "UploadKeys params = internalM (Execute (uploadBody params))"

subsection \<open>QueryKeys\<close>

record QueryKeysResult =
  qk_DeviceKeys :: "(string \<times> (string \<times> ChavesDispositivo) list) list"
  qk_MasterKeys :: "(string \<times> ChaveCrossSigning) list"
  qk_SelfSigningKeys :: "(string \<times> ChaveCrossSigning) list"
  qk_UserSigningKeys :: "(string \<times> ChaveCrossSigning) list"
  qk_Failures :: "(string \<times> json) list"

definition emptyQuery :: "QueryKeysResult" where
  "emptyQuery = \<lparr>qk_DeviceKeys = [], qk_MasterKeys = [], qk_SelfSigningKeys = [], qk_UserSigningKeys = [], qk_Failures = []\<rparr>"

text \<open>\<open>json.Unmarshal(raw, &m)\<close> into a map.\<close>

definition unmarshal_map :: "(json \<Rightarrow> 'a \<times> bool) \<Rightarrow> raw \<Rightarrow> (string \<times> 'a) list decoded" where
  "unmarshal_map f r = (case r of
       None \<Rightarrow> Inl (JsonError ''unexpected end of JSON input'')
     | Some v \<Rightarrow> (let (m, bad) = elem_map f v in if bad then Inl type_error else Inr m))"

text \<open>The loop returns in its first round.\<close>

definition extractBareKeyID :: "raw \<Rightarrow> string decoded" where
  "extractBareKeyID keysMap = (case unmarshal_map elem_string keysMap of
       Inl e \<Rightarrow> Inl e
     | Inr [] \<Rightarrow> Inl (Errorf ''empty keys object'')
     | Inr ((fullKeyID, _) # _) \<Rightarrow>
         (case cut CHR '':'' fullKeyID of (_, bare, found) \<Rightarrow> Inr (if found then bare else fullKeyID)))"

definition parseSignedKeys :: "raw \<Rightarrow> (raw \<times> raw) decoded" where
  "parseSignedKeys r = (case struct_members r of
       Inl e \<Rightarrow> Inl e
     | Inr ms \<Rightarrow> Inr (dec_raw (field_vals ''keys'' ms), dec_raw (field_vals ''signatures'' ms)))"

definition parseCrossSigningKeyResponse :: "string \<Rightarrow> string \<Rightarrow> raw \<Rightarrow> ChaveCrossSigning decoded" where
  "parseCrossSigningKeyResponse userID usage r = (case parseSignedKeys r of
       Inl e \<Rightarrow> Inl e
     | Inr (ks, sigs) \<Rightarrow>
         (case extractBareKeyID ks of
            Inl e \<Rightarrow> Inl e
          | Inr bareKeyID \<Rightarrow> Inr \<lparr>kc_UsuarioID = userID, kc_Usage = usage, kc_KeyID = bareKeyID, kc_Keys = ks,
                                 kc_Signatures = sigs\<rparr>))"

definition parseDeviceKeys :: "string \<Rightarrow> string \<Rightarrow> json \<Rightarrow> ChavesDispositivo decoded" where
  "parseDeviceKeys userID deviceID v = (case struct_members (Some v) of
       Inl e \<Rightarrow> Inl e
     | Inr ms \<Rightarrow>
         (let (algorithms, bad) = dec_strings (field_vals ''algorithms'' ms)
          in if bad then Inl type_error
             else Inr \<lparr>cd_DispositivoID = deviceID, cd_UsuarioID = userID, cd_NomeDispositivo = '''',
                       cd_Algorithms = algorithms, cd_Keys = dec_raw (field_vals ''keys'' ms),
                       cd_Signatures = dec_raw (field_vals ''signatures'' ms)\<rparr>))"

definition set_cross :: "string \<Rightarrow> string \<Rightarrow> (string \<times> ChaveCrossSigning) list \<Rightarrow> QueryKeysResult \<Rightarrow> QueryKeysResult" where
  "set_cross requestingUserID userID crossKeys result =
     (let result = (case map_of crossKeys ''master'' of None \<Rightarrow> result
            | Some k \<Rightarrow> result\<lparr>qk_MasterKeys := AList.update userID k (qk_MasterKeys result)\<rparr>);
          result = (case map_of crossKeys ''self_signing'' of None \<Rightarrow> result
            | Some k \<Rightarrow> result\<lparr>qk_SelfSigningKeys := AList.update userID k (qk_SelfSigningKeys result)\<rparr>)
      in case map_of crossKeys ''user_signing'' of None \<Rightarrow> result
         | Some k \<Rightarrow> if userID = requestingUserID
             then result\<lparr>qk_UserSigningKeys := AList.update userID k (qk_UserSigningKeys result)\<rparr> else result)"

definition queryLocal :: "string \<Rightarrow> string \<Rightarrow> string list \<Rightarrow> QueryKeysResult \<Rightarrow> QueryKeysResult op" where
  "queryLocal requestingUserID userID deviceIDs result =
     bindM (catchM (GetDeviceKeys Ctx userID deviceIDs)) (\<lambda>r.
     (let result = (case r of
            Inl _ \<Rightarrow> result
          | Inr ks \<Rightarrow> if 0 < length ks
              then result\<lparr>qk_DeviceKeys := AList.update userID
                (foldl (\<lambda>m k. AList.update (cd_DispositivoID k) k m) [] ks) (qk_DeviceKeys result)\<rparr>
              else result)
      in bindM (catchM (GetCrossSigningKeys Ctx userID)) (\<lambda>r2.
           returnM (case r2 of Inl _ \<Rightarrow> result | Inr crossKeys \<Rightarrow> set_cross requestingUserID userID crossKeys result))))"

text \<open>\<open>m[server][userID] = x\<close>, the inner map made when it is missing.\<close>

definition add_remote :: "string \<Rightarrow> string \<Rightarrow> 'a \<Rightarrow> (string \<times> (string \<times> 'a) list) list \<Rightarrow> (string \<times> (string \<times> 'a) list) list" where
  "add_remote server userID x m =
     AList.update server (AList.update userID x (case map_of m server of None \<Rightarrow> [] | Some us \<Rightarrow> us)) m"

definition queryStep :: "server \<Rightarrow> string \<Rightarrow> string \<times> string list option
    \<Rightarrow> QueryKeysResult \<times> (string \<times> key_query) list \<Rightarrow> (QueryKeysResult \<times> (string \<times> key_query) list) op" where
  "queryStep sv requestingUserID p s =
     (case (p, s) of ((userID, deviceIDs), (result, remoteByServer)) \<Rightarrow>
        (let domainName = ExtractDomainFromUserID userID
         in if domainName \<noteq> sv_serverName sv then returnM (result, add_remote domainName userID deviceIDs remoteByServer)
            else bindM (queryLocal requestingUserID userID (case deviceIDs of None \<Rightarrow> [] | Some ds \<Rightarrow> ds) result)
                   (\<lambda>result. returnM (result, remoteByServer))))"

text \<open>What another server answers is taken as it is, for whichever users it names.\<close>

definition add_devices :: "string \<times> (string \<times> json) list \<Rightarrow> QueryKeysResult \<Rightarrow> QueryKeysResult" where
  "add_devices p result =
     (case p of (userID, devices) \<Rightarrow>
        result\<lparr>qk_DeviceKeys := AList.update userID
          (foldl (\<lambda>m (deviceID, v). case parseDeviceKeys userID deviceID v of
              Inl _ \<Rightarrow> m | Inr k \<Rightarrow> AList.update deviceID k m) [] devices) (qk_DeviceKeys result)\<rparr>)"

definition add_master :: "string \<times> json \<Rightarrow> QueryKeysResult \<Rightarrow> QueryKeysResult" where
  "add_master p result =
     (case p of (userID, v) \<Rightarrow> (case parseCrossSigningKeyResponse userID ''master'' (Some v) of
          Inl _ \<Rightarrow> result | Inr k \<Rightarrow> result\<lparr>qk_MasterKeys := AList.update userID k (qk_MasterKeys result)\<rparr>))"

definition add_self_signing :: "string \<times> json \<Rightarrow> QueryKeysResult \<Rightarrow> QueryKeysResult" where
  "add_self_signing p result =
     (case p of (userID, v) \<Rightarrow> (case parseCrossSigningKeyResponse userID ''self_signing'' (Some v) of
          Inl _ \<Rightarrow> result | Inr k \<Rightarrow> result\<lparr>qk_SelfSigningKeys := AList.update userID k (qk_SelfSigningKeys result)\<rparr>))"

definition queryRemote :: "server \<Rightarrow> string \<times> key_query \<Rightarrow> QueryKeysResult \<Rightarrow> QueryKeysResult op" where
  "queryRemote sv p result =
     (case p of (srv, deviceKeysReq) \<Rightarrow>
        bindM (catchM (QueryKeysCall sv srv deviceKeysReq)) (\<lambda>r.
          returnM (case r of
              Inl _ \<Rightarrow> result\<lparr>qk_Failures := AList.update srv (JObj []) (qk_Failures result)\<rparr>
            | Inr remoteResult \<Rightarrow>
                fold add_self_signing (kq_SelfSigningKeys remoteResult)
                  (fold add_master (kq_MasterKeys remoteResult)
                    (fold add_devices (kq_DeviceKeys remoteResult) result)))))"

definition QueryKeys :: "server \<Rightarrow> string \<Rightarrow> key_query \<Rightarrow> QueryKeysResult op" where
  "QueryKeys sv requestingUserID requested =
     bindM (foldM (queryStep sv requestingUserID) requested (emptyQuery, [])) (\<lambda>(result, remoteByServer).
       foldM (queryRemote sv) remoteByServer result)"

subsection \<open>ClaimKeys\<close>

record ClaimKeysResult =
  cl_OneTimeKeys :: claimed_keys
  cl_Failures :: "(string \<times> json) list"

definition map_at :: "string \<Rightarrow> (string \<times> 'a list) list \<Rightarrow> 'a list" where
  "map_at k m = (case map_of m k of None \<Rightarrow> [] | Some x \<Rightarrow> x)"

definition addClaimedKey :: "string \<Rightarrow> string \<Rightarrow> string \<Rightarrow> json \<Rightarrow> claimed_keys \<Rightarrow> claimed_keys" where
  "addClaimedKey userID deviceID keyID dat dst =
     AList.update userID (AList.update deviceID (AList.update keyID dat (map_at deviceID (map_at userID dst)))
       (map_at userID dst)) dst"

definition claimLocal :: "string \<Rightarrow> string \<times> string \<Rightarrow> ClaimKeysResult \<Rightarrow> ClaimKeysResult op" where
  "claimLocal userID p result =
     (case p of (deviceID, algorithm) \<Rightarrow>
        bindM (catchM (ClaimOneTimeKey Ctx deviceID algorithm)) (\<lambda>claimed.
          case claimed of
            Inl _ \<Rightarrow> returnM result
          | Inr (Some k) \<Rightarrow> returnM (result\<lparr>cl_OneTimeKeys :=
              addClaimedKey userID deviceID (ku_KeyID k) (raw_json (ku_KeyData k)) (cl_OneTimeKeys result)\<rparr>)
          | Inr None \<Rightarrow>
              bindM (catchM (ClaimFallbackKey Ctx deviceID algorithm)) (\<lambda>fallback.
                returnM (case fallback of
                    Inr (Some k) \<Rightarrow> result\<lparr>cl_OneTimeKeys :=
                      addClaimedKey userID deviceID (kf_KeyID k) (raw_json (kf_KeyData k)) (cl_OneTimeKeys result)\<rparr>
                  | _ \<Rightarrow> result))))"

definition claimStep :: "server \<Rightarrow> string \<times> (string \<times> string) list \<Rightarrow> ClaimKeysResult \<times> (string \<times> claims) list
    \<Rightarrow> (ClaimKeysResult \<times> (string \<times> claims) list) op" where
  "claimStep sv p s =
     (case (p, s) of ((userID, devices), (result, remoteByServer)) \<Rightarrow>
        (let domainName = ExtractDomainFromUserID userID
         in if domainName = sv_serverName sv
            then bindM (foldM (claimLocal userID) devices result) (\<lambda>result. returnM (result, remoteByServer))
            else returnM (result, add_remote domainName userID devices remoteByServer)))"

definition add_claimed :: "string \<times> (string \<times> (string \<times> json) list) list \<Rightarrow> claimed_keys \<Rightarrow> claimed_keys" where
  "add_claimed p dst =
     (case p of (userID, devices) \<Rightarrow>
        AList.update userID (foldl (\<lambda>m (deviceID, ks). AList.update deviceID ks m) (map_at userID dst) devices) dst)"

definition claimRemote :: "server \<Rightarrow> string \<times> claims \<Rightarrow> ClaimKeysResult \<Rightarrow> ClaimKeysResult op" where
  "claimRemote sv p result =
     (case p of (srv, oneTimeKeysReq) \<Rightarrow>
        bindM (catchM (ClaimKeysCall sv srv oneTimeKeysReq)) (\<lambda>r.
          returnM (case r of
              Inl _ \<Rightarrow> result\<lparr>cl_Failures := AList.update srv (JObj []) (cl_Failures result)\<rparr>
            | Inr remoteResult \<Rightarrow> result\<lparr>cl_OneTimeKeys := fold add_claimed remoteResult (cl_OneTimeKeys result)\<rparr>)))"

definition ClaimKeys :: "server \<Rightarrow> claims \<Rightarrow> ClaimKeysResult op" where
  "ClaimKeys sv requested =
     bindM (foldM (claimStep sv) requested (\<lparr>cl_OneTimeKeys = [], cl_Failures = []\<rparr>, [])) (\<lambda>(result, remoteByServer).
       foldM (claimRemote sv) remoteByServer result)"

subsection \<open>Cross-signing\<close>

record UploadCrossSigningKeysParams =
  uc_UserID :: string
  uc_MasterKey :: raw
  uc_SelfSigningKey :: raw
  uc_UserSigningKey :: raw

definition uploadCrossKey :: "string \<Rightarrow> string \<times> raw \<Rightarrow> unit op" where
  "uploadCrossKey userID e =
     (case e of (usage, r) \<Rightarrow>
        if r = None then returnM ()
        else bindM (wrapM ''invalid key'' (liftE (parseSignedKeys r))) (\<lambda>(ks, sigs).
             bindM (wrapM ''invalid key'' (liftE (extractBareKeyID ks))) (\<lambda>bareKeyID.
               wrapM ''failed to store key'' (UpsertCrossSigningKey Ctx
                 \<lparr>kc_UsuarioID = userID, kc_Usage = usage, kc_KeyID = bareKeyID, kc_Keys = ks, kc_Signatures = sigs\<rparr>))))"

definition UploadCrossSigningKeys :: "UploadCrossSigningKeysParams \<Rightarrow> unit op" where
  "UploadCrossSigningKeys params =
     forM [(''master'', uc_MasterKey params), (''self_signing'', uc_SelfSigningKey params),
           (''user_signing'', uc_UserSigningKey params)] (uploadCrossKey (uc_UserID params))"

subsection \<open>UploadSignatures\<close>

text \<open>A failure has the members of an error body, \<open>errcode\<close> and \<open>error\<close>.\<close>

type_synonym sig_failures = "(string \<times> (string \<times> (string \<times> string)) list) list"

definition sig_fail :: "string \<Rightarrow> string \<Rightarrow> string \<Rightarrow> string \<Rightarrow> sig_failures \<Rightarrow> sig_failures" where
  "sig_fail userID keyID errcode message m = AList.update userID (AList.update keyID (errcode, message) (map_at userID m)) m"

definition uploadSignature :: "string \<Rightarrow> string \<times> json \<Rightarrow> sig_failures \<Rightarrow> sig_failures op" where
  "uploadSignature userID p failures =
     (case p of (keyID, signedObj) \<Rightarrow>
        (case struct_members (Some signedObj) of
           Inl _ \<Rightarrow> returnM (sig_fail userID keyID ''M_INVALID_SIGNATURE'' ''Missing or invalid signatures in signed object'' failures)
         | Inr ms \<Rightarrow>
             (case dec_raw (field_vals ''signatures'' ms) of
                None \<Rightarrow> returnM (sig_fail userID keyID ''M_INVALID_SIGNATURE'' ''Missing or invalid signatures in signed object'' failures)
              | Some sigs \<Rightarrow>
                  bindM (catchM (MergeDeviceSignatures Ctx userID keyID (Some sigs))) (\<lambda>found.
                    case found of
                      Inl _ \<Rightarrow> returnM (sig_fail userID keyID ''M_UNKNOWN'' ''Failed to store signature'' failures)
                    | Inr True \<Rightarrow> returnM failures
                    | Inr False \<Rightarrow>
                        bindM (catchM (MergeCrossSigningSignatures Ctx userID keyID (Some sigs))) (\<lambda>found.
                          returnM (case found of
                              Inl _ \<Rightarrow> sig_fail userID keyID ''M_UNKNOWN'' ''Failed to store signature'' failures
                            | Inr True \<Rightarrow> failures
                            | Inr False \<Rightarrow> sig_fail userID keyID ''M_NOT_FOUND'' ''Unknown key'' failures))))))"

definition signUser :: "server \<Rightarrow> string \<times> (string \<times> json) list \<Rightarrow> sig_failures \<Rightarrow> sig_failures op" where
  "signUser sv p failures =
     (case p of (userID, ks) \<Rightarrow>
        if ExtractDomainFromUserID userID \<noteq> sv_serverName sv
        then returnM (fold (\<lambda>(keyID, _). sig_fail userID keyID ''M_NOT_FOUND'' ''Cannot sign keys of remote users'') ks failures)
        else foldM (uploadSignature userID) ks failures)"

definition UploadSignatures :: "server \<Rightarrow> (string \<times> (string \<times> json) list) list \<Rightarrow> sig_failures op" where
  "UploadSignatures sv requested = foldM (signUser sv) requested []"

end
