(* ===== verification/ToDevice_Service.thy ===== *)
theory ToDevice_Service
  imports Keys_Service
begin

text \<open>
  \<^verbatim>\<open>internal/usecase/to_device_service.go\<close>: messages from a user to single devices. They are queued for
  local devices and handed to a goroutine, once, for the users of another server.
\<close>

record SendParams =
  tp_Sender :: string
  tp_EventType :: string
  tp_Messages :: messages

definition pending_for :: "string \<Rightarrow> string \<Rightarrow> string \<Rightarrow> json \<Rightarrow> string \<Rightarrow> ToDeviceMessage" where
  "pending_for sender eventType userID content devID =
     \<lparr>tm_ID = 0, tm_UserID = userID, tm_DeviceID = devID, tm_Sender = sender, tm_Type = eventType,
      tm_Content = Some content\<rparr>"

text \<open>The device id \<open>"*"\<close> stands for the devices with keys; when they cannot be read the entry is skipped.\<close>

definition expandDevice :: "SendParams \<Rightarrow> string \<Rightarrow> string \<times> json \<Rightarrow> ToDeviceMessage list \<Rightarrow> ToDeviceMessage list op" where
  "expandDevice params userID p pending =
     (case p of (deviceID, content) \<Rightarrow>
        bindM (if deviceID = ''*''
               then bindM (catchM (GetDeviceKeys Ctx userID [])) (\<lambda>r.
                      returnM (case r of Inl _ \<Rightarrow> [] | Inr ks \<Rightarrow> map cd_DispositivoID ks))
               else returnM [deviceID]) (\<lambda>targetDevices.
          returnM (pending @ map (pending_for (tp_Sender params) (tp_EventType params) userID content) targetDevices)))"

definition sendStep :: "server \<Rightarrow> SendParams \<Rightarrow> string \<times> (string \<times> json) list
    \<Rightarrow> ToDeviceMessage list \<times> (string \<times> messages) list \<Rightarrow> (ToDeviceMessage list \<times> (string \<times> messages) list) op" where
  "sendStep sv params p s =
     (case (p, s) of ((userID, devices), (pending, remoteByServer)) \<Rightarrow>
        (let domainName = ExtractDomainFromUserID userID
         in if domainName \<noteq> sv_serverName sv
            then returnM (pending, add_remote domainName userID
              (foldl (\<lambda>m (deviceID, content). AList.update deviceID content m)
                 (map_at userID (map_at domainName remoteByServer)) devices) remoteByServer)
            else bindM (foldM (expandDevice params userID) devices pending) (\<lambda>pending. returnM (pending, remoteByServer))))"

definition Send :: "server \<Rightarrow> SendParams \<Rightarrow> unit op" where
  "Send sv params =
     bindM (foldM (sendStep sv params) (tp_Messages params) ([], [])) (\<lambda>(pending, remoteByServer).
     bindM (if 0 < length pending then internalM (InsertToDeviceMessages Ctx pending) else returnM ()) (\<lambda>_.
       forM remoteByServer (\<lambda>(srv, ms). spawn (TaskToDevice srv (tp_Sender params) (tp_EventType params) ms))))"

text \<open>A device id from another server is not expanded.\<close>

definition DeliverFromFederation :: "server \<Rightarrow> string \<Rightarrow> string \<Rightarrow> messages \<Rightarrow> unit op" where
  "DeliverFromFederation sv sender eventType messages =
     (let pending = concat (map (\<lambda>(userID, devices).
            if ExtractDomainFromUserID userID \<noteq> sv_serverName sv then []
            else map (\<lambda>(deviceID, content). pending_for sender eventType userID content deviceID) devices) messages)
      in if length pending = 0 then returnM () else InsertToDeviceMessages Ctx pending)"

end
