(* ===== verification/Sync_Service.thy ===== *)
theory Sync_Service
  imports Keys_Storage Room_Membership
begin

text \<open>
  \<^verbatim>\<open>internal/usecase/sync_service.go\<close>: what a client has not seen yet. The wait of a long poll is the
  argument \<open>wait\<close>: while it lasts, other requests may change everything.
\<close>

subsection \<open>The answer\<close>

record EventoWithoutCanalID =
  ec_ID :: string
  ec_Tipo :: string
  ec_Content :: raw
  ec_Sender :: string
  ec_OrigemServidorTS :: int
  ec_StateKey :: "string option"
  ec_Unsigned :: raw

record Timeline =
  tl_Events :: "EventoWithoutCanalID list"
  tl_Limited :: bool
  tl_PrevBatch :: SyncToken

record JoinedRoom =
  jr_AccountData :: "AccountData list"
  jr_State :: "EventoWithoutCanalID list"
  jr_Timeline :: Timeline

record LeftRoom =
  lr_State :: "EventoWithoutCanalID list"
  lr_Timeline :: Timeline

text \<open>The map of rooms is \<open>None\<close> when it is nil: the list of rooms could not be read.\<close>

record RoomsSync =
  rs_Invite :: "(string \<times> StrippedEvento list) list"
  rs_Join :: "(string \<times> JoinedRoom) list option"
  rs_Leave :: "(string \<times> LeftRoom) list option"

record ToDeviceEventSync =
  te_Content :: raw
  te_Sender :: string
  te_Type :: string

record SyncClientResponse =
  sy_AccountData :: "AccountData list"
  sy_DeviceOTKCount :: "(string \<times> int) list option"
  sy_NextBatch :: SyncToken
  sy_Rooms :: RoomsSync
  sy_ToDevice :: "ToDeviceEventSync list option"

definition zeroResponse :: "SyncClientResponse" where
  "zeroResponse =
     \<lparr>sy_AccountData = [], sy_DeviceOTKCount = None, sy_NextBatch = zeroToken,
      sy_Rooms = \<lparr>rs_Invite = [], rs_Join = None, rs_Leave = None\<rparr>, sy_ToDevice = None\<rparr>"

definition isResponseEmpty :: "SyncClientResponse \<Rightarrow> bool" where
  "isResponseEmpty response =
     (let rooms = sy_Rooms response
      in if 0 < length (rs_Invite rooms) \<or> (case rs_Leave rooms of None \<Rightarrow> False | Some m \<Rightarrow> 0 < length m) then False
         else if (case sy_ToDevice response of None \<Rightarrow> False | Some es \<Rightarrow> 0 < length es) then False
         else (case rs_Join rooms of
                 None \<Rightarrow> True
               | Some m \<Rightarrow> list_all (\<lambda>(_, room). \<not> (0 < length (tl_Events (jr_Timeline room)) \<or> 0 < length (jr_State room))) m))"

subsection \<open>The next token\<close>

definition generateNextSinceToken :: "string \<Rightarrow> SyncToken \<Rightarrow> SyncToken op" where
  "generateNextSinceToken userID since =
     bindM (GetSince userID since) (\<lambda>eventos.
       if 0 < length eventos then returnM (GenerateNextSinceToken since eventos)
       else bindM GetMaxStreamOrdering (\<lambda>maxOrdering.
         returnM (if maxOrdering > TimelinePosition since then since\<lparr>TimelinePosition := maxOrdering\<rparr> else since)))"

subsection \<open>Events for a client\<close>

text \<open>
  \<open>unsignedForRecipient\<close>: the \<open>transaction_id\<close> is for the sender alone. A value that is not an object is
  left as it is.
\<close>

definition unsignedForRecipient :: "raw \<Rightarrow> string \<Rightarrow> string \<Rightarrow> raw" where
  "unsignedForRecipient u sender requesterID =
     (if u = None \<or> sender = requesterID then u
      else (case u of
              Some (JObj ms) \<Rightarrow>
                (case any_of_json (JObj ms) of
                   JObj dat \<Rightarrow>
                     if member ''transaction_id'' dat = None then u
                     else (let dat = map_delete ''transaction_id'' dat
                           in if length dat = 0 then None else Some (marshal_any (JObj dat)))
                 | _ \<Rightarrow> u)
            | _ \<Rightarrow> u))"

definition client_event :: "raw \<Rightarrow> evento \<Rightarrow> EventoWithoutCanalID" where
  "client_event u event =
     \<lparr>ec_ID = ev_ID event, ec_Tipo = ev_Tipo event, ec_Content = ev_Content event, ec_Sender = ev_Sender event,
      ec_OrigemServidorTS = ev_OrigemServidorTS event, ec_StateKey = ev_StateKey event, ec_Unsigned = u\<rparr>"

definition state_event :: "evento \<Rightarrow> EventoWithoutCanalID" where
  "state_event event = client_event (ev_Unsigned event) event"

definition timeline_event :: "string \<Rightarrow> evento \<Rightarrow> EventoWithoutCanalID" where
  "timeline_event userID event = client_event (unsignedForRecipient (ev_Unsigned event) (ev_Sender event) userID) event"

definition prevBatch :: "SyncToken \<Rightarrow> evento list \<Rightarrow> SyncToken" where
  "prevBatch since events = (case events of
       [] \<Rightarrow> since
     | e # _ \<Rightarrow> since\<lparr>TimelinePosition := max (ev_StreamOrdering e) 0\<rparr>)"

definition mkTimeline :: "string \<Rightarrow> SyncToken \<Rightarrow> evento list \<Rightarrow> Timeline" where
  "mkTimeline userID since events =
     \<lparr>tl_Events = map (timeline_event userID) events, tl_Limited = False, tl_PrevBatch = prevBatch since events\<rparr>"

text \<open>The state section: the whole current state on a first sync, else the state events of the timeline.\<close>

definition syncState :: "string \<Rightarrow> bool \<Rightarrow> evento list \<Rightarrow> EventoWithoutCanalID list op" where
  "syncState roomID isFirstSync events =
     (if isFirstSync then bindM (GetCurrentStateEvents roomID) (\<lambda>currState. returnM (map state_event currState))
      else returnM (map state_event (filter (\<lambda>event. ev_StateKey event \<noteq> None) events)))"

subsection \<open>Rooms\<close>

definition invitePreview :: "string \<Rightarrow> StrippedEvento list op" where
  "invitePreview roomID =
     foldM (stripState roomID)
       [''m.room.create'', ''m.room.join_rules'', ''m.room.canonical_alias'', ''m.room.name'', ''m.room.avatar'',
        ''m.room.topic'', ''m.room.encryption''] []"

definition inviteStep :: "evento \<Rightarrow> (string \<times> StrippedEvento list) list \<Rightarrow> (string \<times> StrippedEvento list) list op" where
  "inviteStep event mapInvites =
     (let stripped = \<lparr>se_Tipo = ev_Tipo event, se_Content = ev_Content event, se_StateKey = ev_StateKey event,
                      se_Sender = ev_Sender event\<rparr>
      in bindM (case map_of mapInvites (ev_CanalID event) of
                  Some room \<Rightarrow> returnM room
                | None \<Rightarrow> invitePreview (ev_CanalID event)) (\<lambda>room.
           returnM (AList.update (ev_CanalID event) (room @ [stripped]) mapInvites)))"

definition GetInviteRooms :: "string \<Rightarrow> SyncToken \<Rightarrow> (string \<times> StrippedEvento list) list op" where
  "GetInviteRooms userID since =
     bindM (GetInviteEventsSince Ctx userID since) (\<lambda>inviteEvents. foldM inviteStep inviteEvents [])"

text \<open>A room one of whose queries fails is skipped.\<close>

definition joinedRoom :: "string \<Rightarrow> SyncToken \<Rightarrow> string \<Rightarrow> JoinedRoom option op" where
  "joinedRoom userID since roomID =
     (let isFirstSync = (TimelinePosition since = 0)
      in bindM (GetEventsOfCanalSince userID roomID since) (\<lambda>events.
         bindM (syncState roomID isFirstSync events) (\<lambda>stateEvents.
         bindM (GetAccountDataOfCanal Ctx userID roomID) (\<lambda>accData.
           if \<not> isFirstSync \<and> length events = 0 \<and> length stateEvents = 0 \<and> length accData = 0 then returnM None
           else returnM (Some \<lparr>jr_AccountData = accData, jr_State = stateEvents,
                               jr_Timeline = mkTimeline userID since events\<rparr>)))))"

definition joinedStep :: "string \<Rightarrow> SyncToken \<Rightarrow> string \<Rightarrow> (string \<times> JoinedRoom) list \<Rightarrow> (string \<times> JoinedRoom) list op" where
  "joinedStep userID since roomID m =
     bindM (catchM (joinedRoom userID since roomID)) (\<lambda>r.
       returnM (case r of Inr (Some room) \<Rightarrow> AList.update roomID room m | _ \<Rightarrow> m))"

definition Sync_GetJoinedRooms :: "string \<Rightarrow> SyncToken \<Rightarrow> (string \<times> JoinedRoom) list option op" where
  "Sync_GetJoinedRooms userID since =
     bindM (catchM (GetUserJoinedRooms userID)) (\<lambda>r.
       case r of
         Inl _ \<Rightarrow> returnM None
       | Inr rooms \<Rightarrow> bindM (foldM (joinedStep userID since) rooms []) (\<lambda>m. returnM (Some m)))"

definition leftRoom :: "string \<Rightarrow> SyncToken \<Rightarrow> string \<Rightarrow> LeftRoom option op" where
  "leftRoom userID since roomID =
     (let isInitialSync = (TimelinePosition since = 0)
      in bindM (GetEventsOfCanalSinceLeft userID roomID since) (\<lambda>events.
         bindM (syncState roomID isInitialSync events) (\<lambda>stateEvents.
           if \<not> isInitialSync \<and> length events = 0 \<and> length stateEvents = 0 then returnM None
           else returnM (Some \<lparr>lr_State = stateEvents, lr_Timeline = mkTimeline userID since events\<rparr>))))"

definition leftStep :: "string \<Rightarrow> SyncToken \<Rightarrow> string \<Rightarrow> (string \<times> LeftRoom) list \<Rightarrow> (string \<times> LeftRoom) list op" where
  "leftStep userID since roomID m =
     bindM (catchM (leftRoom userID since roomID)) (\<lambda>r.
       returnM (case r of Inr (Some room) \<Rightarrow> AList.update roomID room m | _ \<Rightarrow> m))"

definition GetLeaveRooms :: "string \<Rightarrow> SyncToken \<Rightarrow> (string \<times> LeftRoom) list option op" where
  "GetLeaveRooms userID since =
     bindM (catchM (GetUserLeftRooms userID)) (\<lambda>r.
       case r of
         Inl _ \<Rightarrow> returnM None
       | Inr rooms \<Rightarrow> bindM (foldM (leftStep userID since) rooms []) (\<lambda>m. returnM (Some m)))"

subsection \<open>To-device messages\<close>

text \<open>The messages the token confirms are deleted, then the next hundred are read.\<close>

definition getToDeviceSync :: "string \<Rightarrow> string \<Rightarrow> SyncToken \<Rightarrow> (ToDeviceEventSync list option \<times> int) op" where
  "getToDeviceSync userID deviceID since =
     (let pos = ToDevicePosition since
      in if deviceID = '''' then returnM (None, pos)
         else
           bindM (if pos > 0 then DeleteToDeviceMessagesUpTo Ctx userID deviceID pos else returnM ()) (\<lambda>_.
           bindM (GetToDeviceMessagesSince Ctx userID deviceID pos 100) (\<lambda>messages.
             if length messages = 0 then returnM (None, pos)
             else returnM (Some (map (\<lambda>m. \<lparr>te_Content = tm_Content m, te_Sender = tm_Sender m, te_Type = tm_Type m\<rparr>) messages),
                           foldl (\<lambda>maxID m. if tm_ID m > maxID then tm_ID m else maxID) pos messages))))"

subsection \<open>GetEventsSince, SyncClient\<close>

definition Sync_GetEventsSince :: "string \<Rightarrow> string \<Rightarrow> SyncToken \<Rightarrow> SyncClientResponse op" where
  "Sync_GetEventsSince userID deviceID since =
     bindM (GetGlobalAccountData Ctx userID) (\<lambda>accountData.
     bindM (GetInviteRooms userID since) (\<lambda>mapInvites.
     bindM (Sync_GetJoinedRooms userID since) (\<lambda>mapJoined.
     bindM (GetLeaveRooms userID since) (\<lambda>mapLeft.
     bindM (catchM (getToDeviceSync userID deviceID since)) (\<lambda>r.
     (let (toDeviceSync, newToDevicePos) = (case r of Inl _ \<Rightarrow> (None, ToDevicePosition since) | Inr p \<Rightarrow> p)
      in bindM (if deviceID \<noteq> '''' then
                  bindM (catchM (CountOneTimeKeys Ctx deviceID)) (\<lambda>c.
                    returnM (case c of Inl _ \<Rightarrow> None | Inr counts \<Rightarrow> Some counts))
                else returnM None) (\<lambda>otkCounts.
           returnM \<lparr>sy_AccountData = accountData, sy_DeviceOTKCount = otkCounts,
                    sy_NextBatch = since\<lparr>ToDevicePosition := newToDevicePos\<rparr>,
                    sy_Rooms = \<lparr>rs_Invite = mapInvites, rs_Join = mapJoined, rs_Leave = mapLeft\<rparr>,
                    sy_ToDevice = toDeviceSync\<rparr>)))))))"

definition finishSync :: "string \<Rightarrow> SyncToken \<Rightarrow> SyncClientResponse \<Rightarrow> SyncClientResponse op" where
  "finishSync userID since response =
     bindM (generateNextSinceToken userID since) (\<lambda>nextBatch.
       returnM (response\<lparr>sy_NextBatch := nextBatch\<lparr>ToDevicePosition := ToDevicePosition (sy_NextBatch response)\<rparr>\<rparr>))"

text \<open>A canceled request is answered with an empty response and no error.\<close>

definition canceledM :: "SyncClientResponse op \<Rightarrow> (SyncClientResponse \<Rightarrow> SyncClientResponse op) \<Rightarrow> SyncClientResponse op" where
  "canceledM m f =
     bindM (catchM m) (\<lambda>r. case r of
         Inl e \<Rightarrow> if errors_is e Canceled then returnM zeroResponse else failM e
       | Inr response \<Rightarrow> f response)"

definition SyncClient :: "(string \<Rightarrow> unit op) \<Rightarrow> string \<Rightarrow> string \<Rightarrow> SyncToken \<Rightarrow> int \<Rightarrow> SyncClientResponse op" where
  "SyncClient wait userID deviceID since timeout =
     canceledM (Sync_GetEventsSince userID deviceID since) (\<lambda>response.
       if \<not> isResponseEmpty response \<or> timeout \<le> 0 then finishSync userID since response
       else bindM (catchM (wait userID)) (\<lambda>r.
         case r of
           Inl e \<Rightarrow>
             if errors_is e DeadlineExceeded then finishSync userID since response
             else if errors_is e Canceled then returnM zeroResponse
             else failM e
         | Inr _ \<Rightarrow> canceledM (Sync_GetEventsSince userID deviceID since) (finishSync userID since)))"

end
