(* ===== verification/Auth_Service.thy ===== *)
theory Auth_Service
  imports Device_Storage
begin

text \<open>
  \<^verbatim>\<open>internal/usecase/auth_service.go\<close> and \<^verbatim>\<open>internal/util/jwt.go\<close>: passwords, access tokens and refresh
  tokens. The packages for bcrypt, JSON web tokens and UUIDs are the functions of \<open>auth_lib\<close>: \<open>al_hash\<close>
  takes the random salt, \<open>al_newV7\<close> random bytes and the time, and \<open>al_parse\<close> gives the canonical text of
  a UUID. Times are milliseconds.
\<close>

record auth_lib =
  al_compare :: "string \<Rightarrow> string \<Rightarrow> bool"
  al_hash :: "string \<Rightarrow> string \<Rightarrow> go_error + string"
  al_sign :: "string \<Rightarrow> string \<Rightarrow> string \<Rightarrow> int \<Rightarrow> int \<Rightarrow> go_error + string"
  al_newV7 :: "string \<Rightarrow> int \<Rightarrow> go_error + string"
  al_parse :: "string \<Rightarrow> go_error + string"

record auth_service =
  as_lib :: auth_lib
  as_jwtSecret :: string
  as_ServerName :: string

subsection \<open>Tokens\<close>

definition AccessTokenExpiration :: int where
  "AccessTokenExpiration = 30 * 60 * 1000"

definition RefreshTokenExpiration :: int where
  "RefreshTokenExpiration = 30 * 24 * 60 * 60 * 1000"

text \<open>\<open>base64.URLEncoding\<close>, with padding.\<close>

definition URLEncoding :: "string \<Rightarrow> string" where
  "URLEncoding bs = (let e = RawURLEncoding bs in e @ replicate ((4 - length e mod 4) mod 4) CHR ''='')"

definition GenerateAccessToken :: "auth_service \<Rightarrow> string \<Rightarrow> string \<Rightarrow> (string \<times> int) op" where
  "GenerateAccessToken s userID deviceID =
     bindM nowM (\<lambda>t.
     (let expirationTime = t + AccessTokenExpiration
      in bindM nowM (\<lambda>issuedAt.
         bindM nowM (\<lambda>t2.
         bindM (liftE (al_sign (as_lib s) (as_jwtSecret s) userID deviceID expirationTime issuedAt)) (\<lambda>tokenString.
           returnM (tokenString, expirationTime - t2))))))"

definition GenerateRefreshToken :: "(string \<times> int) op" where
  "GenerateRefreshToken =
     bindM randomM (\<lambda>bytes. bindM nowM (\<lambda>t. returnM (URLEncoding bytes, t + RefreshTokenExpiration)))"

subsection \<open>Login\<close>

record LoginParams =
  lp_IdType :: string
  lp_User :: string
  lp_Password :: string
  lp_DeviceID :: string
  lp_DeviceName :: string
  lp_DeviceIP :: string

record LoginSuccess =
  ls_AccessToken :: string
  ls_RefreshToken :: string
  ls_ExpireMS :: int
  ls_UserID :: string
  ls_DeviceID :: string

definition loginDevice :: "auth_service \<Rightarrow> string \<Rightarrow> string op" where
  "loginDevice s deviceID =
     (if deviceID = '''' then
        bindM randomM (\<lambda>bytes. bindM nowM (\<lambda>t. internalM (liftE (al_newV7 (as_lib s) bytes t))))
      else (case al_parse (as_lib s) deviceID of Inl _ \<Rightarrow> failM ErrInvalidCredentials | Inr dev \<Rightarrow> returnM dev))"

definition Login :: "auth_service \<Rightarrow> LoginParams \<Rightarrow> LoginSuccess op" where
  "Login s params =
     (if lp_IdType params \<noteq> ''m.id.user'' \<or> lp_User params = '''' then failM ErrUnimplemented
      else
        (let mxid = (if has_prefix (lp_User params) ''@'' then lp_User params
                     else CHR ''@'' # lp_User params @ CHR '':'' # as_ServerName s)
         in bindM (catchM (GetUsuarioByID Ctx mxid)) (\<lambda>r.
            case r of
              Inl _ \<Rightarrow> failM ErrInvalidCredentials
            | Inr user \<Rightarrow>
                if \<not> al_compare (as_lib s) (u_SenhaHash user) (lp_Password params) then failM ErrInvalidCredentials
                else
                  bindM GenerateRefreshToken (\<lambda>(refreshToken, refreshExpires).
                  bindM (loginDevice s (lp_DeviceID params)) (\<lambda>deviceID.
                  bindM nowM (\<lambda>t.
                  (let device = \<lparr>d_ID = deviceID, d_Nome = lp_DeviceName params, d_UsuarioID = u_ID user,
                                 d_RefreshToken = refreshToken, d_RefreshTokenExpiresAt = refreshExpires,
                                 d_UltimoIPVisto = lp_DeviceIP params, d_UltimoTimestampVisto = t\<rparr>
                   in bindM (internalM (UpsertDispositivo Ctx device)) (\<lambda>_.
                      bindM (internalM (GenerateAccessToken s (u_ID user) deviceID)) (\<lambda>(accessToken, expiresMS).
                        returnM \<lparr>ls_AccessToken = accessToken, ls_RefreshToken = refreshToken, ls_ExpireMS = expiresMS,
                                 ls_UserID = u_ID user, ls_DeviceID = deviceID\<rparr>))))))))) "

subsection \<open>Logout, Refresh, Register\<close>

text \<open>The storage returns a nil device for an unknown id or token; reading its fields panics.\<close>

definition Logout :: "string \<Rightarrow> string \<Rightarrow> unit op" where
  "Logout userID deviceID =
     bindM (GetDeviceByID deviceID) (\<lambda>r. case r of
         None \<Rightarrow> panicM
       | Some device \<Rightarrow>
           if d_UsuarioID device \<noteq> userID then failM ErrUnauthorized
           else bindM nowM (\<lambda>t. UpdateDevice Ctx (device\<lparr>d_RefreshTokenExpiresAt := t\<rparr>)))"

definition Refresh :: "auth_service \<Rightarrow> string \<Rightarrow> (string \<times> string \<times> int) op" where
  "Refresh s refreshToken =
     bindM (internalM (GetDispositivoByRefreshToken refreshToken)) (\<lambda>r.
     bindM nowM (\<lambda>t. case r of
         None \<Rightarrow> panicM
       | Some device \<Rightarrow>
           if d_RefreshTokenExpiresAt device < t then failM ErrUnauthorized
           else
             bindM GenerateRefreshToken (\<lambda>(newRefreshToken, refreshExpires).
             bindM nowM (\<lambda>seen.
             (let device = device\<lparr>d_RefreshToken := newRefreshToken, d_RefreshTokenExpiresAt := refreshExpires,
                                  d_UltimoTimestampVisto := seen\<rparr>
              in bindM (internalM (UpdateDevice Ctx device)) (\<lambda>_.
                 bindM (internalM (GenerateAccessToken s (d_UsuarioID device) (d_ID device))) (\<lambda>(accessToken, expiresMS).
                   returnM (accessToken, newRefreshToken, expiresMS)))))))) "

text \<open>\<open>time.Time{}\<close>: 1 January of the year 1.\<close>

definition zeroTime :: int where
  "zeroTime = - 62135596800000"

definition Register :: "auth_service \<Rightarrow> string \<Rightarrow> string \<Rightarrow> string op" where
  "Register s username senha =
     bindM randomM (\<lambda>salt.
     bindM (internalM (liftE (al_hash (as_lib s) salt senha))) (\<lambda>hashedPassword.
     (let userProps = \<lparr>u_ID = CHR ''@'' # username @ CHR '':'' # as_ServerName s, u_LocalPart = username,
                       u_SenhaHash = hashedPassword, u_DataCriacao = zeroTime\<rparr>
      in bindM (catchM (CreateUsuarioAndProfile Ctx userProps)) (\<lambda>r. case r of
           Inl e \<Rightarrow> if errors_is e ErrAlreadyInUse then failM ErrAlreadyInUse else failM (InternalError e)
         | Inr usuario \<Rightarrow> returnM (u_ID usuario)))))"

end
