(* ===== verification/Profile_Service.thy ===== *)
theory Profile_Service
  imports Room_Interaction Device_Storage
begin

text \<open>
  \<^verbatim>\<open>internal/usecase/profile_service.go\<close> with the client it asks other servers through
  (\<^verbatim>\<open>delivery/http_adapter/federation/client.go\<close>), \<^verbatim>\<open>account_service.go\<close>,
  \<^verbatim>\<open>usuario_service.go\<close> and \<^verbatim>\<open>presence_service.go\<close> with \<^verbatim>\<open>domain/presence.go\<close>.
\<close>

subsection \<open>Profiles\<close>

definition decodeProfile :: "raw \<Rightarrow> Profile decoded" where
  "decodeProfile body = (case struct_members body of
       Inl e \<Rightarrow> Inl e
     | Inr ms \<Rightarrow>
         (let (name, b1) = dec_string_ptr (field_vals ''displayname'' ms);
              (avatar, b2) = dec_string_ptr (field_vals ''avatar_url'' ms)
          in if b1 \<or> b2 then Inl type_error
             else Inr \<lparr>p_IDUsuario = '''', p_DisplayName = name, p_AvatarURL = avatar\<rparr>))"

definition QueryRemoteProfile :: "string \<Rightarrow> string \<Rightarrow> Profile op" where
  "QueryRemoteProfile remoteServerName userID =
     bindM (wrapM ''falha ao conectar no servidor remoto'' (http_do
       \<lparr>rq_method = ''GET'',
        rq_url = ''http://'' @ remoteServerName @ ''/_matrix/federation/v1/query/profile?user_id='' @ userID,
        rq_auth = '''', rq_body = None\<rparr>)) (\<lambda>resp.
       if rs_status resp \<noteq> 200 then failM (Errorf ''servidor remoto retornou erro'')
       else wrapM ''falha ao decodificar profile remoto'' (liftE (decodeProfile (rs_body resp))))"

definition GetProfileByUserID :: "server \<Rightarrow> string \<Rightarrow> Profile op" where
  "GetProfileByUserID sv userID =
     (if userID = '''' then failM ErrInvalidUserID
      else (case splitN2 CHR '':'' userID of
              [_, userDomain] \<Rightarrow>
                if userDomain = sv_serverName sv then
                  bindM (catchM (GetProfileByID Ctx userID)) (\<lambda>r. case r of
                      Inr (Some profile) \<Rightarrow> returnM profile
                    | _ \<Rightarrow> failM ErrNotFound)
                else
                  bindM (catchM (QueryRemoteProfile userDomain userID)) (\<lambda>r. case r of
                      Inl _ \<Rightarrow> failM ErrNotFound
                    | Inr profile \<Rightarrow> returnM profile)
            | _ \<Rightarrow> failM ErrInvalidUserID))"

definition string_ptr_json :: "string option \<Rightarrow> json" where
  "string_ptr_json p = (case p of None \<Rightarrow> JNull | Some s \<Rightarrow> JStr s)"

definition memberUpdate :: "string \<Rightarrow> Profile \<Rightarrow> string \<Rightarrow> StateParams" where
  "memberUpdate userID profile roomID =
     \<lparr>sta_RoomID = roomID, sta_UserID = userID, sta_EventType = ''m.room.member'', sta_StateKey = userID,
      sta_Content = JObj [(''membership'', JStr ''join''),
                          (''displayname'', string_ptr_json (p_DisplayName profile)),
                          (''avatar_url'', string_ptr_json (p_AvatarURL profile))]\<rparr>"

text \<open>The new profile is announced in every joined room; a room where that fails is skipped.\<close>

definition UpdateProfile :: "server \<Rightarrow> string \<Rightarrow> string option \<Rightarrow> string option \<Rightarrow> unit op" where
  "UpdateProfile sv userID displayName avatarURL =
     (if userID = '''' then failM ErrInvalidUserID
      else
        bindM (Storage_UpdateProfile Ctx \<lparr>p_IDUsuario = userID, p_DisplayName = displayName, p_AvatarURL = avatarURL\<rparr>) (\<lambda>_.
        bindM (GetProfileByUserID sv userID) (\<lambda>perfilCompleto.
        bindM (GetJoinedRooms userID) (\<lambda>salas.
          forM salas (\<lambda>roomID.
            bindM (catchM (SendStateEvent sv (memberUpdate userID perfilCompleto roomID))) (\<lambda>_. returnM ()))))))"

subsection \<open>Account data\<close>

definition PutUserAccountData :: "string \<Rightarrow> string \<Rightarrow> string \<Rightarrow> raw \<Rightarrow> unit op" where
  "PutUserAccountData userID roomID tipo content =
     (if userID = '''' then failM ErrInvalidUserID
      else if tipo = '''' then failM ErrInvalidParam
      else SaveAccountData Ctx \<lparr>a_IDUsuario = userID, a_IDCanal = roomID, a_Tipo = tipo, a_Content = content\<rparr>)"

definition GetUserAccountData :: "string \<Rightarrow> string \<Rightarrow> string \<Rightarrow> AccountData option op" where
  "GetUserAccountData userID roomID tipo =
     (if userID = '''' then failM ErrInvalidUserID
      else if tipo = '''' then failM ErrInvalidParam
      else GetAccountData Ctx userID roomID tipo)"

subsection \<open>Search\<close>

definition Usuario_SearchProfiles :: "(string \<Rightarrow> string \<Rightarrow> bool) \<Rightarrow> string \<Rightarrow> string \<Rightarrow> int \<Rightarrow> Profile list op" where
  "Usuario_SearchProfiles ilike userID term limit =
     (if term = '''' then failM ErrInvalidSearchTerm
      else bindM (wrapM ''Failed to verify user membership'' (GetUserJoinedRooms userID)) (\<lambda>allowedRooms.
        Storage_SearchProfiles ilike \<lparr>sf_IDCanais = allowedRooms, sf_Term = term, sf_Limit = limit, sf_NextToken = ''''\<rparr>))"

subsection \<open>Presence\<close>

definition PresenceOnline :: string where
  "PresenceOnline = ''online''"

definition PresenceOffline :: string where
  "PresenceOffline = ''offline''"

definition PresenceUnavailable :: string where
  "PresenceUnavailable = ''unavailable''"

definition isValidPresenceState :: "string \<Rightarrow> bool" where
  "isValidPresenceState s \<longleftrightarrow> s = PresenceOnline \<or> s = PresenceOffline \<or> s = PresenceUnavailable"

text \<open>Two users share a room when both have joined it.\<close>

definition sharesRoomWith :: "string \<Rightarrow> string \<Rightarrow> bool op" where
  "sharesRoomWith userA userB =
     bindM (GetUserJoinedRooms userA) (\<lambda>roomsA.
       if length roomsA = 0 then returnM False
       else bindM (GetUserJoinedRooms userB) (\<lambda>roomsB.
         returnM (\<exists>r\<in>set roomsA. r \<in> set roomsB)))"

definition GetStatus :: "string \<Rightarrow> string \<Rightarrow> Presence op" where
  "GetStatus requesterID targetUserID =
     bindM (if requesterID \<noteq> targetUserID then
              bindM (sharesRoomWith requesterID targetUserID) (\<lambda>shared.
                if shared then returnM () else failM ErrForbidden)
            else returnM ()) (\<lambda>_.
     bindM (Storage_GetPresence Ctx targetUserID) (\<lambda>presence.
       case presence of None \<Rightarrow> failM ErrNotFound | Some p \<Rightarrow> returnM p))"

definition SetStatus :: "string \<Rightarrow> string \<Rightarrow> string option \<Rightarrow> unit op" where
  "SetStatus userID state statusMsg =
     (if userID = '''' then failM ErrInvalidUserID
      else if \<not> isValidPresenceState state then failM ErrInvalidParam
      else bindM nowM (\<lambda>now. UpsertPresence Ctx
        \<lparr>pn_IDUsuario = userID, pn_State = state, pn_StatusMsg = statusMsg, pn_LastActiveAt = now\<rparr>))"

end
