(* ===== verification/Directory_Service.thy ===== *)
theory Directory_Service
  imports Usuario_Storage Federation_Queries Device_Storage
begin

text \<open>
  \<^verbatim>\<open>internal/infrastructure/postgres/directory_storage.go\<close> and \<^verbatim>\<open>internal/usecase/directory_service.go\<close>: aliases, the
  search of the room directory, the public room list and the user directory.
  \<open>ilike\<close> is PostgreSQL's \<open>ILIKE\<close>.
\<close>

subsection \<open>SearchDirectory\<close>

text \<open>The texts of the name and topic events of a room; a row without an event compares to \<open>NULL\<close>.\<close>

definition room_texts :: "string \<Rightarrow> db \<Rightarrow> string list" where
  "room_texts roomID d =
     concat (map (\<lambda>r. case sel_Evento (es_evento r) d of
         None \<Rightarrow> [] | Some e \<Rightarrow> (case ev_Content e of None \<Rightarrow> [] | Some v \<Rightarrow> [jsonb_out v]))
       (filter (\<lambda>r. es_tipo r = ''m.room.name'' \<or> es_tipo r = ''m.room.topic'') (sel_Estado roomID d)))"

definition matched_rooms :: "(string \<Rightarrow> string \<Rightarrow> bool) \<Rightarrow> string \<Rightarrow> db \<Rightarrow> string list" where
  "matched_rooms ilike pat d =
     map cn_id (filter (\<lambda>c. list_ex (\<lambda>t. ilike t pat) (room_texts (cn_id c) d)) (t_Canal d))"

text \<open>
  \<open>LEFT JOIN Canal_Estado_Atual ... AND tipo = t LEFT JOIN Evento\<close>: one row per state key of the type,
  and one of \<open>NULL\<close>s when there is none.
\<close>

definition state_rows :: "string \<Rightarrow> string \<Rightarrow> db \<Rightarrow> evento option list" where
  "state_rows roomID t d =
     (case filter (\<lambda>r. es_tipo r = t) (sel_Estado roomID d) of
        [] \<Rightarrow> [None]
      | rs \<Rightarrow> map (\<lambda>r. sel_Evento (es_evento r) d) rs)"

definition opt_text :: "evento option \<Rightarrow> string \<Rightarrow> string option" where
  "opt_text e k = Option.bind e (\<lambda>ev. content_text ev k)"

definition room_entries :: "db \<Rightarrow> string \<Rightarrow> PublicRoomEntry list" where
  "room_entries d roomID =
     (let num = int (length (filter (\<lambda>m. mb_canal m = roomID \<and> mb_type m = ''join'') (t_Membership d)))
      in [\<lparr>pe_RoomID = roomID, pe_Name = opt_text nm ''name'', pe_Topic = opt_text tp ''topic'',
           pe_AvatarURL = opt_text av ''url'', pe_CanonicalAlias = opt_text ca ''alias'',
           pe_NumJoinedMembers = num, pe_WorldReadable = (opt_text hv ''history_visibility'' = Some ''world_readable''),
           pe_GuestCanJoin = (opt_text ga ''guest_access'' = Some ''can_join''), pe_JoinRule = opt_text jr ''join_rule''\<rparr>.
          nm \<leftarrow> state_rows roomID ''m.room.name'' d, tp \<leftarrow> state_rows roomID ''m.room.topic'' d,
          av \<leftarrow> state_rows roomID ''m.room.avatar'' d, ca \<leftarrow> state_rows roomID ''m.room.canonical_alias'' d,
          jr \<leftarrow> state_rows roomID ''m.room.join_rules'' d, hv \<leftarrow> state_rows roomID ''m.room.history_visibility'' d,
          ga \<leftarrow> state_rows roomID ''m.room.guest_access'' d])"

definition SearchDirectory :: "(string \<Rightarrow> string \<Rightarrow> bool) \<Rightarrow> string \<Rightarrow> int \<Rightarrow> int \<Rightarrow> (PublicRoomEntry list \<times> int) op" where
  "SearchDirectory ilike term limit offset =
     (let pat = pattern_of term
      in bindM (wrapM ''failed to get total count'' (db_query Ctx (\<lambda>d. int (length (matched_rooms ilike pat d))))) (\<lambda>total.
           if total = 0 then returnM ([], 0)
           else bindM (wrapM ''failed to search directory'' (getTxOrPool Ctx (\<lambda>d s.
                  (case limit_offset limit offset (matched_rooms ilike pat d) of
                     Inl e \<Rightarrow> Inl e
                   | Inr rooms \<Rightarrow> Inr (concat (map (room_entries d) rooms), d), s)))) (\<lambda>entries.
                returnM (entries, total))))"

subsection \<open>Aliases\<close>

definition GetRoomIDByAlias :: "string \<Rightarrow> string op" where
  "GetRoomIDByAlias alias =
     bindM (wrapM ''failed to get room by alias'' (db_query Ctx (\<lambda>d. find (\<lambda>r. al_alias r = alias) (t_Alias d)))) (\<lambda>row.
       case row of None \<Rightarrow> failM ErrNotFound | Some r \<Rightarrow> returnM (al_canal r))"

definition Storage_DeleteAlias :: "ctx \<Rightarrow> string \<Rightarrow> unit op" where
  "Storage_DeleteAlias c alias =
     bindM (wrapM ''failed to delete alias'' (db_returning c (delete_Alias alias))) (\<lambda>deleted.
       if deleted then returnM () else failM ErrNotFound)"

subsection \<open>The service\<close>

definition parseAliasDomain :: "string \<Rightarrow> string \<times> bool" where
  "parseAliasDomain alias =
     (if \<not> has_prefix alias ''#'' then ('''', False)
      else (case splitN2 CHR '':'' (drop 1 alias) of
              [a, b] \<Rightarrow> if a = '''' \<or> b = '''' then ('''', False) else (b, True)
            | _ \<Rightarrow> ('''', False)))"

definition resolveLocal :: "server \<Rightarrow> string \<Rightarrow> (string \<times> string list) op" where
  "resolveLocal sv alias =
     bindM (GetRoomIDByAlias alias) (\<lambda>roomID.
     bindM (catchM (GetCanalParticipatingServers roomID)) (\<lambda>r.
       (let servers = (case r of Inl _ \<Rightarrow> [] | Inr s \<Rightarrow> s);
            servers = (if sv_serverName sv \<in> set servers then servers else sv_serverName sv # servers)
        in returnM (roomID, servers))))"

definition ResolveAlias :: "server \<Rightarrow> string \<Rightarrow> (string \<times> string list) op" where
  "ResolveAlias sv alias =
     (case parseAliasDomain alias of (domain, ok) \<Rightarrow>
        if \<not> ok then failM ErrInvalidParam
        else if domain \<noteq> sv_serverName sv then QueryDirectory sv domain alias
        else resolveLocal sv alias)"

definition ResolveLocalAlias :: "server \<Rightarrow> string \<Rightarrow> (string \<times> string list) op" where
  "ResolveLocalAlias sv alias =
     (case parseAliasDomain alias of (domain, ok) \<Rightarrow>
        if \<not> ok \<or> domain \<noteq> sv_serverName sv then failM ErrNotFound else resolveLocal sv alias)"

definition CreateAlias :: "server \<Rightarrow> string \<Rightarrow> string \<Rightarrow> unit op" where
  "CreateAlias sv alias roomID =
     (case parseAliasDomain alias of (domain, ok) \<Rightarrow>
        if \<not> ok \<or> domain \<noteq> sv_serverName sv then failM ErrInvalidParam
        else bindM (catchM (GetRoomIDByAlias alias)) (\<lambda>r. case r of
            Inr existing \<Rightarrow> if existing = roomID then returnM () else failM ErrAlreadyInUse
          | Inl e \<Rightarrow> if \<not> errors_is e ErrNotFound then failM e else SaveAlias Ctx roomID alias))"

definition DeleteAlias :: "server \<Rightarrow> string \<Rightarrow> unit op" where
  "DeleteAlias sv alias =
     (case parseAliasDomain alias of (domain, ok) \<Rightarrow>
        if \<not> ok \<or> domain \<noteq> sv_serverName sv then failM ErrInvalidParam else Storage_DeleteAlias Ctx alias)"

definition directoryPage :: "PublicRoomEntry list \<Rightarrow> int \<Rightarrow> int \<Rightarrow> int \<Rightarrow> PublicRoomsChunck" where
  "directoryPage entries totalCount limit offset =
     (let hasMore = int (length entries) > limit
      in \<lparr>pc_Chunk = (if hasMore then take (nat limit) entries else entries),
          pc_NextBatch = (if hasMore then string_of_int (wrap64 (offset + limit)) else ''''),
          pc_PrevBatch = (if offset > 0 then string_of_int (max (wrap64 (offset - limit)) 0) else ''''),
          pc_TotalRoomCountEstimate = totalCount\<rparr>)"

definition ListPublic :: "(string \<Rightarrow> string \<Rightarrow> bool) \<Rightarrow> server \<Rightarrow> string \<Rightarrow> string \<Rightarrow> int \<Rightarrow> int \<Rightarrow> PublicRoomsChunck op" where
  "ListPublic ilike sv server_name term limit offset =
     (let limit = (if limit \<le> 0 \<or> limit > 100 then 50 else limit)
      in if server_name \<noteq> '''' \<and> server_name \<noteq> sv_serverName sv then QueryPublicRooms sv server_name term limit offset
         else bindM (SearchDirectory ilike term (limit + 1) offset) (\<lambda>(entries, totalCount).
           returnM (directoryPage entries totalCount limit offset)))"

text \<open>One more than asked for, so that the caller sees whether there are more.\<close>

definition SearchProfiles :: "(string \<Rightarrow> string \<Rightarrow> bool) \<Rightarrow> string \<Rightarrow> string \<Rightarrow> int \<Rightarrow> Profile list op" where
  "SearchProfiles ilike userID query limit =
     (if query = '''' then failM ErrInvalidSearchTerm
      else bindM (wrapM ''Failed to verify user membership'' (GetUserJoinedRooms userID)) (\<lambda>allowedRooms.
        Storage_SearchProfiles ilike
          \<lparr>sf_IDCanais = allowedRooms, sf_Term = query, sf_Limit = wrap64 (limit + 1), sf_NextToken = ''''\<rparr>))"

end
