(* ===== verification/Media_Service.thy ===== *)
theory Media_Service
  imports Device_Storage
begin

text \<open>
  \<^verbatim>\<open>internal/usecase/media_service.go\<close> over the object store of
  \<^verbatim>\<open>internal/infrastructure/minio/minio_storage.go\<close>. The store keeps whole objects by id; a call to it fails
  like a call to the database. The fetcher of remote media is the argument \<open>ms_remoteFetcher\<close>, \<open>None\<close>
  when there is none. A body to upload is its bytes and the error, if any, that reading past them gives.
\<close>

subsection \<open>Object store\<close>

definition Minio_Upload :: "string \<Rightarrow> string \<Rightarrow> string \<Rightarrow> unit op" where
  "Minio_Upload mediaID content contentType =
     wrapM ''failed to upload the object'' (redis_call (\<lambda>w.
       ((), w\<lparr>w_objects := AList.update mediaID (contentType, content) (w_objects w)\<rparr>)))"

text \<open>A missing object is noticed when the reader is read: \<open>None\<close>.\<close>

definition Minio_Download :: "string \<Rightarrow> string option op" where
  "Minio_Download mediaID =
     wrapM ''failed to get object'' (redis_call (\<lambda>w. (map_option snd (map_of (w_objects w) mediaID), w)))"

definition Minio_Delete :: "string \<Rightarrow> unit op" where
  "Minio_Delete mediaID =
     wrapM ''failed to delete object'' (redis_call (\<lambda>w. ((), w\<lparr>w_objects := AList.delete mediaID (w_objects w)\<rparr>)))"

subsection \<open>Upload\<close>

definition DefaultMaxUploadBytes :: int where
  "DefaultMaxUploadBytes = 50 * 1024 * 1024"

record DownloadResult =
  dr_Content :: "string option"
  dr_ContentType :: string
  dr_Filename :: string

record media_service =
  ms_serverName :: string
  ms_maxSizeBytes :: int
  ms_remoteFetcher :: "(string \<Rightarrow> string \<Rightarrow> DownloadResult op) option"

definition NewMediaService :: "string \<Rightarrow> int \<Rightarrow> (string \<Rightarrow> string \<Rightarrow> DownloadResult op) option \<Rightarrow> media_service" where
  "NewMediaService serverName maxSizeBytes remoteFetcher =
     \<lparr>ms_serverName = serverName,
      ms_maxSizeBytes = (if maxSizeBytes \<le> 0 then DefaultMaxUploadBytes else maxSizeBytes),
      ms_remoteFetcher = remoteFetcher\<rparr>"

record UploadParams =
  up_Content :: string
  up_ReadError :: "go_error option"
  up_ContentType :: string
  up_UploadName :: string
  up_UploaderID :: string
  up_Size :: int

definition hex_bytes :: "string \<Rightarrow> string" where
  "hex_bytes bs = concat (map (\<lambda>c. [hex_char (of_char c div 16), hex_char (of_char c)]) bs)"

definition generateMediaID :: "string op" where
  "generateMediaID = bindM randomM (\<lambda>bytes. returnM (hex_bytes bytes))"

text \<open>\<open>io.ReadAll(io.LimitReader(r, n))\<close>: what lies behind the limit is not read.\<close>

definition ReadAll_limited :: "string \<Rightarrow> go_error option \<Rightarrow> nat \<Rightarrow> go_error + string" where
  "ReadAll_limited bytes err n =
     (if n \<le> length bytes then Inr (take n bytes)
      else case err of None \<Rightarrow> Inr bytes | Some e \<Rightarrow> Inl e)"

definition Upload :: "media_service \<Rightarrow> UploadParams \<Rightarrow> string op" where
  "Upload s params =
     (if up_Size params > 0 \<and> up_Size params > ms_maxSizeBytes s then failM ErrMediaTooLarge
      else
        (let contentType = (if up_ContentType params = '''' then ''application/octet-stream'' else up_ContentType params)
         in bindM (wrapM ''failed to read file content''
              (liftE (ReadAll_limited (up_Content params) (up_ReadError params) (nat (ms_maxSizeBytes s + 1))))) (\<lambda>buf.
            if int (length buf) > ms_maxSizeBytes s then failM ErrMediaTooLarge
            else
              bindM generateMediaID (\<lambda>mediaID.
              bindM (wrapM ''failure to store file in object storage'' (Minio_Upload mediaID buf contentType)) (\<lambda>_.
              bindM nowM (\<lambda>t.
              bindM (catchM (SaveMidia \<lparr>m_IDMidia = mediaID, m_Origin = ms_serverName s, m_ContentType = contentType,
                                       m_SizeBytes = int (length buf), m_UploadName = up_UploadName params,
                                       m_IDUsuario = up_UploaderID params, m_CreatedAt = t\<rparr>)) (\<lambda>r. case r of
                  Inl e \<Rightarrow> bindM (catchM (Minio_Delete mediaID)) (\<lambda>_. failM (Wrapf ''failure to save media metadata'' e))
                | Inr _ \<Rightarrow> returnM (''mxc://'' @ ms_serverName s @ CHR ''/'' # mediaID))))))))"

subsection \<open>Download\<close>

definition downloadLocal :: "media_service \<Rightarrow> string \<Rightarrow> DownloadResult op" where
  "downloadLocal s mediaID =
     bindM (wrapM ''failed to fetch media metadata'' (GetMidiaByID (ms_serverName s) mediaID)) (\<lambda>midia. case midia of
         None \<Rightarrow> failM ErrMediaNotFound
       | Some m \<Rightarrow>
           bindM (wrapM ''failed to download file from object storage'' (Minio_Download mediaID)) (\<lambda>content.
             returnM \<lparr>dr_Content = content, dr_ContentType = m_ContentType m, dr_Filename = m_UploadName m\<rparr>))"

definition downloadRemote :: "media_service \<Rightarrow> string \<Rightarrow> string \<Rightarrow> DownloadResult op" where
  "downloadRemote s server_name mediaID =
     (case ms_remoteFetcher s of
        None \<Rightarrow> failM ErrMediaNotFound
      | Some fetch \<Rightarrow> wrapM ''failed to fetch remote media'' (fetch server_name mediaID))"

definition Download :: "media_service \<Rightarrow> string \<Rightarrow> string \<Rightarrow> DownloadResult op" where
  "Download s server_name mediaID =
     (if server_name = ms_serverName s then downloadLocal s mediaID else downloadRemote s server_name mediaID)"

definition Thumbnail :: "media_service \<Rightarrow> string \<Rightarrow> string \<Rightarrow> DownloadResult op" where
  "Thumbnail s server_name mediaID = Download s server_name mediaID"

definition DownloadLocal :: "media_service \<Rightarrow> string \<Rightarrow> DownloadResult op" where
  "DownloadLocal s mediaID = downloadLocal s mediaID"

end
