(* ===== verification/Device_Laws.thy ===== *)
theory Device_Laws
  imports Service_Laws Backup_Service ToDevice_Service Sync_Service Auth_Service Profile_Service
    Directory_Service Media_Service
begin

text \<open>
  The laws of \<open>Storage_Laws\<close> for the services on devices, keys, backups, messages, presence, accounts,
  profiles, aliases, media and sync: each is silent, or works in a unit of work, or is a service call.
\<close>

subsection \<open>Statements\<close>

lemma silent_query_uuid [silent_intros, silent_ops]: "keeps silent_rel (db_query_uuid Ctx dev q)"
  unfolding db_query_uuid_def db_returning_def by (rule silent_pool) (auto split: option.splits)

lemma call_dev: "(\<And>d d' s. f d = Inr d' \<Longrightarrow> dev_step (d, s) (d', s)) \<Longrightarrow> keeps call_rel (db_exec Ctx f)"
  by (rule call_exec) (rule sql_device)

lemma body_dev: "(\<And>d d' s. f d = Inr d' \<Longrightarrow> dev_step (d, s) (d', s)) \<Longrightarrow> keeps body_rel (db_exec TxCtx f)"
  by (rule body_exec) (rule sql_device)

lemma call_returning:
  "(\<And>d a d' s. f d = Inr (a, d') \<Longrightarrow> sql_step (d, s) (d', s)) \<Longrightarrow> keeps call_rel (db_returning Ctx f)"
  unfolding db_returning_def by (rule call_stmt) auto

lemma body_returning:
  "(\<And>d a d' s. f d = Inr (a, d') \<Longrightarrow> sql_step (d, s) (d', s)) \<Longrightarrow> keeps body_rel (db_returning TxCtx f)"
  unfolding db_returning_def by (rule body_stmt) auto

lemma body_query_uuid [body_intros]: "keeps body_rel (db_query_uuid TxCtx dev q)"
  unfolding db_query_uuid_def db_returning_def by (rule body_stmt) (auto split: option.splits)

lemma call_insert:
  assumes "\<And>d d' s. f (nextval s) d = Inr d' \<Longrightarrow> dev_step (d, s) (d', draw s)" and "\<And>s. seqs_le s (draw s)"
  shows "keeps call_rel (db_insert Ctx draw nextval f)"
  unfolding db_insert_def using assms
  by (intro call_stmt) (auto split: sum.splits intro!: r_into_rtranclp [of sql_step] sql_device)

lemma body_insert:
  assumes "\<And>d d' s. f (nextval s) d = Inr d' \<Longrightarrow> dev_step (d, s) (d', draw s)" and "\<And>s. seqs_le s (draw s)"
  shows "keeps body_rel (db_insert TxCtx draw nextval f)"
  unfolding db_insert_def using assms
  by (intro body_stmt) (auto split: sum.splits intro!: r_into_rtranclp [of sql_step] sql_device)

lemmas dev_intros = dev_step.intros

lemma silent_panic [silent_intros, silent_ops]: "keeps silent_rel panicM"
  by (simp add: keeps_def run_simps silent_rel_def)

subsection \<open>Devices, presence, media, messages\<close>

lemma silent_GetDeviceByID [silent_intros, silent_ops]: "keeps silent_rel (GetDeviceByID i)"
  unfolding GetDeviceByID_def by (intro silent_intros)

lemma silent_GetDispositivoByRefreshToken [silent_intros, silent_ops]: "keeps silent_rel (GetDispositivoByRefreshToken t)"
  unfolding GetDispositivoByRefreshToken_def by (intro silent_intros)

lemma call_UpsertDispositivo [call_intros]: "keeps call_rel (UpsertDispositivo Ctx v)"
  unfolding UpsertDispositivo_def by (intro call_intros call_dev dev_intros)

lemma call_UpdateDevice [call_intros]: "keeps call_rel (UpdateDevice Ctx v)"
  unfolding UpdateDevice_def by (intro call_intros call_dev) (rule dev_update)

lemma call_UpsertPresence [call_intros]: "keeps call_rel (UpsertPresence Ctx p)"
  unfolding UpsertPresence_def by (intro call_intros call_dev) (rule dev_presence)

lemma silent_Storage_GetPresence [silent_intros, silent_ops]: "keeps silent_rel (Storage_GetPresence Ctx u)"
  unfolding Storage_GetPresence_def by (intro silent_intros)

lemma call_SaveMidia [call_intros]: "keeps call_rel (SaveMidia m)"
  unfolding SaveMidia_def by (intro call_intros call_dev) (rule dev_midia)

lemma silent_GetMidiaByID [silent_intros, silent_ops]: "keeps silent_rel (GetMidiaByID orig i)"
  unfolding GetMidiaByID_def by (intro silent_intros)

lemma call_InsertToDeviceMessages [call_intros]: "keeps call_rel (InsertToDeviceMessages Ctx ms)"
  unfolding InsertToDeviceMessages_def by (intro call_intros call_insert) (auto intro: dev_todevice)

lemma silent_GetToDeviceMessagesSince [silent_intros, silent_ops]: "keeps silent_rel (GetToDeviceMessagesSince Ctx u v n l)"
  unfolding GetToDeviceMessagesSince_def by (intro silent_intros)

lemma call_DeleteToDeviceMessagesUpTo [call_intros]: "keeps call_rel (DeleteToDeviceMessagesUpTo Ctx u v n)"
  unfolding DeleteToDeviceMessagesUpTo_def by (intro call_intros call_dev) (rule dev_delete_todevice)

subsection \<open>Keys\<close>

lemma body_UpsertDeviceKeys [body_intros]: "keeps body_rel (UpsertDeviceKeys TxCtx k)"
  unfolding UpsertDeviceKeys_def by (intro body_intros body_dev) (rule dev_keys)

lemma silent_GetDeviceKeys [silent_intros, silent_ops]: "keeps silent_rel (GetDeviceKeys Ctx u is)"
  unfolding GetDeviceKeys_def by (intro silent_intros)

lemma body_UpsertOneTimeKeys [body_intros]: "keeps body_rel (UpsertOneTimeKeys TxCtx i ks)"
  unfolding UpsertOneTimeKeys_def by (intro body_intros body_insert) (auto intro: dev_otk)

lemma call_ClaimOneTimeKey [call_intros]: "keeps call_rel (ClaimOneTimeKey Ctx i a)"
  unfolding ClaimOneTimeKey_def by (intro call_intros call_returning sql_device) (rule dev_claim)

lemma silent_CountOneTimeKeys [silent_intros, silent_ops]: "keeps silent_rel (CountOneTimeKeys Ctx i)"
  unfolding CountOneTimeKeys_def by (intro silent_intros)

lemma body_CountOneTimeKeys [body_intros]: "keeps body_rel (CountOneTimeKeys TxCtx i)"
  unfolding CountOneTimeKeys_def by (intro body_intros)

lemma body_UpsertFallbackKey [body_intros]: "keeps body_rel (UpsertFallbackKey TxCtx k)"
  unfolding UpsertFallbackKey_def by (intro body_intros body_dev) (rule dev_fallback)

lemma call_ClaimFallbackKey [call_intros]: "keeps call_rel (ClaimFallbackKey Ctx i a)"
  unfolding ClaimFallbackKey_def by (intro call_intros call_returning sql_device) (rule dev_claim_fallback)

lemma call_UpsertCrossSigningKey [call_intros]: "keeps call_rel (UpsertCrossSigningKey Ctx k)"
  unfolding UpsertCrossSigningKey_def by (intro call_intros call_dev) (rule dev_cross)

lemma silent_GetCrossSigningKeys [silent_intros, silent_ops]: "keeps silent_rel (GetCrossSigningKeys Ctx u)"
  unfolding GetCrossSigningKeys_def by (intro silent_intros)

lemma call_MergeDeviceSignatures [call_intros]: "keeps call_rel (MergeDeviceSignatures Ctx u i s)"
  unfolding MergeDeviceSignatures_def by (intro call_intros silent_call silent_query call_dev) (rule dev_signatures)

lemma call_MergeCrossSigningSignatures [call_intros]: "keeps call_rel (MergeCrossSigningSignatures Ctx u i s)"
  unfolding MergeCrossSigningSignatures_def by (intro call_intros silent_call silent_query call_dev) (rule dev_cross_signatures)

subsection \<open>Backups and aliases\<close>

lemma call_Storage_CreateBackupVersion [call_intros]: "keeps call_rel (Storage_CreateBackupVersion b)"
  unfolding Storage_CreateBackupVersion_def
  by (intro call_intros silent_call silent_now call_insert) (auto intro: dev_versao)

lemma silent_Storage_GetLatestBackupVersion [silent_intros, silent_ops]: "keeps silent_rel (Storage_GetLatestBackupVersion u)"
  unfolding Storage_GetLatestBackupVersion_def by (intro silent_intros)

lemma silent_GetBackupVersionByID [silent_intros, silent_ops]: "keeps silent_rel (GetBackupVersionByID Ctx u v)"
  unfolding GetBackupVersionByID_def by (intro silent_intros)

lemma silent_Storage_GetRoomKeys [silent_intros, silent_ops]: "keeps silent_rel (Storage_GetRoomKeys Ctx v)"
  unfolding Storage_GetRoomKeys_def by (intro silent_intros)

lemma body_scan_row [body_intros]: "keeps body_rel (scan_row r)"
  unfolding scan_row_def by (intro body_intros)

lemma body_Storage_PutRoomKeys [body_intros]: "keeps body_rel (Storage_PutRoomKeys TxCtx v ks)"
  unfolding Storage_PutRoomKeys_def
  by (intro body_intros body_dev body_returning sql_device) (rule dev_chave, assumption, rule dev_count)

lemma body_Storage_DeleteRoomKeys [body_intros]: "keeps body_rel (Storage_DeleteRoomKeys TxCtx v)"
  unfolding Storage_DeleteRoomKeys_def
  by (intro body_intros body_dev body_returning sql_device) (rule dev_delete_chaves, assumption, rule dev_count)

lemma silent_GetRoomIDByAlias [silent_intros, silent_ops]: "keeps silent_rel (GetRoomIDByAlias a)"
  unfolding GetRoomIDByAlias_def by (intro silent_intros)

lemma call_Storage_DeleteAlias [call_intros]: "keeps call_rel (Storage_DeleteAlias Ctx a)"
  unfolding Storage_DeleteAlias_def by (intro call_intros call_returning) (rule sql_DeleteAlias)

lemma silent_SearchDirectory [silent_intros, silent_ops]: "keeps silent_rel (SearchDirectory il t l off)"
  unfolding SearchDirectory_def Let_def
  by (intro silent_intros silent_pool) (auto split: sum.splits)

lemma silent_Storage_SearchProfiles [silent_intros, silent_ops]: "keeps silent_rel (Storage_SearchProfiles il f)"
  unfolding Storage_SearchProfiles_def Let_def by (intro silent_intros silent_pool) (auto split: sum.splits)

subsection \<open>Questions to other servers, the object store\<close>

lemma silent_QueryDirectory [silent_intros, silent_ops]: "keeps silent_rel (QueryDirectory sv s a)"
  unfolding QueryDirectory_def by (intro silent_intros)

lemma silent_QueryPublicRooms [silent_intros, silent_ops]: "keeps silent_rel (QueryPublicRooms sv s t l off)"
  unfolding QueryPublicRooms_def by (intro silent_intros)

lemma silent_QueryKeysCall [silent_intros, silent_ops]: "keeps silent_rel (QueryKeysCall sv s ks)"
  unfolding QueryKeysCall_def by (intro silent_intros)

lemma silent_ClaimKeysCall [silent_intros, silent_ops]: "keeps silent_rel (ClaimKeysCall sv s ks)"
  unfolding ClaimKeysCall_def by (intro silent_intros)

lemma silent_QueryRemoteProfile [silent_intros, silent_ops]: "keeps silent_rel (QueryRemoteProfile s u)"
  unfolding QueryRemoteProfile_def by (intro silent_intros)

lemma silent_Minio_Upload [silent_intros, silent_ops]: "keeps silent_rel (Minio_Upload i b c)"
  unfolding Minio_Upload_def by (intro silent_intros silent_redis) (simp add: silent_rel_def tables_def)

lemma silent_Minio_Download [silent_intros, silent_ops]: "keeps silent_rel (Minio_Download i)"
  unfolding Minio_Download_def by (intro silent_intros silent_redis) (simp add: silent_rel_def tables_def)

lemma silent_Minio_Delete [silent_intros, silent_ops]: "keeps silent_rel (Minio_Delete i)"
  unfolding Minio_Delete_def by (intro silent_intros silent_redis) (simp add: silent_rel_def tables_def)

subsection \<open>Silent services\<close>

lemma silent_GetLatestBackupVersion [silent_intros, silent_ops]: "keeps silent_rel (GetLatestBackupVersion u)"
  unfolding GetLatestBackupVersion_def by (intro silent_intros)

lemma silent_GetRoomKeys [silent_intros, silent_ops]: "keeps silent_rel (GetRoomKeys u v)"
  unfolding GetRoomKeys_def by (intro silent_intros)

lemma silent_queryLocal [silent_intros, silent_ops]: "keeps silent_rel (queryLocal r u is q)"
  unfolding queryLocal_def by (intro silent_intros)

lemma silent_queryStep [silent_intros, silent_ops]: "keeps silent_rel (queryStep sv r p s)"
  unfolding queryStep_def by (intro silent_intros)

lemma silent_queryRemote [silent_intros, silent_ops]: "keeps silent_rel (queryRemote sv p q)"
  unfolding queryRemote_def by (intro silent_intros)

lemma silent_QueryKeys [silent_intros, silent_ops]: "keeps silent_rel (QueryKeys sv r q)"
  unfolding QueryKeys_def by (intro silent_intros)

lemma silent_claimRemote [silent_intros, silent_ops]: "keeps silent_rel (claimRemote sv p q)"
  unfolding claimRemote_def by (intro silent_intros)

lemma silent_expandDevice [silent_intros, silent_ops]: "keeps silent_rel (expandDevice p u d pend)"
  unfolding expandDevice_def by (intro silent_intros)

lemma silent_sendStep [silent_intros, silent_ops]: "keeps silent_rel (sendStep sv p u s)"
  unfolding sendStep_def by (intro silent_intros)

lemma silent_sharesRoomWith [silent_intros, silent_ops]: "keeps silent_rel (sharesRoomWith a b)"
  unfolding sharesRoomWith_def by (intro silent_intros)

lemma silent_GetStatus [silent_intros, silent_ops]: "keeps silent_rel (GetStatus a b)"
  unfolding GetStatus_def by (intro silent_intros)

lemma silent_GetProfileByUserID [silent_intros, silent_ops]: "keeps silent_rel (GetProfileByUserID sv u)"
  unfolding GetProfileByUserID_def by (intro silent_intros)

lemma silent_GetUserAccountData [silent_intros, silent_ops]: "keeps silent_rel (GetUserAccountData u r t)"
  unfolding GetUserAccountData_def by (intro silent_intros)

lemma silent_Usuario_SearchProfiles [silent_intros, silent_ops]: "keeps silent_rel (Usuario_SearchProfiles il u t l)"
  unfolding Usuario_SearchProfiles_def by (intro silent_intros)

lemma silent_SearchProfiles [silent_intros, silent_ops]: "keeps silent_rel (SearchProfiles il u t l)"
  unfolding SearchProfiles_def by (intro silent_intros)

lemma silent_resolveLocal [silent_intros, silent_ops]: "keeps silent_rel (resolveLocal sv a)"
  unfolding resolveLocal_def by (intro silent_intros)

lemma silent_ResolveAlias [silent_intros, silent_ops]: "keeps silent_rel (ResolveAlias sv a)"
  unfolding ResolveAlias_def by (intro silent_intros)

lemma silent_ResolveLocalAlias [silent_intros, silent_ops]: "keeps silent_rel (ResolveLocalAlias sv a)"
  unfolding ResolveLocalAlias_def by (intro silent_intros)

lemma silent_ListPublic [silent_intros, silent_ops]: "keeps silent_rel (ListPublic il sv n t l off)"
  unfolding ListPublic_def Let_def by (intro silent_intros)

lemma silent_downloadLocal [silent_intros, silent_ops]: "keeps silent_rel (downloadLocal s i)"
  unfolding downloadLocal_def by (intro silent_intros)

lemma silent_GenerateRefreshToken [silent_intros, silent_ops]: "keeps silent_rel GenerateRefreshToken"
  unfolding GenerateRefreshToken_def by (intro silent_intros)

lemma silent_GenerateAccessToken [silent_intros, silent_ops]: "keeps silent_rel (GenerateAccessToken s u v)"
  unfolding GenerateAccessToken_def Let_def by (intro silent_intros)

lemma silent_loginDevice [silent_intros, silent_ops]: "keeps silent_rel (loginDevice s v)"
  unfolding loginDevice_def by (intro silent_intros)

lemma silent_generateNextSinceToken [silent_intros, silent_ops]: "keeps silent_rel (generateNextSinceToken u t)"
  unfolding generateNextSinceToken_def by (intro silent_intros)

lemma silent_syncState [silent_intros, silent_ops]: "keeps silent_rel (syncState r b es)"
  unfolding syncState_def by (intro silent_intros)

lemma silent_invitePreview [silent_intros, silent_ops]: "keeps silent_rel (invitePreview r)"
  unfolding invitePreview_def by (intro silent_intros)

lemma silent_inviteStep [silent_intros, silent_ops]: "keeps silent_rel (inviteStep e m)"
  unfolding inviteStep_def by (intro silent_intros)

lemma silent_GetInviteRooms [silent_intros, silent_ops]: "keeps silent_rel (GetInviteRooms u t)"
  unfolding GetInviteRooms_def by (intro silent_intros)

lemma silent_joinedRoom [silent_intros, silent_ops]: "keeps silent_rel (joinedRoom u t r)"
  unfolding joinedRoom_def Let_def by (intro silent_intros)

lemma silent_joinedStep [silent_intros, silent_ops]: "keeps silent_rel (joinedStep u t r m)"
  unfolding joinedStep_def by (intro silent_intros)

lemma silent_Sync_GetJoinedRooms [silent_intros, silent_ops]: "keeps silent_rel (Sync_GetJoinedRooms u t)"
  unfolding Sync_GetJoinedRooms_def by (intro silent_intros)

lemma silent_leftRoom [silent_intros, silent_ops]: "keeps silent_rel (leftRoom u t r)"
  unfolding leftRoom_def Let_def by (intro silent_intros)

lemma silent_leftStep [silent_intros, silent_ops]: "keeps silent_rel (leftStep u t r m)"
  unfolding leftStep_def by (intro silent_intros)

lemma silent_GetLeaveRooms [silent_intros, silent_ops]: "keeps silent_rel (GetLeaveRooms u t)"
  unfolding GetLeaveRooms_def by (intro silent_intros)

lemma silent_finishSync [silent_intros, silent_ops]: "keeps silent_rel (finishSync u t r)"
  unfolding finishSync_def by (intro silent_intros)

lemma silent_generateMediaID [silent_intros, silent_ops]: "keeps silent_rel generateMediaID"
  unfolding generateMediaID_def by (intro silent_intros)

lemmas body_device_reads [body_intros] = silent_ops [THEN silent_body]
lemmas call_device_reads [call_intros] = silent_ops [THEN silent_call]

subsection \<open>Service calls\<close>

lemma body_uploadBody [body_intros]: "keeps body_rel (uploadBody p TxCtx)"
  unfolding uploadBody_def by (intro body_intros)

lemma call_UploadKeys [call_intros]: "keeps call_rel (UploadKeys p)"
  unfolding UploadKeys_def by (intro call_intros body_intros)

lemma call_claimLocal [call_intros]: "keeps call_rel (claimLocal u p r)"
  unfolding claimLocal_def by (intro call_intros)

lemma call_claimStep [call_intros]: "keeps call_rel (claimStep sv p s)"
  unfolding claimStep_def by (intro call_intros)

lemma call_ClaimKeys [call_intros]: "keeps call_rel (ClaimKeys sv q)"
  unfolding ClaimKeys_def by (intro call_intros)

lemma call_uploadCrossKey [call_intros]: "keeps call_rel (uploadCrossKey u e)"
  unfolding uploadCrossKey_def by (intro call_intros)

lemma call_UploadCrossSigningKeys [call_intros]: "keeps call_rel (UploadCrossSigningKeys p)"
  unfolding UploadCrossSigningKeys_def by (rule call.keeps_forM) (rule call_uploadCrossKey)

lemma call_uploadSignature [call_intros]: "keeps call_rel (uploadSignature u p f)"
  unfolding uploadSignature_def
  by (intro call_intros) (auto split: sum.split bool.split intro!: call_intros)

lemma call_signUser [call_intros]: "keeps call_rel (signUser sv p f)"
  unfolding signUser_def by (intro call_intros)

lemma call_UploadSignatures [call_intros]: "keeps call_rel (UploadSignatures sv q)"
  unfolding UploadSignatures_def by (intro call_intros)

lemma call_Send [call_intros]: "keeps call_rel (Send sv p)"
  unfolding Send_def by (intro call_intros)

lemma call_DeliverFromFederation [call_intros]: "keeps call_rel (DeliverFromFederation sv s t ms)"
  unfolding DeliverFromFederation_def by (intro call_intros)

lemma call_SetStatus [call_intros]: "keeps call_rel (SetStatus u st m)"
  unfolding SetStatus_def by (intro call_intros)

lemma call_CreateBackupVersion [call_intros]: "keeps call_rel (CreateBackupVersion p)"
  unfolding CreateBackupVersion_def by (intro call_intros)

lemma call_PutRoomKeys [call_intros]: "keeps call_rel (PutRoomKeys p)"
  unfolding PutRoomKeys_def by (intro call_intros body_intros)

lemma call_DeleteRoomKeys [call_intros]: "keeps call_rel (DeleteRoomKeys u v)"
  unfolding DeleteRoomKeys_def by (intro call_intros body_intros)

lemma call_Login [call_intros]: "keeps call_rel (Login s p)"
  unfolding Login_def by (intro call_intros)

lemma call_Logout [call_intros]: "keeps call_rel (Logout u v)"
  unfolding Logout_def by (intro call_intros)

lemma call_Refresh [call_intros]: "keeps call_rel (Refresh s t)"
  unfolding Refresh_def by (intro call_intros)

lemma call_Register [call_intros]: "keeps call_rel (Register s u p)"
  unfolding Register_def by (intro call_intros)

lemma call_UpdateProfile [call_intros]: "keeps call_rel (UpdateProfile sv u n a)"
  unfolding UpdateProfile_def by (intro call_intros)

lemma call_PutUserAccountData [call_intros]: "keeps call_rel (PutUserAccountData u r t c)"
  unfolding PutUserAccountData_def by (intro call_intros)

lemma call_CreateAlias [call_intros]: "keeps call_rel (CreateAlias sv a r)"
  unfolding CreateAlias_def by (intro call_intros)

lemma call_DeleteAlias [call_intros]: "keeps call_rel (DeleteAlias sv a)"
  unfolding DeleteAlias_def by (intro call_intros)

lemma call_Upload [call_intros]: "keeps call_rel (Upload s p)"
  unfolding Upload_def by (intro call_intros)

lemma call_Download [call_intros]:
  "(\<And>f. ms_remoteFetcher s = Some f \<Longrightarrow> keeps call_rel (f srv i)) \<Longrightarrow> keeps call_rel (Download s srv i)"
  unfolding Download_def downloadRemote_def
  by (cases "ms_remoteFetcher s") (auto intro!: call_intros)

lemma call_getToDeviceSync [call_intros]: "keeps call_rel (getToDeviceSync u v t)"
  unfolding getToDeviceSync_def by (intro call_intros)

lemma call_Sync_GetEventsSince [call_intros]: "keeps call_rel (Sync_GetEventsSince u v t)"
  unfolding Sync_GetEventsSince_def Let_def by (intro call_intros)

lemma call_canceledM [call_intros]: "keeps call_rel m \<Longrightarrow> (\<And>r. keeps call_rel (f r)) \<Longrightarrow> keeps call_rel (canceledM m f)"
  unfolding canceledM_def by (intro call_intros)

lemma call_SyncClient [call_intros]: "keeps call_rel (wait u) \<Longrightarrow> keeps call_rel (SyncClient wait u v t n)"
  unfolding SyncClient_def by (intro call_intros)

end
