(* ===== verification/Http.thy ===== *)
theory Http
  imports Auth_Service Media_Service Profile_Service ToDevice_Service Backup_Service
    Sync_Service Directory_Service Room_Admin Federation_Service
begin

text \<open>
  Requests and responses: what the handlers use of \<^verbatim>\<open>net/http\<close>, the helpers of
  \<^verbatim>\<open>internal/delivery/http_adapter/httputil\<close>, the token middleware and the CORS middleware of
  \<^verbatim>\<open>middlewares.go\<close>, and the idempotency cache of \<^verbatim>\<open>infrastructure/redis_infra/idempotency_cache.go\<close>.

  A body is its bytes, the error (if any) with which reading past them ends, what a JSON decoder
  finds first in it, and whether more follows. A response holds the value that is handed to the
  encoder; that the encoding itself fails is not modelled. Query and header are lists of pairs, in
  the order of the request. \<open>hr_Path\<close> is the decoded path, \<open>hr_EscapedPath\<close> the one in the request line. The context
  values are \<open>None\<close> until the token middleware sets them.
\<close>

subsection \<open>Requests\<close>

record body =
  bo_Bytes :: string
  bo_Error :: "go_error option"
  bo_Json :: "json decoded"
  bo_Rest :: bool

record request =
  hr_Method :: string
  hr_Path :: string
  hr_EscapedPath :: string
  hr_RequestURI :: string
  hr_Query :: "(string \<times> string) list"
  hr_Header :: "(string \<times> string) list"
  hr_Body :: "body option"
  hr_ContentLength :: int
  hr_RemoteAddr :: string
  hr_PathValues :: "(string \<times> string) list"
  hr_UserID :: "string option"
  hr_DeviceID :: "string option"
  hr_Canceled :: bool

definition assoc_string :: "string \<Rightarrow> (string \<times> string) list \<Rightarrow> string" where
  "assoc_string k m = (case map_of m k of None \<Rightarrow> '''' | Some v \<Rightarrow> v)"

definition PathValue :: "request \<Rightarrow> string \<Rightarrow> string" where
  "PathValue r k = assoc_string k (hr_PathValues r)"

definition QueryGet :: "request \<Rightarrow> string \<Rightarrow> string" where
  "QueryGet r k = assoc_string k (hr_Query r)"

definition QueryAll :: "request \<Rightarrow> string \<Rightarrow> string list" where
  "QueryAll r k = map snd (filter (\<lambda>p. fst p = k) (hr_Query r))"

definition HeaderGet :: "request \<Rightarrow> string \<Rightarrow> string" where
  "HeaderGet r k = assoc_string k (hr_Header r)"

text \<open>\<open>strconv.Atoi\<close> on a 64-bit machine is \<open>ParseInt\<close>; \<open>io.EOF\<close> is what decoding an empty body gives.\<close>

definition EOF :: go_error where
  "EOF = ExtError ''EOF''"

definition ParseBody :: "request \<Rightarrow> (json \<Rightarrow> 'a decoded) \<Rightarrow> 'a decoded" where
  "ParseBody r dec = (case hr_Body r of
       None \<Rightarrow> Inl ErrNoBodyFound
     | Some b \<Rightarrow> (case bo_Json b of Inl e \<Rightarrow> Inl e | Inr v \<Rightarrow> dec v))"

text \<open>\<open>json.NewDecoder(r.Body).Decode\<close> without the check for a nil body.\<close>

definition DecodeBody :: "request \<Rightarrow> (json \<Rightarrow> 'a decoded) \<Rightarrow> 'a decoded outcome" where
  "DecodeBody r dec = (case hr_Body r of
       None \<Rightarrow> Panic
     | Some b \<Rightarrow> Ret (case bo_Json b of Inl e \<Rightarrow> Inl e | Inr v \<Rightarrow> dec v))"

text \<open>\<open>net.SplitHostPort\<close>: the host, when the address has one colon, or a bracketed host and a port.\<close>

definition last_index :: "char \<Rightarrow> string \<Rightarrow> nat option" where
  "last_index c s = (let is = filter (\<lambda>i. s ! i = c) [0..<length s] in if is = [] then None else Some (last is))"

definition first_index :: "char \<Rightarrow> string \<Rightarrow> nat option" where
  "first_index c s = find (\<lambda>i. s ! i = c) [0..<length s]"

definition SplitHostPort :: "string \<Rightarrow> string option" where
  "SplitHostPort s = (case last_index CHR '':'' s of
       None \<Rightarrow> None
     | Some i \<Rightarrow>
         if has_prefix s ''['' then
           (case first_index CHR '']'' s of
              None \<Rightarrow> None
            | Some e \<Rightarrow>
                if e + 1 \<noteq> i \<or> CHR ''['' \<in> set (drop 1 s) \<or> CHR '']'' \<in> set (drop (e + 1) s) then None
                else Some (take (e - 1) (drop 1 s)))
         else if CHR '':'' \<in> set (take i s) \<or> CHR ''['' \<in> set s \<or> CHR '']'' \<in> set s then None
         else Some (take i s))"

definition GetClientIP :: "request \<Rightarrow> string" where
  "GetClientIP r =
     (let ip = HeaderGet r ''X-Real-IP'' in
      if ip \<noteq> '''' then ip
      else
        (let ips = HeaderGet r ''X-Forwarded-For'' in
         if ips \<noteq> '''' then trim_space (hd (split_on CHR '','' ips))
         else (case SplitHostPort (hr_RemoteAddr r) of Some host \<Rightarrow> host | None \<Rightarrow> hr_RemoteAddr r)))"

definition ExtractBearerToken :: "request \<Rightarrow> string" where
  "ExtractBearerToken r =
     (case split_on CHR '' '' (HeaderGet r ''Authorization'') of
        [scheme, token] \<Rightarrow> if scheme = ''Bearer'' then token else ''''
      | _ \<Rightarrow> '''')"

subsection \<open>Responses\<close>

record MatrixErrorResponse =
  me_ErrCode :: string
  me_Message :: string
  me_SoftLogout :: bool

record UserSearchResult =
  ur_UserID :: string
  ur_DisplayName :: string
  ur_AvatarURL :: string

record DeviceKeysInfo =
  dk_Algorithms :: "string list"
  dk_DeviceID :: string
  dk_Keys :: raw
  dk_Signatures :: raw
  dk_UserID :: string
  dk_DeviceDisplayName :: string

record CrossSigningKeyInfo =
  ci_Keys :: raw
  ci_Signatures :: raw
  ci_Usage :: "string list"
  ci_UserID :: string

record QueryKeysReply =
  qr_DeviceKeys :: "(string \<times> (string \<times> DeviceKeysInfo) list) list"
  qr_MasterKeys :: "(string \<times> CrossSigningKeyInfo) list"
  qr_SelfSigningKeys :: "(string \<times> CrossSigningKeyInfo) list"
  qr_UserSigningKeys :: "(string \<times> CrossSigningKeyInfo) list"
  qr_Failures :: "(string \<times> json) list"

record RoomKeyBackupData =
  bd_FirstMessageIndex :: int
  bd_ForwardedCount :: int
  bd_IsVerified :: bool
  bd_SessionData :: raw

text \<open>The rooms of a backup: each a map from session ids to the data of the session.\<close>

type_synonym RoomKeyBackups = "(string \<times> (string \<times> RoomKeyBackupData) list) list"

text \<open>The values the handlers answer with.\<close>

datatype payload =
    NoContent
  | Text string
  | Json json
  | MatrixError MatrixErrorResponse
  | Rooms PublicRoomsChunck
  | Event evento
  | Events "evento list"
  | Chunk "evento list"
  | MessagePage GetMessagesResponse
  | JoinedMembers "(string \<times> JoinedMemberProfile) list"
  | UserProfile Profile
  | UserAccountData AccountData
  | Users bool "UserSearchResult list"
  | SyncReply SyncClientResponse
  | Media DownloadResult string
  | MultipartMedia DownloadResult string
  | RoomKeys RoomKeyBackups
  | OneTimeKeyCounts "(string \<times> int) list"
  | DeviceKeys QueryKeysReply
  | ClaimedKeys claimed_keys "(string \<times> json) list"
  | SignatureFailures sig_failures
  | RoomIDs "string list"
  | AliasOf string "string list"
  | RemoteKeys "(string \<times> (string \<times> DeviceKeysInfo) list) list" "(string \<times> CrossSigningKeyInfo) list"
      "(string \<times> CrossSigningKeyInfo) list"
  | MissingEvents "evento list"
  | StateIDs "string list" "string list"
  | Transaction string int "evento list"
  | JoinState "evento list" "evento list" "string list"
  | StateSnapshot "evento list" "evento list"

record response =
  rp_Status :: int
  rp_Header :: "(string \<times> string) list"
  rp_Body :: payload

definition WriteJSON :: "int \<Rightarrow> payload \<Rightarrow> response op" where
  "WriteJSON status v =
     returnM \<lparr>rp_Status = status, rp_Header = [(''Content-Type'', ''application/json'')], rp_Body = v\<rparr>"

definition WriteError :: "int \<Rightarrow> MatrixErrorResponse \<Rightarrow> response op" where
  "WriteError status message = WriteJSON status (MatrixError message)"

definition WriteMatrixError :: "int \<Rightarrow> string \<Rightarrow> string \<Rightarrow> response op" where
  "WriteMatrixError status errcode message =
     WriteJSON status (MatrixError \<lparr>me_ErrCode = errcode, me_Message = message, me_SoftLogout = False\<rparr>)"

definition WriteMatrixErrorSoftLogout :: "int \<Rightarrow> string \<Rightarrow> string \<Rightarrow> response op" where
  "WriteMatrixErrorSoftLogout status errcode message =
     WriteJSON status (MatrixError \<lparr>me_ErrCode = errcode, me_Message = message, me_SoftLogout = True\<rparr>)"

definition emptyJSON :: payload where
  "emptyJSON = Json (JObj [])"

subsection \<open>What the handlers are given\<close>

text \<open>
  The services and the foreign packages behind them: \<open>h_Parse now token keyFunc\<close> is
  \<^verbatim>\<open>jwt.ParseWithClaims\<close>, which asks \<open>keyFunc\<close> for the key; \<open>h_verify\<close> is \<^verbatim>\<open>ed25519.Verify\<close> on the canonical
  bytes of a value; \<open>h_Error\<close> gives the text of an error; \<open>h_stats\<close> are the numbers of the pool and
  \<open>h_static\<close> the files under \<^verbatim>\<open>static/.well-known/matrix\<close>.
\<close>

record jwt_token =
  jt_HMAC :: bool
  jt_Alg :: string

record jwt_claims =
  jc_UserID :: string
  jc_DeviceID :: string
  jc_Valid :: bool

text \<open>\<open>pgxpool.Pool.Stat\<close>: the numbers of the connection pool.\<close>

record pool_stats =
  ps_TotalConns :: int
  ps_AcquiredConns :: int
  ps_IdleConns :: int
  ps_ConstructingConns :: int
  ps_EmptyAcquireWaitTime :: int
  ps_EmptyAcquireWaitTime_String :: string
  ps_MaxIdleDestroyCount :: int
  ps_MaxLifetimeDestroyCount :: int

record handler =
  h_sv :: server
  h_auth :: auth_service
  h_media :: media_service
  h_ro :: range_orders
  h_ilike :: "string \<Rightarrow> string \<Rightarrow> bool"
  h_wait :: "string \<Rightarrow> unit op"
  h_Parse :: "int \<Rightarrow> string \<Rightarrow> (jwt_token \<Rightarrow> go_error + string) \<Rightarrow> go_error + jwt_claims"
  h_sha256 :: "string \<Rightarrow> string"
  h_verify :: "string \<Rightarrow> json \<Rightarrow> string \<Rightarrow> bool"
  h_Error :: "go_error \<Rightarrow> string"
  h_version :: string
  h_publicKey :: string
  h_stats :: pool_stats
  h_static :: "string \<Rightarrow> string option"

type_synonym http_handler = "request \<Rightarrow> response op"

subsection \<open>Middlewares\<close>

definition corsHeaders :: "(string \<times> string) list" where
  "corsHeaders =
     [(''Access-Control-Allow-Origin'', ''*''),
      (''Access-Control-Allow-Methods'', ''GET, POST, PUT, DELETE, OPTIONS, PATCH''),
      (''Access-Control-Allow-Headers'',
       ''Origin, X-Requested-With, Accept, Authorization, Content-Type, X-CSRF-Token''),
      (''Access-Control-Allow-Credentials'', ''false'')]"

definition corsMiddleware :: "http_handler \<Rightarrow> http_handler" where
  "corsMiddleware nxt r =
     (if hr_Method r = ''OPTIONS'' then
        returnM \<lparr>rp_Status = 204, rp_Header = corsHeaders, rp_Body = NoContent\<rparr>
      else bindM (nxt r) (\<lambda>p. returnM (p\<lparr>rp_Header := corsHeaders @ rp_Header p\<rparr>)))"

text \<open>What is logged is left out; the clock is read before and after.\<close>

definition logMiddleware :: "http_handler \<Rightarrow> http_handler" where
  "logMiddleware nxt r = bindM nowM (\<lambda>_. bindM (nxt r) (\<lambda>p. bindM nowM (\<lambda>_. returnM p)))"

definition ErrTokenExpired :: go_error where
  "ErrTokenExpired = ExtError ''token is expired''"

text \<open>The key function: a token whose algorithm was replaced is refused.\<close>

definition jwtKey :: "handler \<Rightarrow> jwt_token \<Rightarrow> go_error + string" where
  "jwtKey h t = (if \<not> jt_HMAC t then Inl (Errorf (''unexpected signing method: '' @ jt_Alg t))
                 else Inr (as_jwtSecret (h_auth h)))"

definition TokenBearerMiddleware :: "handler \<Rightarrow> http_handler \<Rightarrow> http_handler" where
  "TokenBearerMiddleware h nxt r =
     (let authHeader = HeaderGet r ''Authorization'' in
      if authHeader = '''' then
        WriteMatrixError 401 ''M_MISSING_TOKEN'' ''No access token was specified for the request''
      else if \<not> has_prefix authHeader ''Bearer '' then
        WriteMatrixError 401 ''M_MISSING_TOKEN'' ''Invalid authorization format''
      else
        (let tokenString = trim_prefix authHeader ''Bearer ''
         in bindM nowM (\<lambda>now.
            case h_Parse h now tokenString (jwtKey h) of
              Inl e \<Rightarrow>
                if errors_is e ErrTokenExpired then
                  WriteMatrixErrorSoftLogout 401 ''M_UNKNOWN_TOKEN'' ''Access token has expired''
                else WriteMatrixError 401 ''M_UNKNOWN_TOKEN'' (h_Error h (Wrapf ''Invalid token'' e))
            | Inr claims \<Rightarrow>
                if \<not> jc_Valid claims then WriteMatrixError 401 ''M_UNKNOWN_TOKEN'' ''Invalid token''
                else nxt (r\<lparr>hr_UserID := Some (jc_UserID claims), hr_DeviceID := Some (jc_DeviceID claims)\<rparr>))))"

text \<open>
  How the handlers read the context: \<open>userID, ok := ctx.Value(types.UserIDKey).(string)\<close> with a check, or
  without one, where a missing value panics.
\<close>

definition requireUser :: "string \<Rightarrow> string \<Rightarrow> request \<Rightarrow> (string \<Rightarrow> response op) \<Rightarrow> response op" where
  "requireUser errcode message r k = (case hr_UserID r of
       Some userID \<Rightarrow> if userID = '''' then WriteMatrixError 401 errcode message else k userID
     | None \<Rightarrow> WriteMatrixError 401 errcode message)"

definition contextUser :: "request \<Rightarrow> (string \<Rightarrow> response op) \<Rightarrow> response op" where
  "contextUser r k = (case hr_UserID r of Some userID \<Rightarrow> k userID | None \<Rightarrow> panicM)"

text \<open>The answer to a body that does not parse, where the handler tells the two cases apart.\<close>

definition bodyError :: "go_error \<Rightarrow> response op" where
  "bodyError e = (if e = ErrNoBodyFound then WriteMatrixError 400 ''M_NOT_JSON'' ''No request body''
                  else WriteMatrixError 400 ''M_BAD_JSON'' ''Invalid request body'')"

subsection \<open>Idempotency cache\<close>

definition buildKey :: "handler \<Rightarrow> string \<Rightarrow> string \<Rightarrow> string \<Rightarrow> string" where
  "buildKey h accessToken endpoint txnID =
     ''idempotency:'' @ hex_bytes (h_sha256 h accessToken) @ '':'' @ endpoint @ '':'' @ txnID"

text \<open>A value whose time has passed is gone; a failing Redis counts as a miss.\<close>

definition cached :: "string \<Rightarrow> world \<Rightarrow> string option" where
  "cached key w = (case map_of (w_cache w) key of
       Some (v, expires) \<Rightarrow> if w_clock w (w_ticks w) < expires then Some v else None
     | None \<Rightarrow> None)"

definition Cache_Get :: "handler \<Rightarrow> string \<Rightarrow> string \<Rightarrow> string \<Rightarrow> string option op" where
  "Cache_Get h accessToken endpoint txnID =
     bindM (catchM (redis_call (\<lambda>w. (cached (buildKey h accessToken endpoint txnID) w, w)))) (\<lambda>r.
       returnM (case r of Inl _ \<Rightarrow> None | Inr v \<Rightarrow> v))"

definition Cache_Set :: "handler \<Rightarrow> string \<Rightarrow> string \<Rightarrow> string \<Rightarrow> string \<Rightarrow> int \<Rightarrow> unit op" where
  "Cache_Set h accessToken endpoint txnID eventID ttl =
     redis_call (\<lambda>w. ((), w\<lparr>w_cache :=
       AList.update (buildKey h accessToken endpoint txnID) (eventID, w_clock w (w_ticks w) + ttl) (w_cache w)\<rparr>))"

definition day :: int where
  "day = 24 * 60 * 60 * 1000"

subsection \<open>Decoding request bodies\<close>

text \<open>The members of a struct field: later objects are decoded into the same struct, \<open>null\<close> is ignored.\<close>

definition struct_field :: "json list \<Rightarrow> (string \<times> json) list \<times> bool" where
  "struct_field vs =
     foldl (\<lambda>(ms, bad) v. case v of JNull \<Rightarrow> (ms, bad) | JObj ms' \<Rightarrow> (ms @ ms', bad) | _ \<Rightarrow> (ms, True)) ([], False) vs"

text \<open>A pointer to a struct: \<open>None\<close> is nil, which \<open>null\<close> makes it.\<close>

definition struct_ptr :: "json list \<Rightarrow> (string \<times> json) list option \<times> bool" where
  "struct_ptr vs =
     foldl (\<lambda>(p, bad) v. case v of
         JNull \<Rightarrow> (None, bad)
       | JObj ms \<Rightarrow> (Some ((case p of None \<Rightarrow> [] | Some old \<Rightarrow> old) @ ms), bad)
       | _ \<Rightarrow> (Some (case p of None \<Rightarrow> [] | Some old \<Rightarrow> old), True)) (None, False) vs"

text \<open>A \<open>map[string]any\<close>: \<open>JNull\<close> is the nil map.\<close>

definition decodeAnyMap :: "json \<Rightarrow> json decoded" where
  "decodeAnyMap v = (case v of
       JNull \<Rightarrow> Inr JNull
     | JObj _ \<Rightarrow> Inr (any_of_json v)
     | _ \<Rightarrow> Inl type_error)"

definition dec_any_map :: "json list \<Rightarrow> json \<times> bool" where
  "dec_any_map vs =
     foldl (\<lambda>(m, bad) v. case v of
         JNull \<Rightarrow> (JNull, bad)
       | JObj ms \<Rightarrow> (any_of_json (JObj ((case m of JObj old \<Rightarrow> old | _ \<Rightarrow> []) @ ms)), bad)
       | _ \<Rightarrow> (m, True)) (JNull, False) vs"

definition decodeRaw :: "json \<Rightarrow> raw decoded" where
  "decodeRaw v = Inr (Some v)"

end
