(* ===== verification/Rooms_Routes.thy ===== *)
theory Rooms_Routes
  imports Http
begin

text \<open>
  \<^verbatim>\<open>internal/delivery/http_adapter/client/rooms/routes.go\<close> and \<^verbatim>\<open>schemas.go\<close>: the handlers of the room
  endpoints. The deadline of two seconds they put on a call is left out.
\<close>

subsection \<open>Public rooms\<close>

definition getPublicRooms :: "handler \<Rightarrow> http_handler" where
  "getPublicRooms h r =
     (let srv = QueryGet r ''server'';
          limitStr = QueryGet r ''limit'';
          limit = (if limitStr = '''' then Some 50
                   else (case ParseInt limitStr of None \<Rightarrow> None | Some n \<Rightarrow> if n < 0 then None else Some n))
      in case limit of
           None \<Rightarrow> WriteMatrixError 400 ''M_BAD_JSON'' ''Invalid limit parameter''
         | Some limit \<Rightarrow>
             (let sinceInt = (case ParseInt (QueryGet r ''since'') of None \<Rightarrow> 0 | Some n \<Rightarrow> n)
              in bindM (catchM (ListPublic (h_ilike h) (h_sv h) srv '''' limit sinceInt)) (\<lambda>res. case res of
                   Inl _ \<Rightarrow> WriteMatrixError 500 ''M_UNKNOWN'' ''Failed to list rooms''
                 | Inr page \<Rightarrow> WriteJSON 200 (Rooms page))))"

record PublicRoomsRequest =
  pr_Filter :: "string option"
  pr_Limit :: int
  pr_Since :: string

definition zeroRoomsRequest :: "PublicRoomsRequest" where
  "zeroRoomsRequest = \<lparr>pr_Filter = None, pr_Limit = 0, pr_Since = ''''\<rparr>"

text \<open>Of the filter only its search term is used.\<close>

definition decodePublicRoomsRequest :: "json \<Rightarrow> PublicRoomsRequest decoded" where
  "decodePublicRoomsRequest v = (case struct_members (Some v) of
       Inl e \<Rightarrow> Inl e
     | Inr ms \<Rightarrow>
         (let (filt, b1) = struct_ptr (field_vals ''filter'' ms);
              (term, b2) = (case filt of None \<Rightarrow> ('''', False) | Some fs \<Rightarrow> dec_string (field_vals ''generic_search_term'' fs));
              (networks, b3) = dec_bool (field_vals ''include_all_networks'' ms);
              (limit, b4) = dec_int64 (field_vals ''limit'' ms);
              (since, b5) = dec_string (field_vals ''since'' ms);
              (party, b6) = dec_string (field_vals ''third_party_instance_id'' ms)
          in if b1 \<or> b2 \<or> b3 \<or> b4 \<or> b5 \<or> b6 then Inl type_error
             else Inr \<lparr>pr_Filter = map_option (\<lambda>_. term) filt, pr_Limit = limit, pr_Since = since\<rparr>))"

definition postPublicRooms :: "handler \<Rightarrow> http_handler" where
  "postPublicRooms h r =
     (let srv = QueryGet r ''server''
      in bindM (if hr_ContentLength r \<noteq> 0 then liftO (DecodeBody r decodePublicRoomsRequest) else returnM (Inr zeroRoomsRequest)) (\<lambda>d.
         case (case d of Inl e \<Rightarrow> if e \<noteq> EOF then Inl e else Inr zeroRoomsRequest | Inr req \<Rightarrow> Inr req) of
           Inl _ \<Rightarrow> WriteMatrixError 400 ''M_BAD_JSON'' ''Invalid request body''
         | Inr req \<Rightarrow>
             (let searchTerm = (case pr_Filter req of None \<Rightarrow> '''' | Some t \<Rightarrow> t);
                  limit = (if pr_Limit req \<le> 0 then 50 else pr_Limit req);
                  offset = (if pr_Since req \<noteq> '''' then
                              (case ParseInt (pr_Since req) of Some n \<Rightarrow> if n \<ge> 0 then n else 0 | None \<Rightarrow> 0)
                            else 0)
              in bindM (catchM (ListPublic (h_ilike h) (h_sv h) srv searchTerm limit offset)) (\<lambda>res. case res of
                   Inl _ \<Rightarrow> WriteMatrixError 500 ''M_UNKNOWN'' ''Failed to list rooms''
                 | Inr page \<Rightarrow> WriteJSON 200 (Rooms page)))))"

subsection \<open>Creating, joining, leaving, inviting\<close>

record CreateRoomRequest =
  crq_Visibility :: string
  crq_RoomAliasName :: "string option"
  crq_Name :: "string option"
  crq_Topic :: "string option"
  crq_Invite :: "string list"
  crq_InitialState :: "(string \<times> string \<times> json) list"
  crq_Preset :: "string option"
  crq_IsDirect :: bool
  crq_RoomVersion :: "string option"

text \<open>An entry of \<open>initial_state\<close>: type, state key, content.\<close>

definition decodeInitialState :: "json \<Rightarrow> (string \<times> string \<times> json) \<times> bool" where
  "decodeInitialState v = (case struct_members (Some v) of
       Inl _ \<Rightarrow> (('''', '''', JNull), True)
     | Inr ms \<Rightarrow>
         (let (tipo, b1) = dec_string (field_vals ''type'' ms);
              (stateKey, b2) = dec_string (field_vals ''state_key'' ms);
              (content, b3) = dec_any_map (field_vals ''content'' ms)
          in ((tipo, stateKey, content), b1 \<or> b2 \<or> b3)))"

definition dec_initial_states :: "json list \<Rightarrow> (string \<times> string \<times> json) list \<times> bool" where
  "dec_initial_states vs = (case dec_raw vs of
       None \<Rightarrow> ([], False)
     | Some JNull \<Rightarrow> ([], False)
     | Some (JArr es) \<Rightarrow> (map (\<lambda>e. fst (decodeInitialState e)) es, list_ex (\<lambda>e. snd (decodeInitialState e)) es)
     | Some _ \<Rightarrow> ([], True))"

definition decodeCreateRoom :: "json \<Rightarrow> CreateRoomRequest decoded" where
  "decodeCreateRoom v = (case struct_members (Some v) of
       Inl e \<Rightarrow> Inl e
     | Inr ms \<Rightarrow>
         (let (visibility, b1) = dec_string (field_vals ''visibility'' ms);
              (alias, b2) = dec_string_ptr (field_vals ''room_alias_name'' ms);
              (name, b3) = dec_string_ptr (field_vals ''name'' ms);
              (topic, b4) = dec_string_ptr (field_vals ''topic'' ms);
              (invite, b5) = dec_strings (field_vals ''invite'' ms);
              (states, b6) = dec_initial_states (field_vals ''initial_state'' ms);
              (preset, b7) = dec_string_ptr (field_vals ''preset'' ms);
              (direct, b8) = dec_bool (field_vals ''is_direct'' ms);
              (version, b9) = dec_string_ptr (field_vals ''room_version'' ms)
          in if b1 \<or> b2 \<or> b3 \<or> b4 \<or> b5 \<or> b6 \<or> b7 \<or> b8 \<or> b9 then Inl type_error
             else Inr \<lparr>crq_Visibility = visibility, crq_RoomAliasName = alias, crq_Name = name, crq_Topic = topic,
                       crq_Invite = invite, crq_InitialState = states, crq_Preset = preset, crq_IsDirect = direct,
                       crq_RoomVersion = version\<rparr>))"

definition optional :: "string option \<Rightarrow> string" where
  "optional p = (case p of None \<Rightarrow> '''' | Some s \<Rightarrow> s)"

definition createRoomParams :: "string \<Rightarrow> CreateRoomRequest \<Rightarrow> CreateRoomParams" where
  "createRoomParams userID req =
     \<lparr>cr_CreatorID = userID, cr_Visibility = crq_Visibility req, cr_Alias = optional (crq_RoomAliasName req),
      cr_Name = optional (crq_Name req), cr_Version = optional (crq_RoomVersion req), cr_Topic = optional (crq_Topic req),
      cr_Invite = crq_Invite req, cr_IsDirect = crq_IsDirect req,
      cr_InitialState = map (\<lambda>(tipo, stateKey, content). \<lparr>sp_StateKey = Some stateKey, sp_Type = tipo, sp_Content = content\<rparr>)
        (crq_InitialState req),
      cr_Preset = crq_Preset req\<rparr>"

definition roomIDReply :: "string \<Rightarrow> payload" where
  "roomIDReply roomID = Json (JObj [(''room_id'', JStr roomID)])"

text \<open>The service reads the room back; when it is not there, reading its id panics.\<close>

definition postCreateRoom :: "handler \<Rightarrow> http_handler" where
  "postCreateRoom h r =
     requireUser ''M_MISSING_TOKEN'' ''Missing or invalid access token'' r (\<lambda>userID.
       case ParseBody r decodeCreateRoom of
         Inl e \<Rightarrow> bodyError e
       | Inr req \<Rightarrow>
           bindM (catchM (CreateRoom (h_sv h) (createRoomParams userID req))) (\<lambda>res. case res of
               Inl _ \<Rightarrow> WriteMatrixError 500 ''M_UNKNOWN'' ''Failed to create room''
             | Inr None \<Rightarrow> panicM
             | Inr (Some canal) \<Rightarrow> WriteJSON 200 (roomIDReply (ca_ID canal))))"

text \<open>The first candidate that is another server, else the server named in the room id.\<close>

definition remoteCandidate :: "string \<Rightarrow> string \<Rightarrow> string list \<Rightarrow> string" where
  "remoteCandidate own roomID knownServers =
     (case filter (\<lambda>s. s \<noteq> '''' \<and> s \<noteq> own) knownServers of
        [] \<Rightarrow> ExtractDomainFromUserID roomID
      | s # _ \<Rightarrow> s)"

definition joinResolved :: "handler \<Rightarrow> string \<Rightarrow> string \<Rightarrow> string list \<Rightarrow> response op" where
  "joinResolved h userID roomID knownServers =
     (if IsRemoteUser roomID (sv_serverName (h_sv h)) then
        (let remoteServer = remoteCandidate (sv_serverName (h_sv h)) roomID knownServers in
         if remoteServer = '''' then
           WriteMatrixError 400 ''M_INVALID_PARAM'' ''Could not resolve remote server from room identifier''
         else bindM (catchM (JoinRemoteRoom (h_ro h) CheckAuth (h_sv h) userID roomID remoteServer)) (\<lambda>res. case res of
             Inl _ \<Rightarrow> WriteMatrixError 500 ''M_UNKNOWN'' ''Failed to federate join remote room''
           | Inr _ \<Rightarrow> WriteJSON 200 (roomIDReply roomID)))
      else bindM (catchM (JoinLocalRoom (h_sv h) userID roomID)) (\<lambda>res. case res of
             Inl _ \<Rightarrow> WriteMatrixError 500 ''M_UNKNOWN'' ''Failed to join room''
           | Inr _ \<Rightarrow> WriteJSON 200 (roomIDReply roomID)))"

definition postJoinRoom :: "handler \<Rightarrow> http_handler" where
  "postJoinRoom h r =
     requireUser ''M_MISSING_TOKEN'' ''Missing or invalid access token'' r (\<lambda>userID.
       (let roomIdentifier = PathValue r ''roomId'' in
        if roomIdentifier = '''' then WriteMatrixError 400 ''M_BAD_JSON'' ''Missing roomId''
        else
          (let sn = QueryGet r ''server_name'';
               knownServers = QueryAll r ''via'' @ (if sn \<noteq> '''' then [sn] else [])
           in if has_prefix roomIdentifier ''#'' then
                bindM (catchM (ResolveAlias (h_sv h) roomIdentifier)) (\<lambda>res. case res of
                    Inl _ \<Rightarrow> WriteMatrixError 404 ''M_NOT_FOUND'' ''Room alias not found''
                  | Inr (resolvedID, servers) \<Rightarrow> joinResolved h userID resolvedID (knownServers @ servers))
              else joinResolved h userID roomIdentifier knownServers)))"

definition postLeaveRoom :: "handler \<Rightarrow> http_handler" where
  "postLeaveRoom h r =
     requireUser ''M_MISSING_TOKEN'' ''Missing or invalid access token'' r (\<lambda>userID.
       (let roomID = PathValue r ''roomId'' in
        if roomID = '''' then WriteMatrixError 400 ''M_BAD_JSON'' ''Missing roomId''
        else bindM (catchM (LeaveRoom (h_sv h) userID roomID)) (\<lambda>res. case res of
            Inl _ \<Rightarrow> WriteMatrixError 500 ''M_UNKNOWN'' ''Failed to leave room''
          | Inr _ \<Rightarrow> WriteJSON 200 emptyJSON)))"

definition decodeInvite :: "json \<Rightarrow> (string \<times> string option) decoded" where
  "decodeInvite v = (case struct_members (Some v) of
       Inl e \<Rightarrow> Inl e
     | Inr ms \<Rightarrow>
         (let (userID, b1) = dec_string (field_vals ''user_id'' ms);
              (reason, b2) = dec_string_ptr (field_vals ''reason'' ms)
          in if b1 \<or> b2 then Inl type_error else Inr (userID, reason)))"

definition postInviteRoom :: "handler \<Rightarrow> http_handler" where
  "postInviteRoom h r =
     requireUser ''M_MISSING_TOKEN'' ''Missing or invalid access token'' r (\<lambda>userID.
       (let roomID = PathValue r ''roomId'' in
        if roomID = '''' then WriteMatrixError 400 ''M_BAD_JSON'' ''Missing roomId''
        else (case ParseBody r decodeInvite of
            Inl e \<Rightarrow> bodyError e
          | Inr (invitee, reason) \<Rightarrow>
              if invitee = '''' then WriteMatrixError 400 ''M_BAD_JSON'' ''user_id is required''
              else if ExtractDomainFromUserID invitee = '''' then WriteMatrixError 400 ''M_INVALID_PARAM'' ''invalid user_id''
              else bindM (catchM (InviteUser (h_sv h) roomID userID invitee (optional reason) False)) (\<lambda>res. case res of
                  Inl e \<Rightarrow>
                    if errors_is e ErrForbidden then WriteMatrixError 403 ''M_FORBIDDEN'' (h_Error h e)
                    else if errors_is e ErrIncompatibleRoomVersion then
                      WriteMatrixError 400 ''M_UNSUPPORTED_ROOM_VERSION''
                        (''Invitee'' @ [char_of (39 :: nat)] @ ''s homeserver does not support this room version'')
                    else WriteMatrixError 500 ''M_UNKNOWN'' ''Failed to invite user''
                | Inr _ \<Rightarrow> WriteJSON 200 emptyJSON))))"

subsection \<open>Sending\<close>

definition eventIDReply :: "string \<Rightarrow> payload" where
  "eventIDReply eventID = Json (JObj [(''event_id'', JStr eventID)])"

definition putSendEvent :: "handler \<Rightarrow> http_handler" where
  "putSendEvent h r =
     (let accessToken = ExtractBearerToken r in
      requireUser ''M_MISSING_TOKEN'' ''Missing access token'' r (\<lambda>userID.
       (let roomID = PathValue r ''roomId'';
            eventType = PathValue r ''eventType'';
            txnID = PathValue r ''txnId'';
            endpoint = hr_Path r
        in if roomID = '''' \<or> eventType = '''' then WriteMatrixError 400 ''M_BAD_JSON'' ''Missing path parameters''
           else bindM (Cache_Get h accessToken endpoint txnID) (\<lambda>hit. case hit of
               Some eventID \<Rightarrow> WriteJSON 200 (eventIDReply eventID)
             | None \<Rightarrow>
                 (case ParseBody r decodeAnyMap of
                    Inl _ \<Rightarrow> WriteMatrixError 400 ''M_NOT_JSON'' ''Invalid JSON body''
                  | Inr content \<Rightarrow>
                      bindM (catchM (SendEvent (h_sv h)
                        \<lparr>evp_RoomID = roomID, evp_SenderID = userID, evp_Content = content, evp_EventType = eventType,
                         evp_TxnID = txnID\<rparr>)) (\<lambda>res. case res of
                          Inl e \<Rightarrow>
                            if errors_is e ErrForbidden then WriteMatrixError 403 ''M_FORBIDDEN'' ''You are not joined to this room''
                            else WriteMatrixError 500 ''M_UNKNOWN'' ''Failed to send event''
                        | Inr eventID \<Rightarrow>
                            bindM (catchM (Cache_Set h accessToken endpoint txnID eventID day)) (\<lambda>_.
                              WriteJSON 200 (eventIDReply eventID))))))))"

definition putStateEvent :: "handler \<Rightarrow> http_handler" where
  "putStateEvent h r =
     requireUser ''M_MISSING_TOKEN'' ''Missing access token'' r (\<lambda>userID.
       (let roomID = PathValue r ''roomId'';
            eventType = PathValue r ''eventType'';
            stateKey = PathValue r ''stateKey''
        in if roomID = '''' \<or> eventType = '''' then WriteMatrixError 400 ''M_BAD_JSON'' ''Missing required path parameters''
           else (case ParseBody r decodeAnyMap of
               Inl _ \<Rightarrow> WriteMatrixError 400 ''M_NOT_JSON'' ''Invalid or missing JSON body''
             | Inr req \<Rightarrow>
                 bindM (catchM (SendStateEvent (h_sv h)
                   \<lparr>sta_RoomID = roomID, sta_UserID = userID, sta_EventType = eventType, sta_StateKey = stateKey,
                    sta_Content = req\<rparr>)) (\<lambda>res. case res of
                     Inl e \<Rightarrow>
                       if errors_is e ErrForbidden then
                         WriteMatrixError 403 ''M_FORBIDDEN'' ''You do not have permission to send this state event''
                       else WriteMatrixError 500 ''M_UNKNOWN'' ''Internal server error''
                   | Inr eventID \<Rightarrow> WriteJSON 200 (eventIDReply eventID)))))"

subsection \<open>Reading\<close>

text \<open>\<open>Unsigned\<close> is left out when it is nil.\<close>

definition toClientStateEvent :: "evento \<Rightarrow> json" where
  "toClientStateEvent ev =
     JObj ([(''content'', raw_json (ev_Content ev)), (''event_id'', JStr (ev_ID ev)),
            (''origin_server_ts'', JNum (ev_OrigemServidorTS ev)), (''room_id'', JStr (ev_CanalID ev)),
            (''sender'', JStr (ev_Sender ev)), (''state_key'', JStr (optional (ev_StateKey ev))), (''type'', JStr (ev_Tipo ev))] @
           omitempty (ev_Unsigned ev = None) ''unsigned'' (raw_json (ev_Unsigned ev)))"

definition getRoomState :: "handler \<Rightarrow> http_handler" where
  "getRoomState h r =
     requireUser ''M_MISSING_TOKEN'' ''Missing access token'' r (\<lambda>userID.
       (let roomID = PathValue r ''roomId'';
            eventType = PathValue r ''eventType'';
            stateKey = PathValue r ''stateKey''
        in if roomID = '''' \<or> eventType = '''' then WriteMatrixError 400 ''M_BAD_JSON'' ''Missing required path parameters''
           else
             (let format = QueryGet r ''format'';
                  format = (if format = '''' then ''content'' else format)
              in if format \<noteq> ''content'' \<and> format \<noteq> ''event'' then
                   WriteMatrixError 400 ''M_INVALID_PARAM'' (''format must be '' @ [char_of (39 :: nat)] @ ''content'' @
                     [char_of (39 :: nat)] @ '' or '' @ [char_of (39 :: nat)] @ ''event'' @ [char_of (39 :: nat)])
                 else bindM (catchM (GetStateEventContent roomID userID eventType stateKey)) (\<lambda>res. case res of
                     Inl e \<Rightarrow>
                       if errors_is e ErrForbidden then
                         WriteMatrixError 403 ''M_FORBIDDEN'' (''You aren'' @ [char_of (39 :: nat)] @
                           ''t a member of the room and weren'' @ [char_of (39 :: nat)] @ ''t previously a member of the room'')
                       else if errors_is e ErrStateNotFound then
                         WriteMatrixError 404 ''M_NOT_FOUND'' ''The room has no state with the given type or key''
                       else WriteMatrixError 500 ''M_UNKNOWN'' ''Failed to get room state''
                   | Inr evento \<Rightarrow>
                       if format = ''event'' then WriteJSON 200 (Json (toClientStateEvent evento))
                       else WriteJSON 200 (Json (raw_json (ev_Content evento)))))))"

definition dirMessage :: string where
  "dirMessage = ''dir must be '' @ [char_of (39 :: nat)] @ ''b'' @ [char_of (39 :: nat)] @ '' or '' @
     [char_of (39 :: nat)] @ ''f'' @ [char_of (39 :: nat)]"

definition getRoomMessages :: "handler \<Rightarrow> http_handler" where
  "getRoomMessages h r =
     requireUser ''M_UNKNOWN_TOKEN'' ''Missing or invalid access token'' r (\<lambda>userID.
       (let roomID = PathValue r ''roomId'' in
        if roomID = '''' then WriteMatrixError 400 ''M_BAD_JSON'' ''Missing roomId path parameter''
        else
          (let frm = QueryGet r ''from'';
               dir = QueryGet r ''dir''
           in if dir \<noteq> '''' \<and> dir \<noteq> ''b'' \<and> dir \<noteq> ''f'' then WriteMatrixError 400 ''M_INVALID_PARAM'' dirMessage
              else
                (let dir = (if dir = '''' then ''b'' else dir);
                     limitStr = QueryGet r ''limit'';
                     limit = (if limitStr \<noteq> '''' then
                                (case ParseInt limitStr of Some n \<Rightarrow> if n > 0 then n else 10 | None \<Rightarrow> 10)
                              else 10)
                 in bindM (catchM (GetMessages roomID userID frm dir limit)) (\<lambda>res. case res of
                      Inl e \<Rightarrow>
                        if errors_is e ErrInvalidPaginationDirection then WriteMatrixError 400 ''M_INVALID_PARAM'' dirMessage
                        else if errors_is e ErrForbidden then
                          WriteMatrixError 403 ''M_FORBIDDEN'' (''You do not have permission to read this room'' @
                            [char_of (39 :: nat)] @ ''s history'')
                        else WriteMatrixError 500 ''M_UNKNOWN'' ''Failed to get room messages''
                    | Inr page \<Rightarrow> WriteJSON 200 (MessagePage page))))))"

definition postReceipt :: "handler \<Rightarrow> http_handler" where
  "postReceipt h r =
     requireUser ''M_MISSING_TOKEN'' ''Missing access token'' r (\<lambda>userID.
       (let roomID = PathValue r ''roomId'';
            receiptType = PathValue r ''receiptType'';
            eventID = PathValue r ''eventId''
        in if roomID = '''' \<or> receiptType = '''' \<or> eventID = '''' then
             WriteMatrixError 400 ''M_MISSING_PARAM'' ''Missing required path parameters''
           else bindM (catchM (SendReceipt userID roomID receiptType eventID)) (\<lambda>res. case res of
               Inl e \<Rightarrow>
                 if errors_is e ErrForbidden then WriteMatrixError 403 ''M_FORBIDDEN'' ''User is not in the room''
                 else WriteMatrixError 500 ''M_UNKNOWN'' ''Failed to update receipt''
             | Inr _ \<Rightarrow> WriteJSON 200 emptyJSON)))"

definition postReadMarkers :: "handler \<Rightarrow> http_handler" where
  "postReadMarkers h r = WriteJSON 200 emptyJSON"

definition getEvent :: "handler \<Rightarrow> http_handler" where
  "getEvent h r =
     requireUser ''M_MISSING_TOKEN'' ''Missing access token'' r (\<lambda>userID.
       (let roomID = PathValue r ''roomId'';
            eventID = PathValue r ''eventId''
        in if roomID = '''' \<or> eventID = '''' then WriteMatrixError 400 ''M_MISSING_PARAM'' ''Missing roomId or eventId''
           else bindM (catchM (GetEvent userID roomID eventID)) (\<lambda>res. case res of
               Inl e \<Rightarrow>
                 if errors_is e ErrForbidden then
                   WriteMatrixError 403 ''M_FORBIDDEN'' (''You don'' @ [char_of (39 :: nat)] @ ''t have permission to view this event'')
                 else WriteMatrixError 404 ''M_NOT_FOUND'' ''Event not found''
             | Inr evento \<Rightarrow> WriteJSON 200 (Event evento))))"

definition getRoomStateAll :: "handler \<Rightarrow> http_handler" where
  "getRoomStateAll h r =
     requireUser ''M_MISSING_TOKEN'' ''Missing access token'' r (\<lambda>userID.
       (let roomID = PathValue r ''roomId'' in
        if roomID = '''' then WriteMatrixError 400 ''M_MISSING_PARAM'' ''Missing roomId''
        else bindM (catchM (GetRoomState userID roomID)) (\<lambda>res. case res of
            Inl e \<Rightarrow>
              if errors_is e ErrForbidden then WriteMatrixError 403 ''M_FORBIDDEN'' ''You are not in this room''
              else WriteMatrixError 500 ''M_UNKNOWN'' ''Failed to get room state''
          | Inr stateEvents \<Rightarrow> WriteJSON 200 (Events stateEvents))))"

definition getJoinedMembers :: "handler \<Rightarrow> http_handler" where
  "getJoinedMembers h r =
     requireUser ''M_MISSING_TOKEN'' ''Missing access token'' r (\<lambda>userID.
       (let roomID = PathValue r ''roomId'' in
        if roomID = '''' then WriteMatrixError 400 ''M_MISSING_PARAM'' ''Missing roomId''
        else bindM (catchM (GetJoinedMembers userID roomID)) (\<lambda>res. case res of
            Inl e \<Rightarrow>
              if errors_is e ErrForbidden then WriteMatrixError 403 ''M_FORBIDDEN'' ''You are not in this room''
              else WriteMatrixError 500 ''M_UNKNOWN'' ''Failed to get joined members''
          | Inr membersMap \<Rightarrow> WriteJSON 200 (JoinedMembers membersMap))))"

definition decodeTyping :: "json \<Rightarrow> (bool \<times> int) decoded" where
  "decodeTyping v = (case struct_members (Some v) of
       Inl e \<Rightarrow> Inl e
     | Inr ms \<Rightarrow>
         (let (typing, b1) = dec_bool (field_vals ''typing'' ms);
              (timeout, b2) = dec_int64 (field_vals ''timeout'' ms)
          in if b1 \<or> b2 then Inl type_error else Inr (typing, timeout)))"

definition putTyping :: "handler \<Rightarrow> http_handler" where
  "putTyping h r =
     requireUser ''M_MISSING_TOKEN'' ''Missing access token'' r (\<lambda>tokenUserID.
       (let roomID = PathValue r ''roomId'';
            userID = PathValue r ''userId''
        in if tokenUserID \<noteq> userID then WriteMatrixError 403 ''M_FORBIDDEN'' ''Cannot set typing state for another user''
           else (case ParseBody r decodeTyping of
               Inl _ \<Rightarrow> WriteMatrixError 400 ''M_NOT_JSON'' ''Invalid JSON body''
             | Inr (typing, timeout) \<Rightarrow>
                 bindM (catchM (SetTyping userID roomID typing timeout)) (\<lambda>res. case res of
                     Inl e \<Rightarrow>
                       if errors_is e ErrForbidden then WriteMatrixError 403 ''M_FORBIDDEN'' ''User is not in the room''
                       else WriteMatrixError 500 ''M_UNKNOWN'' ''Failed to update typing state''
                   | Inr _ \<Rightarrow> WriteJSON 200 emptyJSON))))"

definition getRoomMembers :: "handler \<Rightarrow> http_handler" where
  "getRoomMembers h r =
     requireUser ''M_MISSING_TOKEN'' ''Missing access token'' r (\<lambda>userID.
       (let roomID = PathValue r ''roomId'' in
        if roomID = '''' then WriteMatrixError 400 ''M_MISSING_PARAM'' ''Missing roomId''
        else bindM (catchM (GetRoomMembers userID roomID (QueryGet r ''membership'') (QueryGet r ''not_membership''))) (\<lambda>res. case res of
            Inl e \<Rightarrow>
              if errors_is e ErrForbidden then WriteMatrixError 403 ''M_FORBIDDEN'' ''You are not in this room''
              else WriteMatrixError 500 ''M_UNKNOWN'' ''Failed to get room members''
          | Inr events \<Rightarrow> WriteJSON 200 (Chunk events))))"

end
