(* ===== verification/Account_Routes.thy ===== *)
theory Account_Routes
  imports Http
begin

text \<open>
  The handlers of the account endpoints under \<^verbatim>\<open>internal/delivery/http_adapter/client\<close>: \<^verbatim>\<open>auth\<close>, \<^verbatim>\<open>account\<close>,
  \<^verbatim>\<open>profile\<close> and \<^verbatim>\<open>presence\<close>, each \<^verbatim>\<open>routes.go\<close> with its \<^verbatim>\<open>schemas.go\<close>.
\<close>

subsection \<open>Login\<close>

definition getAvailable :: "handler \<Rightarrow> http_handler" where
  "getAvailable h r =
     (if QueryGet r ''username'' = '''' then WriteMatrixError 400 ''M_INVALID_USERNAME'' ''empty username''
      else WriteJSON 200 (Json (JObj [(''available'', JBool True)])))"

definition getLogin :: "handler \<Rightarrow> http_handler" where
  "getLogin h r =
     WriteJSON 200 (Json (JObj [(''flows'', JArr [JObj [(''type'', JStr ''m.login.password'')]])]))"

record LoginRequest =
  lr_Type :: string
  lr_IdType :: string
  lr_IdUser :: string
  lr_Password :: string
  lr_DeviceID :: string
  lr_DisplayName :: string

definition decodeLogin :: "json \<Rightarrow> LoginRequest decoded" where
  "decodeLogin v = (case struct_members (Some v) of
       Inl e \<Rightarrow> Inl e
     | Inr ms \<Rightarrow>
         (let (tipo, b1) = dec_string (field_vals ''type'' ms);
              (ident, b2) = struct_field (field_vals ''identifier'' ms);
              (idType, b3) = dec_string (field_vals ''type'' ident);
              (idUser, b4) = dec_string (field_vals ''user'' ident);
              (password, b5) = dec_string (field_vals ''password'' ms);
              (token, b6) = dec_string (field_vals ''token'' ms);
              (device, b7) = dec_string (field_vals ''device_id'' ms);
              (name, b8) = dec_string (field_vals ''initial_device_display_name'' ms);
              (refresh, b9) = dec_bool (field_vals ''refresh_token'' ms)
          in if b1 \<or> b2 \<or> b3 \<or> b4 \<or> b5 \<or> b6 \<or> b7 \<or> b8 \<or> b9 then Inl type_error
             else Inr \<lparr>lr_Type = tipo, lr_IdType = idType, lr_IdUser = idUser, lr_Password = password,
                       lr_DeviceID = device, lr_DisplayName = name\<rparr>))"

definition loginReply :: "LoginSuccess \<Rightarrow> payload" where
  "loginReply ok = Json (JObj (
     [(''access_token'', JStr (ls_AccessToken ok)), (''device_id'', JStr (ls_DeviceID ok)),
      (''user_id'', JStr (ls_UserID ok)), (''expires_in_ms'', JNum (ls_ExpireMS ok))] @
     omitempty (ls_RefreshToken ok = '''') ''refresh_token'' (JStr (ls_RefreshToken ok))))"

definition loginError :: "handler \<Rightarrow> go_error \<Rightarrow> response op" where
  "loginError h e =
     (if errors_is e ErrUnimplemented then
        WriteMatrixError 501 ''M_UNKNOWN'' ''this indentification method is unsupported right now''
      else if errors_is e ErrInvalidCredentials then WriteMatrixError 401 ''M_FORBIDDEN'' ''invalid credentials''
      else WriteMatrixError 500 ''M_UNKNOWN'' (h_Error h e))"

definition postLogin :: "handler \<Rightarrow> http_handler" where
  "postLogin h r =
     bindM (liftO (DecodeBody r decodeLogin)) (\<lambda>d. case d of
         Inl e \<Rightarrow> WriteMatrixError 400 ''M_BAD_JSON'' (h_Error h e)
       | Inr payload \<Rightarrow>
           if lr_Type payload \<noteq> ''m.login.password'' then
             WriteMatrixError 400 ''M_UNRECOGNIZED'' ''Unsupported/Unknown auth type''
           else bindM (catchM (Login (h_auth h)
               \<lparr>lp_IdType = lr_IdType payload, lp_User = lr_IdUser payload, lp_Password = lr_Password payload,
                lp_DeviceID = lr_DeviceID payload, lp_DeviceName = lr_DisplayName payload, lp_DeviceIP = GetClientIP r\<rparr>)) (\<lambda>res.
             case res of Inl e \<Rightarrow> loginError h e | Inr ok \<Rightarrow> WriteJSON 200 (loginReply ok)))"

definition decodeRefresh :: "json \<Rightarrow> string decoded" where
  "decodeRefresh v = (case struct_members (Some v) of
       Inl e \<Rightarrow> Inl e
     | Inr ms \<Rightarrow> (let (token, bad) = dec_string (field_vals ''refresh_token'' ms) in if bad then Inl type_error else Inr token))"

definition refreshReply :: "string \<times> string \<times> int \<Rightarrow> payload" where
  "refreshReply p = (case p of (accessToken, refreshToken, expiresMS) \<Rightarrow> Json (JObj (
     [(''access_token'', JStr accessToken), (''expires_in_ms'', JNum expiresMS)] @
     omitempty (refreshToken = '''') ''refresh_token'' (JStr refreshToken))))"

definition postRefresh :: "handler \<Rightarrow> http_handler" where
  "postRefresh h r =
     (case ParseBody r decodeRefresh of
        Inl e \<Rightarrow> WriteError 400
          (if e = ErrNoBodyFound then \<lparr>me_ErrCode = ''M_NOT_JSON'', me_Message = ''No request body'', me_SoftLogout = False\<rparr>
           else \<lparr>me_ErrCode = ''M_BAD_JSON'', me_Message = ''Invalid request body'', me_SoftLogout = False\<rparr>)
      | Inr token \<Rightarrow>
          bindM (catchM (Refresh (h_auth h) token)) (\<lambda>res. case res of
              Inl _ \<Rightarrow> WriteMatrixError 401 ''M_UNAUTHORIZED'' ''Refresh token is invalid''
            | Inr p \<Rightarrow> WriteJSON 200 (refreshReply p)))"

text \<open>A missing device id panics, an empty one is an error.\<close>

definition postLogout :: "handler \<Rightarrow> http_handler" where
  "postLogout h r =
     contextUser r (\<lambda>userID. case hr_DeviceID r of
         None \<Rightarrow> panicM
       | Some deviceID \<Rightarrow>
           if deviceID = '''' then WriteMatrixError 500 ''M_UNKNOWN'' ''Missing device_id in context.''
           else bindM (catchM (Logout userID deviceID)) (\<lambda>res. case res of
               Inl _ \<Rightarrow> WriteMatrixError 500 ''M_UNKNOWN'' ''Failed to logout''
             | Inr _ \<Rightarrow> WriteJSON 200 emptyJSON))"

record RegisterRequest =
  rr_AuthSession :: string
  rr_AuthType :: string
  rr_InhibitLogin :: bool
  rr_Password :: string
  rr_Username :: string

definition decodeRegister :: "json \<Rightarrow> RegisterRequest decoded" where
  "decodeRegister v = (case struct_members (Some v) of
       Inl e \<Rightarrow> Inl e
     | Inr ms \<Rightarrow>
         (let (auth, b1) = struct_field (field_vals ''auth'' ms);
              (session, b2) = dec_string (field_vals ''session'' auth);
              (tipo, b3) = dec_string (field_vals ''type'' auth);
              (device, b4) = dec_string (field_vals ''device_id'' ms);
              (inhibit, b5) = dec_bool (field_vals ''inhibit_login'' ms);
              (name, b6) = dec_string (field_vals ''initial_device_display_name'' ms);
              (password, b7) = dec_string (field_vals ''password'' ms);
              (refresh, b8) = dec_bool (field_vals ''refresh_token'' ms);
              (username, b9) = dec_string (field_vals ''username'' ms)
          in if b1 \<or> b2 \<or> b3 \<or> b4 \<or> b5 \<or> b6 \<or> b7 \<or> b8 \<or> b9 then Inl type_error
             else Inr \<lparr>rr_AuthSession = session, rr_AuthType = tipo, rr_InhibitLogin = inhibit, rr_Password = password,
                       rr_Username = username\<rparr>))"

definition registerReply :: "LoginSuccess \<Rightarrow> payload" where
  "registerReply ok = Json (JObj (
     [(''user_id'', JStr (ls_UserID ok))] @
     omitempty (ls_AccessToken ok = '''') ''access_token'' (JStr (ls_AccessToken ok)) @
     omitempty (ls_DeviceID ok = '''') ''device_id'' (JStr (ls_DeviceID ok)) @
     [(''expires_in_ms'', JNum (ls_ExpireMS ok))] @
     omitempty (ls_RefreshToken ok = '''') ''refresh_token'' (JStr (ls_RefreshToken ok))))"

definition registerFlows :: json where
  "registerFlows = JObj
     [(''flows'', JArr [JObj [(''stages'', JArr [JStr ''m.login.password''])]]), (''params'', JObj []), (''session'', JStr ''1234'')]"

definition postRegister :: "handler \<Rightarrow> http_handler" where
  "postRegister h r =
     (case ParseBody r decodeRegister of
        Inl _ \<Rightarrow> WriteMatrixError 400 ''M_BAD_JSON'' ''Invalid request body''
      | Inr req \<Rightarrow>
          if rr_AuthType req = '''' \<and> rr_AuthSession req = '''' then WriteJSON 401 (Json registerFlows)
          else bindM (catchM (Register (h_auth h) (rr_Username req) (rr_Password req))) (\<lambda>res. case res of
              Inl e \<Rightarrow>
                if e = ErrAlreadyInUse then WriteMatrixError 400 ''M_USER_IN_USE'' ''Username already exists''
                else WriteMatrixError 500 ''M_UNKNOWN'' (h_Error h e)
            | Inr userID \<Rightarrow>
                if rr_InhibitLogin req then WriteJSON 200 (Json (JObj [(''user_id'', JStr userID)]))
                else bindM (catchM (Login (h_auth h)
                    \<lparr>lp_IdType = ''m.id.user'', lp_User = userID, lp_Password = rr_Password req, lp_DeviceID = '''',
                     lp_DeviceName = '''', lp_DeviceIP = ''''\<rparr>)) (\<lambda>res. case res of
                    Inl e \<Rightarrow> loginError h e
                  | Inr ok \<Rightarrow> WriteJSON 200 (registerReply ok))))"

subsection \<open>Account data\<close>

definition whoami :: "handler \<Rightarrow> http_handler" where
  "whoami h r =
     requireUser ''M_UNKNOWN_TOKEN'' ''Unrecognised access token.'' r (\<lambda>userID.
       (let deviceID = (case hr_DeviceID r of None \<Rightarrow> '''' | Some d \<Rightarrow> d)
        in WriteJSON 200 (Json (JObj (omitempty (deviceID = '''') ''device_id'' (JStr deviceID) @ [(''user_id'', JStr userID)])))))"

text \<open>The user is the one of the path; that it is the one of the token is not asked.\<close>

definition saveAccountData :: "request \<Rightarrow> string \<Rightarrow> string \<Rightarrow> string \<Rightarrow> response op" where
  "saveAccountData r userID roomID tipo =
     (case ParseBody r decodeRaw of
        Inl _ \<Rightarrow> WriteMatrixError 400 ''M_NOT_JSON'' ''Request body must be JSON''
      | Inr raw \<Rightarrow>
          bindM (catchM (PutUserAccountData userID roomID tipo raw)) (\<lambda>res. case res of
              Inl _ \<Rightarrow> WriteMatrixError 500 ''M_UNKNOWN'' ''Failed to save account data''
            | Inr _ \<Rightarrow> WriteJSON 200 emptyJSON))"

definition readAccountData :: "string \<Rightarrow> string \<Rightarrow> string \<Rightarrow> response op" where
  "readAccountData userID roomID tipo =
     bindM (catchM (GetUserAccountData userID roomID tipo)) (\<lambda>res. case res of
         Inl _ \<Rightarrow> WriteMatrixError 500 ''M_UNKNOWN'' ''Failed to get account data''
       | Inr None \<Rightarrow> WriteMatrixError 404 ''M_NOT_FOUND'' ''Account data not found''
       | Inr (Some acct) \<Rightarrow> WriteJSON 200 (UserAccountData acct))"

definition putUserAccountData :: "handler \<Rightarrow> http_handler" where
  "putUserAccountData h r =
     (let userID = PathValue r ''userId''; tipo = PathValue r ''type'' in
      if userID = '''' \<or> tipo = '''' then WriteMatrixError 400 ''M_INVALID_PARAM'' ''Missing path parameters''
      else saveAccountData r userID '''' tipo)"

definition getUserAccountData :: "handler \<Rightarrow> http_handler" where
  "getUserAccountData h r =
     (let userID = PathValue r ''userId''; tipo = PathValue r ''type'' in
      if userID = '''' \<or> tipo = '''' then WriteMatrixError 400 ''M_INVALID_PARAM'' ''Missing path parameters''
      else readAccountData userID '''' tipo)"

definition putRoomAccountData :: "handler \<Rightarrow> http_handler" where
  "putRoomAccountData h r =
     (let userID = PathValue r ''userId''; roomID = PathValue r ''roomId''; tipo = PathValue r ''type'' in
      if userID = '''' \<or> roomID = '''' \<or> tipo = '''' then WriteMatrixError 400 ''M_INVALID_PARAM'' ''Missing path parameters''
      else saveAccountData r userID roomID tipo)"

definition getRoomAccountData :: "handler \<Rightarrow> http_handler" where
  "getRoomAccountData h r =
     (let userID = PathValue r ''userId''; roomID = PathValue r ''roomId''; tipo = PathValue r ''type'' in
      if userID = '''' \<or> roomID = '''' \<or> tipo = '''' then WriteMatrixError 400 ''M_INVALID_PARAM'' ''Missing path parameters''
      else readAccountData userID roomID tipo)"

subsection \<open>Profile\<close>

definition getProfile :: "handler \<Rightarrow> http_handler" where
  "getProfile h r =
     bindM (catchM (GetProfileByUserID (h_sv h) (PathValue r ''userId''))) (\<lambda>res. case res of
         Inl e \<Rightarrow>
           if e = ErrNotFound then WriteMatrixError 404 ''M_NOT_FOUND'' ''Profile not found''
           else WriteMatrixError 500 ''M_UNKNOWN'' ''Internal server error''
       | Inr profile \<Rightarrow> WriteJSON 200 (UserProfile profile))"

definition getProfileKey :: "handler \<Rightarrow> http_handler" where
  "getProfileKey h r =
     (let keyName = PathValue r ''keyName''
      in bindM (catchM (GetProfileByUserID (h_sv h) (PathValue r ''userId''))) (\<lambda>res. case res of
           Inl e \<Rightarrow>
             if e = ErrNotFound then WriteMatrixError 404 ''M_NOT_FOUND'' ''User not found''
             else WriteMatrixError 500 ''M_UNKNOWN'' ''Internal server error''
         | Inr usuario \<Rightarrow>
             if keyName = ''displayname'' then WriteJSON 200 (Json (JObj [(keyName, string_ptr_json (p_DisplayName usuario))]))
             else if keyName = ''avatar_url'' then WriteJSON 200 (Json (JObj [(keyName, string_ptr_json (p_AvatarURL usuario))]))
             else WriteMatrixError 400 ''M_BAD_JSON'' ''Invalid profile key''))"

text \<open>A \<open>map[string]string\<close>.\<close>

definition decodeStringMap :: "json \<Rightarrow> (string \<times> string) list decoded" where
  "decodeStringMap v =
     (let (m, bad) = dec_map elem_string [v] in if bad then Inl type_error else Inr m)"

definition putProfileKey :: "handler \<Rightarrow> http_handler" where
  "putProfileKey h r =
     (let userID = PathValue r ''userId''; keyName = PathValue r ''keyName''
      in contextUser r (\<lambda>loggedUser.
           if loggedUser \<noteq> userID then WriteMatrixError 403 ''M_FORBIDDEN'' ''User not authorized''
           else (case ParseBody r decodeStringMap of
               Inl _ \<Rightarrow> WriteMatrixError 400 ''M_NOT_JSON'' ''Request body must be JSON''
             | Inr reqBody \<Rightarrow>
                 (case map_of reqBody keyName of
                    None \<Rightarrow> WriteMatrixError 400 ''M_BAD_JSON'' ''Missing key in request body''
                  | Some novoValor \<Rightarrow>
                      bindM (catchM (UpdateProfile (h_sv h) userID
                          (if keyName = ''displayname'' then Some novoValor else None)
                          (if keyName = ''avatar_url'' then Some novoValor else None))) (\<lambda>res. case res of
                          Inl e \<Rightarrow>
                            if e = ErrNotFound then WriteMatrixError 404 ''M_NOT_FOUND'' ''User not found''
                            else WriteMatrixError 500 ''M_UNKNOWN'' (''Database Error: %w'' @ h_Error h e)
                        | Inr _ \<Rightarrow> WriteJSON 200 emptyJSON)))))"

text \<open>Unlike the change of a key, its removal does not compare the user with the one of the token.\<close>

definition deleteProfileKey :: "handler \<Rightarrow> http_handler" where
  "deleteProfileKey h r =
     (let userID = PathValue r ''userId''; keyName = PathValue r ''keyName''
      in bindM (catchM (UpdateProfile (h_sv h) userID
            (if keyName = ''displayname'' then Some '''' else None)
            (if keyName = ''avatar_url'' then Some '''' else None))) (\<lambda>res. case res of
            Inl _ \<Rightarrow> WriteMatrixError 500 ''M_UNKNOWN'' ''Database error''
          | Inr _ \<Rightarrow> WriteJSON 200 emptyJSON))"

subsection \<open>Presence\<close>

definition getPresenceStatus :: "handler \<Rightarrow> http_handler" where
  "getPresenceStatus h r =
     requireUser ''M_MISSING_TOKEN'' ''Missing or invalid auth token'' r (\<lambda>requesterID.
       bindM (catchM (GetStatus requesterID (PathValue r ''userId''))) (\<lambda>res. case res of
           Inl e \<Rightarrow>
             if errors_is e ErrForbidden then WriteMatrixError 403 ''M_FORBIDDEN'' ''You are not allowed to see their presence''
             else if errors_is e ErrNotFound then WriteMatrixError 404 ''M_UNKNOWN'' ''There is no presence state for this user''
             else WriteMatrixError 500 ''M_UNKNOWN'' ''Failed to fetch presence''
         | Inr presence \<Rightarrow>
             bindM nowM (\<lambda>now. WriteJSON 200 (Json (JObj (
               [(''currently_active'', JBool False), (''last_active_ago'', JNum (now - pn_LastActiveAt presence)),
                (''presence'', JStr (pn_State presence))] @
               (case pn_StatusMsg presence of None \<Rightarrow> [] | Some m \<Rightarrow> [(''status_msg'', JStr m)])))))))"

definition decodePresence :: "json \<Rightarrow> (string \<times> string option) decoded" where
  "decodePresence v = (case struct_members (Some v) of
       Inl e \<Rightarrow> Inl e
     | Inr ms \<Rightarrow>
         (let (presence, b1) = dec_string (field_vals ''presence'' ms);
              (msg, b2) = dec_string_ptr (field_vals ''status_msg'' ms)
          in if b1 \<or> b2 then Inl type_error else Inr (presence, msg)))"

definition putPresenceStatus :: "handler \<Rightarrow> http_handler" where
  "putPresenceStatus h r =
     requireUser ''M_MISSING_TOKEN'' ''Missing or invalid auth token'' r (\<lambda>requesterID.
       if requesterID \<noteq> PathValue r ''userId'' then
         WriteMatrixError 403 ''M_FORBIDDEN'' ''You cannot set the presence state of another user''
       else (case ParseBody r decodePresence of
           Inl e \<Rightarrow> bodyError e
         | Inr (presence, msg) \<Rightarrow>
             if presence = '''' then WriteMatrixError 400 ''M_MISSING_PARAM'' ''presence is required''
             else bindM (catchM (SetStatus requesterID presence msg)) (\<lambda>res. case res of
                 Inl e \<Rightarrow>
                   if errors_is e ErrInvalidParam then WriteMatrixError 400 ''M_INVALID_PARAM'' ''Invalid presence state''
                   else WriteMatrixError 500 ''M_UNKNOWN'' ''Failed to update presence''
               | Inr _ \<Rightarrow> WriteJSON 200 emptyJSON)))"

end
