(* ===== verification/Keys_Routes.thy ===== *)
theory Keys_Routes
  imports Http
begin

text \<open>
  The handlers under \<^verbatim>\<open>internal/delivery/http_adapter/client/roomkeys\<close> (key backups, device keys,
  cross-signing: \<^verbatim>\<open>routes.go\<close>, \<^verbatim>\<open>device_keys_routes.go\<close>, \<^verbatim>\<open>cross_signing_routes.go\<close> and their schemas) and
  \<^verbatim>\<open>client/media/routes.go\<close>. The order in which Go iterates over a decoded map is that of the list.
\<close>

subsection \<open>Key backups\<close>

abbreviation requireKeysUser :: "request \<Rightarrow> (string \<Rightarrow> response op) \<Rightarrow> response op" where
  "requireKeysUser \<equiv> requireUser ''M_MISSING_TOKEN'' ''Missing or invalid auth token''"

definition getLatestVersion :: "handler \<Rightarrow> http_handler" where
  "getLatestVersion h r =
     requireKeysUser r (\<lambda>userID.
       bindM (catchM (GetLatestBackupVersion userID)) (\<lambda>res. case res of
           Inl e \<Rightarrow>
             if errors_is e ErrBackupNotFound then WriteMatrixError 404 ''M_NOT_FOUND'' ''No current backup version''
             else WriteMatrixError 500 ''M_UNKNOWN'' ''Failed to fetch backup version''
         | Inr backup \<Rightarrow> WriteJSON 200 (Json (JObj
             [(''algorithm'', JStr (v_Algorithm backup)), (''auth_data'', raw_json (v_AuthData backup)),
              (''count'', JNum (v_Count backup)), (''etag'', JStr (v_ETag backup)),
              (''version'', JStr (VersionString backup))]))))"

definition decodeCreateVersion :: "json \<Rightarrow> (string \<times> raw) decoded" where
  "decodeCreateVersion v = (case struct_members (Some v) of
       Inl e \<Rightarrow> Inl e
     | Inr ms \<Rightarrow>
         (let (algorithm, bad) = dec_string (field_vals ''algorithm'' ms)
          in if bad then Inl type_error else Inr (algorithm, dec_raw (field_vals ''auth_data'' ms))))"

definition createVersion :: "handler \<Rightarrow> http_handler" where
  "createVersion h r =
     requireKeysUser r (\<lambda>userID. case ParseBody r decodeCreateVersion of
         Inl _ \<Rightarrow> WriteMatrixError 400 ''M_NOT_JSON'' ''Request did not contain valid JSON''
       | Inr (algorithm, authData) \<Rightarrow>
           if algorithm = '''' \<or> authData = None then
             WriteMatrixError 400 ''M_MISSING_PARAM'' ''Missing algorithm or auth_data''
           else bindM (catchM (CreateBackupVersion
               \<lparr>cbp_UserID = userID, cbp_Algorithm = algorithm, cbp_AuthData = authData\<rparr>)) (\<lambda>res. case res of
               Inl _ \<Rightarrow> WriteMatrixError 500 ''M_UNKNOWN'' ''Failed to create backup version''
             | Inr backup \<Rightarrow> WriteJSON 200 (Json (JObj [(''version'', JStr (VersionString backup))]))))"

text \<open>A later key of the same room and session replaces an earlier one.\<close>

definition groupStep :: "RoomKeyBackups \<Rightarrow> ChaveBackup \<Rightarrow> RoomKeyBackups" where
  "groupStep rooms k =
     AList.update (c_IDCanal k)
       (AList.update (c_IDSessao k)
          \<lparr>bd_FirstMessageIndex = c_FirstMessageIndex k, bd_ForwardedCount = c_ForwardedCount k,
           bd_IsVerified = c_IsVerified k, bd_SessionData = c_SessionData k\<rparr>
          (map_at (c_IDCanal k) rooms)) rooms"

definition groupRoomKeys :: "ChaveBackup list \<Rightarrow> RoomKeyBackups" where
  "groupRoomKeys ks = foldl groupStep [] ks"

definition flattenSession :: "string \<Rightarrow> string \<times> RoomKeyBackupData \<Rightarrow> ChaveBackup" where
  "flattenSession roomID p = (case p of (sessionID, dat) \<Rightarrow>
     \<lparr>c_IDVersao = 0, c_IDCanal = roomID, c_IDSessao = sessionID, c_FirstMessageIndex = bd_FirstMessageIndex dat,
      c_ForwardedCount = bd_ForwardedCount dat, c_IsVerified = bd_IsVerified dat, c_SessionData = bd_SessionData dat\<rparr>)"

definition flattenRoomKeys :: "RoomKeyBackups \<Rightarrow> ChaveBackup list" where
  "flattenRoomKeys rooms = concat (map (\<lambda>(roomID, sessions). map (flattenSession roomID) sessions) rooms)"

definition getRoomKeys :: "handler \<Rightarrow> http_handler" where
  "getRoomKeys h r =
     requireKeysUser r (\<lambda>userID.
       (let version = QueryGet r ''version'' in
        if version = '''' then WriteMatrixError 400 ''M_MISSING_PARAM'' ''Missing version query parameter''
        else bindM (catchM (GetRoomKeys userID version)) (\<lambda>res. case res of
            Inl e \<Rightarrow>
              if errors_is e ErrBackupNotFound then WriteMatrixError 404 ''M_NOT_FOUND'' ''Unknown backup version''
              else WriteMatrixError 500 ''M_UNKNOWN'' ''Failed to fetch room keys''
          | Inr ks \<Rightarrow> WriteJSON 200 (RoomKeys (groupRoomKeys ks)))))"

definition decodeSession :: "json \<Rightarrow> RoomKeyBackupData \<times> bool" where
  "decodeSession v =
     (let (ms, b0) = (case struct_members (Some v) of Inl _ \<Rightarrow> ([], True) | Inr ms \<Rightarrow> (ms, False));
          (idx, b1) = dec_int64 (field_vals ''first_message_index'' ms);
          (fwd, b2) = dec_int64 (field_vals ''forwarded_count'' ms);
          (ver, b3) = dec_bool (field_vals ''is_verified'' ms)
      in (\<lparr>bd_FirstMessageIndex = idx, bd_ForwardedCount = fwd, bd_IsVerified = ver,
           bd_SessionData = dec_raw (field_vals ''session_data'' ms)\<rparr>, b0 \<or> b1 \<or> b2 \<or> b3))"

definition decodeRoomBackup :: "json \<Rightarrow> (string \<times> RoomKeyBackupData) list \<times> bool" where
  "decodeRoomBackup v = (case struct_members (Some v) of
       Inl _ \<Rightarrow> ([], True)
     | Inr ms \<Rightarrow> dec_map decodeSession (field_vals ''sessions'' ms))"

definition decodePutRoomKeys :: "json \<Rightarrow> RoomKeyBackups decoded" where
  "decodePutRoomKeys v = (case struct_members (Some v) of
       Inl e \<Rightarrow> Inl e
     | Inr ms \<Rightarrow>
         (let (rooms, bad) = dec_map decodeRoomBackup (field_vals ''rooms'' ms)
          in if bad then Inl type_error else Inr rooms))"

text \<open>\<open>errors.As(err, &wrongVersion)\<close>: the first error of that kind in the chain.\<close>

fun wrong_version :: "go_error \<Rightarrow> string option" where
  "wrong_version (ErrWrongVersion v) = Some v"
| "wrong_version (Wrapf s e) = wrong_version e"
| "wrong_version (Joined a b) = (case wrong_version a of Some v \<Rightarrow> Some v | None \<Rightarrow> wrong_version b)"
| "wrong_version e = None"

definition updateReply :: "int \<times> string \<Rightarrow> payload" where
  "updateReply p = (case p of (n, etag) \<Rightarrow> Json (JObj [(''count'', JNum n), (''etag'', JStr etag)]))"

definition putRoomKeys :: "handler \<Rightarrow> http_handler" where
  "putRoomKeys h r =
     requireKeysUser r (\<lambda>userID.
       (let version = QueryGet r ''version'' in
        if version = '''' then WriteMatrixError 400 ''M_MISSING_PARAM'' ''Missing version query parameter''
        else (case ParseBody r decodePutRoomKeys of
            Inl _ \<Rightarrow> WriteMatrixError 400 ''M_NOT_JSON'' ''Request did not contain valid JSON''
          | Inr rooms \<Rightarrow>
              bindM (catchM (PutRoomKeys \<lparr>prk_UserID = userID, prk_Version = version, prk_Keys = flattenRoomKeys rooms\<rparr>)) (\<lambda>res.
                case res of
                  Inl e \<Rightarrow>
                    (case wrong_version e of
                       Some current \<Rightarrow> WriteJSON 403 (Json (JObj
                         [(''errcode'', JStr ''M_WRONG_ROOM_KEYS_VERSION''), (''error'', JStr ''Wrong backup version.''),
                          (''current_version'', JStr current)]))
                     | None \<Rightarrow>
                         if errors_is e ErrBackupNotFound then WriteMatrixError 404 ''M_NOT_FOUND'' ''Unknown backup version''
                         else WriteMatrixError 500 ''M_UNKNOWN'' ''Failed to store room keys'')
                | Inr p \<Rightarrow> WriteJSON 200 (updateReply p)))))"

definition deleteRoomKeys :: "handler \<Rightarrow> http_handler" where
  "deleteRoomKeys h r =
     requireKeysUser r (\<lambda>userID.
       (let version = QueryGet r ''version'' in
        if version = '''' then WriteMatrixError 400 ''M_MISSING_PARAM'' ''Missing version query parameter''
        else bindM (catchM (DeleteRoomKeys userID version)) (\<lambda>res. case res of
            Inl e \<Rightarrow>
              if errors_is e ErrBackupNotFound then WriteMatrixError 404 ''M_NOT_FOUND'' ''Unknown backup version''
              else WriteMatrixError 500 ''M_UNKNOWN'' ''Failed to delete room keys''
          | Inr p \<Rightarrow> WriteJSON 200 (updateReply p))))"

subsection \<open>Device keys\<close>

record DeviceKeysUpload =
  du_Algorithms :: "string list"
  du_DeviceID :: string
  du_Keys :: raw
  du_Signatures :: raw
  du_UserID :: string

record UploadKeysRequest =
  ukr_DeviceKeys :: "DeviceKeysUpload option"
  ukr_OneTimeKeys :: "(string \<times> json) list"
  ukr_FallbackKeys :: "(string \<times> json) list"

definition decodeDeviceKeys :: "(string \<times> json) list \<Rightarrow> DeviceKeysUpload \<times> bool" where
  "decodeDeviceKeys ms =
     (let (algs, b1) = dec_strings (field_vals ''algorithms'' ms);
          (dev, b2) = dec_string (field_vals ''device_id'' ms);
          (user, b3) = dec_string (field_vals ''user_id'' ms)
      in (\<lparr>du_Algorithms = algs, du_DeviceID = dev, du_Keys = dec_raw (field_vals ''keys'' ms),
           du_Signatures = dec_raw (field_vals ''signatures'' ms), du_UserID = user\<rparr>, b1 \<or> b2 \<or> b3))"

definition decodeUploadKeys :: "json \<Rightarrow> UploadKeysRequest decoded" where
  "decodeUploadKeys v = (case struct_members (Some v) of
       Inl e \<Rightarrow> Inl e
     | Inr ms \<Rightarrow>
         (let (dk, b1) = struct_ptr (field_vals ''device_keys'' ms);
              (otks, b2) = dec_map_raw (field_vals ''one_time_keys'' ms);
              (fbks, b3) = dec_map_raw (field_vals ''fallback_keys'' ms);
              b4 = (case dk of None \<Rightarrow> False | Some ds \<Rightarrow> snd (decodeDeviceKeys ds))
          in if b1 \<or> b2 \<or> b3 \<or> b4 then Inl type_error
             else Inr \<lparr>ukr_DeviceKeys = map_option (\<lambda>ds. fst (decodeDeviceKeys ds)) dk, ukr_OneTimeKeys = otks,
                       ukr_FallbackKeys = fbks\<rparr>))"

definition emptyUpload :: "UploadKeysRequest" where
  "emptyUpload = \<lparr>ukr_DeviceKeys = None, ukr_OneTimeKeys = [], ukr_FallbackKeys = []\<rparr>"

definition uploadParams :: "string \<Rightarrow> string \<Rightarrow> UploadKeysRequest \<Rightarrow> UploadKeysParams" where
  "uploadParams userID deviceID req =
     (let dk = ukr_DeviceKeys req
      in \<lparr>uk_UserID = userID, uk_DeviceID = deviceID,
          uk_Algorithms = (case dk of None \<Rightarrow> [] | Some d \<Rightarrow> du_Algorithms d),
          uk_IdentityKeys = (case dk of None \<Rightarrow> None | Some d \<Rightarrow> du_Keys d),
          uk_Signatures = (case dk of None \<Rightarrow> None | Some d \<Rightarrow> du_Signatures d),
          uk_OneTimeKeys = ukr_OneTimeKeys req, uk_FallbackKeys = ukr_FallbackKeys req\<rparr>)"

definition uploadKeys :: "handler \<Rightarrow> http_handler" where
  "uploadKeys h r =
     requireKeysUser r (\<lambda>userID.
       (let deviceID = (case hr_DeviceID r of None \<Rightarrow> '''' | Some d \<Rightarrow> d) in
        if deviceID = '''' then WriteMatrixError 401 ''M_MISSING_TOKEN'' ''Missing device_id in context''
        else (case (case ParseBody r decodeUploadKeys of
                      Inl e \<Rightarrow> if e = ErrNoBodyFound then Inr emptyUpload else Inl e | Inr req \<Rightarrow> Inr req) of
            Inl _ \<Rightarrow> WriteMatrixError 400 ''M_NOT_JSON'' ''Request did not contain valid JSON''
          | Inr req \<Rightarrow>
              (let dk = ukr_DeviceKeys req in
               if (case dk of None \<Rightarrow> False | Some d \<Rightarrow> du_UserID d \<noteq> '''' \<and> du_UserID d \<noteq> userID) then
                 WriteMatrixError 400 ''M_BAD_JSON'' ''device_keys.user_id does not match the authenticated user''
               else if (case dk of None \<Rightarrow> False | Some d \<Rightarrow> du_DeviceID d \<noteq> '''' \<and> du_DeviceID d \<noteq> deviceID) then
                 WriteMatrixError 400 ''M_BAD_JSON'' ''device_keys.device_id does not match the authenticated device''
               else bindM (catchM (UploadKeys (uploadParams userID deviceID req))) (\<lambda>res. case res of
                   Inl _ \<Rightarrow> WriteMatrixError 500 ''M_UNKNOWN'' ''Failed to upload keys''
                 | Inr counts \<Rightarrow> WriteJSON 200 (OneTimeKeyCounts counts))))))"

definition decodeQueryKeys :: "json \<Rightarrow> key_query decoded" where
  "decodeQueryKeys v = (case struct_members (Some v) of
       Inl e \<Rightarrow> Inl e
     | Inr ms \<Rightarrow>
         (let (ks, b1) = dec_map elem_strings (field_vals ''device_keys'' ms);
              (timeout, b2) = dec_int64 (field_vals ''timeout'' ms)
          in if b1 \<or> b2 then Inl type_error else Inr ks))"

definition deviceInfo :: "string \<Rightarrow> string \<times> ChavesDispositivo \<Rightarrow> string \<times> DeviceKeysInfo" where
  "deviceInfo userID p = (case p of (deviceID, k) \<Rightarrow>
     (deviceID, \<lparr>dk_Algorithms = cd_Algorithms k, dk_DeviceID = deviceID, dk_Keys = cd_Keys k,
                 dk_Signatures = cd_Signatures k, dk_UserID = userID, dk_DeviceDisplayName = cd_NomeDispositivo k\<rparr>))"

definition toCrossSigningKeyInfo :: "string \<times> ChaveCrossSigning \<Rightarrow> string \<times> CrossSigningKeyInfo" where
  "toCrossSigningKeyInfo p = (case p of (userID, k) \<Rightarrow>
     (userID, \<lparr>ci_Keys = kc_Keys k, ci_Signatures = kc_Signatures k, ci_Usage = [kc_Usage k], ci_UserID = userID\<rparr>))"

definition queryReply :: "QueryKeysResult \<Rightarrow> QueryKeysReply" where
  "queryReply result =
     \<lparr>qr_DeviceKeys = map (\<lambda>(userID, devices). (userID, map (deviceInfo userID) devices)) (qk_DeviceKeys result),
      qr_MasterKeys = map toCrossSigningKeyInfo (qk_MasterKeys result),
      qr_SelfSigningKeys = map toCrossSigningKeyInfo (qk_SelfSigningKeys result),
      qr_UserSigningKeys = map toCrossSigningKeyInfo (qk_UserSigningKeys result),
      qr_Failures = qk_Failures result\<rparr>"

definition queryKeys :: "handler \<Rightarrow> http_handler" where
  "queryKeys h r =
     (let requestingUserID = (case hr_UserID r of None \<Rightarrow> '''' | Some u \<Rightarrow> u) in
      case ParseBody r decodeQueryKeys of
        Inl _ \<Rightarrow> WriteMatrixError 400 ''M_NOT_JSON'' ''Request did not contain valid JSON''
      | Inr req \<Rightarrow>
          bindM (QueryKeys (h_sv h) requestingUserID req) (\<lambda>result.
            WriteJSON 200 (DeviceKeys (queryReply result))))"

definition decodeClaimKeys :: "json \<Rightarrow> claims decoded" where
  "decodeClaimKeys v = (case struct_members (Some v) of
       Inl e \<Rightarrow> Inl e
     | Inr ms \<Rightarrow>
         (let (ks, b1) = dec_map (elem_map elem_string) (field_vals ''one_time_keys'' ms);
              (timeout, b2) = dec_int64 (field_vals ''timeout'' ms)
          in if b1 \<or> b2 then Inl type_error else Inr ks))"

definition claimKeys :: "handler \<Rightarrow> http_handler" where
  "claimKeys h r =
     (case ParseBody r decodeClaimKeys of
        Inl _ \<Rightarrow> WriteMatrixError 400 ''M_NOT_JSON'' ''Request did not contain valid JSON''
      | Inr req \<Rightarrow>
          bindM (ClaimKeys (h_sv h) req) (\<lambda>result.
            WriteJSON 200 (ClaimedKeys (cl_OneTimeKeys result) (cl_Failures result))))"

definition getKeyChanges :: "handler \<Rightarrow> http_handler" where
  "getKeyChanges h r = WriteJSON 200 (Json (JObj [(''changed'', JArr []), (''left'', JArr [])]))"

subsection \<open>Cross-signing\<close>

definition decodeUploadCross :: "json \<Rightarrow> (raw \<times> raw \<times> raw) decoded" where
  "decodeUploadCross v = (case struct_members (Some v) of
       Inl e \<Rightarrow> Inl e
     | Inr ms \<Rightarrow> Inr (dec_raw (field_vals ''master_key'' ms), dec_raw (field_vals ''self_signing_key'' ms),
                      dec_raw (field_vals ''user_signing_key'' ms)))"

definition uploadCrossSigningKeys :: "handler \<Rightarrow> http_handler" where
  "uploadCrossSigningKeys h r =
     requireKeysUser r (\<lambda>userID. case ParseBody r decodeUploadCross of
         Inl _ \<Rightarrow> WriteMatrixError 400 ''M_NOT_JSON'' ''Request did not contain valid JSON''
       | Inr (master, self, user) \<Rightarrow>
           if master = None \<and> self = None \<and> user = None then
             WriteMatrixError 400 ''M_MISSING_PARAM'' ''No signing keys provided''
           else bindM (catchM (UploadCrossSigningKeys
               \<lparr>uc_UserID = userID, uc_MasterKey = master, uc_SelfSigningKey = self, uc_UserSigningKey = user\<rparr>)) (\<lambda>res. case res of
               Inl e \<Rightarrow> WriteMatrixError 400 ''M_INVALID_PARAM'' (h_Error h e)
             | Inr _ \<Rightarrow> WriteJSON 200 emptyJSON))"

text \<open>\<open>map[string]map[string]json.RawMessage\<close>.\<close>

definition decodeSignatures :: "json \<Rightarrow> (string \<times> (string \<times> json) list) list decoded" where
  "decodeSignatures v =
     (let (m, bad) = dec_map (elem_map elem_raw) [v] in if bad then Inl type_error else Inr m)"

definition uploadSignatures :: "handler \<Rightarrow> http_handler" where
  "uploadSignatures h r = (case hr_UserID r of
       None \<Rightarrow> WriteMatrixError 401 ''M_MISSING_TOKEN'' ''Missing or invalid auth token''
     | Some _ \<Rightarrow>
         (case ParseBody r decodeSignatures of
            Inl _ \<Rightarrow> WriteMatrixError 400 ''M_NOT_JSON'' ''Request did not contain valid JSON''
          | Inr req \<Rightarrow>
              bindM (UploadSignatures (h_sv h) req) (\<lambda>failures.
                WriteJSON 200 (SignatureFailures failures))))"

subsection \<open>Media\<close>

definition body_bytes :: "request \<Rightarrow> string \<times> go_error option" where
  "body_bytes r = (case hr_Body r of None \<Rightarrow> ('''', None) | Some b \<Rightarrow> (bo_Bytes b, bo_Error b))"

definition uploadMedia :: "handler \<Rightarrow> http_handler" where
  "uploadMedia h r =
     requireUser ''M_MISSING_TOKEN'' ''Missing or invalid auth token'' r (\<lambda>userID.
       (let ctype = HeaderGet r ''Content-Type'';
            contentType = (if ctype = '''' then ''application/octet-stream'' else ctype);
            filename = QueryGet r ''filename''
        in bindM (catchM (Upload (h_media h)
             \<lparr>up_Content = fst (body_bytes r), up_ReadError = snd (body_bytes r), up_ContentType = contentType,
              up_UploadName = filename, up_UploaderID = userID, up_Size = hr_ContentLength r\<rparr>)) (\<lambda>res. case res of
             Inl e \<Rightarrow>
               if errors_is e ErrMediaTooLarge then
                 WriteMatrixError 413 ''M_TOO_LARGE'' ''The file exceeds the maximum size allowed by the server.''
               else WriteMatrixError 500 ''M_UNKNOWN'' ''Failed to process upload.''
           | Inr uri \<Rightarrow> WriteJSON 200 (Json (JObj [(''content_uri'', JStr uri)])))))"

definition isInlineSafe :: "string \<Rightarrow> bool" where
  "isInlineSafe contentType \<longleftrightarrow> list_ex (\<lambda>p. has_prefix contentType p) [''image/'', ''audio/'', ''video/'', ''text/'']"

definition contentDisposition :: "DownloadResult \<Rightarrow> string" where
  "contentDisposition result =
     (let disposition = (if isInlineSafe (dr_ContentType result) then ''inline'' else ''attachment''); q = [char_of (34 :: nat)]
      in if dr_Filename result \<noteq> '''' then disposition @ ''; filename='' @ q @ dr_Filename result @ q else disposition)"

text \<open>A reader that fails after the header was written ends the body early.\<close>

definition writeMediaResponse :: "DownloadResult \<Rightarrow> response op" where
  "writeMediaResponse result =
     returnM \<lparr>rp_Status = 200,
       rp_Header = [(''Content-Type'', dr_ContentType result), (''Content-Disposition'', contentDisposition result)],
       rp_Body = Media result (contentDisposition result)\<rparr>"

definition writeDownloadError :: "go_error \<Rightarrow> response op" where
  "writeDownloadError e =
     (if errors_is e ErrMediaNotFound then WriteMatrixError 404 ''M_NOT_FOUND'' ''Media not found''
      else WriteMatrixError 500 ''M_UNKNOWN'' ''Failed to retrieve media'')"

definition sendMedia :: "DownloadResult op \<Rightarrow> response op" where
  "sendMedia m = bindM (catchM m) (\<lambda>res. case res of Inl e \<Rightarrow> writeDownloadError e | Inr result \<Rightarrow> writeMediaResponse result)"

definition downloadMedia :: "handler \<Rightarrow> http_handler" where
  "downloadMedia h r =
     (let srv = PathValue r ''serverName''; mediaID = PathValue r ''mediaId'' in
      if srv = '''' \<or> mediaID = '''' then WriteMatrixError 400 ''M_BAD_JSON'' ''Missing serverName or mediaId in path''
      else sendMedia (Download (h_media h) srv mediaID))"

definition thumbnailMedia :: "handler \<Rightarrow> http_handler" where
  "thumbnailMedia h r =
     (let srv = PathValue r ''serverName''; mediaID = PathValue r ''mediaId'' in
      if srv = '''' \<or> mediaID = '''' then WriteMatrixError 400 ''M_BAD_JSON'' ''Missing serverName or mediaId in path''
      else sendMedia (Thumbnail (h_media h) srv mediaID))"

definition mediaConfig :: "handler \<Rightarrow> http_handler" where
  "mediaConfig h r = WriteJSON 200 (Json (JObj [(''m.upload.size'', JNum (ms_maxSizeBytes (h_media h)))]))"

definition federationDownloadMedia :: "handler \<Rightarrow> http_handler" where
  "federationDownloadMedia h r =
     (let mediaID = PathValue r ''mediaId'' in
      if mediaID = '''' then WriteMatrixError 400 ''M_BAD_JSON'' ''Missing mediaId in path''
      else sendMedia (DownloadLocal (h_media h) mediaID))"

end
