(* ===== verification/Client_Routes.thy ===== *)
theory Client_Routes
  imports Rooms_Routes Account_Routes Keys_Routes
begin

text \<open>
  \<^verbatim>\<open>internal/delivery/http_adapter/client/routes.go\<close> and \<^verbatim>\<open>schemas.go\<close>: the handlers that belong to no sub-package,
  and the table of all client routes, which the \<open>RegisterRoutes\<close> methods of the sub-packages fill.
\<close>

subsection \<open>Fixed answers\<close>

definition supportedVersions :: "string list" where
  "supportedVersions =
     [''r0.0.1'', ''r0.1.0'', ''r0.2.0'', ''r0.3.0'', ''r0.4.0'', ''r0.5.0'', ''r0.6.0'', ''r0.6.1'', ''v1.1'', ''v1.2'', ''v1.3'',
      ''v1.4'', ''v1.5'', ''v1.6'', ''v1.8'', ''v1.9'', ''v1.11'', ''v1.18'']"

definition getVersions :: "handler \<Rightarrow> http_handler" where
  "getVersions h r = WriteJSON 200 (Json (JObj
     [(''versions'', JArr (map JStr supportedVersions)),
      (''unstable_features'', JObj [(''org.matrix.msc2967.refresh_tokens'', JBool True)])]))"

definition getPushRules :: "handler \<Rightarrow> http_handler" where
  "getPushRules h r = WriteJSON 200 (Json (JObj [(''global'', JObj [])]))"

definition uploadFilter :: "handler \<Rightarrow> http_handler" where
  "uploadFilter h r = (case ParseBody r decodeAnyMap of
       Inl e \<Rightarrow> bodyError e
     | Inr _ \<Rightarrow> WriteJSON 200 (Json (JObj [(''filter_id'', JStr ''0'')])))"

definition getFilter :: "handler \<Rightarrow> http_handler" where
  "getFilter h r =
     contextUser r (\<lambda>loggedUser.
       if loggedUser \<noteq> PathValue r ''userId'' then WriteMatrixError 403 ''M_FORBIDDEN'' ''User not authorized''
       else WriteJSON 200 emptyJSON)"

definition getCapabilities :: "handler \<Rightarrow> http_handler" where
  "getCapabilities h r = WriteJSON 200 (Json (JObj [(''capabilities'', JObj [(''m.room_versions'',
     JObj [(''default'', JStr ''11''), (''available'', JObj [(''11'', JStr ''stable'')])])])]))"

definition getThirdPartyProtocols :: "handler \<Rightarrow> http_handler" where
  "getThirdPartyProtocols h r = WriteJSON 200 emptyJSON"

subsection \<open>Users and rooms\<close>

definition decodeUserSearch :: "json \<Rightarrow> (string \<times> int) decoded" where
  "decodeUserSearch v = (case struct_members (Some v) of
       Inl e \<Rightarrow> Inl e
     | Inr ms \<Rightarrow>
         (let (term, b1) = dec_string (field_vals ''search_term'' ms);
              (limit, b2) = dec_int64 (field_vals ''limit'' ms)
          in if b1 \<or> b2 then Inl type_error else Inr (term, limit)))"

text \<open>The name and the avatar are dereferenced: a profile without one makes the handler panic.\<close>

definition userResult :: "Profile \<Rightarrow> UserSearchResult option" where
  "userResult u = (case (p_DisplayName u, p_AvatarURL u) of
       (Some name, Some avatar) \<Rightarrow> Some \<lparr>ur_UserID = p_IDUsuario u, ur_DisplayName = name, ur_AvatarURL = avatar\<rparr>
     | _ \<Rightarrow> None)"

definition searchUsers :: "handler \<Rightarrow> http_handler" where
  "searchUsers h r = (case ParseBody r decodeUserSearch of
       Inl e \<Rightarrow> bodyError e
     | Inr (term, reqLimit) \<Rightarrow>
         if term = '''' then WriteMatrixError 400 ''M_BAD_JSON'' ''search_term is required''
         else
           (let limit = (if reqLimit \<le> 0 then 10 else reqLimit)
            in contextUser r (\<lambda>userID.
                 bindM (catchM (SearchProfiles (h_ilike h) userID term limit)) (\<lambda>res. case res of
                     Inl _ \<Rightarrow> WriteMatrixError 500 ''M_UNKNOWN'' ''Search failed''
                   | Inr usuarios \<Rightarrow>
                       (let limited = int (length usuarios) > limit;
                            usuarios = (if limited then take (nat limit) usuarios else usuarios)
                        in if list_ex (\<lambda>u. userResult u = None) usuarios then panicM
                           else WriteJSON 200 (Users limited (map (\<lambda>u. the (userResult u)) usuarios)))))))"

definition getJoinedRooms :: "handler \<Rightarrow> http_handler" where
  "getJoinedRooms h r =
     contextUser r (\<lambda>userID.
       bindM (catchM (GetJoinedRooms userID)) (\<lambda>res. case res of
           Inl _ \<Rightarrow> WriteMatrixError 500 ''M_UNKNOWN'' ''failed to fetch joined rooms''
         | Inr roomIDs \<Rightarrow> WriteJSON 200 (RoomIDs roomIDs)))"

text \<open>
  The timeout is a number of milliseconds; a duration is kept in nanoseconds in 64 bits. A client that has gone
  gets status 499 without a body.
\<close>

definition syncClient :: "handler \<Rightarrow> http_handler" where
  "syncClient h r =
     contextUser r (\<lambda>userID.
       (let deviceID = (case hr_DeviceID r of None \<Rightarrow> '''' | Some d \<Rightarrow> d);
            since = ParseToken (QueryGet r ''since'');
            timeoutStr = QueryGet r ''timeout''
        in case (if timeoutStr \<noteq> '''' then ParseInt timeoutStr else Some 0) of
             None \<Rightarrow> WriteMatrixError 400 ''M_UNKNOWN'' ''could not parse timeout. Expected integer''
           | Some timeout \<Rightarrow>
               bindM (catchM (SyncClient (h_wait h) userID deviceID since (wrap64 (timeout * 1000000)))) (\<lambda>res. case res of
                   Inl e \<Rightarrow>
                     if hr_Canceled r then returnM \<lparr>rp_Status = 499, rp_Header = [], rp_Body = NoContent\<rparr>
                     else WriteMatrixError 500 ''M_UNKNOWN'' (h_Error h (Wrapf ''could not get events'' e))
                 | Inr response \<Rightarrow> WriteJSON 200 (SyncReply response))))"

text \<open>\<open>map[string]map[string]json.RawMessage\<close>, the messages of a request.\<close>

definition decodeSendToDevice :: "json \<Rightarrow> messages decoded" where
  "decodeSendToDevice v = (case struct_members (Some v) of
       Inl e \<Rightarrow> Inl e
     | Inr ms \<Rightarrow>
         (let (m, bad) = dec_map (elem_map elem_raw) (field_vals ''messages'' ms)
          in if bad then Inl type_error else Inr m))"

definition sendToDevice :: "handler \<Rightarrow> http_handler" where
  "sendToDevice h r =
     contextUser r (\<lambda>userID.
       (let eventType = PathValue r ''eventType'';
            txnID = PathValue r ''txnId'';
            accessToken = HeaderGet r ''Authorization'';
            endpoint = ''sendToDevice''
        in if eventType = '''' \<or> txnID = '''' then WriteMatrixError 400 ''M_MISSING_PARAM'' ''Missing eventType or txnId''
           else bindM (Cache_Get h accessToken endpoint txnID) (\<lambda>hit. case hit of
               Some _ \<Rightarrow> WriteJSON 200 emptyJSON
             | None \<Rightarrow>
                 (case ParseBody r decodeSendToDevice of
                    Inl _ \<Rightarrow> WriteMatrixError 400 ''M_NOT_JSON'' ''Request did not contain valid JSON''
                  | Inr ms \<Rightarrow>
                      bindM (catchM (Send (h_sv h) \<lparr>tp_Sender = userID, tp_EventType = eventType, tp_Messages = ms\<rparr>)) (\<lambda>res.
                        case res of
                          Inl _ \<Rightarrow> WriteMatrixError 500 ''M_UNKNOWN'' ''Failed to send messages''
                        | Inr _ \<Rightarrow>
                            bindM (catchM (Cache_Set h accessToken endpoint txnID ''ok'' day)) (\<lambda>_.
                              WriteJSON 200 emptyJSON))))))"

subsection \<open>Aliases\<close>

definition resolveRoomAlias :: "handler \<Rightarrow> http_handler" where
  "resolveRoomAlias h r =
     (let alias = PathValue r ''roomAlias''
      in bindM (catchM (ResolveAlias (h_sv h) alias)) (\<lambda>res. case res of
           Inl e \<Rightarrow>
             if errors_is e ErrNotFound then WriteMatrixError 404 ''M_NOT_FOUND'' (''Room alias '' @ alias @ '' not found.'')
             else if errors_is e ErrInvalidParam then WriteMatrixError 400 ''M_INVALID_PARAM'' ''Room alias invalid''
             else WriteMatrixError 500 ''M_UNKNOWN'' ''failed to resolve alias''
         | Inr (roomID, servers) \<Rightarrow> WriteJSON 200 (AliasOf roomID servers)))"

definition decodeSetAlias :: "json \<Rightarrow> string decoded" where
  "decodeSetAlias v = (case struct_members (Some v) of
       Inl e \<Rightarrow> Inl e
     | Inr ms \<Rightarrow> (let (roomID, bad) = dec_string (field_vals ''room_id'' ms) in if bad then Inl type_error else Inr roomID))"

definition setRoomAlias :: "handler \<Rightarrow> http_handler" where
  "setRoomAlias h r =
     (let alias = PathValue r ''roomAlias'' in
      case ParseBody r decodeSetAlias of
        Inl e \<Rightarrow> bodyError e
      | Inr roomID \<Rightarrow>
          if roomID = '''' then WriteMatrixError 400 ''M_MISSING_PARAM'' ''room_id is required''
          else bindM (catchM (CreateAlias (h_sv h) alias roomID)) (\<lambda>res. case res of
              Inl e \<Rightarrow>
                if errors_is e ErrInvalidParam then WriteMatrixError 400 ''M_INVALID_PARAM'' ''Room alias invalid''
                else if errors_is e ErrAlreadyInUse then
                  WriteMatrixError 409 ''M_UNKNOWN'' (''Room alias '' @ alias @ '' already exists.'')
                else WriteMatrixError 500 ''M_UNKNOWN'' ''failed to create alias''
            | Inr _ \<Rightarrow> WriteJSON 200 emptyJSON))"

definition deleteRoomAlias :: "handler \<Rightarrow> http_handler" where
  "deleteRoomAlias h r =
     (let alias = PathValue r ''roomAlias''
      in bindM (catchM (DeleteAlias (h_sv h) alias)) (\<lambda>res. case res of
           Inl e \<Rightarrow>
             if errors_is e ErrNotFound then WriteMatrixError 404 ''M_NOT_FOUND'' (''Room alias '' @ alias @ '' not found.'')
             else if errors_is e ErrInvalidParam then WriteMatrixError 400 ''M_INVALID_PARAM'' ''Room alias invalid''
             else WriteMatrixError 500 ''M_UNKNOWN'' ''failed to delete alias''
         | Inr _ \<Rightarrow> WriteJSON 200 emptyJSON))"

end
