(* ===== verification/Federation_Routes.thy ===== *)
theory Federation_Routes
  imports Rooms_Routes Keys_Routes
begin

text \<open>
  \<^verbatim>\<open>internal/delivery/http_adapter/federation/routes.go\<close> and \<^verbatim>\<open>schemas.go\<close>: the handlers other servers
  call, with the \<open>X-Matrix\<close> middleware; \<open>FetchRemoteServerKey\<close> of \<^verbatim>\<open>internal/util/crypto.go\<close>, the only key fetcher
  the server is built with, and \<open>FetchRemoteMedia\<close> of \<^verbatim>\<open>federation/client.go\<close>. Deadlines are left out, and so is
  what is only logged. A Go map is visited in the order of its list.
\<close>

subsection \<open>Public keys of other servers\<close>

text \<open>
  \<open>base64.RawStdEncoding.DecodeString\<close>: line ends are skipped, every other byte has to be in the alphabet, and a last
  group of one letter is an error; the bits of the last group that are left over are ignored.
\<close>

definition b64_value :: "char \<Rightarrow> nat option" where
  "b64_value c = first_index c (b64_alphabet False)"

fun b64_groups :: "nat list \<Rightarrow> string option" where
  "b64_groups [] = Some []"
| "b64_groups [a] = None"
| "b64_groups [a, b] = Some [char_of (a * 4 + b div 16)]"
| "b64_groups [a, b, c] = Some [char_of (a * 4 + b div 16), char_of (b mod 16 * 16 + c div 4)]"
| "b64_groups (a # b # c # d # es) =
     map_option (\<lambda>bs. char_of (a * 4 + b div 16) # char_of (b mod 16 * 16 + c div 4) # char_of (c mod 4 * 64 + d) # bs)
       (b64_groups es)"

definition RawStdDecoding :: "string \<Rightarrow> string decoded" where
  "RawStdDecoding s =
     (let vs = map b64_value (filter (\<lambda>c. of_char c \<notin> {10, 13 :: nat}) s)
      in if None \<in> set vs then Inl (ExtError ''illegal base64 data'')
         else (case b64_groups (map the vs) of
                 None \<Rightarrow> Inl (ExtError ''illegal base64 data'')
               | Some bs \<Rightarrow> Inr bs))"

definition decodeServerKeys :: "raw \<Rightarrow> (string \<times> string) list decoded" where
  "decodeServerKeys body = (case struct_members body of
       Inl e \<Rightarrow> Inl e
     | Inr ms \<Rightarrow>
         (let (ks, bad) = dec_map (\<lambda>e. case struct_members (Some e) of
                Inl _ \<Rightarrow> ('''', True) | Inr fs \<Rightarrow> dec_string (field_vals ''key'' fs)) (field_vals ''verify_keys'' ms)
          in if bad then Inl type_error else Inr ks))"

fun first_key :: "(string \<times> string) list \<Rightarrow> (string \<times> string) option" where
  "first_key [] = None"
| "first_key ((keyID, k) # ks) = (case RawStdDecoding k of Inl _ \<Rightarrow> first_key ks | Inr keyBytes \<Rightarrow> Some (keyID, keyBytes))"

definition FetchRemoteServerKey :: "string \<Rightarrow> (string \<times> string) op" where
  "FetchRemoteServerKey serverName =
     bindM (wrapM ''failed to resolve server name'' (ResolveServerName serverName)) (\<lambda>targetHost.
     bindM (wrapM ''failed to fetch key'' (http_do
       \<lparr>rq_method = ''GET'', rq_url = ''http://'' @ targetHost @ ''/_matrix/key/v2/server'', rq_auth = '''', rq_body = None\<rparr>)) (\<lambda>resp.
       if rs_status resp \<noteq> 200 then failM (Errorf ''unexpected status fetching key'')
       else
         bindM (wrapM ''failed to decode key response'' (liftE (decodeServerKeys (rs_body resp)))) (\<lambda>ks.
           case first_key ks of
             None \<Rightarrow> failM (Errorf (''no valid ed25519 key found for server '' @ serverName))
           | Some p \<Rightarrow> returnM p)))"

text \<open>\<open>ed25519.Verify\<close> panics when the public key does not have 32 bytes, which nothing checks before.\<close>

definition ed25519_Verify :: "handler \<Rightarrow> string \<Rightarrow> json \<Rightarrow> string \<Rightarrow> bool op" where
  "ed25519_Verify h pubKey msg sig = (if length pubKey \<noteq> 32 then panicM else returnM (h_verify h pubKey msg sig))"

subsection \<open>Media of other servers\<close>

text \<open>The bytes are those of the whole answer; the file name is left empty.\<close>

definition FetchRemoteMedia :: "string \<Rightarrow> string \<Rightarrow> DownloadResult op" where
  "FetchRemoteMedia serverName mediaID =
     bindM (wrapM ''falha ao conectar no servidor remoto'' (http_do
       \<lparr>rq_method = ''GET'',
        rq_url = ''http://'' @ serverName @ ''/_matrix/federation/v1/media/download/'' @ mediaID,
        rq_auth = '''', rq_body = None\<rparr>)) (\<lambda>resp.
       if rs_status resp = 404 then failM ErrMediaNotFound
       else if rs_status resp \<noteq> 200 then failM (Errorf ''servidor remoto retornou erro'')
       else returnM \<lparr>dr_Content = Some (rs_bytes resp), dr_ContentType = rs_ctype resp, dr_Filename = ''''\<rparr>)"

subsection \<open>X-Matrix\<close>

definition trim_quotes :: "string \<Rightarrow> string" where
  "trim_quotes s = trim_both (\<lambda>c. of_char c = (34 :: nat)) s"

text \<open>The parameters of the header, in a map; a part without an equals sign is skipped.\<close>

definition parseXMatrixHeader :: "string \<Rightarrow> (string \<times> string) list decoded" where
  "parseXMatrixHeader header =
     (if \<not> has_prefix header ''X-Matrix '' then Inl (Errorf ''not X-Matrix authorization'')
      else Inr (foldl (\<lambda>result part. case cut CHR ''='' part of
             (before, after, ok) \<Rightarrow>
               if ok then AList.update (trim_space before) (trim_quotes (trim_space after)) result else result) []
             (split_on CHR '','' (trim_prefix header ''X-Matrix ''))))"

definition unauthorized :: "string \<Rightarrow> response op" where
  "unauthorized message = WriteMatrixError 401 ''M_UNAUTHORIZED'' message"

text \<open>The value the origin signed: the body is part of it when there is one.\<close>

definition xMatrixObject :: "handler \<Rightarrow> request \<Rightarrow> string \<Rightarrow> json option \<Rightarrow> json" where
  "xMatrixObject h r origin content =
     JObj ([(''method'', JStr (hr_Method r)), (''uri'', JStr (hr_RequestURI r)), (''origin'', JStr origin),
            (''destination'', JStr (sv_serverName (h_sv h)))] @
           (case content of None \<Rightarrow> [] | Some c \<Rightarrow> [(''content'', c)]))"

text \<open>\<open>json.Unmarshal\<close> of the whole body; \<open>None\<close> when the body is empty.\<close>

definition xMatrixContent :: "body \<Rightarrow> json option decoded" where
  "xMatrixContent b =
     (if bo_Bytes b = '''' then Inr None
      else (case bo_Json b of
              Inl e \<Rightarrow> Inl e
            | Inr v \<Rightarrow> if bo_Rest b then Inl (JsonError ''invalid character after top-level value'') else Inr (Some (any_of_json v))))"

definition Store_Key :: "string \<Rightarrow> string \<Rightarrow> unit op" where
  "Store_Key cacheKey key = modifyM (\<lambda>w. w\<lparr>w_keyCache := AList.update cacheKey key (w_keyCache w)\<rparr>)"

text \<open>The public key to check with, from the cache or from the server itself; an error is the answer to give.\<close>

definition originKey :: "string \<Rightarrow> string \<Rightarrow> (string + string) op" where
  "originKey origin keyID =
     (let cacheKey = origin @ CHR ''/'' # keyID
      in bindM (getsM (\<lambda>w. map_of (w_keyCache w) cacheKey)) (\<lambda>hit. case hit of
           Some key \<Rightarrow> returnM (Inr key)
         | None \<Rightarrow>
             bindM (catchM (FetchRemoteServerKey origin)) (\<lambda>res. case res of
                 Inl _ \<Rightarrow> returnM (Inl ''failed to fetch server key'')
               | Inr (fetchedKeyID, fetchedKey) \<Rightarrow>
                   if fetchedKeyID \<noteq> keyID then returnM (Inl ''key ID mismatch'')
                   else bindM (Store_Key cacheKey fetchedKey) (\<lambda>_. returnM (Inr fetchedKey)))))"

text \<open>The last branch: whether the signature is right or not, the handler is called.\<close>

definition xMatrixMiddleware :: "handler \<Rightarrow> http_handler \<Rightarrow> http_handler" where
  "xMatrixMiddleware h nxt r = (case parseXMatrixHeader (HeaderGet r ''Authorization'') of
       Inl _ \<Rightarrow> unauthorized ''missing or invalid X-Matrix authorization''
     | Inr params \<Rightarrow>
         (let origin = assoc_string ''origin'' params;
              keyID = assoc_string ''key'' params;
              sig = assoc_string ''sig'' params;
              destination = assoc_string ''destination'' params
          in if origin = '''' \<or> keyID = '''' \<or> sig = '''' then unauthorized ''incomplete X-Matrix header''
             else if destination \<noteq> '''' \<and> destination \<noteq> sv_serverName (h_sv h) then
               unauthorized ''X-Matrix destination mismatch''
             else (case hr_Body r of
                 None \<Rightarrow> panicM
               | Some b \<Rightarrow>
                   if bo_Error b \<noteq> None then WriteMatrixError 500 ''M_UNKNOWN'' ''failed to read request body''
                   else (case xMatrixContent b of
                       Inl _ \<Rightarrow> WriteMatrixError 400 ''M_BAD_JSON'' ''invalid JSON body''
                     | Inr content \<Rightarrow>
                         (case CanonicalJSON (sv_crypto (h_sv h)) (xMatrixObject h r origin content) of
                            Inl _ \<Rightarrow> WriteMatrixError 500 ''M_UNKNOWN'' ''failed to canonicalize sign object''
                          | Inr canonical \<Rightarrow>
                              bindM (originKey origin keyID) (\<lambda>k. case k of
                                  Inl message \<Rightarrow> unauthorized message
                                | Inr pubKey \<Rightarrow>
                                    (case RawStdDecoding sig of
                                       Inl _ \<Rightarrow> unauthorized ''invalid signature encoding''
                                     | Inr sigBytes \<Rightarrow>
                                         bindM (ed25519_Verify h pubKey canonical sigBytes) (\<lambda>verified.
                                           if \<not> verified then nxt r else nxt r))))))))"

subsection \<open>Fixed answers\<close>

definition getVersion :: "handler \<Rightarrow> http_handler" where
  "getVersion h r = WriteJSON 200 (Json (JObj [(''server'',
     JObj [(''name'', JStr (sv_serverName (h_sv h))), (''version'', JStr (h_version h))])]))"

text \<open>The members of \<open>ServerKeyResponse\<close>; a nil map of signatures is written as \<open>null\<close>.\<close>

definition serverKeyMembers :: "handler \<Rightarrow> int \<Rightarrow> json \<Rightarrow> (string \<times> json) list" where
  "serverKeyMembers h validUntil signatures =
     [(''server_name'', JStr (sv_serverName (h_sv h))), (''signatures'', signatures),
      (''valid_until_ts'', JNum validUntil),
      (''verify_keys'', JObj [(sv_keyID (h_sv h), JObj [(''key'', JStr (RawStdEncoding (h_publicKey h)))])])]"

definition getServerKey :: "handler \<Rightarrow> http_handler" where
  "getServerKey h r =
     bindM nowM (\<lambda>now.
       (let sv = h_sv h; validUntil = now + 365 * day
        in case CanonicalJSON (sv_crypto sv) (JObj (serverKeyMembers h validUntil JNull)) of
             Inl e \<Rightarrow> WriteMatrixError 500 ''M_BAD_JSON'' (h_Error h e)
           | Inr canonicalJson \<Rightarrow>
               (let signatureBytes = cr_sign (sv_crypto sv) (sv_privateKey sv) canonicalJson
                in WriteJSON 200 (Json (JObj (serverKeyMembers h validUntil
                     (JObj [(sv_serverName sv, JObj [(sv_keyID sv, JStr (RawStdEncoding signatureBytes))])])))))))"

subsection \<open>Profiles, aliases, keys\<close>

definition belongs_to :: "string \<Rightarrow> string \<Rightarrow> bool" where
  "belongs_to userID srv = (case splitN2 CHR '':'' userID of [_, d] \<Rightarrow> d = srv | _ \<Rightarrow> False)"

definition quoted :: "string \<Rightarrow> string" where
  "quoted s = char_of (39 :: nat) # s @ [char_of (39 :: nat)]"

text \<open>Only the users of this server; a single field clears the other one.\<close>

definition getProfile :: "handler \<Rightarrow> http_handler" where
  "getProfile h r =
     (let userID = QueryGet r ''user_id'' in
      if userID = '''' then WriteMatrixError 400 ''M_MISSING_PARAM'' ''user_id is required''
      else if \<not> belongs_to userID (sv_serverName (h_sv h)) then
        WriteMatrixError 404 ''M_NOT_FOUND'' ''User does not exist.''
      else
        (let field = QueryGet r ''field'' in
         if field \<noteq> '''' \<and> field \<noteq> ''displayname'' \<and> field \<noteq> ''avatar_url'' then
           WriteMatrixError 400 ''M_INVALID_PARAM'' (''field must be '' @ quoted ''displayname'' @ '' or '' @ quoted ''avatar_url'')
         else bindM (catchM (GetProfileByUserID (h_sv h) userID)) (\<lambda>res. case res of
             Inl _ \<Rightarrow> WriteMatrixError 404 ''M_NOT_FOUND'' ''User does not exist.''
           | Inr profile \<Rightarrow>
               WriteJSON 200 (UserProfile
                 (if field = ''displayname'' then profile\<lparr>p_AvatarURL := None\<rparr>
                  else if field = ''avatar_url'' then profile\<lparr>p_DisplayName := None\<rparr>
                  else profile)))))"

definition getDirectory :: "handler \<Rightarrow> http_handler" where
  "getDirectory h r =
     (let alias = QueryGet r ''room_alias'' in
      if alias = '''' then WriteMatrixError 400 ''M_MISSING_PARAM'' ''room_alias is required''
      else bindM (catchM (ResolveLocalAlias (h_sv h) alias)) (\<lambda>res. case res of
          Inl _ \<Rightarrow> WriteMatrixError 404 ''M_NOT_FOUND'' ''Room alias not found.''
        | Inr (roomID, servers) \<Rightarrow> WriteJSON 200 (AliasOf roomID servers)))"

text \<open>\<open>json.NewDecoder(r.Body).Decode\<close>, whose error is the text of the answer.\<close>

definition decodeOr400 :: "handler \<Rightarrow> request \<Rightarrow> (json \<Rightarrow> 'a decoded) \<Rightarrow> ('a \<Rightarrow> response op) \<Rightarrow> response op" where
  "decodeOr400 h r dec k =
     bindM (liftO (DecodeBody r dec)) (\<lambda>d. case d of
         Inl e \<Rightarrow> WriteMatrixError 400 ''M_BAD_JSON'' (h_Error h e)
       | Inr req \<Rightarrow> k req)"

definition decodeUserKeysQuery :: "json \<Rightarrow> key_query decoded" where
  "decodeUserKeysQuery v = (case struct_members (Some v) of
       Inl e \<Rightarrow> Inl e
     | Inr ms \<Rightarrow>
         (let (ks, bad) = dec_map elem_strings (field_vals ''device_keys'' ms)
          in if bad then Inl type_error else Inr ks))"

text \<open>Entries of other servers are left out; the entries read back from the database are JSON and can be written.\<close>

definition postUserKeysQuery :: "handler \<Rightarrow> http_handler" where
  "postUserKeysQuery h r =
     decodeOr400 h r decodeUserKeysQuery (\<lambda>req.
       (let localRequested = filter (\<lambda>p. belongs_to (fst p) (sv_serverName (h_sv h))) req
        in bindM (QueryKeys (h_sv h) '''' localRequested) (\<lambda>result.
             WriteJSON 200 (RemoteKeys
               (map (\<lambda>(userID, devices). (userID, map (deviceInfo userID) devices)) (qk_DeviceKeys result))
               (map toCrossSigningKeyInfo (qk_MasterKeys result))
               (map toCrossSigningKeyInfo (qk_SelfSigningKeys result))))))"

definition decodeUserKeysClaim :: "json \<Rightarrow> claims decoded" where
  "decodeUserKeysClaim v = (case struct_members (Some v) of
       Inl e \<Rightarrow> Inl e
     | Inr ms \<Rightarrow>
         (let (ks, bad) = dec_map (elem_map elem_string) (field_vals ''one_time_keys'' ms)
          in if bad then Inl type_error else Inr ks))"

definition claimed_json :: "claimed_keys \<Rightarrow> json" where
  "claimed_json ks = JObj (map (\<lambda>(u, ds). (u, JObj (map (\<lambda>(d, m). (d, JObj m)) ds))) ks)"

definition postUserKeysClaim :: "handler \<Rightarrow> http_handler" where
  "postUserKeysClaim h r =
     decodeOr400 h r decodeUserKeysClaim (\<lambda>req.
       (let localRequested = filter (\<lambda>p. belongs_to (fst p) (sv_serverName (h_sv h))) req
        in bindM (ClaimKeys (h_sv h) localRequested) (\<lambda>result.
             WriteJSON 200 (Json (JObj [(''one_time_keys'', claimed_json (cl_OneTimeKeys result))])))))"

subsection \<open>Transactions\<close>

record TransactionRequest =
  tq_Edus :: "(string \<times> raw) list"
  tq_Origin :: string
  tq_PDUs :: "evento list"

text \<open>An EDU: its type and its content.\<close>

definition decodeEdu :: "json \<Rightarrow> (string \<times> raw) \<times> bool" where
  "decodeEdu v = (case struct_members (Some v) of
       Inl _ \<Rightarrow> (('''', None), True)
     | Inr ms \<Rightarrow>
         (let (eduType, bad) = dec_string (field_vals ''edu_type'' ms)
          in ((eduType, dec_raw (field_vals ''content'' ms)), bad)))"

text \<open>A slice of structs, from the last value of its field.\<close>

definition dec_list :: "(json \<Rightarrow> 'a \<times> bool) \<Rightarrow> json list \<Rightarrow> 'a list \<times> bool" where
  "dec_list f vs = (case dec_raw vs of
       None \<Rightarrow> ([], False)
     | Some JNull \<Rightarrow> ([], False)
     | Some (JArr es) \<Rightarrow> (map (\<lambda>e. fst (f e)) es, list_ex (\<lambda>e. snd (f e)) es)
     | Some _ \<Rightarrow> ([], True))"

definition decodeTransaction :: "json \<Rightarrow> TransactionRequest decoded" where
  "decodeTransaction v = (case struct_members (Some v) of
       Inl e \<Rightarrow> Inl e
     | Inr ms \<Rightarrow>
         (let (edus, b1) = dec_list decodeEdu (field_vals ''edus'' ms);
              (origin, b2) = dec_string (field_vals ''origin'' ms);
              (ts, b3) = dec_int64 (field_vals ''origin_server_ts'' ms);
              (pdus, b4) = dec_eventos (field_vals ''pdus'' ms)
          in if b1 \<or> b2 \<or> b3 \<or> b4 then Inl type_error
             else Inr \<lparr>tq_Edus = edus, tq_Origin = origin, tq_PDUs = pdus\<rparr>))"

text \<open>\<open>usecase.DirectToDeviceEduContent\<close>: sender, type and messages.\<close>

definition decodeDirectToDevice :: "raw \<Rightarrow> (string \<times> string \<times> messages) decoded" where
  "decodeDirectToDevice content = (case struct_members content of
       Inl e \<Rightarrow> Inl e
     | Inr ms \<Rightarrow>
         (let (messageID, b1) = dec_string (field_vals ''message_id'' ms);
              (messages, b2) = dec_map (elem_map elem_raw) (field_vals ''messages'' ms);
              (sender, b3) = dec_string (field_vals ''sender'' ms);
              (tipo, b4) = dec_string (field_vals ''type'' ms)
          in if b1 \<or> b2 \<or> b3 \<or> b4 then Inl type_error else Inr (sender, tipo, messages)))"

definition receivePDU :: "handler \<Rightarrow> string \<Rightarrow> evento \<Rightarrow> (string \<times> json) list \<Rightarrow> (string \<times> json) list op" where
  "receivePDU h origin pdu results =
     bindM (catchM (ProcessInboundPDU (h_ro h) CheckAuth (h_sv h) origin pdu)) (\<lambda>res.
       returnM (AList.update (ev_ID pdu)
         (case res of Inl e \<Rightarrow> JObj [(''error'', JStr (h_Error h e))] | Inr _ \<Rightarrow> JObj []) results))"

definition receiveEDU :: "handler \<Rightarrow> string \<times> raw \<Rightarrow> unit op" where
  "receiveEDU h edu = (case edu of (eduType, content) \<Rightarrow>
     if eduType \<noteq> ''m.direct_to_device'' then returnM ()
     else (case decodeDirectToDevice content of
         Inl _ \<Rightarrow> returnM ()
       | Inr (sender, tipo, messages) \<Rightarrow>
           bindM (catchM (DeliverFromFederation (h_sv h) sender tipo messages)) (\<lambda>_. returnM ())))"

text \<open>The origin is the one the body names; it is not compared with the one that signed the request.\<close>

definition putSendTxn :: "handler \<Rightarrow> http_handler" where
  "putSendTxn h r =
     (if PathValue r ''txnId'' = '''' then WriteMatrixError 400 ''M_BAD_JSON'' ''Missing txn ID''
      else (case ParseBody r decodeTransaction of
          Inl e \<Rightarrow> WriteMatrixError 400 ''M_BAD_JSON'' (h_Error h e)
        | Inr req \<Rightarrow>
            bindM (foldM (receivePDU h (tq_Origin req)) (tq_PDUs req) []) (\<lambda>results.
            bindM (forM (tq_Edus req) (receiveEDU h)) (\<lambda>_.
              WriteJSON 200 (Json (JObj [(''pdus'', JObj results)]))))))"

subsection \<open>Events and rooms\<close>

definition writeTransaction :: "handler \<Rightarrow> evento list \<Rightarrow> response op" where
  "writeTransaction h pdus = bindM nowM (\<lambda>now. WriteJSON 200 (Transaction (sv_serverName (h_sv h)) now pdus))"

definition getEvent :: "handler \<Rightarrow> http_handler" where
  "getEvent h r =
     (let eventID = PathValue r ''eventId'' in
      if eventID = '''' then WriteMatrixError 400 ''M_BAD_JSON'' ''Missing event ID''
      else bindM (catchM (RetrieveSingleEvent eventID)) (\<lambda>res. case res of
          Inl e \<Rightarrow> WriteMatrixError 500 ''M_NOT_FOUND'' (h_Error h e)
        | Inr event \<Rightarrow> writeTransaction h [event]))"

definition getBackfill :: "handler \<Rightarrow> http_handler" where
  "getBackfill h r =
     (let roomID = PathValue r ''roomId''; limitStr = QueryGet r ''limit'' in
      if roomID = '''' then WriteMatrixError 400 ''M_BAD_JSON'' ''Missing room ID''
      else if limitStr = '''' then WriteMatrixError 400 ''M_BAD_JSON'' ''Missing limit''
      else (case ParseInt limitStr of
          None \<Rightarrow> WriteMatrixError 400 ''M_BAD_JSON'' ''Invalid limit''
        | Some limit \<Rightarrow>
            (let vList = QueryAll r ''v''; cleanVList = filter (\<lambda>v. v \<noteq> '''') vList in
             if vList = [] then WriteMatrixError 400 ''M_BAD_JSON'' (''Missing '' @ quoted ''v'' @ '' parameter'')
             else if cleanVList = [] then WriteMatrixError 400 ''M_BAD_JSON'' (''All '' @ quoted ''v'' @ '' parameters were empty'')
             else bindM (catchM (BackfillRoomEvents roomID limit cleanVList)) (\<lambda>res. case res of
                 Inl e \<Rightarrow> WriteMatrixError 500 ''M_NOT_FOUND'' (h_Error h e)
               | Inr events \<Rightarrow> writeTransaction h events))))"

definition writePublicRooms :: "handler \<Rightarrow> string \<Rightarrow> int \<Rightarrow> int \<Rightarrow> response op" where
  "writePublicRooms h searchTerm limit offset =
     bindM (catchM (ListPublic (h_ilike h) (h_sv h) '''' searchTerm limit offset)) (\<lambda>res. case res of
         Inl e \<Rightarrow> WriteMatrixError 500 ''M_UNKNOWN'' (h_Error h e)
       | Inr result \<Rightarrow> WriteJSON 200 (Rooms result))"

text \<open>A parameter that is not a positive number counts as zero.\<close>

definition positive :: "string \<Rightarrow> int" where
  "positive s = (case ParseInt s of Some v \<Rightarrow> if v > 0 then v else 0 | None \<Rightarrow> 0)"

definition getPublicRooms :: "handler \<Rightarrow> http_handler" where
  "getPublicRooms h r = writePublicRooms h '''' (positive (QueryGet r ''limit'')) (positive (QueryGet r ''since''))"

text \<open>Search term, limit and starting point; \<open>room_types\<close> holds strings and nulls.\<close>

definition decodeRoomsFilter :: "(string \<times> json) list \<Rightarrow> string \<times> bool" where
  "decodeRoomsFilter fs =
     (let (term, b1) = dec_string (field_vals ''generic_search_term'' fs);
          (types, b2) = dec_list (\<lambda>e. dec_string_ptr [e]) (field_vals ''room_types'' fs)
      in (term, b1 \<or> b2))"

definition decodePublicRoomsRequest :: "json \<Rightarrow> (string \<times> int \<times> string) decoded" where
  "decodePublicRoomsRequest v = (case struct_members (Some v) of
       Inl e \<Rightarrow> Inl e
     | Inr ms \<Rightarrow>
         (let (filt, b1) = struct_ptr (field_vals ''filter'' ms);
              (term, b2) = (case filt of None \<Rightarrow> ('''', False) | Some fs \<Rightarrow> decodeRoomsFilter fs);
              (networks, b3) = dec_bool (field_vals ''include_all_networks'' ms);
              (limit, b4) = dec_int64 (field_vals ''limit'' ms);
              (since, b5) = dec_string (field_vals ''since'' ms);
              (party, b6) = dec_string (field_vals ''third_party_instance_id'' ms)
          in if b1 \<or> b2 \<or> b3 \<or> b4 \<or> b5 \<or> b6 then Inl type_error else Inr (term, limit, since)))"

definition postPublicRooms :: "handler \<Rightarrow> http_handler" where
  "postPublicRooms h r =
     decodeOr400 h r decodePublicRoomsRequest (\<lambda>(searchTerm, limit, since).
       writePublicRooms h searchTerm limit (positive since))"

subsection \<open>Join and leave\<close>

text \<open>\<open>MembershipContent\<close>: the user that authorised the join, and the membership.\<close>

record MembershipContent =
  mc_JoinAuthorisedViaUsersServer :: string
  mc_Membership :: string

definition membership_json :: "MembershipContent \<Rightarrow> json" where
  "membership_json c =
     JObj (omitempty (mc_JoinAuthorisedViaUsersServer c = '''') ''join_authorised_via_users_server''
             (JStr (mc_JoinAuthorisedViaUsersServer c)) @ [(''membership'', JStr (mc_Membership c))])"

definition eventTemplate :: "string \<Rightarrow> MakeResult \<Rightarrow> payload" where
  "eventTemplate membership result =
     Json (JObj [(''event'', JObj
        [(''content'', membership_json \<lparr>mc_JoinAuthorisedViaUsersServer = '''', mc_Membership = membership\<rparr>),
         (''origin'', JStr (mk_Origin result)), (''origin_server_ts'', JNum (mk_Timestamp result)),
         (''room_id'', JStr (mk_RoomID result)), (''sender'', JStr (mk_Sender result)),
         (''state_key'', JStr (mk_Sender result)), (''type'', JStr ''m.room.member'')]),
       (''room_version'', JStr (mk_RoomVersion result))])"

definition makeJoin :: "handler \<Rightarrow> http_handler" where
  "makeJoin h r =
     (let roomID = PathValue r ''roomId''; userID = PathValue r ''userId'';
          ver = QueryAll r ''ver''; supportedVersions = (if ver = [] then [''1''] else ver)
      in bindM (catchM (MakeJoin (h_sv h) roomID userID supportedVersions)) (\<lambda>res. case res of
           Inl e \<Rightarrow>
             if errors_is e ErrNotFound then WriteMatrixError 404 ''M_NOT_FOUND'' ''Unknown room''
             else if errors_is e ErrIncompatibleRoomVersion then
               WriteMatrixError 400 ''M_INCOMPATIBLE_ROOM_VERSION''
                 ''Your homeserver does not support the features required to join this room''
             else if errors_is e ErrForbidden then
               WriteMatrixError 403 ''M_FORBIDDEN'' ''You are not invited to this room''
             else WriteMatrixError 500 ''M_UNKNOWN'' (h_Error h e)
         | Inr result \<Rightarrow> WriteJSON 200 (eventTemplate ''join'' result)))"

definition makeLeave :: "handler \<Rightarrow> http_handler" where
  "makeLeave h r =
     (let roomID = PathValue r ''roomId''; userID = PathValue r ''userId''
      in bindM (catchM (MakeLeave (h_sv h) roomID userID)) (\<lambda>res. case res of
           Inl e \<Rightarrow>
             if errors_is e ErrNotFound then WriteMatrixError 404 ''M_NOT_FOUND'' ''Unknown room''
             else if errors_is e ErrForbidden then
               WriteMatrixError 403 ''M_FORBIDDEN'' ''User is not a member of this room''
             else WriteMatrixError 500 ''M_UNKNOWN'' (h_Error h e)
         | Inr result \<Rightarrow> WriteJSON 200 (eventTemplate ''leave'' result)))"

text \<open>
  \<open>SendJoinRequest\<close> and \<open>SendLeaveRequest\<close>; the fields about the position of the event are used for a join only, and
  only there their types matter.
\<close>

record MemberRequest =
  mq_Content :: MembershipContent
  mq_Origin :: string
  mq_OriginServerTS :: int
  mq_Sender :: string
  mq_StateKey :: string
  mq_Type :: string
  mq_RoomID :: string
  mq_EventID :: string
  mq_Signatures :: "(string \<times> (string \<times> string) list) list"
  mq_Depth :: int
  mq_PrevEvents :: "string list"
  mq_AuthEvents :: "string list"

definition decodeMembershipContent :: "json list \<Rightarrow> MembershipContent \<times> bool" where
  "decodeMembershipContent vs =
     (let (ms, b1) = struct_field vs;
          (via, b2) = dec_string (field_vals ''join_authorised_via_users_server'' ms);
          (membership, b3) = dec_string (field_vals ''membership'' ms)
      in (\<lparr>mc_JoinAuthorisedViaUsersServer = via, mc_Membership = membership\<rparr>, b1 \<or> b2 \<or> b3))"

definition decodeMember :: "bool \<Rightarrow> json \<Rightarrow> MemberRequest decoded" where
  "decodeMember join v = (case struct_members (Some v) of
       Inl e \<Rightarrow> Inl e
     | Inr ms \<Rightarrow>
         (let (content, b1) = decodeMembershipContent (field_vals ''content'' ms);
              (origin, b2) = dec_string (field_vals ''origin'' ms);
              (ts, b3) = dec_int64 (field_vals ''origin_server_ts'' ms);
              (sender, b4) = dec_string (field_vals ''sender'' ms);
              (stateKey, b5) = dec_string (field_vals ''state_key'' ms);
              (tipo, b6) = dec_string (field_vals ''type'' ms);
              (roomID, b7) = dec_string (field_vals ''room_id'' ms);
              (eventID, b8) = dec_string (field_vals ''event_id'' ms);
              (sigs, b9) = dec_map (elem_map elem_string) (field_vals ''signatures'' ms);
              (depth, b10) = dec_int64 (field_vals ''depth'' ms);
              (prev, b11) = dec_strings (field_vals ''prev_events'' ms);
              (auth, b12) = dec_strings (field_vals ''auth_events'' ms)
          in if b1 \<or> b2 \<or> b3 \<or> b4 \<or> b5 \<or> b6 \<or> b7 \<or> b8 \<or> b9 \<or> join \<and> (b10 \<or> b11 \<or> b12) then Inl type_error
             else Inr \<lparr>mq_Content = content, mq_Origin = origin, mq_OriginServerTS = ts, mq_Sender = sender,
                       mq_StateKey = stateKey, mq_Type = tipo, mq_RoomID = roomID, mq_EventID = eventID,
                       mq_Signatures = sigs, mq_Depth = (if join then depth else 0),
                       mq_PrevEvents = (if join then prev else []), mq_AuthEvents = (if join then auth else [])\<rparr>))"

text \<open>The checks before the signature: \<open>Some\<close> is the message of the answer.\<close>

definition memberFault :: "string \<Rightarrow> MemberRequest \<Rightarrow> string option" where
  "memberFault membership req =
     (if mq_Type req \<noteq> ''m.room.member'' then Some ''event type must be m.room.member''
      else if mc_Membership (mq_Content req) \<noteq> membership then Some (''membership must be '' @ membership)
      else if mq_Sender req \<noteq> mq_StateKey req then Some ''sender must equal state_key''
      else if \<not> belongs_to (mq_Sender req) (mq_Origin req) then Some ''sender must belong to the origin server''
      else None)"

definition memberPayload :: "MemberRequest \<Rightarrow> json" where
  "memberPayload req =
     JObj [(''content'', membership_json (mq_Content req)), (''origin'', JStr (mq_Origin req)),
           (''origin_server_ts'', JNum (mq_OriginServerTS req)), (''room_id'', JStr (mq_RoomID req)),
           (''sender'', JStr (mq_Sender req)), (''state_key'', JStr (mq_StateKey req)), (''type'', JStr (mq_Type req))]"

text \<open>
  What both checks share: the signature of the origin is looked up under the key the origin publishes, decoded, and
  verified over the canonical payload. The result of the verification is returned.
\<close>

definition memberSignature :: "handler \<Rightarrow> MemberRequest \<Rightarrow> bool op" where
  "memberSignature h req = (case map_of (mq_Signatures req) (mq_Origin req) of
       None \<Rightarrow> failM (Errorf (''no signature from origin server '' @ mq_Origin req))
     | Some serverSigs \<Rightarrow>
         bindM (wrapM ''could not fetch public key'' (FetchRemoteServerKey (mq_Origin req))) (\<lambda>(keyID, pubKey).
           case map_of serverSigs keyID of
             None \<Rightarrow> failM (Errorf (''no signature for key '' @ keyID))
           | Some sig \<Rightarrow>
               bindM (wrapM ''invalid signature encoding'' (liftE (RawStdDecoding sig))) (\<lambda>sigBytes.
               bindM (wrapM ''failed to canonicalize event''
                       (liftE (CanonicalJSON (sv_crypto (h_sv h)) (memberPayload req)))) (\<lambda>canonical.
                 ed25519_Verify h pubKey canonical sigBytes))))"

definition verifyLeaveEventSignature :: "handler \<Rightarrow> MemberRequest \<Rightarrow> unit op" where
  "verifyLeaveEventSignature h req =
     bindM (memberSignature h req) (\<lambda>ok. if \<not> ok then failM (Errorf ''signature verification failed'') else returnM ())"

text \<open>For a join the failure is ignored.\<close>

definition verifyEventSignature :: "handler \<Rightarrow> MemberRequest \<Rightarrow> unit op" where
  "verifyEventSignature h req =
     bindM (memberSignature h req) (\<lambda>ok. if \<not> ok then returnM () else returnM ())"

definition memberEvento :: "string \<Rightarrow> MemberRequest \<Rightarrow> evento" where
  "memberEvento roomID req = zeroEvento
     \<lparr>ev_ID := mq_EventID req, ev_Tipo := mq_Type req, ev_CanalID := roomID, ev_Sender := mq_Sender req,
      ev_StateKey := Some (mq_Sender req), ev_Content := Some (membership_json (mq_Content req)),
      ev_OrigemServidorTS := mq_OriginServerTS req, ev_PrevEventos := mq_PrevEvents req,
      ev_AuthEventos := mq_AuthEvents req, ev_Depth := mq_Depth req\<rparr>"

text \<open>The checks of both handlers, then what is done with an accepted request.\<close>

definition withMember ::
    "handler \<Rightarrow> request \<Rightarrow> bool \<Rightarrow> string \<Rightarrow> (MemberRequest \<Rightarrow> unit op) \<Rightarrow> (MemberRequest \<Rightarrow> response op) \<Rightarrow> response op" where
  "withMember h r join membership verify k =
     decodeOr400 h r (decodeMember join) (\<lambda>req. case memberFault membership req of
         Some message \<Rightarrow> WriteMatrixError 400 ''M_INVALID_PARAM'' message
       | None \<Rightarrow>
           bindM (catchM (verify req)) (\<lambda>res. case res of
               Inl e \<Rightarrow> WriteMatrixError 400 ''M_INVALID_PARAM'' (''invalid event signature: '' @ h_Error h e)
             | Inr _ \<Rightarrow> k req))"

definition sendError :: "handler \<Rightarrow> go_error \<Rightarrow> response op" where
  "sendError h e =
     (if errors_is e ErrNotFound then WriteMatrixError 404 ''M_NOT_FOUND'' ''Unknown room''
      else WriteMatrixError 500 ''M_UNKNOWN'' (h_Error h e))"

definition sendJoin :: "handler \<Rightarrow> http_handler" where
  "sendJoin h r =
     withMember h r True ''join'' (verifyEventSignature h) (\<lambda>req.
       (let roomID = PathValue r ''roomId''
        in bindM (catchM (ProcessSendJoin roomID (memberEvento roomID req))) (\<lambda>res. case res of
             Inl e \<Rightarrow> sendError h e
           | Inr result \<Rightarrow>
               WriteJSON 200 (JoinState (sr_StateEvents result) (sr_StateEvents result) (sr_ServersInRoom result)))))"

definition sendLeave :: "handler \<Rightarrow> http_handler" where
  "sendLeave h r =
     withMember h r False ''leave'' (verifyLeaveEventSignature h) (\<lambda>req.
       (let roomID = PathValue r ''roomId''
        in bindM (catchM (ProcessSendLeave roomID (memberEvento roomID req))) (\<lambda>res. case res of
             Inl e \<Rightarrow> sendError h e
           | Inr _ \<Rightarrow> WriteJSON 200 emptyJSON)))"

subsection \<open>Invitations\<close>

record InviteRequest =
  iq_RoomVersion :: string
  iq_Event :: raw
  iq_InviteRoomState :: "StrippedEvento list"

text \<open>A \<open>StrippedStateEvent\<close> as the handler converts it: the state key is never nil.\<close>

definition decodeStripped :: "json \<Rightarrow> StrippedEvento \<times> bool" where
  "decodeStripped v = (case struct_members (Some v) of
       Inl _ \<Rightarrow> (\<lparr>se_Tipo = '''', se_Content = None, se_StateKey = Some '''', se_Sender = ''''\<rparr>, True)
     | Inr ms \<Rightarrow>
         (let (stateKey, b1) = dec_string (field_vals ''state_key'' ms);
              (tipo, b2) = dec_string (field_vals ''type'' ms);
              (sender, b3) = dec_string (field_vals ''sender'' ms)
          in (\<lparr>se_Tipo = tipo, se_Content = dec_raw (field_vals ''content'' ms), se_StateKey = Some stateKey,
               se_Sender = sender\<rparr>, b1 \<or> b2 \<or> b3)))"

definition decodeInvite :: "json \<Rightarrow> InviteRequest decoded" where
  "decodeInvite v = (case struct_members (Some v) of
       Inl e \<Rightarrow> Inl e
     | Inr ms \<Rightarrow>
         (let (version, b1) = dec_string (field_vals ''room_version'' ms);
              (states, b2) = dec_list decodeStripped (field_vals ''invite_room_state'' ms)
          in if b1 \<or> b2 then Inl type_error
             else Inr \<lparr>iq_RoomVersion = version, iq_Event = dec_raw (field_vals ''event'' ms), iq_InviteRoomState = states\<rparr>))"

text \<open>\<open>dec.UseNumber(); dec.Decode(&eventMap)\<close>: numbers keep their digits; \<open>null\<close> gives the nil map.\<close>

definition decodeEventMap :: "raw \<Rightarrow> (string \<times> json) list decoded" where
  "decodeEventMap ev = (case struct_members ev of Inl e \<Rightarrow> Inl e | Inr ms \<Rightarrow> Inr (map (\<lambda>m. (fst m, marshal_any (snd m))) (dedup_members ms)))"

definition any_string :: "json option \<Rightarrow> string option" where
  "any_string v = (case v of Some (JStr s) \<Rightarrow> Some s | _ \<Rightarrow> None)"

definition any_object :: "json option \<Rightarrow> (string \<times> json) list option" where
  "any_object v = (case v of Some (JObj ms) \<Rightarrow> Some ms | _ \<Rightarrow> None)"

text \<open>
  \<open>_ = json.Unmarshal(req.Event, &evento)\<close>: a member of a wrong type is skipped, the others are decoded.
\<close>

definition lenient_evento :: "(string \<times> json) list \<Rightarrow> evento" where
  "lenient_evento ms =
     (let f = (\<lambda>name. field_vals name ms)
      in \<lparr>ev_ID = fst (dec_string (f ''event_id'')), ev_Tipo = fst (dec_string (f ''type'')),
          ev_Content = dec_raw (f ''content''), ev_CanalID = fst (dec_string (f ''room_id'')),
          ev_Sender = fst (dec_string (f ''sender'')), ev_OrigemServidorTS = fst (dec_int64 (f ''origin_server_ts'')),
          ev_StreamOrdering = 0, ev_StateKey = fst (dec_string_ptr (f ''state_key'')),
          ev_Redacts = fst (dec_string (f ''redacts'')), ev_PrevEventos = fst (dec_strings (f ''prev_events'')),
          ev_AuthEventos = fst (dec_strings (f ''auth_events'')), ev_Depth = fst (dec_int64 (f ''depth'')),
          ev_Hashes = dec_raw (f ''hashes''), ev_Signatures = dec_raw (f ''signatures''),
          ev_Unsigned = dec_raw (f ''unsigned'')\<rparr>)"

text \<open>A signature that does not verify is logged and accepted.\<close>

definition verifyRawEventSignature :: "handler \<Rightarrow> (string \<times> json) list \<Rightarrow> string \<Rightarrow> unit op" where
  "verifyRawEventSignature h eventMap origin = (case any_object (map_of eventMap ''signatures'') of
       None \<Rightarrow> failM (Errorf ''missing signatures'')
     | Some sigs \<Rightarrow>
         (case map_of sigs origin of
            None \<Rightarrow> failM (Errorf (''no signature from origin '' @ origin))
          | Some originSigsRaw \<Rightarrow>
              (case any_object (Some originSigsRaw) of
                 None \<Rightarrow> failM (Errorf ''invalid signature format'')
               | Some originSigs \<Rightarrow>
                   bindM (wrapM ''could not fetch public key'' (FetchRemoteServerKey origin)) (\<lambda>(keyID, pubKey).
                     case map_of originSigs keyID of
                       None \<Rightarrow> failM (Errorf (''no signature for key '' @ keyID))
                     | Some sigRaw \<Rightarrow>
                         (case any_string (Some sigRaw) of
                            None \<Rightarrow> failM (Errorf ''invalid signature string format'')
                          | Some sig \<Rightarrow>
                              bindM (wrapM ''invalid signature encoding'' (liftE (RawStdDecoding sig))) (\<lambda>sigBytes.
                              bindM (wrapM ''failed to canonicalize event'' (liftE (CanonicalJSON (sv_crypto (h_sv h))
                                      (JObj (filter (\<lambda>m. fst m \<noteq> ''signatures'' \<and> fst m \<noteq> ''unsigned'') eventMap))))) (\<lambda>canonical.
                              bindM (ed25519_Verify h pubKey canonical sigBytes) (\<lambda>ok.
                                if \<not> ok then returnM () else returnM ()))))))))"

text \<open>The event that is stored: path, checked members and canonical content take the place of what was decoded.\<close>

definition invitedEvento ::
    "handler \<Rightarrow> raw \<Rightarrow> string \<Rightarrow> string \<Rightarrow> string \<Rightarrow> string \<Rightarrow> string \<Rightarrow> (string \<times> json) list \<Rightarrow> evento" where
  "invitedEvento h ev eventID roomID tipo sender stateKey content =
     (lenient_evento (case struct_members ev of Inl _ \<Rightarrow> [] | Inr ms \<Rightarrow> ms))
       \<lparr>ev_ID := eventID, ev_CanalID := roomID, ev_Tipo := tipo, ev_Sender := sender, ev_StateKey := Some stateKey,
        ev_Content := (case CanonicalJSON (sv_crypto (h_sv h)) (JObj content) of Inl _ \<Rightarrow> None | Inr v \<Rightarrow> Some v)\<rparr>"

text \<open>\<open>maps.Copy\<close> puts the new signatures over the old ones, server by server.\<close>

definition addSignatures :: "(string \<times> json) list \<Rightarrow> json \<Rightarrow> json" where
  "addSignatures eventMap newSigs =
     (let existing = (case any_object (map_of eventMap ''signatures'') of None \<Rightarrow> [] | Some s \<Rightarrow> s);
          new = (case newSigs of JObj ms \<Rightarrow> ms | _ \<Rightarrow> [])
      in marshal_any (JObj (AList.update ''signatures''
           (JObj (foldl (\<lambda>m (k, v). AList.update k v m) existing new)) eventMap)))"

definition acceptInvite ::
    "handler \<Rightarrow> InviteRequest \<Rightarrow> (string \<times> json) list \<Rightarrow> string \<Rightarrow> evento \<Rightarrow> response op" where
  "acceptInvite h req eventMap roomID event =
     bindM (catchM (ProcessInvite roomID (iq_RoomVersion req) event (iq_InviteRoomState req))) (\<lambda>res. case res of
         Inl e \<Rightarrow> WriteMatrixError 500 ''M_UNKNOWN'' (h_Error h e)
       | Inr _ \<Rightarrow>
           (let sv = h_sv h in
            case SignMatrixEvent (sv_crypto sv) event (sv_serverName sv) (sv_keyID sv) (sv_privateKey sv) of
              Inl _ \<Rightarrow> WriteMatrixError 500 ''M_UNKNOWN'' ''failed to sign event''
            | Inr newSigs \<Rightarrow> WriteJSON 200 (Json (JObj [(''event'', addSignatures eventMap newSigs)]))))"

definition putInvite :: "handler \<Rightarrow> http_handler" where
  "putInvite h r =
     (let roomID = PathValue r ''roomId''; eventID = PathValue r ''eventId'';
          invalid = WriteMatrixError 400 ''M_INVALID_PARAM'' in
      case ParseBody r decodeInvite of
        Inl e \<Rightarrow> WriteMatrixError 400 ''M_BAD_JSON'' (h_Error h e)
      | Inr req \<Rightarrow>
          (case decodeEventMap (iq_Event req) of
             Inl _ \<Rightarrow> WriteMatrixError 400 ''M_BAD_JSON'' ''invalid event payload''
           | Inr eventMap \<Rightarrow>
               (let tipo = optional (any_string (map_of eventMap ''type'')) in
                if tipo \<noteq> ''m.room.member'' then invalid ''event type must be m.room.member''
                else (case any_object (map_of eventMap ''content'') of
                    None \<Rightarrow> invalid ''missing event content''
                  | Some content \<Rightarrow>
                      if optional (any_string (map_of content ''membership'')) \<noteq> ''invite'' then invalid ''membership must be invite''
                      else (case any_string (map_of eventMap ''state_key'') of
                          None \<Rightarrow> invalid ''missing state_key''
                        | Some stateKey \<Rightarrow>
                            if \<not> belongs_to stateKey (sv_serverName (h_sv h)) then invalid ''invited user must be local''
                            else
                              (let sender = optional (any_string (map_of eventMap ''sender'')) in
                               case splitN2 CHR '':'' sender of
                                 [_, senderServer] \<Rightarrow>
                                   bindM (catchM (verifyRawEventSignature h eventMap senderServer)) (\<lambda>res. case res of
                                       Inl e \<Rightarrow> WriteMatrixError 403 ''M_FORBIDDEN'' (''invalid signature: '' @ h_Error h e)
                                     | Inr _ \<Rightarrow>
                                         acceptInvite h req eventMap roomID
                                           (invitedEvento h (iq_Event req) eventID roomID tipo sender stateKey content))
                               | _ \<Rightarrow> invalid ''invalid sender''))))))"

subsection \<open>State and missing events\<close>

definition getRoomState :: "handler \<Rightarrow> http_handler" where
  "getRoomState h r =
     (let roomID = PathValue r ''roomId''; eventID = QueryGet r ''event_id'' in
      if roomID = '''' \<or> eventID = '''' then WriteMatrixError 400 ''M_MISSING_PARAM'' ''Missing roomId or event_id''
      else bindM (catchM (GetRoomStateSnapShot roomID eventID)) (\<lambda>res. case res of
          Inl _ \<Rightarrow> WriteMatrixError 404 ''M_NOT_FOUND'' ''State not found''
        | Inr (pdus, authChain) \<Rightarrow> WriteJSON 200 (StateSnapshot pdus authChain)))"

definition getStateIDs :: "handler \<Rightarrow> http_handler" where
  "getStateIDs h r =
     (let roomID = PathValue r ''roomId''; eventID = QueryGet r ''event_id'' in
      if roomID = '''' \<or> eventID = '''' then WriteMatrixError 400 ''M_MISSING_PARAM'' ''Missing roomId or event_id''
      else bindM (catchM (GetStateIDsForEvent roomID eventID)) (\<lambda>res. case res of
          Inl _ \<Rightarrow> WriteMatrixError 404 ''M_NOT_FOUND'' ''Event or state not found''
        | Inr (pduIDs, authIDs) \<Rightarrow> WriteJSON 200 (StateIDs pduIDs authIDs)))"

text \<open>Earliest and latest events, limit, least depth.\<close>

definition decodeGetMissing :: "json \<Rightarrow> (string list \<times> string list \<times> int \<times> int) decoded" where
  "decodeGetMissing v = (case struct_members (Some v) of
       Inl e \<Rightarrow> Inl e
     | Inr ms \<Rightarrow>
         (let (earliest, b1) = dec_strings (field_vals ''earliest_events'' ms);
              (latest, b2) = dec_strings (field_vals ''latest_events'' ms);
              (limit, b3) = dec_int64 (field_vals ''limit'' ms);
              (depth, b4) = dec_int64 (field_vals ''min_depth'' ms)
          in if b1 \<or> b2 \<or> b3 \<or> b4 then Inl type_error else Inr (earliest, latest, limit, depth)))"

definition postGetMissingEvents :: "handler \<Rightarrow> http_handler" where
  "postGetMissingEvents h r =
     (let roomID = PathValue r ''roomId'' in
      if roomID = '''' then WriteMatrixError 400 ''M_MISSING_PARAM'' ''Missing roomId''
      else (case ParseBody r decodeGetMissing of
          Inl _ \<Rightarrow> WriteMatrixError 400 ''M_NOT_JSON'' ''Invalid JSON body''
        | Inr (earliest, latest, limit, depth) \<Rightarrow>
            bindM (catchM (HandleGetMissingEvents roomID earliest latest (if limit \<le> 0 then 10 else limit) depth)) (\<lambda>res. case res of
                Inl _ \<Rightarrow> WriteMatrixError 500 ''M_UNKNOWN'' ''Failed to compute missing events''
              | Inr events \<Rightarrow> WriteJSON 200 (MissingEvents events))))"

subsection \<open>Media\<close>

definition isInlineSafe :: "string \<Rightarrow> bool" where
  "isInlineSafe contentType \<longleftrightarrow> list_ex (\<lambda>p. has_prefix contentType p) [''image/'', ''audio/'', ''video/'', ''text/'']"

text \<open>
  Two parts: an empty JSON object, then the file with its type and its disposition. The boundary is a random string of
  the standard library and is left out.
\<close>

definition writeMultipartMediaResponse :: "DownloadResult \<Rightarrow> response op" where
  "writeMultipartMediaResponse result =
     (let disposition = (if isInlineSafe (dr_ContentType result) then ''inline'' else ''attachment'');
          q = [char_of (34 :: nat)];
          disposition = (if dr_Filename result \<noteq> '''' then disposition @ ''; filename='' @ q @ dr_Filename result @ q
                         else disposition)
      in returnM \<lparr>rp_Status = 200, rp_Header = [(''Content-Type'', ''multipart/mixed'')],
                  rp_Body = MultipartMedia result disposition\<rparr>)"

text \<open>A handler that no route leads to.\<close>

definition getMediaDownload :: "handler \<Rightarrow> http_handler" where
  "getMediaDownload h r =
     (let mediaID = PathValue r ''mediaId'' in
      if mediaID = '''' then WriteMatrixError 400 ''M_BAD_JSON'' ''Missing mediaId''
      else bindM (catchM (DownloadLocal (h_media h) mediaID)) (\<lambda>res. case res of
          Inl e \<Rightarrow>
            if errors_is e ErrMediaNotFound then WriteMatrixError 404 ''M_NOT_FOUND'' ''Media not found''
            else WriteMatrixError 500 ''M_UNKNOWN'' ''Failed to retrieve media''
        | Inr result \<Rightarrow> writeMultipartMediaResponse result))"

end
