(* ===== verification/Server.thy ===== *)
theory Server
  imports Client_Routes Federation_Routes
begin

text \<open>
  \<^verbatim>\<open>internal/delivery/http_adapter/server.go\<close>: the table of all routes, the health check (with \<open>PingDB\<close> of
  \<^verbatim>\<open>infrastructure/postgres/system_storage.go\<close>), the well-known files, and the whole server as one handler. The
  multiplexer is \<open>http.ServeMux\<close> of the Go version in \<^verbatim>\<open>go.mod\<close>: of the patterns that match, the one whose segments are
  the most specific from the left is taken. The address a redirection points to is left out.
\<close>

subsection \<open>http.ServeMux\<close>

text \<open>A segment of a pattern: a literal, a wildcard with its name, or the rest of the path behind a final slash.\<close>

datatype seg = Lit string | Wild string | Rest

definition seg_of :: "string \<Rightarrow> seg" where
  "seg_of s = (if s = '''' then Rest else if has_prefix s ''{'' then Wild (butlast (drop 1 s)) else Lit s)"

text \<open>\<open>METHOD /path\<close>.\<close>

definition parsePattern :: "string \<Rightarrow> string \<times> seg list" where
  "parsePattern s = (case cut CHR '' '' s of (m, path, _) \<Rightarrow> (m, map seg_of (drop 1 (split_on CHR ''/'' path))))"

text \<open>\<open>cleanPath\<close>: empty segments and the segments \<open>.\<close> and \<open>..\<close> are resolved, a final slash is kept.\<close>

fun clean_segments :: "string list \<Rightarrow> string list \<Rightarrow> string list" where
  "clean_segments acc [] = rev acc"
| "clean_segments acc (s # ss) =
     (if s = '''' \<or> s = ''.'' then clean_segments acc ss
      else if s = ''..'' then clean_segments (drop 1 acc) ss
      else clean_segments (s # acc) ss)"

definition cleanPath :: "string \<Rightarrow> string" where
  "cleanPath p =
     (let p = (if p = '''' then ''/'' else if has_prefix p ''/'' then p else CHR ''/'' # p);
          np = CHR ''/'' # sep_concat ''/'' (clean_segments [] (split_on CHR ''/'' p))
      in if last p = CHR ''/'' \<and> np \<noteq> ''/'' then np @ ''/'' else np)"

definition hex_value :: "char \<Rightarrow> nat option" where
  "hex_value c = (let n = of_char c :: nat in
     if 48 \<le> n \<and> n \<le> 57 then Some (n - 48) else if 97 \<le> n \<and> n \<le> 102 then Some (n - 87)
     else if 65 \<le> n \<and> n \<le> 70 then Some (n - 55) else None)"

text \<open>\<open>url.PathUnescape\<close>; a text that cannot be decoded is kept as it is.\<close>

fun percent_decode :: "string \<Rightarrow> string option" where
  "percent_decode (c # a # b # cs) =
     (if c \<noteq> CHR ''%'' then map_option (\<lambda>s. c # s) (percent_decode (a # b # cs))
      else (case (hex_value a, hex_value b) of
              (Some x, Some y) \<Rightarrow> map_option (\<lambda>s. char_of (16 * x + y) # s) (percent_decode cs)
            | _ \<Rightarrow> None))"
| "percent_decode s = (if CHR ''%'' \<in> set s then None else Some s)"

definition pathUnescape :: "string \<Rightarrow> string" where
  "pathUnescape s = (case percent_decode s of None \<Rightarrow> s | Some t \<Rightarrow> t)"

definition ends_in_slash :: "string \<Rightarrow> bool" where
  "ends_in_slash p \<longleftrightarrow> p \<noteq> [] \<and> last p = CHR ''/''"

text \<open>The segments of a path, decoded; what follows a final slash is the segment \<open>/\<close>.\<close>

definition path_segments :: "string \<Rightarrow> string list" where
  "path_segments p =
     (let ss = drop 1 (split_on CHR ''/'' p)
      in if ends_in_slash p then map pathUnescape (butlast ss) @ [''/''] else map pathUnescape ss)"

text \<open>What is left of a route: the segments to come, the values of the wildcards passed, and the handler.\<close>

type_synonym 'a route = "seg list \<times> (string \<times> string) list \<times> 'a"

definition on_literal :: "string \<Rightarrow> 'a route list \<Rightarrow> 'a route list" where
  "on_literal s rs = concat (map (\<lambda>(ps, b, a). case ps of Lit t # qs \<Rightarrow> if t = s then [(qs, b, a)] else [] | _ \<Rightarrow> []) rs)"

definition on_wild :: "string \<Rightarrow> 'a route list \<Rightarrow> 'a route list" where
  "on_wild s rs = concat (map (\<lambda>(ps, b, a). case ps of Wild n # qs \<Rightarrow> [(qs, b @ [(n, s)], a)] | _ \<Rightarrow> []) rs)"

definition at_end :: "seg list \<Rightarrow> 'a route list \<Rightarrow> 'a route option" where
  "at_end qs rs = find (\<lambda>(ps, b, a). ps = qs) rs"

text \<open>
  \<open>matchPath\<close>: a literal first, then a wildcard, then the rest of the path. The last component is
  \<open>exactMatch\<close>: a pattern that ends in a slash matches exactly the path that ends there.
\<close>

fun matchPath :: "'a route list \<Rightarrow> string list \<Rightarrow> ('a \<times> (string \<times> string) list \<times> bool) option" where
  "matchPath rs [] = map_option (\<lambda>(ps, b, a). (a, b, True)) (at_end [] rs)"
| "matchPath rs (s # ss) =
     (case matchPath (on_literal s rs) ss of
        Some m \<Rightarrow> Some m
      | None \<Rightarrow>
          (case (if s = ''/'' then None else matchPath (on_wild s rs) ss) of
             Some m \<Rightarrow> Some m
           | None \<Rightarrow> map_option (\<lambda>(ps, b, a). (a, b, s = ''/'' \<and> ss = [])) (at_end [Rest] rs)))"

type_synonym 'a routes = "(string \<times> 'a) list"

text \<open>The routes of a method, and the route of a path; \<open>HEAD\<close> falls back to \<open>GET\<close>.\<close>

definition of_method :: "string \<Rightarrow> 'a routes \<Rightarrow> 'a route list" where
  "of_method m rs = concat (map (\<lambda>(s, a). case parsePattern s of (m', ps) \<Rightarrow> if m' = m then [(ps, [], a)] else []) rs)"

definition find_route :: "'a routes \<Rightarrow> string \<Rightarrow> string \<Rightarrow> ('a \<times> (string \<times> string) list \<times> bool) option" where
  "find_route rs m path = (case matchPath (of_method m rs) (path_segments path) of
       Some a \<Rightarrow> Some a
     | None \<Rightarrow> if m = ''HEAD'' then matchPath (of_method ''GET'' rs) (path_segments path) else None)"

definition exactMatch :: "'a routes \<Rightarrow> string \<Rightarrow> string \<Rightarrow> bool" where
  "exactMatch rs m path = (case find_route rs m path of None \<Rightarrow> False | Some (_, _, exact) \<Rightarrow> exact)"

definition redirect :: "response op" where
  "redirect = returnM \<lparr>rp_Status = 307, rp_Header = [], rp_Body = NoContent\<rparr>"

text \<open>\<open>http.Error\<close>.\<close>

definition textError :: "int \<Rightarrow> (string \<times> string) list \<Rightarrow> string \<Rightarrow> response op" where
  "textError status hdr message =
     returnM \<lparr>rp_Status = status,
       rp_Header = hdr @ [(''Content-Type'', ''text/plain; charset=utf-8''), (''X-Content-Type-Options'', ''nosniff'')],
       rp_Body = Text (message @ [char_of (10 :: nat)])\<rparr>"

definition NotFound :: "response op" where
  "NotFound = textError 404 [] ''404 page not found''"

definition has_route :: "'a routes \<Rightarrow> string \<Rightarrow> string \<Rightarrow> bool" where
  "has_route rs path m \<longleftrightarrow> matchPath (of_method m rs) (path_segments path) \<noteq> None"

definition matchingMethods :: "'a routes \<Rightarrow> string \<Rightarrow> string list" where
  "matchingMethods rs path =
     (let ms = remdups (map (\<lambda>(s, a). fst (parsePattern s)) rs);
          ok = filter (\<lambda>m. has_route rs path m \<or> \<not> ends_in_slash path \<and> has_route rs (path @ ''/'') m) ms
      in sort (if ''GET'' \<in> set ok then ''HEAD'' # ok else ok))"

definition ServeMux :: "http_handler routes \<Rightarrow> http_handler" where
  "ServeMux rs r =
     (if hr_RequestURI r = ''*'' then
        returnM \<lparr>rp_Status = 400, rp_Header = [(''Connection'', ''close'')], rp_Body = NoContent\<rparr>
      else
        (let m = hr_Method r; escaped = hr_EscapedPath r;
             path = (if m = ''CONNECT'' then escaped else cleanPath escaped)
         in if \<not> exactMatch rs m path \<and> \<not> ends_in_slash path \<and> exactMatch rs m (path @ ''/'') then redirect
            else if path \<noteq> escaped then redirect
            else (case find_route rs m path of
                Some (f, values, _) \<Rightarrow> f (r\<lparr>hr_PathValues := values\<rparr>)
              | None \<Rightarrow>
                  (let ms = matchingMethods rs path in
                   if ms = [] then NotFound
                   else textError 405 [(''Allow'', sep_concat '', '' ms)] ''Method Not Allowed''))))"

subsection \<open>Client routes\<close>

text \<open>
  The tables of the \<open>RegisterRoutes\<close> methods; \<open>auth\<close> is the token middleware.
\<close>

definition auth_routes :: "handler \<Rightarrow> (http_handler \<Rightarrow> http_handler) \<Rightarrow> http_handler routes" where
  "auth_routes h auth =
     [(''GET /_matrix/client/v3/login'', getLogin h),
      (''POST /_matrix/client/v3/login'', postLogin h),
      (''POST /_matrix/client/v3/refresh'', postRefresh h),
      (''POST /_matrix/client/v3/logout'', auth (postLogout h)),
      (''POST /_matrix/client/v3/register'', postRegister h),
      (''GET /_matrix/client/v3/register/available'', getAvailable h)]"

definition room_routes :: "handler \<Rightarrow> (http_handler \<Rightarrow> http_handler) \<Rightarrow> http_handler routes" where
  "room_routes h auth =
     [(''GET /_matrix/client/v3/publicRooms'', Rooms_Routes.getPublicRooms h),
      (''POST /_matrix/client/v3/publicRooms'', auth (Rooms_Routes.postPublicRooms h)),
      (''GET /_matrix/client/v3/rooms/{roomId}/members'', auth (getRoomMembers h)),
      (''POST /_matrix/client/v3/createRoom'', auth (postCreateRoom h)),
      (''POST /_matrix/client/v3/join/{roomId}'', auth (postJoinRoom h)),
      (''POST /_matrix/client/v3/rooms/{roomId}/leave'', auth (postLeaveRoom h)),
      (''POST /_matrix/client/v3/rooms/{roomId}/invite'', auth (postInviteRoom h)),
      (''PUT /_matrix/client/v3/rooms/{roomId}/send/{eventType}/{txnId}'', auth (putSendEvent h)),
      (''PUT /_matrix/client/v3/rooms/{roomId}/state/{eventType}/{stateKey}'', auth (putStateEvent h)),
      (''PUT /_matrix/client/v3/rooms/{roomId}/state/{eventType}'', auth (putStateEvent h)),
      (''PUT /_matrix/client/v3/rooms/{roomId}/state/{eventType}/'', auth (putStateEvent h)),
      (''GET /_matrix/client/v3/rooms/{roomId}/state/{eventType}/{stateKey}'', auth (Rooms_Routes.getRoomState h)),
      (''GET /_matrix/client/v3/rooms/{roomId}/state/{eventType}'', auth (Rooms_Routes.getRoomState h)),
      (''GET /_matrix/client/v3/rooms/{roomId}/state/{eventType}/'', auth (Rooms_Routes.getRoomState h)),
      (''GET /_matrix/client/v3/rooms/{roomId}/messages'', auth (getRoomMessages h)),
      (''POST /_matrix/client/v3/rooms/{roomId}/receipt/{receiptType}/{eventId}'', auth (postReceipt h)),
      (''POST /_matrix/client/v3/rooms/{roomId}/read_markers'', auth (postReadMarkers h)),
      (''GET /_matrix/client/v3/rooms/{roomId}/event/{eventId}'', auth (Rooms_Routes.getEvent h)),
      (''GET /_matrix/client/v3/rooms/{roomId}/state'', auth (getRoomStateAll h)),
      (''GET /_matrix/client/v3/rooms/{roomId}/joined_members'', auth (getJoinedMembers h)),
      (''PUT /_matrix/client/v3/rooms/{roomId}/typing/{userId}'', auth (putTyping h))]"

definition profile_routes :: "handler \<Rightarrow> (http_handler \<Rightarrow> http_handler) \<Rightarrow> http_handler routes" where
  "profile_routes h auth =
     [(''GET /_matrix/client/v3/profile/{userId}'', Account_Routes.getProfile h),
      (''GET /_matrix/client/v3/profile/{userId}/{keyName}'', getProfileKey h),
      (''PUT /_matrix/client/v3/profile/{userId}/{keyName}'', auth (putProfileKey h)),
      (''DELETE /_matrix/client/v3/profile/{userId}/{keyName}'', auth (deleteProfileKey h))]"

definition account_routes :: "handler \<Rightarrow> (http_handler \<Rightarrow> http_handler) \<Rightarrow> http_handler routes" where
  "account_routes h auth =
     [(''GET /_matrix/client/v3/account/whoami'', auth (whoami h)),
      (''PUT /_matrix/client/v3/user/{userId}/account_data/{type}'', auth (putUserAccountData h)),
      (''GET /_matrix/client/v3/user/{userId}/account_data/{type}'', getUserAccountData h),
      (''PUT /_matrix/client/v3/user/{userId}/rooms/{roomId}/account_data/{type}'', auth (putRoomAccountData h)),
      (''GET /_matrix/client/v3/user/{userId}/rooms/{roomId}/account_data/{type}'', getRoomAccountData h)]"

definition media_routes :: "handler \<Rightarrow> (http_handler \<Rightarrow> http_handler) \<Rightarrow> http_handler routes" where
  "media_routes h auth =
     [(''POST /_matrix/media/v3/upload'', auth (uploadMedia h)),
      (''GET /_matrix/client/v1/media/download/{serverName}/{mediaId}'', auth (downloadMedia h)),
      (''GET /_matrix/client/v1/media/thumbnail/{serverName}/{mediaId}'', auth (thumbnailMedia h)),
      (''GET /_matrix/client/v1/media/config'', auth (mediaConfig h)),
      (''GET /_matrix/federation/v1/media/download/{mediaId}'', federationDownloadMedia h)]"

definition presence_routes :: "handler \<Rightarrow> (http_handler \<Rightarrow> http_handler) \<Rightarrow> http_handler routes" where
  "presence_routes h auth =
     [(''GET /_matrix/client/v3/presence/{userId}/status'', auth (getPresenceStatus h)),
      (''PUT /_matrix/client/v3/presence/{userId}/status'', auth (putPresenceStatus h))]"

definition roomkeys_routes :: "handler \<Rightarrow> (http_handler \<Rightarrow> http_handler) \<Rightarrow> http_handler routes" where
  "roomkeys_routes h auth =
     [(''GET /_matrix/client/v3/room_keys/version'', auth (getLatestVersion h)),
      (''POST /_matrix/client/v3/room_keys/version'', auth (createVersion h)),
      (''GET /_matrix/client/v3/room_keys/keys'', auth (getRoomKeys h)),
      (''GET /_matrix/client/v3/room_keys/keys/{roomID}'', auth (getRoomKeys h)),
      (''PUT /_matrix/client/v3/room_keys/keys'', auth (putRoomKeys h)),
      (''DELETE /_matrix/client/v3/room_keys/keys'', auth (deleteRoomKeys h)),
      (''POST /_matrix/client/v3/keys/upload'', auth (uploadKeys h)),
      (''POST /_matrix/client/v3/keys/query'', auth (queryKeys h)),
      (''POST /_matrix/client/v3/keys/claim'', auth (claimKeys h)),
      (''GET /_matrix/client/v3/keys/changes'', auth (getKeyChanges h)),
      (''POST /_matrix/client/v3/keys/device_signing/upload'', auth (uploadCrossSigningKeys h)),
      (''POST /_matrix/client/v3/keys/signatures/upload'', auth (uploadSignatures h))]"

definition client_routes :: "handler \<Rightarrow> (http_handler \<Rightarrow> http_handler) \<Rightarrow> http_handler routes" where
  "client_routes h auth =
     [(''GET /_matrix/client/versions'', getVersions h)] @ auth_routes h auth @ room_routes h auth @
     profile_routes h auth @ account_routes h auth @ media_routes h auth @ presence_routes h auth @
     roomkeys_routes h auth @
     [(''GET /_matrix/client/v3/sync'', auth (syncClient h)),
      (''PUT /_matrix/client/v3/sendToDevice/{eventType}/{txnId}'', auth (sendToDevice h)),
      (''POST /_matrix/client/v3/user_directory/search'', auth (searchUsers h)),
      (''GET /_matrix/client/v3/joined_rooms'', auth (getJoinedRooms h)),
      (''GET /_matrix/client/v3/pushrules/'', auth (getPushRules h)),
      (''POST /_matrix/client/v3/user/{userId}/filter'', auth (uploadFilter h)),
      (''GET /_matrix/client/v3/user/{userId}/filter/{filterId}'', auth (getFilter h)),
      (''GET /_matrix/client/v3/capabilities'', auth (getCapabilities h)),
      (''GET /_matrix/client/v3/thirdparty/protocols'', auth (getThirdPartyProtocols h)),
      (''GET /_matrix/client/v3/directory/room/{roomAlias}'', resolveRoomAlias h),
      (''PUT /_matrix/client/v3/directory/room/{roomAlias}'', auth (setRoomAlias h)),
      (''DELETE /_matrix/client/v3/directory/room/{roomAlias}'', auth (deleteRoomAlias h))]"

subsection \<open>Federation routes\<close>

definition federation_routes :: "handler \<Rightarrow> http_handler routes" where
  "federation_routes h =
     (let auth = xMatrixMiddleware h in
     [(''GET /_matrix/federation/v1/version'', getVersion h),
      (''GET /_matrix/key/v2/server'', getServerKey h),
      (''GET /_matrix/federation/v1/query/profile'', Federation_Routes.getProfile h),
      (''GET /_matrix/federation/v1/query/directory'', auth (getDirectory h)),
      (''POST /_matrix/federation/v1/user/keys/query'', auth (postUserKeysQuery h)),
      (''POST /_matrix/federation/v1/user/keys/claim'', auth (postUserKeysClaim h)),
      (''PUT /_matrix/federation/v2/invite/{roomId}/{eventId}'', auth (putInvite h)),
      (''PUT /_matrix/federation/v1/send/{txnId}'', auth (putSendTxn h)),
      (''GET /_matrix/federation/v1/backfill/{roomId}'', auth (getBackfill h)),
      (''GET /_matrix/federation/v1/event/{eventId}'', auth (Federation_Routes.getEvent h)),
      (''GET /_matrix/federation/v1/publicRooms'', auth (Federation_Routes.getPublicRooms h)),
      (''POST /_matrix/federation/v1/publicRooms'', auth (Federation_Routes.postPublicRooms h)),
      (''GET /_matrix/federation/v1/make_join/{roomId}/{userId}'', auth (makeJoin h)),
      (''PUT /_matrix/federation/v1/send_join/{roomId}/{eventId}'', auth (sendJoin h)),
      (''GET /_matrix/federation/v1/make_leave/{roomId}/{userId}'', auth (makeLeave h)),
      (''PUT /_matrix/federation/v2/send_leave/{roomId}/{eventId}'', auth (sendLeave h)),
      (''GET /_matrix/federation/v1/state_ids/{roomId}'', auth (getStateIDs h)),
      (''POST /_matrix/federation/v1/get_missing_events/{roomId}'', auth (postGetMissingEvents h)),
      (''GET /_matrix/federation/v1/state/{roomId}'', auth (Federation_Routes.getRoomState h))])"

subsection \<open>The server\<close>

text \<open>A database that does not answer ends the process, which is a panic here; the text of a number is its decimal text.\<close>

definition PingDB :: "handler \<Rightarrow> (string \<times> string) list op" where
  "PingDB h =
     bindM (catchM (db_query Ctx (\<lambda>d. ()))) (\<lambda>res. case res of
         Inl e \<Rightarrow> panicM
       | Inr _ \<Rightarrow>
           (let st = h_stats h; message = ''It'' @ [char_of (39 :: nat)] @ ''s healthy'';
                message = (if ps_AcquiredConns st > 40 then ''The database is experiencing heavy load.'' else message);
                message = (if ps_EmptyAcquireWaitTime st > 1000 then
                   ''The database has a high number of wait events, indicating potential bottlenecks.'' else message);
                message = (if ps_IdleConns st > ps_TotalConns st div 2 then
                   ''Many idle connections are being closed, consider revising the connection pool settings.'' else message);
                message = (if ps_MaxLifetimeDestroyCount st > ps_TotalConns st div 2 then
                   ''Many connections are being closed due to max lifetime, consider increasing max lifetime or revising the connection usage pattern.'' else message)
            in returnM [(''status'', ''up''), (''message'', message),
                 (''open_connections'', string_of_int (ps_TotalConns st)),
                 (''in_use'', string_of_int (ps_AcquiredConns st)),
                 (''idle'', string_of_int (ps_IdleConns st)),
                 (''wait_count'', string_of_int (ps_ConstructingConns st)),
                 (''wait_duration'', ps_EmptyAcquireWaitTime_String st),
                 (''max_idle_closed'', string_of_int (ps_MaxIdleDestroyCount st)),
                 (''max_lifetime_closed'', string_of_int (ps_MaxLifetimeDestroyCount st))]))"

definition healthHandler :: "handler \<Rightarrow> http_handler" where
  "healthHandler h r =
     bindM (PingDB h) (\<lambda>stats. WriteJSON 200 (Json (JObj (map (\<lambda>(k, v). (k, JStr v)) stats))))"

definition contains_dots :: "string \<Rightarrow> bool" where
  "contains_dots s \<longleftrightarrow> list_ex (\<lambda>i. take 2 (drop i s) = ''..'') [0..<length s]"

definition isAllowedWellKnownMatrixFile :: "string \<Rightarrow> bool" where
  "isAllowedWellKnownMatrixFile fileName \<longleftrightarrow>
     (if fileName = '''' \<or> CHR ''/'' \<in> set fileName \<or> contains_dots fileName then False
      else fileName \<in> {''client'', ''server'', ''support''})"

text \<open>\<open>http.ServeFile\<close> is a file of \<open>h_static\<close>, or not found.\<close>

definition wellKnownMatrixHandler :: "handler \<Rightarrow> http_handler" where
  "wellKnownMatrixHandler h r =
     (let fileName = PathValue r ''fileName'' in
      if \<not> isAllowedWellKnownMatrixFile fileName then NotFound
      else (case h_static h fileName of
              None \<Rightarrow> NotFound
            | Some content \<Rightarrow> returnM \<lparr>rp_Status = 200, rp_Header = [], rp_Body = Text content\<rparr>))"

definition all_routes :: "handler \<Rightarrow> http_handler routes" where
  "all_routes h =
     client_routes h (TokenBearerMiddleware h) @ federation_routes h @
     [(''GET /health'', healthHandler h),
      (''GET /.well-known/matrix/{fileName}'', wellKnownMatrixHandler h)]"

definition RegisterRoutes :: "handler \<Rightarrow> http_handler" where
  "RegisterRoutes h = logMiddleware (corsMiddleware (ServeMux (all_routes h)))"

end
