(* ===== verification/Handler_Laws.thy ===== *)
theory Handler_Laws
  imports Device_Laws Server
begin

text \<open>
  What a request may do to the database: a handler that only reads is silent, every other one moves the committed
  database along SQL steps, as the services do.
\<close>

subsection \<open>Plumbing\<close>

lemma call_panic [call_intros]: "keeps call_rel panicM"
  by (rule silent_call) (rule silent_panic)

lemma silent_WriteJSON [silent_intros, silent_ops]: "keeps silent_rel (WriteJSON s v)"
  unfolding WriteJSON_def by (intro silent_intros)

lemma silent_WriteError [silent_intros, silent_ops]: "keeps silent_rel (WriteError s v)"
  unfolding WriteError_def by (intro silent_intros)

lemma silent_WriteMatrixError [silent_intros, silent_ops]: "keeps silent_rel (WriteMatrixError s c m)"
  unfolding WriteMatrixError_def by (intro silent_intros)

lemma silent_WriteMatrixErrorSoftLogout [silent_intros, silent_ops]: "keeps silent_rel (WriteMatrixErrorSoftLogout s c m)"
  unfolding WriteMatrixErrorSoftLogout_def by (intro silent_intros)

lemma silent_bodyError [silent_intros, silent_ops]: "keeps silent_rel (bodyError e)"
  unfolding bodyError_def by (intro silent_intros)

lemma silent_Cache_Get [silent_intros, silent_ops]: "keeps silent_rel (Cache_Get h a e t)"
  unfolding Cache_Get_def by (intro silent_intros silent_redis) (simp add: silent_rel_def)

lemma silent_Cache_Set [silent_intros, silent_ops]: "keeps silent_rel (Cache_Set h a e t i d)"
  unfolding Cache_Set_def by (intro silent_intros silent_redis) (simp add: silent_rel_def tables_def)

lemma silent_loginError [silent_intros, silent_ops]: "keeps silent_rel (loginError h e)"
  unfolding loginError_def by (intro silent_intros)

lemma silent_writeMediaResponse [silent_intros, silent_ops]: "keeps silent_rel (writeMediaResponse d)"
  unfolding writeMediaResponse_def by (intro silent_intros)

lemma silent_writeDownloadError [silent_intros, silent_ops]: "keeps silent_rel (writeDownloadError e)"
  unfolding writeDownloadError_def by (intro silent_intros)

lemma silent_writeMultipart [silent_intros, silent_ops]: "keeps silent_rel (writeMultipartMediaResponse d)"
  unfolding writeMultipartMediaResponse_def Let_def by (intro silent_intros)

lemma silent_DownloadLocal [silent_intros, silent_ops]: "keeps silent_rel (DownloadLocal s i)"
  unfolding DownloadLocal_def downloadLocal_def by (intro silent_intros)

lemma silent_writeTransaction [silent_intros, silent_ops]: "keeps silent_rel (writeTransaction h pdus)"
  unfolding writeTransaction_def by (intro silent_intros)

lemma silent_sendError [silent_intros, silent_ops]: "keeps silent_rel (sendError h e)"
  unfolding sendError_def by (intro silent_intros)

lemma silent_unauthorized [silent_intros, silent_ops]: "keeps silent_rel (unauthorized m)"
  unfolding unauthorized_def by (intro silent_intros)

lemma silent_readAccountData [silent_intros, silent_ops]: "keeps silent_rel (readAccountData u r t)"
  unfolding readAccountData_def Let_def by (intro silent_intros)

lemma silent_writePublicRooms [silent_intros, silent_ops]: "keeps silent_rel (writePublicRooms h t l n)"
  unfolding writePublicRooms_def by (intro silent_intros)

lemma silent_FetchRemoteServerKey [silent_intros, silent_ops]: "keeps silent_rel (FetchRemoteServerKey s)"
  unfolding FetchRemoteServerKey_def by (intro silent_intros)

lemma silent_Verify [silent_intros, silent_ops]: "keeps silent_rel (ed25519_Verify h k m s)"
  unfolding ed25519_Verify_def by (intro silent_intros)

lemma silent_FetchRemoteMedia [silent_intros, silent_ops]: "keeps silent_rel (FetchRemoteMedia s i)"
  unfolding FetchRemoteMedia_def by (intro silent_intros)

lemma silent_Store_Key [silent_intros, silent_ops]: "keeps silent_rel (Store_Key c k)"
  by (simp add: keeps_def silent_rel_def tables_def Store_Key_def run_simps)

lemma silent_originKey [silent_intros, silent_ops]: "keeps silent_rel (originKey origin k)"
  unfolding originKey_def Let_def by (intro silent_intros)

lemma silent_memberSignature [silent_intros, silent_ops]: "keeps silent_rel (memberSignature h req)"
  unfolding memberSignature_def by (intro silent_intros)

lemma silent_verifyEventSignature [silent_intros, silent_ops]: "keeps silent_rel (verifyEventSignature h req)"
  unfolding verifyEventSignature_def by (intro silent_intros)

lemma silent_verifyLeaveEventSignature [silent_intros, silent_ops]: "keeps silent_rel (verifyLeaveEventSignature h req)"
  unfolding verifyLeaveEventSignature_def by (intro silent_intros)

lemma silent_verifyRawEventSignature [silent_intros, silent_ops]: "keeps silent_rel (verifyRawEventSignature h m s)"
  unfolding verifyRawEventSignature_def by (intro silent_intros)

lemma silent_PingDB [silent_intros, silent_ops]: "keeps silent_rel (PingDB h)"
  unfolding PingDB_def Let_def by (intro silent_intros)

lemma silent_textError [silent_intros, silent_ops]: "keeps silent_rel (textError st hs m)"
  unfolding textError_def by (intro silent_intros)

lemma silent_NotFound [silent_intros, silent_ops]: "keeps silent_rel NotFound"
  unfolding NotFound_def by (intro silent_intros)

lemmas call_plumbing [call_intros] = silent_ops [THEN silent_call]

text \<open>Constructs that take the rest of the handler as an argument.\<close>

lemma silent_decodeOr400 [silent_intros]: "(\<And>x. keeps silent_rel (k x)) \<Longrightarrow> keeps silent_rel (decodeOr400 h r dec k)"
  unfolding decodeOr400_def by (intro silent_intros)

lemma call_decodeOr400 [call_intros]: "(\<And>x. keeps call_rel (k x)) \<Longrightarrow> keeps call_rel (decodeOr400 h r dec k)"
  unfolding decodeOr400_def by (intro call_intros)

lemma call_withMember [call_intros]:
  "(\<And>x. keeps call_rel (v x)) \<Longrightarrow> (\<And>x. keeps call_rel (k x)) \<Longrightarrow> keeps call_rel (withMember h r j m v k)"
  unfolding withMember_def by (intro call_intros)

lemma silent_sendMedia [silent_intros]: "keeps silent_rel m \<Longrightarrow> keeps silent_rel (sendMedia m)"
  unfolding sendMedia_def by (intro silent_intros)

lemma call_sendMedia [call_intros]: "keeps call_rel m \<Longrightarrow> keeps call_rel (sendMedia m)"
  unfolding sendMedia_def by (intro call_intros)

lemma silent_requireUser [silent_intros]: "(\<And>u. keeps silent_rel (k u)) \<Longrightarrow> keeps silent_rel (requireUser c m r k)"
  unfolding requireUser_def by (intro silent_intros)

lemma call_requireUser [call_intros]: "(\<And>u. keeps call_rel (k u)) \<Longrightarrow> keeps call_rel (requireUser c m r k)"
  unfolding requireUser_def by (intro call_intros)

lemma silent_contextUser [silent_intros]: "(\<And>u. keeps silent_rel (k u)) \<Longrightarrow> keeps silent_rel (contextUser r k)"
  unfolding contextUser_def by (intro silent_intros)

lemma call_contextUser [call_intros]: "(\<And>u. keeps call_rel (k u)) \<Longrightarrow> keeps call_rel (contextUser r k)"
  unfolding contextUser_def by (intro call_intros)

lemma call_joinResolved [call_intros]: "keeps call_rel (joinResolved h u r via)"
  unfolding joinResolved_def Let_def by (intro call_intros)

lemma call_saveAccountData [call_intros]: "keeps call_rel (saveAccountData r u c t)"
  unfolding saveAccountData_def by (intro call_intros)

lemma call_receivePDU [call_intros]: "keeps call_rel (receivePDU h origin pdu results)"
  unfolding receivePDU_def by (intro call_intros)

lemma call_receiveEDU [call_intros]: "keeps call_rel (receiveEDU h edu)"
  unfolding receiveEDU_def by (intro call_intros)

lemma call_acceptInvite [call_intros]: "keeps call_rel (acceptInvite h req m roomID ev)"
  unfolding acceptInvite_def Let_def by (intro call_intros)

named_theorems silent_handlers "a handler that only reads"
named_theorems call_handlers "a handler that may write"

text \<open>
  The functions a handler is built with: waiting for a notification lets other calls run, and fetching remote media
  is a call; neither may do more.
\<close>

definition handler_ok :: "handler \<Rightarrow> bool" where
  "handler_ok h \<longleftrightarrow> (\<forall>u. keeps call_rel (h_wait h u)) \<and>
     (\<forall>f srv i. ms_remoteFetcher (h_media h) = Some f \<longrightarrow> keeps call_rel (f srv i))"

lemma handler_ok_wait [call_intros]: "handler_ok h \<Longrightarrow> keeps call_rel (h_wait h u)"
  by (simp add: handler_ok_def)

lemma handler_ok_Download [call_intros]: "handler_ok h \<Longrightarrow> keeps call_rel (Download (h_media h) srv i)"
  by (intro call_Download) (simp add: handler_ok_def)

lemma handler_ok_Thumbnail [call_intros]: "handler_ok h \<Longrightarrow> keeps call_rel (Thumbnail (h_media h) srv i)"
  unfolding Thumbnail_def by (rule handler_ok_Download)

subsection \<open>Rooms Routes\<close>

lemma silent_getPublicRooms [silent_handlers]: "keeps silent_rel (Rooms_Routes.getPublicRooms h r)"
  unfolding Rooms_Routes.getPublicRooms_def Let_def by (intro silent_intros)

lemma silent_postPublicRooms [silent_handlers]: "keeps silent_rel (Rooms_Routes.postPublicRooms h r)"
  unfolding Rooms_Routes.postPublicRooms_def Let_def by (intro silent_intros)

lemma call_postCreateRoom [call_handlers]: "keeps call_rel (postCreateRoom h r)"
  unfolding postCreateRoom_def Let_def by (intro call_intros)

lemma call_postJoinRoom [call_handlers]: "keeps call_rel (postJoinRoom h r)"
  unfolding postJoinRoom_def Let_def by (intro call_intros)

lemma call_postLeaveRoom [call_handlers]: "keeps call_rel (postLeaveRoom h r)"
  unfolding postLeaveRoom_def Let_def by (intro call_intros)

lemma call_postInviteRoom [call_handlers]: "keeps call_rel (postInviteRoom h r)"
  unfolding postInviteRoom_def Let_def by (intro call_intros)

lemma call_putSendEvent [call_handlers]: "keeps call_rel (putSendEvent h r)"
  unfolding putSendEvent_def Let_def by (intro call_intros)

lemma call_putStateEvent [call_handlers]: "keeps call_rel (putStateEvent h r)"
  unfolding putStateEvent_def Let_def by (intro call_intros)

lemma silent_getRoomState [silent_handlers]: "keeps silent_rel (Rooms_Routes.getRoomState h r)"
  unfolding Rooms_Routes.getRoomState_def Let_def by (intro silent_intros)

lemma silent_getRoomMessages [silent_handlers]: "keeps silent_rel (getRoomMessages h r)"
  unfolding getRoomMessages_def Let_def by (intro silent_intros)

lemma call_postReceipt [call_handlers]: "keeps call_rel (postReceipt h r)"
  unfolding postReceipt_def Let_def by (intro call_intros)

lemma silent_postReadMarkers [silent_handlers]: "keeps silent_rel (postReadMarkers h r)"
  unfolding postReadMarkers_def Let_def by (intro silent_intros)

lemma silent_getEvent [silent_handlers]: "keeps silent_rel (Rooms_Routes.getEvent h r)"
  unfolding Rooms_Routes.getEvent_def Let_def by (intro silent_intros)

lemma silent_getRoomStateAll [silent_handlers]: "keeps silent_rel (getRoomStateAll h r)"
  unfolding getRoomStateAll_def Let_def by (intro silent_intros)

lemma silent_getJoinedMembers [silent_handlers]: "keeps silent_rel (getJoinedMembers h r)"
  unfolding getJoinedMembers_def Let_def by (intro silent_intros)

lemma call_putTyping [call_handlers]: "keeps call_rel (putTyping h r)"
  unfolding putTyping_def Let_def by (intro call_intros)

lemma silent_getRoomMembers [silent_handlers]: "keeps silent_rel (getRoomMembers h r)"
  unfolding getRoomMembers_def Let_def by (intro silent_intros)

subsection \<open>Account Routes\<close>

lemma silent_getAvailable [silent_handlers]: "keeps silent_rel (getAvailable h r)"
  unfolding getAvailable_def Let_def by (intro silent_intros)

lemma silent_getLogin [silent_handlers]: "keeps silent_rel (getLogin h r)"
  unfolding getLogin_def Let_def by (intro silent_intros)

lemma call_postLogin [call_handlers]: "keeps call_rel (postLogin h r)"
  unfolding postLogin_def Let_def by (intro call_intros)

lemma call_postRefresh [call_handlers]: "keeps call_rel (postRefresh h r)"
  unfolding postRefresh_def Let_def by (intro call_intros)

lemma call_postLogout [call_handlers]: "keeps call_rel (postLogout h r)"
  unfolding postLogout_def Let_def by (intro call_intros)

lemma call_postRegister [call_handlers]: "keeps call_rel (postRegister h r)"
  unfolding postRegister_def Let_def by (intro call_intros)

lemma silent_whoami [silent_handlers]: "keeps silent_rel (whoami h r)"
  unfolding whoami_def Let_def by (intro silent_intros)

lemma call_putUserAccountData [call_handlers]: "keeps call_rel (putUserAccountData h r)"
  unfolding putUserAccountData_def Let_def by (intro call_intros)

lemma silent_getUserAccountData [silent_handlers]: "keeps silent_rel (getUserAccountData h r)"
  unfolding getUserAccountData_def Let_def by (intro silent_intros)

lemma call_putRoomAccountData [call_handlers]: "keeps call_rel (putRoomAccountData h r)"
  unfolding putRoomAccountData_def Let_def by (intro call_intros)

lemma silent_getRoomAccountData [silent_handlers]: "keeps silent_rel (getRoomAccountData h r)"
  unfolding getRoomAccountData_def Let_def by (intro silent_intros)

lemma silent_getProfile [silent_handlers]: "keeps silent_rel (Account_Routes.getProfile h r)"
  unfolding Account_Routes.getProfile_def Let_def by (intro silent_intros)

lemma silent_getProfileKey [silent_handlers]: "keeps silent_rel (getProfileKey h r)"
  unfolding getProfileKey_def Let_def by (intro silent_intros)

lemma call_putProfileKey [call_handlers]: "keeps call_rel (putProfileKey h r)"
  unfolding putProfileKey_def Let_def by (intro call_intros)

lemma call_deleteProfileKey [call_handlers]: "keeps call_rel (deleteProfileKey h r)"
  unfolding deleteProfileKey_def Let_def by (intro call_intros)

lemma silent_getPresenceStatus [silent_handlers]: "keeps silent_rel (getPresenceStatus h r)"
  unfolding getPresenceStatus_def Let_def by (intro silent_intros)

lemma call_putPresenceStatus [call_handlers]: "keeps call_rel (putPresenceStatus h r)"
  unfolding putPresenceStatus_def Let_def by (intro call_intros)

subsection \<open>Keys Routes\<close>

lemma silent_getLatestVersion [silent_handlers]: "keeps silent_rel (getLatestVersion h r)"
  unfolding getLatestVersion_def Let_def by (intro silent_intros)

lemma call_createVersion [call_handlers]: "keeps call_rel (createVersion h r)"
  unfolding createVersion_def Let_def by (intro call_intros)

lemma silent_getRoomKeys [silent_handlers]: "keeps silent_rel (getRoomKeys h r)"
  unfolding getRoomKeys_def Let_def by (intro silent_intros)

lemma call_putRoomKeys [call_handlers]: "keeps call_rel (putRoomKeys h r)"
  unfolding putRoomKeys_def Let_def by (intro call_intros)

lemma call_deleteRoomKeys [call_handlers]: "keeps call_rel (deleteRoomKeys h r)"
  unfolding deleteRoomKeys_def Let_def by (intro call_intros)

lemma call_uploadKeys [call_handlers]: "keeps call_rel (uploadKeys h r)"
  unfolding uploadKeys_def Let_def by (intro call_intros)

lemma silent_queryKeys [silent_handlers]: "keeps silent_rel (queryKeys h r)"
  unfolding queryKeys_def Let_def by (intro silent_intros)

lemma call_claimKeys [call_handlers]: "keeps call_rel (claimKeys h r)"
  unfolding claimKeys_def Let_def by (intro call_intros)

lemma silent_getKeyChanges [silent_handlers]: "keeps silent_rel (getKeyChanges h r)"
  unfolding getKeyChanges_def Let_def by (intro silent_intros)

lemma call_uploadCrossSigningKeys [call_handlers]: "keeps call_rel (uploadCrossSigningKeys h r)"
  unfolding uploadCrossSigningKeys_def Let_def by (intro call_intros)

lemma call_uploadSignatures [call_handlers]: "keeps call_rel (uploadSignatures h r)"
  unfolding uploadSignatures_def Let_def by (intro call_intros)

lemma call_uploadMedia [call_handlers]: "keeps call_rel (uploadMedia h r)"
  unfolding uploadMedia_def Let_def by (intro call_intros)

lemma call_downloadMedia [call_handlers]: "handler_ok h \<Longrightarrow> keeps call_rel (downloadMedia h r)"
  unfolding downloadMedia_def Let_def by (intro call_intros)

lemma call_thumbnailMedia [call_handlers]: "handler_ok h \<Longrightarrow> keeps call_rel (thumbnailMedia h r)"
  unfolding thumbnailMedia_def Let_def by (intro call_intros)

lemma silent_mediaConfig [silent_handlers]: "keeps silent_rel (mediaConfig h r)"
  unfolding mediaConfig_def Let_def by (intro silent_intros)

lemma silent_federationDownloadMedia [silent_handlers]: "keeps silent_rel (federationDownloadMedia h r)"
  unfolding federationDownloadMedia_def Let_def by (intro silent_intros)

subsection \<open>Client Routes\<close>

lemma silent_getVersions [silent_handlers]: "keeps silent_rel (getVersions h r)"
  unfolding getVersions_def Let_def by (intro silent_intros)

lemma silent_getPushRules [silent_handlers]: "keeps silent_rel (getPushRules h r)"
  unfolding getPushRules_def Let_def by (intro silent_intros)

lemma silent_uploadFilter [silent_handlers]: "keeps silent_rel (uploadFilter h r)"
  unfolding uploadFilter_def Let_def by (intro silent_intros)

lemma silent_getFilter [silent_handlers]: "keeps silent_rel (getFilter h r)"
  unfolding getFilter_def Let_def by (intro silent_intros)

lemma silent_getCapabilities [silent_handlers]: "keeps silent_rel (getCapabilities h r)"
  unfolding getCapabilities_def Let_def by (intro silent_intros)

lemma silent_getThirdPartyProtocols [silent_handlers]: "keeps silent_rel (getThirdPartyProtocols h r)"
  unfolding getThirdPartyProtocols_def Let_def by (intro silent_intros)

lemma silent_searchUsers [silent_handlers]: "keeps silent_rel (searchUsers h r)"
  unfolding searchUsers_def Let_def by (intro silent_intros)

lemma silent_getJoinedRooms [silent_handlers]: "keeps silent_rel (getJoinedRooms h r)"
  unfolding getJoinedRooms_def Let_def by (intro silent_intros)

lemma call_syncClient [call_handlers]: "handler_ok h \<Longrightarrow> keeps call_rel (syncClient h r)"
  unfolding syncClient_def Let_def by (intro call_intros)

lemma call_sendToDevice [call_handlers]: "keeps call_rel (sendToDevice h r)"
  unfolding sendToDevice_def Let_def by (intro call_intros)

lemma silent_resolveRoomAlias [silent_handlers]: "keeps silent_rel (resolveRoomAlias h r)"
  unfolding resolveRoomAlias_def Let_def by (intro silent_intros)

lemma call_setRoomAlias [call_handlers]: "keeps call_rel (setRoomAlias h r)"
  unfolding setRoomAlias_def Let_def by (intro call_intros)

lemma call_deleteRoomAlias [call_handlers]: "keeps call_rel (deleteRoomAlias h r)"
  unfolding deleteRoomAlias_def Let_def by (intro call_intros)

subsection \<open>Federation Routes\<close>

lemma silent_getVersion [silent_handlers]: "keeps silent_rel (getVersion h r)"
  unfolding getVersion_def Let_def by (intro silent_intros)

lemma silent_getServerKey [silent_handlers]: "keeps silent_rel (getServerKey h r)"
  unfolding getServerKey_def Let_def by (intro silent_intros)

lemma silent_fed_getProfile [silent_handlers]: "keeps silent_rel (Federation_Routes.getProfile h r)"
  unfolding Federation_Routes.getProfile_def Let_def by (intro silent_intros)

lemma silent_getDirectory [silent_handlers]: "keeps silent_rel (getDirectory h r)"
  unfolding getDirectory_def Let_def by (intro silent_intros)

lemma silent_postUserKeysQuery [silent_handlers]: "keeps silent_rel (postUserKeysQuery h r)"
  unfolding postUserKeysQuery_def Let_def by (intro silent_intros)

lemma call_postUserKeysClaim [call_handlers]: "keeps call_rel (postUserKeysClaim h r)"
  unfolding postUserKeysClaim_def Let_def by (intro call_intros)

lemma call_putSendTxn [call_handlers]: "keeps call_rel (putSendTxn h r)"
  unfolding putSendTxn_def Let_def by (intro call_intros)

lemma silent_fed_getEvent [silent_handlers]: "keeps silent_rel (Federation_Routes.getEvent h r)"
  unfolding Federation_Routes.getEvent_def Let_def by (intro silent_intros)

lemma silent_getBackfill [silent_handlers]: "keeps silent_rel (getBackfill h r)"
  unfolding getBackfill_def Let_def by (intro silent_intros)

lemma silent_fed_getPublicRooms [silent_handlers]: "keeps silent_rel (Federation_Routes.getPublicRooms h r)"
  unfolding Federation_Routes.getPublicRooms_def Let_def by (intro silent_intros)

lemma silent_fed_postPublicRooms [silent_handlers]: "keeps silent_rel (Federation_Routes.postPublicRooms h r)"
  unfolding Federation_Routes.postPublicRooms_def Let_def by (intro silent_intros)

lemma silent_makeJoin [silent_handlers]: "keeps silent_rel (makeJoin h r)"
  unfolding makeJoin_def Let_def by (intro silent_intros)

lemma silent_makeLeave [silent_handlers]: "keeps silent_rel (makeLeave h r)"
  unfolding makeLeave_def Let_def by (intro silent_intros)

lemma call_sendJoin [call_handlers]: "keeps call_rel (sendJoin h r)"
  unfolding sendJoin_def Let_def by (intro call_intros)

lemma call_sendLeave [call_handlers]: "keeps call_rel (sendLeave h r)"
  unfolding sendLeave_def Let_def by (intro call_intros)

lemma call_putInvite [call_handlers]: "keeps call_rel (putInvite h r)"
  unfolding putInvite_def Let_def by (intro call_intros)

lemma silent_fed_getRoomState [silent_handlers]: "keeps silent_rel (Federation_Routes.getRoomState h r)"
  unfolding Federation_Routes.getRoomState_def Let_def by (intro silent_intros)

lemma silent_getStateIDs [silent_handlers]: "keeps silent_rel (getStateIDs h r)"
  unfolding getStateIDs_def Let_def by (intro silent_intros)

lemma silent_postGetMissingEvents [silent_handlers]: "keeps silent_rel (postGetMissingEvents h r)"
  unfolding postGetMissingEvents_def Let_def by (intro silent_intros)

lemma silent_getMediaDownload [silent_handlers]: "keeps silent_rel (getMediaDownload h r)"
  unfolding getMediaDownload_def Let_def by (intro silent_intros)
lemma silent_healthHandler [silent_handlers]: "keeps silent_rel (healthHandler h r)"
  unfolding healthHandler_def by (intro silent_intros)

lemma silent_wellKnownMatrixHandler [silent_handlers]: "keeps silent_rel (wellKnownMatrixHandler h r)"
  unfolding wellKnownMatrixHandler_def Let_def by (intro silent_intros)

lemmas call_silent_handlers [call_handlers] = silent_handlers [THEN silent_call]

subsection \<open>Middlewares\<close>

lemma call_corsMiddleware: "(\<And>r. keeps call_rel (nxt r)) \<Longrightarrow> keeps call_rel (corsMiddleware nxt r)"
  unfolding corsMiddleware_def by (intro call_intros)

lemma call_logMiddleware: "(\<And>r. keeps call_rel (nxt r)) \<Longrightarrow> keeps call_rel (logMiddleware nxt r)"
  unfolding logMiddleware_def by (intro call_intros)

lemma call_TokenBearerMiddleware: "(\<And>r. keeps call_rel (nxt r)) \<Longrightarrow> keeps call_rel (TokenBearerMiddleware h nxt r)"
  unfolding TokenBearerMiddleware_def Let_def by (intro call_intros)

lemma call_xMatrixMiddleware: "(\<And>r. keeps call_rel (nxt r)) \<Longrightarrow> keeps call_rel (xMatrixMiddleware h nxt r)"
  unfolding xMatrixMiddleware_def Let_def by (intro call_intros)

lemma silent_corsMiddleware: "(\<And>r. keeps silent_rel (nxt r)) \<Longrightarrow> keeps silent_rel (corsMiddleware nxt r)"
  unfolding corsMiddleware_def by (intro silent_intros)

lemma silent_logMiddleware: "(\<And>r. keeps silent_rel (nxt r)) \<Longrightarrow> keeps silent_rel (logMiddleware nxt r)"
  unfolding logMiddleware_def by (intro silent_intros)

lemma silent_TokenBearerMiddleware: "(\<And>r. keeps silent_rel (nxt r)) \<Longrightarrow> keeps silent_rel (TokenBearerMiddleware h nxt r)"
  unfolding TokenBearerMiddleware_def Let_def by (intro silent_intros)

lemma silent_xMatrixMiddleware: "(\<And>r. keeps silent_rel (nxt r)) \<Longrightarrow> keeps silent_rel (xMatrixMiddleware h nxt r)"
  unfolding xMatrixMiddleware_def Let_def by (intro silent_intros)

subsection \<open>Routes\<close>

text \<open>Which pattern a path takes does not depend on the handlers.\<close>

definition relabel :: "('a \<Rightarrow> 'b) \<Rightarrow> 'a route \<Rightarrow> 'b route" where
  "relabel g p = (case p of (ps, b, a) \<Rightarrow> (ps, b, g a))"

lemma relabel_simp [simp]: "relabel g (ps, b, a) = (ps, b, g a)"
  by (simp add: relabel_def)

lemma on_literal_relabel: "on_literal s (map (relabel g) rs) = map (relabel g) (on_literal s rs)"
  by (induction rs) (auto simp: on_literal_def relabel_def split: list.splits seg.splits)

lemma on_wild_relabel: "on_wild s (map (relabel g) rs) = map (relabel g) (on_wild s rs)"
  by (induction rs) (auto simp: on_wild_def relabel_def split: list.splits seg.splits)

lemma at_end_relabel: "at_end qs (map (relabel g) rs) = map_option (relabel g) (at_end qs rs)"
  by (induction rs) (auto simp: at_end_def relabel_def)

lemma matchPath_relabel: "matchPath (map (relabel g) rs) ss = map_option (\<lambda>(a, b, e). (g a, b, e)) (matchPath rs ss)"
proof (induction rs ss rule: matchPath.induct)
  case (1 rs)
  show ?case
  proof (cases "at_end [] rs")
    case (Some p)
    then show ?thesis by (cases p) (simp add: at_end_relabel)
  qed (simp add: at_end_relabel)
next
  case (2 rs s ss)
  show ?case
    by (cases "matchPath (on_literal s rs) ss"; cases "matchPath (on_wild s rs) ss"; cases "at_end [Rest] rs")
      (auto simp: on_literal_relabel on_wild_relabel at_end_relabel 2)
qed

lemma of_method_relabel: "of_method m (map (\<lambda>(s, a). (s, g (s, a))) rs) = map (relabel g) (of_method m (map (\<lambda>(s, a). (s, (s, a))) rs))"
  by (induction rs) (auto simp: of_method_def split: prod.splits)

lemma find_route_relabel:
  "find_route (map (\<lambda>(s, a). (s, g (s, a))) rs) m path =
     map_option (\<lambda>(a, b, e). (g a, b, e)) (find_route (map (\<lambda>(s, a). (s, (s, a))) rs) m path)"
  unfolding find_route_def of_method_relabel matchPath_relabel by (auto split: option.split)

text \<open>The pattern a request takes.\<close>

definition pattern_of :: "'a routes \<Rightarrow> string \<Rightarrow> string \<Rightarrow> string option" where
  "pattern_of rs m path = map_option fst (find_route (map (\<lambda>(s, a). (s, s)) rs) m path)"

lemma on_literal_in: "p \<in> set (on_literal s rs) \<Longrightarrow> snd (snd p) \<in> (snd \<circ> snd) ` set rs"
  by (induction rs) (auto simp: on_literal_def split: list.splits seg.splits if_splits)

lemma on_wild_in: "p \<in> set (on_wild s rs) \<Longrightarrow> snd (snd p) \<in> (snd \<circ> snd) ` set rs"
  by (induction rs) (auto simp: on_wild_def split: list.splits seg.splits)

lemma of_method_in: "p \<in> set (of_method m rs) \<Longrightarrow> snd (snd p) \<in> snd ` set rs"
  by (induction rs) (auto simp: of_method_def split: prod.splits if_splits)

lemma matchPath_in: "matchPath rs ss = Some (a, b, e) \<Longrightarrow> a \<in> (snd \<circ> snd) ` set rs"
proof (induction rs ss arbitrary: a b e rule: matchPath.induct)
  case (1 rs)
  then show ?case by (fastforce simp: at_end_def find_Some_iff intro: rev_image_eqI nth_mem)
next
  case (2 rs s ss)
  have lit: "(snd \<circ> snd) ` set (on_literal s rs) \<subseteq> (snd \<circ> snd) ` set rs"
    using on_literal_in by fastforce
  have wild: "(snd \<circ> snd) ` set (on_wild s rs) \<subseteq> (snd \<circ> snd) ` set rs"
    using on_wild_in by fastforce
  have rest: "a \<in> (snd \<circ> snd) ` set rs" if "at_end [Rest] rs = Some (ps, b, a)" for ps b
    using that by (fastforce simp: at_end_def find_Some_iff intro: rev_image_eqI nth_mem)
  show ?case
  proof (cases "matchPath (on_literal s rs) ss")
    case (Some m)
    with 2(1) [of a b e] 2(3) lit show ?thesis by auto
  next
    case None
    show ?thesis
    proof (cases "if s = ''/'' then None else matchPath (on_wild s rs) ss")
      case (Some m)
      with 2(2) [of a b e] 2(3) None wild show ?thesis by (auto split: if_splits)
    next
      case none: None
      then show ?thesis using 2(3) None rest by auto
    qed
  qed
qed

lemma find_route_in: "find_route rs m path = Some (f, v, e) \<Longrightarrow> f \<in> snd ` set rs"
  by (auto simp: find_route_def split: option.splits if_splits dest!: matchPath_in of_method_in intro: rev_image_eqI)

text \<open>The handler a path leads to stands beside its pattern.\<close>

lemma find_route_pattern:
  assumes "find_route rs m path = Some (f, v, e)"
  obtains s where "(s, f) \<in> set rs" and "pattern_of rs m path = Some s"
proof -
  have id: "map (\<lambda>(s, a). (s, snd (s, a))) rs = rs" by (induction rs) auto
  let ?t = "find_route (map (\<lambda>(s, a). (s, (s, a))) rs) m path"
  have "find_route rs m path = map_option (\<lambda>(a, b, e). (snd a, b, e)) ?t"
    using find_route_relabel [of snd rs m path] id by simp
  with assms obtain s where s: "?t = Some ((s, f), v, e)" by auto
  have "(s, f) \<in> set rs" using find_route_in [OF s] by auto
  moreover have "find_route (map (\<lambda>(s, a). (s, s)) rs) m path = Some (s, v, e)"
    using find_route_relabel [of fst rs m path] s by simp
  ultimately show thesis using that by (simp add: pattern_of_def)
qed

lemma call_ServeMux:
  assumes "\<And>f r. f \<in> snd ` set rs \<Longrightarrow> keeps call_rel (f r)"
  shows "keeps call_rel (ServeMux rs r)"
proof -
  have "keeps call_rel (case find_route rs m path of Some (f, values, _) \<Rightarrow> f (r\<lparr>hr_PathValues := values\<rparr>) | None \<Rightarrow> e)"
    if "keeps call_rel e" for m path e
  proof (cases "find_route rs m path")
    case (Some p)
    then show ?thesis using assms by (cases p) (auto dest: find_route_in)
  qed (simp add: that)
  note table = this
  show ?thesis
    unfolding ServeMux_def Let_def redirect_def
    by (intro call.keeps_if call.keeps_return table silent_call [OF silent_NotFound] silent_call [OF silent_textError])
qed

text \<open>Every handler of the table, and the whole server.\<close>

lemma call_all_routes:
  assumes "handler_ok h" and "f \<in> snd ` set (all_routes h)"
  shows "keeps call_rel (f r)"
proof -
  have client: "keeps call_rel (f r)" if "f \<in> snd ` set (client_routes h (TokenBearerMiddleware h))"
    using that assms(1)
    unfolding client_routes_def auth_routes_def room_routes_def profile_routes_def account_routes_def media_routes_def
      presence_routes_def roomkeys_routes_def
    by (elim imageE) (auto intro!: call_handlers call_TokenBearerMiddleware)
  have fed: "keeps call_rel (f r)" if "f \<in> snd ` set (federation_routes h)"
    using that unfolding federation_routes_def Let_def
    by (elim imageE) (auto intro!: call_handlers call_xMatrixMiddleware)
  show ?thesis using assms(2) client fed unfolding all_routes_def by (auto intro: call_handlers)
qed

lemma call_RegisterRoutes: "handler_ok h \<Longrightarrow> keeps call_rel (RegisterRoutes h r)"
  unfolding RegisterRoutes_def
  by (intro call_logMiddleware call_corsMiddleware call_ServeMux) (rule call_all_routes)


end
