(* ===== verification/Invariants.thy ===== *)
theory Invariants
  imports Handler_Laws
begin

text \<open>
  The service as a state machine: \<open>api_step\<close> is one request to the server, one call of a service, one task in the
  background or one round of the federation worker, \<open>reachable\<close> the worlds it leads to from an empty database. The locales say what
  a property of the tables has to satisfy to hold in every reachable world (\<open>table_invariant\<close>) and
  along every run (\<open>table_growth\<close>): one condition on single SQL statements. Their interpretations are
  the integrity of the schema, the order of the event log, and the fact that the log only grows.
\<close>

subsection \<open>Calls and runs\<close>

inductive api_step :: "range_orders \<Rightarrow> server \<Rightarrow> world \<Rightarrow> world \<Rightarrow> bool" for ro :: range_orders and sv :: server where
  api_LeaveRoom: "LeaveRoom sv u r w = (res, w') \<Longrightarrow> api_step ro sv w w'"
| api_JoinLocalRoom: "JoinLocalRoom sv u r w = (res, w') \<Longrightarrow> api_step ro sv w w'"
| api_JoinRemoteRoom: "JoinRemoteRoom ro CheckAuth sv u r s w = (res, w') \<Longrightarrow> api_step ro sv w w'"
| api_InviteUser: "InviteUser sv r u v why dm w = (res, w') \<Longrightarrow> api_step ro sv w w'"
| api_GetJoinedRooms: "GetJoinedRooms u w = (xs, w') \<Longrightarrow> api_step ro sv w w'"
| api_CreateRoom: "CreateRoom sv props w = (cn, w') \<Longrightarrow> api_step ro sv w w'"
| api_SendStateEvent: "SendStateEvent sv sp w = (str, w') \<Longrightarrow> api_step ro sv w w'"
| api_SendEvent: "SendEvent sv ep w = (str, w') \<Longrightarrow> api_step ro sv w w'"
| api_GetMessages: "GetMessages r u f d l w = (gm, w') \<Longrightarrow> api_step ro sv w w'"
| api_GetEvent: "GetEvent u r e w = (ev, w') \<Longrightarrow> api_step ro sv w w'"
| api_GetRoomState: "GetRoomState u r w = (evs, w') \<Longrightarrow> api_step ro sv w w'"
| api_GetRoomMembers: "GetRoomMembers u r f g w = (evs, w') \<Longrightarrow> api_step ro sv w w'"
| api_GetJoinedMembers: "GetJoinedMembers u r w = (jm, w') \<Longrightarrow> api_step ro sv w w'"
| api_GetStateEventContent: "GetStateEventContent r u t k w = (ev, w') \<Longrightarrow> api_step ro sv w w'"
| api_SendReceipt: "SendReceipt u r t e w = (res, w') \<Longrightarrow> api_step ro sv w w'"
| api_SetTyping: "SetTyping u r b n w = (res, w') \<Longrightarrow> api_step ro sv w w'"
| api_ProcessInboundPDU: "ProcessInboundPDU ro CheckAuth sv s pdu w = (res, w') \<Longrightarrow> api_step ro sv w w'"
| api_MakeJoin: "MakeJoin sv r u vs w = (mk, w') \<Longrightarrow> api_step ro sv w w'"
| api_ProcessSendJoin: "ProcessSendJoin r pdu w = (sr, w') \<Longrightarrow> api_step ro sv w w'"
| api_MakeLeave: "MakeLeave sv r u w = (mk, w') \<Longrightarrow> api_step ro sv w w'"
| api_ProcessSendLeave: "ProcessSendLeave r pdu w = (res, w') \<Longrightarrow> api_step ro sv w w'"
| api_ProcessInvite: "ProcessInvite r v pdu st w = (res, w') \<Longrightarrow> api_step ro sv w w'"
| api_GetRoomStateSnapShot: "GetRoomStateSnapShot r e w = (snap, w') \<Longrightarrow> api_step ro sv w w'"
| api_GetStateIDsForEvent: "GetStateIDsForEvent r e w = (ids, w') \<Longrightarrow> api_step ro sv w w'"
| api_HandleBackfill: "HandleBackfill sv r es l w = (bf, w') \<Longrightarrow> api_step ro sv w w'"
| api_HandleGetMissingEvents: "HandleGetMissingEvents r es ls l d w = (evs, w') \<Longrightarrow> api_step ro sv w w'"
| api_workerRound: "workerRound sv w = (res, w') \<Longrightarrow> api_step ro sv w w'"
| api_run_task: "t \<in> set (w_tasks w) \<Longrightarrow> run_task sv t (w\<lparr>w_tasks := remove1 t (w_tasks w)\<rparr>) = (res, w') \<Longrightarrow>
    api_step ro sv w w'"
| api_CreateUsuario: "CreateUsuarioAndProfile Ctx us w = (us', w') \<Longrightarrow> api_step ro sv w w'"
| api_Register: "Register as n p w = (us, w') \<Longrightarrow> api_step ro sv w w'"
| api_Login: "Login as lp w = (ok, w') \<Longrightarrow> api_step ro sv w w'"
| api_Logout: "Logout u i w = (res, w') \<Longrightarrow> api_step ro sv w w'"
| api_Refresh: "Refresh as t w = (tok, w') \<Longrightarrow> api_step ro sv w w'"
| api_GetProfileByUserID: "GetProfileByUserID sv u w = (pf, w') \<Longrightarrow> api_step ro sv w w'"
| api_UpdateProfile: "UpdateProfile sv u n a w = (res, w') \<Longrightarrow> api_step ro sv w w'"
| api_PutUserAccountData: "PutUserAccountData u r t c w = (res, w') \<Longrightarrow> api_step ro sv w w'"
| api_GetUserAccountData: "GetUserAccountData u r t w = (ac, w') \<Longrightarrow> api_step ro sv w w'"
| api_SearchProfiles: "SearchProfiles il u q l w = (pfs, w') \<Longrightarrow> api_step ro sv w w'"
| api_ResolveAlias: "ResolveAlias sv a w = (rs, w') \<Longrightarrow> api_step ro sv w w'"
| api_ResolveLocalAlias: "ResolveLocalAlias sv a w = (rs, w') \<Longrightarrow> api_step ro sv w w'"
| api_CreateAlias: "CreateAlias sv a r w = (res, w') \<Longrightarrow> api_step ro sv w w'"
| api_DeleteAlias: "DeleteAlias sv a w = (res, w') \<Longrightarrow> api_step ro sv w w'"
| api_ListPublic: "ListPublic il sv n t l off w = (pc, w') \<Longrightarrow> api_step ro sv w w'"
| api_GetStatus: "GetStatus u v w = (pn, w') \<Longrightarrow> api_step ro sv w w'"
| api_SetStatus: "SetStatus u pst msg w = (res, w') \<Longrightarrow> api_step ro sv w w'"
| api_UploadKeys: "UploadKeys ukp w = (cnt, w') \<Longrightarrow> api_step ro sv w w'"
| api_QueryKeys: "QueryKeys sv u kq w = (qr, w') \<Longrightarrow> api_step ro sv w w'"
| api_ClaimKeys: "ClaimKeys sv kc w = (cr, w') \<Longrightarrow> api_step ro sv w w'"
| api_UploadCrossSigningKeys: "UploadCrossSigningKeys ucp w = (res, w') \<Longrightarrow> api_step ro sv w w'"
| api_UploadSignatures: "UploadSignatures sv req w = (fl, w') \<Longrightarrow> api_step ro sv w w'"
| api_Send: "Send sv tdp w = (res, w') \<Longrightarrow> api_step ro sv w w'"
| api_DeliverFromFederation: "DeliverFromFederation sv u t ms w = (res, w') \<Longrightarrow> api_step ro sv w w'"
| api_CreateBackupVersion: "CreateBackupVersion cbp w = (vb, w') \<Longrightarrow> api_step ro sv w w'"
| api_GetLatestBackupVersion: "GetLatestBackupVersion u w = (vb, w') \<Longrightarrow> api_step ro sv w w'"
| api_GetRoomKeys: "GetRoomKeys u v w = (cks, w') \<Longrightarrow> api_step ro sv w w'"
| api_PutRoomKeys: "PutRoomKeys prk w = (ce, w') \<Longrightarrow> api_step ro sv w w'"
| api_DeleteRoomKeys: "DeleteRoomKeys u v w = (ce, w') \<Longrightarrow> api_step ro sv w w'"
| api_Upload: "Upload med up w = (uri, w') \<Longrightarrow> api_step ro sv w w'"
| api_Download: "\<forall>f. ms_remoteFetcher med = Some f \<longrightarrow> keeps call_rel (f srv i) \<Longrightarrow>
    Download med srv i w = (dr, w') \<Longrightarrow> api_step ro sv w w'"
| api_SyncClient: "keeps call_rel (wait u) \<Longrightarrow> SyncClient wait u v tok n w = (sr, w') \<Longrightarrow> api_step ro sv w w'"
| api_Request: "handler_ok hn \<Longrightarrow> h_sv hn = sv \<Longrightarrow> h_ro hn = ro \<Longrightarrow> RegisterRoutes hn req w = (rsp, w') \<Longrightarrow>
    api_step ro sv w w'"

definition empty_db :: "db" where
  "empty_db =
     \<lparr>t_Evento = [], t_Canal = [], t_Extremidades = [], t_Estado = [], t_Membership = [], t_Alias = [],
      t_Usuario = [], t_Profile = [], t_AccountData = [], t_Receipts = [], t_Typing = [],
      t_Dispositivo = [], t_Presence = [], t_Midia = [], t_VersaoBackup = [], t_ChaveBackup = [],
      t_Chave_Dispositivo = [], t_Chave_Uso_Unico = [], t_Chave_Fallback = [], t_Chave_Cross_Signing = [],
      t_Mensagem_ToDevice = []\<rparr>"

definition start_tables :: "tables" where
  "start_tables = (empty_db, start_seqs)"

inductive reachable :: "range_orders \<Rightarrow> server \<Rightarrow> world \<Rightarrow> bool" for ro :: range_orders and sv :: server where
  reachable_start: "tables w = start_tables \<Longrightarrow> w_tx w = NoTx \<Longrightarrow> reachable ro sv w"
| reachable_step: "reachable ro sv w \<Longrightarrow> api_step ro sv w w' \<Longrightarrow> reachable ro sv w'"

text \<open>A world to start from: nothing fails, no remote server answers.\<close>

definition start_world :: "world" where
  "start_world =
     \<lparr>w_db = empty_db, w_tx = NoTx, w_seqs = start_seqs, w_calls = 0, w_fault = (\<lambda>_. None), w_ticks = 0,
      w_clock = (\<lambda>n. 100 + int n), w_draws = 0, w_random = (\<lambda>_. ''abcdef''), w_woken = [],
      w_outbound = [], w_retries = [], w_tasks = [], w_sent = [], w_objects = [], w_cache = [], w_keyCache = [],
      w_http = (\<lambda>_ _. Inl (ExtError ''connection refused'')), w_srv = (\<lambda>_. Inl (ExtError ''no such host''))\<rparr>"

text \<open>A call does a sequence of SQL steps, and never leaves a transaction open.\<close>

lemma call_relD: "m w = (r, w') \<Longrightarrow> keeps call_rel m \<Longrightarrow> w_tx w = NoTx \<Longrightarrow> w_tx w' = NoTx \<and> sql_steps (tables w) (tables w')"
  using keepsD [of call_rel m w r w'] by (simp add: call_rel_def)

lemma api_step_tables:
  assumes "api_step ro sv w w'" and "w_tx w = NoTx"
  shows "w_tx w' = NoTx \<and> sql_steps (tables w) (tables w')"
  using assms
proof (induction rule: api_step.induct)
  case (api_run_task t w res w')
  have "tables (w\<lparr>w_tasks := remove1 t (w_tasks w)\<rparr>) = tables w" by (simp add: tables_def)
  with call_relD [OF api_run_task(2) silent_call [OF silent_run_task]] api_run_task(3) show ?case by simp
next
  case (api_Download med srv i w dr w')
  have "keeps call_rel (Download med srv i)" using api_Download(1) by (intro call_Download) simp
  from call_relD [OF api_Download(2) this api_Download(3)] show ?case .
next
  case (api_SyncClient wait u v tok n w sr w')
  have "keeps call_rel (SyncClient wait u v tok n)" using api_SyncClient(1) by (rule call_SyncClient)
  from call_relD [OF api_SyncClient(2) this api_SyncClient(3)] show ?case .
next
  case (api_Request hn req w rsp w')
  from call_relD [OF api_Request(4) call_RegisterRoutes [OF api_Request(1)] api_Request(5)] show ?case .
qed (drule call_relD, intro call_intros, assumption+)+

text \<open>No call changes which later calls fail.\<close>

lemma call_rel_fault: "m w = (r, w') \<Longrightarrow> keeps call_rel m \<Longrightarrow> w_fault w' = w_fault w"
  using keepsD [of call_rel m w r w'] by (simp add: call_rel_def)

lemma api_step_fault: "api_step ro sv w w' \<Longrightarrow> w_fault w' = w_fault w"
proof (induction rule: api_step.induct)
  case (api_run_task t w res w')
  from call_rel_fault [OF api_run_task(2) silent_call [OF silent_run_task]] show ?case by simp
next
  case (api_Download med srv i w dr w')
  have "keeps call_rel (Download med srv i)" using api_Download(1) by (intro call_Download) simp
  from call_rel_fault [OF api_Download(2) this] show ?case .
next
  case (api_SyncClient wait u v tok n w sr w')
  have "keeps call_rel (SyncClient wait u v tok n)" using api_SyncClient(1) by (rule call_SyncClient)
  from call_rel_fault [OF api_SyncClient(2) this] show ?case .
next
  case (api_Request hn req w rsp w')
  from call_rel_fault [OF api_Request(4) call_RegisterRoutes [OF api_Request(1)]] show ?case .
qed (drule call_rel_fault, intro call_intros, assumption+)+

lemma run_fault: "(api_step ro sv)\<^sup>*\<^sup>* w w' \<Longrightarrow> w_fault w' = w_fault w"
  by (induction rule: rtranclp_induct) (auto dest: api_step_fault)

lemma reachable_start_world: "reachable ro sv start_world"
  by (rule reachable_start) (simp_all add: start_world_def start_tables_def tables_def)

lemma reachable_NoTx: "reachable ro sv w \<Longrightarrow> w_tx w = NoTx"
  by (induction rule: reachable.induct) (simp_all add: api_step_tables)

subsection \<open>What every run keeps\<close>

locale table_growth =
  fixes G :: "tables \<Rightarrow> tables \<Rightarrow> bool"
  assumes G_refl: "G x x"
    and G_trans: "G x y \<Longrightarrow> G y z \<Longrightarrow> G x z"
    and G_step: "sql_step x y \<Longrightarrow> G x y"
begin

lemma growth_steps: "sql_steps x y \<Longrightarrow> G x y"
  by (induction rule: rtranclp_induct) (auto intro: G_refl G_trans G_step)

lemma growth_api: "api_step ro sv w w' \<Longrightarrow> w_tx w = NoTx \<Longrightarrow> G (tables w) (tables w')"
  by (simp add: api_step_tables growth_steps)

lemma growth_run: "(api_step ro sv)\<^sup>*\<^sup>* w w' \<Longrightarrow> w_tx w = NoTx \<Longrightarrow> G (tables w) (tables w') \<and> w_tx w' = NoTx"
proof (induction rule: rtranclp_induct)
  case (step w1 w2)
  then show ?case using G_trans growth_api api_step_tables by blast
qed (simp add: G_refl)

text \<open>The same for one call of a computation that keeps \<open>call_rel\<close>.\<close>

lemma growth_call: "m w = (r, w') \<Longrightarrow> keeps call_rel m \<Longrightarrow> w_tx w = NoTx \<Longrightarrow> G (tables w) (tables w')"
  by (simp add: call_relD growth_steps)

end

locale table_invariant =
  fixes I :: "tables \<Rightarrow> bool"
  assumes I_start: "I start_tables"
    and I_step: "sql_step x y \<Longrightarrow> I x \<Longrightarrow> I y"

sublocale table_invariant \<subseteq> inv: table_growth "\<lambda>x y. I x \<longrightarrow> I y"
  by unfold_locales (auto intro: I_step)

context table_invariant
begin

lemma invariant_reachable: "reachable ro sv w \<Longrightarrow> I (tables w)"
proof (induction rule: reachable.induct)
  case (reachable_step w w')
  then show ?case using inv.growth_api reachable_NoTx by blast
qed (simp add: I_start)

end

subsection \<open>Integrity of the schema\<close>

lemma upsert_row_set:
  "set (upsert_row P f new rs) \<subseteq> insert new (set rs \<union> f ` {r \<in> set rs. P r})"
  by (induction rs) auto

lemma upsert_row_all:
  "(\<And>r. r \<in> set rs \<Longrightarrow> Q r) \<Longrightarrow> (\<And>r. r \<in> set rs \<Longrightarrow> Q r \<Longrightarrow> Q (f r)) \<Longrightarrow> Q new \<Longrightarrow>
     r \<in> set (upsert_row P f new rs) \<Longrightarrow> Q r"
  using upsert_row_set [of P f new rs] by auto

lemma ids_same [simp]:
  "evento_ids (d\<lparr>t_Canal := a\<rparr>) = evento_ids d" "canal_ids (d\<lparr>t_Evento := b\<rparr>) = canal_ids d"
  "evento_ids (d\<lparr>t_Membership := c\<rparr>) = evento_ids d" "canal_ids (d\<lparr>t_Membership := c\<rparr>) = canal_ids d"
  "evento_ids (d\<lparr>t_Estado := e\<rparr>) = evento_ids d" "canal_ids (d\<lparr>t_Estado := e\<rparr>) = canal_ids d"
  "evento_ids (d\<lparr>t_Extremidades := x\<rparr>) = evento_ids d" "canal_ids (d\<lparr>t_Extremidades := x\<rparr>) = canal_ids d"
  by (simp_all add: evento_ids_def canal_ids_def)

lemma db_ok_Canal: "insert_Canal r d = Inr d' \<Longrightarrow> db_ok d \<Longrightarrow> db_ok d'"
  by (auto simp: insert_Canal_def db_ok_def canal_ids_def evento_ids_def split: if_splits)

lemma db_ok_Evento: "insert_Evento n ev d = Inr d' \<Longrightarrow> db_ok d \<Longrightarrow> db_ok d'"
  by (auto simp: insert_Evento_def db_ok_def canal_ids_def evento_ids_def split: if_splits)

lemma db_ok_Membership:
  assumes "upsert_Membership r u m e d = Inr d'" and "db_ok d"
  shows "db_ok d'"
proof -
  let ?P = "\<lambda>x. mb_canal x = r \<and> mb_usuario x = u"
  let ?f = "\<lambda>x. x\<lparr>mb_type := m, mb_evento := e\<rparr>"
  let ?n = "\<lparr>mb_canal = r, mb_usuario = u, mb_type = m, mb_evento = e\<rparr>"
  have d: "e \<in> evento_ids d" "d' = d\<lparr>t_Membership := upsert_row ?P ?f ?n (t_Membership d)\<rparr>"
    using assms(1) by (auto simp: upsert_Membership_def split: if_splits)
  have "distinct (map (\<lambda>r. (mb_canal r, mb_usuario r)) (t_Membership d'))"
    using assms(2) by (simp add: d(2) db_ok_def upsert_row_distinct)
  moreover have "mb_evento x \<in> evento_ids d" if "x \<in> set (t_Membership d')" for x
    using that unfolding d(2) by simp (rule upsert_row_all [of "t_Membership d" "\<lambda>x. mb_evento x \<in> evento_ids d"],
      use assms(2) d(1) in \<open>auto simp: db_ok_def\<close>)
  ultimately show ?thesis using assms(2) by (simp add: d(2) db_ok_def)
qed

lemma db_ok_Estado:
  assumes "upsert_Estado c t k e d = Inr d'" and "db_ok d"
  shows "db_ok d'"
proof -
  let ?P = "\<lambda>x. es_canal x = c \<and> es_tipo x = t \<and> es_state_key x = k"
  let ?f = "\<lambda>x. x\<lparr>es_evento := e\<rparr>"
  let ?n = "\<lparr>es_canal = c, es_tipo = t, es_state_key = k, es_evento = e\<rparr>"
  have d: "c \<in> canal_ids d" "e \<in> evento_ids d" "d' = d\<lparr>t_Estado := upsert_row ?P ?f ?n (t_Estado d)\<rparr>"
    using assms(1) by (auto simp: upsert_Estado_def split: if_splits)
  have "distinct (map (\<lambda>r. (es_canal r, es_tipo r, es_state_key r)) (t_Estado d'))"
    using assms(2) by (simp add: d(3) db_ok_def upsert_row_distinct)
  moreover have "es_canal x \<in> canal_ids d \<and> es_evento x \<in> evento_ids d" if "x \<in> set (t_Estado d')" for x
    using that unfolding d(3) by simp (rule upsert_row_all [of "t_Estado d"
        "\<lambda>x. es_canal x \<in> canal_ids d \<and> es_evento x \<in> evento_ids d"], use assms(2) d(1,2) in \<open>auto simp: db_ok_def\<close>)
  ultimately show ?thesis using assms(2) by (simp add: d(3) db_ok_def)
qed

lemma db_ok_delete: "delete_Extremidades c es d = Inr d' \<Longrightarrow> db_ok d \<Longrightarrow> db_ok d'"
  by (auto simp: delete_Extremidades_def db_ok_def)

lemma db_ok_Extremidade: "insert_Extremidade c e d = Inr d' \<Longrightarrow> db_ok d \<Longrightarrow> db_ok d'"
  by (auto simp: insert_Extremidade_def db_ok_def split: if_splits)

lemma db_ok_other [simp]:
  "db_ok (d\<lparr>t_Alias := a\<rparr>) = db_ok d" "db_ok (d\<lparr>t_Usuario := b\<rparr>) = db_ok d" "db_ok (d\<lparr>t_Profile := c\<rparr>) = db_ok d"
  "db_ok (d\<lparr>t_AccountData := e\<rparr>) = db_ok d" "db_ok (d\<lparr>t_Receipts := f\<rparr>) = db_ok d" "db_ok (d\<lparr>t_Typing := g\<rparr>) = db_ok d"
  by (simp_all add: db_ok_def evento_ids_def canal_ids_def)

lemmas statement_defs = insert_Alias_def upsert_Receipt_def upsert_Typing_def insert_Usuario_def
  insert_Profile_def update_Profile_def insert_AccountData_def upsert_AccountData_def delete_Alias_def

lemma db_ok_step: "sql_step x y \<Longrightarrow> db_ok (fst x) \<Longrightarrow> db_ok (fst y)"
proof (induction rule: sql_step.induct)
  case (sql_device x y)
  then show ?case using dev_step_room db_ok_room_tables by blast
qed (auto simp: statement_defs intro: db_ok_Canal db_ok_Evento db_ok_Membership db_ok_Estado db_ok_delete
    db_ok_Extremidade split: if_splits option.splits)

interpretation schema: table_invariant "\<lambda>x. db_ok (fst x)"
proof
  show "db_ok (fst start_tables)" by (simp add: start_tables_def db_ok_def empty_db_def)
qed (rule db_ok_step)

subsection \<open>The event log\<close>

text \<open>Stream orderings increase along the log and lie below the next value of the sequence.\<close>

definition log_ordered :: "tables \<Rightarrow> bool" where
  "log_ordered x \<longleftrightarrow>
     sorted_wrt (<) (map ev_StreamOrdering (t_Evento (fst x))) \<and>
     (\<forall>e\<in>set (t_Evento (fst x)). ev_StreamOrdering e < int (sq_stream (snd x)))"

text \<open>
  The log only grows, by events above every ordering seen so far; members, state keys and rooms
  do not disappear.
\<close>

definition log_grows :: "tables \<Rightarrow> tables \<Rightarrow> bool" where
  "log_grows x y \<longleftrightarrow>
     sq_stream (snd x) \<le> sq_stream (snd y) \<and>
     (\<exists>es. t_Evento (fst y) = t_Evento (fst x) @ es \<and>
           (\<forall>e\<in>set es. int (sq_stream (snd x)) \<le> ev_StreamOrdering e)) \<and>
     (\<exists>cs. t_Canal (fst y) = t_Canal (fst x) @ cs) \<and>
     (\<exists>ks. map (\<lambda>r. (mb_canal r, mb_usuario r)) (t_Membership (fst y)) =
           map (\<lambda>r. (mb_canal r, mb_usuario r)) (t_Membership (fst x)) @ ks) \<and>
     (\<exists>ks. map (\<lambda>r. (es_canal r, es_tipo r, es_state_key r)) (t_Estado (fst y)) =
           map (\<lambda>r. (es_canal r, es_tipo r, es_state_key r)) (t_Estado (fst x)) @ ks)"

lemma statement_Evento:
  "insert_Evento n ev d = Inr d' \<Longrightarrow>
     d' = d \<or> d' = d\<lparr>t_Evento := t_Evento d @ [evento_row n ev]\<rparr> \<and> ev_ID ev \<notin> evento_ids d"
  by (auto simp: insert_Evento_def split: if_splits)

lemma log_ordered_step: "sql_step x y \<Longrightarrow> log_ordered x \<Longrightarrow> log_ordered y"
proof (induction rule: sql_step.induct)
  case (sql_Evento s ev d d')
  from statement_Evento [OF sql_Evento(1)] sql_Evento(2) show ?case
    by (auto simp: log_ordered_def sorted_wrt_append) (drule (1) bspec, simp)
next
  case (sql_device x y)
  then show ?case using dev_step_room [of x y] by (simp add: log_ordered_def room_tables_eqD [of "fst y" "fst x"])
next
  case (sql_draw s s' d)
  then show ?case by (force simp: log_ordered_def seqs_le_def)
qed (auto simp: log_ordered_def statement_defs insert_Canal_def upsert_Membership_def upsert_Estado_def
    delete_Extremidades_def insert_Extremidade_def split: if_splits option.splits)

interpretation ordered: table_invariant log_ordered
proof
  show "log_ordered start_tables" by (simp add: start_tables_def start_seqs_def log_ordered_def empty_db_def)
qed (rule log_ordered_step)

lemma log_grows_step: "sql_step x y \<Longrightarrow> log_grows x y"
proof (induction rule: sql_step.induct)
  case (sql_Evento s ev d d')
  from statement_Evento [OF sql_Evento] show ?case by (auto simp: log_grows_def)
next
  case (sql_Membership a b c e d d' s)
  then show ?case by (auto simp: log_grows_def upsert_Membership_def upsert_row_keys split: if_splits)
next
  case (sql_Estado a b c e d d' s)
  then show ?case by (auto simp: log_grows_def upsert_Estado_def upsert_row_keys split: if_splits)
next
  case (sql_device x y)
  then show ?case using dev_step_room [of x y] by (simp add: log_grows_def room_tables_eqD [of "fst y" "fst x"])
qed (auto simp: log_grows_def seqs_le_def statement_defs insert_Canal_def delete_Extremidades_def insert_Extremidade_def
    split: if_splits option.splits)

lemma log_grows_trans:
  assumes "log_grows x y" and "log_grows y z"
  shows "log_grows x z"
  using assms unfolding log_grows_def by (elim conjE exE) (force simp: intro: order_trans)

interpretation grows: table_growth log_grows
proof
  show "log_grows x x" for x by (simp add: log_grows_def)
qed (rule log_grows_trans, assumption+, rule log_grows_step)

end
