(* ===== verification/Event_Json.thy ===== *)
theory Event_Json
  imports Federation_Client
begin

text \<open>
  Events through JSON: what \<open>json.Unmarshal\<close> reads back from the text \<open>json.Marshal\<close> wrote for an event,
  and the Redis queues that hold events in that form.
\<close>

subsection \<open>Encode and decode\<close>

text \<open>The timestamp and the depth are \<open>int64\<close> variables; a nil content is written as \<open>null\<close>.\<close>

definition evento_wf :: "evento \<Rightarrow> bool" where
  "evento_wf ev \<longleftrightarrow> in_int64 (ev_OrigemServidorTS ev) \<and> in_int64 (ev_Depth ev) \<and> ev_Content ev \<noteq> None"

lemma fold_names:
  "fold_name ''event_id'' = ''EVENT_ID''" "fold_name ''type'' = ''TYPE''" "fold_name ''content'' = ''CONTENT''"
  "fold_name ''room_id'' = ''ROOM_ID''" "fold_name ''sender'' = ''SENDER''"
  "fold_name ''origin_server_ts'' = ''ORIGIN_SERVER_TS''" "fold_name ''state_key'' = ''STATE_KEY''"
  "fold_name ''redacts'' = ''REDACTS''" "fold_name ''prev_events'' = ''PREV_EVENTS''"
  "fold_name ''auth_events'' = ''AUTH_EVENTS''" "fold_name ''depth'' = ''DEPTH''" "fold_name ''hashes'' = ''HASHES''"
  "fold_name ''signatures'' = ''SIGNATURES''" "fold_name ''unsigned'' = ''UNSIGNED''"
  by code_simp+

declare fold_name.simps [simp del]

lemma field_vals_append: "field_vals n (a @ b) = field_vals n a @ field_vals n b"
  by (simp add: field_vals_def)

lemma field_vals_Cons:
  "field_vals n (m # ms) = (if fold_name (fst m) = fold_name n then snd m # field_vals n ms else field_vals n ms)"
  by (simp add: field_vals_def)

lemma field_vals_Nil: "field_vals n [] = []"
  by (simp add: field_vals_def)

lemma field_vals_omitempty:
  "field_vals n (omitempty z m v) = (if \<not> z \<and> fold_name m = fold_name n then [v] else [])"
  by (simp add: omitempty_def field_vals_def)

lemma field_vals_option:
  "field_vals n (case x of None \<Rightarrow> [] | Some k \<Rightarrow> [(m, f k)]) =
     (case x of None \<Rightarrow> [] | Some k \<Rightarrow> if fold_name m = fold_name n then [f k] else [])"
  by (simp add: field_vals_def split: option.split)

lemmas field_vals_rules = field_vals_append field_vals_Cons field_vals_Nil field_vals_omitempty field_vals_option fold_names

text \<open>The members of an event, field by field.\<close>

lemma evento_fields:
  "field_vals ''event_id'' (evento_members ev) = [JStr (ev_ID ev)]"
  "field_vals ''type'' (evento_members ev) = [JStr (ev_Tipo ev)]"
  "field_vals ''content'' (evento_members ev) = [raw_json (ev_Content ev)]"
  "field_vals ''room_id'' (evento_members ev) = [JStr (ev_CanalID ev)]"
  "field_vals ''sender'' (evento_members ev) = [JStr (ev_Sender ev)]"
  "field_vals ''origin_server_ts'' (evento_members ev) = [JNum (ev_OrigemServidorTS ev)]"
  "field_vals ''state_key'' (evento_members ev) = (case ev_StateKey ev of None \<Rightarrow> [] | Some k \<Rightarrow> [JStr k])"
  "field_vals ''redacts'' (evento_members ev) = (if ev_Redacts ev = '''' then [] else [JStr (ev_Redacts ev)])"
  "field_vals ''prev_events'' (evento_members ev) = (if ev_PrevEventos ev = [] then [] else [JArr (map JStr (ev_PrevEventos ev))])"
  "field_vals ''auth_events'' (evento_members ev) = (if ev_AuthEventos ev = [] then [] else [JArr (map JStr (ev_AuthEventos ev))])"
  "field_vals ''depth'' (evento_members ev) = (if ev_Depth ev = 0 then [] else [JNum (ev_Depth ev)])"
  "field_vals ''hashes'' (evento_members ev) = (if ev_Hashes ev = None then [] else [raw_json (ev_Hashes ev)])"
  "field_vals ''signatures'' (evento_members ev) = (if ev_Signatures ev = None then [] else [raw_json (ev_Signatures ev)])"
  "field_vals ''unsigned'' (evento_members ev) = (if ev_Unsigned ev = None then [] else [raw_json (ev_Unsigned ev)])"
  by (simp_all add: evento_members_def field_vals_rules split: option.split)

lemma dec_one:
  "dec_string [] = ('''', False)" "dec_string [JStr s] = (s, False)"
  "dec_string_ptr [] = (None, False)" "dec_string_ptr [JStr s] = (Some s, False)"
  "dec_int64 [] = (0, False)" "in_int64 n \<Longrightarrow> dec_int64 [JNum n] = (n, False)"
  "dec_raw [] = None" "dec_raw [v] = Some v"
  "dec_strings [] = ([], False)"
  by (simp_all add: dec_string_def dec_string_ptr_def dec_int64_def dec_raw_def dec_strings_def)

lemma dec_strings_arr: "dec_strings [JArr (map JStr xs)] = (xs, False)"
  by (simp add: dec_strings_def dec_string_def comp_def list_ex_iff)

lemma evento_of_evento_json:
  assumes "evento_wf ev"
  shows "evento_of_json (Some (evento_json ev)) = Inr (ev\<lparr>ev_StreamOrdering := 0\<rparr>)"
proof -
  have raw: "\<And>r. r \<noteq> None \<Longrightarrow> Some (raw_json r) = r" by (auto simp: raw_json_def)
  have state: "dec_string_ptr (case k of None \<Rightarrow> [] | Some s \<Rightarrow> [JStr s]) = (k, False)" for k
    by (simp add: dec_one split: option.split)
  show ?thesis
    using assms
    by (cases ev) (simp add: evento_of_json_def struct_members_def evento_json_def evento_fields evento_wf_def dec_one
        dec_strings_arr raw state Let_def if_distrib [of dec_string] if_distrib [of dec_strings]
        if_distrib [of dec_int64] if_distrib [of dec_raw] cong: if_cong)
qed

subsection \<open>The Redis queues\<close>

text \<open>The outbound queue gives back what was pushed, first in first out.\<close>

lemma PopOutboundQueue_head:
  assumes "w_fault w (w_calls w) = None" and "w_outbound w = evento_json ev # vs" and "evento_wf ev"
  shows "PopOutboundQueue w = (Ret (Some (ev\<lparr>ev_StreamOrdering := 0\<rparr>)), (ticked w)\<lparr>w_outbound := vs\<rparr>)"
  using assms(1,2)
  by (simp add: PopOutboundQueue_def run_simps redis_call_def ticked_def evento_of_evento_json [OF assms(3)])

lemma PushOutboundQueue_Ret:
  assumes "w_fault w (w_calls w) = None"
  shows "PushOutboundQueue ev w = (Ret (), (ticked w)\<lparr>w_outbound := w_outbound w @ [evento_json ev]\<rparr>)"
  using assms by (simp add: PushOutboundQueue_def run_simps redis_call_def ticked_def)

text \<open>The retry list of a server is read back whole, in order, and emptied.\<close>

lemma decode_all_wf: "list_all evento_wf evs \<Longrightarrow> decode_all (map evento_json evs) = map (\<lambda>ev. ev\<lparr>ev_StreamOrdering := 0\<rparr>) evs"
  by (induction evs) (simp_all add: decode_all_def evento_of_evento_json)

lemma retry_entry_update:
  "retry_entry s (w\<lparr>w_retries := AList.update t (vs, Some e) rs\<rparr>) =
    (if s = t then if w_clock w (w_ticks w) < e then (vs, Some e) else ([], None) else retry_entry s (w\<lparr>w_retries := rs\<rparr>))"
  by (simp add: retry_entry_def update_conv' split: option.split)

lemma retry_list_delete: "retry_list s (w\<lparr>w_retries := AList.delete t rs\<rparr>) = (if s = t then [] else retry_list s (w\<lparr>w_retries := rs\<rparr>))"
  by (simp add: retry_list_def retry_entry_def delete_conv' split: option.split)

lemma retry_entry_ticked: "retry_entry s (ticked w) = retry_entry s w"
  by (simp add: retry_entry_def ticked_def split: option.split)

lemma retry_list_ticked: "retry_list s (ticked w) = retry_list s w"
  by (simp add: retry_list_def retry_entry_ticked)

lemma forM_spawn:
  "forM evs (\<lambda>ev. spawn (TaskSend d ev)) w = (Ret (), w\<lparr>w_tasks := w_tasks w @ map (TaskSend d) evs\<rparr>)"
  by (induction evs arbitrary: w) (simp_all add: run_simps spawn_def)

lemma FlushPendingRetries_run:
  assumes "w_fault w (w_calls w) = None"
  shows "FlushPendingRetries d w = (Ret (), (ticked w)\<lparr>w_retries := AList.delete d (w_retries w),
    w_tasks := w_tasks w @ map (TaskSend d) (decode_all (retry_list d w))\<rparr>)"
  using assms
  by (simp add: FlushPendingRetries_def GetAndClearPendingRetries_def run_simps redis_call_def forM_spawn retry_list_ticked) (simp add: ticked_def)

end
