(* ===== verification/State_Resolution_Sort.thy ===== *)
theory State_Resolution_Sort
  imports State_Resolution
begin

text \<open>
  The candidate sort: \<open>SliceStable\<close> with the comparator of \<open>sortCandidates\<close>, the dependency graph,
  and the main loop. The loop's result is characterised by its edges alone, so the order in which
  the maps are ranged over cannot matter.
\<close>

subsection \<open>The stable sort\<close>

lemma mset_ins_right [simp]: "mset (ins_right lt x ys) = add_mset x (mset ys)"
  by (induction ys) auto

lemma mset_foldl_ins: "mset (foldl (\<lambda>acc x. ins_right lt x acc) acc xs) = mset acc + mset xs"
  by (induction xs arbitrary: acc) auto

lemma mset_SliceStable [simp]: "mset (SliceStable lt xs) = mset xs"
  by (simp add: SliceStable_def mset_foldl_ins)

lemma set_SliceStable [simp]: "set (SliceStable lt xs) = set xs"
  by (metis mset_SliceStable set_mset_mset)

lemma set_ins_right [simp]: "set (ins_right lt x ys) = insert x (set ys)"
  by (induction ys) auto

lemma sorted_ins_right:
  fixes f :: "'a \<Rightarrow> 'k :: linorder"
  assumes "\<And>a b. a \<in> insert x (set ys) \<Longrightarrow> b \<in> insert x (set ys) \<Longrightarrow> lt a b \<longleftrightarrow> f a < f b"
    and "sorted_wrt (\<lambda>a b. f b \<le> f a) ys"
  shows "sorted_wrt (\<lambda>a b. f b \<le> f a) (ins_right lt x ys)"
  using assms by (induction ys) (auto simp: not_less intro: order_trans)

lemma sorted_foldl_ins:
  fixes f :: "'a \<Rightarrow> 'k :: linorder"
  assumes "\<And>a b. a \<in> set acc \<union> set xs \<Longrightarrow> b \<in> set acc \<union> set xs \<Longrightarrow> lt a b \<longleftrightarrow> f a < f b"
    and "sorted_wrt (\<lambda>a b. f b \<le> f a) acc"
  shows "sorted_wrt (\<lambda>a b. f b \<le> f a) (foldl (\<lambda>acc x. ins_right lt x acc) acc xs)"
  using assms
proof (induction xs arbitrary: acc)
  case (Cons x xs)
  have "sorted_wrt (\<lambda>a b. f b \<le> f a) (ins_right lt x acc)"
    by (rule sorted_ins_right) (use Cons.prems in auto)
  then have "sorted_wrt (\<lambda>a b. f b \<le> f a) (foldl (\<lambda>acc x. ins_right lt x acc) (ins_right lt x acc) xs)"
    by (intro Cons.IH) (use Cons.prems(1) in auto)
  then show ?case by simp
qed simp

lemma SliceStable_sort_key:
  fixes f :: "'a \<Rightarrow> 'k :: linorder"
  assumes lt: "\<And>a b. a \<in> set xs \<Longrightarrow> b \<in> set xs \<Longrightarrow> lt a b \<longleftrightarrow> f a < f b" and inj: "inj_on f (set xs)"
  shows "SliceStable lt xs = sort_key f xs"
proof -
  have "sorted_wrt (\<lambda>a b. f b \<le> f a) (foldl (\<lambda>acc x. ins_right lt x acc) [] xs)"
    by (rule sorted_foldl_ins) (use lt in auto)
  then have "sorted (map f (SliceStable lt xs))"
    by (simp add: SliceStable_def sorted_wrt_rev sorted_wrt_map)
  then show ?thesis
    by (intro sort_key_inj_key_eq [symmetric]) (use inj in auto)
qed

subsection \<open>The comparator is a strict total order on known candidates\<close>

definition well_keyed :: "EventsMap \<Rightarrow> string set \<Rightarrow> bool" where
  "well_keyed em ids \<longleftrightarrow> (\<forall>i\<in>ids. \<exists>ev. map_of em i = Some ev \<and> ev_ID ev = i)"

definition candidate_key :: "EventsMap \<Rightarrow> evento option \<Rightarrow> string \<Rightarrow> int \<times> int \<times> string" where
  "candidate_key em pl i =
     (case map_of em i of
        None \<Rightarrow> (0, 0, i)
      | Some ev \<Rightarrow> (- getEffectivePowerLevel (ev_Sender ev) pl, ev_OrigemServidorTS ev, ev_ID ev))"

lemma candidate_less_key:
  assumes "well_keyed em ids" "a \<in> ids" "b \<in> ids"
  shows "candidate_less em pl a b \<longleftrightarrow> candidate_key em pl a < candidate_key em pl b"
proof -
  obtain x y where "map_of em a = Some x" "map_of em b = Some y"
    using assms unfolding well_keyed_def by blast
  then show ?thesis
    by (auto simp: candidate_less_def candidate_key_def Let_def)
qed

lemma candidate_key_inj: "well_keyed em ids \<Longrightarrow> inj_on (candidate_key em pl) ids"
proof (rule inj_onI)
  fix x y
  assume "well_keyed em ids" "x \<in> ids" "y \<in> ids" and k: "candidate_key em pl x = candidate_key em pl y"
  then obtain ex ey where "map_of em x = Some ex" "ev_ID ex = x" "map_of em y = Some ey" "ev_ID ey = y"
    unfolding well_keyed_def by blast
  with k show "x = y" by (simp add: candidate_key_def)
qed

lemma sortCandidates_perm:
  assumes "well_keyed em (set xs)" and "mset xs = mset ys"
  shows "sortCandidates em pl xs = sortCandidates em pl ys"
proof -
  have s: "set xs = set ys" using assms(2) by (metis set_mset_mset)
  have "sortCandidates em pl xs = sort_key (candidate_key em pl) xs"
    unfolding sortCandidates_def
    by (rule SliceStable_sort_key)
      (use assms(1) in \<open>auto intro: candidate_key_inj simp: candidate_less_key [where ids = "set xs"]\<close>)
  also have "\<dots> = sort_key (candidate_key em pl) ys"
    by (rule sort_key_inj_key_eq) (use assms in \<open>auto intro: candidate_key_inj\<close>)
  also have "\<dots> = sortCandidates em pl ys"
    unfolding sortCandidates_def
    by (rule SliceStable_sort_key [symmetric])
      (use assms(1) s in \<open>auto intro: candidate_key_inj simp: candidate_less_key [where ids = "set xs"]\<close>)
  finally show ?thesis .
qed

lemma set_sortCandidates [simp]: "set (sortCandidates em pl xs) = set xs"
  by (simp add: sortCandidates_def)

lemma mset_sortCandidates [simp]: "mset (sortCandidates em pl xs) = mset xs"
  by (simp add: sortCandidates_def)

lemma sortCandidates_empty [simp]: "sortCandidates em pl [] = []"
  by (simp add: sortCandidates_def SliceStable_def)

lemma sortCandidates_Nil [simp]: "sortCandidates em pl xs = [] \<longleftrightarrow> xs = []"
  by (metis length_0_conv length_SliceStable sortCandidates_def)

subsection \<open>Reading the degree and neighbour maps\<close>

lemma deg_of_Nil [simp]: "deg_of [] k = 0"
  by (simp add: deg_of_def)

lemma deg_of_update: "deg_of (AList.update a v d) k = (if k = a then v else deg_of d k)"
  by (simp add: deg_of_def update_conv')

lemma nbrs_of_update: "nbrs_of (AList.update a v g) k = (if k = a then v else nbrs_of g k)"
  by (simp add: nbrs_of_def update_conv')

subsection \<open>The inner loop\<close>

lemma relax_Cons: "relax (n # ns) s = relax ns (relax_one n s)"
  by (simp add: relax_def)

lemma deg_relax: "deg_of (fst (relax ns (d, z))) k = deg_of d k - int (count (mset ns) k)"
proof (induction ns arbitrary: d z)
  case Nil
  then show ?case by (simp add: relax_def)
next
  case (Cons n ns)
  then show ?case
    by (cases "relax_one n (d, z)") (auto simp: relax_Cons relax_one_def Let_def deg_of_update)
qed

definition reached :: "(string \<times> int) list \<Rightarrow> string list \<Rightarrow> string set" where
  "reached d ns = {k. 1 \<le> deg_of d k \<and> deg_of d k \<le> int (count (mset ns) k)}"

lemma reached_subset: "reached d ns \<subseteq> set ns"
proof
  fix k assume "k \<in> reached d ns"
  then have "1 \<le> int (count (mset ns) k)"
    unfolding reached_def mem_Collect_eq by linarith
  then have "0 < count (mset ns) k" by linarith
  then have "k \<in># mset ns" by (simp only: count_greater_zero_iff)
  then show "k \<in> set ns" by simp
qed

lemma finite_reached [simp]: "finite (reached d ns)"
  by (rule finite_subset [OF reached_subset]) simp

lemma zero_relax: "mset (snd (relax ns (d, z))) = mset z + mset_set (reached d ns)"
proof (induction ns arbitrary: d z)
  case Nil
  have "reached d [] = {}" by (auto simp: reached_def)
  then show ?case by (simp add: relax_def)
next
  case (Cons n ns)
  let ?d = "AList.update n (deg_of d n - 1) d"
  have IH: "mset (snd (relax ns (?d, z'))) = mset z' + mset_set (reached ?d ns)" for z'
    by (rule Cons.IH)
  show ?case
  proof (cases "deg_of d n = 1")
    case True
    then have "n \<notin> reached ?d ns" "reached d (n # ns) = insert n (reached ?d ns)"
      by (auto simp: reached_def deg_of_update)
    then show ?thesis
      using True IH [of "z @ [n]"] by (simp add: relax_Cons relax_one_def Let_def)
  next
    case False
    then have "reached d (n # ns) = reached ?d ns"
      by (auto simp: reached_def deg_of_update)
    then show ?thesis
      using False IH [of z] by (simp add: relax_Cons relax_one_def Let_def)
  qed
qed

subsection \<open>The dependency graph\<close>

lemma map_of_init_degrees: "map_of (init_degrees ids) k = (if k \<in> set ids then Some 0 else None)"
proof -
  have "map_of (foldl (\<lambda>d i. AList.update i 0 d) d ids) k = (if k \<in> set ids then Some 0 else map_of d k)"
    for d :: "(string \<times> int) list"
    by (induction ids arbitrary: d) (auto simp: update_conv')
  then show ?thesis by (simp add: init_degrees_def)
qed

lemma distinct_init_degrees: "distinct (map fst (init_degrees ids))"
proof -
  have "distinct (map fst d) \<Longrightarrow> distinct (map fst (foldl (\<lambda>d i. AList.update i 0 d) d ids))"
    for d :: "(string \<times> int) list"
    by (induction ids arbitrary: d) (simp_all add: distinct_update)
  then show ?thesis by (simp add: init_degrees_def)
qed

text \<open>The references of an event inside the sorted set, with multiplicity.\<close>

definition deps :: "EventsMap \<Rightarrow> string set \<Rightarrow> string \<Rightarrow> string list" where
  "deps em ids i =
     (case map_of em i of None \<Rightarrow> [] | Some ev \<Rightarrow> filter (\<lambda>a. a \<in> ids) (ev_AuthEventos ev))"

lemma dom_add_dep:
  "map_of (fst g) i \<noteq> None \<Longrightarrow>
     map_of (fst (add_dep i a g)) k = None \<longleftrightarrow> map_of (fst g) k = None"
  by (auto simp: add_dep_def update_conv' split: prod.split)

lemma foldl_add_dep:
  assumes "\<forall>k. map_of (fst g) k = None \<longleftrightarrow> k \<notin> ids" and "i \<in> ids"
  shows "(\<forall>k. map_of (fst (foldl (\<lambda>g a. add_dep i a g) g as)) k = None \<longleftrightarrow> k \<notin> ids) \<and>
    (\<forall>k. deg_of (fst (foldl (\<lambda>g a. add_dep i a g) g as)) k =
       deg_of (fst g) k + (if k = i then int (length (filter (\<lambda>a. a \<in> ids) as)) else 0)) \<and>
    (\<forall>k. mset (nbrs_of (snd (foldl (\<lambda>g a. add_dep i a g) g as)) k) =
       mset (nbrs_of (snd g) k) + replicate_mset (count (mset (filter (\<lambda>a. a \<in> ids) as)) k) i)"
  using assms
proof (induction "as" arbitrary: g)
  case (Cons a "as")
  have k: "\<forall>k. map_of (fst (add_dep i a g)) k = None \<longleftrightarrow> k \<notin> ids"
    using Cons.prems dom_add_dep [of g i a] by auto
  have ia: "map_of (fst g) a \<noteq> None \<longleftrightarrow> a \<in> ids" using Cons.prems by auto
  note IH = Cons.IH [OF k Cons.prems(2)]
  show ?case
    using IH ia
    by (cases g) (auto simp: add_dep_def deg_of_update nbrs_of_update split: if_splits)
qed simp

lemma distinct_add_dep: "distinct (map fst (fst g)) \<Longrightarrow> distinct (map fst (fst (add_dep i a g)))"
  by (cases g) (simp add: add_dep_def distinct_update)

lemma distinct_add_event: "distinct (map fst (fst g)) \<Longrightarrow> distinct (map fst (fst (add_event em i g)))"
proof -
  have "distinct (map fst (fst g)) \<Longrightarrow> distinct (map fst (fst (foldl (\<lambda>g a. add_dep i a g) g as)))" for "as" g
    by (induction "as" arbitrary: g) (simp_all add: distinct_add_dep)
  then show "distinct (map fst (fst g)) \<Longrightarrow> ?thesis"
    by (simp add: add_event_def split: option.split)
qed

lemma add_event_spec:
  assumes "\<forall>k. map_of (fst g) k = None \<longleftrightarrow> k \<notin> ids" and "i \<in> ids"
  shows "(\<forall>k. map_of (fst (add_event em i g)) k = None \<longleftrightarrow> k \<notin> ids) \<and>
    (\<forall>k. deg_of (fst (add_event em i g)) k =
       deg_of (fst g) k + (if k = i then int (length (deps em ids i)) else 0)) \<and>
    (\<forall>k. mset (nbrs_of (snd (add_event em i g)) k) =
       mset (nbrs_of (snd g) k) + replicate_mset (count (mset (deps em ids i)) k) i)"
  using foldl_add_dep [OF assms] assms(1)
  by (auto simp: add_event_def deps_def split: option.split)

text \<open>The graph the sort runs on, in terms of the references alone.\<close>

lemma build_graph_spec:
  assumes dist: "distinct ids"
  shows "(\<forall>k. map_of (fst (build_graph em ids)) k = None \<longleftrightarrow> k \<notin> set ids)" (is ?A)
    and "\<forall>k. deg_of (fst (build_graph em ids)) k = (if k \<in> set ids then int (length (deps em (set ids) k)) else 0)"
      (is ?B)
    and "\<forall>k n. count (mset (nbrs_of (snd (build_graph em ids)) k)) n =
       (if n \<in> set ids then count (mset (deps em (set ids) n)) k else 0)" (is ?C)
    and "distinct (map fst (fst (build_graph em ids)))" (is ?D)
proof -
  let ?f = "\<lambda>g i. add_event em i g"
  have gen: "(\<forall>k. map_of (fst (foldl ?f g xs)) k = None \<longleftrightarrow> k \<notin> set ids) \<and>
      (\<forall>k. deg_of (fst (foldl ?f g xs)) k =
         deg_of (fst g) k + (if k \<in> set xs then int (length (deps em (set ids) k)) else 0)) \<and>
      (\<forall>k n. count (mset (nbrs_of (snd (foldl ?f g xs)) k)) n =
         count (mset (nbrs_of (snd g) k)) n + (if n \<in> set xs then count (mset (deps em (set ids) n)) k else 0)) \<and>
      distinct (map fst (fst (foldl ?f g xs)))"
    if "\<forall>k. map_of (fst g) k = None \<longleftrightarrow> k \<notin> set ids" "set xs \<subseteq> set ids" "distinct xs"
       "distinct (map fst (fst g))" for g xs
    using that
  proof (induction xs arbitrary: g)
    case (Cons i xs)
    have sp: "\<forall>k. map_of (fst (add_event em i g)) k = None \<longleftrightarrow> k \<notin> set ids"
      "\<forall>k. deg_of (fst (add_event em i g)) k =
         deg_of (fst g) k + (if k = i then int (length (deps em (set ids) i)) else 0)"
      "\<forall>k. mset (nbrs_of (snd (add_event em i g)) k) =
         mset (nbrs_of (snd g) k) + replicate_mset (count (mset (deps em (set ids) i)) k) i"
      using add_event_spec [of g "set ids" i em] Cons.prems by auto
    from Cons.IH [OF sp(1)] Cons.prems distinct_add_event [of g em i]
    show ?case using sp(2,3) by auto
  qed simp
  have g: "\<forall>k. map_of (fst (init_degrees ids, [])) k = None \<longleftrightarrow> k \<notin> set ids"
    by (simp add: map_of_init_degrees)
  note G = gen [OF g subset_refl dist, simplified, OF distinct_init_degrees, folded build_graph_def]
  have z: "deg_of (init_degrees ids) k = 0" for k
    by (simp add: deg_of_def map_of_init_degrees)
  show ?A ?B ?C ?D
    using G by (simp_all add: z nbrs_of_def)
qed

subsection \<open>The main loop\<close>

text \<open>
  The loop invariant: the emitted ids and the queue are distinct ids of the graph, the degree of an
  id counts its references not emitted yet, the ids of degree zero are those emitted or queued, and
  each emitted id comes after all its references.
\<close>

definition kahn_inv ::
    "EventsMap \<Rightarrow> string set \<Rightarrow> (string \<times> int) list \<Rightarrow> string list \<Rightarrow> string list \<Rightarrow> bool" where
  "kahn_inv em ids d zero out \<longleftrightarrow>
     distinct (out @ zero) \<and>
     (\<forall>k. deg_of d k = (if k \<in> ids then int (length (filter (\<lambda>a. a \<notin> set out) (deps em ids k))) else 0)) \<and>
     (\<forall>k. k \<in> set (out @ zero) \<longleftrightarrow> k \<in> ids \<and> deg_of d k = 0) \<and>
     (\<forall>i<length out. set (deps em ids (out ! i)) \<subseteq> set (take i out))"

definition edges_ok :: "EventsMap \<Rightarrow> string set \<Rightarrow> (string \<times> string list) list \<Rightarrow> bool" where
  "edges_ok em ids graph \<longleftrightarrow>
     (\<forall>k n. count (mset (nbrs_of graph k)) n = (if n \<in> ids then count (mset (deps em ids n)) k else 0))"

lemma length_filter_split:
  "c \<notin> S \<Longrightarrow>
     length (filter (\<lambda>a. a \<notin> S) xs) = length (filter (\<lambda>a. a \<notin> insert c S) xs) + count (mset xs) c"
  by (induction xs) auto

lemma distinct_if_count: "(\<And>k. count (mset xs) k \<le> 1) \<Longrightarrow> distinct xs"
proof (induction xs)
  case (Cons x xs)
  have "count (mset xs) x = 0" using Cons.prems [of x] by simp
  moreover have "count (mset xs) k \<le> 1" for k
    by (rule order_trans [OF _ Cons.prems [of k]]) simp
  ultimately show ?case using Cons.IH by simp
qed simp

lemma filter_Nil_subset: "filter (\<lambda>a. a \<notin> S) xs = [] \<longleftrightarrow> set xs \<subseteq> S"
  by (auto simp: filter_empty_conv)

lemma kahn_step:
  assumes inv: "kahn_inv em ids d z out" and e: "edges_ok em ids graph"
    and c: "sortCandidates em pl z = cur # z'"
  defines "s \<equiv> relax (nbrs_of graph cur) (d, z')"
  shows "kahn_inv em ids (fst s) (snd s) (out @ [cur])"
proof -
  have mz: "mset z = add_mset cur (mset z')"
    using mset_sortCandidates [of em pl z] c by simp
  then have sz: "set z = insert cur (set z')"
    by (metis set_mset_add_mset_insert set_mset_mset)
  have dist: "distinct (out @ z)"
    and dg: "deg_of d k = (if k \<in> ids then int (length (filter (\<lambda>a. a \<notin> set out) (deps em ids k))) else 0)"
    and mem: "k \<in> set (out @ z) \<longleftrightarrow> k \<in> ids \<and> deg_of d k = 0"
    and topo: "\<forall>i<length out. set (deps em ids (out ! i)) \<subseteq> set (take i out)" for k
    using inv by (auto simp: kahn_inv_def)
  have dz: "distinct (cur # z')" using dist mz
    by (metis distinct_append mset_eq_imp_distinct_iff mset.simps(2))
  have cur: "cur \<notin> set out" "cur \<in> ids" "deg_of d cur = 0"
    using dist sz mem [of cur] by auto
  have dg': "deg_of (fst s) k =
      (if k \<in> ids then int (length (filter (\<lambda>a. a \<notin> set (out @ [cur])) (deps em ids k))) else 0)" for k
    using e length_filter_split [OF cur(1), of "deps em ids k"]
    by (auto simp: s_def deg_relax dg edges_ok_def)
  have r: "reached d (nbrs_of graph cur) = {k \<in> ids. deg_of d k \<noteq> 0 \<and> deg_of (fst s) k = 0}"
  proof -
    have "deg_of (fst s) k = deg_of d k - int (count (mset (nbrs_of graph cur)) k)" for k
      by (simp add: s_def deg_relax)
    moreover have "0 \<le> deg_of (fst s) k" "0 \<le> deg_of d k" for k by (simp_all add: dg' dg)
    moreover have "k \<notin> ids \<Longrightarrow> deg_of d k = 0" for k by (simp add: dg)
    ultimately show ?thesis unfolding reached_def by (smt (verit, best) Collect_cong)
  qed
  have msz: "mset (snd s) = mset z' + mset_set (reached d (nbrs_of graph cur))"
    by (simp add: s_def zero_relax)
  then have ssz: "set (snd s) = set z' \<union> reached d (nbrs_of graph cur)"
    by (metis finite_reached finite_set_mset_mset_set set_mset_mset set_mset_union)
  have disj: "k \<notin> set out \<and> k \<notin> set z' \<and> k \<noteq> cur" if "k \<in> reached d (nbrs_of graph cur)" for k
    using that mem [of k] sz unfolding r by auto
  have dzs: "distinct (snd s)"
  proof -
    have "distinct z'" using dz by simp
    then have "count (mset z') k \<le> 1" "k \<in> set z' \<or> count (mset z') k = 0" for k
      unfolding distinct_count_atmost_1 by simp_all
    then have "count (mset (snd s)) k \<le> 1" for k
      using disj [of k] by (auto simp: msz count_mset_set' intro: le_SucI)
    then show ?thesis by (intro distinct_if_count) blast
  qed
  have mem': "k \<in> set ((out @ [cur]) @ snd s) \<longleftrightarrow> k \<in> ids \<and> deg_of (fst s) k = 0" for k
  proof -
    have le: "deg_of (fst s) k = 0" if "k \<in> ids" "deg_of d k = 0"
    proof -
      have "filter (\<lambda>a. a \<notin> set out) (deps em ids k) = []" using that dg [of k] by simp
      then have "filter (\<lambda>a. a \<notin> set (out @ [cur])) (deps em ids k) = []"
        unfolding filter_Nil_subset by auto
      then show ?thesis by (simp add: dg')
    qed
    have "k \<in> set ((out @ [cur]) @ snd s) \<longleftrightarrow> k \<in> set (out @ z) \<or> k \<in> reached d (nbrs_of graph cur)"
      using ssz sz by auto
    then show ?thesis using mem [of k] le by (auto simp: r)
  qed
  have "set (deps em ids cur) \<subseteq> set out"
    using cur dg [of cur] by (simp add: filter_empty_conv subset_iff)
  then have topo': "set (deps em ids ((out @ [cur]) ! i)) \<subseteq> set (take i (out @ [cur]))"
    if "i < length (out @ [cur])" for i
    using topo that by (cases "i < length out") (auto simp: nth_append dest: less_antisym)
  have "distinct ((out @ [cur]) @ snd s)"
    using dist dz dzs sz ssz disj by auto
  then show ?thesis
    unfolding kahn_inv_def using dg' mem' topo' by blast
qed

lemma kahn_result:
  "kahn_inv em ids d z out \<Longrightarrow> edges_ok em ids graph \<Longrightarrow>
     \<exists>d'. kahn_inv em ids d' [] (kahn em pl graph d z out)"
proof (induction em pl graph d z out rule: kahn.induct)
  case (1 em pl graph d z out)
  show ?case
  proof (cases "sortCandidates em pl z")
    case Nil
    then have "z = []" by simp
    with Nil 1(2) show ?thesis by (subst kahn.simps) auto
  next
    case (Cons cur z')
    show ?thesis
      using 1(1) [OF Cons refl kahn_step [OF 1(2,3) Cons] 1(3)] Cons
      by (subst kahn.simps) (simp add: Let_def)
  qed
qed

lemma kahn_perm:
  assumes "mset z = mset z'" and "\<And>k. deg_of d k = deg_of d' k"
    and "\<And>k. mset (nbrs_of graph k) = mset (nbrs_of graph' k)"
    and "well_keyed em ids" and "set z \<subseteq> ids" and "\<And>k. set (nbrs_of graph k) \<subseteq> ids"
  shows "kahn em pl graph d z out = kahn em pl graph' d' z' out"
  using assms
proof (induction em pl graph d z out arbitrary: d' z' rule: kahn.induct)
  case (1 em pl graph d z out)
  have wk: "well_keyed em (set z)" using 1(5,6) by (auto simp: well_keyed_def)
  have s: "sortCandidates em pl z = sortCandidates em pl z'"
    by (rule sortCandidates_perm [OF wk 1(2)])
  show ?case
  proof (cases "sortCandidates em pl z")
    case Nil
    then show ?thesis using s by (subst (1 2) kahn.simps) simp
  next
    case (Cons cur zr)
    let ?s = "relax (nbrs_of graph cur) (d, zr)" and ?s' = "relax (nbrs_of graph' cur) (d', zr)"
    have deg: "deg_of (fst ?s) k = deg_of (fst ?s') k" for k
      using 1(3,4) by (simp add: deg_relax)
    have "reached d (nbrs_of graph cur) = reached d' (nbrs_of graph' cur)"
      using 1(3,4) by (simp add: reached_def)
    then have zero: "mset (snd ?s) = mset (snd ?s')" by (simp add: zero_relax)
    have "set zr \<subseteq> ids" using Cons 1(6) by (metis set_sortCandidates set_subset_Cons order_trans)
    moreover have "set (snd ?s) = set zr \<union> reached d (nbrs_of graph cur)"
      by (metis finite_reached finite_set_mset_mset_set set_mset_mset set_mset_union zero_relax)
    ultimately have sub: "set (snd ?s) \<subseteq> ids"
      using 1(7) reached_subset [of d "nbrs_of graph cur"] by blast
    have "kahn em pl graph (fst ?s) (snd ?s) (out @ [cur]) = kahn em pl graph' (fst ?s') (snd ?s') (out @ [cur])"
      by (rule 1(1) [OF Cons refl zero deg 1(4,5) sub 1(7)])
    then show ?thesis using Cons s by (subst (1 2) kahn.simps) (simp add: Let_def)
  qed
qed

end
