(* ===== verification/State_Resolution_Facts.thy ===== *)
theory State_Resolution_Facts
  imports State_Resolution_Sort
begin

text \<open>
  What state resolution guarantees: the partition into agreed and conflicting state, the order of
  the candidate sort, and the resolved state.
\<close>

subsection \<open>The candidate sort\<close>

lemma deg_zero_ids:
  assumes "distinct ids"
  shows "deg_of (fst (build_graph em ids)) k =
    (if k \<in> set ids then int (length (deps em (set ids) k)) else 0)"
  using build_graph_spec(2) [OF assms] by blast

lemma keys_build_graph: "distinct ids \<Longrightarrow> set (map fst (fst (build_graph em ids))) = set ids"
  using build_graph_spec(1) [of ids em] by (auto simp: map_of_eq_None_iff)

lemma edges_build_graph: "distinct ids \<Longrightarrow> edges_ok em (set ids) (snd (build_graph em ids))"
  using build_graph_spec(3) [of ids em] by (simp add: edges_ok_def)

definition zero_ids :: "range_orders \<Rightarrow> EventsMap \<Rightarrow> string list \<Rightarrow> string list" where
  "zero_ids ro em ids =
     filter (\<lambda>i. deg_of (fst (build_graph em ids)) i = 0) (ro_zero ro (map fst (fst (build_graph em ids))))"

lemma sort_unfold:
  "sortEventsTopologically ro ids em pl =
     kahn em pl (snd (build_graph em ids)) (fst (build_graph em ids)) (zero_ids ro em ids) []"
  by (simp add: sortEventsTopologically_def zero_ids_def Let_def split: prod.split)

lemma set_ro_zero: "orders_ok ro \<Longrightarrow> set (ro_zero ro xs) = set xs"
  by (metis orders_ok_def set_mset_mset)

lemma distinct_ro_zero: "orders_ok ro \<Longrightarrow> distinct (ro_zero ro xs) = distinct xs"
  by (metis orders_ok_def mset_eq_imp_distinct_iff)

lemma kahn_inv_init:
  assumes "distinct ids" and "orders_ok ro"
  shows "kahn_inv em (set ids) (fst (build_graph em ids)) (zero_ids ro em ids) []"
  unfolding kahn_inv_def
  using deg_zero_ids [OF assms(1), of em] build_graph_spec(4) [OF assms(1), of em]
  by (simp add: zero_ids_def set_ro_zero [OF assms(2)] distinct_ro_zero [OF assms(2)]
      keys_build_graph [OF assms(1), simplified])

lemma sort_inv:
  assumes "distinct ids" and "orders_ok ro"
  shows "\<exists>d. kahn_inv em (set ids) d [] (sortEventsTopologically ro ids em pl)"
  unfolding sort_unfold
  by (rule kahn_result [OF kahn_inv_init [OF assms] edges_build_graph [OF assms(1)]])

lemma sort_distinct: "distinct ids \<Longrightarrow> orders_ok ro \<Longrightarrow> distinct (sortEventsTopologically ro ids em pl)"
  using sort_inv [of ids ro em pl] by (auto simp: kahn_inv_def)

lemma sort_subset: "distinct ids \<Longrightarrow> orders_ok ro \<Longrightarrow> set (sortEventsTopologically ro ids em pl) \<subseteq> set ids"
  using sort_inv [of ids ro em pl] by (auto simp: kahn_inv_def)

lemma sort_topological:
  assumes "distinct ids" and "orders_ok ro" and "i < length (sortEventsTopologically ro ids em pl)"
  shows "set (deps em (set ids) (sortEventsTopologically ro ids em pl ! i))
    \<subseteq> set (take i (sortEventsTopologically ro ids em pl))"
  using sort_inv [OF assms(1,2), of em pl] assms(3) by (auto simp: kahn_inv_def)

lemma sort_left_out:
  assumes "distinct ids" "orders_ok ro" and "k \<in> set ids"
    and "k \<notin> set (sortEventsTopologically ro ids em pl)"
  shows "\<exists>a \<in> set (deps em (set ids) k). a \<notin> set (sortEventsTopologically ro ids em pl)"
proof -
  let ?out = "sortEventsTopologically ro ids em pl"
  obtain d where inv: "kahn_inv em (set ids) d [] ?out" using sort_inv [OF assms(1,2)] by blast
  from inv have "k \<in> set ?out \<longleftrightarrow> k \<in> set ids \<and> deg_of d k = 0"
    unfolding kahn_inv_def by (elim conjE) simp
  then have "deg_of d k \<noteq> 0" using assms(3,4) by blast
  moreover from inv have
    "deg_of d k = (if k \<in> set ids then int (length (filter (\<lambda>a. a \<notin> set ?out) (deps em (set ids) k))) else 0)"
    unfolding kahn_inv_def by (elim conjE) simp
  then have "deg_of d k = int (length (filter (\<lambda>a. a \<notin> set ?out) (deps em (set ids) k)))"
    using assms(3) by simp
  ultimately show ?thesis by (auto simp: filter_empty_conv)
qed

lemma sort_complete:
  fixes rank :: "string \<Rightarrow> nat"
  assumes "distinct ids" "orders_ok ro"
    and rank: "\<And>k a. k \<in> set ids \<Longrightarrow> a \<in> set (deps em (set ids) k) \<Longrightarrow> rank a < rank k"
  shows "set (sortEventsTopologically ro ids em pl) = set ids"
proof (rule subset_antisym [OF sort_subset [OF assms(1,2)]], rule subsetI)
  fix k assume "k \<in> set ids"
  then show "k \<in> set (sortEventsTopologically ro ids em pl)"
  proof (induction "rank k" arbitrary: k rule: less_induct)
    case less
    show ?case
    proof (rule ccontr)
      assume "k \<notin> set (sortEventsTopologically ro ids em pl)"
      then obtain a where a: "a \<in> set (deps em (set ids) k)" "a \<notin> set (sortEventsTopologically ro ids em pl)"
        using sort_left_out [OF assms(1,2) less.prems] by blast
      then have "a \<in> set ids" by (auto simp: deps_def split: option.splits)
      with a rank [OF less.prems a(1)] less.hyps show False by blast
    qed
  qed
qed

lemma deps_subset: "set (deps em ids k) \<subseteq> ids"
  by (auto simp: deps_def split: option.splits)

lemma sort_perm:
  assumes "distinct ids" and "mset ids = mset ids'" and "orders_ok ro" "orders_ok ro'"
    and wk: "well_keyed em (set ids)"
  shows "sortEventsTopologically ro ids em pl = sortEventsTopologically ro' ids' em pl"
proof -
  have d': "distinct ids'" using assms(1,2) mset_eq_imp_distinct_iff by blast
  have s: "set ids = set ids'" using assms(2) by (metis set_mset_mset)
  have deg: "deg_of (fst (build_graph em ids)) k = deg_of (fst (build_graph em ids')) k" for k
    by (simp add: deg_zero_ids [OF assms(1)] deg_zero_ids [OF d'] s)
  have keys: "mset (map fst (fst (build_graph em ids))) = mset (map fst (fst (build_graph em ids')))"
    using keys_build_graph [OF assms(1), of em] keys_build_graph [OF d', of em] s
      build_graph_spec(4) [OF assms(1), of em] build_graph_spec(4) [OF d', of em]
    by (intro set_eq_iff_mset_eq_distinct [THEN iffD1]) simp_all
  have z: "mset (zero_ids ro em ids) = mset (zero_ids ro' em ids')"
    using assms(3,4) keys by (simp add: zero_ids_def mset_filter orders_ok_def deg)
  have nb: "mset (nbrs_of (snd (build_graph em ids)) k) = mset (nbrs_of (snd (build_graph em ids')) k)" for k
    by (rule multiset_eqI) (simp add: build_graph_spec(3) [OF assms(1)] build_graph_spec(3) [OF d'] s)
  have nbs: "set (nbrs_of (snd (build_graph em ids)) k) \<subseteq> set ids" for k
  proof
    fix n assume "n \<in> set (nbrs_of (snd (build_graph em ids)) k)"
    then have "0 < count (mset (nbrs_of (snd (build_graph em ids)) k)) n" by simp
    then show "n \<in> set ids"
      using build_graph_spec(3) [OF assms(1), of em] by (metis less_irrefl)
  qed
  have zs: "set (zero_ids ro em ids) \<subseteq> set ids"
    using keys_build_graph [OF assms(1), of em] by (auto simp: zero_ids_def set_ro_zero [OF assms(3)])
  show ?thesis
    unfolding sort_unfold by (rule kahn_perm [OF z deg nb wk zs nbs])
qed

subsection \<open>partitionState\<close>

definition inner_of :: "TupleCounts \<Rightarrow> StateTuple \<Rightarrow> (string \<times> nat) list" where
  "inner_of tc t = (case map_of tc t of None \<Rightarrow> [] | Some m \<Rightarrow> m)"

lemma inner_count_entry:
  "inner_of (count_entry p tc) t =
     (if t = fst p then AList.update (snd p)
          (Suc (case map_of (inner_of tc t) (snd p) of None \<Rightarrow> 0 | Some n \<Rightarrow> n)) (inner_of tc t)
      else inner_of tc t)"
  by (auto simp: inner_of_def count_entry_def Let_def update_conv')

lemma keys_count_entry: "map_of (count_entry p tc) t = None \<longleftrightarrow> t \<noteq> fst p \<and> map_of tc t = None"
  by (auto simp: count_entry_def Let_def update_conv')

lemma tuple_counts_concat:
  "tuple_counts sets = foldl (\<lambda>tc p. count_entry p tc) [] (concat sets)"
proof -
  have "foldl (\<lambda>tc set. foldl (\<lambda>tc p. count_entry p tc) tc set) tc sets =
      foldl (\<lambda>tc p. count_entry p tc) tc (concat sets)" for tc
    by (induction sets arbitrary: tc) simp_all
  then show ?thesis by (simp add: tuple_counts_def)
qed

lemma foldl_count_entry:
  fixes tc :: TupleCounts and ps :: "(StateTuple \<times> string) list"
  assumes "distinct (map fst tc)" and "\<forall>t. distinct (map fst (inner_of tc t))"
    and "\<forall>t e. map_of (inner_of tc t) e \<noteq> Some 0"
  defines "r \<equiv> foldl (\<lambda>tc p. count_entry p tc) tc ps"
  shows "distinct (map fst r) \<and> (\<forall>t. distinct (map fst (inner_of r t))) \<and>
    (\<forall>t e. map_of (inner_of r t) e \<noteq> Some 0) \<and>
    (\<forall>t. map_of r t = None \<longleftrightarrow> map_of tc t = None \<and> t \<notin> fst ` set ps) \<and>
    (\<forall>t e. (case map_of (inner_of r t) e of None \<Rightarrow> 0 | Some n \<Rightarrow> n) =
       (case map_of (inner_of tc t) e of None \<Rightarrow> 0 | Some n \<Rightarrow> n) + count (mset ps) (t, e))"
  using assms(1-3) unfolding r_def
proof (induction ps arbitrary: tc)
  case (Cons p ps)
  obtain t e where p: "p = (t, e)" by (cases p)
  have 1: "distinct (map fst (count_entry p tc))"
    using Cons.prems(1) by (simp add: count_entry_def Let_def distinct_update)
  have 2: "\<forall>t. distinct (map fst (inner_of (count_entry p tc) t))"
    using Cons.prems(2) by (auto simp: inner_count_entry distinct_update)
  have 3: "\<forall>t e. map_of (inner_of (count_entry p tc) t) e \<noteq> Some 0"
    using Cons.prems(3) by (auto simp: inner_count_entry update_conv' split: if_splits)
  from Cons.IH [OF 1 2 3] show ?case
    by (auto simp: keys_count_entry inner_count_entry update_conv' p)
qed simp

lemma count_distinct_map:
  assumes "distinct (map fst s)"
  shows "count (mset s) (t, e) = (if map_of s t = Some e then 1 else 0)"
proof -
  have "distinct s" using assms by (simp add: distinct_map)
  then have "count (mset s) (t, e) = (if (t, e) \<in> set s then 1 else 0)"
    unfolding distinct_count_atmost_1 by blast
  then show ?thesis using assms by (simp add: map_of_eq_Some_iff)
qed

lemma count_concat_maps:
  assumes "\<forall>s\<in>set sets. distinct (map fst s)"
  shows "count (mset (concat sets)) (t, e) = length (filter (\<lambda>s. map_of s t = Some e) sets)"
  using assms by (induction sets) (simp_all add: count_distinct_map)

lemma tuple_counts_spec:
  assumes d: "\<forall>s\<in>set sets. distinct (map fst s)"
  shows "distinct (map fst (tuple_counts sets))"
    and "distinct (map fst (inner_of (tuple_counts sets) t))"
    and "map_of (tuple_counts sets) t = None \<longleftrightarrow> (\<forall>s\<in>set sets. map_of s t = None)"
    and "map_of (inner_of (tuple_counts sets) t) e = Some n \<longleftrightarrow>
      0 < n \<and> n = length (filter (\<lambda>s. map_of s t = Some e) sets)"
proof -
  have i: "inner_of [] t = []" for t by (simp add: inner_of_def)
  have F: "distinct (map fst (tuple_counts sets))"
    "\<And>t. distinct (map fst (inner_of (tuple_counts sets) t))"
    "\<And>t e. map_of (inner_of (tuple_counts sets) t) e \<noteq> Some 0"
    "\<And>t. map_of (tuple_counts sets) t = None \<longleftrightarrow> t \<notin> fst ` set (concat sets)"
    "\<And>t e. (case map_of (inner_of (tuple_counts sets) t) e of None \<Rightarrow> 0 | Some n \<Rightarrow> n) =
       count (mset (concat sets)) (t, e)"
    using foldl_count_entry [of "[]" "concat sets"]
    unfolding tuple_counts_concat [symmetric] by (simp_all only: i) simp_all
  show "distinct (map fst (tuple_counts sets))" "distinct (map fst (inner_of (tuple_counts sets) t))"
    by (rule F)+
  have "t \<notin> fst ` set (concat sets) \<longleftrightarrow> (\<forall>s\<in>set sets. t \<notin> fst ` set s)" by auto
  then show "map_of (tuple_counts sets) t = None \<longleftrightarrow> (\<forall>s\<in>set sets. map_of s t = None)"
    unfolding F(4) by (simp add: map_of_eq_None_iff)
  show "map_of (inner_of (tuple_counts sets) t) e = Some n \<longleftrightarrow>
      0 < n \<and> n = length (filter (\<lambda>s. map_of s t = Some e) sets)"
    using F(3) [of t e] F(5) [of t e] unfolding count_concat_maps [OF d]
    by (cases "map_of (inner_of (tuple_counts sets) t) e") auto
qed

text \<open>The event all sets agree on for a tuple; a tuple that some set has and no event is agreed on.\<close>

definition agreed :: "StateMap list \<Rightarrow> StateTuple \<Rightarrow> string option" where
  "agreed sets t =
     (case sets of
        [] \<Rightarrow> None
      | s # _ \<Rightarrow> if \<forall>s'\<in>set sets. map_of s' t = map_of s t then map_of s t else None)"

definition disputed :: "StateMap list \<Rightarrow> StateTuple \<Rightarrow> bool" where
  "disputed sets t \<longleftrightarrow> (\<exists>s\<in>set sets. map_of s t \<noteq> None) \<and> agreed sets t = None"

lemma agreed_iff: "agreed sets t = Some e \<longleftrightarrow> sets \<noteq> [] \<and> (\<forall>s\<in>set sets. map_of s t = Some e)"
  by (cases sets) (auto simp: agreed_def split: if_splits)

lemma length_filter_all: "length (filter P xs) = length xs \<longleftrightarrow> (\<forall>x\<in>set xs. P x)"
  by (metis filter_True length_filter_less less_irrefl)

lemma singletonI: "distinct xs \<Longrightarrow> xs \<noteq> [] \<Longrightarrow> (\<And>x. x \<in> set xs \<Longrightarrow> x = a) \<Longrightarrow> xs = [a]"
proof (cases xs)
  case (Cons y ys)
  assume *: "distinct xs" "\<And>x. x \<in> set xs \<Longrightarrow> x = a"
  with Cons have "y = a" "ys = []" by (simp, cases ys) auto
  with Cons show ?thesis by simp
qed simp

lemma inner_agreed:
  assumes d: "\<forall>s\<in>set sets. distinct (map fst s)" and "sets \<noteq> []"
  shows "agreed sets t = Some e \<longleftrightarrow> inner_of (tuple_counts sets) t = [(e, length sets)]"
proof -
  note spec = tuple_counts_spec [OF d]
  let ?in = "inner_of (tuple_counts sets) t"
  have agr: "agreed sets t = Some e \<longleftrightarrow> map_of ?in e = Some (length sets)" for e
  proof -
    have "map_of ?in e = Some (length sets) \<longleftrightarrow>
        0 < length sets \<and> length (filter (\<lambda>s. map_of s t = Some e) sets) = length sets"
      using spec(4) [of t e "length sets"] by metis
    also have "\<dots> \<longleftrightarrow> sets \<noteq> [] \<and> (\<forall>s\<in>set sets. map_of s t = Some e)"
      unfolding length_filter_all by simp
    finally show ?thesis unfolding agreed_iff by blast
  qed
  have "x = (e, length sets)" if "x \<in> set ?in" and e: "agreed sets t = Some e" for x
  proof -
    obtain f n where x: "x = (f, n)" by (cases x)
    with that spec(2) [of t] have f: "map_of ?in f = Some n" by (simp add: map_of_eq_Some_iff)
    then have "0 < length (filter (\<lambda>s. map_of s t = Some f) sets)" using spec(4) by auto
    then obtain s where "s \<in> set sets" "map_of s t = Some f" by (auto simp: filter_empty_conv)
    with e have "f = e" by (auto simp: agreed_iff)
    with f agr [of e] e x show ?thesis by simp
  qed
  moreover have "distinct ?in" using spec(2) [of t] by (simp add: distinct_map)
  moreover have "?in \<noteq> []" if "agreed sets t = Some e" using agr [of e] that by auto
  ultimately have "agreed sets t = Some e \<Longrightarrow> ?in = [(e, length sets)]"
    by (intro singletonI) auto
  then show ?thesis using agr [of e] by auto
qed

lemma partition_step_eq:
  assumes d: "\<forall>s\<in>set sets. distinct (map fst s)" and t: "map_of (tuple_counts sets) t \<noteq> None"
  shows "partition_step (length sets) (tuple_counts sets) t acc =
    (case agreed sets t of
       Some e \<Rightarrow> (AList.update t e (fst acc), snd acc)
     | None \<Rightarrow> (fst acc, snd acc @ [t]))"
proof -
  let ?in = "inner_of (tuple_counts sets) t"
  have ne: "sets \<noteq> []" using tuple_counts_spec(3) [OF d] t by auto
  note ag = inner_agreed [OF d ne, of t]
  show ?thesis
  proof (cases "agreed sets t")
    case None
    have "c \<noteq> length sets" if "?in = [(e, c)]" for e c
      using ag [of e] None that by auto
    then have "length ?in = 1 \<Longrightarrow> \<exists>e c. ?in = [(e, c)] \<and> c \<noteq> length sets"
      by (cases ?in) auto
    with None show ?thesis
      by (auto simp: partition_step_def inner_of_def [symmetric] Let_def case_prod_unfold)
  next
    case (Some e)
    then have "?in = [(e, length sets)]" using ag by simp
    with Some show ?thesis
      by (simp add: partition_step_def inner_of_def [symmetric] case_prod_unfold)
  qed
qed

definition partition_fold :: "StateMap list \<Rightarrow> StateTuple list \<Rightarrow> StateMap \<times> StateTuple list \<Rightarrow> StateMap \<times> StateTuple list" where
  "partition_fold sets ts acc =
     foldl (\<lambda>acc t. case agreed sets t of
         Some e \<Rightarrow> (AList.update t e (fst acc), snd acc)
       | None \<Rightarrow> (fst acc, snd acc @ [t])) acc ts"

lemma partition_fold_Cons:
  "partition_fold sets (t # ts) acc =
     partition_fold sets ts (case agreed sets t of
         Some e \<Rightarrow> (AList.update t e (fst acc), snd acc)
       | None \<Rightarrow> (fst acc, snd acc @ [t]))"
  by (simp add: partition_fold_def)

lemma partition_fold_fst:
  "map_of (fst (partition_fold sets ts acc)) t =
     (if t \<in> set ts \<and> agreed sets t \<noteq> None then agreed sets t else map_of (fst acc) t)"
proof (induction ts arbitrary: acc)
  case (Cons u us)
  then show ?case
    by (cases "agreed sets u") (auto simp: partition_fold_Cons update_conv')
qed (simp add: partition_fold_def)

lemma partition_fold_snd:
  "set (snd (partition_fold sets ts acc)) = set (snd acc) \<union> {t \<in> set ts. agreed sets t = None}"
proof (induction ts arbitrary: acc)
  case (Cons u us)
  then show ?case by (cases "agreed sets u") (auto simp: partition_fold_Cons)
qed (simp add: partition_fold_def)

lemma partition_fold_distinct:
  "distinct (map fst (fst acc)) \<Longrightarrow> distinct (map fst (fst (partition_fold sets ts acc)))"
proof (induction ts arbitrary: acc)
  case (Cons u us)
  then show ?case by (cases "agreed sets u") (simp_all add: partition_fold_Cons distinct_update)
qed (simp add: partition_fold_def)

lemma partitionState_fold:
  assumes d: "\<forall>s\<in>set sets. distinct (map fst s)" and ro: "orders_ok ro"
  shows "partitionState ro sets = partition_fold sets (ro_tuples ro (map fst (tuple_counts sets))) ([], [])"
    and "set (ro_tuples ro (map fst (tuple_counts sets))) = {t. \<exists>s\<in>set sets. map_of s t \<noteq> None}"
proof -
  have "set (ro_tuples ro (map fst (tuple_counts sets))) = fst ` set (tuple_counts sets)"
    using ro by (metis image_set orders_ok_def set_mset_mset)
  also have "\<dots> = {t. map_of (tuple_counts sets) t \<noteq> None}" by (auto simp: map_of_eq_None_iff)
  finally show keys: "set (ro_tuples ro (map fst (tuple_counts sets))) = {t. \<exists>s\<in>set sets. map_of s t \<noteq> None}"
    using tuple_counts_spec(3) [OF d] by simp
  have "foldl (\<lambda>acc t. partition_step (length sets) (tuple_counts sets) t acc) acc ts = partition_fold sets ts acc"
    if "\<forall>t\<in>set ts. map_of (tuple_counts sets) t \<noteq> None" for ts acc
    using that
    by (induction ts arbitrary: acc) (simp_all add: partition_fold_def partition_step_eq [OF d])
  then show "partitionState ro sets = partition_fold sets (ro_tuples ro (map fst (tuple_counts sets))) ([], [])"
    using keys tuple_counts_spec(3) [OF d] by (simp add: partitionState_def Let_def)
qed

lemma partition_spec:
  assumes d: "\<forall>s\<in>set sets. distinct (map fst s)" and ro: "orders_ok ro"
  shows "map_of (fst (partitionState ro sets)) t = agreed sets t"
    and "t \<in> set (snd (partitionState ro sets)) \<longleftrightarrow> disputed sets t"
    and "distinct (map fst (fst (partitionState ro sets)))"
proof -
  have "agreed sets t = Some e \<Longrightarrow> \<exists>s\<in>set sets. map_of s t \<noteq> None" for e
    by (cases sets) (auto simp: agreed_iff)
  then show "map_of (fst (partitionState ro sets)) t = agreed sets t"
    unfolding partitionState_fold(1) [OF assms] partition_fold_fst partitionState_fold(2) [OF assms]
    by (cases "agreed sets t") auto
  show "t \<in> set (snd (partitionState ro sets)) \<longleftrightarrow> disputed sets t"
    unfolding partitionState_fold(1) [OF assms] partition_fold_snd partitionState_fold(2) [OF assms]
    by (simp add: disputed_def)
  show "distinct (map fst (fst (partitionState ro sets)))"
    unfolding partitionState_fold(1) [OF assms] by (rule partition_fold_distinct) simp
qed

end
