(* ===== verification/State_Resolution_Result.thy ===== *)
theory State_Resolution_Result
  imports State_Resolution_Facts
begin

text \<open>
  The resolved state: it does not depend on any iteration order, keeps what all branches agree on,
  and takes every other entry from one of the branches.
\<close>

subsection \<open>Well-formed input\<close>

text \<open>Go maps have one entry per key, and an event is stored under its own id.\<close>

definition events_ok :: "EventsMap \<Rightarrow> bool" where
  "events_ok em \<longleftrightarrow> distinct (map fst em) \<and> list_all (\<lambda>p. ev_ID (snd p) = fst p) em"

definition input_ok :: "StateResolutionInput \<Rightarrow> bool" where
  "input_ok input \<longleftrightarrow> list_all (\<lambda>s. distinct (map fst s)) (sri_StateSets input) \<and>
     events_ok (sri_EventsMap input) \<and> events_ok (sri_AuthEventsMap input)"

definition all_events :: "StateResolutionInput \<Rightarrow> EventsMap" where
  "all_events input = maps_Copy (maps_Copy [] (sri_EventsMap input)) (sri_AuthEventsMap input)"

text \<open>Every branch stores an event under the tuple the event itself names.\<close>

definition tuples_ok :: "StateResolutionInput \<Rightarrow> bool" where
  "tuples_ok input \<longleftrightarrow>
     list_all (list_all (\<lambda>(t, i). case map_of (all_events input) i of
         None \<Rightarrow> True | Some ev \<Rightarrow> NewStateTuple (ev_Tipo ev) (ev_StateKey ev) = t)) (sri_StateSets input)"

text \<open>The same branches and events: the branches in any order, and the entries of every map in any order.\<close>

definition same_input :: "StateResolutionInput \<Rightarrow> StateResolutionInput \<Rightarrow> bool" where
  "same_input a b \<longleftrightarrow>
     mset (map map_of (sri_StateSets a)) = mset (map map_of (sri_StateSets b)) \<and>
     map_of (sri_EventsMap a) = map_of (sri_EventsMap b) \<and>
     map_of (sri_AuthEventsMap a) = map_of (sri_AuthEventsMap b)"

definition same_result :: "StateMap decoded \<Rightarrow> StateMap decoded \<Rightarrow> bool" where
  "same_result a b \<longleftrightarrow> (case a of
       Inl e \<Rightarrow> b = Inl e
     | Inr st \<Rightarrow> (case b of Inl _ \<Rightarrow> False | Inr st' \<Rightarrow> map_of st = map_of st'))"

lemma map_of_rev_distinct: "distinct (map fst m) \<Longrightarrow> map_of (rev m) = map_of m"
  using map_of_inject_set [of "rev m" m] by (simp add: rev_map [symmetric])

lemma map_of_all_events:
  assumes "input_ok input"
  shows "map_of (all_events input) k =
    (case map_of (sri_AuthEventsMap input) k of Some e \<Rightarrow> Some e | None \<Rightarrow> map_of (sri_EventsMap input) k)"
  using assms
  by (simp add: all_events_def map_of_maps_Copy input_ok_def events_ok_def map_of_rev_distinct
      split: option.split)

lemma all_events_id:
  assumes "input_ok input" and "map_of (all_events input) i = Some ev"
  shows "ev_ID ev = i"
  using assms unfolding map_of_all_events [OF assms(1)]
  by (auto simp: input_ok_def events_ok_def list_all_iff dest!: map_of_SomeD split: option.splits)

subsection \<open>The conflicting ids\<close>

definition collect_ids :: "StateMap \<Rightarrow> StateTuple list \<Rightarrow> string list \<Rightarrow> string list" where
  "collect_ids st tuples acc = foldl (\<lambda>acc tuple.
         case map_of st tuple of
           Some i \<Rightarrow> if i \<in> set acc then acc else acc @ [i]
         | None \<Rightarrow> acc) acc tuples"

lemma collect_ids_spec:
  "set (collect_ids st tuples acc) = set acc \<union> {i. \<exists>t\<in>set tuples. map_of st t = Some i} \<and>
     (distinct acc \<longrightarrow> distinct (collect_ids st tuples acc))"
proof (induction tuples arbitrary: acc)
  case (Cons t ts)
  show ?case
  proof (cases "map_of st t")
    case None
    then show ?thesis using Cons [of acc] by (simp add: collect_ids_def)
  next
    case (Some i)
    then show ?thesis
      using Cons [of acc] Cons [of "acc @ [i]"] by (cases "i \<in> set acc") (auto simp: collect_ids_def)
  qed
qed (simp add: collect_ids_def)

lemma conflicted_ids_spec:
  "set (conflicted_ids sets tuples) = {i. \<exists>s\<in>set sets. \<exists>t\<in>set tuples. map_of s t = Some i}"
  "distinct (conflicted_ids sets tuples)"
proof -
  have C: "conflicted_ids sets tuples = foldl (\<lambda>acc s. collect_ids s tuples acc) [] sets"
    by (simp add: conflicted_ids_def collect_ids_def)
  have "set (foldl (\<lambda>acc s. collect_ids s tuples acc) acc sets) =
      set acc \<union> {i. \<exists>s\<in>set sets. \<exists>t\<in>set tuples. map_of s t = Some i} \<and>
      (distinct acc \<longrightarrow> distinct (foldl (\<lambda>acc s. collect_ids s tuples acc) acc sets))" for acc
  proof (induction sets arbitrary: acc)
    case (Cons s ss)
    then show ?case using collect_ids_spec [of s tuples acc] by auto
  qed simp
  from this [of "[]"] show
    "set (conflicted_ids sets tuples) = {i. \<exists>s\<in>set sets. \<exists>t\<in>set tuples. map_of s t = Some i}"
    "distinct (conflicted_ids sets tuples)"
    by (simp_all add: C)
qed

lemma ex_same:
  assumes "map_of ` set sets = map_of ` set sets'"
  shows "(\<exists>s\<in>set sets. P (map_of s)) \<longleftrightarrow> (\<exists>s\<in>set sets'. P (map_of s))"
proof -
  have "(\<exists>m\<in>map_of ` set sets. P m) \<longleftrightarrow> (\<exists>m\<in>map_of ` set sets'. P m)" unfolding assms ..
  then show ?thesis by simp
qed

lemma agreed_same:
  assumes "map_of ` set sets = map_of ` set sets'"
  shows "agreed sets t = agreed sets' t"
proof -
  have "agreed sets t = Some e \<longleftrightarrow> agreed sets' t = Some e" for e
    using ex_same [OF assms, of "\<lambda>m. m t \<noteq> Some e"] ex_same [OF assms, of "\<lambda>_. True"] by (auto simp: agreed_iff)
  then show ?thesis by (metis not_None_eq)
qed

subsection \<open>Applying a phase\<close>

lemma phase_ids_known: "i \<in> set (phase_ids em ids ph) \<Longrightarrow> \<exists>ev. map_of em i = Some ev"
  by (auto simp: phase_ids_def split: option.splits)

lemma phase_ids_perm: "map_of em = map_of em' \<Longrightarrow> mset ids = mset ids' \<Longrightarrow>
    mset (phase_ids em ids ph) = mset (phase_ids em' ids' ph)"
  by (simp add: phase_ids_def mset_filter)

lemma build_graph_cong: "map_of em = map_of em' \<Longrightarrow> build_graph em ids = build_graph em' ids"
  by (simp add: build_graph_def add_event_def)

lemma sortCandidates_cong:
  assumes "map_of em = map_of em'"
  shows "sortCandidates em pl = sortCandidates em' pl"
  unfolding sortCandidates_def [abs_def] candidate_less_def [abs_def] assms ..

lemma kahn_cong: "map_of em = map_of em' \<Longrightarrow> kahn em pl g d z out = kahn em' pl g d z out"
proof (induction em pl g d z out rule: kahn.induct)
  case (1 em pl g d z out)
  note c = sortCandidates_cong [OF 1(2), of pl, THEN fun_cong]
  show ?case
  proof (cases "sortCandidates em pl z")
    case Nil
    then show ?thesis using c [of z] by (subst (1 2) kahn.simps) simp
  next
    case (Cons cur z')
    then show ?thesis
      using c [of z] 1(1) [OF Cons refl 1(2)] by (subst (1 2) kahn.simps) (simp add: Let_def)
  qed
qed

lemma sort_cong:
  assumes "map_of em = map_of em'"
  shows "sortEventsTopologically ro ids em pl = sortEventsTopologically ro ids em' pl"
  unfolding sort_unfold zero_ids_def build_graph_cong [OF assms] by (rule kahn_cong [OF assms])

definition plBase :: "EventsMap \<Rightarrow> StateMap \<Rightarrow> evento option" where
  "plBase em unconflicted =
     (case map_of unconflicted (StateTuple ''m.room.power_levels'' []) of
        Some plID \<Rightarrow> map_of em plID | None \<Rightarrow> None)"

definition resolve_phases ::
    "range_orders \<Rightarrow> (evento \<Rightarrow> StateMap \<Rightarrow> EventsMap \<Rightarrow> bool) \<Rightarrow> EventsMap \<Rightarrow> string list
      \<Rightarrow> StateMap \<Rightarrow> StateMap \<times> evento option" where
  "resolve_phases ro check em ids unconflicted =
     (let s1 = applyPhase ro check em (phase_ids em ids Phase1) (maps_Copy [] unconflicted, plBase em unconflicted);
          s2 = applyPhase ro check em (phase_ids em ids Phase2) s1
      in applyPhase ro check em (phase_ids em ids Phase3) s2)"

lemma Resolve_unanimous:
  assumes "length (sri_StateSets input) \<ge> 2" and "snd (partitionState ro (sri_StateSets input)) = []"
  shows "Resolve ro check input = Inr (fst (partitionState ro (sri_StateSets input)))"
  using assms
  by (cases "partitionState ro (sri_StateSets input)") (auto simp: Resolve_def Let_def)

lemma Resolve_multi:
  assumes "length (sri_StateSets input) \<ge> 2" and "snd (partitionState ro (sri_StateSets input)) \<noteq> []"
  shows "Resolve ro check input =
    Inr (fst (resolve_phases ro check (all_events input)
      (ro_ids ro (conflicted_ids (sri_StateSets input) (snd (partitionState ro (sri_StateSets input)))))
      (fst (partitionState ro (sri_StateSets input)))))"
  using assms
  by (cases "partitionState ro (sri_StateSets input)")
    (auto simp: Resolve_def Let_def resolve_phases_def plBase_def all_events_def)

context auth_resolver
begin

lemma foldl_apply_cong:
  assumes "map_of em = map_of em'"
  shows "map_of (fst a) = map_of (fst b) \<Longrightarrow> snd a = snd b \<Longrightarrow>
    map_of (fst (foldl (apply_candidate check em) a ids)) = map_of (fst (foldl (apply_candidate check em') b ids)) \<and>
    snd (foldl (apply_candidate check em) a ids) = snd (foldl (apply_candidate check em') b ids)"
proof (induction ids arbitrary: a b)
  case (Cons i ids)
  have "map_of (fst (apply_candidate check em a i)) = map_of (fst (apply_candidate check em' b i)) \<and>
      snd (apply_candidate check em a i) = snd (apply_candidate check em' b i)"
    using Cons.prems check_cong [OF Cons.prems(1) assms] assms
    by (auto simp: apply_candidate_def Let_def update_conv' split: option.split)
  then show ?case using Cons.IH by simp
qed simp

lemma applyPhase_cong:
  assumes em: "map_of em = map_of em'" and ab: "map_of (fst a) = map_of (fst b)" "snd a = snd b"
    and "distinct ids" "mset ids = mset ids'" "well_keyed em (set ids)" "orders_ok ro" "orders_ok ro'"
  shows "map_of (fst (applyPhase ro check em ids a)) = map_of (fst (applyPhase ro' check em' ids' b)) \<and>
    snd (applyPhase ro check em ids a) = snd (applyPhase ro' check em' ids' b)"
proof -
  have "sortEventsTopologically ro ids em (snd a) = sortEventsTopologically ro' ids' em' (snd b)"
    using sort_perm [OF assms(4,5,7,8,6), of "snd a"] sort_cong [OF em, of ro' ids' "snd a"] ab by simp
  then show ?thesis
    unfolding applyPhase_def using foldl_apply_cong [OF em ab] by simp
qed

lemma Resolve_same:
  assumes ok: "input_ok a" "input_ok b" and same: "same_input a b" and ro: "orders_ok ro" "orders_ok ro'"
  shows "same_result (Resolve ro check a) (Resolve ro' check b)"
proof -
  let ?A = "sri_StateSets a" and ?B = "sri_StateSets b"
  let ?pa = "partitionState ro ?A" and ?pb = "partitionState ro' ?B"
  have ms: "mset (map map_of ?A) = mset (map map_of ?B)" using same by (simp add: same_input_def)
  then have len: "length ?A = length ?B" by (metis length_map size_mset)
  have l2: "map_of ` set ?A = map_of ` set ?B" using ms by (metis list.set_map set_mset_mset)
  have dA: "\<forall>s\<in>set ?A. distinct (map fst s)" and dB: "\<forall>s\<in>set ?B. distinct (map fst s)"
    using ok by (auto simp: input_ok_def list_all_iff)
  note pA = partition_spec [OF dA ro(1)] and pB = partition_spec [OF dB ro(2)]
  have un: "map_of (fst ?pa) = map_of (fst ?pb)"
    using agreed_same [OF l2] by (intro ext) (simp add: pA pB)
  have con: "set (snd ?pa) = set (snd ?pb)"
    using agreed_same [OF l2] ex_same [OF l2, of "\<lambda>m. m t \<noteq> None" for t]
    by (auto simp: pA pB disputed_def)
  then have con': "snd ?pa = [] \<longleftrightarrow> snd ?pb = []" by (metis set_empty)
  have em: "map_of (all_events a) = map_of (all_events b)"
  proof
    fix k
    have e: "map_of (sri_EventsMap a) = map_of (sri_EventsMap b)"
      "map_of (sri_AuthEventsMap a) = map_of (sri_AuthEventsMap b)"
      using same by (simp_all add: same_input_def)
    show "map_of (all_events a) k = map_of (all_events b) k"
      unfolding map_of_all_events [OF ok(1)] map_of_all_events [OF ok(2)] e ..
  qed
  let ?ia = "ro_ids ro (conflicted_ids ?A (snd ?pa))" and ?ib = "ro_ids ro' (conflicted_ids ?B (snd ?pb))"
  have "set (conflicted_ids ?A (snd ?pa)) = set (conflicted_ids ?B (snd ?pb))"
    using con ex_same [OF l2, of "\<lambda>m. \<exists>t\<in>set (snd ?pa). m t = Some i" for i]
    by (auto simp: conflicted_ids_spec)
  then have "mset (conflicted_ids ?A (snd ?pa)) = mset (conflicted_ids ?B (snd ?pb))"
    by (intro set_eq_iff_mset_eq_distinct [THEN iffD1]) (simp_all add: conflicted_ids_spec)
  then have ids: "mset ?ia = mset ?ib" using ro by (simp add: orders_ok_def)
  have "distinct ?ia"
    using ro(1) conflicted_ids_spec(2) mset_eq_imp_distinct_iff unfolding orders_ok_def by metis
  then have dist: "distinct (phase_ids (all_events a) ?ia ph)" for ph by (simp add: phase_ids_def)
  have wk: "well_keyed (all_events a) (set (phase_ids (all_events a) ?ia ph))" for ph
    using phase_ids_known all_events_id [OF ok(1)] by (fastforce simp: well_keyed_def)
  have phase: "map_of (fst x) = map_of (fst y) \<Longrightarrow> snd x = snd y \<Longrightarrow>
      map_of (fst (applyPhase ro check (all_events a) (phase_ids (all_events a) ?ia ph) x)) =
        map_of (fst (applyPhase ro' check (all_events b) (phase_ids (all_events b) ?ib ph) y)) \<and>
      snd (applyPhase ro check (all_events a) (phase_ids (all_events a) ?ia ph) x) =
        snd (applyPhase ro' check (all_events b) (phase_ids (all_events b) ?ib ph) y)" for x y ph
    by (rule applyPhase_cong [OF em _ _ dist phase_ids_perm [OF em ids] wk ro])
  have pl: "plBase (all_events a) (fst ?pa) = plBase (all_events b) (fst ?pb)"
    unfolding plBase_def un em ..
  have base: "map_of (maps_Copy [] (fst ?pa)) = map_of (maps_Copy [] (fst ?pb))"
    by (intro ext) (simp add: map_of_maps_Copy map_of_rev_distinct pA(3) pB(3) un)
  have "map_of (fst (resolve_phases ro check (all_events a) ?ia (fst ?pa))) =
      map_of (fst (resolve_phases ro' check (all_events b) ?ib (fst ?pb)))"
  proof -
    note s1 = phase [of "(maps_Copy [] (fst ?pa), plBase (all_events a) (fst ?pa))"
        "(maps_Copy [] (fst ?pb), plBase (all_events b) (fst ?pb))" Phase1,
        unfolded fst_conv snd_conv, OF base pl]
    note s2 = phase [OF s1 [THEN conjunct1] s1 [THEN conjunct2], of Phase2]
    note s3 = phase [OF s2 [THEN conjunct1] s2 [THEN conjunct2], of Phase3]
    show ?thesis unfolding resolve_phases_def Let_def by (rule s3 [THEN conjunct1])
  qed
  then have res: "length (snd ?pa) \<noteq> 0 \<Longrightarrow> length ?A \<ge> 2 \<Longrightarrow>
      same_result (Resolve ro check a) (Resolve ro' check b)"
    using con' len by (simp add: Resolve_multi same_result_def)
  show ?thesis
  proof (cases "length ?A \<ge> 2 \<and> length (snd ?pa) \<noteq> 0")
    case True
    then show ?thesis using res by blast
  next
    case False
    then consider "length ?A = 0" | "length ?A = 1" | "length ?A \<ge> 2" "length (snd ?pa) = 0" by linarith
    then show ?thesis
    proof cases
      case 2
      then obtain s s' where "?A = [s]" "?B = [s']" using len by (metis One_nat_def length_0_conv length_Suc_conv)
      then show ?thesis using l2 by (simp add: Resolve_def Let_def same_result_def)
    next
      case 3
      then show ?thesis
        using len con' un by (auto simp: Resolve_def Let_def same_result_def case_prod_unfold)
    qed (use len in \<open>simp add: Resolve_def Let_def same_result_def\<close>)
  qed
qed

end

subsection \<open>Where the entries come from\<close>

text \<open>\<open>from_branches input st\<close>: every entry of \<open>st\<close> is an entry of some branch.\<close>

definition from_branches :: "StateResolutionInput \<Rightarrow> StateMap \<Rightarrow> bool" where
  "from_branches input st \<longleftrightarrow>
     (\<forall>t i. map_of st t = Some i \<longrightarrow> (\<exists>s\<in>set (sri_StateSets input). map_of s t = Some i))"

definition keeps_agreed :: "StateResolutionInput \<Rightarrow> StateMap \<Rightarrow> bool" where
  "keeps_agreed input st \<longleftrightarrow>
     (\<forall>t i. agreed (sri_StateSets input) t = Some i \<longrightarrow> map_of st t = Some i)"

lemma apply_candidate_keeps:
  assumes t: "tuples_ok input" and d: "\<forall>s\<in>set (sri_StateSets input). distinct (map fst s)"
    and i: "\<exists>s\<in>set (sri_StateSets input). \<exists>t. map_of s t = Some i \<and> disputed (sri_StateSets input) t"
    and acc: "from_branches input (fst acc)" "keeps_agreed input (fst acc)"
  shows "from_branches input (fst (apply_candidate check (all_events input) acc i)) \<and>
    keeps_agreed input (fst (apply_candidate check (all_events input) acc i))"
proof (cases "map_of (all_events input) i")
  case None
  then show ?thesis using acc by (simp add: apply_candidate_def)
next
  case (Some ev)
  let ?t = "NewStateTuple (ev_Tipo ev) (ev_StateKey ev)"
  obtain s u where s: "s \<in> set (sri_StateSets input)" "map_of s u = Some i" "disputed (sri_StateSets input) u"
    using i by blast
  have "(u, i) \<in> set s" using s(2) by (rule map_of_SomeD)
  with t s(1) have "case map_of (all_events input) i of
      None \<Rightarrow> True | Some ev \<Rightarrow> NewStateTuple (ev_Tipo ev) (ev_StateKey ev) = u"
    unfolding tuples_ok_def list_all_iff by blast
  with Some have "?t = u" by simp
  then have "from_branches input (AList.update ?t i (fst acc))" "keeps_agreed input (AList.update ?t i (fst acc))"
    using acc s by (auto simp: from_branches_def keeps_agreed_def update_conv' disputed_def)
  with acc Some show ?thesis by (simp add: apply_candidate_def Let_def)
qed

lemma applyPhase_keeps:
  assumes t: "tuples_ok input" and d: "\<forall>s\<in>set (sri_StateSets input). distinct (map fst s)"
    and ro: "orders_ok ro" and ids: "distinct ids"
    and i: "\<forall>i\<in>set ids. \<exists>s\<in>set (sri_StateSets input). \<exists>t. map_of s t = Some i \<and> disputed (sri_StateSets input) t"
    and acc: "from_branches input (fst acc) \<and> keeps_agreed input (fst acc)"
  shows "from_branches input (fst (applyPhase ro check (all_events input) ids acc)) \<and>
    keeps_agreed input (fst (applyPhase ro check (all_events input) ids acc))"
proof -
  have gen: "from_branches input (fst (foldl (apply_candidate check (all_events input)) acc is)) \<and>
      keeps_agreed input (fst (foldl (apply_candidate check (all_events input)) acc is))"
    if "set is \<subseteq> set ids" "from_branches input (fst acc) \<and> keeps_agreed input (fst acc)" for "is" acc
    using that
  proof (induction "is" arbitrary: acc)
    case (Cons j js)
    then have "from_branches input (fst (apply_candidate check (all_events input) acc j)) \<and>
        keeps_agreed input (fst (apply_candidate check (all_events input) acc j))"
      using i by (intro apply_candidate_keeps [OF t d]) auto
    then show ?case using Cons by simp
  qed simp
  show ?thesis
    unfolding applyPhase_def by (rule gen [OF sort_subset [OF ids ro] acc])
qed

lemma Resolve_keeps:
  assumes ok: "input_ok input" and t: "tuples_ok input" and ro: "orders_ok ro"
    and r: "Resolve ro check input = Inr st"
  shows "from_branches input st \<and> keeps_agreed input st"
proof -
  let ?S = "sri_StateSets input" and ?p = "partitionState ro (sri_StateSets input)"
  have d: "\<forall>s\<in>set ?S. distinct (map fst s)" using ok by (auto simp: input_ok_def list_all_iff)
  note P = partition_spec [OF d ro]
  have fb: "from_branches input (fst ?p)" and ka: "keeps_agreed input (fst ?p)"
    by (auto simp: from_branches_def keeps_agreed_def P agreed_iff neq_Nil_conv)
  consider "length ?S = 0" | "length ?S = 1" | "length ?S \<ge> 2" "snd ?p = []" | "length ?S \<ge> 2" "snd ?p \<noteq> []"
    by linarith
  then show ?thesis
  proof cases
    case 1
    then show ?thesis using r by (simp add: Resolve_def)
  next
    case 2
    then have "st = hd ?S" "?S \<noteq> []" using r by (cases ?S; auto simp: Resolve_def)+
    then show ?thesis by (auto simp: from_branches_def keeps_agreed_def agreed_iff)
  next
    case 3
    then have "st = fst ?p" using r Resolve_unanimous [OF 3, of check] by simp
    with fb ka show ?thesis by simp
  next
    case 4
    let ?ids = "ro_ids ro (conflicted_ids ?S (snd ?p))"
    have base: "from_branches input (maps_Copy [] (fst ?p)) \<and> keeps_agreed input (maps_Copy [] (fst ?p))"
      using fb ka
      by (simp add: from_branches_def keeps_agreed_def map_of_maps_Copy map_of_rev_distinct P split: option.split)
    have si: "set ?ids = set (conflicted_ids ?S (snd ?p))" using ro by (metis orders_ok_def set_mset_mset)
    have di: "distinct ?ids"
      using ro conflicted_ids_spec(2) mset_eq_imp_distinct_iff unfolding orders_ok_def by metis
    have dist: "distinct (phase_ids (all_events input) ?ids ph)" for ph using di by (simp add: phase_ids_def)
    have cand: "\<forall>i\<in>set (phase_ids (all_events input) ?ids ph).
        \<exists>s\<in>set ?S. \<exists>t. map_of s t = Some i \<and> disputed ?S t" for ph
      using P(2) by (auto simp: phase_ids_def si conflicted_ids_spec)
    note step = applyPhase_keeps [OF t d ro dist cand]
    have "from_branches input (fst (resolve_phases ro check (all_events input) ?ids (fst ?p))) \<and>
        keeps_agreed input (fst (resolve_phases ro check (all_events input) ?ids (fst ?p)))"
      unfolding resolve_phases_def Let_def by (intro step) (simp add: base)
    then show ?thesis using r Resolve_multi [OF 4, of check] by simp
  qed
qed

end
