(* ===== verification/Examples.thy ===== *)
theory Examples
  imports Invariants Event_Json State_Resolution_Result
begin

text \<open>
  Concrete inputs: a canonical JSON package that does what \<open>canonicaljson_spec\<close> asks for, a server, a
  world with one room, and a resolution input with two branches. The witnesses of the properties are
  evaluated on them.
\<close>

subsection \<open>Canonical JSON\<close>

definition canon :: "json \<Rightarrow> json" where
  "canon v = (case v of JObj ms \<Rightarrow> JObj (sort_members ms) | _ \<Rightarrow> v)"

text \<open>A digest of 32 bytes that tells events of different times apart.\<close>

definition plain_digest :: "json \<Rightarrow> string" where
  "plain_digest v =
     take 32 ((case v of
         JObj ms \<Rightarrow> (case member ''origin_server_ts'' ms of Some (JNum n) \<Rightarrow> string_of_int n | _ \<Rightarrow> '''')
       | _ \<Rightarrow> '''') @ replicate 32 CHR ''0'')"

definition canon_crypto :: "crypto" where
  "canon_crypto =
     \<lparr>cr_canon_Marshal = (\<lambda>v. Inr (canon v)),
      cr_canon_Unmarshal = (\<lambda>v. case v of JObj ms \<Rightarrow> Inr ms | _ \<Rightarrow> Inl type_error),
      cr_sha256 = plain_digest, cr_sign = (\<lambda>key v. key)\<rparr>"

text \<open>A package that writes JSON as it is, for runs of whole calls.\<close>

definition plain_crypto :: "crypto" where
  "plain_crypto = canon_crypto\<lparr>cr_canon_Marshal := (\<lambda>v. Inr v)\<rparr>"

definition plain_server :: "server" where
  "plain_server = \<lparr>sv_crypto = plain_crypto, sv_serverName = ''a'', sv_keyID = ''ed25519:1'', sv_privateKey = ''key''\<rparr>"

lemma sort_members_unique:
  assumes "\<And>k. member k ms = member k ms'"
  shows "sort_members ms = sort_members ms'"
proof -
  have m: "map_of (dedup_members ms) = map_of (dedup_members ms')"
    by (rule ext) (simp add: member_dedup assms)
  have d: "distinct (map fst (dedup_members ms))" "distinct (map fst (dedup_members ms'))"
    by (rule distinct_dedup)+
  have "set (dedup_members ms) = set (dedup_members ms')"
    using map_of_inject_set [OF d] m by blast
  then have "mset (dedup_members ms) = mset (dedup_members ms')"
    using d by (simp add: set_eq_iff_mset_eq_distinct distinct_map)
  moreover have "inj_on fst (set (dedup_members ms))" using d(1) by (simp add: distinct_map)
  ultimately show ?thesis unfolding sort_members_def by (intro sort_key_inj_key_eq) simp_all
qed

lemma canon_crypto_spec: "canonicaljson_spec canon_crypto"
  unfolding canonicaljson_spec_def
proof (intro conjI exI [of _ "\<lambda>v. v"] allI impI)
  fix ms v
  assume "cr_canon_Marshal canon_crypto (JObj ms) = Inr v"
  then have "v = JObj (sort_members ms)" by (simp add: canon_crypto_def canon_def)
  then show "\<exists>ms'. cr_canon_Unmarshal canon_crypto v = Inr ms' \<and> (\<forall>k. member k ms' = map_option (\<lambda>v. v) (member k ms))"
    by (simp add: canon_crypto_def member_sort_members option.map_ident)
next
  fix ms ms' :: "(string \<times> json) list"
  assume "\<forall>k. member k ms = member k ms'"
  then have "sort_members ms = sort_members ms'" by (intro sort_members_unique) simp
  then show "cr_canon_Marshal canon_crypto (JObj ms) = cr_canon_Marshal canon_crypto (JObj ms')"
    by (simp add: canon_crypto_def canon_def)
qed

subsection \<open>A room\<close>

definition room_db :: "db" where
  "room_db = empty_db
     \<lparr>t_Canal := [\<lparr>cn_id = ''!r:a'', cn_versao = ''11'', cn_criador = ''@u:a'', cn_created_at = 0\<rparr>],
      t_Evento :=
        [zeroEvento\<lparr>ev_ID := ''$c'', ev_Tipo := ''m.room.create'', ev_CanalID := ''!r:a'', ev_Sender := ''@u:a'',
           ev_StateKey := Some '''', ev_Content := Some (JObj []), ev_StreamOrdering := 1\<rparr>,
         zeroEvento\<lparr>ev_ID := ''$m'', ev_Tipo := ''m.room.member'', ev_CanalID := ''!r:a'', ev_Sender := ''@u:a'',
           ev_StateKey := Some ''@u:a'', ev_Content := Some (JObj [(''membership'', JStr ''join'')]), ev_Depth := 1,
           ev_PrevEventos := [''$c''], ev_AuthEventos := [''$c''], ev_StreamOrdering := 2\<rparr>,
         zeroEvento\<lparr>ev_ID := ''$j'', ev_Tipo := ''m.room.join_rules'', ev_CanalID := ''!r:a'', ev_Sender := ''@u:a'',
           ev_StateKey := Some '''', ev_Content := Some (JObj [(''join_rule'', JStr ''public'')]), ev_Depth := 2,
           ev_PrevEventos := [''$m''], ev_AuthEventos := [''$c'', ''$m''], ev_StreamOrdering := 3\<rparr>],
      t_Extremidades := [(''!r:a'', ''$j'')],
      t_Estado :=
        [\<lparr>es_canal = ''!r:a'', es_tipo = ''m.room.create'', es_state_key = '''', es_evento = ''$c''\<rparr>,
         \<lparr>es_canal = ''!r:a'', es_tipo = ''m.room.member'', es_state_key = ''@u:a'', es_evento = ''$m''\<rparr>,
         \<lparr>es_canal = ''!r:a'', es_tipo = ''m.room.join_rules'', es_state_key = '''', es_evento = ''$j''\<rparr>],
      t_Membership := [\<lparr>mb_canal = ''!r:a'', mb_usuario = ''@u:a'', mb_type = ''join'', mb_evento = ''$m''\<rparr>]\<rparr>"

definition room_world :: "world" where
  "room_world = start_world\<lparr>w_db := room_db, w_seqs := start_seqs\<lparr>sq_stream := 4\<rparr>\<rparr>"

text \<open>The same room, with a remote server that accepts every request, and with a database that fails.\<close>

definition online_world :: "world" where
  "online_world = room_world\<lparr>w_http := (\<lambda>_ _. Inr \<lparr>rs_status = 200, rs_ctype = ''application/json'', rs_bytes = ''{}'', rs_body = Some (JObj [])\<rparr>)\<rparr>"

definition faulty_world :: "world" where
  "faulty_world = room_world\<lparr>w_fault := (\<lambda>n. if n = 12 then Some (ExtError ''connection reset'') else None)\<rparr>"

lemma room_world_NoTx [simp]: "w_tx room_world = NoTx" "w_tx online_world = NoTx" "w_tx faulty_world = NoTx"
  by (simp_all add: room_world_def online_world_def faulty_world_def start_world_def)

lemma room_world_fault [simp]: "w_fault room_world = (\<lambda>_. None)" "w_fault online_world = (\<lambda>_. None)" "w_fault start_world = (\<lambda>_. None)"
  by (simp_all add: room_world_def online_world_def start_world_def)

text \<open>A call that is seen to succeed by evaluation.\<close>

definition works :: "'a outcome \<times> world \<Rightarrow> bool" where
  "works p \<longleftrightarrow> (case fst p of Ret _ \<Rightarrow> True | _ \<Rightarrow> False)"

lemma run_Ret: "fst p = Ret a \<Longrightarrow> p = (Ret a, snd p)"
  by (simp add: prod_eq_iff)

lemma run_works: "works p \<Longrightarrow> \<exists>a. p = (Ret a, snd p)"
  by (cases p) (auto simp: works_def split: outcome.splits)

text \<open>A message of the only member.\<close>

definition sample_event :: "EventParams" where
  "sample_event = \<lparr>evp_RoomID = ''!r:a'', evp_SenderID = ''@u:a'', evp_Content = JObj [(''body'', JStr ''hi'')],
     evp_EventType = ''m.room.message'', evp_TxnID = ''t1''\<rparr>"

lemma sample_event_works: "works (SendEvent plain_server sample_event room_world)"
  by code_simp

subsection \<open>Orders and branches\<close>

definition plain_orders :: "range_orders" where
  "plain_orders = \<lparr>ro_tuples = id, ro_ids = id, ro_zero = id\<rparr>"

definition reverse_orders :: "range_orders" where
  "reverse_orders = \<lparr>ro_tuples = rev, ro_ids = rev, ro_zero = rev\<rparr>"

lemma orders_ok_examples [simp]: "orders_ok plain_orders" "orders_ok reverse_orders"
  by (simp_all add: orders_ok_def plain_orders_def reverse_orders_def)

definition topic_event :: "string \<Rightarrow> int \<Rightarrow> string list \<Rightarrow> evento" where
  "topic_event i ts auth =
     zeroEvento\<lparr>ev_ID := i, ev_Tipo := ''m.room.topic'', ev_Sender := ''@u:a'', ev_StateKey := Some '''',
       ev_CanalID := ''!r:a'', ev_OrigemServidorTS := ts, ev_AuthEventos := auth\<rparr>"

definition branch_events :: "EventsMap" where
  "branch_events =
     [(''$c'', zeroEvento\<lparr>ev_ID := ''$c'', ev_Tipo := ''m.room.create'', ev_Sender := ''@u:a'', ev_StateKey := Some ''''\<rparr>),
      (''$m'', zeroEvento\<lparr>ev_ID := ''$m'', ev_Tipo := ''m.room.member'', ev_Sender := ''@u:a'', ev_StateKey := Some ''@u:a'',
         ev_Content := Some (JObj [(''membership'', JStr ''join'')])\<rparr>),
      (''$t1'', topic_event ''$t1'' 5 [''$c'']), (''$t2'', topic_event ''$t2'' 7 [''$c'', ''$t1''])]"

definition branch_set :: "string \<Rightarrow> StateMap" where
  "branch_set topic =
     [(StateTuple ''m.room.create'' '''', ''$c''), (StateTuple ''m.room.member'' ''@u:a'', ''$m''),
      (StateTuple ''m.room.topic'' '''', topic)]"

definition branches :: "StateResolutionInput" where
  "branches = \<lparr>sri_RoomID = ''!r:a'', sri_StateSets = [branch_set ''$t1'', branch_set ''$t2''],
     sri_AuthEventsMap = [], sri_EventsMap = branch_events\<rparr>"

definition branches_shuffled :: "StateResolutionInput" where
  "branches_shuffled = branches\<lparr>sri_StateSets := rev (map rev (sri_StateSets branches)), sri_EventsMap := rev branch_events\<rparr>"

lemma branches_ok: "input_ok branches" "input_ok branches_shuffled" "tuples_ok branches"
  by code_simp+

lemma branches_same: "same_input branches branches_shuffled"
proof -
  have "map map_of (map rev (sri_StateSets branches)) = map map_of (sri_StateSets branches)"
    using branches_ok(1) by (auto simp: input_ok_def list_all_iff map_of_rev_distinct)
  then have "mset (map map_of (sri_StateSets branches_shuffled)) = mset (map map_of (sri_StateSets branches))"
    by (simp add: branches_shuffled_def rev_map [symmetric] del: map_map)
  moreover have "map_of (rev branch_events) = map_of branch_events"
    using branches_ok(1) by (simp add: input_ok_def events_ok_def branches_def map_of_rev_distinct)
  ultimately show ?thesis by (simp add: same_input_def branches_shuffled_def branches_def)
qed

end
