(* ===== verification/State_Resolution_Props.thy ===== *)
theory State_Resolution_Props
  imports Examples
begin

text \<open>
  The properties of state resolution and of \<open>CheckAuth\<close>, each with an input on which it applies.
\<close>

text \<open>C1. State resolution is deterministic: two servers that hold the same branches and events, the branches
  and the entries of every map listed in any order and ranged over in any order, resolve to the same state or
  fail alike. The maps have one entry per key and every event stands under its own id.\<close>

theorem resolve_deterministic:
  assumes "input_ok a" and "input_ok b" and "same_input a b" and "orders_ok ro" and "orders_ok ro'"
  shows "same_result (Resolve ro CheckAuth a) (Resolve ro' CheckAuth b)"
  by (rule car.Resolve_same) (fact assms)+

lemma resolve_deterministic_witness:
  "same_result (Resolve plain_orders CheckAuth branches) (Resolve reverse_orders CheckAuth branches_shuffled)"
  by (rule resolve_deterministic) (simp_all add: branches_ok branches_same)

text \<open>C2. The resolved state keeps every entry all branches agree on, and every entry it has comes from
  some branch: resolution neither drops agreed state nor invents state.\<close>

theorem resolve_keeps_agreed_state:
  assumes "input_ok input" and "tuples_ok input" and "orders_ok ro" and "Resolve ro CheckAuth input = Inr st"
  shows "(\<forall>t i. agreed (sri_StateSets input) t = Some i \<longrightarrow> map_of st t = Some i) \<and>
    (\<forall>t i. map_of st t = Some i \<longrightarrow> (\<exists>s\<in>set (sri_StateSets input). map_of s t = Some i))"
  using Resolve_keeps [OF assms] by (simp add: from_branches_def keeps_agreed_def)

lemma resolve_branches: "Resolve plain_orders CheckAuth branches = Inr (branch_set ''$t2'')"
  by code_simp

lemma resolve_keeps_agreed_state_witness:
  "map_of (branch_set ''$t2'') (StateTuple ''m.room.create'' '''') = Some ''$c''"
proof -
  have "agreed (sri_StateSets branches) (StateTuple ''m.room.create'' '''') = Some ''$c''" by code_simp
  with resolve_keeps_agreed_state [OF branches_ok(1,3) orders_ok_examples(1) resolve_branches] show ?thesis by blast
qed

text \<open>The partition of the branches: the unconflicted map holds exactly the entries all branches agree
  on, the conflicted tuples are exactly the others that some branch has.\<close>

theorem partition_correct:
  assumes "\<forall>s\<in>set sets. distinct (map fst s)" and "orders_ok ro"
  shows "map_of (fst (partitionState ro sets)) t = agreed sets t \<and>
    (t \<in> set (snd (partitionState ro sets)) \<longleftrightarrow> disputed sets t)"
  using partition_spec [OF assms] by blast

lemma partition_correct_witness:
  "StateTuple ''m.room.topic'' '''' \<in> set (snd (partitionState reverse_orders [branch_set ''$t1'', branch_set ''$t2'']))"
proof -
  have "disputed [branch_set ''$t1'', branch_set ''$t2''] (StateTuple ''m.room.topic'' '''')" by code_simp
  moreover have "\<forall>s\<in>set [branch_set ''$t1'', branch_set ''$t2'']. distinct (map fst s)" by code_simp
  ultimately show ?thesis using partition_correct [OF _ orders_ok_examples(2)] by blast
qed

text \<open>C24. The candidate sort yields each id at most once, only ids it was given, and an event only after every
  event of its \<open>auth_events\<close> that is among the candidates.\<close>

theorem sort_is_topological:
  assumes "distinct ids" and "orders_ok ro"
  shows "let out = sortEventsTopologically ro ids em pl in
    distinct out \<and> set out \<subseteq> set ids \<and> (\<forall>i < length out. set (deps em (set ids) (out ! i)) \<subseteq> set (take i out))"
  using sort_distinct [OF assms] sort_subset [OF assms] sort_topological [OF assms] unfolding Let_def by blast

lemma sort_is_topological_witness:
  "set (deps branch_events {''$t2'', ''$t1''} ''$t2'') \<subseteq> set (take 1 (sortEventsTopologically reverse_orders [''$t2'', ''$t1''] branch_events None))"
proof -
  have out: "sortEventsTopologically reverse_orders [''$t2'', ''$t1''] branch_events None = [''$t1'', ''$t2'']" by code_simp
  have "distinct [''$t2'', ''$t1'']" by simp
  from sort_is_topological [OF this orders_ok_examples(2), of branch_events None]
  have "\<forall>i < length [''$t1'', ''$t2'']. set (deps branch_events (set [''$t2'', ''$t1'']) ([''$t1'', ''$t2''] ! i))
      \<subseteq> set (take i [''$t1'', ''$t2''])"
    unfolding out Let_def by blast
  from this [rule_format, of 1] show ?thesis unfolding out by simp
qed

text \<open>C25. When the \<open>auth_events\<close> among the candidates have no cycle the sort loses no candidate: the loop
  that always terminates also handles everything.\<close>

theorem sort_loses_nothing:
  fixes rank :: "string \<Rightarrow> nat"
  assumes "distinct ids" and "orders_ok ro"
    and "\<And>k a. k \<in> set ids \<Longrightarrow> a \<in> set (deps em (set ids) k) \<Longrightarrow> rank a < rank k"
  shows "mset (sortEventsTopologically ro ids em pl) = mset ids"
proof -
  have "set (sortEventsTopologically ro ids em pl) = set ids" using assms by (rule sort_complete)
  then show ?thesis using sort_distinct [OF assms(1,2)] assms(1) by (metis set_eq_iff_mset_eq_distinct)
qed

lemma sort_loses_nothing_witness:
  "mset (sortEventsTopologically reverse_orders [''$t2'', ''$t1''] branch_events None) = {#''$t2'', ''$t1''#}"
proof -
  have d: "deps branch_events (set [''$t2'', ''$t1'']) ''$t2'' = [''$t1'']" "deps branch_events (set [''$t2'', ''$t1'']) ''$t1'' = []"
    by code_simp+
  have "mset (sortEventsTopologically reverse_orders [''$t2'', ''$t1''] branch_events None) = mset [''$t2'', ''$t1'']"
    by (rule sort_loses_nothing [where rank = "\<lambda>k. if k = ''$t2'' then 1 else 0"]) (use d in \<open>auto split: if_splits\<close>)
  then show ?thesis by simp
qed

text \<open>The order of the sort is a function of the candidates alone: neither the order they are listed in nor
  the iteration order of the maps shows in the result.\<close>

theorem sort_order_independent:
  assumes "distinct ids" and "mset ids = mset ids'" and "orders_ok ro" and "orders_ok ro'" and "well_keyed em (set ids)"
  shows "sortEventsTopologically ro ids em pl = sortEventsTopologically ro' ids' em pl"
  by (rule sort_perm) (fact assms)+

lemma sort_order_independent_witness:
  "sortEventsTopologically plain_orders [''$t1'', ''$c'', ''$t2''] branch_events None =
     sortEventsTopologically reverse_orders [''$t2'', ''$t1'', ''$c''] branch_events None"
proof (rule sort_order_independent)
  show "well_keyed branch_events (set [''$t1'', ''$c'', ''$t2''])"
    by (auto simp: well_keyed_def branch_events_def topic_event_def)
qed simp_all

text \<open>The level a sender needs for a type: the one the power levels list for it, else their state default where
  that counts, else \<open>d\<close>; \<open>d\<close> also without power levels that can be read.\<close>

definition needed_level :: "evento option \<Rightarrow> string \<Rightarrow> (int \<Rightarrow> bool) \<Rightarrow> int \<Rightarrow> int" where
  "needed_level powerLevels eventType counts d =
     (let levels = (case powerLevels of
            None \<Rightarrow> (0, [])
          | Some p \<Rightarrow> (case decode_events (ev_Content p) of Inl _ \<Rightarrow> (0, []) | Inr r \<Rightarrow> r))
      in case map_of (snd levels) eventType of
           Some l \<Rightarrow> l
         | None \<Rightarrow> if counts (fst levels) then fst levels else d)"

text \<open>C23. What \<open>CheckAuth\<close> lets through. A state event other than the create event, memberships and power
  levels comes from a user the state holds as joined and whose power level is at least the level of
  the event type: the listed one, else the state default, else 50. New power levels come from a user whose
  level is at least the one listed for power levels, else a positive state default, else 100. A membership of
  another user is set only from a strictly higher power level.\<close>

theorem check_auth_sound:
  assumes "CheckAuth ev st em"
  shows "let pl = getStateEvent st em ''m.room.power_levels'' ''''; cr = getStateEvent st em ''m.room.create'' '''';
      power = getUserPowerLevel pl cr in
    (ev_Tipo ev \<notin> {''m.room.create'', ''m.room.member'', ''m.room.power_levels''} \<longrightarrow>
      (\<exists>m. getStateEvent st em ''m.room.member'' (ev_Sender ev) = Some m \<and> decode_membership (ev_Content m) = Inr ''join'') \<and>
      needed_level pl (ev_Tipo ev) (\<lambda>sd. sd \<noteq> 0) 50 \<le> power (ev_Sender ev)) \<and>
    (ev_Tipo ev = ''m.room.power_levels'' \<longrightarrow>
      needed_level pl ''m.room.power_levels'' (\<lambda>sd. 0 < sd) 100 \<le> power (ev_Sender ev)) \<and>
    (\<forall>k. ev_Tipo ev = ''m.room.member'' \<longrightarrow> ev_StateKey ev = Some k \<longrightarrow> k \<noteq> ev_Sender ev \<longrightarrow>
      power k < power (ev_Sender ev))"
  using assms
  by (auto simp: CheckAuth_def stateRule_def memberRule_def powerLevelsRule_def needed_level_def Let_def
      split: option.splits sum.splits prod.splits if_splits)

lemma check_auth_sound_witness:
  "\<exists>m. getStateEvent (branch_set ''$t1'') branch_events ''m.room.member'' ''@u:a'' = Some m \<and>
     decode_membership (ev_Content m) = Inr ''join''"
proof -
  have "CheckAuth (topic_event ''$t2'' 7 [''$c'', ''$t1'']) (branch_set ''$t1'') branch_events" by code_simp
  from check_auth_sound [OF this] show ?thesis by (simp add: topic_event_def Let_def)
qed

end
