(* ===== verification/Data_Props.thy ===== *)
theory Data_Props
  imports Examples
begin

text \<open>
  The properties of the data: sync tokens, events through JSON, event hashes, server names.
\<close>

text \<open>A sync token survives its textual form: parsing what \<open>Encode\<close> wrote gives the token back.\<close>

theorem sync_token_roundtrip:
  assumes "token_ok t"
  shows "ParseToken (Encode t) = t \<and> SyncToken_UnmarshalJSON (SyncToken_MarshalJSON t) = Inr t"
  using scanToken_Encode [OF assms] by (simp add: ParseToken_def SyncToken_MarshalJSON_def SyncToken_UnmarshalJSON_def)

lemma sync_token_roundtrip_witness:
  "ParseToken (Encode \<lparr>TimelinePosition = 42, PresencePosition = - 7, ReceiptPosition = 0, ToDevicePosition = 9\<rparr>) =
     \<lparr>TimelinePosition = 42, PresencePosition = - 7, ReceiptPosition = 0, ToDevicePosition = 9\<rparr>"
proof -
  have "token_ok \<lparr>TimelinePosition = 42, PresencePosition = - 7, ReceiptPosition = 0, ToDevicePosition = 9\<rparr>"
    by (simp add: token_ok_def in_int64_def)
  from sync_token_roundtrip [OF this] show ?thesis by simp
qed

text \<open>Any text a client sends as a token is read as four \<open>int64\<close> positions, so the parser never lets an
  out-of-range number into a query, and a text that is not a token counts as the start.\<close>

theorem parse_token_in_range:
  "token_ok (ParseToken s) \<and> (scanToken s = None \<longrightarrow> ParseToken s = zeroToken)"
  using token_ok_ParseToken [of s] by (simp add: ParseToken_def)

lemma parse_token_in_range_witness: "ParseToken ''s1_2'' = zeroToken"
proof -
  have "scanToken ''s1_2'' = None" by code_simp
  with parse_token_in_range [of "''s1_2''"] show ?thesis by simp
qed

text \<open>An event survives JSON: reading the text written for it gives every field back but the local stream
  ordering, which is not written.\<close>

theorem event_json_roundtrip:
  assumes "evento_wf ev"
  shows "evento_of_json (Some (evento_json ev)) = Inr (ev\<lparr>ev_StreamOrdering := 0\<rparr>)"
  by (rule evento_of_evento_json) (fact assms)

lemma event_json_roundtrip_witness:
  "evento_of_json (Some (evento_json (topic_event ''$t'' 5 [''$c'']\<lparr>ev_Content := Some (JObj []), ev_StreamOrdering := 8\<rparr>))) =
     Inr (topic_event ''$t'' 5 [''$c'']\<lparr>ev_Content := Some (JObj [])\<rparr>)"
proof -
  have "evento_wf (topic_event ''$t'' 5 [''$c'']\<lparr>ev_Content := Some (JObj []), ev_StreamOrdering := 8\<rparr>)"
    by (simp add: evento_wf_def topic_event_def zeroEvento_def in_int64_def)
  from event_json_roundtrip [OF this] show ?thesis by (simp add: topic_event_def zeroEvento_def)
qed

text \<open>The event hash does not depend on the id, the signatures, the unsigned data or the local stream
  ordering: two events that agree on everything else get the same id.\<close>

theorem hash_ignores_local_fields:
  assumes "canonicaljson_spec cr" and "same_for_hash a b"
    and "HashMatrixEvent cr a = Inr i" and "HashMatrixEvent cr b = Inr j"
  shows "i = j"
proof -
  obtain norm where norm: "\<And>ms v. cr_canon_Marshal cr (JObj ms) = Inr v \<Longrightarrow>
      \<exists>ms'. cr_canon_Unmarshal cr v = Inr ms' \<and> (\<forall>k. member k ms' = map_option norm (member k ms))"
    and same: "\<And>ms ms'. (\<forall>k. member k ms = member k ms') \<Longrightarrow> cr_canon_Marshal cr (JObj ms) = cr_canon_Marshal cr (JObj ms')"
    using assms(1) unfolding canonicaljson_spec_def by blast
  let ?del = "\<lambda>ms. map_delete ''event_id'' (map_delete ''signatures'' (map_delete ''unsigned'' ms))"
  obtain va ma ca where a: "cr_canon_Marshal cr (evento_json a) = Inr va" "cr_canon_Unmarshal cr va = Inr ma"
    "cr_canon_Marshal cr (JObj (?del ma)) = Inr ca" "i = CHR ''$'' # RawURLEncoding (cr_sha256 cr ca)"
    using HashMatrixEvent_cases [OF assms(3)] by blast
  obtain vb mb cb where b: "cr_canon_Marshal cr (evento_json b) = Inr vb" "cr_canon_Unmarshal cr vb = Inr mb"
    "cr_canon_Marshal cr (JObj (?del mb)) = Inr cb" "j = CHR ''$'' # RawURLEncoding (cr_sha256 cr cb)"
    using HashMatrixEvent_cases [OF assms(4)] by blast
  have "member k (?del ma) = member k (?del mb)" for k
    using norm [OF a(1) [unfolded evento_json_def]] norm [OF b(1) [unfolded evento_json_def]] a(2) b(2)
      evento_member_same [OF assms(2), of k] by (auto simp: member_map_delete)
  then have "ca = cb" using same [of "?del ma" "?del mb"] a(3) b(3) by simp
  then show ?thesis using a(4) b(4) by simp
qed

lemma hash_ignores_local_fields_witness:
  "HashMatrixEvent canon_crypto (topic_event ''$t'' 5 []) = HashMatrixEvent canon_crypto (topic_event '''' 5 []\<lparr>ev_Unsigned := Some JNull\<rparr>)"
proof -
  have h: "\<exists>i. HashMatrixEvent canon_crypto ev = Inr i" for ev
    by (simp add: HashMatrixEvent_def CanonicalJSON_def canon_crypto_def canon_def evento_json_def Let_def)
  obtain i j where "HashMatrixEvent canon_crypto (topic_event ''$t'' 5 []) = Inr i"
    "HashMatrixEvent canon_crypto (topic_event '''' 5 []\<lparr>ev_Unsigned := Some JNull\<rparr>) = Inr j" using h by blast
  with hash_ignores_local_fields [OF canon_crypto_spec _ this] show ?thesis
    by (simp add: same_for_hash_def topic_event_def zeroEvento_def)
qed

text \<open>An event id is a dollar sign and 43 characters: the unpadded base64 of a digest of 32 bytes.\<close>

theorem event_id_length:
  assumes "\<And>v. length (cr_sha256 cr v) = 32" and "HashMatrixEvent cr ev = Inr i"
  shows "length i = 44 \<and> hd i = CHR ''$''"
  using HashMatrixEvent_cases [OF assms(2)] assms(1) by (auto simp: RawURLEncoding_def b64_encode_length)

lemma event_id_length_witness:
  "case HashMatrixEvent canon_crypto (topic_event ''$t'' 5 []) of Inl _ \<Rightarrow> False | Inr i \<Rightarrow> length i = 44"
proof -
  have "length (cr_sha256 canon_crypto v) = 32" for v by (simp add: canon_crypto_def plain_digest_def)
  from event_id_length [OF this] show ?thesis
    by (auto simp: HashMatrixEvent_def CanonicalJSON_def canon_crypto_def canon_def evento_json_def Let_def split: sum.split)
qed

text \<open>A user is remote exactly when the id has a server part other than ours, and the server part is what
  follows the first colon.\<close>

theorem remote_user_domain:
  assumes "CHR '':'' \<notin> set localpart"
  shows "ExtractDomainFromUserID (localpart @ CHR '':'' # domain) = domain \<and>
    IsRemoteUser (localpart @ CHR '':'' # domain) serverName = (domain \<noteq> serverName) \<and>
    \<not> IsRemoteUser localpart serverName"
  using assms by (simp add: ExtractDomainFromUserID_def IsRemoteUser_def splitN2_def cut_notin)

lemma remote_user_domain_witness:
  "ExtractDomainFromUserID ''@u:b:8448'' = ''b:8448'' \<and> IsRemoteUser ''@u:b:8448'' ''a''"
  using remote_user_domain [of "''@u''" "''b:8448''" "''a''"] by simp

end
