(* ===== verification/Room_View.thy ===== *)
theory Room_View
  imports Service_Laws
begin

text \<open>
  The abstract room: what the tables mean to a client. \<open>view_of\<close> forgets the order of the rows and the
  stream orderings; every SQL statement of the room services is an operation on the view, and so is a
  whole unit of work (\<open>tx_moves\<close>). The last part reads the dependencies of a new event from the view
  and describes the events the senders build.
\<close>

subsection \<open>Abstraction\<close>

record room_view =
  v_log :: "string \<Rightarrow> evento option"
  v_rooms :: "string set"
  v_heads :: "string \<Rightarrow> string set"
  v_state :: "string \<times> string \<times> string \<Rightarrow> string option"
  v_member :: "string \<times> string \<Rightarrow> (string \<times> string) option"
  v_rest :: "alias_row list \<times> usuario_row list \<times> profile_row list \<times> account_row list \<times> receipt_row list \<times> typing_row list"

definition state_key_of :: "estado_row \<Rightarrow> string \<times> string \<times> string" where
  "state_key_of r = (es_canal r, es_tipo r, es_state_key r)"

definition member_key_of :: "membership_row \<Rightarrow> string \<times> string" where
  "member_key_of r = (mb_canal r, mb_usuario r)"

definition view_of :: "db \<Rightarrow> room_view" where
  "view_of d =
     \<lparr>v_log = (\<lambda>i. map_option no_ordering (sel_Evento i d)),
      v_rooms = canal_ids d,
      v_heads = (\<lambda>c. {i. (c, i) \<in> set (t_Extremidades d)}),
      v_state = (\<lambda>k. map_option es_evento (find (\<lambda>r. state_key_of r = k) (t_Estado d))),
      v_member = (\<lambda>k. map_option (\<lambda>r. (mb_type r, mb_evento r)) (find (\<lambda>r. member_key_of r = k) (t_Membership d))),
      v_rest = (t_Alias d, t_Usuario d, t_Profile d, t_AccountData d, t_Receipts d, t_Typing d)\<rparr>"

definition put_event :: "evento \<Rightarrow> room_view \<Rightarrow> room_view" where
  "put_event ev v =
     v\<lparr>v_log := (\<lambda>i. if i = ev_ID ev \<and> v_log v i = None then Some (evento_row 0 ev) else v_log v i)\<rparr>"

definition advance_heads :: "string \<Rightarrow> string \<Rightarrow> string list \<Rightarrow> room_view \<Rightarrow> room_view" where
  "advance_heads c i prevs v = v\<lparr>v_heads := (v_heads v)(c := insert i (v_heads v c - set prevs))\<rparr>"

definition set_state :: "string \<Rightarrow> string \<Rightarrow> string \<Rightarrow> string \<Rightarrow> room_view \<Rightarrow> room_view" where
  "set_state c t k i v = v\<lparr>v_state := (v_state v)((c, t, k) \<mapsto> i)\<rparr>"

definition set_member :: "string \<Rightarrow> string \<Rightarrow> string \<Rightarrow> string \<Rightarrow> room_view \<Rightarrow> room_view" where
  "set_member c u m i v = v\<lparr>v_member := (v_member v)((c, u) \<mapsto> (m, i))\<rparr>"

definition add_room :: "string \<Rightarrow> room_view \<Rightarrow> room_view" where
  "add_room c v = v\<lparr>v_rooms := insert c (v_rooms v)\<rparr>"

lemmas view_ops = put_event_def advance_heads_def set_state_def set_member_def add_room_def

subsection \<open>Statements\<close>

lemma find_append: "find P (xs @ ys) = (case find P xs of None \<Rightarrow> find P ys | Some x \<Rightarrow> Some x)"
  by (induction xs) auto

lemma evento_ids_sel: "i \<in> evento_ids d \<longleftrightarrow> sel_Evento i d \<noteq> None"
  by (auto simp: evento_ids_def sel_Evento_def find_None_iff)

lemma heads_sel: "v_heads (view_of d) c = set (sel_Extremidades c d)"
  by (force simp: view_of_def sel_Extremidades_def)

lemma no_ordering_row [simp]: "no_ordering (evento_row n ev) = evento_row 0 ev"
  by (simp add: evento_row_def no_ordering_def)

lemma view_Evento:
  assumes "insert_Evento n ev d = Inr d'"
  shows "view_of d' = put_event ev (view_of d)"
proof (cases "ev_ID ev \<in> evento_ids d")
  case True
  then have "d' = d" using assms by (auto simp: insert_Evento_def split: if_splits)
  then show ?thesis using True by (auto simp: view_of_def put_event_def evento_ids_sel fun_eq_iff)
next
  case False
  then have d': "d' = d\<lparr>t_Evento := t_Evento d @ [evento_row n ev]\<rparr>"
    using assms by (auto simp: insert_Evento_def split: if_splits)
  have "v_log (view_of d') i = v_log (put_event ev (view_of d)) i" for i
    by (auto simp: view_of_def put_event_def d' sel_Evento_def find_append split: option.split)
  then have "v_log (view_of d') = v_log (put_event ev (view_of d))" by (rule ext)
  moreover have "view_of d' = (view_of d)\<lparr>v_log := v_log (view_of d')\<rparr>"
    by (simp add: view_of_def d' canal_ids_def)
  ultimately show ?thesis by (simp add: put_event_def)
qed

lemma view_Canal: "insert_Canal r d = Inr d' \<Longrightarrow> view_of d' = add_room (cn_id r) (view_of d)"
  by (auto simp: insert_Canal_def view_of_def add_room_def canal_ids_def sel_Evento_def split: if_splits)

lemma view_Estado: "upsert_Estado c t k e d = Inr d' \<Longrightarrow> view_of d' = set_state c t k e (view_of d)"
  using upsert_row_find [of "\<lambda>r. es_canal r = c \<and> es_tipo r = t \<and> es_state_key r = k" state_key_of
      "\<lparr>es_canal = c, es_tipo = t, es_state_key = k, es_evento = e\<rparr>" "\<lambda>r. r\<lparr>es_evento := e\<rparr>"]
  by (auto simp: upsert_Estado_def view_of_def set_state_def canal_ids_def sel_Evento_def
      state_key_of_def fun_eq_iff split: if_splits option.split)

lemma view_Membership: "upsert_Membership c u m e d = Inr d' \<Longrightarrow> view_of d' = set_member c u m e (view_of d)"
  using upsert_row_find [of "\<lambda>r. mb_canal r = c \<and> mb_usuario r = u" member_key_of
      "\<lparr>mb_canal = c, mb_usuario = u, mb_type = m, mb_evento = e\<rparr>" "\<lambda>r. r\<lparr>mb_type := m, mb_evento := e\<rparr>"]
  by (auto simp: upsert_Membership_def view_of_def set_member_def canal_ids_def sel_Evento_def
      member_key_of_def fun_eq_iff split: if_splits option.split)

lemma view_delete_insert:
  assumes "delete_Extremidades c es d = Inr d1" and "insert_Extremidade c e d1 = Inr d'"
  shows "view_of d' = advance_heads c e es (view_of d)"
  using assms
  by (auto simp: delete_Extremidades_def insert_Extremidade_def view_of_def advance_heads_def canal_ids_def
      sel_Evento_def fun_eq_iff split: if_splits)

lemma view_insert: "insert_Extremidade c e d = Inr d' \<Longrightarrow> view_of d' = advance_heads c e [] (view_of d)"
  by (auto simp: insert_Extremidade_def view_of_def advance_heads_def canal_ids_def
      sel_Evento_def fun_eq_iff split: if_splits)

subsection \<open>Inside a unit of work\<close>

definition tx_moves :: "(room_view \<Rightarrow> room_view) \<Rightarrow> world \<Rightarrow> world \<Rightarrow> bool" where
  "tx_moves f w w' \<longleftrightarrow> w_db w' = w_db w \<and>
     (\<exists>d d'. w_tx w = Active d \<and> w_tx w' = Active d' \<and> view_of d' = f (view_of d))"

lemma tx_moves_trans: "tx_moves f u v \<Longrightarrow> tx_moves g v w \<Longrightarrow> tx_moves (g \<circ> f) u w"
  by (auto simp: tx_moves_def)

lemma tx_SaveEvento: "SaveEvento TxCtx ev w = (Ret x, w') \<Longrightarrow> tx_moves (put_event ev) w w'"
  by (auto simp: SaveEvento_def ret_simps ret_stmt tx_moves_def view_def store_def ticked_def
      split: txn.splits sum.splits intro: view_Evento)

lemma tx_exec:
  assumes "db_exec TxCtx f w = (Ret x, w')" and "\<And>d d'. f d = Inr d' \<Longrightarrow> view_of d' = g (view_of d)"
  shows "tx_moves g w w'"
  using assms by (auto simp: ret_exec_tx tx_moves_def ticked_def)

lemma tx_UpsertMembership:
  "UpsertMembership TxCtx c u m i w = (Ret x, w') \<Longrightarrow> tx_moves (set_member c u m i) w w'"
  by (auto simp: UpsertMembership_def ret_simps intro: tx_exec view_Membership)

lemma tx_UpsertCurrentState:
  "UpsertCurrentState TxCtx c t k i w = (Ret x, w') \<Longrightarrow> tx_moves (set_state c t k i) w w'"
  by (auto simp: UpsertCurrentState_def ret_simps intro: tx_exec view_Estado)

lemma tx_UpdateForwardExtremities:
  assumes "UpdateForwardExtremities TxCtx c i prevs w = (Ret x, w')"
  shows "tx_moves (advance_heads c i prevs) w w'"
proof (cases "prevs = []")
  case True
  then show ?thesis
    using assms by (auto simp: UpdateForwardExtremities_def ret_simps intro: tx_exec view_insert)
next
  case False
  then obtain d d1 d2 where "w_tx w = Active d" "delete_Extremidades c prevs d = Inr d1"
    "insert_Extremidade c i d1 = Inr d2" "w_tx w' = Active d2" "w_db w' = w_db w"
    using assms by (auto simp: UpdateForwardExtremities_def ret_simps ret_exec_tx ticked_def)
  then show ?thesis by (auto simp: tx_moves_def view_delete_insert)
qed

lemma tx_silent:
  assumes "keeps silent_rel m" and "m w = (r, w')" and "w_tx w = Active d"
  shows "tx_moves id w w'"
  using keepsD [OF assms(1,2)] assms(3) by (auto simp: silent_rel_def tables_def tx_moves_def)

text \<open>A committed unit of work, seen from outside.\<close>

lemma view_Execute:
  assumes "Execute fn w = (Ret a, w')"
    and "\<And>w1 w2. fn TxCtx w1 = (Ret a, w2) \<Longrightarrow> w_db w1 = w_db w \<Longrightarrow> w_tx w1 = Active (w_db w) \<Longrightarrow> tx_moves f w1 w2"
  shows "view_of (w_db w') = f (view_of (w_db w)) \<and> w_tx w' = NoTx"
proof -
  obtain w1 d where b: "fn TxCtx ((ticked w)\<lparr>w_tx := Active (w_db w)\<rparr>) = (Ret a, w1)" "w_tx w1 = Active d"
    "w' = (ticked w1)\<lparr>w_db := d, w_tx := NoTx\<rparr>"
    using assms(1) unfolding ret_Execute by blast
  from assms(2) [OF b(1)] have "tx_moves f ((ticked w)\<lparr>w_tx := Active (w_db w)\<rparr>) w1"
    by (simp add: ticked_def)
  with b(2,3) show ?thesis by (auto simp: tx_moves_def)
qed

end
