(* ===== verification/Room_Effects.thy ===== *)
theory Room_Effects
  imports Room_View
begin

text \<open>
  What the calls that write a room do to the abstract room of \<open>Room_View\<close>, when they succeed. An event
  a sender builds is linked to the room it saw (\<open>linked\<close>): its predecessors are the forward
  extremities, its depth is one above theirs, its authorisation events are taken from the current
  state. When a call fails before or inside its unit of work the database is left as it was.
\<close>

subsection \<open>Silent steps\<close>

lemma silentD: "keeps silent_rel m \<Longrightarrow> m w = (r, w') \<Longrightarrow> w_db w' = w_db w \<and> w_tx w' = w_tx w"
  using keepsD [of silent_rel m w r w'] by (auto simp: silent_rel_def tables_def)


lemma ret_bind_pair:
  "bindM m (\<lambda>(a, b). f a b) w = (Ret r, w'') \<longleftrightarrow> (\<exists>a b w'. m w = (Ret (a, b), w') \<and> f a b w' = (Ret r, w''))"
  by (auto simp: ret_bind)

subsection \<open>Dependencies of a new event\<close>

definition auth_keys :: "string \<Rightarrow> string \<Rightarrow> string option \<Rightarrow> (string \<times> string) set" where
  "auth_keys sender eventType stateKey =
     {(''m.room.create'', ''''), (''m.room.power_levels'', ''''), (''m.room.member'', sender)} \<union>
     (case stateKey of
        Some k \<Rightarrow> if eventType = ''m.room.member'' then {(''m.room.member'', k), (''m.room.join_rules'', '''')} else {}
      | None \<Rightarrow> {})"

definition state_ids :: "room_view \<Rightarrow> string \<Rightarrow> (string \<times> string) set \<Rightarrow> string set" where
  "state_ids v c ks = {i. \<exists>(t, k)\<in>ks. v_state v (c, t, k) = Some i}"

lemma sel_state_view: "sel_state_event c t k d = v_state (view_of d) (c, t, k)"
proof -
  have "(\<lambda>r. es_canal r = c \<and> es_tipo r = t \<and> es_state_key r = k) = (\<lambda>r. state_key_of r = (c, t, k))"
    by (simp add: state_key_of_def)
  then show ?thesis by (simp add: sel_state_event_def view_of_def)
qed

lemma GetStateEventID_Ret:
  assumes "GetStateEventID c t k w = (Ret (i, True), w')"
  shows "v_state (view_of (w_db w)) (c, t, k) = Some i"
proof -
  obtain r w1 where r: "catchM (db_query Ctx (sel_state_event c t k)) w = (Ret r, w1)"
    "(case r of Inl _ \<Rightarrow> ('''', False) | Inr None \<Rightarrow> ('''', False) | Inr (Some e) \<Rightarrow> (e, True)) = (i, True)"
    using assms by (auto simp: GetStateEventID_def ret_bind ret_return)
  then show ?thesis
    by (auto simp: ret_catch ret_query view_def sel_state_view split: sum.splits option.splits)
qed

lemma appendState_Ret:
  "appendState c t k as w = (Ret bs, w') \<Longrightarrow> set bs \<subseteq> set as \<union> state_ids (view_of (w_db w)) c {(t, k)}"
  by (auto simp: appendState_def ret_bind ret_return state_ids_def split: if_splits dest: GetStateEventID_Ret)

lemma appendState_db: "appendState c t k as w = (r, w') \<Longrightarrow> w_db w' = w_db w \<and> w_tx w' = w_tx w"
  by (rule silentD [OF silent_appendState])

lemma ResolveEventDependencies_Ret:
  assumes "ResolveEventDependencies Ctx c sender eventType stateKey w = (Ret (prevs, auths), w')"
  shows "prevs = sel_Extremidades c (w_db w) \<and>
    set auths \<subseteq> state_ids (view_of (w_db w)) c (auth_keys sender eventType stateKey)"
proof -
  obtain w1 a2 w2 a3 w3 a4 w4 where p: "prevs = sel_Extremidades c (w_db w)" "w1 = ticked w"
    and a: "appendState c ''m.room.create'' '''' [] w1 = (Ret a2, w2)"
      "appendState c ''m.room.power_levels'' '''' a2 w2 = (Ret a3, w3)"
      "appendState c ''m.room.member'' sender a3 w3 = (Ret a4, w4)"
    and e: "(case stateKey of
         Some k \<Rightarrow>
           if eventType = ''m.room.member'' then
             bindM (appendState c ''m.room.member'' k a4) (\<lambda>authEvents.
               appendState c ''m.room.join_rules'' '''' authEvents)
           else returnM a4
       | None \<Rightarrow> returnM a4) w4 = (Ret auths, w')"
    using assms by (auto simp: ResolveEventDependencies_def GetForwardExtremities_def ret_simps view_def)
  have db: "w_db w1 = w_db w" "w_db w2 = w_db w" "w_db w3 = w_db w" "w_db w4 = w_db w"
    using a [THEN appendState_db] by (simp_all add: p(2) ticked_def)
  have s4: "set a4 \<subseteq> state_ids (view_of (w_db w)) c
      {(''m.room.create'', ''''), (''m.room.power_levels'', ''''), (''m.room.member'', sender)}"
    using a [THEN appendState_Ret] unfolding db by (auto simp: state_ids_def)
  show ?thesis
  proof (cases "\<exists>k. stateKey = Some k \<and> eventType = ''m.room.member''")
    case False
    then have "auths = a4" using e by (auto simp: ret_simps split: option.splits if_splits)
    with s4 p show ?thesis by (auto simp: auth_keys_def state_ids_def)
  next
    case True
    then obtain k a5 w5 where k: "stateKey = Some k" "eventType = ''m.room.member''"
      "appendState c ''m.room.member'' k a4 w4 = (Ret a5, w5)"
      "appendState c ''m.room.join_rules'' '''' a5 w5 = (Ret auths, w')"
      using e by (auto simp: ret_simps)
    have "w_db w5 = w_db w" using appendState_db [OF k(3)] db by simp
    with s4 k(3,4) [THEN appendState_Ret] show ?thesis
      unfolding db by (auto simp: auth_keys_def state_ids_def p(1) k(1,2))
  qed
qed

lemma GetMaxDepth_Ret: "GetMaxDepthFromEventos ids w = (Ret n, w') \<Longrightarrow> n = sel_max_depth ids (w_db w)"
  by (auto simp: GetMaxDepthFromEventos_def ret_simps view_def sel_max_depth_def split: if_splits)

text \<open>The links of an event, in the room as it was when the event was built.\<close>

definition linked :: "db \<Rightarrow> evento \<Rightarrow> bool" where
  "linked d ev \<longleftrightarrow>
     ev_PrevEventos ev = sel_Extremidades (ev_CanalID ev) d \<and>
     ev_Depth ev = wrap64 (sel_max_depth (ev_PrevEventos ev) d + 1) \<and>
     set (ev_AuthEventos ev) \<subseteq> state_ids (view_of d) (ev_CanalID ev)
       (auth_keys (ev_Sender ev) (ev_Tipo ev) (ev_StateKey ev))"

text \<open>Unless the depth overflows, it is above the depth of every predecessor in the log.\<close>

lemma sel_max_depth_ge: "e \<in> set (t_Evento d) \<Longrightarrow> ev_ID e \<in> set ids \<Longrightarrow> ev_Depth e \<le> sel_max_depth ids d"
proof -
  assume e: "e \<in> set (t_Evento d)" "ev_ID e \<in> set ids"
  let ?es = "filter (\<lambda>e. ev_ID e \<in> set ids) (t_Evento d)"
  have e': "e \<in> set ?es" using e by simp
  then have "sel_max_depth ids d = Max (set (map ev_Depth ?es))"
    unfolding sel_max_depth_def by (cases ?es) simp_all
  moreover have "ev_Depth e \<in> set (map ev_Depth ?es)" using e' by (metis image_eqI list.set_map)
  ultimately show ?thesis by simp
qed

lemma linked_depth:
  assumes "linked d ev" and "0 \<le> sel_max_depth (ev_PrevEventos ev) d" and "sel_max_depth (ev_PrevEventos ev) d < 2 ^ 63 - 1"
    and "e \<in> set (t_Evento d)" and "ev_ID e \<in> set (ev_PrevEventos ev)"
  shows "ev_Depth e < ev_Depth ev"
proof -
  have "ev_Depth ev = sel_max_depth (ev_PrevEventos ev) d + 1"
    using assms(1-3) by (simp add: linked_def wrap64_id in_int64_def)
  with sel_max_depth_ge [OF assms(4,5)] show ?thesis by simp
qed

lemma sel_max_depth_bounds:
  assumes "\<forall>e\<in>set (t_Evento d). a \<le> ev_Depth e \<and> ev_Depth e < b" and "a \<le> 0" and "0 < b"
  shows "a \<le> sel_max_depth ids d \<and> sel_max_depth ids d < b"
proof (cases "filter (\<lambda>e. ev_ID e \<in> set ids) (t_Evento d)")
  case (Cons x xs)
  have "sel_max_depth ids d = Max (set (map ev_Depth (x # xs)))" unfolding sel_max_depth_def Cons by simp
  moreover have "Max (set (map ev_Depth (x # xs))) \<in> set (map ev_Depth (x # xs))" by (rule Max_in) simp_all
  then have "\<exists>e\<in>set (x # xs). Max (set (map ev_Depth (x # xs))) = ev_Depth e" by (metis image_iff list.set_map)
  moreover have "set (x # xs) \<subseteq> set (t_Evento d)" unfolding Cons [symmetric] by auto
  ultimately show ?thesis using assms(1) by (metis subsetD)
qed (use assms(2,3) in \<open>simp add: sel_max_depth_def\<close>)

subsection \<open>A user's own membership\<close>

text \<open>The change of the room when the event \<open>ev\<close> gives the user \<open>u\<close> the membership \<open>m\<close>.\<close>

definition record_member :: "string \<Rightarrow> string \<Rightarrow> string \<Rightarrow> evento \<Rightarrow> room_view \<Rightarrow> room_view" where
  "record_member c u m ev =
     set_member c u m (ev_ID ev) \<circ> (set_state c ''m.room.member'' u (ev_ID ev) \<circ>
       (advance_heads c (ev_ID ev) (ev_PrevEventos ev) \<circ> put_event ev))"

text \<open>The common shape of \<open>leaveBody\<close> and \<open>joinBody\<close>.\<close>

definition ownMemberBody :: "string \<Rightarrow> server \<Rightarrow> string \<Rightarrow> string \<Rightarrow> evento \<Rightarrow> ctx \<Rightarrow> evento op" where
  "ownMemberBody m sv userID roomID ev0 txCtx =
     bindM (ResolveEventDependencies Ctx roomID userID ''m.room.member'' (Some userID)) (\<lambda>(prevs, auths).
     bindM (wrapM ''failed to get event depth'' (GetMaxDepthFromEventos prevs)) (\<lambda>maxDepth.
     (let ev1 = ev0\<lparr>ev_PrevEventos := prevs, ev_AuthEventos := auths, ev_Depth := wrap64 (maxDepth + 1)\<rparr>;
          eventID = hashOrEmpty sv ev1;
          ev = ev1\<lparr>ev_ID := eventID\<rparr>
      in bindM (SaveEvento txCtx ev) (\<lambda>_.
         bindM (UpdateForwardExtremities txCtx roomID eventID prevs) (\<lambda>_.
         bindM (UpsertCurrentState txCtx roomID ''m.room.member'' userID eventID) (\<lambda>_.
         bindM (UpsertMembership txCtx roomID userID m eventID) (\<lambda>_.
           returnM ev)))))))"

lemma leaveBody_own: "leaveBody = ownMemberBody ''leave''"
  by (intro ext) (simp add: leaveBody_def ownMemberBody_def)

lemma joinBody_own: "joinBody = ownMemberBody ''join''"
  by (intro ext) (simp add: joinBody_def ownMemberBody_def)

lemma ownMemberBody_Ret:
  assumes "ownMemberBody m sv u c ev0 TxCtx w = (Ret ev, w')" and "w_tx w = Active d"
    and "ev_CanalID ev0 = c" "ev_Sender ev0 = u" "ev_Tipo ev0 = ''m.room.member''" "ev_StateKey ev0 = Some u"
    and "ev_ID ev0 = ''''"
  shows "tx_moves (record_member c u m ev) w w' \<and> linked (w_db w) ev \<and>
    ev_ID ev = hashOrEmpty sv (ev\<lparr>ev_ID := ''''\<rparr>) \<and>
    ev = ev0\<lparr>ev_PrevEventos := ev_PrevEventos ev, ev_AuthEventos := ev_AuthEventos ev,
             ev_Depth := ev_Depth ev, ev_ID := ev_ID ev\<rparr>"
proof -
  obtain prevs auths w1 n w2 w3 w4 w5 ev1 where
    r: "ResolveEventDependencies Ctx c u ''m.room.member'' (Some u) w = (Ret (prevs, auths), w1)"
    and g: "GetMaxDepthFromEventos prevs w1 = (Ret n, w2)"
    and ev1: "ev1 = ev0\<lparr>ev_PrevEventos := prevs, ev_AuthEventos := auths, ev_Depth := wrap64 (n + 1)\<rparr>"
    and ev: "ev = ev1\<lparr>ev_ID := hashOrEmpty sv ev1\<rparr>"
    and s: "SaveEvento TxCtx ev w2 = (Ret (), w3)" "UpdateForwardExtremities TxCtx c (ev_ID ev) prevs w3 = (Ret (), w4)"
      "UpsertCurrentState TxCtx c ''m.room.member'' u (ev_ID ev) w4 = (Ret (), w5)"
      "UpsertMembership TxCtx c u m (ev_ID ev) w5 = (Ret (), w')"
    using assms(1) by (auto simp: ownMemberBody_def ret_simps Let_def split: prod.splits)
  note w1 = silentD [OF silent_ResolveEventDependencies r]
  note w2 = silentD [OF silent_GetMaxDepthFromEventos g]
  have prevs: "ev_PrevEventos ev = prevs" by (simp add: ev ev1)
  have "tx_moves id w w2" using w1 w2 assms(2) by (simp add: tx_moves_def)
  then have "tx_moves (record_member c u m ev \<circ> id) w w'"
    unfolding record_member_def prevs
    using tx_SaveEvento [OF s(1)] tx_UpdateForwardExtremities [OF s(2)] tx_UpsertCurrentState [OF s(3)]
      tx_UpsertMembership [OF s(4)] by (blast intro: tx_moves_trans)
  moreover have "linked (w_db w) ev"
    using ResolveEventDependencies_Ret [OF r] GetMaxDepth_Ret [OF g] w1 assms(3-6)
    by (simp add: linked_def ev ev1)
  moreover have "ev\<lparr>ev_ID := ''''\<rparr> = ev1" using assms(7) by (simp add: ev ev1)
  ultimately show ?thesis by (simp add: ev) (simp add: ev1)
qed

subsection \<open>LeaveRoom and JoinLocalRoom\<close>

text \<open>No membership row counts as having left.\<close>

definition membership_in :: "room_view \<Rightarrow> string \<Rightarrow> string \<Rightarrow> string" where
  "membership_in v c u = (case v_member v (c, u) of None \<Rightarrow> ''leave'' | Some (m, _) \<Rightarrow> m)"

lemma sel_membership_view:
  "v_member (view_of d) (c, u) = map_option (\<lambda>r. (mb_type r, mb_evento r)) (sel_membership c u d)"
proof -
  have "(\<lambda>r. mb_usuario r = u \<and> mb_canal r = c) = (\<lambda>r. member_key_of r = (c, u))"
    by (auto simp: member_key_of_def)
  then show ?thesis by (simp add: sel_membership_def view_of_def)
qed

lemma GetUserMembership_Ret:
  "GetUserMembership c u w = (Ret m, w') \<Longrightarrow> m = membership_in (view_of (w_db w)) c u"
  by (auto simp: GetUserMembership_def ret_simps view_def membership_in_def sel_membership_view split: option.splits)

lemma silent_after:
  assumes "keeps silent_rel m" and "m w = (r, w')"
  shows "view_of (w_db w') = view_of (w_db w)" "w_db w' = w_db w" "w_tx w' = w_tx w"
  using silentD [OF assms] by simp_all

lemma newBaseEvent_Ret:
  assumes "newBaseEvent c u t k v w = (Ret ev, w')"
  shows "ev = zeroEvento\<lparr>ev_CanalID := c, ev_Sender := u, ev_Tipo := t, ev_Content := Some (marshal_any v),
      ev_StateKey := k, ev_OrigemServidorTS := w_clock w (w_ticks w)\<rparr>"
  using assms by (auto simp: newBaseEvent_def ret_simps)

text \<open>What a user's own membership call leaves behind.\<close>

definition own_member_done :: "server \<Rightarrow> string \<Rightarrow> string \<Rightarrow> string \<Rightarrow> world \<Rightarrow> world \<Rightarrow> evento \<Rightarrow> bool" where
  "own_member_done sv c u m w w' ev \<longleftrightarrow>
     ev_CanalID ev = c \<and> ev_Sender ev = u \<and> ev_Tipo ev = ''m.room.member'' \<and> ev_StateKey ev = Some u \<and>
     linked (w_db w) ev \<and> ev_ID ev = hashOrEmpty sv (ev\<lparr>ev_ID := ''''\<rparr>) \<and>
     view_of (w_db w') = record_member c u m ev (view_of (w_db w)) \<and> w_tx w' = NoTx"

lemma own_member_Execute:
  assumes "Execute (ownMemberBody m sv u c ev0) w = (Ret ev, w')"
    and "ev_CanalID ev0 = c" "ev_Sender ev0 = u" "ev_Tipo ev0 = ''m.room.member''" "ev_StateKey ev0 = Some u"
    and "ev_ID ev0 = ''''"
  shows "own_member_done sv c u m w w' ev \<and> ev_Content ev = ev_Content ev0"
proof -
  obtain w1 d where b: "ownMemberBody m sv u c ev0 TxCtx ((ticked w)\<lparr>w_tx := Active (w_db w)\<rparr>) = (Ret ev, w1)"
    using assms(1) unfolding ret_Execute by blast
  have tx: "w_tx ((ticked w)\<lparr>w_tx := Active (w_db w)\<rparr>) = Active (w_db w)" by simp
  note * = ownMemberBody_Ret [OF b tx assms(2-6)]
  have l: "linked (w_db w) ev" "ev_ID ev = hashOrEmpty sv (ev\<lparr>ev_ID := ''''\<rparr>)"
    using * by (auto simp: ticked_def)
  have e: "ev = ev0\<lparr>ev_PrevEventos := ev_PrevEventos ev, ev_AuthEventos := ev_AuthEventos ev,
             ev_Depth := ev_Depth ev, ev_ID := ev_ID ev\<rparr>"
    by (rule * [THEN conjunct2, THEN conjunct2, THEN conjunct2])
  have v: "view_of (w_db w') = record_member c u m ev (view_of (w_db w)) \<and> w_tx w' = NoTx"
    by (rule view_Execute [OF assms(1)]) (use ownMemberBody_Ret [OF _ _ assms(2-6)] in blast)
  from arg_cong [OF e, of ev_CanalID] arg_cong [OF e, of ev_Sender] arg_cong [OF e, of ev_Tipo]
    arg_cong [OF e, of ev_StateKey] arg_cong [OF e, of ev_Content]
  show ?thesis using l v assms(2-5) by (simp add: own_member_done_def)
qed

text \<open>The tail of a call that queues its event: nothing of the database changes.\<close>

lemma queue_after:
  assumes "catchM (QueueOutgoing ev) w = (r, w')"
  shows "w_db w' = w_db w" "w_tx w' = w_tx w"
  using silentD [OF silent.keeps_catch [OF silent_QueueOutgoing] assms] by simp_all

lemma own_member_done_cong:
  "own_member_done sv c u m w1 w2 ev \<Longrightarrow> w_db w1 = w_db w \<Longrightarrow> w_db w' = w_db w2 \<Longrightarrow> w_tx w' = w_tx w2 \<Longrightarrow>
     own_member_done sv c u m w w' ev"
  by (simp add: own_member_done_def)

lemma LeaveRoom_Ret:
  assumes "LeaveRoom sv u c w = (Ret (), w')"
  shows "let status = membership_in (view_of (w_db w)) c u in
    if status \<in> {''leave'', ''ban''} then w_db w' = w_db w
    else status \<in> {''join'', ''invite''} \<and> (\<exists>ev. own_member_done sv c u ''leave'' w w' ev \<and>
      ev_Content ev = Some (marshal_any (JObj [(''membership'', JStr ''leave'')])))"
proof -
  obtain s w1 where g: "GetUserMembership c u w = (Ret s, w1)"
    and r: "(if s = ''leave'' \<or> s = ''ban'' then returnM ()
       else if s \<noteq> ''join'' \<and> s \<noteq> ''invite'' then failM (Errorf ''user is not in a state to leave this room'')
       else
         bindM (profileNames Ctx u) (\<lambda>(displayName, avatarURL).
         bindM (buildLeaveEvent c u displayName avatarURL) (\<lambda>leaveEvent.
         bindM (Execute (leaveBody sv u c leaveEvent)) (\<lambda>leaveEvent.
         bindM (WakeUpUsers u) (\<lambda>_.
         bindM (catchM (QueueOutgoing leaveEvent)) (\<lambda>_. returnM ())))))) w1 = (Ret (), w')"
    using assms unfolding LeaveRoom_def ret_bind ret_wrap by blast
  have s: "s = membership_in (view_of (w_db w)) c u" by (rule GetUserMembership_Ret [OF g])
  note w1 = silent_after [OF silent_GetUserMembership g]
  show ?thesis
  proof (cases "s = ''leave'' \<or> s = ''ban''")
    case True
    then show ?thesis using r w1 s by (auto simp: ret_simps)
  next
    case False
    then have ji: "s = ''join'' \<or> s = ''invite''" using r by (auto simp: ret_simps split: if_splits)
    with r obtain dn av w2 ev0 w3 ev w4 w5 qr where
      p: "profileNames Ctx u w1 = (Ret (dn, av), w2)" and b: "buildLeaveEvent c u dn av w2 = (Ret ev0, w3)"
      and x: "Execute (leaveBody sv u c ev0) w3 = (Ret ev, w4)" and k: "WakeUpUsers u w4 = (Ret (), w5)"
      and q: "catchM (QueueOutgoing ev) w5 = (Ret qr, w')"
      by (elim disjE) (simp_all add: ret_bind_pair ret_bind ret_return, blast+)
    have e0: "ev0 = zeroEvento\<lparr>ev_CanalID := c, ev_Sender := u, ev_Tipo := ''m.room.member'',
        ev_Content := Some (marshal_any (JObj [(''membership'', JStr ''leave'')])), ev_StateKey := Some u,
        ev_OrigemServidorTS := w_clock w2 (w_ticks w2)\<rparr>"
      using newBaseEvent_Ret b unfolding buildLeaveEvent_def by blast
    have d: "own_member_done sv c u ''leave'' w3 w4 ev \<and> ev_Content ev = ev_Content ev0"
      by (rule own_member_Execute [OF x [unfolded leaveBody_own]]) (simp_all add: e0 zeroEvento_def)
    have "w_db w3 = w_db w"
      using w1 silent_after [OF silent_profileNames p] silent_after [OF silent_buildLeaveEvent b] by simp
    moreover have "w_db w' = w_db w4" "w_tx w' = w_tx w4"
      using queue_after [OF q] silent_after [OF silent_wake k] by simp_all
    ultimately have "own_member_done sv c u ''leave'' w w' ev"
      by (rule own_member_done_cong [OF conjunct1 [OF d]])
    moreover have "ev_Content ev = Some (marshal_any (JObj [(''membership'', JStr ''leave'')]))"
      using d by (simp add: e0)
    ultimately have "\<exists>ev. own_member_done sv c u ''leave'' w w' ev \<and>
        ev_Content ev = Some (marshal_any (JObj [(''membership'', JStr ''leave'')]))" by blast
    with False ji s show ?thesis by (auto simp: Let_def)
  qed
qed

text \<open>The member event by which a user joins: the content names the profile, where the user has one.\<close>

definition is_join :: "string \<Rightarrow> evento \<Rightarrow> bool" where
  "is_join u ev \<longleftrightarrow> ev_Tipo ev = ''m.room.member'' \<and> ev_Sender ev = u \<and> ev_StateKey ev = Some u \<and>
     (\<exists>displayName avatarURL. ev_Content ev = Some (marshal_any (JObj ([(''membership'', JStr ''join'')] @
        (if displayName \<noteq> '''' then [(''displayname'', JStr displayName)] else []) @
        (if avatarURL \<noteq> '''' then [(''avatar_url'', JStr avatarURL)] else [])))))"

lemma buildJoinEvent_Ret:
  assumes "buildJoinEvent c u dn av w = (Ret ev, w')"
  shows "is_join u ev" "ev_CanalID ev = c" "ev_ID ev = ''''"
  using newBaseEvent_Ret [OF assms [unfolded buildJoinEvent_def]] by (auto simp: is_join_def zeroEvento_def)

text \<open>Who may join: anybody a public room, an invited user a private one.\<close>

definition may_join :: "db \<Rightarrow> string \<Rightarrow> string \<Rightarrow> bool" where
  "may_join d c u \<longleftrightarrow>
     (let rule = (case sel_join_rules c d of [] \<Rightarrow> Some ''invite'' | r # _ \<Rightarrow> r)
      in rule = Some ''public'' \<or>
         rule \<in> {Some ''invite'', Some ''private''} \<and> membership_in (view_of d) c u = ''invite'')"

lemma GetJoinRule_Ret:
  "GetJoinRule c w = (Ret r, w') \<Longrightarrow>
     (case sel_join_rules c (w_db w) of [] \<Rightarrow> Some ''invite'' | x # _ \<Rightarrow> x) = Some r"
  by (auto simp: GetJoinRule_def ret_simps view_def split: list.splits option.splits)

lemma joinAllowed_Ret:
  assumes "joinAllowed u c rule w = (Ret (), w')"
  shows "rule = ''public'' \<or> rule \<in> {''invite'', ''private''} \<and> membership_in (view_of (w_db w)) c u = ''invite''"
proof (cases "rule = ''invite'' \<or> rule = ''private''")
  case True
  then obtain r w1 where "catchM (GetUserMembership c u) w = (Ret r, w1)" "(case r of Inl _ \<Rightarrow> '''' | Inr s \<Rightarrow> s) = ''invite''"
    using assms by (auto simp: joinAllowed_def ret_bind ret_fail ret_return split: if_splits)
  then show ?thesis using True by (auto simp: ret_catch dest: GetUserMembership_Ret split: sum.splits)
next
  case False
  then show ?thesis using assms by (auto simp: joinAllowed_def ret_simps split: if_splits)
qed

lemma JoinLocalRoom_Ret:
  assumes "JoinLocalRoom sv u c w = (Ret (), w')"
  shows "may_join (w_db w) c u \<and> (\<exists>ev. own_member_done sv c u ''join'' w w' ev \<and> is_join u ev)"
proof -
  obtain rule w1 w2 dn av w3 ev0 w4 ev w5 qr where
    g: "GetJoinRule c w = (Ret rule, w1)" and a: "joinAllowed u c rule w1 = (Ret (), w2)"
    and p: "profileNames Ctx u w2 = (Ret (dn, av), w3)" and b: "buildJoinEvent c u dn av w3 = (Ret ev0, w4)"
    and x: "Execute (joinBody sv u c ev0) w4 = (Ret ev, w5)"
    and q: "catchM (QueueOutgoing ev) w5 = (Ret qr, w')"
    using assms by (simp add: JoinLocalRoom_def ret_bind_pair ret_bind ret_return ret_wrap) blast
  note w1 = silent_after [OF silent_GetJoinRule g] and w2 = silent_after [OF silent_joinAllowed a]
    and w3 = silent_after [OF silent_profileNames p] and w4 = silent_after [OF silent_buildJoinEvent b]
  note e0 = buildJoinEvent_Ret [OF b]
  have d: "own_member_done sv c u ''join'' w4 w5 ev \<and> ev_Content ev = ev_Content ev0"
    by (rule own_member_Execute [OF x [unfolded joinBody_own]]) (use e0 in \<open>simp_all add: is_join_def\<close>)
  have "w_db w4 = w_db w" using w1 w2 w3 w4 by simp
  then have "own_member_done sv c u ''join'' w w' ev"
    using queue_after [OF q] by (rule own_member_done_cong [OF conjunct1 [OF d]])
  moreover have "is_join u ev" using d e0(1) by (simp add: is_join_def own_member_done_def)
  moreover have "may_join (w_db w) c u"
    using GetJoinRule_Ret [OF g] joinAllowed_Ret [OF a] w1 by (auto simp: may_join_def Let_def)
  ultimately show ?thesis by blast
qed

subsection \<open>The outbound queue\<close>

text \<open>What leaves the queue to other servers alone.\<close>

definition quiet_rel :: "world \<Rightarrow> world \<Rightarrow> bool" where
  "quiet_rel w w' \<longleftrightarrow> w_outbound w' = w_outbound w \<and> w_fault w' = w_fault w \<and> w_calls w \<le> w_calls w'"

interpretation quiet: effect quiet_rel
  by unfold_locales (auto simp: quiet_rel_def)

named_theorems quiet_intros "a computation that leaves the outbound queue alone"
lemmas quiet_rules [quiet_intros] = quiet.keeps_rules

lemma quiet_now [quiet_intros]: "keeps quiet_rel nowM"
  by (simp add: keeps_def quiet_rel_def nowM_def)

lemma quiet_statement [quiet_intros]: "keeps quiet_rel (getTxOrPool c q)"
  by (auto simp: keeps_def quiet_rel_def getTxOrPool_def ticked_def abort_def store_def
      split: option.split sum.split prod.split ctx.split)

lemma quiet_query [quiet_intros]: "keeps quiet_rel (db_query c q)"
  unfolding db_query_def by (rule quiet_statement)

lemma quiet_exec [quiet_intros]: "keeps quiet_rel (db_exec c q)"
  unfolding db_exec_def by (rule quiet_statement)

lemma quiet_Execute [quiet_intros]:
  assumes "\<And>c. keeps quiet_rel (fn c)"
  shows "keeps quiet_rel (Execute fn)"
proof (rule keepsI)
  fix w :: world
  have q: "quiet_rel v (snd (fn TxCtx v))" for v using assms by (simp add: keeps_def)
  let ?v = "(ticked w)\<lparr>w_tx := Active (w_db w)\<rparr>"
  obtain r w' where f: "fn TxCtx ?v = (r, w')" by fastforce
  have c: "quiet_rel w' (snd (commit_tx w'))" "quiet_rel w' (rollback_tx w')"
    by (auto simp: quiet_rel_def commit_tx_def rollback_tx_def ticked_def split: option.split txn.split)
  have "quiet_rel w ?v" by (simp add: quiet_rel_def ticked_def)
  then have "quiet_rel w w'" using q [of ?v] by (auto simp: f intro: quiet.R_trans)
  then show "quiet_rel w (snd (Execute fn w))"
    using c quiet.R_trans [of w w'] f
    by (auto simp: Execute_def run_simps begin_tx_def quiet_rel_def ticked_def split: option.split outcome.split prod.split)
qed

lemma quiet_requireStatus [quiet_intros]: "keeps quiet_rel (requireStatus al c u)"
  unfolding requireStatus_def GetUserMembership_def by (intro quiet_intros)

lemma quiet_appendState [quiet_intros]: "keeps quiet_rel (appendState c t k as)"
  unfolding appendState_def GetStateEventID_def by (intro quiet_intros)

lemma quiet_linkEvent [quiet_intros]: "keeps quiet_rel (linkEvent sv c u t k ev)"
  unfolding linkEvent_def ResolveEventDependencies_def GetForwardExtremities_def GetMaxDepthFromEventos_def
  by (intro quiet_intros)

lemma quiet_eventBody [quiet_intros]: "keeps quiet_rel (eventBody sv p ev c)"
  unfolding eventBody_def SaveEvento_def UpdateForwardExtremities_def by (intro quiet_intros)

text \<open>An event is at the end of the queue, unless the last call, the push, failed.\<close>

definition queued :: "evento \<Rightarrow> world \<Rightarrow> world \<Rightarrow> bool" where
  "queued ev w w' \<longleftrightarrow>
     (if w_fault w (w_calls w' - 1) = None then w_outbound w' = w_outbound w @ [evento_json ev]
      else w_outbound w' = w_outbound w)"

lemma QueueOutgoing_queued:
  assumes "catchM (QueueOutgoing ev) w1 = (r, w')" and "quiet_rel w w1"
  shows "queued ev w w'"
  using assms
  by (auto simp: queued_def quiet_rel_def QueueOutgoing_def PushOutboundQueue_def run_simps redis_call_def ticked_def
      split: option.splits)

subsection \<open>SendEvent and SendStateEvent\<close>

text \<open>An event that is linked, carries its own hash and a signature of this server.\<close>

definition sealed :: "server \<Rightarrow> evento \<Rightarrow> bool" where
  "sealed sv ev \<longleftrightarrow>
     HashMatrixEvent (sv_crypto sv) (ev\<lparr>ev_ID := '''', ev_Signatures := None\<rparr>) = Inr (ev_ID ev) \<and>
     (\<exists>sig. ev_Signatures ev = Some sig \<and>
        SignMatrixEvent (sv_crypto sv) (ev\<lparr>ev_Signatures := None\<rparr>) (sv_serverName sv) (sv_keyID sv) (sv_privateKey sv) = Inr sig)"

lemma linkEvent_Ret:
  assumes "linkEvent sv c u t k ev0 w = (Ret (ev, prevs), w')"
    and "ev_CanalID ev0 = c" "ev_Sender ev0 = u" "ev_Tipo ev0 = t" "ev_StateKey ev0 = k"
    and "ev_ID ev0 = ''''" "ev_Signatures ev0 = None"
  shows "linked (w_db w) ev \<and> sealed sv ev \<and> prevs = ev_PrevEventos ev \<and>
    ev_CanalID ev = c \<and> ev_Sender ev = u \<and> ev_Tipo ev = t \<and> ev_StateKey ev = k \<and>
    ev_Content ev = ev_Content ev0 \<and> ev_Unsigned ev = ev_Unsigned ev0"
proof -
  obtain auths w1 n w2 ev1 i sig where
    r: "ResolveEventDependencies Ctx c u t k w = (Ret (prevs, auths), w1)"
    and g: "GetMaxDepthFromEventos prevs w1 = (Ret n, w2)"
    and ev1: "ev1 = ev0\<lparr>ev_PrevEventos := prevs, ev_AuthEventos := auths, ev_Depth := wrap64 (n + 1)\<rparr>"
    and h: "HashMatrixEvent (sv_crypto sv) ev1 = Inr i"
    and s: "SignMatrixEvent (sv_crypto sv) (ev1\<lparr>ev_ID := i\<rparr>) (sv_serverName sv) (sv_keyID sv) (sv_privateKey sv) = Inr sig"
    and ev: "ev = ev1\<lparr>ev_ID := i, ev_Signatures := Some sig\<rparr>"
    using assms(1) by (auto simp: linkEvent_def ret_simps Let_def split: prod.splits)
  have w1: "w_db w1 = w_db w" by (rule silent_after(2) [OF silent_ResolveEventDependencies r])
  have "linked (w_db w) ev"
    using ResolveEventDependencies_Ret [OF r] GetMaxDepth_Ret [OF g] w1 assms(2-5)
    by (simp add: linked_def ev ev1)
  moreover have "ev\<lparr>ev_ID := '''', ev_Signatures := None\<rparr> = ev1" using assms(6,7) by (simp add: ev ev1)
  moreover have "ev\<lparr>ev_Signatures := None\<rparr> = ev1\<lparr>ev_ID := i\<rparr>" using assms(7) by (simp add: ev ev1)
  ultimately show ?thesis using h s assms(2-5) by (simp add: sealed_def) (simp add: ev ev1)
qed

definition record_event :: "evento \<Rightarrow> room_view \<Rightarrow> room_view" where
  "record_event ev = advance_heads (ev_CanalID ev) (ev_ID ev) (ev_PrevEventos ev) \<circ> put_event ev"

text \<open>\<open>m.room.member\<close> events with a readable membership also change the membership table.\<close>

definition record_state :: "evento \<Rightarrow> room_view \<Rightarrow> room_view" where
  "record_state ev =
     (case ev_StateKey ev of
        None \<Rightarrow> id
      | Some k \<Rightarrow>
          (if ev_Tipo ev = ''m.room.member'' then
             (case membershipOf ev of None \<Rightarrow> id | Some m \<Rightarrow> set_member (ev_CanalID ev) k m (ev_ID ev))
           else id) \<circ> set_state (ev_CanalID ev) (ev_Tipo ev) k (ev_ID ev))"

lemma eventBody_Ret:
  assumes "eventBody sv p ev0 TxCtx w = (Ret ev, w')" and "w_tx w = Active d"
    and "ev_CanalID ev0 = evp_RoomID p" "ev_Sender ev0 = evp_SenderID p" "ev_Tipo ev0 = evp_EventType p"
    and "ev_StateKey ev0 = None" "ev_ID ev0 = ''''" "ev_Signatures ev0 = None"
  shows "tx_moves (record_event ev) w w' \<and> linked (w_db w) ev \<and> sealed sv ev \<and>
    ev_CanalID ev = evp_RoomID p \<and> ev_Sender ev = evp_SenderID p \<and> ev_Tipo ev = evp_EventType p \<and>
    ev_StateKey ev = None \<and> ev_Content ev = ev_Content ev0"
proof -
  obtain prevs w1 w2 where
    l: "linkEvent sv (evp_RoomID p) (evp_SenderID p) (evp_EventType p) None ev0 w = (Ret (ev, prevs), w1)"
    and s: "SaveEvento TxCtx ev w1 = (Ret (), w2)"
      "UpdateForwardExtremities TxCtx (evp_RoomID p) (ev_ID ev) prevs w2 = (Ret (), w')"
    using assms(1) by (auto simp: eventBody_def ret_bind_pair ret_bind ret_return)
  note * = linkEvent_Ret [OF l assms(3-8)]
  have "tx_moves id w w1" using silent_after [OF silent_linkEvent l] assms(2) by (simp add: tx_moves_def)
  then have "tx_moves (record_event ev \<circ> id) w w'"
    unfolding record_event_def
    using tx_SaveEvento [OF s(1)] tx_UpdateForwardExtremities [OF s(2)] * by (metis tx_moves_trans)
  with * show ?thesis by simp
qed

lemma stateBody_Ret:
  assumes "stateBody sv p ev0 TxCtx w = (Ret ev, w')" and "w_tx w = Active d"
    and "ev_CanalID ev0 = sta_RoomID p" "ev_Sender ev0 = sta_UserID p" "ev_Tipo ev0 = sta_EventType p"
    and "ev_StateKey ev0 = Some (sta_StateKey p)" "ev_ID ev0 = ''''" "ev_Signatures ev0 = None"
  shows "tx_moves (record_state ev \<circ> record_event ev) w w' \<and> linked (w_db w) ev \<and> sealed sv ev \<and>
    ev_CanalID ev = sta_RoomID p \<and> ev_Sender ev = sta_UserID p \<and> ev_Tipo ev = sta_EventType p \<and>
    ev_StateKey ev = Some (sta_StateKey p) \<and> ev_Content ev = ev_Content ev0"
proof -
  obtain prevs w1 w2 w3 w4 where
    l: "linkEvent sv (sta_RoomID p) (sta_UserID p) (sta_EventType p) (Some (sta_StateKey p)) ev0 w = (Ret (ev, prevs), w1)"
    and s: "SaveEvento TxCtx ev w1 = (Ret (), w2)"
      "UpdateForwardExtremities TxCtx (sta_RoomID p) (ev_ID ev) prevs w2 = (Ret (), w3)"
      "UpsertCurrentState TxCtx (sta_RoomID p) (sta_EventType p) (sta_StateKey p) (ev_ID ev) w3 = (Ret (), w4)"
    and m: "(if sta_EventType p = ''m.room.member'' then
              (case membershipOf ev of
                 None \<Rightarrow> returnM ()
               | Some m \<Rightarrow> UpsertMembership TxCtx (sta_RoomID p) (sta_StateKey p) m (ev_ID ev))
            else returnM ()) w4 = (Ret (), w')"
    using assms(1) by (auto simp: stateBody_def ret_bind_pair ret_bind ret_return)
  note * = linkEvent_Ret [OF l assms(3-8)]
  have "tx_moves id w w1" using silent_after [OF silent_linkEvent l] assms(2) by (simp add: tx_moves_def)
  then have 2: "tx_moves (record_event ev \<circ> id) w w3"
    unfolding record_event_def
    using tx_SaveEvento [OF s(1)] tx_UpdateForwardExtremities [OF s(2)] * by (metis tx_moves_trans)
  have 3: "tx_moves (set_state (ev_CanalID ev) (ev_Tipo ev) (sta_StateKey p) (ev_ID ev)) w3 w4"
    using tx_UpsertCurrentState [OF s(3)] * by simp
  have 4: "tx_moves (if ev_Tipo ev = ''m.room.member'' then
      (case membershipOf ev of None \<Rightarrow> id | Some m \<Rightarrow> set_member (ev_CanalID ev) (sta_StateKey p) m (ev_ID ev)) else id) w4 w'"
    using m 3 * by (auto simp: ret_return tx_moves_def dest: tx_UpsertMembership split: if_splits option.splits)
  have "record_state ev = (if ev_Tipo ev = ''m.room.member'' then
      (case membershipOf ev of None \<Rightarrow> id | Some m \<Rightarrow> set_member (ev_CanalID ev) (sta_StateKey p) m (ev_ID ev)) else id)
      \<circ> set_state (ev_CanalID ev) (ev_Tipo ev) (sta_StateKey p) (ev_ID ev)"
    using * by (simp add: record_state_def)
  then have "tx_moves (record_state ev \<circ> record_event ev) w w'"
    using tx_moves_trans [OF 2 tx_moves_trans [OF 3 4]] by (simp add: comp_assoc)
  with * show ?thesis by simp
qed

lemma requireStatus_Ret:
  assumes "requireStatus al c u w = (Ret (), w')"
  shows "membership_in (view_of (w_db w)) c u \<in> set al"
proof -
  obtain r w1 where r: "catchM (GetUserMembership c u) w = (Ret r, w1)"
    "(case r of Inl _ \<Rightarrow> failM ErrForbidden
      | Inr s \<Rightarrow> if s \<in> set al then returnM () else failM ErrForbidden) w1 = (Ret (), w')"
    using assms by (auto simp: requireStatus_def ret_bind)
  then obtain s where "r = Inr s" "s \<in> set al" by (auto simp: ret_fail split: sum.splits if_splits)
  with r(1) show ?thesis by (auto simp: ret_catch dest: GetUserMembership_Ret)
qed

text \<open>What \<open>GetStateEventContent\<close> shows, and to whom.\<close>

lemma GetStateEventContent_Ret:
  assumes "GetStateEventContent c u t k w = (Ret ev, w')"
  shows "\<exists>m s j. m \<in> {''join'', ''leave''} \<and> v_member (view_of (w_db w)) (c, u) = Some (m, j) \<and>
    v_state (view_of (w_db w)) (c, t, k) = Some s \<and> v_log (view_of (w_db w)) s = Some ev"
proof -
  obtain m w1 s w2 where r: "GetUserMembershipRecord c u w = (Ret (m, True), w1)" "m = ''join'' \<or> m = ''leave''"
    and g: "GetStateEventID c t k w1 = (Ret (s, True), w2)" and e: "GetEvento s w2 = (Ret ev, w')"
    using assms by (auto simp: GetStateEventContent_def ret_bind ret_wrap ret_fail split: prod.splits if_splits)
  obtain row where row: "sel_membership c u (w_db w) = Some row" "m = mb_type row" "w_db w1 = w_db w"
    using r(1) by (auto simp: GetUserMembershipRecord_def ret_simps view_def ticked_def split: option.splits)
  have db: "w_db w2 = w_db w" using silent_after(2) [OF silent_GetStateEventID g] row(3) by simp
  have "v_log (view_of (w_db w)) s = Some ev"
    using e db by (auto simp: GetEvento_def ret_simps view_def view_of_def split: option.splits)
  then show ?thesis
    using GetStateEventID_Ret [OF g] r(2) row by (auto simp: sel_membership_view)
qed

lemma Execute_body:
  assumes "Execute fn w = (Ret a, w')"
  obtains w1 w2 where "fn TxCtx w1 = (Ret a, w2)" "w_db w1 = w_db w" "w_tx w1 = Active (w_db w)"
    "\<And>f. tx_moves f w1 w2 \<Longrightarrow> view_of (w_db w') = f (view_of (w_db w))" "w_tx w' = NoTx"
proof -
  obtain w2 d where b: "fn TxCtx ((ticked w)\<lparr>w_tx := Active (w_db w)\<rparr>) = (Ret a, w2)" "w_tx w2 = Active d"
    "w' = (ticked w2)\<lparr>w_db := d, w_tx := NoTx\<rparr>"
    using assms(1) unfolding ret_Execute by blast
  show ?thesis
    by (rule that [OF b(1)]) (use b(2,3) in \<open>auto simp: tx_moves_def ticked_def\<close>)
qed

lemma SendEvent_Ret:
  assumes "SendEvent sv p w = (Ret i, w')"
  shows "membership_in (view_of (w_db w)) (evp_RoomID p) (evp_SenderID p) = ''join'' \<and>
    (\<exists>ev. i = ev_ID ev \<and> linked (w_db w) ev \<and> sealed sv ev \<and> ev_CanalID ev = evp_RoomID p \<and>
      ev_Sender ev = evp_SenderID p \<and> ev_Tipo ev = evp_EventType p \<and> ev_StateKey ev = None \<and>
      ev_Content ev = Some (marshal_any (evp_Content p)) \<and>
      view_of (w_db w') = record_event ev (view_of (w_db w)) \<and> w_tx w' = NoTx \<and> queued ev w w')"
proof -
  obtain w1 w2 ev0 ev w3 qr where
    g: "requireStatus [''join''] (evp_RoomID p) (evp_SenderID p) w = (Ret (), w1)"
    and n: "w_db w2 = w_db w1" and n': "quiet_rel w1 w2" and e0: "ev_CanalID ev0 = evp_RoomID p" "ev_Sender ev0 = evp_SenderID p"
      "ev_Tipo ev0 = evp_EventType p" "ev_StateKey ev0 = None" "ev_ID ev0 = ''''" "ev_Signatures ev0 = None"
      "ev_Content ev0 = Some (marshal_any (evp_Content p))"
    and x: "Execute (eventBody sv p ev0) w2 = (Ret ev, w3)"
    and q: "catchM (QueueOutgoing ev) w3 = (Ret qr, w')" and i: "i = ev_ID ev"
  proof -
    obtain w1 now w2 where g: "requireStatus [''join''] (evp_RoomID p) (evp_SenderID p) w = (Ret (), w1)"
      and n: "nowM w1 = (Ret now, w2)"
      and r: "bindM (wrapM ''transaction failed'' (Execute (eventBody sv p
          (let newEvent = zeroEvento\<lparr>ev_CanalID := evp_RoomID p, ev_Sender := evp_SenderID p, ev_Tipo := evp_EventType p,
             ev_StateKey := None, ev_Content := Some (marshal_any (evp_Content p)), ev_OrigemServidorTS := now\<rparr>
           in if evp_TxnID p \<noteq> '''' then newEvent\<lparr>ev_Unsigned := Some (JObj [(''transaction_id'', JStr (evp_TxnID p))])\<rparr>
              else newEvent)))) (\<lambda>newEvent. bindM (catchM (QueueOutgoing newEvent)) (\<lambda>_. returnM (ev_ID newEvent))) w2
          = (Ret i, w')"
      using assms by (auto simp: SendEvent_def ret_bind [of "requireStatus al c u" for al c u] ret_bind [of nowM] Let_def)
    from r show ?thesis
      unfolding ret_bind ret_wrap ret_return
      by (elim exE conjE) (rule that [OF g silent_after(2) [OF silent_now n] keepsD [OF quiet_now n]], auto simp: zeroEvento_def Let_def)
  qed
  obtain b1 b2 where b: "eventBody sv p ev0 TxCtx b1 = (Ret ev, b2)" "w_db b1 = w_db w2" "w_tx b1 = Active (w_db w2)"
    "\<And>f. tx_moves f b1 b2 \<Longrightarrow> view_of (w_db w3) = f (view_of (w_db w2))" "w_tx w3 = NoTx"
    using Execute_body [OF x] by metis
  note * = eventBody_Ret [OF b(1,3) e0(1-6)]
  have db: "w_db w2 = w_db w" using n silent_after [OF silent_requireStatus g] by simp
  have "quiet_rel w w3"
    using keepsD [OF quiet_requireStatus g] n' keepsD [OF quiet_Execute [OF quiet_eventBody] x]
    by (blast intro: quiet.R_trans)
  from QueueOutgoing_queued [OF q this] show ?thesis
    using requireStatus_Ret [OF g] * b(2,5) b(4) [OF conjunct1 [OF *]] e0(7) queue_after [OF q] i
    unfolding db by auto
qed

lemma SendStateEvent_Ret:
  assumes "SendStateEvent sv p w = (Ret i, w')"
  shows "membership_in (view_of (w_db w)) (sta_RoomID p) (sta_UserID p) = ''join'' \<and>
    (\<exists>ev. i = ev_ID ev \<and> linked (w_db w) ev \<and> sealed sv ev \<and> ev_CanalID ev = sta_RoomID p \<and>
      ev_Sender ev = sta_UserID p \<and> ev_Tipo ev = sta_EventType p \<and> ev_StateKey ev = Some (sta_StateKey p) \<and>
      ev_Content ev = Some (marshal_any (sta_Content p)) \<and>
      view_of (w_db w') = (record_state ev \<circ> record_event ev) (view_of (w_db w)) \<and> w_tx w' = NoTx)"
proof -
  obtain w1 now w2 ev0 ev w3 qr where
    g: "requireStatus [''join''] (sta_RoomID p) (sta_UserID p) w = (Ret (), w1)" and n: "nowM w1 = (Ret now, w2)"
    and ev0: "ev0 = zeroEvento\<lparr>ev_CanalID := sta_RoomID p, ev_Sender := sta_UserID p, ev_Tipo := sta_EventType p,
             ev_StateKey := Some (sta_StateKey p), ev_Content := Some (marshal_any (sta_Content p)),
             ev_OrigemServidorTS := now\<rparr>"
    and x: "Execute (stateBody sv p ev0) w2 = (Ret ev, w3)"
    and q: "catchM (QueueOutgoing ev) w3 = (Ret qr, w')" and i: "i = ev_ID ev"
    using assms by (simp add: SendStateEvent_def ret_bind ret_wrap ret_return Let_def) blast
  have e0: "ev_CanalID ev0 = sta_RoomID p" "ev_Sender ev0 = sta_UserID p"
      "ev_Tipo ev0 = sta_EventType p" "ev_StateKey ev0 = Some (sta_StateKey p)" "ev_ID ev0 = ''''" "ev_Signatures ev0 = None"
      "ev_Content ev0 = Some (marshal_any (sta_Content p))"
    by (simp_all add: ev0 zeroEvento_def)
  obtain b1 b2 where b: "stateBody sv p ev0 TxCtx b1 = (Ret ev, b2)" "w_db b1 = w_db w2" "w_tx b1 = Active (w_db w2)"
    "\<And>f. tx_moves f b1 b2 \<Longrightarrow> view_of (w_db w3) = f (view_of (w_db w2))" "w_tx w3 = NoTx"
    using Execute_body [OF x] by metis
  note * = stateBody_Ret [OF b(1,3) e0(1-6)]
  have db: "w_db w2 = w_db w" using silent_after [OF silent_requireStatus g] silent_after [OF silent_now n] by simp
  have "view_of (w_db w') = (record_state ev \<circ> record_event ev) (view_of (w_db w))"
    using b(4) [OF conjunct1 [OF *]] queue_after [OF q] db by simp
  moreover have "w_tx w' = NoTx" using b(5) queue_after [OF q] by simp
  ultimately show ?thesis
    using requireStatus_Ret [OF g] * b(2) e0(7) i unfolding db by auto
qed

subsection \<open>InviteUser\<close>

text \<open>The power level the inviter has and the level an invitation needs, from the current power levels event.\<close>

definition invite_levels_ok :: "db \<Rightarrow> string \<Rightarrow> string \<Rightarrow> bool" where
  "invite_levels_ok d c u \<longleftrightarrow>
     (\<forall>i e invite usersDefault users.
        v_state (view_of d) (c, ''m.room.power_levels'', '''') = Some i \<longrightarrow> sel_Evento i d = Some e \<longrightarrow>
        decode_invite_levels (ev_Content e) = Inr (invite, usersDefault, users) \<longrightarrow>
        (case invite of None \<Rightarrow> 0 | Some l \<Rightarrow> l)
          \<le> (case map_of users u of Some l \<Rightarrow> l | None \<Rightarrow> (case usersDefault of None \<Rightarrow> 0 | Some l \<Rightarrow> l)))"

text \<open>An error of the lookup of the power levels counts as no power levels: every member may invite.\<close>

lemma GetStateEventID_total:
  assumes "GetStateEventID c t k w = (r, w')"
  shows "\<exists>i f. r = Ret (i, f) \<and> (w_fault w (w_calls w) = None \<longrightarrow> (f \<longleftrightarrow> v_state (view_of (w_db w)) (c, t, k) \<noteq> None))"
  using assms
  by (auto simp: GetStateEventID_def run_simps db_query_def getTxOrPool_def view_def sel_state_view
      split: option.splits prod.splits)

lemma checkInvitePowerLevel_Ret:
  assumes "checkInvitePowerLevel c u w = (Ret (), w')" and "w_fault w (w_calls w) = None"
  shows "invite_levels_ok (w_db w) c u"
proof -
  obtain i found w1 where g: "GetStateEventID c ''m.room.power_levels'' '''' w = (Ret (i, found), w1)"
    and r: "(if \<not> found then returnM ()
       else bindM (wrapM ''failed to fetch power levels event'' (GetEvento i)) (\<lambda>plEvent.
            bindM (wrapM ''failed to parse power levels content'' (liftE (decode_invite_levels (ev_Content plEvent))))
              (\<lambda>(invite, usersDefault, users).
                (let inviteLevel = (case invite of None \<Rightarrow> 0 | Some l \<Rightarrow> l);
                     usersDefault = (case usersDefault of None \<Rightarrow> 0 | Some l \<Rightarrow> l);
                     inviterLevel = (case map_of users u of Some lvl \<Rightarrow> lvl | None \<Rightarrow> usersDefault)
                 in if inviterLevel < inviteLevel
                    then failM (Wrapf ''insufficient power level to invite'' ErrForbidden)
                    else returnM ())))) w1 = (Ret (), w')"
    using assms(1) unfolding checkInvitePowerLevel_def ret_bind_pair by blast
  have f: "found \<longleftrightarrow> v_state (view_of (w_db w)) (c, ''m.room.power_levels'', '''') \<noteq> None"
    using GetStateEventID_total [OF g] assms(2) by simp
  show ?thesis
  proof (cases found)
    case False
    with f show ?thesis by (simp add: invite_levels_ok_def)
  next
    case True
    have s: "v_state (view_of (w_db w)) (c, ''m.room.power_levels'', '''') = Some i"
      by (rule GetStateEventID_Ret) (use g True in simp)
    from r True obtain ev w2 inv ud us where e: "GetEvento i w1 = (Ret ev, w2)"
      "decode_invite_levels (ev_Content ev) = Inr (inv, ud, us)"
      "\<not> (case map_of us u of Some l \<Rightarrow> l | None \<Rightarrow> (case ud of None \<Rightarrow> 0 | Some l \<Rightarrow> l)) < (case inv of None \<Rightarrow> 0 | Some l \<Rightarrow> l)"
      by (auto simp: ret_bind ret_wrap ret_liftE ret_fail Let_def split: if_splits)
    have "w_db w1 = w_db w" by (rule silent_after(2) [OF silent_GetStateEventID g])
    then obtain e0 where e0: "sel_Evento i (w_db w) = Some e0" "ev = no_ordering e0"
      using e(1) by (auto simp: GetEvento_def ret_simps view_def split: option.splits)
    show ?thesis
      unfolding invite_levels_ok_def s using e e0 by (auto simp: no_ordering_def)
  qed
qed

lemma inviteGuard_Ret:
  assumes "inviteGuard c u v w = (Ret (), w')"
  shows "membership_in (view_of (w_db w)) c u = ''join'' \<and>
    membership_in (view_of (w_db w)) c v \<notin> {''ban'', ''join''} \<and>
    (w_fault w = (\<lambda>_. None) \<longrightarrow> invite_levels_ok (w_db w) c u)"
proof -
  obtain m1 w1 m2 w2 where g: "GetUserMembership c u w = (Ret m1, w1)" "m1 = ''join''"
    "GetUserMembership c v w1 = (Ret m2, w2)" "m2 \<noteq> ''ban''" "m2 \<noteq> ''join''"
    and p: "checkInvitePowerLevel c u w2 = (Ret (), w')"
    using assms by (auto simp: inviteGuard_def ret_bind ret_wrap ret_fail split: if_splits)
  have "w_fault w2 = w_fault w" "w_db w2 = w_db w" "w_db w1 = w_db w"
    using g(1,3) by (auto simp: GetUserMembership_def ret_simps ticked_def)
  then show ?thesis
    using GetUserMembership_Ret [OF g(1)] GetUserMembership_Ret [OF g(3)] g(2,4,5) checkInvitePowerLevel_Ret [OF p]
    by auto
qed

lemma inviteBody_Ret:
  assumes "inviteBody c v ev TxCtx w = (Ret (), w')"
  shows "tx_moves (record_member c v ''invite'' ev) w w'"
proof -
  obtain w1 w2 w3 where "SaveEvento TxCtx ev w = (Ret (), w1)"
    "UpdateForwardExtremities TxCtx c (ev_ID ev) (ev_PrevEventos ev) w1 = (Ret (), w2)"
    "UpsertCurrentState TxCtx c ''m.room.member'' v (ev_ID ev) w2 = (Ret (), w3)"
    "UpsertMembership TxCtx c v ''invite'' (ev_ID ev) w3 = (Ret (), w')"
    using assms by (auto simp: inviteBody_def ret_bind)
  then show ?thesis
    unfolding record_member_def
    by (blast intro: tx_moves_trans tx_SaveEvento tx_UpdateForwardExtremities tx_UpsertCurrentState tx_UpsertMembership)
qed

lemma InviteUser_Ret:
  assumes "InviteUser sv c u v reason dm w = (Ret (), w')"
  shows "membership_in (view_of (w_db w)) c u = ''join'' \<and>
    membership_in (view_of (w_db w)) c v \<notin> {''ban'', ''join''} \<and>
    (w_fault w = (\<lambda>_. None) \<longrightarrow> invite_levels_ok (w_db w) c u) \<and>
    (\<exists>ev. view_of (w_db w') = record_member c v ''invite'' ev (view_of (w_db w)) \<and> w_tx w' = NoTx \<and>
       (\<not> IsRemoteUser v (sv_serverName sv) \<longrightarrow> linked (w_db w) ev \<and> ev_CanalID ev = c \<and> ev_Sender ev = u \<and>
          ev_Tipo ev = ''m.room.member'' \<and> ev_StateKey ev = Some v \<and>
          HashMatrixEvent (sv_crypto sv) (ev\<lparr>ev_ID := ''''\<rparr>) = Inr (ev_ID ev)))"
proof -
  obtain w1 pr w2 ev0 w3 prevs auths w4 n w5 ev1 i w6 ev w7 w8 qr where
    g: "inviteGuard c u v w = (Ret (), w1)" and p: "catchM (GetProfileByID Ctx v) w1 = (Ret pr, w2)"
    and b: "newBaseEvent c u ''m.room.member'' (Some v)
        (inviteContent reason dm (case pr of Inl _ \<Rightarrow> None | Inr q \<Rightarrow> q)) w2 = (Ret ev0, w3)"
    and r: "ResolveEventDependencies Ctx c u ''m.room.member'' (Some v) w3 = (Ret (prevs, auths), w4)"
    and d: "GetMaxDepthFromEventos prevs w4 = (Ret n, w5)"
    and ev1: "ev1 = ev0\<lparr>ev_PrevEventos := prevs, ev_AuthEventos := auths, ev_Depth := wrap64 (n + 1)\<rparr>"
    and h: "HashMatrixEvent (sv_crypto sv) ev1 = Inr i"
    and m: "(if IsRemoteUser v (sv_serverName sv) then remoteInvite sv c v (ev1\<lparr>ev_ID := i\<rparr>)
             else returnM (ev1\<lparr>ev_ID := i\<rparr>)) w5 = (Ret ev, w6)"
    and x: "Execute (inviteBody c v ev) w6 = (Ret (), w7)"
    and q: "catchM (QueueOutgoing ev) w7 = (Ret qr, w')"
    using assms
    by (simp add: InviteUser_def ret_bind_pair ret_bind ret_wrap ret_liftE ret_return Let_def) blast
  have db: "w_db w2 = w_db w" "w_db w3 = w_db w" "w_db w4 = w_db w" "w_db w5 = w_db w"
    using silent_after(2) [OF silent_inviteGuard g] silent_after(2) [OF silent.keeps_catch [OF silent_GetProfileByID] p]
      silent_after(2) [OF silent_newBaseEvent b] silent_after(2) [OF silent_ResolveEventDependencies r]
      silent_after(2) [OF silent_GetMaxDepthFromEventos d] by simp_all
  have "keeps silent_rel (if IsRemoteUser v (sv_serverName sv) then remoteInvite sv c v (ev1\<lparr>ev_ID := i\<rparr>)
             else returnM (ev1\<lparr>ev_ID := i\<rparr>))" by (intro silent_intros)
  from silent_after(2) [OF this m] have "w_db w6 = w_db w" using db by simp
  then have v: "view_of (w_db w') = record_member c v ''invite'' ev (view_of (w_db w)) \<and> w_tx w' = NoTx"
    using view_Execute [OF x] inviteBody_Ret queue_after [OF q] by metis
  have e0: "ev_CanalID ev0 = c" "ev_Sender ev0 = u" "ev_Tipo ev0 = ''m.room.member''" "ev_StateKey ev0 = Some v" "ev_ID ev0 = ''''"
    using newBaseEvent_Ret [OF b] by (simp_all add: zeroEvento_def)
  have "linked (w_db w) ev \<and> ev_CanalID ev = c \<and> ev_Sender ev = u \<and> ev_Tipo ev = ''m.room.member'' \<and> ev_StateKey ev = Some v \<and>
      HashMatrixEvent (sv_crypto sv) (ev\<lparr>ev_ID := ''''\<rparr>) = Inr (ev_ID ev)"
    if "\<not> IsRemoteUser v (sv_serverName sv)"
  proof -
    have ev: "ev = ev1\<lparr>ev_ID := i\<rparr>" using m that by (simp add: ret_return)
    have "ev\<lparr>ev_ID := ''''\<rparr> = ev1" using e0(5) by (simp add: ev ev1)
    then show ?thesis
      using ResolveEventDependencies_Ret [OF r] GetMaxDepth_Ret [OF d] db e0 h
      by (simp add: linked_def ev) (simp add: ev1)
  qed
  then show ?thesis using v inviteGuard_Ret [OF g] by blast
qed

end
