(* ===== verification/Genesis_Effects.thy ===== *)
theory Genesis_Effects
  imports Room_Effects
begin

text \<open>
  Creating a room: the events of \<open>genesisEvents\<close>, the chain \<open>linkAndHashGenesis\<close> makes of them, and the
  room that \<open>CreateRoom\<close> stores.
\<close>

subsection \<open>The events\<close>

definition genesis_event :: "string \<Rightarrow> string \<Rightarrow> evento \<Rightarrow> bool" where
  "genesis_event c u ev \<longleftrightarrow> ev_CanalID ev = c \<and> ev_Sender ev = u \<and> ev_StateKey ev \<noteq> None \<and> ev_Content ev \<noteq> None"

lemma newBaseEvent_genesis:
  "newBaseEvent c u t (Some k) v w = (Ret ev, w') \<Longrightarrow> genesis_event c u ev \<and> ev_Tipo ev = t"
  by (drule newBaseEvent_Ret) (simp add: genesis_event_def)

text \<open>State events the client asks for never replace an event the room is built on.\<close>

lemma buildInitialStateEvents_Ret:
  "buildInitialStateEvents c u raw w = (Ret evs, w') \<Longrightarrow>
     (\<forall>ev\<in>set evs. genesis_event c u ev \<and> \<not> isProtectedGenesisEvent (ev_Tipo ev)) \<and>
     map ev_Tipo evs = filter (\<lambda>t. \<not> isProtectedGenesisEvent t) (map sp_Type raw)"
proof (induction raw arbitrary: w evs)
  case (Cons r raw)
  show ?case
  proof (cases "isProtectedGenesisEvent (sp_Type r)")
    case True
    with Cons show ?thesis by simp
  next
    case False
    then obtain ev w1 es where b: "newBaseEvent c u (sp_Type r) (Some (case sp_StateKey r of None \<Rightarrow> '''' | Some k \<Rightarrow> k)) (sp_Content r) w = (Ret ev, w1)"
      and rest: "buildInitialStateEvents c u raw w1 = (Ret es, w')" and e: "evs = ev # es"
      using Cons.prems by (auto simp: ret_bind ret_return)
    from newBaseEvent_genesis [OF b] Cons.IH [OF rest] False show ?thesis by (auto simp: e)
  qed
qed (simp add: ret_return)

lemma appendIf_Ret:
  "appendIf b m evs w = (Ret es, w') \<Longrightarrow> (\<And>w ev w'. m w = (Ret ev, w') \<Longrightarrow> P ev) \<Longrightarrow>
     \<exists>more. es = evs @ more \<and> (\<forall>ev\<in>set more. P ev) \<and> length more \<le> 1"
  by (auto simp: appendIf_def ret_bind ret_return split: if_splits)

lemmas build_defs = buildCreateEvent_def buildJoinEvent_def buildPowerLevelEvent_def buildJoinRulesEvent_def
  buildNameEvent_def buildTopicEvent_def buildAliasEvent_def

text \<open>The first four events: the create event, the creator's join, the power levels, the join rules.\<close>

definition default_levels :: "string \<Rightarrow> json" where
  "default_levels creator =
     JObj [(''users_default'', JNum 0), (''events_default'', JNum 0), (''state_default'', JNum 50),
           (''ban'', JNum 50), (''kick'', JNum 50), (''redact'', JNum 50), (''invite'', JNum 0),
           (''users'', JObj [(creator, JNum 100)]),
           (''events'', JObj [(''m.room.name'', JNum 50), (''m.room.power_levels'', JNum 100)])]"

definition default_event :: "string \<Rightarrow> json \<Rightarrow> evento \<Rightarrow> bool" where
  "default_event t v ev \<longleftrightarrow> ev_Tipo ev = t \<and> ev_StateKey ev = Some '''' \<and> ev_Content ev = Some (marshal_any v)"

definition genesis_start :: "CreateRoomParams \<Rightarrow> evento list \<Rightarrow> bool" where
  "genesis_start props evs \<longleftrightarrow>
     (case evs of e1 # e2 # e3 # e4 # _ \<Rightarrow>
        default_event ''m.room.create'' (JObj [(''creator'', JStr (cr_CreatorID props)), (''room_version'', JStr (room_version props))]) e1 \<and>
        is_join (cr_CreatorID props) e2 \<and>
        default_event ''m.room.power_levels'' (default_levels (cr_CreatorID props)) e3 \<and>
        default_event ''m.room.join_rules'' (JObj [(''join_rule'', JStr (preset_rule (cr_Preset props)))]) e4
      | _ \<Rightarrow> False)"

lemma newBaseEvent_state:
  "newBaseEvent c u t (Some '''') v w = (Ret ev, w') \<Longrightarrow> default_event t v ev"
  by (drule newBaseEvent_Ret) (simp add: default_event_def)

lemma genesisEvents_Ret:
  assumes "genesisEvents sv c props w = (Ret evs, w')"
  shows "\<exists>more. map ev_Tipo evs = [''m.room.create'', ''m.room.member'', ''m.room.power_levels'', ''m.room.join_rules''] @ more \<and>
    length more \<le> 3 + length (cr_InitialState props) \<and> (\<forall>ev\<in>set evs. genesis_event c (cr_CreatorID props) ev) \<and>
    genesis_start props evs"
proof -
  let ?u = "cr_CreatorID props"
  obtain e1 w1 dn av w2 e2 w3 e3 w4 e4 w5 l1 w6 l2 w7 l3 w8 cs where
    b: "buildCreateEvent c ?u (room_version props) w = (Ret e1, w1)" "buildJoinEvent c ?u dn av w2 = (Ret e2, w3)"
      "buildPowerLevelEvent c ?u w3 = (Ret e3, w4)" "buildJoinRulesEvent c ?u (preset_rule (cr_Preset props)) w4 = (Ret e4, w5)"
    and a1: "appendIf (cr_Name props \<noteq> '''') (buildNameEvent c ?u (cr_Name props)) [e1, e2, e3, e4] w5 = (Ret l1, w6)"
    and a2: "appendIf (cr_Topic props \<noteq> '''') (buildTopicEvent c ?u (cr_Topic props)) l1 w6 = (Ret l2, w7)"
    and a3: "appendIf (cr_Alias props \<noteq> '''') (buildAliasEvent c ?u (full_alias sv props)) l2 w7 = (Ret l3, w8)"
    and i: "buildInitialStateEvents c ?u (cr_InitialState props) w8 = (Ret cs, w')" and e: "evs = l3 @ cs"
    using assms by (simp add: genesisEvents_def Let_def ret_bind_pair ret_bind ret_return) blast
  let ?P = "genesis_event c ?u"
  obtain m1 where m1: "l1 = [e1, e2, e3, e4] @ m1" "\<forall>ev\<in>set m1. ?P ev" "length m1 \<le> 1"
    using appendIf_Ret [OF a1, of ?P] newBaseEvent_genesis unfolding buildNameEvent_def by metis
  obtain m2 where m2: "l2 = l1 @ m2" "\<forall>ev\<in>set m2. ?P ev" "length m2 \<le> 1"
    using appendIf_Ret [OF a2, of ?P] newBaseEvent_genesis unfolding buildTopicEvent_def by metis
  obtain m3 where m3: "l3 = l2 @ m3" "\<forall>ev\<in>set m3. ?P ev" "length m3 \<le> 1"
    using appendIf_Ret [OF a3, of ?P] newBaseEvent_genesis unfolding buildAliasEvent_def by metis
  note cs = buildInitialStateEvents_Ret [OF i]
  have len: "length cs \<le> length (cr_InitialState props)"
    using cs by (metis length_filter_le length_map)
  have four: "?P e1" "ev_Tipo e1 = ''m.room.create''" "?P e2" "ev_Tipo e2 = ''m.room.member''"
    "?P e3" "ev_Tipo e3 = ''m.room.power_levels''" "?P e4" "ev_Tipo e4 = ''m.room.join_rules''"
    using b by (auto simp: build_defs dest!: newBaseEvent_Ret simp: genesis_event_def)
  have "genesis_start props evs"
    using b [unfolded buildCreateEvent_def buildPowerLevelEvent_def buildJoinRulesEvent_def] buildJoinEvent_Ret(1)
    by (simp add: genesis_start_def e m1(1) m2(1) m3(1) default_levels_def newBaseEvent_state)
  then show ?thesis
    by (intro exI [of _ "map ev_Tipo (m1 @ m2 @ m3 @ cs)"])
      (use four m1 m2 m3 conjunct1 [OF cs] len in \<open>auto simp: e\<close>)
qed

lemma genesis_start_cong:
  assumes "list_all2 (\<lambda>a b. ev_CanalID b = ev_CanalID a \<and> ev_Sender b = ev_Sender a \<and>
     ev_Tipo b = ev_Tipo a \<and> ev_StateKey b = ev_StateKey a \<and> ev_Content b = ev_Content a) evs evs'"
    and "genesis_start props evs"
  shows "genesis_start props evs'"
proof -
  obtain e1 e2 e3 e4 es where e: "evs = e1 # e2 # e3 # e4 # es"
    using assms(2) by (auto simp only: genesis_start_def split: list.splits)
  obtain f1 f2 f3 f4 fs where f: "evs' = f1 # f2 # f3 # f4 # fs"
    using assms(1) unfolding e by (auto simp only: list_all2_Cons1)
  show ?thesis using assms by (simp add: e f genesis_start_def default_event_def is_join_def)
qed

subsection \<open>The chain\<close>

definition genesis_chain :: "evento list \<Rightarrow> bool" where
  "genesis_chain evs \<longleftrightarrow> (case evs of [] \<Rightarrow> True
     | e # es \<Rightarrow> ev_PrevEventos e = [] \<and> ev_Depth e = 0 \<and> chained (ev_ID e) 0 es)"

lemma link_rest_fields:
  "link_rest sv g evs = Ret evs' \<Longrightarrow> list_all2 (\<lambda>a b. ev_CanalID b = ev_CanalID a \<and> ev_Sender b = ev_Sender a \<and>
     ev_Tipo b = ev_Tipo a \<and> ev_StateKey b = ev_StateKey a \<and> ev_Content b = ev_Content a) evs evs'"
proof (induction evs arbitrary: g evs')
  case (Cons ev evs)
  then obtain e es where "seal_event sv g (ev\<lparr>ev_PrevEventos := [gs_latestEventID g], ev_Depth := wrap64 (gs_latestDepth g + 1)\<rparr>) = Ret e"
    "link_rest sv (track g e) evs = Ret es" "evs' = e # es"
    by (auto split: outcome.splits)
  with Cons.IH [of "track g e" es] show ?case by (auto dest!: seal_event_Ret)
qed simp

lemma linkAndHashGenesis_Ret:
  assumes "linkAndHashGenesis sv evs = Ret evs'"
  shows "list_all2 (\<lambda>a b. ev_CanalID b = ev_CanalID a \<and> ev_Sender b = ev_Sender a \<and>
     ev_Tipo b = ev_Tipo a \<and> ev_StateKey b = ev_StateKey a \<and> ev_Content b = ev_Content a) evs evs'"
    and "int (length evs) < 2 ^ 63 \<Longrightarrow> genesis_chain evs'"
proof -
  have "list_all2 (\<lambda>a b. ev_CanalID b = ev_CanalID a \<and> ev_Sender b = ev_Sender a \<and>
     ev_Tipo b = ev_Tipo a \<and> ev_StateKey b = ev_StateKey a \<and> ev_Content b = ev_Content a) evs evs' \<and>
     (int (length evs) < 2 ^ 63 \<longrightarrow> genesis_chain evs')"
  proof (cases evs)
    case Nil
    then show ?thesis using assms by (simp add: linkAndHashGenesis_def Let_def genesis_chain_def)
  next
    case (Cons ev es)
    let ?g = "\<lparr>gs_latestDepth = 0, gs_latestEventID = '''', gs_authCache = []\<rparr>"
    obtain e es' where e: "seal_event sv ?g (ev\<lparr>ev_PrevEventos := [], ev_Depth := 0\<rparr>) = Ret e"
      "link_rest sv (track ?g e) es = Ret es'" "evs' = e # es'"
      using assms Cons by (auto simp: linkAndHashGenesis_def Let_def split: outcome.splits)
    note s = seal_event_Ret [OF e(1)]
    have "int (length evs) < 2 ^ 63 \<Longrightarrow> chained (ev_ID e) 0 es'"
      using link_rest_chained [OF e(2)] s Cons by (simp add: track_def)
    then show ?thesis using s link_rest_fields [OF e(2)] by (simp add: Cons e(3) genesis_chain_def)
  qed
  then show "list_all2 (\<lambda>a b. ev_CanalID b = ev_CanalID a \<and> ev_Sender b = ev_Sender a \<and>
     ev_Tipo b = ev_Tipo a \<and> ev_StateKey b = ev_StateKey a \<and> ev_Content b = ev_Content a) evs evs'"
    and "int (length evs) < 2 ^ 63 \<Longrightarrow> genesis_chain evs'" by blast+
qed

subsection \<open>The room\<close>

definition save_genesis :: "string \<Rightarrow> evento \<Rightarrow> room_view \<Rightarrow> room_view" where
  "save_genesis c ev v =
     (case ev_StateKey ev of None \<Rightarrow> put_event ev v | Some k \<Rightarrow> set_state c (ev_Tipo ev) k (ev_ID ev) (put_event ev v))"

lemma saveGenesis_Ret:
  assumes "saveGenesis TxCtx c ev w = (Ret (), w')"
  shows "tx_moves (save_genesis c ev) w w'"
proof (cases "ev_StateKey ev")
  case None
  then show ?thesis
    using assms by (auto simp: saveGenesis_def ret_bind ret_return save_genesis_def tx_moves_def dest!: tx_SaveEvento)
next
  case (Some k)
  then obtain w1 where "SaveEvento TxCtx ev w = (Ret (), w1)"
    "UpsertCurrentState TxCtx c (ev_Tipo ev) k (ev_ID ev) w1 = (Ret (), w')"
    using assms by (auto simp: saveGenesis_def ret_bind)
  from tx_moves_trans [OF tx_SaveEvento [OF this(1)] tx_UpsertCurrentState [OF this(2)]]
  show ?thesis by (auto simp: tx_moves_def save_genesis_def Some)
qed

lemma saveGenesis_all:
  "forM evs (saveGenesis TxCtx c) w = (Ret (), w') \<Longrightarrow> w_tx w = Active d \<Longrightarrow>
     tx_moves (fold (save_genesis c) evs) w w'"
proof (induction evs arbitrary: w d)
  case (Cons ev evs)
  then obtain w1 where s: "saveGenesis TxCtx c ev w = (Ret (), w1)" and r: "forM evs (saveGenesis TxCtx c) w1 = (Ret (), w')"
    by (auto simp: ret_bind)
  note t = saveGenesis_Ret [OF s]
  then obtain d1 where "w_tx w1 = Active d1" by (auto simp: tx_moves_def)
  from tx_moves_trans [OF t Cons.IH [OF r this]] show ?case by (simp add: comp_def)
qed (auto simp: ret_return tx_moves_def)

text \<open>The last event of the chain with a key is the current state under that key.\<close>

definition last_with :: "string \<times> string \<Rightarrow> evento list \<Rightarrow> string option" where
  "last_with tk evs = map_option ev_ID (find (\<lambda>ev. Some (snd tk) = ev_StateKey ev \<and> ev_Tipo ev = fst tk) (rev evs))"

lemma save_genesis_state:
  "v_state (fold (save_genesis c) evs v) (c, t, k) =
     (case last_with (t, k) evs of None \<Rightarrow> v_state v (c, t, k) | Some i \<Rightarrow> Some i)"
proof (induction evs rule: rev_induct)
  case (snoc ev evs)
  then show ?case
    by (cases "ev_StateKey ev") (auto simp: last_with_def save_genesis_def view_ops split: option.splits)
qed (simp add: last_with_def)

lemma save_genesis_other:
  "v_rooms (fold (save_genesis c) evs v) = v_rooms v" "v_heads (fold (save_genesis c) evs v) = v_heads v"
  "v_member (fold (save_genesis c) evs v) = v_member v"
  by (induction evs arbitrary: v) (auto simp: save_genesis_def view_ops split: option.split)

text \<open>An event of the log stays as it is, and each new id gets the first event of the chain with that id.\<close>

lemma save_genesis_log:
  "v_log (fold (save_genesis c) evs v) i =
    (case v_log v i of Some e \<Rightarrow> Some e | None \<Rightarrow> map_option (evento_row 0) (find (\<lambda>ev. ev_ID ev = i) evs))"
proof (induction evs arbitrary: v)
  case (Cons ev evs)
  have "v_log (save_genesis c ev v) = v_log (put_event ev v)"
    by (simp add: save_genesis_def view_ops split: option.split)
  then show ?case by (auto simp: Cons.IH put_event_def split: option.split)
qed (simp split: option.split)

lemma save_genesis_elsewhere:
  "c' \<noteq> c \<Longrightarrow> v_state (fold (save_genesis c) evs v) (c', t, k) = v_state v (c', t, k)"
  by (induction evs arbitrary: v) (auto simp: save_genesis_def view_ops split: option.split)

text \<open>Aliases and account data are outside the part of the view that rooms are made of.\<close>

definition same_rooms :: "room_view \<Rightarrow> room_view \<Rightarrow> bool" where
  "same_rooms v v' \<longleftrightarrow> v' = v\<lparr>v_rest := v_rest v'\<rparr>"

lemma alias_same_rooms:
  assumes "SaveAlias TxCtx c a w = (Ret (), w')" and "w_tx w = Active d"
  shows "\<exists>d'. w_tx w' = Active d' \<and> same_rooms (view_of d) (view_of d') \<and> w_db w' = w_db w"
  using assms
  by (auto simp: SaveAlias_def ret_wrap ret_exec_tx insert_Alias_def same_rooms_def view_of_def canal_ids_def
      sel_Evento_def ticked_def split: if_splits)

lemma direct_same_rooms:
  assumes "catchM (AddDirectMessage TxCtx a b c) w = (Ret r, w')" and "w_tx w = Active d" and "w_tx w' = Active d'"
  shows "same_rooms (view_of d) (view_of d')"
  using assms
  by (auto simp: AddDirectMessage_def run_simps db_exec_def getTxOrPool_def view_def abort_def store_def ticked_def
      insert_AccountData_def same_rooms_def view_of_def canal_ids_def sel_Evento_def split: option.splits if_splits)

lemma Canal_Create_tx:
  assumes "Canal_Create TxCtx c u vs w = (Ret cn, w')" and "w_tx w = Active d"
  shows "tx_moves (add_room c) w w' \<and> c \<notin> canal_ids d"
proof -
  obtain row d' where r: "insert_Canal row d = Inr d'" "cn_id row = c" "w_tx w' = Active d'" "w_db w' = w_db w"
    using assms by (auto simp: Canal_Create_def Let_def ret_simps ret_exec_tx ticked_def)
  have "c \<notin> canal_ids d" using r(1,2) by (auto simp: insert_Canal_def split: if_splits)
  then show ?thesis using view_Canal [OF r(1)] r(2-4) assms(2) by (auto simp: tx_moves_def)
qed

text \<open>The view a committed \<open>createBody\<close> leaves, up to aliases and account data.\<close>

definition create_view :: "string \<Rightarrow> string \<Rightarrow> evento list \<Rightarrow> room_view \<Rightarrow> room_view" where
  "create_view c u evs v =
     set_member c u ''join'' (ev_ID (evs ! 1))
       (advance_heads c (ev_ID (last evs)) (ev_PrevEventos (last evs)) (fold (save_genesis c) evs (add_room c v)))"

lemma createBody_Ret:
  assumes b: "createBody sv c props evs TxCtx w = (Ret (), w')" and tx: "w_tx w = Active d" "w_tx w' = Active d'"
  shows "c \<notin> canal_ids d \<and> same_rooms (create_view c (cr_CreatorID props) evs (view_of d)) (view_of d')"
proof -
  let ?u = "cr_CreatorID props"
  obtain cn w1 w2 w3 w4 w5 where
    s: "Canal_Create TxCtx c ?u (room_version props) w = (Ret cn, w1)"
      "forM evs (saveGenesis TxCtx c) w1 = (Ret (), w2)"
      "UpdateForwardExtremities TxCtx c (ev_ID (last evs)) (ev_PrevEventos (last evs)) w2 = (Ret (), w3)"
      "UpsertMembership TxCtx c ?u ''join'' (ev_ID (evs ! 1)) w3 = (Ret (), w4)"
    and a: "(if full_alias sv props \<noteq> '''' then SaveAlias TxCtx c (full_alias sv props) else returnM ()) w4 = (Ret (), w5)"
    and dm: "(if cr_IsDirect props \<and> 0 < length (cr_Invite props) then
             bindM (catchM (AddDirectMessage TxCtx ?u (cr_Invite props ! 0) c)) (\<lambda>_. returnM ())
           else returnM ()) w5 = (Ret (), w')"
    using b unfolding createBody_def Let_def
    by (simp only: ret_bind [of "Canal_Create c r u v" for c r u v] ret_bind [of "forM xs f" for xs f]
        ret_bind [of "UpdateForwardExtremities c r i p" for c r i p] ret_bind [of "UpsertMembership c r u m i" for c r u m i]
        ret_bind [of "if x then y else z" for x y z] ex_simps old.unit.exhaust) (elim exE conjE, rule that, simp_all)
  note t1 = Canal_Create_tx [OF s(1) tx(1)]
  then obtain d1 where "w_tx w1 = Active d1" by (auto simp: tx_moves_def)
  note t2 = saveGenesis_all [OF s(2) this]
  have t: "tx_moves (set_member c ?u ''join'' (ev_ID (evs ! 1)) \<circ> (advance_heads c (ev_ID (last evs)) (ev_PrevEventos (last evs)) \<circ>
      (fold (save_genesis c) evs \<circ> add_room c))) w w4"
    using t1 t2 tx_UpdateForwardExtremities [OF s(3)] tx_UpsertMembership [OF s(4)] by (blast intro: tx_moves_trans)
  then obtain d4 where d4: "w_tx w4 = Active d4" "view_of d4 = create_view c ?u evs (view_of d)"
    using tx(1) by (auto simp: tx_moves_def create_view_def)
  obtain d5 where d5: "w_tx w5 = Active d5" "same_rooms (view_of d4) (view_of d5)"
    using a d4(1) alias_same_rooms [of c _ w4 w5 d4] by (auto simp: ret_return same_rooms_def split: if_splits)
  have "same_rooms (view_of d5) (view_of d')"
    using dm d5(1) tx(2) direct_same_rooms [of ?u _ c w5 _ w' d5 d']
    by (auto simp: ret_return ret_bind same_rooms_def split: if_splits)
  then have "same_rooms (view_of d4) (view_of d')" using d5(2) by (simp add: same_rooms_def) (metis room_view.surjective room_view.update_convs)
  with d4(2) t1 show ?thesis by simp
qed

text \<open>A room that does not exist has no extremities and no state.\<close>

lemma no_room:
  assumes "db_ok d" and "c \<notin> canal_ids d"
  shows "v_heads (view_of d) c = {}" "v_state (view_of d) (c, t, k) = None"
proof -
  show "v_heads (view_of d) c = {}" using assms by (auto simp: view_of_def db_ok_def)
  have "find (\<lambda>r. state_key_of r = (c, t, k)) (t_Estado d) = None"
    using assms by (auto simp: find_None_iff state_key_of_def db_ok_def)
  then show "v_state (view_of d) (c, t, k) = None" by (simp add: view_of_def)
qed

text \<open>What \<open>CreateRoom\<close> makes of the events it built: the room \<open>c\<close> exists, and nothing else changed.\<close>

definition room_created :: "string \<Rightarrow> string \<Rightarrow> evento list \<Rightarrow> room_view \<Rightarrow> room_view \<Rightarrow> bool" where
  "room_created c u evs v v' \<longleftrightarrow>
     v_rooms v' = insert c (v_rooms v) \<and> c \<notin> v_rooms v \<and>
     v_heads v' = (v_heads v)(c := {ev_ID (last evs)}) \<and>
     v_member v' = (v_member v)((c, u) \<mapsto> (''join'', ev_ID (evs ! 1))) \<and>
     (\<forall>c' t k. v_state v' (c', t, k) = (if c' = c then last_with (t, k) evs else v_state v (c', t, k))) \<and>
     (\<forall>i. v_log v' i = (case v_log v i of
        Some e \<Rightarrow> Some e | None \<Rightarrow> map_option (evento_row 0) (find (\<lambda>ev. ev_ID ev = i) evs)))"

lemma create_view_created:
  assumes "db_ok d" and "c \<notin> canal_ids d" and "same_rooms (create_view c u evs (view_of d)) v'"
  shows "room_created c u evs (view_of d) v'"
proof -
  have v': "v' = (create_view c u evs (view_of d))\<lparr>v_rest := v_rest v'\<rparr>" using assms(3) by (simp add: same_rooms_def)
  have st: "v_state v' (c', t, k) = (if c' = c then last_with (t, k) evs else v_state (view_of d) (c', t, k))" for c' t k
    using save_genesis_state [of c evs "add_room c (view_of d)" t k] no_room(2) [OF assms(1,2)]
      save_genesis_elsewhere [of c' c evs "add_room c (view_of d)" t k]
    by (subst v') (auto simp: create_view_def set_member_def advance_heads_def add_room_def split: option.splits)
  have lg: "v_log v' i = (case v_log (view_of d) i of
      Some e \<Rightarrow> Some e | None \<Rightarrow> map_option (evento_row 0) (find (\<lambda>ev. ev_ID ev = i) evs))" for i
    using save_genesis_log [of c evs "add_room c (view_of d)" i]
    by (subst v') (simp add: create_view_def set_member_def advance_heads_def add_room_def)
  have "v_rooms v' = insert c (v_rooms (view_of d))" "v_heads v' = (v_heads (view_of d))(c := {ev_ID (last evs)})"
    "v_member v' = (v_member (view_of d))((c, u) \<mapsto> (''join'', ev_ID (evs ! 1)))"
    using no_room(1) [OF assms(1,2)]
    by (subst v', simp add: create_view_def set_member_def advance_heads_def save_genesis_other add_room_def)+
  then show ?thesis using st lg assms(2) by (simp add: room_created_def) (simp add: view_of_def)
qed

lemma CreateRoom_Ret:
  assumes "CreateRoom sv props w = (Ret cn, w')" and "db_ok (w_db w)" and "cr_Invite props = []"
  shows "\<exists>evs. room_created (CreateRoomID (w_random w (w_draws w)) (sv_serverName sv)) (cr_CreatorID props) evs
      (view_of (w_db w)) (view_of (w_db w')) \<and> w_tx w' = NoTx \<and>
    (int (length (cr_InitialState props)) < 2 ^ 62 \<longrightarrow> genesis_chain evs) \<and>
    (\<exists>more. map ev_Tipo evs = [''m.room.create'', ''m.room.member'', ''m.room.power_levels'', ''m.room.join_rules''] @ more) \<and>
    (\<forall>ev\<in>set evs. genesis_event (CreateRoomID (w_random w (w_draws w)) (sv_serverName sv)) (cr_CreatorID props) ev) \<and>
    genesis_start props evs"
proof -
  let ?c = "CreateRoomID (w_random w (w_draws w)) (sv_serverName sv)" and ?u = "cr_CreatorID props"
  obtain w1 evs0 w2 evs w3 where r: "randomM w = (Ret (w_random w (w_draws w)), w1)"
    and g: "genesisEvents sv ?c props w1 = (Ret evs0, w2)" and l: "linkAndHashGenesis sv evs0 = Ret evs"
    and x: "Execute (createBody sv ?c props evs) w2 = (Ret (), w3)" and f: "Canal_GetByID Ctx ?c w3 = (Ret cn, w')"
    using assms(1,3) by (auto simp: CreateRoom_def ret_bind ret_random ret_liftO ret_return Let_def)
  have db: "w_db w2 = w_db w" using silent_after(2) [OF silent_random r] silent_after(2) [OF silent_genesisEvents g] by simp
  obtain w4 d where b: "createBody sv ?c props evs TxCtx ((ticked w2)\<lparr>w_tx := Active (w_db w2)\<rparr>) = (Ret (), w4)"
    "w_tx w4 = Active d" "w_db w3 = d" "w_tx w3 = NoTx"
    using x unfolding ret_Execute by auto
  have "w_tx ((ticked w2)\<lparr>w_tx := Active (w_db w2)\<rparr>) = Active (w_db w)" by (simp add: db)
  from createBody_Ret [OF b(1) this b(2)] assms(2)
  have "room_created ?c ?u evs (view_of (w_db w)) (view_of d)" by (blast intro: create_view_created)
  moreover have "w_db w' = d" "w_tx w' = NoTx" using silent_after [OF silent_Canal_GetByID f] b by simp_all
  moreover obtain more where m: "map ev_Tipo evs0 = [''m.room.create'', ''m.room.member'', ''m.room.power_levels'', ''m.room.join_rules''] @ more"
    "length more \<le> 3 + length (cr_InitialState props)" "\<forall>ev\<in>set evs0. genesis_event ?c ?u ev" "genesis_start props evs0"
    using genesisEvents_Ret [OF g] by blast
  note L = linkAndHashGenesis_Ret [OF l]
  have "map ev_Tipo evs = map ev_Tipo evs0"
    using L(1) by (auto simp: list_all2_conv_all_nth intro!: nth_equalityI)
  moreover have "\<forall>ev\<in>set evs. genesis_event ?c ?u ev"
    using L(1) m(3) by (auto simp: genesis_event_def list_all2_conv_all_nth all_set_conv_all_nth)
  moreover have "genesis_chain evs" if "int (length (cr_InitialState props)) < 2 ^ 62"
  proof (rule L(2))
    have "length evs0 = length ([''m.room.create'', ''m.room.member'', ''m.room.power_levels'', ''m.room.join_rules''] @ more)"
      using m(1) by (metis length_map)
    then have "length evs0 = 4 + length more" by simp
    then show "int (length evs0) < 2 ^ 63" using m(2) that by simp
  qed
  moreover have "genesis_start props evs" by (rule genesis_start_cong [OF L(1) m(4)])
  ultimately show ?thesis using m(1) by (intro exI [of _ evs]) auto
qed

end
