(* ===== verification/Graph_Queries.thy ===== *)
theory Graph_Queries
  imports Room_View
begin

text \<open>
  The recursive queries of \<open>Evento_Storage\<close> compute what their SQL says: the auth tree is the
  transitive closure of the references, the walk over predecessors finds exactly the events within
  the distance limit. Then the timeline queries: what a page of messages holds and that forward
  pages fit together.
\<close>

subsection \<open>The auth tree\<close>

definition auth_edge :: "db \<Rightarrow> (string \<times> string) set" where
  "auth_edge d = {(ev_ID e, i) | e i. e \<in> set (t_Evento d) \<and> i \<in> set (ev_AuthEventos e)}"

lemma set_auth_refs: "set (auth_refs d ids) = auth_edge d `` set ids"
  by (auto simp: auth_refs_def auth_edge_def)

lemma auth_walk_spec:
  assumes "set work \<subseteq> set acc" and "auth_edge d `` (set acc - set work) \<subseteq> set acc" and "distinct acc"
  shows "set (auth_walk d acc work) = (auth_edge d)\<^sup>* `` set acc \<and> distinct (auth_walk d acc work)"
  using assms
proof (induction d acc work rule: auth_walk.induct)
  case (1 d acc work)
  let ?new = "filter (\<lambda>i. i \<notin> set acc) (remdups (auth_refs d work))"
  have new: "set ?new = auth_edge d `` set work - set acc" by (auto simp: set_auth_refs)
  show ?case
  proof (cases "?new = []")
    case True
    then have "auth_edge d `` set work \<subseteq> set acc" using new by (metis Diff_eq_empty_iff set_empty)
    then have "auth_edge d `` set acc \<subseteq> set acc" using "1.prems"(2) by blast
    then have "(auth_edge d)\<^sup>* `` set acc = set acc" by (rule Image_closed_trancl)
    then show ?thesis using True "1.prems"(3) by (subst (1 2) auth_walk.simps) (simp add: Let_def)
  next
    case False
    have "auth_edge d `` set acc \<subseteq> set (acc @ ?new)" using "1.prems"(2) new by auto
    then have sub: "auth_edge d `` (set (acc @ ?new) - set ?new) \<subseteq> set (acc @ ?new)" by auto
    have dist: "distinct (acc @ ?new)" using "1.prems"(3) by auto
    have "set (acc @ ?new) \<subseteq> (auth_edge d)\<^sup>* `` set acc" using new "1.prems"(1) by auto
    then have "(auth_edge d)\<^sup>* `` set (acc @ ?new) \<subseteq> (auth_edge d)\<^sup>* `` ((auth_edge d)\<^sup>* `` set acc)"
      by (rule Image_mono [OF subset_refl])
    also have "\<dots> = (auth_edge d)\<^sup>* `` set acc" by (simp flip: relcomp_Image)
    finally have "(auth_edge d)\<^sup>* `` set (acc @ ?new) = (auth_edge d)\<^sup>* `` set acc" by auto
    moreover have "auth_walk d acc work = auth_walk d (acc @ ?new) ?new"
      using False by (subst auth_walk.simps) (simp only: Let_def if_False)
    moreover have "set (auth_walk d (acc @ ?new) ?new) = (auth_edge d)\<^sup>* `` set (acc @ ?new) \<and>
        distinct (auth_walk d (acc @ ?new) ?new)"
      by (rule "1.IH" [OF refl False]) (use sub dist in auto)
    ultimately show ?thesis by simp
  qed
qed

lemma sel_auth_tree_spec:
  "set (sel_auth_tree ids d) = (auth_edge d)\<^sup>+ `` set ids" "distinct (sel_auth_tree ids d)"
proof -
  have "set (sel_auth_tree ids d) = (auth_edge d)\<^sup>* `` (auth_edge d `` set ids) \<and> distinct (sel_auth_tree ids d)"
    using auth_walk_spec [of "remdups (auth_refs d ids)" "remdups (auth_refs d ids)" d]
    by (simp add: sel_auth_tree_def Let_def set_auth_refs)
  moreover have "(auth_edge d)\<^sup>* `` (auth_edge d `` set ids) = (auth_edge d)\<^sup>+ `` set ids"
    by (simp add: trancl_unfold_left relcomp_Image [symmetric] relcomp.simps Image_def) (auto simp: trancl_unfold_left)
  ultimately show "set (sel_auth_tree ids d) = (auth_edge d)\<^sup>+ `` set ids" "distinct (sel_auth_tree ids d)" by auto
qed

subsection \<open>The walk over predecessors\<close>

text \<open>\<open>hops keep limit d start r\<close>: the row \<open>r\<close> is reached from a start row by following predecessors.\<close>

inductive hops :: "(evento \<Rightarrow> bool) \<Rightarrow> int \<Rightarrow> db \<Rightarrow> walk_row set \<Rightarrow> evento \<Rightarrow> int \<Rightarrow> bool"
  for keep :: "evento \<Rightarrow> bool" and limit :: int and d :: db and start :: "walk_row set" where
  hops_start: "(e, k) \<in> start \<Longrightarrow> hops keep limit d start e k"
| hops_prev: "hops keep limit d start ev k \<Longrightarrow> k < limit \<Longrightarrow> e \<in> set (t_Evento d) \<Longrightarrow>
    ev_ID e \<in> set (ev_PrevEventos ev) \<Longrightarrow> keep e \<Longrightarrow> hops keep limit d start e (k + 1)"

lemma set_prev_rows:
  "set (prev_rows keep limit d work) =
     {(e, k + 1) | e k ev. (ev, k) \<in> set work \<and> k < limit \<and> e \<in> set (t_Evento d) \<and> ev_ID e \<in> set (ev_PrevEventos ev) \<and> keep e}"
  by (auto simp: prev_rows_def split: if_splits)

lemma dag_walk_sound:
  "r \<in> set (dag_walk keep limit d n acc work) \<Longrightarrow> set work \<subseteq> set acc \<Longrightarrow>
     (\<And>e k. (e, k) \<in> set acc \<Longrightarrow> hops keep limit d start e k) \<Longrightarrow> hops keep limit d start (fst r) (snd r)"
proof (induction n arbitrary: acc work)
  case (Suc n)
  let ?new = "filter (\<lambda>r. r \<notin> set acc) (remdups (prev_rows keep limit d work))"
  have new: "hops keep limit d start e k" if "(e, k) \<in> set ?new" for e k
    using that Suc.prems(2,3) by (auto simp: set_prev_rows intro: hops_prev)
  show ?case
  proof (cases "?new = []")
    case True
    then show ?thesis using Suc.prems by (auto simp: Let_def)
  next
    case False
    then have "r \<in> set (dag_walk keep limit d n (acc @ ?new) ?new)" using Suc.prems(1) by (simp add: Let_def)
    then show ?thesis by (rule Suc.IH) (use Suc.prems(3) new in auto)
  qed
qed auto

text \<open>Each round handles one distance, so the rounds \<open>limit\<close> allows reach every row.\<close>

lemma dag_walk_complete:
  assumes "\<forall>(e, j)\<in>set acc. j \<le> k" and "set work = {r \<in> set acc. snd r = k}"
    and "\<forall>(ev, j)\<in>set acc - set work. \<forall>e. j < limit \<longrightarrow> e \<in> set (t_Evento d) \<longrightarrow> ev_ID e \<in> set (ev_PrevEventos ev) \<longrightarrow> keep e \<longrightarrow>
        (e, j + 1) \<in> set acc"
    and "limit - k \<le> int n"
  shows "set acc \<subseteq> set (dag_walk keep limit d n acc work) \<and>
    (\<forall>(ev, j)\<in>set (dag_walk keep limit d n acc work). \<forall>e. j < limit \<longrightarrow> e \<in> set (t_Evento d) \<longrightarrow>
        ev_ID e \<in> set (ev_PrevEventos ev) \<longrightarrow> keep e \<longrightarrow> (e, j + 1) \<in> set (dag_walk keep limit d n acc work))"
  using assms
proof (induction n arbitrary: acc work k)
  case 0
  then show ?case by fastforce
next
  case (Suc n)
  let ?new = "filter (\<lambda>r. r \<notin> set acc) (remdups (prev_rows keep limit d work))"
  have new: "set ?new = set (prev_rows keep limit d work) - set acc" by auto
  have lvl: "snd r = k + 1" if "r \<in> set (prev_rows keep limit d work)" for r
    using that Suc.prems(2) by (auto simp: set_prev_rows)
  have closed: "(e, j + 1) \<in> set (acc @ ?new)"
    if "(ev, j) \<in> set acc" "j < limit" "e \<in> set (t_Evento d)" "ev_ID e \<in> set (ev_PrevEventos ev)" "keep e" for ev j e
  proof (cases "(ev, j) \<in> set work")
    case True
    then have "(e, j + 1) \<in> set (prev_rows keep limit d work)" using that by (auto simp: set_prev_rows)
    then show ?thesis by auto
  next
    case False
    then show ?thesis using that Suc.prems(3) by auto
  qed
  show ?case
  proof (cases "?new = []")
    case True
    then have "dag_walk keep limit d (Suc n) acc work = acc" by (simp add: Let_def)
    moreover have "set (acc @ ?new) = set acc" using True by simp
    ultimately show ?thesis using closed by fastforce
  next
    case False
    have eq: "dag_walk keep limit d (Suc n) acc work = dag_walk keep limit d n (acc @ ?new) ?new"
      using False by (simp add: Let_def)
    have "set (acc @ ?new) \<subseteq> set (dag_walk keep limit d n (acc @ ?new) ?new) \<and>
      (\<forall>(ev, j)\<in>set (dag_walk keep limit d n (acc @ ?new) ?new). \<forall>e. j < limit \<longrightarrow> e \<in> set (t_Evento d) \<longrightarrow>
        ev_ID e \<in> set (ev_PrevEventos ev) \<longrightarrow> keep e \<longrightarrow> (e, j + 1) \<in> set (dag_walk keep limit d n (acc @ ?new) ?new))"
    proof (rule Suc.IH [of _ "k + 1"])
      show "\<forall>(e, j)\<in>set (acc @ ?new). j \<le> k + 1" using Suc.prems(1) lvl by fastforce
      show "set ?new = {r \<in> set (acc @ ?new). snd r = k + 1}" using Suc.prems(1) lvl by fastforce
      show "limit - (k + 1) \<le> int n" using Suc.prems(4) by simp
      show "\<forall>(ev, j)\<in>set (acc @ ?new) - set ?new. \<forall>e. j < limit \<longrightarrow> e \<in> set (t_Evento d) \<longrightarrow>
          ev_ID e \<in> set (ev_PrevEventos ev) \<longrightarrow> keep e \<longrightarrow> (e, j + 1) \<in> set (acc @ ?new)"
        using closed by fastforce
    qed
    then show ?thesis unfolding eq by auto
  qed
qed

lemma dag_walk_spec:
  assumes "\<forall>r\<in>set start. snd r = 1"
  shows "(e, k) \<in> set (dag_walk keep limit d (nat limit) start start) \<longleftrightarrow> hops keep limit d (set start) e k"
proof
  assume "(e, k) \<in> set (dag_walk keep limit d (nat limit) start start)"
  then show "hops keep limit d (set start) e k"
    using dag_walk_sound [of "(e, k)" keep limit d "nat limit" start start "set start"] by (auto intro: hops_start)
next
  have p1: "\<forall>(e, j)\<in>set start. j \<le> 1" "set start = {r \<in> set start. snd r = 1}" using assms by auto
  let ?R = "dag_walk keep limit d (nat limit) start start"
  have C: "set start \<subseteq> set ?R \<and> (\<forall>(ev, j)\<in>set ?R. \<forall>e. j < limit \<longrightarrow> e \<in> set (t_Evento d) \<longrightarrow>
        ev_ID e \<in> set (ev_PrevEventos ev) \<longrightarrow> keep e \<longrightarrow> (e, j + 1) \<in> set ?R)"
    by (rule dag_walk_complete [OF p1]) auto
  then have c: "set start \<subseteq> set ?R"
    "\<And>ev j e. (ev, j) \<in> set ?R \<Longrightarrow> j < limit \<Longrightarrow> e \<in> set (t_Evento d) \<Longrightarrow>
        ev_ID e \<in> set (ev_PrevEventos ev) \<Longrightarrow> keep e \<Longrightarrow> (e, j + 1) \<in> set ?R"
    by (simp, blast)
  assume "hops keep limit d (set start) e k"
  then show "(e, k) \<in> set (dag_walk keep limit d (nat limit) start start)"
    by (induction rule: hops.induct) (use c in auto)
qed

lemma start_rows_1: "\<forall>r\<in>set (start_rows c ids d). snd r = 1"
  by (auto simp: start_rows_def)

text \<open>Event \<open>e\<close> is at most \<open>limit\<close> steps before one of the events \<open>ids\<close> of the room.\<close>

definition within :: "(evento \<Rightarrow> bool) \<Rightarrow> int \<Rightarrow> string \<Rightarrow> string list \<Rightarrow> db \<Rightarrow> evento \<Rightarrow> bool" where
  "within keep limit c ids d e \<longleftrightarrow> (\<exists>k. hops keep limit d (set (start_rows c ids d)) e k)"

lemma hops_log: "hops keep limit d (set (start_rows c ids d)) e k \<Longrightarrow> e \<in> set (t_Evento d) \<and> 1 \<le> k \<and> (k \<le> limit \<or> k = 1)"
  by (induction rule: hops.induct) (auto simp: start_rows_def)

lemma set_sel_missing:
  "set (sel_missing c earliest latest limit minDepth d) =
     {e. ev_ID e \<notin> set earliest \<and> within (\<lambda>e. ev_ID e \<notin> set earliest \<and> ev_Depth e \<ge> minDepth) limit c latest d e}"
  using dag_walk_spec [OF start_rows_1, of _ _ "\<lambda>e. ev_ID e \<notin> set earliest \<and> ev_Depth e \<ge> minDepth" limit d c latest]
  by (force simp: sel_missing_def within_def Let_def)

lemma sorted_sel_missing: "sorted (map ev_Depth (sel_missing c earliest latest limit minDepth d))"
  by (simp add: sel_missing_def Let_def)

lemma set_sel_backfill:
  "set (sel_backfill c limit ids d) = {e. within (\<lambda>_. True) limit c ids d e}"
  using dag_walk_spec [OF start_rows_1, of _ _ "\<lambda>_. True" limit d c ids]
  by (force simp: sel_backfill_def within_def Let_def)

lemma limited_Ret:
  assumes "getTxOrPool Ctx (\<lambda>d s. (case limit_offset l 0 (q d) of Inl e \<Rightarrow> Inl e | Inr rows \<Rightarrow> Inr (rows, d), s)) w = (Ret es, w')"
  shows "0 \<le> l \<and> es = take (nat l) (q (w_db w))"
  using assms by (auto simp: ret_stmt view_def limit_offset_def split: if_splits)

lemma GetMissingEvents_Ret:
  "GetMissingEvents c earliest latest limit minDepth w = (Ret es, w') \<Longrightarrow>
     0 \<le> limit \<and> es = take (nat limit) (sel_missing c earliest latest limit minDepth (w_db w))"
  unfolding GetMissingEvents_def ret_wrap by (rule limited_Ret)

lemma GetEventsSince_Ret:
  "GetEventsSince c limit ids w = (Ret es, w') \<Longrightarrow> 0 \<le> limit \<and> es = take (nat limit) (sel_backfill c limit ids (w_db w))"
  unfolding GetEventsSince_def ret_wrap by (rule limited_Ret)

subsection \<open>Timelines\<close>

lemma by_stream_sorted: "sorted (map ev_StreamOrdering es) \<Longrightarrow> by_stream es = es"
  unfolding by_stream_def by (rule sort_key_id_if_sorted)

lemma log_sorted: "sorted_wrt (<) (map ev_StreamOrdering es) \<Longrightarrow> sorted (map ev_StreamOrdering (filter P es))"
  by (induction es) (auto simp: less_imp_le)

text \<open>The timeline of a room in stream order, after a position.\<close>

definition timeline_after :: "string \<Rightarrow> int \<Rightarrow> db \<Rightarrow> evento list" where
  "timeline_after c pos d = filter (\<lambda>e. ev_CanalID e = c \<and> ev_StreamOrdering e > pos) (t_Evento d)"

lemma sel_history_forward:
  assumes "sorted_wrt (<) (map ev_StreamOrdering (t_Evento d))"
  shows "sel_history c pos ''f'' d = timeline_after c pos d"
  using log_sorted [OF assms, of "\<lambda>e. ev_CanalID e = c \<and> ev_StreamOrdering e > pos"]
  by (simp add: sel_history_def timeline_after_def Let_def conj_commute by_stream_sorted)

text \<open>After a page of a strictly sorted list, the elements above its last key are the rest.\<close>

lemma after_last:
  fixes f :: "'a \<Rightarrow> int"
  assumes "sorted_wrt (<) (map f xs)" and "0 < n" and "n \<le> length xs"
  shows "filter (\<lambda>x. f x > f (last (take n xs))) xs = drop n xs"
proof -
  have s: "sorted_wrt (\<lambda>a b. f a < f b) (take n xs @ drop n xs)" using assms(1) by (simp add: sorted_wrt_map)
  have ne: "take n xs \<noteq> []" using assms(2,3) by auto
  let ?l = "last (take n xs)"
  have "f x \<le> f ?l" if x: "x \<in> set (take n xs)" for x
  proof -
    obtain i where i: "i < length (take n xs)" "x = take n xs ! i" using x unfolding in_set_conv_nth by blast
    have "sorted_wrt (\<lambda>a b. f a < f b) (take n xs)" using s by (simp add: sorted_wrt_append)
    then have "i < length (take n xs) - 1 \<Longrightarrow> f (take n xs ! i) < f (take n xs ! (length (take n xs) - 1))"
      using sorted_wrt_nth_less [of "\<lambda>a b. f a < f b" "take n xs" i "length (take n xs) - 1"] i(1) by linarith
    moreover have "i < length (take n xs) - 1 \<or> i = length (take n xs) - 1" using i(1) by linarith
    ultimately show ?thesis unfolding last_conv_nth [OF ne] i(2) by (elim disjE) (simp_all only: less_imp_le order_refl)
  qed
  then have "filter (\<lambda>x. f x > f ?l) (take n xs) = []" unfolding filter_empty_conv not_less by blast
  moreover have "f ?l < f x" if "x \<in> set (drop n xs)" for x
    using s [unfolded sorted_wrt_append] that last_in_set [OF ne] by blast
  then have "filter (\<lambda>x. f x > f ?l) (drop n xs) = drop n xs" by (simp add: filter_id_conv)
  ultimately have "filter (\<lambda>x. f x > f ?l) (take n xs @ drop n xs) = drop n xs" by (simp only: filter_append) simp
  then show ?thesis by simp
qed

lemma timeline_page:
  assumes "sorted_wrt (<) (map ev_StreamOrdering (t_Evento d))" and "0 < n" and "n \<le> length (timeline_after c pos d)"
  shows "timeline_after c (ev_StreamOrdering (last (take n (timeline_after c pos d)))) d = drop n (timeline_after c pos d)"
proof -
  let ?t = "timeline_after c pos d" and ?l = "ev_StreamOrdering (last (take n (timeline_after c pos d)))"
  have s: "sorted_wrt (<) (map ev_StreamOrdering ?t)"
    using assms(1) by (auto simp: timeline_after_def sorted_wrt_map sorted_wrt_filter)
  have ne: "take n ?t \<noteq> []" using assms(2,3) by auto
  have "last (take n ?t) \<in> set ?t" using last_in_set [OF ne] by (rule in_set_takeD)
  then have "?l > pos" by (simp add: timeline_after_def)
  then have "filter (\<lambda>e. ev_StreamOrdering e > ?l) ?t = timeline_after c ?l d"
    unfolding timeline_after_def filter_filter by (intro filter_cong) auto
  with after_last [OF s assms(2,3)] show ?thesis by (simp only:)
qed

lemma GetHistory_Ret:
  "GetRoomMessagesHistory c frm dir l w = (Ret es, w') \<Longrightarrow>
     0 \<le> l \<and> es = map no_refs (take (nat l) (sel_history c frm dir (w_db w)))"
  by (auto simp: GetRoomMessagesHistory_def ret_wrap ret_stmt view_def limit_offset_def split: if_splits)

end
