(* ===== verification/Room_Props.thy ===== *)
theory Room_Props
  imports Examples Genesis_Effects Graph_Queries
begin

text \<open>
  The properties of the room services: creating, joining, leaving, inviting, sending, and the reads.
\<close>

text \<open>C19. \<open>CreateRoom\<close> without invitations, with less than \<open>2 ^ 62\<close> events of initial state. A successful call
  stores a new room whose only forward extremity is the last event of a linear chain of the creator's events:
  the create event, the creator's join, the default power levels, the join rules of the preset, then the rest.
  The creator is joined, the current state of the room is the state of the chain, the events are in the log, and
  the heads, the state and the members of other rooms and the events of the log stay.\<close>

theorem create_room_effect:
  assumes "CreateRoom sv props w = (Ret cn, w')" and "db_ok (w_db w)" and "cr_Invite props = []"
    and "int (length (cr_InitialState props)) < 2 ^ 62"
  shows "\<exists>evs. room_created (CreateRoomID (w_random w (w_draws w)) (sv_serverName sv)) (cr_CreatorID props) evs
      (view_of (w_db w)) (view_of (w_db w')) \<and> genesis_chain evs \<and> genesis_start props evs \<and>
    (\<forall>ev\<in>set evs. genesis_event (CreateRoomID (w_random w (w_draws w)) (sv_serverName sv)) (cr_CreatorID props) ev)"
  using CreateRoom_Ret [OF assms(1-3)] assms(4) by blast

definition sample_room :: "CreateRoomParams" where
  "sample_room = \<lparr>cr_CreatorID = ''@u:a'', cr_Visibility = '''', cr_Alias = ''tea'', cr_Name = ''Tea'', cr_Version = '''',
     cr_Topic = '''', cr_Invite = [], cr_IsDirect = False, cr_InitialState = [], cr_Preset = Some ''public_chat''\<rparr>"

lemma sample_room_created: "works (CreateRoom plain_server sample_room start_world)"
  by code_simp

lemma create_room_effect_witness:
  "\<exists>evs. room_created (CreateRoomID (w_random start_world 0) ''a'') ''@u:a'' evs (view_of empty_db)
     (view_of (w_db (snd (CreateRoom plain_server sample_room start_world)))) \<and> genesis_chain evs"
proof -
  obtain cn where c: "CreateRoom plain_server sample_room start_world = (Ret cn, snd (CreateRoom plain_server sample_room start_world))"
    using run_works [OF sample_room_created] by blast
  have "db_ok (w_db start_world)" by (simp add: start_world_def empty_db_def db_ok_def)
  from create_room_effect [OF c this] show ?thesis
    by (auto simp: sample_room_def plain_server_def start_world_def)
qed

text \<open>C20. \<open>JoinLocalRoom\<close>. A join succeeds only in a public room or on an invitation. It then stores one
  join event of the user, a member event with membership \<open>join\<close> and at most a display name and an avatar, linked
  to all forward extremities and to authorisation events of the current state and with its own hash as id,
  replaces the extremities by it, and makes it the user's membership and member state.\<close>

theorem join_local_effect:
  assumes "JoinLocalRoom sv u c w = (Ret (), w')"
  shows "may_join (w_db w) c u \<and> (\<exists>ev. ev_CanalID ev = c \<and> is_join u ev \<and> ev_ID ev = hashOrEmpty sv (ev\<lparr>ev_ID := ''''\<rparr>) \<and>
    linked (w_db w) ev \<and> view_of (w_db w') = record_member c u ''join'' ev (view_of (w_db w)))"
  using JoinLocalRoom_Ret [OF assms] unfolding own_member_done_def by blast

lemma join_local_effect_witness:
  "may_join room_db ''!r:a'' ''@v:a'' \<and>
    (\<exists>ev. linked room_db ev \<and> view_of (w_db (snd (JoinLocalRoom plain_server ''@v:a'' ''!r:a'' room_world))) =
       record_member ''!r:a'' ''@v:a'' ''join'' ev (view_of room_db))"
proof -
  have "fst (JoinLocalRoom plain_server ''@v:a'' ''!r:a'' room_world) = Ret ()" by code_simp
  from join_local_effect [OF run_Ret [OF this]] show ?thesis by (auto simp: room_world_def)
qed

text \<open>C21. \<open>LeaveRoom\<close>. A user who left or is banned changes nothing; a joined or invited user leaves by one
  linked member event with membership \<open>leave\<close>; nobody else can succeed.\<close>

theorem leave_room_effect:
  assumes "LeaveRoom sv u c w = (Ret (), w')"
  shows "let status = membership_in (view_of (w_db w)) c u in
    if status \<in> {''leave'', ''ban''} then w_db w' = w_db w
    else status \<in> {''join'', ''invite''} \<and> (\<exists>ev. ev_CanalID ev = c \<and> ev_Sender ev = u \<and> ev_StateKey ev = Some u \<and>
      ev_Content ev = Some (JObj [(''membership'', JStr ''leave'')]) \<and>
      linked (w_db w) ev \<and> view_of (w_db w') = record_member c u ''leave'' ev (view_of (w_db w)))"
proof -
  have "marshal_any (JObj [(''membership'', JStr ''leave'')]) = JObj [(''membership'', JStr ''leave'')]" by code_simp
  with LeaveRoom_Ret [OF assms] show ?thesis by (auto simp: own_member_done_def Let_def)
qed

lemma leave_room_effect_witness:
  "\<exists>ev. linked room_db ev \<and> view_of (w_db (snd (LeaveRoom plain_server ''@u:a'' ''!r:a'' room_world))) =
     record_member ''!r:a'' ''@u:a'' ''leave'' ev (view_of room_db)"
proof -
  have "fst (LeaveRoom plain_server ''@u:a'' ''!r:a'' room_world) = Ret ()" by code_simp
  note l = leave_room_effect [OF run_Ret [OF this]]
  have "membership_in (view_of (w_db room_world)) ''!r:a'' ''@u:a'' = ''join''"
    by (simp add: membership_in_def sel_membership_view) code_simp
  with l show ?thesis by (auto simp: room_world_def Let_def)
qed

text \<open>C22. \<open>SendEvent\<close>. Only a joined user sends. The event returned is linked, carries its own hash as id and
  this server's signature, is in the log, and replaces the forward extremities; state and memberships
  stay as they were. The event is at the end of the outbound queue, unless the push to Redis, the last call of
  the request, failed: then the queue stays as it was.\<close>

theorem send_event_effect:
  assumes "SendEvent sv p w = (Ret i, w')"
  shows "membership_in (view_of (w_db w)) (evp_RoomID p) (evp_SenderID p) = ''join'' \<and>
    (\<exists>ev. i = ev_ID ev \<and> linked (w_db w) ev \<and> sealed sv ev \<and> ev_CanalID ev = evp_RoomID p \<and>
      ev_Sender ev = evp_SenderID p \<and> ev_Tipo ev = evp_EventType p \<and> ev_StateKey ev = None \<and>
      ev_Content ev = Some (marshal_any (evp_Content p)) \<and>
      view_of (w_db w') = record_event ev (view_of (w_db w)) \<and>
      w_outbound w' = (if w_fault w (w_calls w' - 1) = None then w_outbound w @ [evento_json ev] else w_outbound w))"
  using SendEvent_Ret [OF assms] unfolding queued_def by (auto split: if_splits)

lemma send_event_effect_witness:
  "\<exists>ev. sealed plain_server ev \<and> ev_Depth ev = 3 \<and>
     w_outbound (snd (SendEvent plain_server sample_event room_world)) = [evento_json ev] \<and>
     view_of (w_db (snd (SendEvent plain_server sample_event room_world))) = record_event ev (view_of room_db)"
proof -
  obtain i where i: "SendEvent plain_server sample_event room_world = (Ret i, snd (SendEvent plain_server sample_event room_world))"
    using run_works [OF sample_event_works] by blast
  have d: "sel_max_depth (sel_Extremidades ''!r:a'' room_db) room_db = 2" by code_simp
  have w: "wrap64 3 = 3" by (simp add: wrap64_id in_int64_def)
  obtain ev where "linked room_db ev" "sealed plain_server ev" "ev_CanalID ev = ''!r:a''"
    "view_of (w_db (snd (SendEvent plain_server sample_event room_world))) = record_event ev (view_of room_db)"
    "w_outbound (snd (SendEvent plain_server sample_event room_world)) = [evento_json ev]"
    using send_event_effect [OF i] by (auto simp: room_world_def sample_event_def start_world_def)
  moreover from this d w have "ev_Depth ev = 3" by (simp add: linked_def)
  ultimately show ?thesis by blast
qed

text \<open>\<open>SendStateEvent\<close>. Only a joined user sends. The linked, hashed and signed event becomes the current
  state under its type and key; a member event with a readable membership also becomes the membership
  of the user it names.\<close>

theorem send_state_effect:
  assumes "SendStateEvent sv p w = (Ret i, w')"
  shows "membership_in (view_of (w_db w)) (sta_RoomID p) (sta_UserID p) = ''join'' \<and>
    (\<exists>ev. i = ev_ID ev \<and> linked (w_db w) ev \<and> sealed sv ev \<and> ev_CanalID ev = sta_RoomID p \<and>
      ev_Sender ev = sta_UserID p \<and> ev_Tipo ev = sta_EventType p \<and> ev_StateKey ev = Some (sta_StateKey p) \<and>
      view_of (w_db w') = (record_state ev \<circ> record_event ev) (view_of (w_db w)))"
  using SendStateEvent_Ret [OF assms] by blast

definition sample_state :: "StateParams" where
  "sample_state = \<lparr>sta_RoomID = ''!r:a'', sta_UserID = ''@u:a'', sta_EventType = ''m.room.name'', sta_StateKey = '''',
     sta_Content = JObj [(''name'', JStr ''Tea'')]\<rparr>"

lemma send_state_effect_witness:
  "\<exists>ev. view_of (w_db (snd (SendStateEvent plain_server sample_state room_world))) =
     (record_state ev \<circ> record_event ev) (view_of room_db)"
proof -
  have "works (SendStateEvent plain_server sample_state room_world)" by code_simp
  then obtain i where i: "SendStateEvent plain_server sample_state room_world = (Ret i, snd (SendStateEvent plain_server sample_state room_world))"
    using run_works by blast
  from send_state_effect [OF i] show ?thesis by (auto simp: room_world_def)
qed

text \<open>C39. Depths grow along the graph: the event stored by a successful \<open>SendEvent\<close> under the id it returns names
  the forward extremities as its predecessors and is strictly deeper than each of them that is stored. This is for
  an id that is not in the log before, and as long as no stored depth is negative or at the top of the \<open>int64\<close> range.\<close>

theorem sent_event_depth:
  assumes "SendEvent sv p w = (Ret i, w')" and "\<forall>e\<in>set (t_Evento (w_db w)). 0 \<le> ev_Depth e \<and> ev_Depth e < 2 ^ 63 - 1"
    and "sel_Evento i (w_db w) = None"
  shows "\<exists>ev. sel_Evento i (w_db w') = Some ev \<and> ev_PrevEventos ev = sel_Extremidades (evp_RoomID p) (w_db w) \<and>
    (\<forall>e\<in>set (t_Evento (w_db w)). ev_ID e \<in> set (ev_PrevEventos ev) \<longrightarrow> ev_Depth e < ev_Depth ev)"
proof -
  obtain ev where ev: "i = ev_ID ev" "linked (w_db w) ev" "ev_CanalID ev = evp_RoomID p"
    "view_of (w_db w') = record_event ev (view_of (w_db w))"
    using SendEvent_Ret [OF assms(1)] by blast
  have "v_log (view_of (w_db w')) i = Some (evento_row 0 ev)"
    using assms(3) by (simp add: ev(4) record_event_def view_ops ev(1)) (simp add: view_of_def)
  then obtain row where row: "sel_Evento i (w_db w') = Some row" "no_ordering row = evento_row 0 ev"
    by (auto simp: view_of_def)
  have b: "0 \<le> sel_max_depth ids (w_db w) \<and> sel_max_depth ids (w_db w) < 2 ^ 63 - 1" for ids
    by (rule sel_max_depth_bounds) (use assms(2) in auto)
  have "\<forall>e\<in>set (t_Evento (w_db w)). ev_ID e \<in> set (ev_PrevEventos ev) \<longrightarrow> ev_Depth e < ev_Depth ev"
    using linked_depth [OF ev(2) conjunct1 [OF b] conjunct2 [OF b]] by blast
  moreover have "ev_PrevEventos row = ev_PrevEventos ev" "ev_Depth row = ev_Depth ev"
    using arg_cong [OF row(2), of ev_PrevEventos] arg_cong [OF row(2), of ev_Depth] by (simp_all add: no_ordering_def)
  moreover have "ev_PrevEventos ev = sel_Extremidades (evp_RoomID p) (w_db w)" using ev(2,3) by (simp add: linked_def)
  ultimately show ?thesis using row(1) by auto
qed

lemma sent_event_depth_witness:
  "\<exists>i ev. sel_Evento i (w_db (snd (SendEvent plain_server sample_event room_world))) = Some ev \<and>
     (\<forall>e\<in>set (t_Evento room_db). ev_ID e \<in> set (sel_Extremidades ''!r:a'' room_db) \<longrightarrow> ev_Depth e < ev_Depth ev)"
proof -
  have "case fst (SendEvent plain_server sample_event room_world) of Ret i \<Rightarrow> sel_Evento i room_db = None | _ \<Rightarrow> False"
    by code_simp
  then obtain i where i: "SendEvent plain_server sample_event room_world = (Ret i, snd (SendEvent plain_server sample_event room_world))"
    and n: "sel_Evento i room_db = None"
    by (cases "SendEvent plain_server sample_event room_world") (auto split: outcome.splits)
  have "\<forall>e\<in>set (t_Evento (w_db room_world)). 0 \<le> ev_Depth e \<and> ev_Depth e < 2 ^ 63 - 1" by code_simp
  from sent_event_depth [OF i this] n obtain ev where
    "sel_Evento i (w_db (snd (SendEvent plain_server sample_event room_world))) = Some ev"
    "ev_PrevEventos ev = sel_Extremidades ''!r:a'' room_db"
    "\<forall>e\<in>set (t_Evento room_db). ev_ID e \<in> set (ev_PrevEventos ev) \<longrightarrow> ev_Depth e < ev_Depth ev"
    by (auto simp: room_world_def sample_event_def)
  then show ?thesis by metis
qed

text \<open>\<open>InviteUser\<close>. An invitation succeeds only from a joined user, for a user who is neither banned nor
  joined, and (when no lookup fails) with the power level the room asks for. The invitee's membership
  becomes \<open>invite\<close>; for a local invitee the stored event is ours, linked and with its own hash as id.\<close>

theorem invite_effect:
  assumes "InviteUser sv c u v reason dm w = (Ret (), w')"
  shows "membership_in (view_of (w_db w)) c u = ''join'' \<and>
    membership_in (view_of (w_db w)) c v \<notin> {''ban'', ''join''} \<and>
    (w_fault w = (\<lambda>_. None) \<longrightarrow> invite_levels_ok (w_db w) c u) \<and>
    (\<exists>ev. view_of (w_db w') = record_member c v ''invite'' ev (view_of (w_db w)) \<and>
       (\<not> IsRemoteUser v (sv_serverName sv) \<longrightarrow> linked (w_db w) ev \<and> ev_CanalID ev = c \<and> ev_Sender ev = u \<and>
          ev_StateKey ev = Some v \<and> HashMatrixEvent (sv_crypto sv) (ev\<lparr>ev_ID := ''''\<rparr>) = Inr (ev_ID ev)))"
  using InviteUser_Ret [OF assms] by blast

text \<open>The genesis chain is linear: each event after the first names the one before it as its only
  predecessor and is one deeper, the first has no predecessor and depth zero, and the chain is the
  given events with only the links, ids and signatures set.\<close>

theorem genesis_chain_linear:
  assumes "linkAndHashGenesis sv evs = Ret evs'" and "int (length evs) < 2 ^ 63"
  shows "genesis_chain evs' \<and> list_all2 (\<lambda>a b. ev_CanalID b = ev_CanalID a \<and> ev_Sender b = ev_Sender a \<and>
     ev_Tipo b = ev_Tipo a \<and> ev_StateKey b = ev_StateKey a \<and> ev_Content b = ev_Content a) evs evs'"
  using linkAndHashGenesis_Ret [OF assms(1)] assms(2) by blast

definition two_events :: "evento list" where
  "two_events =
     [zeroEvento\<lparr>ev_Tipo := ''m.room.create'', ev_StateKey := Some '''', ev_Content := Some (JObj [])\<rparr>,
      zeroEvento\<lparr>ev_Tipo := ''m.room.member'', ev_Sender := ''@u:a'', ev_StateKey := Some ''@u:a'', ev_Content := Some (JObj [])\<rparr>]"

lemma genesis_chain_linear_witness:
  "\<exists>evs'. linkAndHashGenesis plain_server two_events = Ret evs' \<and> genesis_chain evs' \<and> length evs' = 2"
proof -
  have "case linkAndHashGenesis plain_server two_events of Ret _ \<Rightarrow> True | _ \<Rightarrow> False" by code_simp
  then obtain evs' where e: "linkAndHashGenesis plain_server two_events = Ret evs'"
    by (cases "linkAndHashGenesis plain_server two_events") auto
  have l: "length two_events = 2" by (simp add: two_events_def)
  then have "int (length two_events) < 2 ^ 63" by simp
  note g = genesis_chain_linear [OF e this]
  then have "length evs' = 2" using l list_all2_lengthD by fastforce
  with e g show ?thesis by blast
qed

text \<open>The initial state a client passes to \<open>createRoom\<close> never holds an event of a protected type (create,
  member, power levels, join rules, history visibility, name, topic, canonical alias): these are left
  out, all others are kept in order, and every event is sent by the creator in the new room.\<close>

theorem initial_state_protected:
  assumes "buildInitialStateEvents c u raw w = (Ret evs, w')"
  shows "map ev_Tipo evs = filter (\<lambda>t. \<not> isProtectedGenesisEvent t) (map sp_Type raw) \<and>
    (\<forall>ev\<in>set evs. ev_CanalID ev = c \<and> ev_Sender ev = u \<and> ev_StateKey ev \<noteq> None)"
  using buildInitialStateEvents_Ret [OF assms] by (auto simp: genesis_event_def)

definition sample_raw :: "StateEventParams list" where
  "sample_raw = [\<lparr>sp_StateKey = None, sp_Type = ''m.room.power_levels'', sp_Content = JObj []\<rparr>,
     \<lparr>sp_StateKey = None, sp_Type = ''m.room.avatar'', sp_Content = JObj []\<rparr>]"

lemma initial_state_protected_witness:
  "\<exists>evs. fst (buildInitialStateEvents ''!r:a'' ''@u:a'' sample_raw start_world) = Ret evs \<and> map ev_Tipo evs = [''m.room.avatar'']"
proof -
  have "works (buildInitialStateEvents ''!r:a'' ''@u:a'' sample_raw start_world)" by code_simp
  then obtain evs where e: "buildInitialStateEvents ''!r:a'' ''@u:a'' sample_raw start_world =
      (Ret evs, snd (buildInitialStateEvents ''!r:a'' ''@u:a'' sample_raw start_world))" using run_works by blast
  have "filter (\<lambda>t. \<not> isProtectedGenesisEvent t) (map sp_Type sample_raw) = [''m.room.avatar'']" by code_simp
  with initial_state_protected [OF e] e show ?thesis by (metis fst_conv)
qed

text \<open>C40. \<open>GetEvent\<close>, \<open>GetRoomState\<close>, \<open>GetRoomMembers\<close>, \<open>GetJoinedMembers\<close> and \<open>GetMessages\<close> answer only a joined
  user, and \<open>GetStateEventContent\<close> only a user recorded as joined or as having left. \<open>GetEvent\<close> shows the stored
  event and only as part of its own room, \<open>GetStateEventContent\<close> the event of the current state.\<close>

theorem reads_need_membership:
  shows "(\<forall>ev w'. GetEvent u c i w = (Ret ev, w') \<longrightarrow>
      membership_in (view_of (w_db w)) c u = ''join'' \<and> ev_CanalID ev = c \<and> v_log (view_of (w_db w)) i = Some ev) \<and>
    (\<forall>es w'. GetRoomState u c w = (Ret es, w') \<longrightarrow> membership_in (view_of (w_db w)) c u = ''join'') \<and>
    (\<forall>es w'. GetRoomMembers u c f g w = (Ret es, w') \<longrightarrow> membership_in (view_of (w_db w)) c u = ''join'') \<and>
    (\<forall>ms w'. GetJoinedMembers u c w = (Ret ms, w') \<longrightarrow> membership_in (view_of (w_db w)) c u = ''join'') \<and>
    (\<forall>p w'. GetMessages c u frm dir l w = (Ret p, w') \<longrightarrow> membership_in (view_of (w_db w)) c u = ''join'') \<and>
    (\<forall>ev w'. GetStateEventContent c u t k w = (Ret ev, w') \<longrightarrow>
      (\<exists>m s j. m \<in> {''join'', ''leave''} \<and> v_member (view_of (w_db w)) (c, u) = Some (m, j) \<and>
        v_state (view_of (w_db w)) (c, t, k) = Some s \<and> v_log (view_of (w_db w)) s = Some ev))"
proof -
  have g: "ev_CanalID ev = c \<and> v_log (view_of (w_db w)) i = Some ev" if run: "GetEvent u c i w = (Ret ev, w')" for ev w'
  proof -
    obtain w1 where r: "requireStatus [''join''] c u w = (Ret (), w1)" and e: "GetEvento i w1 = (Ret ev, w')" and c: "ev_CanalID ev = c"
      using run by (auto simp: GetEvent_def ret_bind ret_wrap ret_fail ret_return split: if_splits)
    have "w_db w1 = w_db w" by (rule silent_after(2) [OF silent_requireStatus r])
    with e c show ?thesis
      by (auto simp: GetEvento_def ret_simps view_def view_of_def split: option.splits)
  qed
  have "GetEvent u c i w = (Ret ev, w') \<Longrightarrow> membership_in (view_of (w_db w)) c u = ''join''" for ev w'
    by (auto simp: GetEvent_def ret_bind dest!: requireStatus_Ret)
  moreover have "GetRoomState u c w = (Ret es, w') \<Longrightarrow> membership_in (view_of (w_db w)) c u = ''join''" for es w'
    by (auto simp: GetRoomState_def ret_bind dest!: requireStatus_Ret)
  moreover have "GetRoomMembers u c f g w = (Ret es, w') \<Longrightarrow> membership_in (view_of (w_db w)) c u = ''join''" for es w'
    by (auto simp: GetRoomMembers_def ret_bind dest!: requireStatus_Ret)
  moreover have "GetJoinedMembers u c w = (Ret ms, w') \<Longrightarrow> membership_in (view_of (w_db w)) c u = ''join''" for ms w'
    by (auto simp: GetJoinedMembers_def ret_bind dest!: requireStatus_Ret)
  moreover have "GetMessages c u frm dir l w = (Ret p, w') \<Longrightarrow> membership_in (view_of (w_db w)) c u = ''join''" for p w'
    by (auto simp: GetMessages_def ret_bind dest!: requireStatus_Ret)
  ultimately have old: "(\<forall>ev w'. GetEvent u c i w = (Ret ev, w') \<longrightarrow>
      membership_in (view_of (w_db w)) c u = ''join'' \<and> ev_CanalID ev = c \<and> v_log (view_of (w_db w)) i = Some ev) \<and>
    (\<forall>es w'. GetRoomState u c w = (Ret es, w') \<longrightarrow> membership_in (view_of (w_db w)) c u = ''join'') \<and>
    (\<forall>es w'. GetRoomMembers u c f g w = (Ret es, w') \<longrightarrow> membership_in (view_of (w_db w)) c u = ''join'') \<and>
    (\<forall>ms w'. GetJoinedMembers u c w = (Ret ms, w') \<longrightarrow> membership_in (view_of (w_db w)) c u = ''join'') \<and>
    (\<forall>p w'. GetMessages c u frm dir l w = (Ret p, w') \<longrightarrow> membership_in (view_of (w_db w)) c u = ''join'')"
    using g by blast
  have new: "\<forall>ev w'. GetStateEventContent c u t k w = (Ret ev, w') \<longrightarrow>
      (\<exists>m s j. m \<in> {''join'', ''leave''} \<and> v_member (view_of (w_db w)) (c, u) = Some (m, j) \<and>
        v_state (view_of (w_db w)) (c, t, k) = Some s \<and> v_log (view_of (w_db w)) s = Some ev)"
    by (intro allI impI) (rule GetStateEventContent_Ret)
  show ?thesis using old new by - (elim conjE, intro conjI; assumption)
qed

lemma reads_need_membership_witness:
  "\<forall>ev w'. GetEvent ''@v:a'' ''!r:a'' ''$c'' room_world \<noteq> (Ret ev, w')"
proof -
  have "membership_in (view_of (w_db room_world)) ''!r:a'' ''@v:a'' = ''leave''"
    by (simp add: membership_in_def sel_membership_view) code_simp
  with reads_need_membership [of "''@v:a''" "''!r:a''" "''$c''" room_world] show ?thesis by auto
qed

text \<open>C38. Forward pagination: a page holds the next events of the room's timeline in stream order, and the
  page asked for with the \<open>end\<close> token continues exactly after it, without gap or repetition.\<close>

theorem forward_pages:
  assumes "GetMessages c u frm ''f'' l w = (Ret p, w')" and "log_ordered (tables w)"
    and "\<forall>e\<in>set (t_Evento (w_db w)). in_int64 (ev_StreamOrdering e)" and "gm_Chunk p \<noteq> []"
  shows "gm_Chunk p = map no_refs (take (nat l) (timeline_after c (parse_from frm) (w_db w))) \<and>
    timeline_after c (parse_from (gm_End p)) (w_db w) = drop (nat l) (timeline_after c (parse_from frm) (w_db w))"
proof -
  let ?d = "w_db w" and ?t = "timeline_after c (parse_from frm) (w_db w)"
  have s: "sorted_wrt (<) (map ev_StreamOrdering (t_Evento ?d))" using assms(2) by (simp add: log_ordered_def tables_def)
  obtain w1 es where r: "requireStatus [''join''] c u w = (Ret (), w1)"
    and h: "GetRoomMessagesHistory c (parse_from frm) ''f'' l w1 = (Ret es, w')"
    and e: "gm_Chunk p = es" "es \<noteq> [] \<longrightarrow> gm_End p = timeline_token (ev_StreamOrdering (last es))"
    using assms(1) by (auto simp: GetMessages_def ret_bind ret_wrap ret_return Let_def)
  have "w_db w1 = ?d" by (rule silent_after(2) [OF silent_requireStatus r])
  with GetHistory_Ret [OF h] sel_history_forward [OF s] have es: "es = map no_refs (take (nat l) ?t)" by simp
  let ?n = "min (nat l) (length ?t)"
  have n: "take (nat l) ?t = take ?n ?t" "drop (nat l) ?t = drop ?n ?t" by (simp_all add: min_def)
  have ne: "take ?n ?t \<noteq> []" using assms(4) e(1) es n(1) by auto
  then have n0: "0 < ?n" "?n \<le> length ?t" by auto
  have last: "ev_StreamOrdering (last es) = ev_StreamOrdering (last (take ?n ?t))"
    using ne by (simp add: es n(1) last_map no_refs_def)
  have "last (take ?n ?t) \<in> set (t_Evento ?d)"
    using last_in_set [OF ne] by (auto simp: timeline_after_def dest: in_set_takeD)
  then have i: "in_int64 (ev_StreamOrdering (last es))" using assms(3) last by simp
  have "parse_from (timeline_token m) = m" if "in_int64 m" for m
  proof -
    have "token_ok (zeroToken\<lparr>TimelinePosition := m\<rparr>)" using that by (simp add: token_ok_def zeroToken_def in_int64_def)
    then have pt: "TimelinePosition (ParseToken (timeline_token m)) = m"
      by (simp add: timeline_token_def ParseToken_def scanToken_Encode)
    have "timeline_token 0 = ''s0_0_0_0''" by code_simp
    moreover have "ParseInt ''s0_0_0_0'' = None" by code_simp
    ultimately show ?thesis using pt by (cases "m = 0") (simp_all add: parse_from_def Let_def timeline_token_def Encode_def)
  qed
  moreover have "gm_End p = timeline_token (ev_StreamOrdering (last es))" using e assms(4) by simp
  ultimately have "parse_from (gm_End p) = ev_StreamOrdering (last (take ?n ?t))" using i by (simp only: last)
  then show ?thesis using timeline_page [OF s n0] e(1) es n by simp
qed

lemma forward_pages_witness:
  "\<exists>p. fst (GetMessages ''!r:a'' ''@u:a'' '''' ''f'' 2 room_world) = Ret p \<and>
     timeline_after ''!r:a'' (parse_from (gm_End p)) room_db = drop 2 (timeline_after ''!r:a'' 0 room_db)"
proof -
  have "case fst (GetMessages ''!r:a'' ''@u:a'' '''' ''f'' 2 room_world) of Ret p \<Rightarrow> gm_Chunk p \<noteq> [] | _ \<Rightarrow> False" by code_simp
  then obtain p where p: "fst (GetMessages ''!r:a'' ''@u:a'' '''' ''f'' 2 room_world) = Ret p" "gm_Chunk p \<noteq> []"
    by (cases "fst (GetMessages ''!r:a'' ''@u:a'' '''' ''f'' 2 room_world)") auto
  have l: "log_ordered (tables room_world)"
    by (simp add: log_ordered_def tables_def room_world_def room_db_def)
  have o: "\<forall>e\<in>set (t_Evento (w_db room_world)). in_int64 (ev_StreamOrdering e)" by code_simp
  show ?thesis
    using forward_pages [OF run_Ret [OF p(1)] l o p(2)] p(1) by (auto simp: room_world_def parse_from_def)
qed

end
