(* ===== verification/Federation_Effects.thy ===== *)
theory Federation_Effects
  imports Room_Effects
begin

text \<open>
  What the incoming half of federation does to the abstract room of \<open>Room_View\<close>: the join and leave
  handshakes, and an event pushed by another server whose predecessors are known.
\<close>

subsection \<open>Join and leave\<close>

definition record_remote_member :: "string \<Rightarrow> string \<Rightarrow> evento \<Rightarrow> room_view \<Rightarrow> room_view" where
  "record_remote_member m c ev =
     set_member c (ev_Sender ev) m (ev_ID ev) \<circ>
       (set_state c ''m.room.member'' (ev_Sender ev) (ev_ID ev) \<circ> put_event ev)"

lemma memberBody_Ret:
  assumes "memberBody m c ev TxCtx w = (Ret (), w')"
  shows "tx_moves (record_remote_member m c ev) w w'"
proof -
  obtain w1 w2 where "SaveEvento TxCtx ev w = (Ret (), w1)"
    "UpsertCurrentState TxCtx c ''m.room.member'' (ev_Sender ev) (ev_ID ev) w1 = (Ret (), w2)"
    "UpsertMembership TxCtx c (ev_Sender ev) m (ev_ID ev) w2 = (Ret (), w')"
    using assms by (auto simp: memberBody_def ret_bind ret_wrap)
  then show ?thesis
    unfolding record_remote_member_def
    by (blast intro: tx_moves_trans tx_SaveEvento tx_UpsertCurrentState tx_UpsertMembership)
qed

lemma Canal_GetByID_Ret: "Canal_GetByID Ctx c w = (Ret r, w') \<Longrightarrow> r \<noteq> None \<longleftrightarrow> c \<in> v_rooms (view_of (w_db w))"
  by (auto simp: Canal_GetByID_def ret_bind ret_wrap ret_query view_def sel_Canal_def view_of_def canal_ids_def
      find_None_iff find_Some_iff ret_return split: option.splits)

lemma ProcessSendJoin_Ret:
  assumes "ProcessSendJoin c ev w = (Ret res, w')"
  shows "c \<in> v_rooms (view_of (w_db w)) \<and>
    view_of (w_db w') = record_remote_member ''join'' c ev (view_of (w_db w)) \<and> w_tx w' = NoTx \<and>
    sr_StateEvents res = map no_ordering (sel_state_events c (w_db w'))"
proof -
  obtain cn w1 w2 st w3 srv where g: "Canal_GetByID Ctx c w = (Ret cn, w1)" "cn \<noteq> None"
    and x: "Execute (memberBody ''join'' c ev) w1 = (Ret (), w2)"
    and s: "GetCurrentStateEvents c w2 = (Ret st, w3)" and p: "catchM (GetCanalParticipatingServers c) w3 = (Ret srv, w')"
    and r: "sr_StateEvents res = st"
    using assms by (auto simp: ProcessSendJoin_def ret_bind ret_wrap ret_fail ret_return split: if_splits)
  have db: "w_db w1 = w_db w" by (rule silent_after(2) [OF silent_Canal_GetByID g(1)])
  have st: "st = map no_ordering (sel_state_events c (w_db w2))" "w_db w3 = w_db w2" "w_tx w3 = w_tx w2"
    using s by (auto simp: GetCurrentStateEvents_def ret_simps view_def ticked_def)
  note p' = silent_after [OF silent.keeps_catch [OF silent_GetCanalParticipatingServers] p]
  show ?thesis
    using view_Execute [OF x memberBody_Ret] Canal_GetByID_Ret [OF g(1)] g(2) db st p' r by simp
qed

lemma ProcessSendLeave_Ret:
  assumes "ProcessSendLeave c ev w = (Ret (), w')"
  shows "c \<in> v_rooms (view_of (w_db w)) \<and>
    view_of (w_db w') = record_remote_member ''leave'' c ev (view_of (w_db w)) \<and> w_tx w' = NoTx"
proof -
  obtain cn w1 where g: "Canal_GetByID Ctx c w = (Ret cn, w1)" "cn \<noteq> None"
    and x: "Execute (memberBody ''leave'' c ev) w1 = (Ret (), w')"
    using assms by (auto simp: ProcessSendLeave_def ret_bind ret_wrap ret_fail split: if_splits)
  have db: "w_db w1 = w_db w" by (rule silent_after(2) [OF silent_Canal_GetByID g(1)])
  show ?thesis using view_Execute [OF x memberBody_Ret] Canal_GetByID_Ret [OF g(1)] g(2) db by simp
qed

subsection \<open>Events pushed by other servers\<close>

lemma updateRoomState_Ret:
  assumes "updateRoomStateAndMembership TxCtx ev w = (Ret (), w')" and "w_tx w = Active d"
  shows "tx_moves (record_state ev) w w'"
proof (cases "ev_StateKey ev")
  case None
  then show ?thesis
    using assms by (auto simp: updateRoomStateAndMembership_def ret_return tx_moves_def record_state_def)
next
  case (Some k)
  then obtain w1 where s: "UpsertCurrentState TxCtx (ev_CanalID ev) (ev_Tipo ev) k (ev_ID ev) w = (Ret (), w1)"
    and m: "(if ev_Tipo ev = ''m.room.member'' then
              (case membershipOf ev of
                 None \<Rightarrow> returnM ()
               | Some m \<Rightarrow>
                   wrapM ''falha ao atualizar membership'' (UpsertMembership TxCtx (ev_CanalID ev) k m (ev_ID ev)))
            else returnM ()) w1 = (Ret (), w')"
    using assms(1) by (auto simp: updateRoomStateAndMembership_def ret_bind ret_wrap)
  note t = tx_UpsertCurrentState [OF s]
  have "tx_moves (if ev_Tipo ev = ''m.room.member'' then
      (case membershipOf ev of None \<Rightarrow> id | Some m \<Rightarrow> set_member (ev_CanalID ev) k m (ev_ID ev)) else id) w1 w'"
    using m t by (auto simp: ret_return ret_wrap tx_moves_def dest: tx_UpsertMembership split: if_splits option.splits)
  from tx_moves_trans [OF t this] show ?thesis by (simp add: record_state_def Some)
qed

lemma pduBody_Ret:
  assumes "pduBody ev TxCtx w = (Ret (), w')" and "w_tx w = Active d"
  shows "tx_moves (record_state ev \<circ> record_event ev) w w'"
proof -
  obtain w1 w2 where s: "SaveEvento TxCtx ev w = (Ret (), w1)"
    "UpdateForwardExtremities TxCtx (ev_CanalID ev) (ev_ID ev) (ev_PrevEventos ev) w1 = (Ret (), w2)"
    and u: "updateRoomStateAndMembership TxCtx ev w2 = (Ret (), w')"
    using assms(1) by (auto simp: pduBody_def ret_bind ret_wrap)
  have t: "tx_moves (record_event ev) w w2"
    unfolding record_event_def by (blast intro: tx_moves_trans tx_SaveEvento tx_UpdateForwardExtremities s)
  then obtain d2 where "w_tx w2 = Active d2" by (auto simp: tx_moves_def)
  from tx_moves_trans [OF t updateRoomState_Ret [OF u this]] show ?thesis .
qed

lemma checkMissingEvents_Ret:
  "checkMissingEvents ids w = (Ret missing, w') \<Longrightarrow> missing = filter (\<lambda>i. i \<notin> evento_ids (w_db w)) ids"
proof (induction ids arbitrary: w missing)
  case (Cons i ids)
  obtain b w1 ms where c: "CheckEventoExists i w = (Ret b, w1)" and r: "checkMissingEvents ids w1 = (Ret ms, w')"
    and m: "missing = (if b then ms else i # ms)"
    using Cons.prems by (auto simp: ret_bind ret_return)
  have "b \<longleftrightarrow> i \<in> evento_ids (w_db w)" "w_db w1 = w_db w"
    using c by (auto simp: CheckEventoExists_def ret_simps view_def list_ex_iff evento_ids_def ticked_def image_iff)
  with Cons.IH [OF r] m show ?case by auto
qed (simp add: ret_return)

lemma ProcessInboundPDU_Ret:
  assumes "ProcessInboundPDU ro check sv origin pdu w = (Ret (), w')"
    and known: "\<forall>i\<in>set (ev_PrevEventos pdu). i \<in> evento_ids (w_db w)"
  shows "HashMatrixEvent (sv_crypto sv) pdu = Inr (ev_ID pdu) \<and>
    view_of (w_db w') = (record_state pdu \<circ> record_event pdu) (view_of (w_db w)) \<and> w_tx w' = NoTx"
proof -
  obtain w1 ms w2 w3 st w4 deps w5 where h: "pduHashOk sv pdu"
    and f: "spawn (TaskFlush origin) w = (Ret (), w1)" and c: "checkMissingEvents (ev_PrevEventos pdu) w1 = (Ret ms, w2)"
    and i: "(if 0 < length ms then bindM (fetchMissingEvents sv origin (ev_CanalID pdu) ms) (\<lambda>es. forM es (saveHistorical sv))
             else returnM ()) w2 = (Ret (), w3)"
    and s: "resolveStateAtIngestion ro check (ev_CanalID pdu) (ev_PrevEventos pdu) w3 = (Ret st, w4)"
    and r: "ResolveEventDependencies Ctx (ev_CanalID pdu) (ev_Sender pdu) (ev_Tipo pdu) (ev_StateKey pdu) w4 = (Ret deps, w5)"
    and x: "Execute (pduBody pdu) w5 = (Ret (), w')"
  proof (cases "pduHashOk sv pdu")
    case True
    show ?thesis
      using assms(1) True unfolding ProcessInboundPDU_def ret_bind ret_wrap if_False not_True_eq_False
      by (auto simp: ret_bind ret_wrap simp del: split_paired_Ex split_paired_All length_greater_0_conv intro: that)
  qed (use assms(1) in \<open>simp add: ProcessInboundPDU_def ret_fail\<close>)
  have 1: "w_db w1 = w_db w" by (rule silent_after(2) [OF silent_spawn f])
  then have "ms = []" using checkMissingEvents_Ret [OF c] known by auto
  then have "w3 = w2" using i by (simp add: ret_return)
  then have "w_db w5 = w_db w"
    using 1 silent_after(2) [OF silent_checkMissingEvents c] silent_after(2) [OF silent_resolveStateAtIngestion s]
      silent_after(2) [OF silent_ResolveEventDependencies r] by simp
  moreover have "view_of (w_db w') = (record_state pdu \<circ> record_event pdu) (view_of (w_db w5)) \<and> w_tx w' = NoTx"
    by (rule view_Execute [OF x]) (use pduBody_Ret in blast)
  ultimately show ?thesis using h by (simp add: pduHashOk_def)
qed

lemma ProcessInboundPDU_reject:
  "HashMatrixEvent (sv_crypto sv) pdu \<noteq> Inr (ev_ID pdu) \<Longrightarrow>
     ProcessInboundPDU ro check sv origin pdu w = (Fail (Errorf ''evento com ID incorreto''), w)"
  by (simp add: ProcessInboundPDU_def pduHashOk_def run_simps)

end
