(* ===== verification/Delivery.thy ===== *)
theory Delivery
  imports Event_Json Service_Laws
begin

text \<open>
  Delivery of an event to a server: at most five attempts after the name is resolved, and an event
  that no attempt delivers is in the retry list. \<open>net_rel\<close> is what the network half of the code may
  change: the clock and the requests sent. What is kept expires after a week.
\<close>

definition net_rel :: "world \<Rightarrow> world \<Rightarrow> bool" where
  "net_rel w w' \<longleftrightarrow> w_retries w' = w_retries w \<and> w_fault w' = w_fault w \<and> w_http w' = w_http w \<and> w_calls w' = w_calls w \<and>
     w_clock w' = w_clock w \<and> (\<exists>more. w_sent w' = w_sent w @ more)"

interpretation net: effect net_rel
  by unfold_locales (auto simp: net_rel_def)

named_theorems net_intros "a computation that only talks to other servers"
lemmas net_rules [net_intros] = net.keeps_rules

lemma net_now [net_intros]: "keeps net_rel nowM"
  by (simp add: keeps_def net_rel_def nowM_def)

lemma net_http [net_intros]: "keeps net_rel (http_do rq)"
  by (simp add: keeps_def net_rel_def http_do_def split: sum.split)

lemma net_ResolveServerName [net_intros]: "keeps net_rel (ResolveServerName s)"
  unfolding ResolveServerName_def by (intro net_intros)

lemma net_fed_send [net_intros]: "keeps net_rel (fed_send sv m h d u b s)"
  unfolding fed_send_def by (intro net_intros)

lemma net_sendTransaction [net_intros]: "keeps net_rel (sendTransaction sv h d ev)"
  unfolding sendTransaction_def by (intro net_intros)

lemma ResolveServerName_total: "\<exists>h. fst (ResolveServerName s w) = Ret h"
  by (auto simp: ResolveServerName_def run_simps http_do_def split: sum.split option.split prod.split)

lemma ResolveServerName_sent:
  "ResolveServerName s w = (r, w') \<Longrightarrow> length (w_sent w') \<le> Suc (length (w_sent w))"
  by (auto simp: ResolveServerName_def run_simps http_do_def split: sum.splits option.splits prod.splits if_splits)

text \<open>The transaction that carries an event, and the request that sends it to \<open>dest\<close> at \<open>host\<close>.\<close>

definition transaction :: "server \<Rightarrow> evento \<Rightarrow> json" where
  "transaction sv event = JObj [(''origin'', JStr (sv_serverName sv)), (''origin_server_ts'', JNum (ev_OrigemServidorTS event)),
     (''pdus'', JArr [evento_json event])]"

definition carries_event :: "server \<Rightarrow> string \<Rightarrow> string \<Rightarrow> evento \<Rightarrow> http_request \<Rightarrow> bool" where
  "carries_event sv host dest event rq \<longleftrightarrow> rq_method rq = ''PUT'' \<and>
     (\<exists>t uri body. uri = ''/_matrix/federation/v1/send/'' @ string_of_int t \<and> rq_url rq = buildFederationURL host uri \<and>
        CanonicalJSON (sv_crypto sv) (transaction sv event) = Inr body \<and> rq_body rq = Some body \<and>
        GenerateS2SAuthHeader (sv_crypto sv) (sv_serverName sv) (sv_keyID sv) (sv_privateKey sv) ''PUT'' uri dest
          (Some (transaction sv event)) = Inr (rq_auth rq))"

text \<open>Between two worlds such a request was sent and answered with a 2xx status.\<close>

definition accepted :: "world \<Rightarrow> nat \<Rightarrow> http_request \<Rightarrow> bool" where
  "accepted w n rq \<longleftrightarrow>
     (case w_http w n rq of Inl _ \<Rightarrow> False | Inr rs \<Rightarrow> 200 \<le> rs_status rs \<and> rs_status rs < 300)"

definition delivered :: "server \<Rightarrow> string \<Rightarrow> string \<Rightarrow> evento \<Rightarrow> world \<Rightarrow> world \<Rightarrow> bool" where
  "delivered sv host dest event w w' \<longleftrightarrow>
     (\<exists>n < length (w_sent w'). length (w_sent w) \<le> n \<and> carries_event sv host dest event (w_sent w' ! n) \<and>
        accepted w n (w_sent w' ! n))"

text \<open>The event stands at the end of what is still kept for \<open>dest\<close>, for a week from now.\<close>

definition kept :: "string \<Rightarrow> evento \<Rightarrow> world \<Rightarrow> world \<Rightarrow> bool" where
  "kept dest event w w' \<longleftrightarrow>
     retry_entry dest w' = (retry_list dest (w'\<lparr>w_retries := w_retries w\<rparr>) @ [evento_json event],
       Some (w_clock w' (w_ticks w') + week)) \<and>
     (\<forall>s. s \<noteq> dest \<longrightarrow> map_of (w_retries w') s = map_of (w_retries w) s)"

lemma http_do_Ret:
  "http_do rq w = (Ret rs, w') \<Longrightarrow> w_http w (length (w_sent w)) rq = Inr rs \<and> w_sent w' = w_sent w @ [rq]"
  by (auto simp: http_do_def split: sum.splits)

lemma fed_send_Ret:
  assumes "fed_send sv m host d uri body signed w = (Ret rs, w')"
  shows "\<exists>rq. w_sent w' = w_sent w @ [rq] \<and> w_http w (length (w_sent w)) rq = Inr rs \<and> rq_method rq = m \<and> rq_url rq = buildFederationURL host uri \<and>
    GenerateS2SAuthHeader (sv_crypto sv) (sv_serverName sv) (sv_keyID sv) (sv_privateKey sv) m uri d signed = Inr (rq_auth rq) \<and>
    (case body of None \<Rightarrow> rq_body rq = None | Some b \<Rightarrow> \<exists>v. CanonicalJSON (sv_crypto sv) b = Inr v \<and> rq_body rq = Some v)"
proof -
  obtain payload header where
    p: "(case body of None \<Rightarrow> Inr None
         | Some b \<Rightarrow> (case CanonicalJSON (sv_crypto sv) b of
             Inl e \<Rightarrow> Inl (Wrapf ''failed to canonicalize payload'' e) | Inr v \<Rightarrow> Inr (Some v))) = Inr payload"
    and h: "GenerateS2SAuthHeader (sv_crypto sv) (sv_serverName sv) (sv_keyID sv) (sv_privateKey sv) m uri d signed = Inr header"
    and s: "http_do \<lparr>rq_method = m, rq_url = buildFederationURL host uri, rq_auth = header, rq_body = payload\<rparr> w = (Ret rs, w')"
    using assms by (auto simp: fed_send_def ret_bind ret_wrap ret_liftE)
  show ?thesis using http_do_Ret [OF s] p h by (auto split: option.splits sum.splits)
qed

lemma sendTransaction_Ret:
  assumes "sendTransaction sv h d ev w = (Ret (), w')"
  shows "delivered sv h d ev w w'"
proof -
  obtain now w1 rs where n: "nowM w = (Ret now, w1)"
    and f: "fed_send sv ''PUT'' h d (''/_matrix/federation/v1/send/'' @ string_of_int now)
        (Some (transaction sv ev)) (Some (transaction sv ev)) w1 = (Ret rs, w')"
    and s: "200 \<le> rs_status rs" "rs_status rs < 300"
    using assms by (auto simp: sendTransaction_def transaction_def [symmetric] ret_bind ret_fail ret_return Let_def not_less split: if_splits)
  obtain rq where "w_sent w' = w_sent w1 @ [rq]" "w_http w1 (length (w_sent w1)) rq = Inr rs" "carries_event sv h d ev rq"
    using fed_send_Ret [OF f] unfolding carries_event_def option.case by blast
  moreover have "w_sent w1 = w_sent w" "w_http w1 = w_http w" using n by (auto simp: ret_now)
  ultimately show ?thesis
    using s by (auto simp: delivered_def accepted_def intro!: exI [of _ "length (w_sent w)"])
qed

lemma sendTransaction_sent:
  "sendTransaction sv h d ev w = (r, w') \<Longrightarrow> length (w_sent w') \<le> Suc (length (w_sent w))"
  by (auto simp: sendTransaction_def fed_send_def run_simps nowM_def http_do_def Let_def
      split: sum.splits option.splits prod.splits if_splits outcome.splits)

lemma sendTransaction_no_panic: "fst (sendTransaction sv h d ev w) \<noteq> Panic"
  by (auto simp: sendTransaction_def fed_send_def run_simps nowM_def http_do_def Let_def split: sum.split)

lemma delivered_mono: "delivered sv h d ev w1 w' \<Longrightarrow> net_rel w w1 \<Longrightarrow> delivered sv h d ev w w'"
  by (auto simp: delivered_def net_rel_def accepted_def)

lemma storePendingRetry_kept:
  assumes "w_fault w (w_calls w) = None" and "storePendingRetry d ev w = (r, w')"
  shows "r = Ret () \<and> w_sent w' = w_sent w \<and> kept d ev w w'"
proof -
  have "0 < week" by (simp add: week_def)
  moreover have "retry_list d (ticked w\<lparr>w_retries := w_retries w\<rparr>) = retry_list d w"
    by (simp add: retry_list_def retry_entry_def ticked_def split: option.split)
  ultimately show ?thesis
    using assms
    by (auto simp: storePendingRetry_def SavePendingRetry_def run_simps redis_call_def kept_def retry_entry_update
        retry_list_ticked update_conv') (simp_all add: ticked_def)
qed

lemma kept_mono: "kept d ev w1 w' \<Longrightarrow> net_rel w w1 \<Longrightarrow> kept d ev w w'"
  by (simp add: kept_def net_rel_def)

lemma send_attempts_spec:
  assumes "w_fault w = (\<lambda>_. None)" and "send_attempts sv h d ev n w = (r, w')"
  shows "r = Ret () \<and> length (w_sent w') \<le> length (w_sent w) + n \<and>
    (delivered sv h d ev w w' \<and> w_retries w' = w_retries w \<or> kept d ev w w')"
  using assms
proof (induction n arbitrary: w)
  case 0
  then show ?case using storePendingRetry_kept [of w d ev] by simp
next
  case (Suc n)
  obtain x w1 where t: "sendTransaction sv h d ev w = (x, w1)" by fastforce
  have nr: "net_rel w w1" by (rule keepsD [OF net_sendTransaction t])
  have len: "length (w_sent w1) \<le> Suc (length (w_sent w))" by (rule sendTransaction_sent [OF t])
  show ?case
  proof (cases x)
    case (Ret a)
    then have "w' = w1" "r = Ret ()" using Suc.prems(2) t by (auto simp: run_simps)
    then show ?thesis using sendTransaction_Ret [of sv h d ev w w1] t Ret nr len by (auto simp: net_rel_def)
  next
    case (Fail e)
    then have s: "send_attempts sv h d ev n w1 = (r, w')" using Suc.prems(2) t by (auto simp: run_simps)
    have "w_fault w1 = (\<lambda>_. None)" using nr Suc.prems(1) by (simp add: net_rel_def)
    from Suc.IH [OF this s] show ?thesis
      using len nr delivered_mono [OF _ nr, of sv h d ev w'] kept_mono [OF _ nr, of d ev w'] by (auto simp: net_rel_def)
  next
    case Panic
    then show ?thesis using sendTransaction_no_panic [of sv h d ev w] t by simp
  qed
qed

lemma sendWithRetry_spec:
  assumes "w_fault w = (\<lambda>_. None)" and "sendWithRetry sv d ev w = (r, w')"
  shows "\<exists>host w1. ResolveServerName d w = (Ret host, w1) \<and> length (w_sent w1) \<le> Suc (length (w_sent w)) \<and>
    r = Ret () \<and> length (w_sent w') \<le> length (w_sent w1) + 5 \<and>
    (delivered sv host d ev w1 w' \<and> w_retries w' = w_retries w \<or> kept d ev w w')"
proof -
  obtain h w1 where h: "ResolveServerName d w = (Ret h, w1)"
    using ResolveServerName_total [of d w] by (cases "ResolveServerName d w") auto
  then have s: "send_attempts sv h d ev 5 w1 = (r, w')" using assms(2) by (simp add: sendWithRetry_def run_simps)
  have nr: "net_rel w w1" by (rule keepsD [OF net_ResolveServerName h])
  then have "w_fault w1 = (\<lambda>_. None)" using assms(1) by (simp add: net_rel_def)
  from send_attempts_spec [OF this s] show ?thesis
    using nr h ResolveServerName_sent [OF h] kept_mono [OF _ nr, of d ev w'] by (auto simp: net_rel_def)
qed

subsection \<open>Destinations\<close>

lemma extractDestionations_Ret:
  assumes "extractDestionations sv ev w = (Ret ds, w')" and "w_fault w (w_calls w) = None"
  shows "distinct ds \<and> set ds =
    (domain_part ` mb_usuario ` {r \<in> set (t_Membership (w_db w)). mb_canal r = ev_CanalID ev \<and> mb_type r \<in> {''join'', ''invite''}}
       \<union> set (target_domains ev)) - {'''', sv_serverName sv}"
proof -
  obtain r w1 where r: "catchM (GetCanalParticipatingServers (ev_CanalID ev)) w = (Ret r, w1)"
    and ds: "ds = filter (\<lambda>dom. dom \<noteq> '''' \<and> dom \<noteq> sv_serverName sv)
      (remdups ((case r of Inl _ \<Rightarrow> [] | Inr s \<Rightarrow> s) @ target_domains ev))"
    using assms(1) by (auto simp: extractDestionations_def ret_bind ret_return Let_def)
  have "r = Inr (filter (\<lambda>domain. domain \<noteq> '''') (sel_servers (ev_CanalID ev) (w_db w)))"
    using r assms(2)
    by (auto simp: GetCanalParticipatingServers_def run_simps db_query_def getTxOrPool_def view_def)
  then show ?thesis by (auto simp: ds sel_servers_def)
qed

end
