(* ===== verification/Federation_Props.thy ===== *)
theory Federation_Props
  imports Examples Federation_Effects Graph_Queries Delivery
begin

text \<open>
  The properties of federation: events pushed by other servers, the join and leave handshakes, the
  graph queries that answer other servers, and the delivery of our own events.
\<close>

text \<open>An event whose hash is not its id is refused at once: the call fails and nothing at all changes.\<close>

theorem inbound_pdu_bad_hash:
  assumes "HashMatrixEvent (sv_crypto sv) pdu \<noteq> Inr (ev_ID pdu)"
  shows "ProcessInboundPDU ro CheckAuth sv origin pdu w = (Fail (Errorf ''evento com ID incorreto''), w)"
  using assms by (rule ProcessInboundPDU_reject)

definition remote_event :: "evento" where
  "remote_event = zeroEvento\<lparr>ev_Tipo := ''m.room.topic'', ev_CanalID := ''!r:a'', ev_Sender := ''@u:a'', ev_StateKey := Some '''',
     ev_Content := Some (JObj []), ev_PrevEventos := [''$j''], ev_AuthEventos := [''$c'', ''$m''], ev_Depth := 3, ev_OrigemServidorTS := 7\<rparr>"

definition remote_id :: "string" where
  "remote_id = hashOrEmpty plain_server remote_event"

lemma remote_hash: "HashMatrixEvent plain_crypto (remote_event\<lparr>ev_ID := i\<rparr>) = Inr remote_id"
proof -
  have "cr_canon_Marshal plain_crypto v = Inr v" "cr_canon_Unmarshal plain_crypto (JObj ms) = Inr ms" for v ms
    by (simp_all add: plain_crypto_def canon_crypto_def)
  then show ?thesis
    by (simp add: HashMatrixEvent_def CanonicalJSON_def remote_id_def hashOrEmpty_def plain_server_def evento_json_def
        evento_members_def remote_event_def zeroEvento_def map_delete_def omitempty_def)
qed

lemma inbound_pdu_bad_hash_witness:
  "ProcessInboundPDU plain_orders CheckAuth plain_server ''b'' (remote_event\<lparr>ev_ID := ''$forged''\<rparr>) room_world =
     (Fail (Errorf ''evento com ID incorreto''), room_world)"
proof (rule inbound_pdu_bad_hash)
  have "remote_id \<noteq> ''$forged''" by code_simp
  then show "HashMatrixEvent (sv_crypto plain_server) (remote_event\<lparr>ev_ID := ''$forged''\<rparr>) \<noteq> Inr (ev_ID (remote_event\<lparr>ev_ID := ''$forged''\<rparr>))"
    using remote_hash by (simp add: plain_server_def)
qed

text \<open>C34. An event pushed by another server whose predecessors are known: when the call succeeds the event is in
  the log under its hash, its predecessors are no longer extremities, and a state event is the current
  state under its type and key (for members, the membership too).\<close>

theorem inbound_pdu_effect:
  assumes "ProcessInboundPDU ro CheckAuth sv origin pdu w = (Ret (), w')"
    and "\<forall>i\<in>set (ev_PrevEventos pdu). i \<in> evento_ids (w_db w)"
  shows "HashMatrixEvent (sv_crypto sv) pdu = Inr (ev_ID pdu) \<and>
    view_of (w_db w') = (record_state pdu \<circ> record_event pdu) (view_of (w_db w)) \<and> w_tx w' = NoTx"
  using assms by (rule ProcessInboundPDU_Ret)

lemma inbound_pdu_effect_witness:
  "view_of (w_db (snd (ProcessInboundPDU plain_orders CheckAuth plain_server ''b'' (remote_event\<lparr>ev_ID := remote_id\<rparr>) room_world))) =
     (record_state (remote_event\<lparr>ev_ID := remote_id\<rparr>) \<circ> record_event (remote_event\<lparr>ev_ID := remote_id\<rparr>)) (view_of room_db)"
proof -
  have "fst (ProcessInboundPDU plain_orders CheckAuth plain_server ''b'' (remote_event\<lparr>ev_ID := remote_id\<rparr>) room_world) = Ret ()"
    by code_simp
  from inbound_pdu_effect [OF run_Ret [OF this]] show ?thesis
    by (simp add: room_world_def remote_event_def evento_ids_def room_db_def empty_db_def)
qed

text \<open>\<open>send_join\<close>: for a room we have, the join event given is stored, becomes the member state and the
  membership of its sender, and the answer is the current state with it; the forward extremities stay.\<close>

theorem send_join_effect:
  assumes "ProcessSendJoin c ev w = (Ret res, w')"
  shows "c \<in> v_rooms (view_of (w_db w)) \<and>
    view_of (w_db w') = record_remote_member ''join'' c ev (view_of (w_db w)) \<and>
    v_heads (view_of (w_db w')) = v_heads (view_of (w_db w)) \<and>
    sr_StateEvents res = map no_ordering (sel_state_events c (w_db w'))"
proof -
  note r = ProcessSendJoin_Ret [OF assms]
  then have "v_heads (view_of (w_db w')) = v_heads (view_of (w_db w))"
    by (simp add: record_remote_member_def set_member_def set_state_def put_event_def)
  with r show ?thesis by blast
qed

definition remote_join :: "evento" where
  "remote_join = zeroEvento\<lparr>ev_ID := ''$vj'', ev_Tipo := ''m.room.member'', ev_CanalID := ''!r:a'', ev_Sender := ''@v:b'',
     ev_StateKey := Some ''@v:b'', ev_Content := Some (JObj [(''membership'', JStr ''join'')]), ev_PrevEventos := [''$j'']\<rparr>"

lemma send_join_effect_witness:
  "v_member (view_of (w_db (snd (ProcessSendJoin ''!r:a'' remote_join room_world)))) (''!r:a'', ''@v:b'') = Some (''join'', ''$vj'')"
proof -
  have "works (ProcessSendJoin ''!r:a'' remote_join room_world)" by code_simp
  then obtain res where "ProcessSendJoin ''!r:a'' remote_join room_world = (Ret res, snd (ProcessSendJoin ''!r:a'' remote_join room_world))"
    using run_works by blast
  from send_join_effect [OF this] show ?thesis
    by (simp add: record_remote_member_def set_member_def remote_join_def)
qed

text \<open>\<open>send_leave\<close>: the leave event given is stored and becomes the member state and the membership of its
  sender; the forward extremities stay.\<close>

theorem send_leave_effect:
  assumes "ProcessSendLeave c ev w = (Ret (), w')"
  shows "c \<in> v_rooms (view_of (w_db w)) \<and>
    view_of (w_db w') = record_remote_member ''leave'' c ev (view_of (w_db w)) \<and>
    v_heads (view_of (w_db w')) = v_heads (view_of (w_db w))"
proof -
  note r = ProcessSendLeave_Ret [OF assms]
  then have "v_heads (view_of (w_db w')) = v_heads (view_of (w_db w))"
    by (simp add: record_remote_member_def set_member_def set_state_def put_event_def)
  with r show ?thesis by blast
qed

lemma send_leave_effect_witness:
  "v_member (view_of (w_db (snd (ProcessSendLeave ''!r:a'' remote_join room_world)))) (''!r:a'', ''@v:b'') = Some (''leave'', ''$vj'')"
proof -
  have "fst (ProcessSendLeave ''!r:a'' remote_join room_world) = Ret ()" by code_simp
  from send_leave_effect [OF run_Ret [OF this]] show ?thesis
    by (simp add: record_remote_member_def set_member_def remote_join_def)
qed

text \<open>C36. \<open>GetStateAndAuthChainIDs\<close>: the auth chain of an answer is the set of all events reachable through auth
  events from the state events the same answer names, without repetition. Asked for the only forward extremity of
  the room, when that is not a state event, it names the current state.\<close>

theorem auth_chain_closed:
  assumes "GetStateAndAuthChainIDs c i w = (Ret (st, chain), w')"
  shows "set chain = (auth_edge (w_db w))\<^sup>+ `` set st \<and> distinct chain \<and>
    (\<forall>e. sel_Extremidades c (w_db w) = [i] \<longrightarrow> sel_Evento i (w_db w) = Some e \<longrightarrow> ev_StateKey e = None \<longrightarrow>
      set st = ev_ID ` set (sel_state_events c (w_db w)))"
proof -
  obtain w1 where st: "st = map ev_ID (sel_state_events c (w_db w))"
    and r: "chain = (if st = [] then [] else sel_auth_tree st (w_db w))"
    using assms
    by (auto simp: GetStateAndAuthChainIDs_def ret_bind ret_wrap ret_query ret_return view_def ticked_def split: if_splits)
  show ?thesis using sel_auth_tree_spec [of st "w_db w"] by (auto simp: r st)
qed

lemma auth_chain_closed_witness:
  "(auth_edge room_db)\<^sup>+ `` set [''$c'', ''$m'', ''$j''] = {''$c'', ''$m''}"
proof -
  have "fst (GetStateAndAuthChainIDs ''!r:a'' ''$j'' room_world) = Ret ([''$c'', ''$m'', ''$j''], [''$c'', ''$m''])" by code_simp
  note a = auth_chain_closed [OF run_Ret [OF this]]
  have "set [''$c'', ''$m''] = (auth_edge (w_db room_world))\<^sup>+ `` set [''$c'', ''$m'', ''$j'']" using a by blast
  then show ?thesis by (simp add: room_world_def)
qed

text \<open>C37. \<open>get_missing_events\<close>: the answer holds at most \<open>limit\<close> events, in order of depth, none of them among
  the earliest events the asker has, each reached within \<open>limit\<close> steps from a latest event of the room
  through events that are deep enough; and when it is shorter than the limit it has every such event other
  than the latest ones, of which the property says nothing.\<close>

theorem missing_events_correct:
  assumes "HandleGetMissingEvents c earliest latest limit minDepth w = (Ret es, w')"
  defines "ok \<equiv> (\<lambda>e. ev_ID e \<notin> set earliest \<and>
    within (\<lambda>e. ev_ID e \<notin> set earliest \<and> ev_Depth e \<ge> minDepth) limit c latest (w_db w) e)"
  shows "int (length es) \<le> limit \<and> sorted (map ev_Depth es) \<and> (\<forall>e\<in>set es. ok e) \<and>
    (int (length es) < limit \<longrightarrow> (\<forall>e. ok e \<longrightarrow> ev_ID e \<notin> set latest \<longrightarrow> e \<in> set es))"
proof -
  let ?all = "sel_missing c earliest latest limit minDepth (w_db w)"
  have es: "0 \<le> limit" "es = take (nat limit) ?all"
    using GetMissingEvents_Ret assms(1) by (auto simp: HandleGetMissingEvents_def ret_wrap)
  have all: "set ?all = {e. ok e}" by (simp add: set_sel_missing ok_def)
  have "\<forall>e\<in>set es. ok e" using es(2) all by (auto dest: in_set_takeD)
  moreover have "sorted (map ev_Depth es)" unfolding es(2) take_map [symmetric] by (rule sorted_wrt_take) (rule sorted_sel_missing)
  moreover have "set es = {e. ok e}" if "int (length es) < limit"
  proof -
    have "length ?all \<le> nat limit" using that es by auto
    then show ?thesis using es(2) all by simp
  qed
  moreover have "int (length es) \<le> limit" using es by simp
  ultimately show ?thesis by blast
qed

lemma missing_events_correct_witness:
  "\<exists>es. fst (HandleGetMissingEvents ''!r:a'' [''$c''] [''$j''] 3 0 room_world) = Ret es \<and> sorted (map ev_Depth es) \<and> es \<noteq> []"
proof -
  have c: "case fst (HandleGetMissingEvents ''!r:a'' [''$c''] [''$j''] 3 0 room_world) of Ret es \<Rightarrow> length es = 2 | _ \<Rightarrow> False"
    by code_simp
  then obtain es where e: "fst (HandleGetMissingEvents ''!r:a'' [''$c''] [''$j''] 3 0 room_world) = Ret es" "length es = 2"
    by (cases "fst (HandleGetMissingEvents ''!r:a'' [''$c''] [''$j''] 3 0 room_world)") auto
  then have "es \<noteq> []" by auto
  with e missing_events_correct [OF run_Ret [OF e(1)]] show ?thesis by blast
qed

text \<open>\<open>backfill\<close>: every event returned is at most \<open>limit\<close> steps before one of the events asked for, at most
  \<open>limit\<close> rows come back, and when fewer come back nothing in that distance is missing.\<close>

theorem backfill_correct:
  assumes "HandleBackfill sv c ids limit w = (Ret r, w')"
  shows "int (length (bf_PDUs r)) \<le> limit \<and> (\<forall>e\<in>set (bf_PDUs r). within (\<lambda>_. True) limit c ids (w_db w) e) \<and>
    (int (length (bf_PDUs r)) < limit \<longrightarrow> (\<forall>e. within (\<lambda>_. True) limit c ids (w_db w) e \<longrightarrow> e \<in> set (bf_PDUs r)))"
proof -
  let ?all = "sel_backfill c limit ids (w_db w)"
  have es: "0 \<le> limit" "bf_PDUs r = take (nat limit) ?all"
    using GetEventsSince_Ret [of c limit ids w] assms
    by (auto simp: HandleBackfill_def ret_bind ret_wrap ret_return)
  have "\<forall>e\<in>set (bf_PDUs r). within (\<lambda>_. True) limit c ids (w_db w) e"
    using es(2) set_sel_backfill by (auto dest: in_set_takeD)
  moreover have "set (bf_PDUs r) = {e. within (\<lambda>_. True) limit c ids (w_db w) e}" if "int (length (bf_PDUs r)) < limit"
  proof -
    have "length ?all \<le> nat limit" using that es by auto
    then show ?thesis using es(2) by (simp add: set_sel_backfill)
  qed
  moreover have "int (length (bf_PDUs r)) \<le> limit" using es by simp
  ultimately show ?thesis by blast
qed

lemma backfill_correct_witness:
  "\<exists>r. fst (HandleBackfill plain_server ''!r:a'' [''$j''] 4 room_world) = Ret r \<and>
     (\<forall>e. within (\<lambda>_. True) 4 ''!r:a'' [''$j''] room_db e \<longrightarrow> e \<in> set (bf_PDUs r))"
proof -
  have c: "case fst (HandleBackfill plain_server ''!r:a'' [''$j''] 4 room_world) of Ret r \<Rightarrow> length (bf_PDUs r) = 3 | _ \<Rightarrow> False"
    by code_simp
  then obtain r where e: "fst (HandleBackfill plain_server ''!r:a'' [''$j''] 4 room_world) = Ret r" "length (bf_PDUs r) = 3"
    by (cases "fst (HandleBackfill plain_server ''!r:a'' [''$j''] 4 room_world)") auto
  with backfill_correct [OF run_Ret [OF e(1)]] show ?thesis by (auto simp: room_world_def)
qed

subsection \<open>Delivery\<close>

text \<open>C35. An event on its way to another server, when no call to Redis fails: the name of the server is resolved
  once, at most five requests follow, and then either one of them carried the event, as the one event of a
  signed transaction for that server, and was answered with a 2xx status; or the event is at the end of what is
  still kept for the server. What is kept expires a week after the last event was added to it.\<close>

theorem delivered_or_kept:
  assumes "w_fault w = (\<lambda>_. None)" and "sendWithRetry sv d ev w = (r, w')"
  shows "\<exists>host w1. ResolveServerName d w = (Ret host, w1) \<and> length (w_sent w1) \<le> Suc (length (w_sent w)) \<and>
    r = Ret () \<and> length (w_sent w') \<le> length (w_sent w1) + 5 \<and>
    (delivered sv host d ev w1 w' \<and> w_retries w' = w_retries w \<or> kept d ev w w')"
  by (rule sendWithRetry_spec [OF assms])

lemma delivered_or_kept_witness:
  "kept ''b'' remote_event room_world (snd (sendWithRetry plain_server ''b'' remote_event room_world)) \<and>
   (\<exists>host w1. delivered plain_server host ''b'' remote_event w1 (snd (sendWithRetry plain_server ''b'' remote_event online_world)))"
proof
  obtain host w1 where h: "ResolveServerName ''b'' room_world = (Ret host, w1)"
    "delivered plain_server host ''b'' remote_event w1 (snd (sendWithRetry plain_server ''b'' remote_event room_world)) \<or>
     kept ''b'' remote_event room_world (snd (sendWithRetry plain_server ''b'' remote_event room_world))"
    using delivered_or_kept [of room_world plain_server "''b''" remote_event _ "snd (sendWithRetry plain_server ''b'' remote_event room_world)"]
      room_world_fault by (metis prod.collapse)
  have "w_http w1 = w_http room_world" using keepsD [OF net_ResolveServerName h(1)] by (simp add: net_rel_def)
  then have "\<not> delivered plain_server host ''b'' remote_event w1 w'" for w'
    by (simp add: delivered_def accepted_def room_world_def start_world_def)
  with h(2) show "kept ''b'' remote_event room_world (snd (sendWithRetry plain_server ''b'' remote_event room_world))" by blast
next
  have "retry_list ''b'' (snd (sendWithRetry plain_server ''b'' remote_event online_world)) = []" by code_simp
  then have "\<not> kept ''b'' remote_event online_world (snd (sendWithRetry plain_server ''b'' remote_event online_world))"
    by (auto simp: kept_def retry_list_def)
  then show "\<exists>host w1. delivered plain_server host ''b'' remote_event w1 (snd (sendWithRetry plain_server ''b'' remote_event online_world))"
    using delivered_or_kept [of online_world plain_server "''b''" remote_event _ "snd (sendWithRetry plain_server ''b'' remote_event online_world)"]
      room_world_fault by (metis prod.collapse)
qed

text \<open>Waking a server up sends everything that waited for it: each event of the retry list, in order, is
  handed to a sending task as it was stored, and the list is empty afterwards.\<close>

theorem flush_resends_all:
  assumes "w_fault w (w_calls w) = None" and "retry_list d w = map evento_json evs" and "list_all evento_wf evs"
  shows "fst (FlushPendingRetries d w) = Ret () \<and>
    w_tasks (snd (FlushPendingRetries d w)) = w_tasks w @ map (TaskSend d) (map (\<lambda>ev. ev\<lparr>ev_StreamOrdering := 0\<rparr>) evs) \<and>
    retry_list d (snd (FlushPendingRetries d w)) = []"
  using FlushPendingRetries_run [OF assms(1)] decode_all_wf [OF assms(3)] assms(2)
  by (simp add: retry_list_def retry_entry_def delete_conv' ticked_def)

lemma flush_resends_all_witness:
  "w_tasks (snd (FlushPendingRetries ''b'' (start_world\<lparr>w_retries := [(''b'', [evento_json remote_event], None)]\<rparr>))) = [TaskSend ''b'' remote_event]"
proof -
  have w: "list_all evento_wf [remote_event]" by (simp add: evento_wf_def remote_event_def zeroEvento_def in_int64_def)
  have r: "remote_event\<lparr>ev_StreamOrdering := 0\<rparr> = remote_event" by (simp add: remote_event_def zeroEvento_def)
  show ?thesis
    using flush_resends_all [OF _ _ w, of "start_world\<lparr>w_retries := [(''b'', [evento_json remote_event], None)]\<rparr>" "''b''"] r
    by (simp add: start_world_def retry_list_def retry_entry_def)
qed

text \<open>An event goes once to every server with a joined or invited member of its room, and to the server of
  the user an invitation, leave, ban or knock is about; never to this server.\<close>

theorem destinations_correct:
  assumes "extractDestionations sv ev w = (Ret ds, w')" and "w_fault w (w_calls w) = None"
  shows "distinct ds \<and> sv_serverName sv \<notin> set ds \<and> set ds =
    (domain_part ` mb_usuario ` {r \<in> set (t_Membership (w_db w)). mb_canal r = ev_CanalID ev \<and> mb_type r \<in> {''join'', ''invite''}}
       \<union> set (target_domains ev)) - {'''', sv_serverName sv}"
  using extractDestionations_Ret [OF assms] by blast

lemma destinations_correct_witness:
  "\<exists>w'. extractDestionations plain_server (remote_join\<lparr>ev_Content := Some (JObj [(''membership'', JStr ''leave'')])\<rparr>) room_world = (Ret [''b''], w') \<and>
     distinct [''b''] \<and> ''a'' \<notin> set [''b'']"
proof -
  have e: "fst (extractDestionations plain_server (remote_join\<lparr>ev_Content := Some (JObj [(''membership'', JStr ''leave'')])\<rparr>) room_world) = Ret [''b'']"
    by code_simp
  note r = run_Ret [OF e]
  from destinations_correct [OF r] show ?thesis using r by (auto simp: plain_server_def)
qed

text \<open>The outbound queue is first in, first out, and gives an event back as it was pushed.\<close>

theorem outbound_queue_fifo:
  assumes "w_fault w = (\<lambda>_. None)" and "w_outbound w = map evento_json evs" and "list_all evento_wf (evs @ [ev])"
  shows "w_outbound (snd (PushOutboundQueue ev w)) = map evento_json (evs @ [ev]) \<and>
    (case evs @ [ev] of [] \<Rightarrow> False | e # es \<Rightarrow>
       fst (PopOutboundQueue (snd (PushOutboundQueue ev w))) = Ret (Some (e\<lparr>ev_StreamOrdering := 0\<rparr>)) \<and>
       w_outbound (snd (PopOutboundQueue (snd (PushOutboundQueue ev w)))) = map evento_json es)"
proof -
  have push: "PushOutboundQueue ev w = (Ret (), (ticked w)\<lparr>w_outbound := map evento_json (evs @ [ev])\<rparr>)"
    using PushOutboundQueue_Ret [of w ev] assms(1,2) by simp
  obtain e es where e: "evs @ [ev] = e # es" by (cases evs) auto
  let ?w = "(ticked w)\<lparr>w_outbound := map evento_json (evs @ [ev])\<rparr>"
  have "PopOutboundQueue ?w = (Ret (Some (e\<lparr>ev_StreamOrdering := 0\<rparr>)), (ticked ?w)\<lparr>w_outbound := map evento_json es\<rparr>)"
    using assms(1,3) e by (intro PopOutboundQueue_head) (simp_all add: ticked_def)
  then show ?thesis using e by (simp add: push)
qed

lemma outbound_queue_fifo_witness:
  "fst (PopOutboundQueue (snd (PushOutboundQueue remote_event start_world))) = Ret (Some remote_event)"
proof -
  have w: "list_all evento_wf ([] @ [remote_event])" by (simp add: evento_wf_def remote_event_def zeroEvento_def in_int64_def)
  have r: "remote_event\<lparr>ev_StreamOrdering := 0\<rparr> = remote_event" by (simp add: remote_event_def zeroEvento_def)
  show ?thesis using outbound_queue_fifo [OF _ _ w, of start_world] r by (simp add: start_world_def)
qed

end
