(* ===== verification/Clean_Failure.thy ===== *)
theory Clean_Failure
  imports Device_Laws
begin

text \<open>
  Which calls leave the committed database as it was when they fail or panic: everything before the
  unit of work only reads, the unit of work is atomic, and what follows it cannot fail. The fault
  function of the world is arbitrary, so this covers every point at which the database or Redis can
  break.
\<close>

definition clean :: "'a op \<Rightarrow> bool" where
  "clean m \<longleftrightarrow> (\<forall>w r w'. m w = (r, w') \<longrightarrow> w_tx w = NoTx \<longrightarrow> w_tx w' = NoTx \<and> ((\<nexists>a. r = Ret a) \<longrightarrow> w_db w' = w_db w))"

definition safe :: "'a op \<Rightarrow> bool" where
  "safe m \<longleftrightarrow> keeps silent_rel m \<and> (\<forall>w. \<exists>a. fst (m w) = Ret a)"

named_theorems clean_intros "a call that changes nothing when it fails"
named_theorems safe_intros "a silent computation that does not fail"

lemma clean_silent: "keeps silent_rel m \<Longrightarrow> clean m"
  using keepsD [of silent_rel m] by (fastforce simp: clean_def silent_rel_def tables_def)

lemma clean_fail [clean_intros]: "clean (failM e)"
  by (rule clean_silent) (intro silent_intros)

lemma clean_return [clean_intros]: "clean (returnM a)"
  by (rule clean_silent) (intro silent_intros)

lemma clean_if [clean_intros]: "clean a \<Longrightarrow> clean b \<Longrightarrow> clean (if c then a else b)"
  by simp

lemma clean_let [clean_intros]: "(\<And>x. clean (f x)) \<Longrightarrow> clean (Let a f)"
  by simp

lemma clean_prod [clean_intros]: "(\<And>a b. clean (f a b)) \<Longrightarrow> clean (case p of (a, b) \<Rightarrow> f a b)"
  by (cases p) simp

lemma clean_bind_read:
  assumes "keeps silent_rel m" and "\<And>a. clean (f a)"
  shows "clean (bindM m f)"
  unfolding clean_def
proof (intro allI impI)
  fix w :: world and r w'
  assume b: "bindM m f w = (r, w')" and n: "w_tx w = NoTx"
  obtain x w1 where m: "m w = (x, w1)" by fastforce
  have s: "w_db w1 = w_db w" "w_tx w1 = NoTx"
    using keepsD [OF assms(1) m] n by (auto simp: silent_rel_def tables_def)
  show "w_tx w' = NoTx \<and> ((\<nexists>a. r = Ret a) \<longrightarrow> w_db w' = w_db w)"
  proof (cases x)
    case (Ret a)
    with b m have "f a w1 = (r, w')" by (simp add: run_simps)
    with assms(2) [of a] s show ?thesis by (auto simp: clean_def)
  qed (use b m s in \<open>auto simp: run_simps\<close>)
qed

lemma clean_bind_safe:
  assumes "clean m" and "\<And>a. safe (f a)"
  shows "clean (bindM m f)"
  unfolding clean_def
proof (intro allI impI)
  fix w :: world and r w'
  assume b: "bindM m f w = (r, w')" and n: "w_tx w = NoTx"
  obtain x w1 where m: "m w = (x, w1)" by fastforce
  note c = assms(1) [unfolded clean_def, rule_format, OF m n]
  show "w_tx w' = NoTx \<and> ((\<nexists>a. r = Ret a) \<longrightarrow> w_db w' = w_db w)"
  proof (cases x)
    case (Ret a)
    with b m have f: "f a w1 = (r, w')" by (simp add: run_simps)
    then obtain y where "r = Ret y" using assms(2) [of a] unfolding safe_def by (metis fst_conv)
    moreover have "w_tx w' = NoTx"
      using keepsD [of silent_rel "f a" w1 r w'] f assms(2) [of a] c by (auto simp: safe_def silent_rel_def)
    ultimately show ?thesis by blast
  qed (use b m c in \<open>auto simp: run_simps\<close>)
qed

lemma clean_wrap [clean_intros]: "clean m \<Longrightarrow> clean (wrapM s m)"
  by (auto simp: clean_def run_simps split: prod.splits outcome.splits)

lemma clean_Execute [clean_intros]:
  assumes "keeps body_rel (fn TxCtx)"
  shows "clean (Execute fn)"
  unfolding clean_def
proof (intro allI impI)
  fix w :: world and r w'
  assume e: "Execute fn w = (r, w')" and n: "w_tx w = NoTx"
  let ?b = "(ticked w)\<lparr>w_tx := Active (w_db w)\<rparr>"
  obtain x w1 where x: "fn TxCtx ?b = (x, w1)" by fastforce
  have "keeps call_rel (Execute fn)" using assms by (rule call_Execute)
  from keepsD [OF this e] have "w_tx w' = NoTx" using n by (simp add: call_rel_def)
  moreover have "w_db w1 = w_db w" "w_tx w1 \<noteq> NoTx"
    using keepsD [OF assms x] by (auto simp: body_rel_def ticked_def)
  then have "w_db w' = w_db w" if "\<nexists>a. r = Ret a"
    using e x that
    by (auto simp: Execute_def begin_tx_def run_simps commit_tx_def rollback_tx_def ticked_def
        split: option.splits outcome.splits txn.splits)
  ultimately show "w_tx w' = NoTx \<and> ((\<nexists>a. r = Ret a) \<longrightarrow> w_db w' = w_db w)" by blast
qed

lemma safe_return [safe_intros]: "safe (returnM a)"
  by (auto simp: safe_def run_simps intro: silent_intros)

lemma safe_bind [safe_intros]:
  assumes "safe m" and "\<And>a. safe (f a)"
  shows "safe (bindM m f)"
  unfolding safe_def
proof (intro conjI allI)
  show "keeps silent_rel (bindM m f)" using assms by (intro silent_intros) (simp_all add: safe_def)
  fix w
  obtain a where a: "fst (m w) = Ret a" using assms(1) by (auto simp: safe_def)
  then show "\<exists>b. fst (bindM m f w) = Ret b"
    using assms(2) [of a] by (cases "m w") (auto simp: run_simps safe_def)
qed

lemma safe_wake [safe_intros]: "safe (WakeUpUsers u)"
  by (auto simp: safe_def WakeUpUsers_def run_simps intro: silent_wake [unfolded WakeUpUsers_def])

lemma safe_queue [safe_intros]: "safe (catchM (QueueOutgoing ev))"
proof -
  have "\<exists>a. fst (catchM (QueueOutgoing ev) w) = Ret a" for w
    by (auto simp: run_simps QueueOutgoing_def PushOutboundQueue_def redis_call_def split: option.split)
  then show ?thesis by (simp add: safe_def silent_intros silent_ops)
qed

lemmas clean_read [clean_intros] = silent_ops [THEN clean_bind_read]

lemma clean_catch_read [clean_intros]: "keeps silent_rel m \<Longrightarrow> (\<And>a. clean (f a)) \<Longrightarrow> clean (bindM (catchM m) f)"
  by (rule clean_bind_read) (intro silent_intros)

lemma clean_wrap_read [clean_intros]: "keeps silent_rel m \<Longrightarrow> (\<And>a. clean (f a)) \<Longrightarrow> clean (bindM (wrapM s m) f)"
  by (rule clean_bind_read) (intro silent_intros)

text \<open>The calls that end with their unit of work, or with a step that cannot fail after it.\<close>

lemmas clean_rules = clean_read clean_catch_read clean_wrap_read

lemma clean_LeaveRoom: "clean (LeaveRoom sv u c)"
  unfolding LeaveRoom_def
  by (intro clean_rules clean_if clean_return clean_fail clean_prod silent_ops
      clean_bind_safe [OF clean_Execute] body_intros safe_intros)

lemma clean_JoinLocalRoom: "clean (JoinLocalRoom sv u c)"
  unfolding JoinLocalRoom_def
  by (intro clean_rules clean_prod silent_ops clean_bind_safe [OF clean_Execute] body_intros safe_intros)

lemma clean_SendStateEvent: "clean (SendStateEvent sv p)"
  unfolding SendStateEvent_def
  by (intro clean_rules clean_let silent_ops clean_bind_safe [OF clean_wrap [OF clean_Execute]] body_intros safe_intros)

lemma clean_SendEvent: "clean (SendEvent sv p)"
  unfolding SendEvent_def
  by (intro clean_rules clean_let silent_ops clean_bind_safe [OF clean_wrap [OF clean_Execute]] body_intros safe_intros)

lemma clean_bind_liftE [clean_intros]: "(\<And>a. clean (f a)) \<Longrightarrow> clean (bindM (liftE r) f)"
  by (rule clean_bind_read) (intro silent_intros)

lemma clean_InviteUser: "clean (InviteUser sv c u v reason dm)"
proof -
  have i: "keeps silent_rel (if IsRemoteUser v s then remoteInvite sv c v ev else returnM ev)" for s ev
    by (intro silent_intros)
  show ?thesis
    unfolding InviteUser_def
    by (intro clean_rules clean_let clean_prod silent_ops silent.keeps_liftE clean_bind_read [OF i]
        clean_bind_safe [OF clean_Execute] body_intros safe_intros)
qed

lemma clean_JoinRemoteRoom: "clean (JoinRemoteRoom ro check sv u c s)"
  unfolding JoinRemoteRoom_def
  by (intro clean_rules clean_let clean_prod silent_ops silent.keeps_liftE clean_Execute body_intros)

lemma clean_ProcessSendLeave: "clean (ProcessSendLeave c ev)"
  unfolding ProcessSendLeave_def
  by (intro clean_rules clean_if clean_fail silent_ops clean_Execute body_intros)

lemma clean_ProcessInvite: "clean (ProcessInvite c v ev st)"
  unfolding ProcessInvite_def by (intro clean_Execute body_intros)

lemma clean_internal [clean_intros]: "clean m \<Longrightarrow> clean (internalM m)"
  by (auto simp: clean_def run_simps split: prod.splits outcome.splits)

lemma clean_option [clean_intros]: "clean a \<Longrightarrow> (\<And>x. clean (f x)) \<Longrightarrow> clean (case p of None \<Rightarrow> a | Some x \<Rightarrow> f x)"
  by (cases p) simp_all

lemma clean_UploadKeys: "clean (UploadKeys p)"
  unfolding UploadKeys_def by (intro clean_internal clean_Execute body_intros)

lemma clean_PutRoomKeys: "clean (PutRoomKeys p)"
  unfolding PutRoomKeys_def
  by (intro clean_rules clean_option clean_if clean_let clean_fail clean_wrap clean_Execute silent_ops body_intros)

lemma clean_DeleteRoomKeys: "clean (DeleteRoomKeys u v)"
  unfolding DeleteRoomKeys_def
  by (intro clean_rules clean_option clean_if clean_fail clean_wrap clean_Execute silent_ops body_intros)

end
