(* ===== verification/Sync_Facts.thy ===== *)
theory Sync_Facts
  imports Invariants
begin

text \<open>
  Sync reads the rooms at one state of the tables. \<open>reads m f\<close>: when no database call fails, \<open>m\<close>
  returns \<open>f\<close> of the tables of rooms, events and users, and leaves those alone. Each part of a sync is
  such a read; the next token lies at or after every event the sync shows of a joined room, and before
  every event stored later.
\<close>

subsection \<open>Calm computations and reads\<close>

definition calm_rel :: "world \<Rightarrow> world \<Rightarrow> bool" where
  "calm_rel w w' \<longleftrightarrow> room_tables (w_db w') = room_tables (w_db w) \<and> sq_stream (w_seqs w') = sq_stream (w_seqs w) \<and>
     w_fault w' = w_fault w"

interpretation calm: effect calm_rel
  by unfold_locales (auto simp: calm_rel_def)

named_theorems calm_intros "a computation that leaves the tables of rooms alone"
lemmas calm_rules [calm_intros] = calm.keeps_rules

definition reads :: "'a op \<Rightarrow> (db \<Rightarrow> 'a) \<Rightarrow> bool" where
  "reads m f \<longleftrightarrow> keeps calm_rel m \<and> (\<forall>w. w_fault w = (\<lambda>_. None) \<longrightarrow> fst (m w) = Ret (f (room_tables (w_db w))))"

named_theorems reads_intros "a computation that returns a function of the tables of rooms"

lemma readsD:
  "reads m f \<Longrightarrow> w_fault w = (\<lambda>_. None) \<Longrightarrow> m w = (r, w') \<Longrightarrow> r = Ret (f (room_tables (w_db w)))"
  by (metis fst_conv reads_def)

lemma reads_calm: "reads m f \<Longrightarrow> keeps calm_rel m"
  by (simp add: reads_def)

lemma reads_return [reads_intros]: "reads (returnM a) (\<lambda>_. a)"
  by (simp add: reads_def run_simps calm.keeps_return)

lemma reads_bind [reads_intros]:
  assumes "reads m f" and "\<And>a. reads (k a) (g a)"
  shows "reads (bindM m k) (\<lambda>d. g (f d) d)"
  unfolding reads_def
proof (intro conjI allI impI)
  show "keeps calm_rel (bindM m k)" using assms by (intro calm_intros) (simp_all add: reads_def)
  fix w :: world
  assume w: "w_fault w = (\<lambda>_. None)"
  obtain r w1 where m: "m w = (r, w1)" by fastforce
  have "calm_rel w w1" using keepsD [of calm_rel m w r w1] m assms(1) by (simp add: reads_def)
  then have "w_fault w1 = (\<lambda>_. None)" "room_tables (w_db w1) = room_tables (w_db w)"
    using w by (simp_all add: calm_rel_def)
  moreover have "r = Ret (f (room_tables (w_db w)))" using assms(1) w m by (rule readsD)
  ultimately show "fst (bindM m k w) = Ret (g (f (room_tables (w_db w))) (room_tables (w_db w)))"
    using assms(2) [of "f (room_tables (w_db w))"] by (auto simp: run_simps m reads_def)
qed

lemma reads_wrap [reads_intros]: "reads m f \<Longrightarrow> reads (wrapM s m) f"
  by (auto simp: reads_def calm.keeps_wrap run_simps split: prod.splits outcome.splits)

lemma reads_catch [reads_intros]: "reads m f \<Longrightarrow> reads (catchM m) (\<lambda>d. Inr (f d))"
  by (auto simp: reads_def calm.keeps_catch run_simps split: prod.splits outcome.splits)

lemma reads_foldM:
  assumes "\<And>x s. reads (f x s) (g x s)"
  shows "reads (foldM f xs s) (\<lambda>d. fold (\<lambda>x s. g x s d) xs s)"
proof (induction xs arbitrary: s)
  case (Cons x xs)
  show ?case using reads_bind [OF assms Cons] by simp
qed (simp add: reads_return)

lemma reads_if [reads_intros]: "reads a f \<Longrightarrow> reads b g \<Longrightarrow> reads (if c then a else b) (\<lambda>d. if c then f d else g d)"
  by simp

lemma calm_stmt:
  assumes "\<And>d s r s'. q d s = (r, s') \<Longrightarrow> sq_stream s' = sq_stream s"
    and "\<And>d s a d' s'. q d s = (Inr (a, d'), s') \<Longrightarrow> room_tables d' = room_tables d"
  shows "keeps calm_rel (getTxOrPool Ctx q)"
proof (rule keepsI)
  fix w :: world
  obtain r s' where q: "q (w_db w) (w_seqs w) = (r, s')" by fastforce
  show "calm_rel w (snd (getTxOrPool Ctx q w))"
    using assms(1) [OF q] assms(2) [of "w_db w" "w_seqs w"] q
    by (auto simp: getTxOrPool_def calm_rel_def ticked_def abort_def view_def store_def
        split: option.split sum.split prod.split)
qed

lemma calm_query [calm_intros]: "keeps calm_rel (db_query Ctx q)"
  unfolding db_query_def by (rule calm_stmt) auto

lemma calm_query_uuid [calm_intros]: "keeps calm_rel (db_query_uuid Ctx dev q)"
  unfolding db_query_uuid_def db_returning_def by (rule calm_stmt) (auto split: option.splits)

lemma reads_query:
  assumes "\<And>d. q (room_tables d) = q d"
  shows "reads (db_query Ctx q) q"
proof -
  have "fst (db_query Ctx q w) = Ret (q (room_tables (w_db w)))" if "w_fault w = (\<lambda>_. None)" for w
    using that assms by (simp add: db_query_def getTxOrPool_def view_def)
  then show ?thesis by (simp add: reads_def calm_query)
qed

lemma room_tables_sel [simp]:
  "t_Evento (room_tables d) = t_Evento d" "t_Canal (room_tables d) = t_Canal d"
  "t_Estado (room_tables d) = t_Estado d" "t_Membership (room_tables d) = t_Membership d"
  "t_AccountData (room_tables d) = t_AccountData d"
  by (simp_all add: room_tables_def)

lemma sel_room_tables [simp]:
  "sel_membership r u (room_tables d) = sel_membership r u d" "sel_Evento i (room_tables d) = sel_Evento i d"
  "sel_since u n (room_tables d) = sel_since u n d" "sel_canal_since u r n (room_tables d) = sel_canal_since u r n d"
  "sel_max_ordering (room_tables d) = sel_max_ordering d" "sel_state_events r (room_tables d) = sel_state_events r d"
  by (simp_all add: sel_membership_def sel_Evento_def sel_since_def sel_canal_since_def sel_max_ordering_def sel_state_events_def sel_Estado_def)

subsection \<open>The parts of a sync\<close>

lemma reads_cong: "reads m f \<Longrightarrow> (\<And>d. f d = g d) \<Longrightarrow> reads m g"
  by (metis ext)

lemma reads_GetEventsOfCanalSince [reads_intros]:
  "reads (GetEventsOfCanalSince u r since) (sel_canal_since u r (TimelinePosition since))"
  unfolding GetEventsOfCanalSince_def by (intro reads_intros reads_query) simp

lemma reads_GetCurrentStateEvents [reads_intros]:
  "reads (GetCurrentStateEvents r) (\<lambda>d. map no_ordering (sel_state_events r d))"
  unfolding GetCurrentStateEvents_def by (intro reads_intros reads_query) simp

lemma reads_GetAccountDataOfCanal [reads_intros]:
  "reads (GetAccountDataOfCanal Ctx u r)
     (\<lambda>d. map account_of_row (filter (\<lambda>x. ac_usuario x = u \<and> ac_canal x = r) (t_AccountData d)))"
  unfolding GetAccountDataOfCanal_def by (intro reads_intros reads_query) simp

lemma reads_GetUserJoinedRooms [reads_intros]:
  "reads (GetUserJoinedRooms u) (\<lambda>d. map mb_canal (filter (\<lambda>r. mb_usuario r = u \<and> mb_type r = ''join'') (t_Membership d)))"
  unfolding GetUserJoinedRooms_def by (intro reads_intros reads_query) simp

definition joined_rooms :: "string \<Rightarrow> db \<Rightarrow> string list" where
  "joined_rooms u d = map mb_canal (filter (\<lambda>r. mb_usuario r = u \<and> mb_type r = ''join'') (t_Membership d))"

text \<open>What a sync shows of one room, as a function of the tables.\<close>

definition room_state :: "string \<Rightarrow> bool \<Rightarrow> evento list \<Rightarrow> db \<Rightarrow> EventoWithoutCanalID list" where
  "room_state c first events d =
     (if first then map state_event (map no_ordering (sel_state_events c d))
      else map state_event (filter (\<lambda>e. ev_StateKey e \<noteq> None) events))"

definition room_sync :: "string \<Rightarrow> SyncToken \<Rightarrow> string \<Rightarrow> db \<Rightarrow> JoinedRoom option" where
  "room_sync u since c d =
     (let events = sel_canal_since u c (TimelinePosition since) d;
          st = room_state c (TimelinePosition since = 0) events d;
          acc = map account_of_row (filter (\<lambda>x. ac_usuario x = u \<and> ac_canal x = c) (t_AccountData d))
      in if TimelinePosition since \<noteq> 0 \<and> length events = 0 \<and> length st = 0 \<and> length acc = 0 then None
         else Some \<lparr>jr_AccountData = acc, jr_State = st, jr_Timeline = mkTimeline u since events\<rparr>)"

lemma reads_syncState [reads_intros]: "reads (syncState c first events) (room_state c first events)"
  unfolding syncState_def room_state_def by (intro reads_intros)

lemma reads_joinedRoom [reads_intros]: "reads (joinedRoom u since c) (room_sync u since c)"
  unfolding joinedRoom_def Let_def
  by (rule reads_cong, (rule reads_intros)+) (simp add: room_sync_def Let_def)

lemma reads_joinedStep:
  "reads (joinedStep u since c m) (\<lambda>d. case room_sync u since c d of Some room \<Rightarrow> AList.update c room m | None \<Rightarrow> m)"
  unfolding joinedStep_def by (rule reads_cong, (rule reads_intros)+) simp

text \<open>The map of joined rooms has the value of \<open>room_sync\<close> for every room joined.\<close>

lemma fold_update_map_of:
  "map_of (fold (\<lambda>c m. case g c of Some v \<Rightarrow> AList.update c v m | None \<Rightarrow> m) cs m) c =
     (if c \<in> set cs \<and> g c \<noteq> None then g c else map_of m c)"
  by (induction cs arbitrary: m) (auto simp: update_conv' split: option.split)

definition joined_map :: "string \<Rightarrow> SyncToken \<Rightarrow> db \<Rightarrow> (string \<times> JoinedRoom) list option" where
  "joined_map u since d =
     Some (fold (\<lambda>c m. case room_sync u since c d of Some v \<Rightarrow> AList.update c v m | None \<Rightarrow> m) (joined_rooms u d) [])"

lemma reads_Sync_GetJoinedRooms [reads_intros]: "reads (Sync_GetJoinedRooms u since) (joined_map u since)"
proof -
  have "reads (case r of Inl x \<Rightarrow> returnM None | Inr rooms \<Rightarrow> bindM (foldM (joinedStep u since) rooms []) (\<lambda>m. returnM (Some m)))
     (\<lambda>d. case r of Inl x \<Rightarrow> None | Inr rooms \<Rightarrow>
        Some (fold (\<lambda>c m. case room_sync u since c d of Some v \<Rightarrow> AList.update c v m | None \<Rightarrow> m) rooms []))" for r :: "go_error + string list"
    by (cases r) (auto intro: reads_return reads_bind [OF reads_foldM [OF reads_joinedStep] reads_return])
  from reads_bind [OF reads_catch [OF reads_GetUserJoinedRooms] this] show ?thesis
    unfolding Sync_GetJoinedRooms_def by (rule reads_cong) (simp add: joined_map_def joined_rooms_def)
qed

text \<open>The timeline of a room in an answer.\<close>

definition timeline_of :: "string \<Rightarrow> SyncClientResponse \<Rightarrow> EventoWithoutCanalID list" where
  "timeline_of c r = (case rs_Join (sy_Rooms r) of
       None \<Rightarrow> []
     | Some m \<Rightarrow> (case map_of m c of None \<Rightarrow> [] | Some room \<Rightarrow> tl_Events (jr_Timeline room)))"

lemma timeline_joined_map:
  assumes "rs_Join (sy_Rooms r) = joined_map u since d" and "c \<in> set (joined_rooms u d)"
  shows "timeline_of c r = map (timeline_event u) (sel_canal_since u c (TimelinePosition since) d)"
  using assms by (auto simp: timeline_of_def joined_map_def fold_update_map_of room_sync_def Let_def mkTimeline_def)

subsection \<open>The next token\<close>

definition next_position :: "string \<Rightarrow> int \<Rightarrow> db \<Rightarrow> int" where
  "next_position u pos d = (case sel_since u pos d of
       [] \<Rightarrow> max pos (sel_max_ordering d)
     | e # es \<Rightarrow> ev_StreamOrdering (last (e # es)))"

lemma reads_generateNextSinceToken [reads_intros]:
  "reads (generateNextSinceToken u since)
     (\<lambda>d. since\<lparr>TimelinePosition := next_position u (TimelinePosition since) d\<rparr>)"
proof -
  have s: "reads (GetSince u since) (sel_since u (TimelinePosition since))"
    unfolding GetSince_def by (intro reads_intros reads_query) simp
  have m: "reads GetMaxStreamOrdering sel_max_ordering"
    unfolding GetMaxStreamOrdering_def by (intro reads_intros reads_query) simp
  show ?thesis unfolding generateNextSinceToken_def
    by (rule reads_cong, (rule reads_intros s m)+)
      (auto simp: next_position_def GenerateNextSinceToken_def max_def split: list.split)
qed

subsection \<open>One poll\<close>

lemma calm_stripState [calm_intros]: "keeps calm_rel (stripState r t st)"
  unfolding stripState_def GetStateEventID_def GetEvento_def by (intro calm_intros)

lemma calm_GetInviteRooms [calm_intros]: "keeps calm_rel (GetInviteRooms u since)"
  unfolding GetInviteRooms_def GetInviteEventsSince_def inviteStep_def invitePreview_def by (intro calm_intros)

lemma calm_GetLeaveRooms [calm_intros]: "keeps calm_rel (GetLeaveRooms u since)"
  unfolding GetLeaveRooms_def GetUserLeftRooms_def leftStep_def leftRoom_def GetEventsOfCanalSinceLeft_def
  by (intro calm_intros reads_calm [OF reads_syncState])

lemma delete_ToDevice_rooms: "delete_ToDevice u v n d = Inr d' \<Longrightarrow> room_tables d' = room_tables d"
  by (auto simp: delete_ToDevice_def room_tables_def split: option.splits)

lemma calm_getToDeviceSync [calm_intros]: "keeps calm_rel (getToDeviceSync u v since)"
proof -
  have "keeps calm_rel (db_exec Ctx (delete_ToDevice u v n))" for n
    unfolding db_exec_def by (rule calm_stmt) (auto split: sum.splits simp: delete_ToDevice_rooms)
  then show ?thesis
    unfolding getToDeviceSync_def DeleteToDeviceMessagesUpTo_def GetToDeviceMessagesSince_def by (intro calm_intros)
qed

lemma calm_Sync_rest [calm_intros]: "keeps calm_rel (GetGlobalAccountData Ctx u)" "keeps calm_rel (CountOneTimeKeys Ctx v)"
  unfolding GetGlobalAccountData_def CountOneTimeKeys_def by (intro calm_intros)+

text \<open>None of these parts fails when no database call does.\<close>

definition succeeds :: "'a op \<Rightarrow> bool" where
  "succeeds m \<longleftrightarrow> keeps calm_rel m \<and> (\<forall>w. w_fault w = (\<lambda>_. None) \<longrightarrow> (\<exists>a. fst (m w) = Ret a))"

lemma succeeds_reads: "reads m f \<Longrightarrow> succeeds m"
  by (auto simp: succeeds_def reads_def)

lemma succeeds_return: "succeeds (returnM a)"
  by (rule succeeds_reads, rule reads_return)

lemma succeeds_bind:
  assumes "succeeds m" and "\<And>a. succeeds (k a)"
  shows "succeeds (bindM m k)"
  unfolding succeeds_def
proof (intro conjI allI impI)
  show "keeps calm_rel (bindM m k)" using assms by (intro calm_intros) (simp_all add: succeeds_def)
  fix w :: world
  assume w: "w_fault w = (\<lambda>_. None)"
  obtain r w1 where m: "m w = (r, w1)" by fastforce
  have "w_fault w1 = (\<lambda>_. None)" using keepsD [of calm_rel m w r w1] m assms(1) w by (simp add: succeeds_def calm_rel_def)
  moreover obtain a where "r = Ret a" using assms(1) w m by (auto simp: succeeds_def)
  ultimately show "\<exists>b. fst (bindM m k w) = Ret b" using assms(2) [of a] m by (auto simp: run_simps succeeds_def)
qed

definition no_panic :: "'a op \<Rightarrow> bool" where
  "no_panic m \<longleftrightarrow> (\<forall>w. fst (m w) \<noteq> Panic)"

lemma no_panic_return: "no_panic (returnM a)"
  by (simp add: no_panic_def run_simps)

lemma no_panic_fail: "no_panic (failM e)"
  by (simp add: no_panic_def run_simps)

lemma no_panic_wrap: "no_panic m \<Longrightarrow> no_panic (wrapM s m)"
  by (auto simp: no_panic_def run_simps split: prod.splits outcome.splits) (metis fst_conv)

lemma no_panic_bind:
  assumes "no_panic m" and "\<And>a. no_panic (f a)"
  shows "no_panic (bindM m f)"
  unfolding no_panic_def
proof
  fix w
  show "fst (bindM m f w) \<noteq> Panic"
    using assms unfolding no_panic_def by (cases "m w"; cases "fst (m w)") (auto simp: run_simps, metis fst_conv)
qed

lemma no_panic_stmt: "no_panic (getTxOrPool Ctx q)"
  by (auto simp: no_panic_def getTxOrPool_def view_def split: option.split sum.split prod.split)

lemma no_panic_ops: "no_panic (db_query Ctx q)" "no_panic (db_query_uuid Ctx i p)" "no_panic (db_exec Ctx f)"
  unfolding db_query_def db_query_uuid_def db_returning_def db_exec_def by (rule no_panic_stmt)+

lemmas no_panic_intros = no_panic_return no_panic_fail no_panic_wrap no_panic_bind no_panic_ops

lemma succeeds_catch:
  assumes "keeps calm_rel m" and "no_panic m"
  shows "succeeds (catchM m)"
proof -
  have "\<exists>a. fst (catchM m w) = Ret a" for w
    using assms(2) [unfolded no_panic_def, rule_format, of w] by (cases "m w"; cases "fst (m w)") (auto simp: run_simps)
  then show ?thesis using assms(1) by (simp add: succeeds_def calm.keeps_catch)
qed

lemma succeeds_foldM: "(\<And>x s. succeeds (f x s)) \<Longrightarrow> succeeds (foldM f xs s)"
  by (induction xs arbitrary: s) (auto intro: succeeds_return succeeds_bind)

lemma succeeds_stripState: "succeeds (stripState r t st)"
proof -
  have "succeeds (GetStateEventID r t '''')"
    unfolding GetStateEventID_def by (intro succeeds_bind succeeds_catch succeeds_return calm_query no_panic_ops)
  moreover have "no_panic (GetEvento i)" for i
    unfolding GetEvento_def by (intro no_panic_bind no_panic_wrap no_panic_ops) (auto intro: no_panic_intros split: option.split)
  then have "succeeds (catchM (GetEvento i))" for i
    by (intro succeeds_catch) (auto simp: GetEvento_def intro: calm_intros)
  ultimately show ?thesis unfolding stripState_def
    by (intro succeeds_bind) (auto intro!: succeeds_bind succeeds_return)
qed

lemma succeeds_GetInviteRooms: "succeeds (GetInviteRooms u since)"
proof -
  have "fst (db_query Ctx q w) = Ret (q (w_db w))" if "w_fault w = (\<lambda>_. None)" for w and q :: "db \<Rightarrow> evento list"
    using that by (simp add: db_query_def getTxOrPool_def view_def)
  then have "succeeds (GetInviteEventsSince Ctx u since)"
    unfolding GetInviteEventsSince_def
    by (auto simp: succeeds_def calm_query calm.keeps_wrap run_simps split: prod.splits outcome.splits) (metis fst_conv outcome.distinct)+
  then show ?thesis
    unfolding GetInviteRooms_def inviteStep_def Let_def
    by (intro succeeds_bind succeeds_foldM succeeds_return)
      (auto simp: invitePreview_def simp del: foldM.simps
        intro!: succeeds_return succeeds_foldM succeeds_stripState split: option.split)
qed

text \<open>A poll that does not wait shows the joined rooms at one state of the tables, and the token is read at the same one.\<close>

lemma SyncClient_no_wait: "n \<le> 0 \<Longrightarrow> SyncClient wait u v since n = SyncClient (\<lambda>_. returnM ()) u v since n"
  by (simp add: SyncClient_def)

text \<open>Where the parts of a successful poll see the rooms: at the tables it started with.\<close>

definition same_rooms :: "world \<Rightarrow> world \<Rightarrow> bool" where
  "same_rooms w w' \<longleftrightarrow> w_fault w = (\<lambda>_. None) \<and> calm_rel w w'"

lemma same_rooms_step: "same_rooms w w1 \<Longrightarrow> keeps calm_rel m \<Longrightarrow> m w1 = (r, w2) \<Longrightarrow> same_rooms w w2"
  using keepsD [of calm_rel m w1 r w2] by (auto simp: same_rooms_def intro: calm.R_trans)

lemma same_rooms_reads: "same_rooms w w1 \<Longrightarrow> reads m f \<Longrightarrow> m w1 = (r, w2) \<Longrightarrow> r = Ret (f (room_tables (w_db w)))"
  using readsD [of m f w1 r w2] by (simp add: same_rooms_def calm_rel_def)

lemma Sync_GetEventsSince_joined:
  assumes "w_fault w = (\<lambda>_. None)" and "Sync_GetEventsSince u v since w = (Ret r, w')"
  shows "rs_Join (sy_Rooms r) = joined_map u since (room_tables (w_db w))" and "same_rooms w w'"
proof -
  obtain ac w1 iv w2 jm w3 where
    g: "GetGlobalAccountData Ctx u w = (Ret ac, w1)" and i: "GetInviteRooms u since w1 = (Ret iv, w2)"
    and j: "Sync_GetJoinedRooms u since w2 = (Ret jm, w3)" and r: "rs_Join (sy_Rooms r) = jm"
    using assms(2) by (auto simp: Sync_GetEventsSince_def ret_bind ret_return split: prod.splits sum.splits if_splits)
  have "same_rooms w w" using assms(1) by (simp add: same_rooms_def calm.R_refl)
  from same_rooms_step [OF same_rooms_step [OF this calm_Sync_rest(1) g] calm_GetInviteRooms i]
  have "same_rooms w w2" .
  from same_rooms_reads [OF this reads_Sync_GetJoinedRooms j] r
  show "rs_Join (sy_Rooms r) = joined_map u since (room_tables (w_db w))" by simp
  have "keeps calm_rel (Sync_GetEventsSince u v since)"
    unfolding Sync_GetEventsSince_def by (intro calm_intros reads_calm [OF reads_Sync_GetJoinedRooms])
  from same_rooms_step [OF \<open>same_rooms w w\<close> this assms(2)] show "same_rooms w w'" .
qed

lemma Sync_GetEventsSince_succeeds: "succeeds (Sync_GetEventsSince u v since)"
proof -
  have "succeeds (GetGlobalAccountData Ctx u)"
    unfolding GetGlobalAccountData_def by (intro succeeds_reads [OF reads_wrap [OF reads_query]]) simp
  moreover have "succeeds (GetLeaveRooms u since)"
  proof -
    have "keeps calm_rel (leftRoom u since c)" "no_panic (leftRoom u since c)" for c
      unfolding leftRoom_def GetEventsOfCanalSinceLeft_def syncState_def GetCurrentStateEvents_def Let_def
      by (intro calm_intros) (auto intro!: no_panic_intros)
    then have "succeeds (leftStep u since c m)" for c m
      unfolding leftStep_def by (intro succeeds_bind succeeds_catch succeeds_return)
    moreover have "succeeds (catchM (GetUserLeftRooms u))"
      unfolding GetUserLeftRooms_def by (intro succeeds_catch calm_intros no_panic_intros)
    ultimately show ?thesis unfolding GetLeaveRooms_def
      by (intro succeeds_bind) (auto intro!: succeeds_bind succeeds_foldM succeeds_return split: sum.split)
  qed
  moreover have "no_panic (getToDeviceSync u v since)"
    unfolding getToDeviceSync_def DeleteToDeviceMessagesUpTo_def GetToDeviceMessagesSince_def Let_def
    by (auto intro!: no_panic_intros)
  then have "succeeds (catchM (getToDeviceSync u v since))" by (intro succeeds_catch calm_getToDeviceSync)
  moreover have "no_panic (CountOneTimeKeys Ctx v)" unfolding CountOneTimeKeys_def by (intro no_panic_intros)
  then have "succeeds (catchM (CountOneTimeKeys Ctx v))" by (intro succeeds_catch calm_Sync_rest)
  ultimately show ?thesis unfolding Sync_GetEventsSince_def
    by (intro succeeds_bind succeeds_GetInviteRooms succeeds_reads [OF reads_Sync_GetJoinedRooms])
      (auto intro!: succeeds_bind succeeds_return split: prod.split)
qed

lemma poll:
  assumes f: "w_fault w = (\<lambda>_. None)" and "n \<le> 0" and "SyncClient wait u v since n w = (Ret r, w')"
  shows "rs_Join (sy_Rooms r) = joined_map u since (room_tables (w_db w))"
    and "TimelinePosition (sy_NextBatch r) = next_position u (TimelinePosition since) (w_db w)"
    and "same_rooms w w'"
proof -
  obtain a w1 where e: "Sync_GetEventsSince u v since w = (Ret a, w1)"
    using Sync_GetEventsSince_succeeds f unfolding succeeds_def by (metis eq_fst_iff)
  note j = Sync_GetEventsSince_joined [OF f e]
  have "finishSync u since a w1 = (Ret r, w')"
    using assms(2,3) e by (simp add: SyncClient_def canceledM_def run_simps)
  then obtain t where t: "generateNextSinceToken u since w1 = (Ret t, w')"
    and r: "r = a\<lparr>sy_NextBatch := t\<lparr>ToDevicePosition := ToDevicePosition (sy_NextBatch a)\<rparr>\<rparr>"
    by (auto simp: finishSync_def ret_bind ret_return)
  show "rs_Join (sy_Rooms r) = joined_map u since (room_tables (w_db w))" using j(1) r by simp
  show "TimelinePosition (sy_NextBatch r) = next_position u (TimelinePosition since) (w_db w)"
    using same_rooms_reads [OF j(2) reads_generateNextSinceToken t] r by (simp add: next_position_def cong: list.case_cong)
  show "same_rooms w w'" by (rule same_rooms_step [OF j(2) reads_calm [OF reads_generateNextSinceToken] t])
qed

subsection \<open>Positions and the log\<close>

lemma by_stream_ordered: "sorted_wrt (<) (map ev_StreamOrdering es) \<Longrightarrow> by_stream es = es"
  unfolding by_stream_def by (rule sort_key_id_if_sorted) (simp add: strict_sorted_imp_sorted)

lemma sorted_filter_ordering:
  "sorted_wrt (<) (map ev_StreamOrdering es) \<Longrightarrow> sorted_wrt (<) (map ev_StreamOrdering (filter P es))"
  by (induction es) auto

lemma by_stream_filter: "sorted_wrt (<) (map ev_StreamOrdering es) \<Longrightarrow> by_stream (filter P es) = filter P es"
  by (intro by_stream_ordered sorted_filter_ordering)

lemma sorted_last_ge:
  "sorted_wrt (<) (map ev_StreamOrdering es) \<Longrightarrow> e \<in> set es \<Longrightarrow> ev_StreamOrdering e \<le> ev_StreamOrdering (last es)"
proof (induction es)
  case (Cons a es)
  then show ?case by (cases "es = []") (auto, metis last_in_set less_imp_le)
qed simp

lemma sel_max_ordering_ge: "e \<in> set (t_Evento d) \<Longrightarrow> ev_StreamOrdering e \<le> sel_max_ordering d"
  by (auto simp: sel_max_ordering_def split: list.split)

lemma sel_max_ordering_below:
  "log_ordered (d, s) \<Longrightarrow> 0 < sq_stream s \<Longrightarrow> sel_max_ordering d < int (sq_stream s)"
  by (auto simp: sel_max_ordering_def log_ordered_def split: list.split)

lemma sel_since_log:
  "log_ordered (d, s) \<Longrightarrow> sel_since u pos d = filter (\<lambda>e. ev_StreamOrdering e > pos \<and>
        ((\<exists>m\<in>set (t_Membership d). mb_canal m = ev_CanalID e \<and> mb_usuario m = u \<and> mb_type m \<in> {''join'', ''invite''}) \<or>
         ev_Tipo e = ''m.room.member'' \<and> ev_StateKey e = Some u)) (t_Evento d)"
  unfolding sel_since_def by (rule by_stream_filter) (simp add: log_ordered_def)

lemma next_position_bounds:
  assumes ok: "log_ordered (d, s)" and pos: "pos < int (sq_stream s)" "0 < sq_stream s"
  shows "pos \<le> next_position u pos d" and "next_position u pos d < int (sq_stream s)"
proof -
  have last: "last (sel_since u pos d) \<in> set (t_Evento d) \<and> pos < ev_StreamOrdering (last (sel_since u pos d))"
    if "sel_since u pos d \<noteq> []"
    using last_in_set [OF that] unfolding sel_since_log [OF ok] by simp
  show "pos \<le> next_position u pos d" using last by (auto simp: next_position_def split: list.split)
  show "next_position u pos d < int (sq_stream s)"
    using last ok pos sel_max_ordering_below [OF ok pos(2)]
    by (auto simp: next_position_def log_ordered_def split: list.split)
qed

lemma next_position_covers:
  assumes ok: "log_ordered (d, s)" and c: "c \<in> set (joined_rooms u d)"
    and e: "e \<in> set (t_Evento d)" "ev_CanalID e = c" "pos < ev_StreamOrdering e"
  shows "ev_StreamOrdering e \<le> next_position u pos d"
proof -
  have e': "e \<in> set (sel_since u pos d)" using c e by (force simp: sel_since_def by_stream_def joined_rooms_def)
  then have "ev_StreamOrdering e \<le> ev_StreamOrdering (last (sel_since u pos d))"
    using sorted_last_ge sorted_filter_ordering ok unfolding sel_since_log [OF ok]
    by (metis (no_types, lifting) fst_conv log_ordered_def)
  then show ?thesis using e' by (auto simp: next_position_def split: list.split)
qed

text \<open>What two polls around a run show of a room.\<close>

lemma split_log:
  assumes ok: "log_ordered (d, s)" "log_ordered (d2, s2)" and grow: "log_grows (d, s) (d2, s2)"
    and pos: "pos < int (sq_stream s)" "0 < sq_stream s" and c: "c \<in> set (joined_rooms u d)" "c \<in> set (joined_rooms u d2)"
  shows "sel_canal_since u c pos d @ sel_canal_since u c (next_position u pos d) d2 =
    filter (\<lambda>e. ev_CanalID e = c \<and> pos < ev_StreamOrdering e) (t_Evento d2)"
proof -
  obtain es where es: "t_Evento d2 = t_Evento d @ es" and new: "\<And>e. e \<in> set es \<Longrightarrow> int (sq_stream s) \<le> ev_StreamOrdering e"
    using grow by (auto simp: log_grows_def)
  have member: "sel_membership c u d \<noteq> None" "sel_membership c u d2 \<noteq> None"
    using c by (auto simp: sel_membership_def joined_rooms_def find_None_iff)
  have sel: "sel_canal_since u c p d = filter (\<lambda>e. ev_CanalID e = c \<and> p < ev_StreamOrdering e) (t_Evento d)"
    "sel_canal_since u c p d2 = filter (\<lambda>e. ev_CanalID e = c \<and> p < ev_StreamOrdering e) (t_Evento d2)" for p
    using ok member by (simp_all add: sel_canal_since_def by_stream_filter log_ordered_def)
  note bounds = next_position_bounds [OF ok(1) pos, of u]
  have "\<not> next_position u pos d < ev_StreamOrdering e" if "e \<in> set (t_Evento d)" "ev_CanalID e = c" for e
    using next_position_covers [OF ok(1) c(1) that, of pos] bounds(1) by linarith
  then have "filter (\<lambda>e. ev_CanalID e = c \<and> next_position u pos d < ev_StreamOrdering e) (t_Evento d) = []"
    by (simp add: filter_empty_conv)
  moreover have "filter (\<lambda>e. ev_CanalID e = c \<and> next_position u pos d < ev_StreamOrdering e) es =
      filter (\<lambda>e. ev_CanalID e = c \<and> pos < ev_StreamOrdering e) es"
    using new bounds(2) pos(1) by (intro filter_cong) (auto dest!: new)
  ultimately show ?thesis by (simp add: sel es)
qed

end
