(* ===== verification/Sync_Props.thy ===== *)
theory Sync_Props
  imports Sync_Facts Examples
begin

text \<open>The properties of sync: what two polls around any run show of a room, and the queue of a device.\<close>

subsection \<open>Timelines\<close>

text \<open>C16. A client that polls without waiting (a timeout of zero or less), lets any calls of the service happen, and
  polls again without waiting, with the token it got, sees every event of a room it is joined to at both polls
  exactly once: the two timelines together are the events of the room after the first token, in stream order. The
  token the client starts with lies below the next stream position, and no call to the database or to Redis fails
  in the polls or between them.\<close>

theorem sync_exactly_once:
  assumes "log_ordered (tables w)" and "w_tx w = NoTx" and "w_fault w = (\<lambda>_. None)"
    and "0 < sq_stream (w_seqs w)" and "TimelinePosition since < int (sq_stream (w_seqs w))"
    and "n1 \<le> 0" and "SyncClient wait u v since n1 w = (Ret r1, w1)"
    and "(api_step ro sv)\<^sup>*\<^sup>* w1 w2"
    and "n2 \<le> 0" and "SyncClient wait u v (sy_NextBatch r1) n2 w2 = (Ret r2, w3)"
    and "c \<in> set (joined_rooms u (w_db w))" and "c \<in> set (joined_rooms u (w_db w2))"
  shows "timeline_of c r1 @ timeline_of c r2 =
    map (timeline_event u) (filter (\<lambda>e. ev_CanalID e = c \<and> TimelinePosition since < ev_StreamOrdering e) (t_Evento (w_db w2)))"
proof -
  note p1 = poll [OF assms(3,6,7)]
  have "api_step ro sv w w1"
    using assms(7) unfolding SyncClient_no_wait [OF assms(6), of wait] by (rule api_SyncClient [rotated]) (rule call.keeps_return)
  then have run: "(api_step ro sv)\<^sup>*\<^sup>* w w2" using assms(8) by (rule converse_rtranclp_into_rtranclp)
  have "w_fault w2 = (\<lambda>_. None)" using run_fault [OF run] assms(3) by simp
  note p2 = poll [OF this assms(9,10)]
  have ok: "log_ordered (tables w2)" using ordered.inv.growth_run [OF run assms(2)] assms(1) by blast
  have grow: "log_grows (tables w) (tables w2)" using grows.growth_run [OF run assms(2)] by blast
  have rooms: "joined_rooms u (room_tables d) = joined_rooms u d" for d by (simp add: joined_rooms_def)
  have t1: "timeline_of c r1 = map (timeline_event u) (sel_canal_since u c (TimelinePosition since) (w_db w))"
    using timeline_joined_map [OF p1(1), of c] assms(11) by (simp add: rooms)
  have t2: "timeline_of c r2 = map (timeline_event u)
      (sel_canal_since u c (next_position u (TimelinePosition since) (w_db w)) (w_db w2))"
    using timeline_joined_map [OF p2(1), of c] assms(12) by (simp add: rooms p1(2))
  show ?thesis
    using split_log [OF assms(1) [unfolded tables_def] ok [unfolded tables_def] grow [unfolded tables_def] assms(5,4,11,12)]
    by (simp add: t1 t2 flip: map_append)
qed

text \<open>A poll of the room before and after a message.\<close>

definition first_poll :: "SyncClientResponse outcome \<times> world" where
  "first_poll = SyncClient (\<lambda>_. returnM ()) ''@u:a'' '''' zeroToken 0 room_world"

definition poll_token :: "SyncClientResponse outcome \<times> world \<Rightarrow> SyncToken" where
  "poll_token p = (case fst p of Ret r \<Rightarrow> sy_NextBatch r | _ \<Rightarrow> zeroToken)"

definition poll_ids :: "string \<Rightarrow> SyncClientResponse outcome \<times> world \<Rightarrow> string list" where
  "poll_ids c p = (case fst p of Ret r \<Rightarrow> map ec_ID (timeline_of c r) | _ \<Rightarrow> [])"

definition message_sent :: "string outcome \<times> world" where
  "message_sent = SendEvent plain_server
     \<lparr>evp_RoomID = ''!r:a'', evp_SenderID = ''@u:a'', evp_Content = JObj [(''body'', JStr ''hi'')],
      evp_EventType = ''m.room.message'', evp_TxnID = ''t1''\<rparr> (snd first_poll)"

definition second_poll :: "SyncClientResponse outcome \<times> world" where
  "second_poll = SyncClient (\<lambda>_. returnM ()) ''@u:a'' '''' (poll_token first_poll) 0 (snd message_sent)"

lemma polls: "works first_poll" "works message_sent" "works second_poll"
  by code_simp+

lemma poll_results:
  "poll_ids ''!r:a'' first_poll = [''$c'', ''$m'', ''$j'']"
  "''!r:a'' \<in> set (joined_rooms ''@u:a'' (w_db room_world)) \<and> ''!r:a'' \<in> set (joined_rooms ''@u:a'' (w_db (snd message_sent)))"
  "log_ordered (tables room_world)"
  by code_simp+

lemma sync_exactly_once_witness:
  "poll_ids ''!r:a'' first_poll @ poll_ids ''!r:a'' second_poll =
     map ec_ID (map (timeline_event ''@u:a'') (filter (\<lambda>e. ev_CanalID e = ''!r:a'' \<and> 0 < ev_StreamOrdering e) (t_Evento (w_db (snd message_sent)))))"
proof -
  obtain r1 where r1: "first_poll = (Ret r1, snd first_poll)" using run_works [OF polls(1)] by blast
  have t: "poll_token first_poll = sy_NextBatch r1" unfolding poll_token_def by (subst r1) simp
  obtain i where i: "message_sent = (Ret i, snd message_sent)" using run_works [OF polls(2)] by blast
  obtain r2 where r2: "second_poll = (Ret r2, snd second_poll)" using run_works [OF polls(3)] by blast
  have "api_step plain_orders plain_server (snd first_poll) (snd message_sent)"
    using i unfolding message_sent_def by (rule api_SendEvent)
  then have run: "(api_step plain_orders plain_server)\<^sup>*\<^sup>* (snd first_poll) (snd message_sent)" by (rule r_into_rtranclp)
  have since: "TimelinePosition zeroToken < int (sq_stream (w_seqs room_world))" "0 < sq_stream (w_seqs room_world)" by code_simp+
  have s1: "SyncClient (\<lambda>_. returnM ()) ''@u:a'' '''' zeroToken 0 room_world = (Ret r1, snd first_poll)"
    unfolding first_poll_def [symmetric] by (rule r1)
  have s2: "SyncClient (\<lambda>_. returnM ()) ''@u:a'' '''' (sy_NextBatch r1) 0 (snd message_sent) = (Ret r2, snd second_poll)"
    unfolding t [symmetric] second_poll_def [symmetric] by (rule r2)
  note poll_results(2) [THEN conjunct1] poll_results(2) [THEN conjunct2]
  from sync_exactly_once [OF poll_results(3) room_world_NoTx(1) room_world_fault(1) since(2,1) order_refl s1 run order_refl s2 this]
  have "timeline_of ''!r:a'' r1 @ timeline_of ''!r:a'' r2 = map (timeline_event ''@u:a'')
      (filter (\<lambda>e. ev_CanalID e = ''!r:a'' \<and> TimelinePosition zeroToken < ev_StreamOrdering e) (t_Evento (w_db (snd message_sent))))" .
  moreover have "poll_ids c first_poll = map ec_ID (timeline_of c r1)" "poll_ids c second_poll = map ec_ID (timeline_of c r2)" for c
    unfolding poll_ids_def by (subst r1, simp) (subst r2, simp)
  moreover have "TimelinePosition zeroToken = 0" by (simp add: zeroToken_def)
  ultimately show ?thesis by (simp only: map_append [symmetric])
qed

end
