(* ===== verification/Device_Invariants.thy ===== *)
theory Device_Invariants
  imports Invariants
begin

text \<open>
  The constraints of the schema on devices, presence, media, backups, keys and messages hold in every
  reachable database. Each group of tables has its own predicate; a statement on other tables keeps it
  because users and devices are never deleted and the sequences never go back.
\<close>

subsection \<open>The constraints\<close>

definition devices_ok :: "tables \<Rightarrow> bool" where
  "devices_ok x \<longleftrightarrow> (let d = fst x in
     distinct (map dv_id (t_Dispositivo d)) \<and> distinct (map dv_refresh (t_Dispositivo d)) \<and>
     (\<forall>r\<in>set (t_Dispositivo d). dv_usuario r \<in> usuario_ids d) \<and>
     distinct (map pr_usuario (t_Presence d)) \<and> (\<forall>r\<in>set (t_Presence d). pr_usuario r \<in> usuario_ids d) \<and>
     distinct (map (\<lambda>r. (mi_origin r, mi_id r)) (t_Midia d)))"

definition backups_ok :: "tables \<Rightarrow> bool" where
  "backups_ok x \<longleftrightarrow> (let d = fst x in
     sorted_wrt (<) (map vb_id (t_VersaoBackup d)) \<and>
     (\<forall>r\<in>set (t_VersaoBackup d). vb_usuario r \<in> usuario_ids d \<and> vb_id r < sq_backup (snd x)) \<and>
     distinct (map chave_key (t_ChaveBackup d)) \<and>
     (\<forall>r\<in>set (t_ChaveBackup d). cb_versao r \<in> vb_id ` set (t_VersaoBackup d)))"

definition keys_ok :: "tables \<Rightarrow> bool" where
  "keys_ok x \<longleftrightarrow> (let d = fst x in
     distinct (map ck_device (t_Chave_Dispositivo d)) \<and>
     (\<forall>r\<in>set (t_Chave_Dispositivo d). ck_device r \<in> device_ids d) \<and>
     distinct (map (\<lambda>r. (fb_device r, fb_algorithm r)) (t_Chave_Fallback d)) \<and>
     (\<forall>r\<in>set (t_Chave_Fallback d). fb_device r \<in> device_ids d) \<and>
     distinct (map (\<lambda>r. (cs_usuario r, cs_usage r)) (t_Chave_Cross_Signing d)) \<and>
     (\<forall>r\<in>set (t_Chave_Cross_Signing d). cs_usuario r \<in> usuario_ids d))"

definition otks_ok :: "tables \<Rightarrow> bool" where
  "otks_ok x \<longleftrightarrow> (let d = fst x in
     sorted_wrt (<) (map ot_id (t_Chave_Uso_Unico d)) \<and>
     distinct (map (\<lambda>r. (ot_device r, ot_key r)) (t_Chave_Uso_Unico d)) \<and>
     (\<forall>r\<in>set (t_Chave_Uso_Unico d). ot_device r \<in> device_ids d \<and> ot_id r < sq_otk (snd x)))"

definition messages_ok :: "tables \<Rightarrow> bool" where
  "messages_ok x \<longleftrightarrow> (let d = fst x in
     sorted_wrt (<) (map td_id (t_Mensagem_ToDevice d)) \<and>
     (\<forall>r\<in>set (t_Mensagem_ToDevice d). td_usuario r \<in> usuario_ids d \<and> td_device r \<in> device_ids d \<and>
        td_id r < sq_todevice (snd x)))"

text \<open>What a statement on other tables leaves: the same rows, at least as many users and devices, later sequences.\<close>

definition frame :: "(db \<Rightarrow> 'a) \<Rightarrow> tables \<Rightarrow> tables \<Rightarrow> bool" where
  "frame f x y \<longleftrightarrow> f (fst y) = f (fst x) \<and> usuario_ids (fst x) \<subseteq> usuario_ids (fst y) \<and>
     device_ids (fst x) \<subseteq> device_ids (fst y) \<and> seqs_le (snd x) (snd y)"

definition device_rows :: "db \<Rightarrow> dispositivo_row list \<times> presence_row list \<times> midia_row list" where
  "device_rows d = (t_Dispositivo d, t_Presence d, t_Midia d)"

definition backup_rows :: "db \<Rightarrow> versao_row list \<times> chave_row list" where
  "backup_rows d = (t_VersaoBackup d, t_ChaveBackup d)"

definition key_rows :: "db \<Rightarrow> devkeys_row list \<times> fallback_row list \<times> cross_row list" where
  "key_rows d = (t_Chave_Dispositivo d, t_Chave_Fallback d, t_Chave_Cross_Signing d)"

lemmas ok_defs = devices_ok_def backups_ok_def keys_ok_def otks_ok_def messages_ok_def
lemmas rows_defs = device_rows_def backup_rows_def key_rows_def

lemma devices_ok_frame: "frame device_rows x y \<Longrightarrow> devices_ok x \<Longrightarrow> devices_ok y"
  by (auto simp: frame_def devices_ok_def device_rows_def Let_def)

lemma backups_ok_frame: "frame backup_rows x y \<Longrightarrow> backups_ok x \<Longrightarrow> backups_ok y"
  by (fastforce simp: frame_def backups_ok_def backup_rows_def Let_def seqs_le_def)

lemma keys_ok_frame: "frame key_rows x y \<Longrightarrow> keys_ok x \<Longrightarrow> keys_ok y"
  by (auto simp: frame_def keys_ok_def key_rows_def Let_def)

lemma otks_ok_frame: "frame t_Chave_Uso_Unico x y \<Longrightarrow> otks_ok x \<Longrightarrow> otks_ok y"
  by (fastforce simp: frame_def otks_ok_def Let_def seqs_le_def)

lemma messages_ok_frame: "frame t_Mensagem_ToDevice x y \<Longrightarrow> messages_ok x \<Longrightarrow> messages_ok y"
  by (fastforce simp: frame_def messages_ok_def Let_def seqs_le_def)

subsection \<open>Statements on rooms, events and users\<close>

text \<open>Only \<open>insert_Usuario\<close> touches what the constraints look at, and it adds a user.\<close>

definition device_side :: "db \<Rightarrow> db" where
  "device_side d = d\<lparr>t_Evento := [], t_Canal := [], t_Extremidades := [], t_Estado := [], t_Membership := [],
     t_Alias := [], t_Usuario := [], t_Profile := [], t_AccountData := [], t_Receipts := [], t_Typing := []\<rparr>"

lemma room_step_side:
  "sql_step x y \<Longrightarrow> dev_step x y \<or>
     device_side (fst y) = device_side (fst x) \<and> usuario_ids (fst x) \<subseteq> usuario_ids (fst y) \<and> seqs_le (snd x) (snd y)"
  by (induction rule: sql_step.induct)
    (auto simp: device_side_def statement_defs insert_Canal_def insert_Evento_def upsert_Membership_def upsert_Estado_def
      delete_Extremidades_def insert_Extremidade_def usuario_ids_def split: if_splits option.splits)

lemma side_frame:
  assumes "device_side d' = device_side d"
  shows "t_Dispositivo d' = t_Dispositivo d" "device_rows d' = device_rows d" "backup_rows d' = backup_rows d"
    "key_rows d' = key_rows d" "t_Chave_Uso_Unico d' = t_Chave_Uso_Unico d" "t_Mensagem_ToDevice d' = t_Mensagem_ToDevice d"
  using assms [THEN arg_cong, of t_Dispositivo] assms [THEN arg_cong, of device_rows] assms [THEN arg_cong, of backup_rows]
    assms [THEN arg_cong, of key_rows] assms [THEN arg_cong, of t_Chave_Uso_Unico]
    assms [THEN arg_cong, of t_Mensagem_ToDevice]
  by (simp_all add: device_side_def rows_defs)

subsection \<open>Statements on devices\<close>

lemma upsert_row_ids:
  assumes "\<And>r. P r \<longleftrightarrow> k r = k new" and "\<And>r. P r \<Longrightarrow> k (f r) = k r"
  shows "k ` set (upsert_row P f new rs) = insert (k new) (k ` set rs)"
  using arg_cong [OF upsert_row_keys [of P k new f rs, OF assms], of set] by (auto split: if_splits)

lemma upsert_by_key:
  assumes "distinct (map k rs)" and "\<And>r. r \<in> set rs \<Longrightarrow> Q (k r)" and "Q (k new)"
  shows "distinct (map k (upsert_row (\<lambda>r. k r = k new) (\<lambda>_. new) new rs))"
    and "r \<in> set (upsert_row (\<lambda>r. k r = k new) (\<lambda>_. new) new rs) \<Longrightarrow> Q (k r)"
proof -
  show "distinct (map k (upsert_row (\<lambda>r. k r = k new) (\<lambda>_. new) new rs))"
    using assms(1) by (intro upsert_row_distinct) auto
  show "Q (k r)" if "r \<in> set (upsert_row (\<lambda>r. k r = k new) (\<lambda>_. new) new rs)"
  proof -
    have "k r \<in> insert (k new) (k ` set rs)"
      using that upsert_row_ids [of "\<lambda>r. k r = k new" k new "\<lambda>_. new" rs] by (metis imageI)
    then show ?thesis using assms(2,3) by auto
  qed
qed

text \<open>What each statement does to users, devices and sequences.\<close>

lemma dev_step_users: "dev_step x y \<Longrightarrow> usuario_ids (fst y) = usuario_ids (fst x)"
  using dev_step_room [of x y] room_tables_eqD [of "fst y" "fst x"] by (simp add: usuario_ids_def)

lemma device_ids_same [simp]:
  "device_ids (d\<lparr>t_Presence := a\<rparr>) = device_ids d" "device_ids (d\<lparr>t_Midia := b\<rparr>) = device_ids d"
  "device_ids (d\<lparr>t_VersaoBackup := c\<rparr>) = device_ids d" "device_ids (d\<lparr>t_ChaveBackup := e\<rparr>) = device_ids d"
  "device_ids (d\<lparr>t_Chave_Dispositivo := f\<rparr>) = device_ids d" "device_ids (d\<lparr>t_Chave_Uso_Unico := g\<rparr>) = device_ids d"
  "device_ids (d\<lparr>t_Chave_Fallback := h\<rparr>) = device_ids d" "device_ids (d\<lparr>t_Chave_Cross_Signing := i\<rparr>) = device_ids d"
  "device_ids (d\<lparr>t_Mensagem_ToDevice := j\<rparr>) = device_ids d"
  by (simp_all add: device_ids_def)

lemma usuario_ids_same [simp]:
  "usuario_ids (d\<lparr>t_Presence := a\<rparr>) = usuario_ids d" "usuario_ids (d\<lparr>t_Midia := b\<rparr>) = usuario_ids d"
  "usuario_ids (d\<lparr>t_VersaoBackup := c\<rparr>) = usuario_ids d" "usuario_ids (d\<lparr>t_ChaveBackup := e\<rparr>) = usuario_ids d"
  "usuario_ids (d\<lparr>t_Chave_Dispositivo := f\<rparr>) = usuario_ids d" "usuario_ids (d\<lparr>t_Chave_Uso_Unico := g\<rparr>) = usuario_ids d"
  "usuario_ids (d\<lparr>t_Chave_Fallback := h\<rparr>) = usuario_ids d" "usuario_ids (d\<lparr>t_Chave_Cross_Signing := i\<rparr>) = usuario_ids d"
  "usuario_ids (d\<lparr>t_Mensagem_ToDevice := j\<rparr>) = usuario_ids d" "usuario_ids (d\<lparr>t_Dispositivo := k\<rparr>) = usuario_ids d"
  by (simp_all add: usuario_ids_def)

lemmas dev_splits = if_splits option.splits prod.splits sum.splits list.splits

lemma dev_step_ids:
  "dev_step x y \<Longrightarrow> device_ids (fst x) \<subseteq> device_ids (fst y)"
proof (induction rule: dev_step.induct)
  case (dev_upsert r d d' s)
  then obtain f where d': "d' = d\<lparr>t_Dispositivo := upsert_row (\<lambda>x. dv_id x = dv_id r) f r (t_Dispositivo d)\<rparr>"
    and f: "\<And>x. dv_id (f x) = dv_id r"
    by (auto simp: upsert_Dispositivo_def split: if_splits)
  have "dv_id ` set (t_Dispositivo d') = insert (dv_id r) (dv_id ` set (t_Dispositivo d))"
    unfolding d' by (simp add: upsert_row_ids [of _ dv_id] f)
  then show ?case by (auto simp: d' device_ids_def)
next
  case (dev_update r d d' s)
  then have "d' = d\<lparr>t_Dispositivo := map (\<lambda>x. if dv_id x = dv_id r then r\<lparr>dv_usuario := dv_usuario x\<rparr> else x) (t_Dispositivo d)\<rparr>"
    by (auto simp: update_Dispositivo_def split: if_splits)
  then have "device_ids d' = (\<lambda>x. dv_id (if dv_id x = dv_id r then r\<lparr>dv_usuario := dv_usuario x\<rparr> else x)) ` set (t_Dispositivo d)"
    by (simp add: device_ids_def image_image del: if_image_distrib)
  also have "\<dots> = device_ids d" unfolding device_ids_def by (rule image_cong) simp_all
  finally show ?case by simp
qed (auto simp: dev_statements Let_def split: dev_splits)

lemma devices_ok_upsert:
  assumes "upsert_Dispositivo r d = Inr d'" and "devices_ok (d, s)"
  shows "devices_ok (d', s)"
proof -
  let ?f = "\<lambda>x. r\<lparr>dv_usuario := dv_usuario x\<rparr>"
  let ?rows = "upsert_row (\<lambda>x. dv_id x = dv_id r) ?f r (t_Dispositivo d)"
  have new: "\<And>x. x \<in> set (t_Dispositivo d) \<Longrightarrow> dv_refresh x = dv_refresh r \<Longrightarrow> dv_id x = dv_id r"
    and fk: "dv_id r \<notin> dv_id ` set (t_Dispositivo d) \<Longrightarrow> dv_usuario r \<in> usuario_ids d"
    and d': "d' = d\<lparr>t_Dispositivo := ?rows\<rparr>"
    using assms(1) by (auto simp: upsert_Dispositivo_def device_ids_def split: if_splits)
  have ok: "distinct (map dv_id (t_Dispositivo d))" "distinct (map dv_refresh (t_Dispositivo d))"
    "\<forall>x\<in>set (t_Dispositivo d). dv_usuario x \<in> usuario_ids d"
    using assms(2) by (auto simp: devices_ok_def Let_def)
  have ids: "distinct (map dv_id ?rows)" by (rule upsert_row_distinct) (use ok(1) in auto)
  have refresh: "distinct (map dv_refresh rs') \<and> (\<forall>x\<in>set rs'. dv_usuario x \<in> usuario_ids d)
      \<and> dv_refresh ` set rs' \<subseteq> insert (dv_refresh r) (dv_refresh ` set rs)"
    if "rs' = upsert_row (\<lambda>x. dv_id x = dv_id r) ?f r rs" "set rs \<subseteq> set (t_Dispositivo d)"
      "distinct (map dv_id rs)" "distinct (map dv_refresh rs)"
      "dv_id r \<in> dv_id ` set rs \<or> dv_id r \<notin> dv_id ` set (t_Dispositivo d)" for rs rs'
    using that
  proof (induction rs arbitrary: rs')
    case Nil
    then show ?case using fk by auto
  next
    case (Cons a rs)
    show ?case
    proof (cases "dv_id a = dv_id r")
      case True
      then have "dv_refresh r \<notin> dv_refresh ` set rs" using new Cons.prems(2,3) by (auto simp: image_iff) (metis subsetD)
      then show ?thesis using True Cons.prems ok(3) by auto
    next
      case False
      then have "dv_refresh a \<noteq> dv_refresh r" using new Cons.prems(2) by auto
      moreover have "dv_refresh a \<notin> dv_refresh ` set rs" using Cons.prems(4) by auto
      ultimately show ?thesis using False Cons.prems ok(3) Cons.IH [OF refl] by auto
    qed
  qed
  have "dv_id r \<in> dv_id ` set (t_Dispositivo d) \<or> dv_id r \<notin> dv_id ` set (t_Dispositivo d)" by blast
  from refresh [OF refl subset_refl ok(1,2) this] ids assms(2) show ?thesis
    by (auto simp: devices_ok_def d' usuario_ids_def Let_def)
qed

lemma devices_ok_update:
  assumes "update_Dispositivo r d = Inr d'" and "devices_ok (d, s)"
  shows "devices_ok (d', s)"
proof -
  let ?g = "\<lambda>x. if dv_id x = dv_id r then r\<lparr>dv_usuario := dv_usuario x\<rparr> else x"
  have new: "\<And>x. dv_id r \<in> device_ids d \<Longrightarrow> x \<in> set (t_Dispositivo d) \<Longrightarrow> dv_refresh x = dv_refresh r \<Longrightarrow> dv_id x = dv_id r"
    and d': "d' = d\<lparr>t_Dispositivo := map ?g (t_Dispositivo d)\<rparr>"
    using assms(1) by (auto simp: update_Dispositivo_def split: if_splits)
  have ok: "distinct (map dv_id (t_Dispositivo d))" "distinct (map dv_refresh (t_Dispositivo d))"
    using assms(2) by (auto simp: devices_ok_def Let_def)
  have ids: "map dv_id (map ?g (t_Dispositivo d)) = map dv_id (t_Dispositivo d)" by simp
  have "inj_on (\<lambda>x. dv_refresh (?g x)) (set (t_Dispositivo d))"
  proof (rule inj_onI)
    fix x y
    assume x: "x \<in> set (t_Dispositivo d)" and y: "y \<in> set (t_Dispositivo d)" and eq: "dv_refresh (?g x) = dv_refresh (?g y)"
    have inj: "dv_refresh x = dv_refresh y \<Longrightarrow> x = y" "dv_id x = dv_id y \<Longrightarrow> x = y"
      using ok x y by (auto simp: distinct_map dest: inj_onD)
    have "dv_id x \<in> device_ids d" "dv_id y \<in> device_ids d"
      using x y by (simp_all add: device_ids_def)
    then have new_x: "dv_id y = dv_id r \<Longrightarrow> dv_refresh x = dv_refresh r \<Longrightarrow> dv_id x = dv_id r"
      and new_y: "dv_id x = dv_id r \<Longrightarrow> dv_refresh y = dv_refresh r \<Longrightarrow> dv_id y = dv_id r"
      using new x y by metis+
    show "x = y"
    proof (cases "dv_id x = dv_id r")
      case True
      then show ?thesis using eq new_y inj(2) by (cases "dv_id y = dv_id r") simp_all
    next
      case False
      then show ?thesis using eq new_x inj(1) by (cases "dv_id y = dv_id r") simp_all
    qed
  qed
  moreover have "distinct (t_Dispositivo d)" using ok(1) by (simp add: distinct_map)
  ultimately have "distinct (map dv_refresh (map ?g (t_Dispositivo d)))" by (simp add: distinct_map comp_def)
  moreover have "distinct (map dv_id (map ?g (t_Dispositivo d)))" using ok(1) ids by metis
  ultimately show ?thesis using assms(2) by (auto simp: devices_ok_def d' usuario_ids_def Let_def)
qed

lemma devices_ok_dev_step: "dev_step x y \<Longrightarrow> devices_ok x \<Longrightarrow> devices_ok y"
proof (induction rule: dev_step.induct)
  case (dev_presence p d d' s)
  then have d: "pr_usuario p \<in> usuario_ids d"
    "d' = d\<lparr>t_Presence := upsert_row (\<lambda>x. pr_usuario x = pr_usuario p) (\<lambda>_. p) p (t_Presence d)\<rparr>"
    by (auto simp: upsert_Presence_def split: if_splits)
  show ?case
    using dev_presence(2) upsert_by_key [of pr_usuario "t_Presence d" "\<lambda>u. u \<in> usuario_ids d" p] d(1)
    by (auto simp: devices_ok_def d(2) usuario_ids_def Let_def)
next
  case (dev_midia m d d' s)
  then show ?case by (force simp: devices_ok_def insert_Midia_def Let_def split: if_splits)
qed (erule (1) devices_ok_upsert devices_ok_update | auto simp: devices_ok_def dev_statements Let_def split: dev_splits)+

subsection \<open>Statements on backups, keys and messages\<close>

lemma dev_frame:
  assumes "dev_step x y" and "f (fst y) = f (fst x)"
  shows "frame f x y"
  using assms dev_step_users [OF assms(1)] dev_step_ids [OF assms(1)] dev_step_seqs [OF assms(1)]
  by (simp add: frame_def)

lemmas frame_rules = devices_ok_frame backups_ok_frame keys_ok_frame otks_ok_frame messages_ok_frame

lemma sorted_snoc: "sorted_wrt (<) (map f xs) \<Longrightarrow> (\<And>x. x \<in> set xs \<Longrightarrow> f x < n) \<Longrightarrow> f y = (n :: nat) \<Longrightarrow>
    sorted_wrt (<) (map f (xs @ [y]))"
  by (auto simp: sorted_wrt_append)

lemma sorted_filter: "sorted_wrt (<) (map f xs) \<Longrightarrow> sorted_wrt (<) (map f (filter P xs))"
  by (induction xs) auto

lemma distinct_filter_map: "distinct (map f xs) \<Longrightarrow> distinct (map f (filter P xs))"
  by (rule distinct_map_filter)

lemma rows_map: "(\<And>x. k (g x) = k x) \<Longrightarrow> map k (map g xs) = map k xs"
  by simp

lemma backups_ok_chave:
  assumes "upsert_ChaveBackup v r k i f b j d = Inr d'" and "backups_ok (d, s)"
  shows "backups_ok (d', s)"
proof -
  let ?c = "\<lparr>cb_versao = nat v, cb_canal = r, cb_sessao = k, cb_first = i, cb_forwarded = f, cb_verified = b,
    cb_data = jsonb (the j)\<rparr>"
  have "cb_versao ?c \<in> vb_id ` set (t_VersaoBackup d) \<and>
      d' = d\<lparr>t_ChaveBackup := upsert_row (\<lambda>x. chave_key x = chave_key ?c) (\<lambda>_. ?c) ?c (t_ChaveBackup d)\<rparr>"
    using assms(1) by (auto simp: upsert_ChaveBackup_def has_versao_def Let_def split: option.splits if_splits)
  then obtain c where c: "cb_versao c \<in> vb_id ` set (t_VersaoBackup d)"
    and d': "d' = d\<lparr>t_ChaveBackup := upsert_row (\<lambda>x. chave_key x = chave_key c) (\<lambda>_. c) c (t_ChaveBackup d)\<rparr>"
    by blast
  show ?thesis
    using assms(2) c upsert_by_key [of chave_key "t_ChaveBackup d" "\<lambda>q. fst q \<in> vb_id ` set (t_VersaoBackup d)" c]
    by (auto simp: backups_ok_def d' usuario_ids_def Let_def chave_key_def)
qed

lemma backups_ok_dev_step:
  assumes step: "dev_step x y" and ok: "backups_ok x"
  shows "backups_ok y"
  using step
proof cases
  case (dev_versao s u a j c e t d d')
  then show ?thesis using ok
    by (fastforce simp: backups_ok_def insert_VersaoBackup_def Let_def sorted_wrt_append usuario_ids_def
        split: option.splits if_splits)
next
  case (dev_chave v r k i f b j d d' s)
  then show ?thesis using ok backups_ok_chave by simp
next
  case (dev_delete_chaves v d d' s)
  then show ?thesis using ok by (auto simp: backups_ok_def delete_ChaveBackup_def Let_def usuario_ids_def distinct_filter_map)
next
  case (dev_count v c d q d' s)
  then have "d' = d \<or> (\<exists>etag. d' = d\<lparr>t_VersaoBackup :=
      map (\<lambda>x. if int (vb_id x) = v then x\<lparr>vb_count := c, vb_etag := etag\<rparr> else x) (t_VersaoBackup d)\<rparr>)"
    by (auto simp: update_VersaoBackup_def split: option.splits sum.splits)
  then have "\<exists>g. (\<forall>x. vb_id (g x) = vb_id x \<and> vb_usuario (g x) = vb_usuario x) \<and>
      d' = d\<lparr>t_VersaoBackup := map g (t_VersaoBackup d)\<rparr>"
  proof (elim disjE exE)
    fix etag
    let ?g = "\<lambda>x. if int (vb_id x) = v then x\<lparr>vb_count := c, vb_etag := etag\<rparr> else x"
    assume "d' = d\<lparr>t_VersaoBackup := map ?g (t_VersaoBackup d)\<rparr>"
    then show ?thesis by (intro exI [of _ ?g]) simp
  qed (auto intro!: exI [of _ "\<lambda>x. x"])
  then obtain g where "\<And>x. vb_id (g x) = vb_id x" "\<And>x. vb_usuario (g x) = vb_usuario x"
    "d' = d\<lparr>t_VersaoBackup := map g (t_VersaoBackup d)\<rparr>"
    by blast
  then show ?thesis using ok dev_count by (auto simp: backups_ok_def Let_def usuario_ids_def image_image comp_def)
qed (rule backups_ok_frame [OF dev_frame [OF step] ok];
    auto simp: backup_rows_def dev_statements Let_def split: dev_splits)+

lemma keys_ok_dev_step:
  assumes step: "dev_step x y" and ok: "keys_ok x"
  shows "keys_ok y"
  using step
proof cases
  case (dev_keys i as k g d d' s)
  let ?r = "\<lparr>ck_device = the (uuid_in i), ck_algorithms = as, ck_keys = jsonb (the k), ck_signatures = jsonb (the g)\<rparr>"
  have "ck_device ?r \<in> device_ids d \<and>
      d' = d\<lparr>t_Chave_Dispositivo := upsert_row (\<lambda>x. ck_device x = ck_device ?r) (\<lambda>_. ?r) ?r (t_Chave_Dispositivo d)\<rparr>"
    using dev_keys(3) by (auto simp: upsert_Chave_Dispositivo_def Let_def split: option.splits if_splits)
  then obtain r where r: "ck_device r \<in> device_ids d"
    and d': "d' = d\<lparr>t_Chave_Dispositivo := upsert_row (\<lambda>x. ck_device x = ck_device r) (\<lambda>_. r) r (t_Chave_Dispositivo d)\<rparr>"
    by blast
  show ?thesis
    using ok r upsert_by_key [of ck_device "t_Chave_Dispositivo d" "\<lambda>i. i \<in> device_ids d" r] dev_keys(1,2)
    by (auto simp: keys_ok_def d' Let_def)
next
  case (dev_signatures i g d d' s)
  then obtain h where h: "\<And>x. ck_device (h x) = ck_device x" "d' = d\<lparr>t_Chave_Dispositivo := map h (t_Chave_Dispositivo d)\<rparr>"
  proof -
    fix thesis
    assume thesis: "\<And>h. (\<And>x. ck_device (h x) = ck_device x) \<Longrightarrow>
      d' = d\<lparr>t_Chave_Dispositivo := map h (t_Chave_Dispositivo d)\<rparr> \<Longrightarrow> thesis"
    obtain v where "d' = d\<lparr>t_Chave_Dispositivo :=
        map (\<lambda>x. if ck_device x = v then x\<lparr>ck_signatures := jsonb g\<rparr> else x) (t_Chave_Dispositivo d)\<rparr>"
      using dev_signatures(3) by (auto simp: set_device_signatures_def split: option.splits)
    then show thesis by (rule thesis [rotated]) simp
  qed
  then show ?thesis using ok dev_signatures by (auto simp: keys_ok_def Let_def comp_def)
next
  case (dev_fallback i a k j d d' s)
  let ?key = "\<lambda>x. (fb_device x, fb_algorithm x)"
  let ?r = "\<lparr>fb_device = the (uuid_in i), fb_algorithm = a, fb_key = k, fb_data = jsonb (the j), fb_usada = False\<rparr>"
  have "fb_device ?r \<in> device_ids d \<and>
      d' = d\<lparr>t_Chave_Fallback := upsert_row (\<lambda>x. ?key x = ?key ?r) (\<lambda>_. ?r) ?r (t_Chave_Fallback d)\<rparr>"
    using dev_fallback(3) by (auto simp: upsert_Chave_Fallback_def Let_def split: option.splits if_splits)
  then obtain r where r: "fb_device r \<in> device_ids d"
    and d': "d' = d\<lparr>t_Chave_Fallback := upsert_row (\<lambda>x. ?key x = ?key r) (\<lambda>_. r) r (t_Chave_Fallback d)\<rparr>"
    by blast
  show ?thesis
    using ok r upsert_by_key [of ?key "t_Chave_Fallback d" "\<lambda>q. fst q \<in> device_ids d" r] dev_fallback(1,2)
    by (auto simp: keys_ok_def d' Let_def)
next
  case (dev_claim_fallback i a d f' d' s)
  then have rows: "d'\<lparr>t_Chave_Fallback := []\<rparr> = d\<lparr>t_Chave_Fallback := []\<rparr>"
    "map (\<lambda>x. (fb_device x, fb_algorithm x)) (t_Chave_Fallback d') = map (\<lambda>x. (fb_device x, fb_algorithm x)) (t_Chave_Fallback d)"
    by (auto simp: claim_Chave_Fallback_def comp_def if_distrib split: option.splits cong: if_cong)
  have "fb_device ` set (t_Chave_Fallback d') = fb_device ` set (t_Chave_Fallback d)"
    using arg_cong [OF rows(2), of "\<lambda>ks. fst ` set ks"] by (simp add: image_image)
  then have "(\<forall>r\<in>set (t_Chave_Fallback d'). fb_device r \<in> device_ids d) \<longleftrightarrow>
      (\<forall>r\<in>set (t_Chave_Fallback d). fb_device r \<in> device_ids d)"
    by (metis image_subset_iff)
  moreover have "t_Chave_Dispositivo d' = t_Chave_Dispositivo d" "t_Chave_Cross_Signing d' = t_Chave_Cross_Signing d"
    "device_ids d' = device_ids d" "usuario_ids d' = usuario_ids d"
    using rows(1) [THEN arg_cong, of t_Chave_Dispositivo] rows(1) [THEN arg_cong, of t_Chave_Cross_Signing]
      rows(1) [THEN arg_cong, of device_ids] rows(1) [THEN arg_cong, of usuario_ids] by simp_all
  ultimately show ?thesis using ok dev_claim_fallback rows(2) by (auto simp: keys_ok_def Let_def)
next
  case (dev_cross u g k j sg d d' s)
  let ?key = "\<lambda>x. (cs_usuario x, cs_usage x)"
  let ?r = "\<lparr>cs_usuario = u, cs_usage = g, cs_key = k, cs_public = jsonb (the j), cs_signatures = jsonb sg\<rparr>"
  have "cs_usuario ?r \<in> usuario_ids d \<and>
      d' = d\<lparr>t_Chave_Cross_Signing := upsert_row (\<lambda>x. ?key x = ?key ?r) (\<lambda>_. ?r) ?r (t_Chave_Cross_Signing d)\<rparr>"
    using dev_cross(3) by (auto simp: upsert_Cross_def Let_def split: option.splits if_splits)
  then obtain r where r: "cs_usuario r \<in> usuario_ids d"
    and d': "d' = d\<lparr>t_Chave_Cross_Signing := upsert_row (\<lambda>x. ?key x = ?key r) (\<lambda>_. r) r (t_Chave_Cross_Signing d)\<rparr>"
    by blast
  show ?thesis
    using ok r upsert_by_key [of ?key "t_Chave_Cross_Signing d" "\<lambda>q. fst q \<in> usuario_ids d" r] dev_cross(1,2)
    by (auto simp: keys_ok_def d' Let_def)
next
  case (dev_cross_signatures u k g d d' s)
  define h :: "cross_row \<Rightarrow> cross_row" where "h = (\<lambda>x. if cs_usuario x = u \<and> cs_key x = k then x\<lparr>cs_signatures := jsonb g\<rparr> else x)"
  have "\<And>x. cs_usuario (h x) = cs_usuario x" "\<And>x. cs_usage (h x) = cs_usage x" by (simp_all add: h_def)
  moreover have "d' = d\<lparr>t_Chave_Cross_Signing := map h (t_Chave_Cross_Signing d)\<rparr>"
    using dev_cross_signatures(3) by (simp add: set_cross_signatures_def h_def)
  ultimately show ?thesis using ok dev_cross_signatures(1,2) by (auto simp: keys_ok_def Let_def comp_def)
qed (rule keys_ok_frame [OF dev_frame [OF step] ok];
    auto simp: key_rows_def dev_statements Let_def split: dev_splits)+

lemma otks_ok_dev_step:
  assumes step: "dev_step x y" and ok: "otks_ok x"
  shows "otks_ok y"
  using step
proof cases
  case (dev_upsert r d d' s)
  then have "frame t_Chave_Uso_Unico x y" by (intro dev_frame [OF step]) (auto simp: upsert_Dispositivo_def split: if_splits)
  then show ?thesis using ok by (rule otks_ok_frame)
next
  case (dev_otk s i k a j d d')
  then show ?thesis using ok
    by (fastforce simp: otks_ok_def insert_Chave_Uso_Unico_def Let_def sorted_wrt_append split: option.splits if_splits)
next
  case (dev_claim i a d o' d' s)
  then have "\<exists>P. d' = d\<lparr>t_Chave_Uso_Unico := filter P (t_Chave_Uso_Unico d)\<rparr>"
    by (auto simp: claim_Chave_Uso_Unico_def split: option.splits list.splits intro: exI [of _ "\<lambda>x. True"])
  then obtain P where "d' = d\<lparr>t_Chave_Uso_Unico := filter P (t_Chave_Uso_Unico d)\<rparr>" by blast
  then show ?thesis using ok dev_claim by (auto simp: otks_ok_def Let_def sorted_filter distinct_filter_map)
qed (rule otks_ok_frame [OF dev_frame [OF step] ok]; auto simp: dev_statements Let_def split: dev_splits)+

lemma messages_ok_dev_step:
  assumes step: "dev_step x y" and ok: "messages_ok x"
  shows "messages_ok y"
  using step
proof cases
  case (dev_todevice s u i f t j d d')
  then show ?thesis using ok
    by (fastforce simp: messages_ok_def insert_ToDevice_def Let_def sorted_wrt_append usuario_ids_def split: option.splits if_splits)
next
  case (dev_delete_todevice u i n d d' s)
  then have "\<exists>P. d' = d\<lparr>t_Mensagem_ToDevice := filter P (t_Mensagem_ToDevice d)\<rparr>"
    by (auto simp: delete_ToDevice_def split: option.splits)
  then obtain P where "d' = d\<lparr>t_Mensagem_ToDevice := filter P (t_Mensagem_ToDevice d)\<rparr>" by blast
  then show ?thesis using ok dev_delete_todevice by (auto simp: messages_ok_def Let_def sorted_filter)
qed (rule messages_ok_frame [OF dev_frame [OF step] ok]; auto simp: dev_statements Let_def split: dev_splits)+

subsection \<open>Every reachable database\<close>

definition devices_integrity :: "tables \<Rightarrow> bool" where
  "devices_integrity x \<longleftrightarrow> devices_ok x \<and> backups_ok x \<and> keys_ok x \<and> otks_ok x \<and> messages_ok x"

lemma side_step_frame:
  "sql_step x y \<Longrightarrow> \<not> dev_step x y \<Longrightarrow> f (fst y) = f (fst x) \<Longrightarrow> frame f x y"
  using room_step_side [of x y] side_frame(1) [of "fst y" "fst x"] by (auto simp: frame_def device_ids_def)

lemma devices_integrity_step:
  assumes "sql_step x y" and "devices_integrity x"
  shows "devices_integrity y"
proof (cases "dev_step x y")
  case True
  then show ?thesis using assms(2) devices_ok_dev_step backups_ok_dev_step keys_ok_dev_step otks_ok_dev_step
      messages_ok_dev_step by (simp add: devices_integrity_def)
next
  case False
  then have side: "device_side (fst y) = device_side (fst x)"
    using room_step_side [OF assms(1)] by auto
  note frame = side_step_frame [OF assms(1) False]
  show ?thesis
    using assms(2) side_frame [OF side] by (simp add: devices_integrity_def frame_rules [OF frame])
qed

interpretation device_schema: table_invariant devices_integrity
proof
  show "devices_integrity start_tables"
    by (simp add: devices_integrity_def ok_defs start_tables_def empty_db_def)
qed (rule devices_integrity_step)

end
