(* ===== verification/Backup_Facts.thy ===== *)
theory Backup_Facts
  imports Device_Invariants
begin

text \<open>Writing keys to a backup: what the loop of upserts and the new count and etag leave in the tables.\<close>

definition backup_key :: "db \<Rightarrow> nat \<Rightarrow> string \<Rightarrow> string \<Rightarrow> chave_row option" where
  "backup_key d v c s = find (\<lambda>r. chave_key r = (v, c, s)) (t_ChaveBackup d)"

definition key_row :: "nat \<Rightarrow> ChaveBackup \<Rightarrow> chave_row" where
  "key_row v k = \<lparr>cb_versao = v, cb_canal = c_IDCanal k, cb_sessao = c_IDSessao k, cb_first = c_FirstMessageIndex k,
     cb_forwarded = c_ForwardedCount k, cb_verified = c_IsVerified k, cb_data = jsonb (raw_json (c_SessionData k))\<rparr>"

text \<open>The last of the given keys for a room and session.\<close>

definition given_key :: "nat \<Rightarrow> ChaveBackup list \<Rightarrow> string \<Rightarrow> string \<Rightarrow> chave_row option" where
  "given_key v ks c s = map_of (rev (map (\<lambda>k. ((c_IDCanal k, c_IDSessao k), key_row v k)) ks)) (c, s)"

lemma backup_key_upsert:
  assumes "upsert_ChaveBackup (int v) (c_IDCanal k) (c_IDSessao k) (c_FirstMessageIndex k) (c_ForwardedCount k)
    (c_IsVerified k) (c_SessionData k) d = Inr d'"
  shows "backup_key d' v' c s = (if v' = v \<and> c = c_IDCanal k \<and> s = c_IDSessao k then Some (key_row v k) else backup_key d v' c s)"
    and "t_VersaoBackup d' = t_VersaoBackup d"
proof -
  have d': "d' = d\<lparr>t_ChaveBackup := upsert_row (\<lambda>x. chave_key x = chave_key (key_row v k)) (\<lambda>_. key_row v k) (key_row v k) (t_ChaveBackup d)\<rparr>"
    using assms by (auto simp: upsert_ChaveBackup_def key_row_def raw_json_def Let_def split: option.splits if_splits)
  have "chave_key (key_row v k) = (v, c_IDCanal k, c_IDSessao k)" by (simp add: chave_key_def key_row_def)
  then show "backup_key d' v' c s = (if v' = v \<and> c = c_IDCanal k \<and> s = c_IDSessao k then Some (key_row v k) else backup_key d v' c s)"
    using upsert_row_find [of "\<lambda>x. chave_key x = chave_key (key_row v k)" chave_key "key_row v k" "\<lambda>_. key_row v k" "(v', c, s)" "t_ChaveBackup d"]
    by (auto simp: backup_key_def d' split: option.split)
  show "t_VersaoBackup d' = t_VersaoBackup d" by (simp add: d')
qed

lemma put_keys_run:
  assumes "forM ks (\<lambda>k. wrapM msg (db_exec TxCtx
      (upsert_ChaveBackup (int v) (c_IDCanal k) (c_IDSessao k) (c_FirstMessageIndex k) (c_ForwardedCount k)
        (c_IsVerified k) (c_SessionData k)))) w = (Ret x, w')" and "w_tx w = Active d"
  shows "\<exists>d'. w_tx w' = Active d' \<and> t_VersaoBackup d' = t_VersaoBackup d \<and>
    (\<forall>v' c s. backup_key d' v' c s =
      (if v' = v \<and> given_key v ks c s \<noteq> None then given_key v ks c s else backup_key d v' c s))"
  using assms
proof (induction ks arbitrary: w d)
  case Nil
  then show ?case by (simp add: ret_return given_key_def)
next
  case (Cons k ks)
  obtain d1 where d1: "upsert_ChaveBackup (int v) (c_IDCanal k) (c_IDSessao k) (c_FirstMessageIndex k) (c_ForwardedCount k)
      (c_IsVerified k) (c_SessionData k) d = Inr d1"
    and rest: "forM ks (\<lambda>k. wrapM msg (db_exec TxCtx
      (upsert_ChaveBackup (int v) (c_IDCanal k) (c_IDSessao k) (c_FirstMessageIndex k) (c_ForwardedCount k)
        (c_IsVerified k) (c_SessionData k)))) ((ticked w)\<lparr>w_tx := Active d1\<rparr>) = (Ret x, w')"
    using Cons.prems by (auto simp: ret_bind ret_wrap ret_exec_tx)
  from Cons.IH [OF rest] obtain d' where d': "w_tx w' = Active d'" "t_VersaoBackup d' = t_VersaoBackup d1"
    "\<And>v' c s. backup_key d' v' c s = (if v' = v \<and> given_key v ks c s \<noteq> None then given_key v ks c s else backup_key d1 v' c s)"
    by auto
  have "given_key v (k # ks) c s = (case given_key v ks c s of Some r \<Rightarrow> Some r
      | None \<Rightarrow> if c = c_IDCanal k \<and> s = c_IDSessao k then Some (key_row v k) else None)" for c s
    by (auto simp: given_key_def map_add_def split: option.split)
  then show ?case
    using d' backup_key_upsert [OF d1] by (intro exI [of _ d']) (auto split: option.split)
qed

lemma update_VersaoBackup_latest:
  assumes ok: "distinct (map vb_id (t_VersaoBackup d))" and l: "l \<in> set (t_VersaoBackup d)"
    and upd: "update_VersaoBackup (int (vb_id l)) n d = Inr (q, d')"
  shows "\<exists>etag. next_etag (vb_etag l) = Inr etag \<and> q = Some (n, etag) \<and>
    d' = d\<lparr>t_VersaoBackup := map (\<lambda>x. if vb_id x = vb_id l then x\<lparr>vb_count := n, vb_etag := etag\<rparr> else x) (t_VersaoBackup d)\<rparr>"
proof -
  have "x = l" if "x \<in> set (t_VersaoBackup d)" "vb_id x = vb_id l" for x
    using ok l that by (auto simp: distinct_map dest: inj_onD)
  moreover obtain r where "find (\<lambda>r. vb_id r = vb_id l) (t_VersaoBackup d) = Some r" "r \<in> set (t_VersaoBackup d)" "vb_id r = vb_id l"
    using l by (cases "find (\<lambda>r. vb_id r = vb_id l) (t_VersaoBackup d)") (auto simp: find_None_iff find_Some_iff)
  ultimately have "find (\<lambda>r. int (vb_id r) = int (vb_id l)) (t_VersaoBackup d) = Some l" by simp
  then show ?thesis using upd by (auto simp: update_VersaoBackup_def split: sum.splits)
qed

lemma sel_latest_mem: "sel_latest u d = Some l \<Longrightarrow> l \<in> set (t_VersaoBackup d) \<and> vb_usuario l = u"
proof -
  assume "sel_latest u d = Some l"
  then obtain xs where "rev (sort_key vb_id (filter (\<lambda>r. vb_usuario r = u) (t_VersaoBackup d))) = l # xs"
    unfolding sel_latest_def by (cases "rev (sort_key vb_id (filter (\<lambda>r. vb_usuario r = u) (t_VersaoBackup d)))") simp_all
  then have "l \<in> set (rev (sort_key vb_id (filter (\<lambda>r. vb_usuario r = u) (t_VersaoBackup d))))"
    by (metis list.set_intros(1))
  then show ?thesis by simp
qed

lemma PutRoomKeys_Ret:
  assumes "backups_ok (w_db w, sq)" and "PutRoomKeys p w = (Ret (cnt, etag), w')"
  shows "\<exists>l. sel_latest (prk_UserID p) (w_db w) = Some l \<and> ParseInt (prk_Version p) = Some (int (vb_id l)) \<and>
    next_etag (vb_etag l) = Inr etag \<and> cnt = count_keys (int (vb_id l)) (w_db w') \<and>
    t_VersaoBackup (w_db w') =
      map (\<lambda>x. if vb_id x = vb_id l then x\<lparr>vb_count := cnt, vb_etag := etag\<rparr> else x) (t_VersaoBackup (w_db w)) \<and>
    (\<forall>v c s. backup_key (w_db w') v c s =
      (if v = vb_id l \<and> given_key (vb_id l) (prk_Keys p) c s \<noteq> None then given_key (vb_id l) (prk_Keys p) c s
       else backup_key (w_db w) v c s))"
proof -
  obtain l where l: "sel_latest (prk_UserID p) (w_db w) = Some l" "ParseInt (prk_Version p) = Some (int (vb_id l))"
    and e: "Execute (\<lambda>txCtx. Storage_PutRoomKeys txCtx (int (vb_id l)) (map (\<lambda>k. k\<lparr>c_IDVersao := int (vb_id l)\<rparr>) (prk_Keys p)))
      (ticked w) = (Ret (cnt, etag), w')"
    using assms(2)
    by (auto simp: PutRoomKeys_def parseVersion_def Storage_GetLatestBackupVersion_def GetBackupVersionByID_def ret_simps view_def
        versao_of_row_def Let_def split: option.splits if_splits)
  have dist: "distinct (map vb_id (t_VersaoBackup (w_db w)))"
    using assms(1) strict_sorted_iff by (auto simp: backups_ok_def Let_def)
  let ?v = "vb_id l" and ?ks = "map (\<lambda>k. k\<lparr>c_IDVersao := int (vb_id l)\<rparr>) (prk_Keys p)"
  obtain w2 w3 u d where put: "forM ?ks (\<lambda>k. wrapM ''failed to upsert room key'' (db_exec TxCtx
      (upsert_ChaveBackup (int ?v) (c_IDCanal k) (c_IDSessao k) (c_FirstMessageIndex k) (c_ForwardedCount k)
        (c_IsVerified k) (c_SessionData k)))) ((ticked (ticked w))\<lparr>w_tx := Active (w_db w)\<rparr>) = (Ret u, w2)"
    and upd: "bindM (db_returning TxCtx (\<lambda>d. update_VersaoBackup (int ?v) (count_keys (int ?v) d) d)) scan_row w2 = (Ret (cnt, etag), w3)"
    and d: "w_tx w3 = Active d" "w_db w' = d"
    using e by (auto simp: ret_Execute Storage_PutRoomKeys_def ret_bind ret_wrap ticked_def)
  have given: "given_key ?v ?ks = given_key ?v (prk_Keys p)"
    by (simp add: given_key_def comp_def key_row_def fun_eq_iff)
  have "w_tx ((ticked (ticked w))\<lparr>w_tx := Active (w_db w)\<rparr>) = Active (w_db w)" by simp
  from put_keys_run [OF put this, unfolded given] obtain d2 where d2: "w_tx w2 = Active d2"
    "t_VersaoBackup d2 = t_VersaoBackup (w_db w)"
    "\<forall>v c s. backup_key d2 v c s = (if v = ?v \<and> given_key ?v (prk_Keys p) c s \<noteq> None then given_key ?v (prk_Keys p) c s
        else backup_key (w_db w) v c s)"
    by blast
  have "update_VersaoBackup (int ?v) (count_keys (int ?v) d2) d2 = Inr (Some (cnt, etag), d)"
    using upd d d2(1)
    by (auto simp: ret_bind db_returning_def ret_stmt view_def store_def scan_row_def ticked_def ret_simps split: option.splits)
  then obtain etag' where upd: "next_etag (vb_etag l) = Inr etag'" "etag = etag'" "cnt = count_keys (int ?v) d2"
    "d = d2\<lparr>t_VersaoBackup := map (\<lambda>x. if vb_id x = ?v then x\<lparr>vb_count := cnt, vb_etag := etag\<rparr> else x) (t_VersaoBackup d2)\<rparr>"
    using update_VersaoBackup_latest [of d2 l "count_keys (int ?v) d2" "Some (cnt, etag)" d] sel_latest_mem [OF l(1)] dist d2(2)
    by auto
  then have "count_keys (int ?v) d = count_keys (int ?v) d2" "backup_key d = backup_key d2"
    by (simp_all add: count_keys_def backup_key_def fun_eq_iff)
  then show ?thesis using l upd d(2) d2(2,3) by (intro exI [of _ l]) simp
qed

end
