(* ===== verification/Queue_Facts.thy ===== *)
theory Queue_Facts
  imports Device_Invariants
begin

text \<open>
  The queues of a device: to-device messages and one-time keys. Both are tables in the order of their
  sequence, so the SQL sorts leave them as they are, reading takes a prefix and an acknowledgement or a
  claim drops one.
\<close>

subsection \<open>Lists in the order of a sequence\<close>

lemma sort_key_sorted: "sorted_wrt (<) (map f xs) \<Longrightarrow> sort_key f xs = xs" for f :: "'a \<Rightarrow> nat"
  by (rule sort_key_id_if_sorted) (simp add: strict_sorted_imp_sorted)

text \<open>In a sorted list the elements beyond the \<open>n\<close>-th are those above the \<open>n\<close>-th key.\<close>

lemma filter_above_drop:
  fixes f :: "'a \<Rightarrow> nat"
  assumes "sorted_wrt (<) (map f xs)" and "xs \<noteq> []"
  shows "filter (\<lambda>x. f (last (take (Suc n) xs)) < f x) xs = drop (Suc n) xs"
  using assms
proof (induction xs arbitrary: n)
  case (Cons a xs)
  show ?case
  proof (cases n)
    case 0
    then show ?thesis using Cons.prems by (auto simp: filter_id_conv)
  next
    case (Suc m)
    show ?thesis
    proof (cases "xs = []")
      case False
      have l: "last (take (Suc n) (a # xs)) = last (take (Suc m) xs)" using False by (simp add: Suc)
      have "last (take (Suc m) xs) \<in> set xs" using False by (metis in_set_takeD last_in_set nat.distinct(1) take_eq_Nil2)
      then have "\<not> f (last (take (Suc m) xs)) < f a" using Cons.prems(1) by fastforce
      then show ?thesis using Cons.IH [of m] Cons.prems(1) False unfolding l by (simp add: Suc)
    qed (simp add: Suc)
  qed
qed simp

lemma foldl_max_sorted:
  fixes f :: "'a \<Rightarrow> int"
  assumes "sorted_wrt (<) (map f xs)" and "\<forall>x\<in>set xs. p < f x"
  shows "foldl (\<lambda>m x. if f x > m then f x else m) p xs = (if xs = [] then p else f (last xs))"
  using assms by (induction xs arbitrary: p) auto

subsection \<open>Messages\<close>

text \<open>The messages of a device above a position.\<close>

definition pending :: "string \<Rightarrow> string \<Rightarrow> int \<Rightarrow> db \<Rightarrow> todevice_row list" where
  "pending u dev pos d = filter (\<lambda>m. td_usuario m = u \<and> td_device m = dev \<and> pos < int (td_id m)) (t_Mensagem_ToDevice d)"

definition todevice_event :: "todevice_row \<Rightarrow> ToDeviceEventSync" where
  "todevice_event m = \<lparr>te_Content = Some (td_content m), te_Sender = td_sender m, te_Type = td_tipo m\<rparr>"

text \<open>What the token acknowledges.\<close>

definition acked :: "string \<Rightarrow> string \<Rightarrow> int \<Rightarrow> todevice_row \<Rightarrow> bool" where
  "acked u dev pos m \<longleftrightarrow> 0 < pos \<and> td_usuario m = u \<and> td_device m = dev \<and> int (td_id m) \<le> pos"

lemma pending_sorted:
  assumes "sorted_wrt (<) (map td_id (t_Mensagem_ToDevice d))"
  shows "sorted_wrt (<) (map td_id (pending u dev pos d))" and "sel_todevice u dev pos n d = take n (pending u dev pos d)"
proof -
  show s: "sorted_wrt (<) (map td_id (pending u dev pos d))"
    unfolding pending_def using assms by (rule sorted_filter)
  show "sel_todevice u dev pos n d = take n (pending u dev pos d)"
    unfolding sel_todevice_def pending_def [symmetric] by (simp add: sort_key_sorted [OF s])
qed

lemma pending_filter:
  assumes "\<And>m. td_usuario m = u \<Longrightarrow> td_device m = dev \<Longrightarrow> pos < int (td_id m) \<Longrightarrow> P m"
  shows "pending u dev pos (d\<lparr>t_Mensagem_ToDevice := filter P (t_Mensagem_ToDevice d)\<rparr>) = pending u dev pos d"
  using assms by (auto simp: pending_def intro: filter_cong)

lemma pending_next:
  assumes "sorted_wrt (<) (map td_id (t_Mensagem_ToDevice d))" and "pending u dev pos d \<noteq> []"
  shows "pending u dev (int (td_id (last (take (Suc n) (pending u dev pos d))))) d = drop (Suc n) (pending u dev pos d)"
proof -
  let ?q = "pending u dev pos d"
  let ?l = "last (take (Suc n) ?q)"
  have "?l \<in> set ?q" using assms(2) by (metis in_set_takeD last_in_set take_eq_Nil2 nat.distinct(1))
  then have "pos < int (td_id ?l)" by (simp add: pending_def)
  then have "pending u dev (int (td_id ?l)) d = filter (\<lambda>m. td_id ?l < td_id m) ?q"
    by (auto simp: pending_def intro!: filter_cong)
  then show ?thesis using filter_above_drop [OF pending_sorted(1) [OF assms(1)] assms(2), of n] by simp
qed

lemma getToDeviceSync_Ret:
  assumes "messages_ok (w_db w, s)" and "uuid_in v = Some dev"
    and "getToDeviceSync u v since w = (Ret (evs, pos'), w')"
  defines "q \<equiv> pending u dev (ToDevicePosition since) (w_db w)"
  shows "w_db w' = (w_db w)\<lparr>t_Mensagem_ToDevice := filter (\<lambda>m. \<not> acked u dev (ToDevicePosition since) m) (t_Mensagem_ToDevice (w_db w))\<rparr>"
    and "(case evs of None \<Rightarrow> [] | Some es \<Rightarrow> es) = map todevice_event (take 100 q)"
    and "pos' = (if q = [] then ToDevicePosition since else int (td_id (last (take 100 q))))"
proof -
  let ?pos = "ToDevicePosition since"
  let ?d = "(w_db w)\<lparr>t_Mensagem_ToDevice := filter (\<lambda>m. \<not> acked u dev ?pos m) (t_Mensagem_ToDevice (w_db w))\<rparr>"
  have v: "v \<noteq> ''''" using assms(2) by (auto simp: uuid_in_def)
  obtain x w1 ms where del: "(if ?pos > 0 then DeleteToDeviceMessagesUpTo Ctx u v ?pos else returnM ()) w = (Ret x, w1)"
    and get: "GetToDeviceMessagesSince Ctx u v ?pos 100 w1 = (Ret ms, w')"
    and res: "(if length ms = 0 then (None, ?pos)
        else (Some (map (\<lambda>m. \<lparr>te_Content = tm_Content m, te_Sender = tm_Sender m, te_Type = tm_Type m\<rparr>) ms),
              foldl (\<lambda>maxID m. if tm_ID m > maxID then tm_ID m else maxID) ?pos ms)) = (evs, pos')"
    using assms(3) v by (auto simp: getToDeviceSync_def Let_def ret_bind ret_return split: if_splits)
  have d: "w_db w1 = ?d"
    using del assms(2)
    by (auto simp: DeleteToDeviceMessagesUpTo_def delete_ToDevice_def ret_simps ret_exec_pool acked_def split: if_splits)
  have sorted: "sorted_wrt (<) (map td_id (t_Mensagem_ToDevice (w_db w)))" using assms(1) by (simp add: messages_ok_def Let_def)
  then have "sorted_wrt (<) (map td_id (t_Mensagem_ToDevice ?d))" by (simp add: sorted_filter)
  then have "w_db w' = ?d \<and> ms = map todevice_of_row (take 100 (pending u dev ?pos ?d))"
    using get assms(2)
    by (auto simp: GetToDeviceMessagesSince_def db_query_uuid_def db_returning_def ret_wrap ret_stmt view_def store_def
        ticked_def d pending_sorted(2))
  moreover have "pending u dev ?pos ?d = q" unfolding q_def by (rule pending_filter) (simp add: acked_def)
  ultimately have ms: "ms = map todevice_of_row (take 100 q)" and "w_db w' = ?d" by simp_all
  then show "w_db w' = ?d" by simp
  have "length ms = 0 \<longleftrightarrow> q = []" by (cases q) (simp_all add: ms)
  note res = res [unfolded this]
  show "(case evs of None \<Rightarrow> [] | Some es \<Rightarrow> es) = map todevice_event (take 100 q)"
    using res by (auto simp: ms todevice_of_row_def todevice_event_def split: if_splits)
  have "sorted_wrt (<) (map tm_ID ms)" "\<forall>m\<in>set ms. ?pos < tm_ID m"
    using pending_sorted(1) [OF sorted, of u dev ?pos, folded q_def, THEN sorted_wrt_take, of 100]
    by (auto simp: ms todevice_of_row_def sorted_wrt_map take_map q_def pending_def dest!: in_set_takeD)
  from foldl_max_sorted [OF this] show "pos' = (if q = [] then ?pos else int (td_id (last (take 100 q))))"
    using res by (auto simp: ms last_map todevice_of_row_def split: if_splits)
qed

subsection \<open>One-time keys\<close>

lemma otks_of_sorted:
  "otks_ok (d, s) \<Longrightarrow> sort_key ot_id (otks_of dev a d) = otks_of dev a d"
  unfolding otks_of_def by (rule sort_key_sorted) (simp add: otks_ok_def Let_def sorted_filter)

text \<open>Taking the first key of a device and algorithm leaves the others, and the other queues.\<close>

lemma otks_of_take:
  assumes ok: "otks_ok (d, s)" and first: "otks_of dev a d = r # rs"
  shows "otks_of dev2 a2 (d\<lparr>t_Chave_Uso_Unico := filter (\<lambda>x. ot_id x \<noteq> ot_id r) (t_Chave_Uso_Unico d)\<rparr>) =
    (if dev2 = dev \<and> a2 = a then rs else otks_of dev2 a2 d)"
proof -
  have dist: "distinct (map ot_id (t_Chave_Uso_Unico d))"
    using ok strict_sorted_iff by (auto simp: otks_ok_def Let_def)
  have "r \<in> set (otks_of dev a d)" by (simp add: first)
  then have r: "r \<in> set (t_Chave_Uso_Unico d)" "ot_device r = dev" "ot_algorithm r = a"
    by (simp_all add: otks_of_def)
  have same: "x = r" if "x \<in> set (t_Chave_Uso_Unico d)" "ot_id x = ot_id r" for x
    using dist r(1) that by (auto simp: distinct_map dest: inj_onD)
  have comm: "otks_of dev2 a2 (d\<lparr>t_Chave_Uso_Unico := filter (\<lambda>x. ot_id x \<noteq> ot_id r) (t_Chave_Uso_Unico d)\<rparr>) =
      filter (\<lambda>x. ot_id x \<noteq> ot_id r) (otks_of dev2 a2 d)"
    by (auto simp: otks_of_def intro!: filter_cong)
  show ?thesis
  proof (cases "dev2 = dev \<and> a2 = a")
    case True
    have "distinct (map ot_id (r # rs))"
      using dist first distinct_map_filter [of ot_id] by (metis otks_of_def)
    then have "\<forall>x\<in>set rs. ot_id x \<noteq> ot_id r" by (auto simp: image_iff)
    then have "filter (\<lambda>x. ot_id x \<noteq> ot_id r) rs = rs" by (simp add: filter_id_conv)
    then show ?thesis using True comm first by simp
  next
    case False
    have "filter (\<lambda>x. ot_id x \<noteq> ot_id r) (otks_of dev2 a2 d) = otks_of dev2 a2 d"
      unfolding otks_of_def filter_filter by (rule filter_cong [OF refl]) (use same r False in blast)
    then show ?thesis using False comm by (auto simp: first)
  qed
qed

text \<open>The fallback key of a device and algorithm, and the tables after it was handed out.\<close>

definition fallback_of :: "string \<Rightarrow> string \<Rightarrow> db \<Rightarrow> fallback_row option" where
  "fallback_of dev a d = find (\<lambda>x. fb_device x = dev \<and> fb_algorithm x = a) (t_Chave_Fallback d)"

definition mark_fallback :: "string \<Rightarrow> string \<Rightarrow> db \<Rightarrow> db" where
  "mark_fallback dev a d = d\<lparr>t_Chave_Fallback :=
     map (\<lambda>x. if fb_device x = dev \<and> fb_algorithm x = a then x\<lparr>fb_usada := True\<rparr> else x) (t_Chave_Fallback d)\<rparr>"

lemma returning_run:
  assumes "w_fault w (w_calls w) = None"
  shows "db_returning Ctx f w = (case f (w_db w) of Inl e \<Rightarrow> (Fail e, ticked w) | Inr (a, d') \<Rightarrow> (Ret a, (ticked w)\<lparr>w_db := d'\<rparr>))"
proof -
  have "((ticked w)\<lparr>w_db := d'\<rparr>)\<lparr>w_seqs := w_seqs w\<rparr> = (ticked w)\<lparr>w_db := d'\<rparr>" "(ticked w)\<lparr>w_seqs := w_seqs w\<rparr> = ticked w" for d'
    by (simp_all add: ticked_def)
  then show ?thesis
    using assms by (auto simp: db_returning_def getTxOrPool_def view_def store_def abort_def split: sum.split)
qed

lemma claimLocal_run:
  assumes ok: "otks_ok (w_db w, s)" and fault: "w_fault w = (\<lambda>_. None)" and dev: "uuid_in v = Some dev"
    and run: "claimLocal u (v, a) res w = (r, w')"
  shows "(case otks_of dev a (w_db w) of
      k # ks \<Rightarrow>
        r = Ret (res\<lparr>cl_OneTimeKeys := addClaimedKey u v (ot_key k) (ot_data k) (cl_OneTimeKeys res)\<rparr>) \<and>
        w_db w' = (w_db w)\<lparr>t_Chave_Uso_Unico := filter (\<lambda>x. ot_id x \<noteq> ot_id k) (t_Chave_Uso_Unico (w_db w))\<rparr> \<and>
        (\<forall>dev2 a2. otks_of dev2 a2 (w_db w') = (if dev2 = dev \<and> a2 = a then ks else otks_of dev2 a2 (w_db w)))
    | [] \<Rightarrow>
        (case fallback_of dev a (w_db w) of
           None \<Rightarrow> r = Ret res \<and> w_db w' = w_db w
         | Some f \<Rightarrow>
             r = Ret (res\<lparr>cl_OneTimeKeys := addClaimedKey u v (fb_key f) (fb_data f) (cl_OneTimeKeys res)\<rparr>) \<and>
             w_db w' = mark_fallback dev a (w_db w)))"
proof -
  have claim: "claim_Chave_Uso_Unico v a (w_db w) = (case otks_of dev a (w_db w) of
      [] \<Rightarrow> Inr (None, w_db w)
    | r # _ \<Rightarrow> Inr (Some r, (w_db w)\<lparr>t_Chave_Uso_Unico := filter (\<lambda>x. ot_id x \<noteq> ot_id r) (t_Chave_Uso_Unico (w_db w))\<rparr>))"
    by (simp add: claim_Chave_Uso_Unico_def dev otks_of_sorted [OF ok])
  show ?thesis
  proof (cases "otks_of dev a (w_db w)")
    case (Cons k ks)
    then have c: "claim_Chave_Uso_Unico v a (w_db w) =
        Inr (Some k, (w_db w)\<lparr>t_Chave_Uso_Unico := filter (\<lambda>x. ot_id x \<noteq> ot_id k) (t_Chave_Uso_Unico (w_db w))\<rparr>)"
      by (simp add: claim)
    show ?thesis
      using run fault unfolding Cons
      by (simp add: claimLocal_def ClaimOneTimeKey_def run_simps returning_run c raw_json_def)
        (auto simp: otks_of_take [OF ok Cons])
  next
    case Nil
    then have c: "claim_Chave_Uso_Unico v a (w_db w) = Inr (None, w_db w)"
      by (simp add: claim)
    let ?w = "(ticked w)\<lparr>w_db := w_db w\<rparr>"
    have w: "?w = ticked w" "w_fault (ticked w) n = None" "w_db (ticked w) = w_db w" for n
      using fault by (simp_all add: ticked_def)
    have f: "claim_Chave_Fallback v a (w_db w) =
        Inr (map_option (\<lambda>f. f\<lparr>fb_usada := True\<rparr>) (fallback_of dev a (w_db w)),
             if fallback_of dev a (w_db w) = None then w_db w else mark_fallback dev a (w_db w))"
      by (simp add: claim_Chave_Fallback_def dev fallback_of_def mark_fallback_def split: option.split)
    show ?thesis
      using run fault unfolding Nil
      by (simp add: claimLocal_def ClaimOneTimeKey_def ClaimFallbackKey_def run_simps returning_run c w f raw_json_def)
        (auto simp: ticked_def raw_json_def split: option.splits)
  qed
qed

end
