(* ===== verification/Signature_Facts.thy ===== *)
theory Signature_Facts
  imports Keys_Storage
begin

text \<open>
  What \<open>mergeSignatures\<close> does to the signature of each user with each key: the loops over the decoded
  maps are a pointwise override.
\<close>

subsection \<open>Signatures in a JSON object and in a decoded map\<close>

text \<open>The signature of a user with a key in a \<open>signatures\<close> object.\<close>

definition signature_at :: "json \<Rightarrow> string \<Rightarrow> string \<Rightarrow> json option" where
  "signature_at v u k = (case v of
       JObj us \<Rightarrow> (case member u us of Some (JObj ks) \<Rightarrow> member k ks | _ \<Rightarrow> None)
     | _ \<Rightarrow> None)"

text \<open>The same in a decoded map.\<close>

definition sig_of :: "sig_map \<Rightarrow> string \<Rightarrow> string \<Rightarrow> json option" where
  "sig_of m u k = (case map_of m u of Some (Some ks) \<Rightarrow> map_of ks k | _ \<Rightarrow> None)"

lemma map_of_foldl_last:
  "map_of (foldl (\<lambda>acc (k, x). AList.update k (f x) acc) acc ms) k =
     (case map_of (rev ms) k of Some x \<Rightarrow> Some (f x) | None \<Rightarrow> map_of acc k)"
  by (induction ms arbitrary: acc) (auto simp: update_conv' map_add_def split: option.split)

lemma unmarshal_sigs_at: "unmarshal_sigs v = Inr (Some m) \<Longrightarrow> sig_of m u k = signature_at v u k"
  by (auto simp: unmarshal_sigs_def sig_of_def signature_at_def map_of_foldl_last member_def dec_inner_def
      map_of_foldl_last [where f = id, simplified] dedup_members_def split: json.splits if_splits option.splits)

text \<open>Maps whose keys are distinct, as decoding makes them.\<close>

definition sigs_distinct :: "sig_map \<Rightarrow> bool" where
  "sigs_distinct m \<longleftrightarrow> distinct (map fst m) \<and> (\<forall>(u, i)\<in>set m. \<forall>ks. i = Some ks \<longrightarrow> distinct (map fst ks))"

lemma set_foldl_update:
  "set (foldl (\<lambda>acc (k, x). AList.update k (f x) acc) acc ms) \<subseteq> set acc \<union> (\<lambda>(k, x). (k, f x)) ` set ms"
proof (induction ms arbitrary: acc)
  case (Cons p ms)
  obtain k x where p: "p = (k, x)" by fastforce
  have "set (AList.update k (f x) acc) \<subseteq> insert (k, f x) (set acc)" by (induction acc) auto
  then show ?case using Cons [of "AList.update k (f x) acc"] by (auto simp: p)
qed simp

lemma distinct_foldl_update':
  "distinct (map fst acc) \<Longrightarrow> distinct (map fst (foldl (\<lambda>acc (k, x). AList.update k (f x) acc) acc ms))"
  by (induction ms arbitrary: acc) (auto simp: distinct_update)

lemma unmarshal_sigs_distinct: "unmarshal_sigs v = Inr (Some m) \<Longrightarrow> sigs_distinct m"
proof -
  assume "unmarshal_sigs v = Inr (Some m)"
  then obtain ms where m: "m = foldl (\<lambda>acc (k, x). AList.update k (fst (dec_inner x)) acc) [] ms"
    by (auto simp: unmarshal_sigs_def split: json.splits if_splits)
  have "distinct (map fst ks)" if "fst (dec_inner x) = Some ks" for x ks
    using that by (auto simp: dec_inner_def distinct_dedup split: json.splits)
  then show ?thesis
    using set_foldl_update [of "\<lambda>x. fst (dec_inner x)" "[]" ms] distinct_foldl_update' [of "[]" "\<lambda>x. fst (dec_inner x)" ms]
    by (fastforce simp: sigs_distinct_def m)
qed

lemma sig_of_merge_user:
  assumes "\<And>ks. i = Some ks \<Longrightarrow> distinct (map fst ks)"
  shows "sig_of (merge_user (u', i) m) u k =
    (case sig_of [(u', i)] u k of Some s \<Rightarrow> Some s | None \<Rightarrow> sig_of m u k)"
proof (cases i)
  case None
  then show ?thesis by (auto simp: merge_user_def sig_of_def update_conv' split: option.split)
next
  case (Some ks)
  have "map_of (rev ks) k = map_of ks k" using assms Some member_distinct [of ks k] by (simp add: member_def)
  then show ?thesis
    using Some map_of_foldl_last [of id _ ks k]
    by (auto simp: merge_user_def sig_of_def update_conv' Let_def split: option.split)
qed

lemma merge_user_distinct:
  assumes "sigs_distinct m"
  shows "sigs_distinct (merge_user p m)"
proof -
  obtain u i where p: "p = (u, i)" by fastforce
  let ?new = "foldl (\<lambda>ks (keyID, sig). AList.update keyID sig ks)
    (case map_of m u of Some (Some ks) \<Rightarrow> ks | _ \<Rightarrow> []) (case i of None \<Rightarrow> [] | Some ks \<Rightarrow> ks)"
  have "distinct (map fst (case map_of m u of Some (Some ks) \<Rightarrow> ks | _ \<Rightarrow> []))"
    using assms by (auto simp: sigs_distinct_def dest!: map_of_SomeD split: option.split)
  then have new: "distinct (map fst ?new)" by (rule distinct_foldl_update)
  have "set (AList.update u (Some ?new) m) \<subseteq> insert (u, Some ?new) (set m)" by (induction m) auto
  then show ?thesis using assms new by (fastforce simp: sigs_distinct_def merge_user_def p Let_def distinct_update)
qed

lemma sig_of_fold:
  assumes "distinct (map fst inc)" and "\<forall>(u, i)\<in>set inc. \<forall>ks. i = Some ks \<longrightarrow> distinct (map fst ks)"
  shows "sig_of (fold merge_user inc m) u k = (case sig_of inc u k of Some s \<Rightarrow> Some s | None \<Rightarrow> sig_of m u k)"
  using assms
proof (induction inc arbitrary: m)
  case (Cons p inc)
  obtain u' i where p: "p = (u', i)" by fastforce
  have i: "\<And>ks. i = Some ks \<Longrightarrow> distinct (map fst ks)" using Cons.prems(2) p by auto
  have later: "sig_of inc u k = None" if "u = u'"
    using Cons.prems(1) that p map_of_eq_None_iff [of inc u'] by (auto simp: sig_of_def)
  have head: "sig_of (p # inc) u k = (if u = u' then sig_of [(u', i)] u k else sig_of inc u k)"
    by (simp add: p sig_of_def)
  have other: "u \<noteq> u' \<Longrightarrow> sig_of [(u', i)] u k = None" by (simp add: sig_of_def)
  have "sig_of (fold merge_user (p # inc) m) u k =
      (case sig_of inc u k of Some s \<Rightarrow> Some s | None \<Rightarrow> sig_of (merge_user (u', i) m) u k)"
    using Cons.IH [of "merge_user (u', i) m"] Cons.prems by (simp add: p)
  also have "sig_of (merge_user (u', i) m) u k = (case sig_of [(u', i)] u k of Some s \<Rightarrow> Some s | None \<Rightarrow> sig_of m u k)"
    by (rule sig_of_merge_user [OF i])
  finally show ?case using later head other by (cases "u = u'") (simp_all split: option.split)
qed (simp add: sig_of_def)

lemma signature_at_marshal:
  assumes "sigs_distinct m"
  shows "signature_at (marshal_sigs m) u k = sig_of m u k"
proof -
  let ?f = "\<lambda>i. case i of None \<Rightarrow> JNull | Some ks \<Rightarrow> JObj (sort_members ks)"
  have "member u (map (\<lambda>(k, i). (k, ?f i)) m) = map_option ?f (map_of m u)"
    using assms by (simp add: member_distinct sigs_distinct_def comp_def case_prod_beta map_of_map)
  then have s: "signature_at (marshal_sigs m) u k =
      (case map_option ?f (map_of m u) of Some (JObj ks) \<Rightarrow> member k ks | _ \<Rightarrow> None)"
    by (simp add: signature_at_def marshal_sigs_def member_sort_members)
  show ?thesis
  proof (cases "map_of m u")
    case (Some i)
    show ?thesis
    proof (cases i)
      case [simp]: (Some ks)
      have "distinct (map fst ks)" using assms map_of_SomeD [OF \<open>map_of m u = Some i\<close>] by (auto simp: sigs_distinct_def)
      then show ?thesis using \<open>map_of m u = Some i\<close> by (simp add: s sig_of_def member_sort_members member_distinct)
    qed (use Some in \<open>simp add: s sig_of_def\<close>)
  qed (simp add: s sig_of_def)
qed

text \<open>The values that decode: objects of objects, with null for either.\<close>

definition object_or_null :: "json \<Rightarrow> bool" where
  "object_or_null v \<longleftrightarrow> (case v of JNull \<Rightarrow> True | JObj _ \<Rightarrow> True | _ \<Rightarrow> False)"

definition signatures_shape :: "json \<Rightarrow> bool" where
  "signatures_shape v \<longleftrightarrow> (case v of
       JNull \<Rightarrow> True
     | JObj users \<Rightarrow> list_all (\<lambda>m. object_or_null (snd m)) users
     | _ \<Rightarrow> False)"

lemma dec_inner_object: "\<not> snd (dec_inner v) \<longleftrightarrow> object_or_null v"
  by (cases v) (simp_all add: dec_inner_def object_or_null_def)

lemma unmarshal_sigs_null: "unmarshal_sigs v = Inr None \<longleftrightarrow> v = JNull"
  by (auto simp: unmarshal_sigs_def split: json.splits if_splits)

lemma unmarshal_sigs_shape:
  "unmarshal_sigs v = Inl e \<longleftrightarrow> e = type_error \<and> \<not> signatures_shape v"
proof (cases v)
  case (JObj ms)
  have "list_ex (\<lambda>m. snd (dec_inner (snd m))) ms \<longleftrightarrow> \<not> list_all (\<lambda>m. object_or_null (snd m)) ms"
    by (auto simp: list_ex_iff list_all_iff dec_inner_object [symmetric])
  then show ?thesis by (auto simp: JObj unmarshal_sigs_def signatures_shape_def)
qed (auto simp: unmarshal_sigs_def signatures_shape_def)

lemma foldl_update_Nil: "foldl (\<lambda>acc (k, x). AList.update k (f x) acc) acc ms = [] \<longleftrightarrow> acc = [] \<and> ms = []"
proof (induction ms arbitrary: acc)
  case (Cons p ms)
  obtain k x where p: "p = (k, x)" by fastforce
  have "AList.update k (f x) acc \<noteq> []" by (cases acc) auto
  then show ?case using Cons by (simp add: p)
qed simp

lemma unmarshal_sigs_empty: "unmarshal_sigs v = Inr (Some []) \<longleftrightarrow> v = JObj []"
proof (cases v)
  case (JObj ms)
  show ?thesis
    using foldl_update_Nil [of "\<lambda>x. fst (dec_inner x)" "[]" ms] by (auto simp: JObj unmarshal_sigs_def)
qed (simp_all add: unmarshal_sigs_def)

lemma mergeSignatures_cases:
  "case mergeSignatures (Some stored) (Some new) of
     Ret merged \<Rightarrow> signatures_shape stored \<and> signatures_shape new \<and> (stored = JNull \<longrightarrow> new \<in> {JNull, JObj []})
   | Fail e \<Rightarrow> e = type_error \<and> \<not> (signatures_shape stored \<and> signatures_shape new)
   | Panic \<Rightarrow> stored = JNull \<and> signatures_shape new \<and> new \<notin> {JNull, JObj []}"
proof (cases "unmarshal_sigs stored")
  case (Inl e)
  then have "e = type_error" "\<not> signatures_shape stored" using unmarshal_sigs_shape [of stored e] by simp_all
  with Inl show ?thesis by (simp add: mergeSignatures_def)
next
  case (Inr old)
  then have so: "signatures_shape stored" using unmarshal_sigs_shape [of stored type_error] by simp
  show ?thesis
  proof (cases "unmarshal_sigs new")
    case (Inl e)
    then have "e = type_error" "\<not> signatures_shape new" using unmarshal_sigs_shape [of new e] by simp_all
    with Inl Inr show ?thesis by (simp add: mergeSignatures_def)
  next
    case inc: (Inr inc)
    then have sn: "signatures_shape new" using unmarshal_sigs_shape [of new type_error] by simp
    have no_user: "(case inc of None \<Rightarrow> [] | Some m \<Rightarrow> m) = [] \<longleftrightarrow> new \<in> {JNull, JObj []}"
      unfolding insert_iff empty_iff unmarshal_sigs_null [symmetric] unmarshal_sigs_empty [symmetric] inc
      by (cases inc) simp_all
    have null: "stored = JNull \<longleftrightarrow> old = None" unfolding unmarshal_sigs_null [symmetric] Inr by simp
    show ?thesis
    proof (cases old)
      case None
      have "mergeSignatures (Some stored) (Some new) = (if new \<in> {JNull, JObj []} then Ret JNull else Panic)"
        unfolding mergeSignatures_def option.case Inr inc sum.case Let_def None no_user ..
      then show ?thesis using so sn null None by simp
    next
      case (Some m)
      then show ?thesis using so sn null by (simp add: mergeSignatures_def Inr inc Let_def)
    qed
  qed
qed

lemma signature_at_null: "signature_at JNull u k = None"
  by (simp add: signature_at_def)

lemma signatures_merged:
  assumes "mergeSignatures (Some stored) (Some new) = Ret merged"
  shows "signature_at merged u k = (case signature_at new u k of Some s \<Rightarrow> Some s | None \<Rightarrow> signature_at stored u k)"
proof -
  obtain old inc where old: "unmarshal_sigs stored = Inr old" and inc: "unmarshal_sigs new = Inr inc"
    and merged: "(case old of None \<Rightarrow> if (case inc of None \<Rightarrow> [] | Some m \<Rightarrow> m) = [] then Ret JNull else Panic
      | Some m \<Rightarrow> Ret (marshal_sigs (fold merge_user (case inc of None \<Rightarrow> [] | Some m \<Rightarrow> m) m))) = Ret merged"
    using assms by (auto simp: mergeSignatures_def Let_def split: sum.splits)
  have new: "signature_at new u k = sig_of (case inc of None \<Rightarrow> [] | Some m \<Rightarrow> m) u k"
    using unmarshal_sigs_at [of new] unmarshal_sigs_null [of new, THEN iffD1] inc
    by (cases inc) (auto simp: signature_at_null sig_of_def)
  show ?thesis
  proof (cases old)
    case None
    then have "merged = JNull" "sig_of (case inc of None \<Rightarrow> [] | Some m \<Rightarrow> m) u k = None"
      using merged by (auto simp: sig_of_def split: if_splits option.splits)
    then show ?thesis using unmarshal_sigs_null [of stored] old None new by (simp add: signature_at_null)
  next
    case (Some m)
    let ?inc = "case inc of None \<Rightarrow> [] | Some m \<Rightarrow> m"
    have m: "merged = marshal_sigs (fold merge_user ?inc m)" using merged Some by simp
    have "sigs_distinct ?inc" using unmarshal_sigs_distinct [of new] inc by (cases inc) (auto simp: sigs_distinct_def)
    then have d: "distinct (map fst ?inc)" "\<forall>(u, i)\<in>set ?inc. \<forall>ks. i = Some ks \<longrightarrow> distinct (map fst ks)"
      by (simp_all add: sigs_distinct_def)
    have "sigs_distinct m" using unmarshal_sigs_distinct [of stored] old Some by simp
    then have "sigs_distinct (fold merge_user ps m)" for ps by (induction ps arbitrary: m) (simp_all add: merge_user_distinct)
    then have "signature_at merged u k = sig_of (fold merge_user ?inc m) u k" unfolding m by (rule signature_at_marshal)
    also have "\<dots> = (case sig_of ?inc u k of Some s \<Rightarrow> Some s | None \<Rightarrow> sig_of m u k)" by (rule sig_of_fold [OF d])
    also have "sig_of m u k = signature_at stored u k" using unmarshal_sigs_at [of stored] old Some by simp
    finally show ?thesis by (simp add: new)
  qed
qed

end
