(* ===== verification/Device_Props.thy ===== *)
theory Device_Props
  imports Queue_Facts Signature_Facts Examples
begin

text \<open>The properties of devices: the integrity of their tables, their message queue, their keys.\<close>

subsection \<open>A device\<close>

text \<open>A user with two devices; the first has a message, one-time keys, a fallback key and device keys.\<close>

definition dev1 :: string where
  "dev1 = ''0123abcd-0000-4000-8000-000000000001''"

definition dev2 :: string where
  "dev2 = ''0123abcd-0000-4000-8000-000000000002''"

definition device_db :: "db" where
  "device_db = empty_db
     \<lparr>t_Usuario := [\<lparr>us_id = ''@u:a'', us_localpart = ''u'', us_senha_hash = ''pw'', us_created_at = 0\<rparr>,
                    \<lparr>us_id = ''@v:a'', us_localpart = ''v'', us_senha_hash = ''pv'', us_created_at = 0\<rparr>],
      t_Dispositivo := [\<lparr>dv_id = dev1, dv_usuario = ''@u:a'', dv_nome = ''phone'', dv_refresh = ''r1'', dv_expires = 500, dv_ip = '''', dv_visto = 0\<rparr>,
                        \<lparr>dv_id = dev2, dv_usuario = ''@u:a'', dv_nome = ''desk'', dv_refresh = ''r2'', dv_expires = 500, dv_ip = '''', dv_visto = 0\<rparr>],
      t_Chave_Uso_Unico := [\<lparr>ot_id = 1, ot_device = dev1, ot_key = ''curve:A'', ot_algorithm = ''curve'', ot_data = JStr ''a''\<rparr>,
                            \<lparr>ot_id = 2, ot_device = dev1, ot_key = ''curve:B'', ot_algorithm = ''curve'', ot_data = JStr ''b''\<rparr>],
      t_Mensagem_ToDevice := [\<lparr>td_id = 1, td_usuario = ''@u:a'', td_device = dev1, td_sender = ''@v:a'', td_tipo = ''m.x'', td_content = JNum 1\<rparr>,
                              \<lparr>td_id = 2, td_usuario = ''@u:a'', td_device = dev1, td_sender = ''@v:a'', td_tipo = ''m.x'', td_content = JNum 2\<rparr>]\<rparr>"

definition device_world :: "world" where
  "device_world = start_world\<lparr>w_db := device_db, w_seqs := start_seqs\<lparr>sq_otk := 3, sq_todevice := 3\<rparr>\<rparr>"

lemma device_world_ok: "devices_integrity (tables device_world)"
  by code_simp

lemma device_world_simps [simp]: "w_fault device_world = (\<lambda>_. None)" "w_tx device_world = NoTx"
  by (simp_all add: device_world_def start_world_def)

lemma uuid_dev1: "uuid_in dev1 = Some dev1"
  by code_simp

subsection \<open>Integrity\<close>

text \<open>C28. In every database the service can reach, the tables of devices, backups, keys and messages keep
  their schema: device ids and refresh tokens are unique, every device, backup, key and message belongs
  to a stored user or device, one-time keys and messages stand in the order of their sequence, and no
  key is stored twice.\<close>

theorem device_integrity:
  assumes "reachable ro sv w"
  shows "devices_ok (tables w) \<and> backups_ok (tables w) \<and> keys_ok (tables w) \<and> otks_ok (tables w) \<and> messages_ok (tables w)"
  using device_schema.invariant_reachable [OF assms] by (simp add: devices_integrity_def)

text \<open>A user who logs in and uploads keys.\<close>

definition plain_auth :: "auth_service" where
  "plain_auth = \<lparr>as_lib = \<lparr>al_compare = (\<lambda>h p. h = CHR ''h'' # p), al_hash = (\<lambda>salt p. Inr (CHR ''h'' # p)),
       al_sign = (\<lambda>secret u d e i. Inr (u @ CHR ''/'' # d)), al_newV7 = (\<lambda>bs t. Inr dev1), al_parse = (\<lambda>s. Inr s)\<rparr>,
     as_jwtSecret = ''k'', as_ServerName = ''a''\<rparr>"

definition registered :: "string outcome \<times> world" where
  "registered = Register plain_auth ''u'' ''pw'' start_world"

definition logged_in :: "LoginSuccess outcome \<times> world" where
  "logged_in = Login plain_auth \<lparr>lp_IdType = ''m.id.user'', lp_User = ''u'', lp_Password = ''pw'', lp_DeviceID = '''',
     lp_DeviceName = ''phone'', lp_DeviceIP = ''::1''\<rparr> (snd registered)"

definition keys_uploaded :: "(string \<times> int) list outcome \<times> world" where
  "keys_uploaded = UploadKeys \<lparr>uk_UserID = ''@u:a'', uk_DeviceID = dev1, uk_Algorithms = [''m.olm''], uk_IdentityKeys = Some (JObj []),
     uk_Signatures = Some (JObj []), uk_OneTimeKeys = [(''curve:A'', JStr ''a''), (''curve:B'', JStr ''b'')],
     uk_FallbackKeys = [(''curve:F'', JStr ''f'')]\<rparr> (snd logged_in)"

lemma keys_uploaded_works: "works registered" "works logged_in" "works keys_uploaded"
  by code_simp+

lemma keys_uploaded_reachable: "reachable plain_orders plain_server (snd keys_uploaded)"
proof -
  obtain a b c where "registered = (Ret a, snd registered)" "logged_in = (Ret b, snd logged_in)" "keys_uploaded = (Ret c, snd keys_uploaded)"
    using keys_uploaded_works [THEN run_works] by blast
  then have "api_step plain_orders plain_server start_world (snd registered)"
    "api_step plain_orders plain_server (snd registered) (snd logged_in)"
    "api_step plain_orders plain_server (snd logged_in) (snd keys_uploaded)"
    unfolding registered_def logged_in_def keys_uploaded_def by (fast intro: api_Register api_Login api_UploadKeys)+
  then show ?thesis by (blast intro: reachable_start_world reachable_step)
qed

lemma device_integrity_witness: "otks_ok (tables (snd keys_uploaded)) \<and> keys_ok (tables (snd keys_uploaded))"
  using device_integrity [OF keys_uploaded_reachable] by blast

subsection \<open>The message queue\<close>

text \<open>C26. A sync of a device hands out the first hundred messages above the position of its token, in the
  order they were queued; the new position leaves exactly the rest pending, so that the next sync
  continues there; and the only messages deleted are those the token acknowledged.\<close>

theorem to_device_delivery:
  assumes "messages_ok (tables w)" and "uuid_in v = Some dev"
    and "getToDeviceSync u v since w = (Ret (evs, pos'), w')"
  shows "let q = pending u dev (ToDevicePosition since) (w_db w) in
    (case evs of None \<Rightarrow> [] | Some es \<Rightarrow> es) = map todevice_event (take 100 q) \<and>
    pending u dev pos' (w_db w') = drop 100 q \<and>
    w_db w' = (w_db w)\<lparr>t_Mensagem_ToDevice :=
      filter (\<lambda>m. \<not> acked u dev (ToDevicePosition since) m) (t_Mensagem_ToDevice (w_db w))\<rparr>"
proof -
  let ?q = "pending u dev (ToDevicePosition since) (w_db w)"
  note ok = assms(1) [unfolded tables_def]
  note r = getToDeviceSync_Ret [OF ok assms(2,3)]
  have sorted: "sorted_wrt (<) (map td_id (t_Mensagem_ToDevice (w_db w)))" using ok by (simp add: messages_ok_def Let_def)
  have pos: "ToDevicePosition since \<le> pos'"
  proof (cases "?q = []")
    case False
    then have "last (take 100 ?q) \<in> set ?q" by (metis in_set_takeD last_in_set take_eq_Nil2 zero_neq_numeral)
    then show ?thesis using False by (auto simp: r(3) pending_def)
  qed (simp add: r(3))
  have "pending u dev pos' (w_db w') = pending u dev pos' (w_db w)"
    unfolding r(1) by (rule pending_filter) (use pos in \<open>auto simp: acked_def\<close>)
  also have "\<dots> = drop 100 ?q"
    using pending_next [OF sorted, of u dev "ToDevicePosition since" 99] by (cases "?q = []") (auto simp: r(3))
  finally show ?thesis using r(1,2) by (simp add: Let_def)
qed

definition sample_device_sync :: "(ToDeviceEventSync list option \<times> int) outcome \<times> world" where
  "sample_device_sync = getToDeviceSync ''@u:a'' dev1 (zeroToken\<lparr>ToDevicePosition := 1\<rparr>) device_world"

lemma sample_device_sync_result:
  "fst sample_device_sync = Ret (Some [\<lparr>te_Content = Some (JNum 2), te_Sender = ''@v:a'', te_Type = ''m.x''\<rparr>], 2)"
  by code_simp

lemma to_device_delivery_witness:
  "pending ''@u:a'' dev1 2 (w_db (snd sample_device_sync)) = drop 100 (pending ''@u:a'' dev1 1 (w_db device_world))"
proof -
  have "messages_ok (tables device_world)" using device_world_ok by (simp add: devices_integrity_def)
  from to_device_delivery [OF this uuid_dev1 run_Ret [OF sample_device_sync_result, unfolded sample_device_sync_def], unfolded Let_def,
      THEN conjunct2, THEN conjunct1]
  show ?thesis by (simp add: sample_device_sync_def)
qed

subsection \<open>One-time keys\<close>

text \<open>C27. When no call to the database fails: a claim hands out the oldest unclaimed one-time key of the device
  and algorithm and removes it, so no later claim gets it; every other device and algorithm keeps its keys,
  and no other table changes. When there is none left the fallback key is handed out instead, stays, and is
  marked as used; with neither, nothing happens.\<close>

theorem claim_key_effect:
  assumes "otks_ok (tables w)" and "w_fault w = (\<lambda>_. None)" and "uuid_in v = Some dev"
    and "claimLocal u (v, a) res w = (r, w')"
  shows "(case otks_of dev a (w_db w) of
      k # ks \<Rightarrow>
        r = Ret (res\<lparr>cl_OneTimeKeys := addClaimedKey u v (ot_key k) (ot_data k) (cl_OneTimeKeys res)\<rparr>) \<and>
        w_db w' = (w_db w)\<lparr>t_Chave_Uso_Unico := filter (\<lambda>x. ot_id x \<noteq> ot_id k) (t_Chave_Uso_Unico (w_db w))\<rparr> \<and>
        (\<forall>dev2 a2. otks_of dev2 a2 (w_db w') = (if dev2 = dev \<and> a2 = a then ks else otks_of dev2 a2 (w_db w)))
    | [] \<Rightarrow>
        (case fallback_of dev a (w_db w) of
           None \<Rightarrow> r = Ret res \<and> w_db w' = w_db w
         | Some f \<Rightarrow>
             r = Ret (res\<lparr>cl_OneTimeKeys := addClaimedKey u v (fb_key f) (fb_data f) (cl_OneTimeKeys res)\<rparr>) \<and>
             w_db w' = mark_fallback dev a (w_db w)))"
  using assms(1) unfolding tables_def by (rule claimLocal_run [OF _ assms(2,3,4)])

definition sample_claim :: "ClaimKeysResult outcome \<times> world" where
  "sample_claim = claimLocal ''@u:a'' (dev1, ''curve'') \<lparr>cl_OneTimeKeys = [], cl_Failures = []\<rparr> device_world"

lemma claim_key_effect_witness:
  "map ot_key (otks_of dev1 ''curve'' (w_db (snd sample_claim))) = [''curve:B'']"
proof -
  have q: "otks_of dev1 ''curve'' (w_db device_world) =
      [\<lparr>ot_id = 1, ot_device = dev1, ot_key = ''curve:A'', ot_algorithm = ''curve'', ot_data = JStr ''a''\<rparr>,
       \<lparr>ot_id = 2, ot_device = dev1, ot_key = ''curve:B'', ot_algorithm = ''curve'', ot_data = JStr ''b''\<rparr>]"
    by code_simp
  have ok: "otks_ok (tables device_world)" using device_world_ok by (simp add: devices_integrity_def)
  have "claimLocal ''@u:a'' (dev1, ''curve'') \<lparr>cl_OneTimeKeys = [], cl_Failures = []\<rparr> device_world = (fst sample_claim, snd sample_claim)"
    by (simp add: sample_claim_def)
  from claim_key_effect [OF ok device_world_simps(1) uuid_dev1 this]
  have "\<forall>dev2 a2. otks_of dev2 a2 (w_db (snd sample_claim)) = (if dev2 = dev1 \<and> a2 = ''curve''
      then [\<lparr>ot_id = 2, ot_device = dev1, ot_key = ''curve:B'', ot_algorithm = ''curve'', ot_data = JStr ''b''\<rparr>]
      else otks_of dev2 a2 (w_db device_world))"
    unfolding q list.case by blast
  then show ?thesis by simp
qed

subsection \<open>Signatures\<close>

text \<open>C32. Merging signatures adds the new ones and loses none: in the merged object a user's
  signature with a key is the incoming one where there is one, and the stored one otherwise. It fails exactly
  when the stored or the incoming value is not an object of objects (null counts as one), and panics exactly
  when the stored value is the JSON null and the incoming object names a user.\<close>

theorem merge_signatures_correct:
  "case mergeSignatures (Some stored) (Some new) of
     Ret merged \<Rightarrow> signatures_shape stored \<and> signatures_shape new \<and> (stored = JNull \<longrightarrow> new \<in> {JNull, JObj []}) \<and>
       (\<forall>u k. signature_at merged u k =
         (case signature_at new u k of Some s \<Rightarrow> Some s | None \<Rightarrow> signature_at stored u k))
   | Fail e \<Rightarrow> e = type_error \<and> \<not> (signatures_shape stored \<and> signatures_shape new)
   | Panic \<Rightarrow> stored = JNull \<and> signatures_shape new \<and> new \<notin> {JNull, JObj []}"
  using mergeSignatures_cases [of stored new] signatures_merged [of stored new] by (auto split: outcome.splits)

definition stored_signatures :: json where
  "stored_signatures = JObj [(''@u:a'', JObj [(''ed25519:k'', JStr ''old''), (''ed25519:l'', JStr ''kept'')])]"

definition new_signatures :: json where
  "new_signatures = JObj [(''@u:a'', JObj [(''ed25519:k'', JStr ''new'')])]"

lemma merge_signatures_correct_witness:
  "\<exists>merged. mergeSignatures (Some stored_signatures) (Some new_signatures) = Ret merged \<and>
     signature_at merged ''@u:a'' ''ed25519:k'' = Some (JStr ''new'') \<and>
     signature_at merged ''@u:a'' ''ed25519:l'' = Some (JStr ''kept'')"
proof -
  have s: "signatures_shape stored_signatures" "signatures_shape new_signatures" "stored_signatures \<noteq> JNull"
    "signature_at new_signatures ''@u:a'' ''ed25519:k'' = Some (JStr ''new'')"
    "signature_at new_signatures ''@u:a'' ''ed25519:l'' = None"
    "signature_at stored_signatures ''@u:a'' ''ed25519:l'' = Some (JStr ''kept'')"
    by code_simp+
  show ?thesis
    using merge_signatures_correct [of stored_signatures new_signatures] s by (simp split: outcome.splits)
qed

end
