(* ===== verification/Account_Props.thy ===== *)
theory Account_Props
  imports Backup_Facts Device_Props
begin

text \<open>The properties of accounts: tokens, key backups, keys of other users, presence, aliases and media.\<close>

subsection \<open>Refresh tokens\<close>

lemma Refresh_Ret:
  assumes "Refresh s tok w = (Ret (acc, new, ms), w')"
  shows "\<exists>r t1 t2. find (\<lambda>x. dv_refresh x = tok) (t_Dispositivo (w_db w)) = Some r \<and> w_clock w (w_ticks w) \<le> dv_expires r \<and>
    (\<exists>r'. dv_id r' = dv_id r \<and> dv_usuario r' = dv_usuario r \<and> dv_refresh r' = new \<and>
       update_Dispositivo r' (w_db w) = Inr (w_db w')) \<and>
    al_sign (as_lib s) (as_jwtSecret s) (dv_usuario r) (dv_id r) t1 t2 = Inr acc"
proof -
  obtain v t e seen u w1 w2 w3 w4 w5 w6 where
    get: "internalM (GetDispositivoByRefreshToken tok) w = (Ret (Some v), w1)" and now: "nowM w1 = (Ret t, w2)"
    and live: "\<not> d_RefreshTokenExpiresAt v < t" and gen: "GenerateRefreshToken w2 = (Ret (new, e), w3)"
    and now2: "nowM w3 = (Ret seen, w4)"
    and upd: "internalM (UpdateDevice Ctx (v\<lparr>d_RefreshToken := new, d_RefreshTokenExpiresAt := e, d_UltimoTimestampVisto := seen\<rparr>)) w4 = (Ret u, w5)"
    and sign: "internalM (GenerateAccessToken s (d_UsuarioID v) (d_ID v)) w5 = (Ret (acc, ms), w6)" and w': "w' = w6"
    using assms by (auto simp: Refresh_def ret_bind ret_panic ret_fail ret_return Let_def split: option.splits prod.splits if_splits)
  obtain r where f: "find (\<lambda>x. dv_refresh x = tok) (t_Dispositivo (w_db w)) = Some r" and v: "v = dispositivo_of_row r" and w1: "w1 = ticked w"
    using get by (auto simp: GetDispositivoByRefreshToken_def ret_simps view_def) (metis map_option_eq_Some)
  have t: "t = w_clock w (w_ticks w)" and d4: "w_db w4 = w_db w"
    using now gen now2 by (auto simp: GenerateRefreshToken_def ret_simps w1 ticked_def)
  let ?r = "row_of_dispositivo (v\<lparr>d_RefreshToken := new, d_RefreshTokenExpiresAt := e, d_UltimoTimestampVisto := seen\<rparr>)"
  have "update_Dispositivo ?r (w_db w) = Inr (w_db w5)"
    using upd by (auto simp: UpdateDevice_def ret_simps ret_exec_pool d4 ticked_def)
  moreover have "dv_id ?r = dv_id r" "dv_usuario ?r = dv_usuario r" "dv_refresh ?r = new"
    by (simp_all add: v row_of_dispositivo_def dispositivo_of_row_def)
  moreover have "w_db w' = w_db w5" "\<exists>t1 t2. al_sign (as_lib s) (as_jwtSecret s) (dv_usuario r) (dv_id r) t1 t2 = Inr acc"
    using sign by (auto simp: GenerateAccessToken_def ret_simps Let_def v w' dispositivo_of_row_def)
  moreover have "w_clock w (w_ticks w) \<le> dv_expires r" using live by (simp add: t v dispositivo_of_row_def)
  ultimately show ?thesis using f by metis
qed

text \<open>C30. A refresh succeeds only with the unexpired refresh token of a device, signs the access
  token for the owner of that device, and replaces the token: the old one belongs to no device
  afterwards, so it cannot be used again, and every other device stays as it was.\<close>

theorem refresh_rotates:
  assumes "devices_ok (tables w)" and "Refresh s tok w = (Ret (acc, new, ms), w')"
  shows "\<exists>r\<in>set (t_Dispositivo (w_db w)). \<exists>r' t1 t2.
    dv_refresh r = tok \<and> w_clock w (w_ticks w) \<le> dv_expires r \<and>
    al_sign (as_lib s) (as_jwtSecret s) (dv_usuario r) (dv_id r) t1 t2 = Inr acc \<and>
    dv_id r' = dv_id r \<and> dv_usuario r' = dv_usuario r \<and> dv_refresh r' = new \<and>
    w_db w' = (w_db w)\<lparr>t_Dispositivo := map (\<lambda>x. if x = r then r' else x) (t_Dispositivo (w_db w))\<rparr> \<and>
    (new \<noteq> tok \<longrightarrow> (\<forall>x\<in>set (t_Dispositivo (w_db w')). dv_refresh x \<noteq> tok))"
proof -
  obtain r r' t1 t2 where f: "find (\<lambda>x. dv_refresh x = tok) (t_Dispositivo (w_db w)) = Some r"
    and r: "w_clock w (w_ticks w) \<le> dv_expires r" "al_sign (as_lib s) (as_jwtSecret s) (dv_usuario r) (dv_id r) t1 t2 = Inr acc"
      "dv_id r' = dv_id r" "dv_usuario r' = dv_usuario r" "dv_refresh r' = new" "update_Dispositivo r' (w_db w) = Inr (w_db w')"
    using Refresh_Ret [OF assms(2)] by blast
  have m: "r \<in> set (t_Dispositivo (w_db w))" "dv_refresh r = tok" using f by (auto simp: find_Some_iff)
  have dist: "distinct (map dv_id (t_Dispositivo (w_db w)))" "distinct (map dv_refresh (t_Dispositivo (w_db w)))"
    using assms(1) by (auto simp: devices_ok_def tables_def Let_def)
  have id: "dv_id x = dv_id r \<longleftrightarrow> x = r" and token: "dv_refresh x = tok \<longleftrightarrow> x = r"
    if "x \<in> set (t_Dispositivo (w_db w))" for x
    using dist m that by (auto simp: distinct_map dest: inj_onD)
  have "w_db w' = (w_db w)\<lparr>t_Dispositivo :=
      map (\<lambda>x. if dv_id x = dv_id r' then r'\<lparr>dv_usuario := dv_usuario x\<rparr> else x) (t_Dispositivo (w_db w))\<rparr>"
    using r(6) by (auto simp: update_Dispositivo_def split: if_splits)
  also have "map (\<lambda>x. if dv_id x = dv_id r' then r'\<lparr>dv_usuario := dv_usuario x\<rparr> else x) (t_Dispositivo (w_db w)) =
      map (\<lambda>x. if x = r then r' else x) (t_Dispositivo (w_db w))"
    by (rule map_cong) (auto simp: r(3) id r(4) [symmetric])
  finally have d: "w_db w' = (w_db w)\<lparr>t_Dispositivo := map (\<lambda>x. if x = r then r' else x) (t_Dispositivo (w_db w))\<rparr>" .
  have "new \<noteq> tok \<longrightarrow> (\<forall>x\<in>set (t_Dispositivo (w_db w')). dv_refresh x \<noteq> tok)"
    using token r(5) by (auto simp: d)
  with m r(1-5) d show ?thesis by blast
qed

definition refreshed :: "(string \<times> string \<times> int) outcome \<times> world" where
  "refreshed = Refresh plain_auth ''r1'' device_world"

lemma refreshed_result: "fst refreshed = Ret (''@u:a/'' @ dev1, ''YWJjZGVm'', 1800000 - 2)"
  by code_simp

lemma refresh_rotates_witness:
  "''r1'' \<notin> dv_refresh ` set (t_Dispositivo (w_db (snd refreshed)))"
proof -
  have "devices_ok (tables device_world)" using device_world_ok by (simp add: devices_integrity_def)
  from refresh_rotates [OF this run_Ret [OF refreshed_result, unfolded refreshed_def]] show ?thesis
    by (auto simp: refreshed_def)
qed

subsection \<open>Login\<close>

lemma find_Some_in: "find P xs = Some x \<Longrightarrow> x \<in> set xs \<and> P x"
  by (auto simp: find_Some_iff)

lemma ret_case_fail:
  "(case a of Inl _ \<Rightarrow> failM e | Inr u \<Rightarrow> f u) w = (Ret b, w') \<longleftrightarrow> (\<exists>u. a = Inr u \<and> f u w = (Ret b, w'))"
  by (cases a) (auto simp: ret_fail)

lemma Login_Ret:
  assumes "Login s lp w = (Ret ok, w')"
  shows "(\<exists>r\<in>set (t_Usuario (w_db w)). us_id r = ls_UserID ok \<and> al_compare (as_lib s) (us_senha_hash r) (lp_Password lp)) \<and>
    (\<exists>nu. upsert_Dispositivo nu (w_db w) = Inr (w_db w') \<and>
       dv_id nu = ls_DeviceID ok \<and> dv_refresh nu = ls_RefreshToken ok \<and> dv_usuario nu = ls_UserID ok)"
proof -
  obtain mxid user w1 token exp w2 dev w3 t w4 u w5 acc ms w6 where
    get: "GetUsuarioByID Ctx mxid w = (Ret user, w1)" and pw: "al_compare (as_lib s) (u_SenhaHash user) (lp_Password lp)"
    and gen: "GenerateRefreshToken w1 = (Ret (token, exp), w2)" and dev: "loginDevice s (lp_DeviceID lp) w2 = (Ret dev, w3)"
    and now: "nowM w3 = (Ret t, w4)"
    and ups: "internalM (UpsertDispositivo Ctx \<lparr>d_ID = dev, d_Nome = lp_DeviceName lp, d_UsuarioID = u_ID user,
        d_RefreshToken = token, d_RefreshTokenExpiresAt = exp, d_UltimoIPVisto = lp_DeviceIP lp,
        d_UltimoTimestampVisto = t\<rparr>) w4 = (Ret u, w5)"
    and sign: "internalM (GenerateAccessToken s (u_ID user) dev) w5 = (Ret (acc, ms), w6)" and w': "w' = w6"
    and ok: "ls_DeviceID ok = dev" "ls_RefreshToken ok = token" "ls_UserID ok = u_ID user"
    using assms
    by (auto simp: Login_def ret_bind ret_case_fail ret_catch ret_fail ret_return Let_def split: prod.splits if_splits)
  obtain r where "r \<in> set (t_Usuario (w_db w))" "user = usuario_of_row r" and d1: "w_db w1 = w_db w"
    using get by (auto simp: GetUsuarioByID_def ret_simps view_def ticked_def dest: find_Some_in split: option.splits)
  then have "us_id r = ls_UserID ok" "al_compare (as_lib s) (us_senha_hash r) (lp_Password lp)"
    using pw by (simp_all add: ok usuario_of_row_def)
  moreover have "w_db w4 = w_db w"
    using gen dev now d1 by (auto simp: GenerateRefreshToken_def loginDevice_def ret_simps split: if_splits sum.splits)
  then have "upsert_Dispositivo (row_of_dispositivo \<lparr>d_ID = dev, d_Nome = lp_DeviceName lp, d_UsuarioID = u_ID user,
        d_RefreshToken = token, d_RefreshTokenExpiresAt = exp, d_UltimoIPVisto = lp_DeviceIP lp,
        d_UltimoTimestampVisto = t\<rparr>) (w_db w) = Inr (w_db w5)"
    using ups by (auto simp: UpsertDispositivo_def ret_simps ret_exec_pool ticked_def)
  moreover have "w_db w' = w_db w5" using sign by (auto simp: GenerateAccessToken_def ret_simps Let_def w')
  ultimately show ?thesis
    using \<open>r \<in> set (t_Usuario (w_db w))\<close> by (auto simp: row_of_dispositivo_def ok intro!: exI)
qed

lemma upsert_Dispositivo_row:
  assumes "upsert_Dispositivo nu d = Inr d'"
  shows "\<exists>x\<in>set (t_Dispositivo d'). dv_id x = dv_id nu \<and> dv_refresh x = dv_refresh nu \<and> dv_usuario x =
    (case find (\<lambda>x. dv_id x = dv_id nu) (t_Dispositivo d) of Some r \<Rightarrow> dv_usuario r | None \<Rightarrow> dv_usuario nu)"
proof -
  have d': "t_Dispositivo d' = upsert_row (\<lambda>x. dv_id x = dv_id nu) (\<lambda>x. nu\<lparr>dv_usuario := dv_usuario x\<rparr>) nu (t_Dispositivo d)"
    using assms by (auto simp: upsert_Dispositivo_def split: if_splits)
  have "find (\<lambda>x. dv_id x = dv_id nu) (t_Dispositivo d') =
      Some (case find (\<lambda>x. dv_id x = dv_id nu) (t_Dispositivo d) of None \<Rightarrow> nu | Some r \<Rightarrow> nu\<lparr>dv_usuario := dv_usuario r\<rparr>)"
    unfolding d' by (subst upsert_row_find [where k = dv_id]) simp_all
  from find_Some_in [OF this] show ?thesis
    by (intro bexI [of _ "case find (\<lambda>x. dv_id x = dv_id nu) (t_Dispositivo d) of None \<Rightarrow> nu | Some r \<Rightarrow> nu\<lparr>dv_usuario := dv_usuario r\<rparr>"])
      (auto split: option.split)
qed

text \<open>C29. A login checks the password of the user it names, but it gives the refresh token to the device
  it names without looking at the owner: the access token that a refresh with it returns is signed for
  whoever owned that device before, if the device was known, and for the user logged in only if it was
  new.\<close>

theorem login_device_owner:
  assumes "devices_ok (tables w)" and "Login s lp w = (Ret ok, w1)"
    and "Refresh s (ls_RefreshToken ok) w1 = (Ret (acc, new, ms), w2)"
  shows "(\<exists>r\<in>set (t_Usuario (w_db w)). us_id r = ls_UserID ok \<and> al_compare (as_lib s) (us_senha_hash r) (lp_Password lp)) \<and>
    (\<exists>t1 t2. al_sign (as_lib s) (as_jwtSecret s)
       (case find (\<lambda>x. dv_id x = ls_DeviceID ok) (t_Dispositivo (w_db w)) of Some r \<Rightarrow> dv_usuario r | None \<Rightarrow> ls_UserID ok)
       (ls_DeviceID ok) t1 t2 = Inr acc)"
proof -
  obtain nu where user: "\<exists>r\<in>set (t_Usuario (w_db w)). us_id r = ls_UserID ok \<and> al_compare (as_lib s) (us_senha_hash r) (lp_Password lp)"
    and nu: "upsert_Dispositivo nu (w_db w) = Inr (w_db w1)" "dv_id nu = ls_DeviceID ok" "dv_refresh nu = ls_RefreshToken ok"
      "dv_usuario nu = ls_UserID ok"
    using Login_Ret [OF assms(2)] by blast
  have "devices_ok (w_db w1, w_seqs w)" using devices_ok_upsert [OF nu(1)] assms(1) by (simp add: tables_def)
  then have unique: "distinct (map dv_refresh (t_Dispositivo (w_db w1)))" by (simp add: devices_ok_def Let_def)
  obtain x where x: "x \<in> set (t_Dispositivo (w_db w1))" "dv_id x = ls_DeviceID ok" "dv_refresh x = ls_RefreshToken ok"
    "dv_usuario x = (case find (\<lambda>x. dv_id x = ls_DeviceID ok) (t_Dispositivo (w_db w)) of Some r \<Rightarrow> dv_usuario r | None \<Rightarrow> ls_UserID ok)"
    using upsert_Dispositivo_row [OF nu(1)] unfolding nu(2-4) by blast
  obtain r t1 t2 where r: "find (\<lambda>x. dv_refresh x = ls_RefreshToken ok) (t_Dispositivo (w_db w1)) = Some r"
    "al_sign (as_lib s) (as_jwtSecret s) (dv_usuario r) (dv_id r) t1 t2 = Inr acc"
    using Refresh_Ret [OF assms(3)] by blast
  then have "r \<in> set (t_Dispositivo (w_db w1))" "dv_refresh r = ls_RefreshToken ok" by (auto simp: find_Some_iff)
  then have "r = x" using unique x(1,3) by (simp add: distinct_map inj_on_def)
  then show ?thesis using user r(2) x(2,4) by auto
qed

text \<open>A user logs in with the device of another one.\<close>

definition intruder_login :: "LoginSuccess outcome \<times> world" where
  "intruder_login = Login (plain_auth\<lparr>as_lib := (as_lib plain_auth)\<lparr>al_compare := (=)\<rparr>\<rparr>)
     \<lparr>lp_IdType = ''m.id.user'', lp_User = ''v'', lp_Password = ''pv'', lp_DeviceID = dev1, lp_DeviceName = '''', lp_DeviceIP = ''''\<rparr>
     device_world"

definition intruder_refresh :: "(string \<times> string \<times> int) outcome \<times> world" where
  "intruder_refresh = Refresh (plain_auth\<lparr>as_lib := (as_lib plain_auth)\<lparr>al_compare := (=)\<rparr>\<rparr>) ''YWJjZGVm'' (snd intruder_login)"

lemma intruder_results:
  "fst intruder_login = Ret \<lparr>ls_AccessToken = ''@v:a/'' @ dev1, ls_RefreshToken = ''YWJjZGVm'', ls_ExpireMS = 1800000 - 2,
     ls_UserID = ''@v:a'', ls_DeviceID = dev1\<rparr>"
  "fst intruder_refresh = Ret (''@u:a/'' @ dev1, ''YWJjZGVm'', 1800000 - 2)"
  by code_simp+

lemma login_device_owner_witness:
  "map_option dv_usuario (find (\<lambda>x. dv_id x = dev1) (t_Dispositivo (w_db device_world))) = Some ''@u:a'' \<and>
   (\<exists>r\<in>set (t_Usuario (w_db device_world)). us_id r = ''@v:a'' \<and> us_senha_hash r = ''pv'')"
proof -
  have ok: "devices_ok (tables device_world)" using device_world_ok by (simp add: devices_integrity_def)
  have owner: "map_option dv_usuario (find (\<lambda>x. dv_id x = dev1) (t_Dispositivo (w_db device_world))) = Some ''@u:a''" by code_simp
  note l = run_Ret [OF intruder_results(1), unfolded intruder_login_def]
  note r = run_Ret [OF intruder_results(2), unfolded intruder_refresh_def intruder_login_def]
  from login_device_owner [OF ok l, unfolded LoginSuccess.simps, OF r] owner
  show ?thesis by auto
qed

end
