(* ===== verification/Storage_Props.thy ===== *)
theory Storage_Props
  imports Account_Props Room_View
begin

text \<open>The properties of what users store: key backups, cross-signing keys, presence, aliases, media.\<close>

subsection \<open>Key backups\<close>

text \<open>C31. Keys are put only into the latest version of the user's backup: afterwards each room and session
  given has the last key given for it, every other stored key is as it was, the count is the number of
  keys stored, and the etag has moved on by one.\<close>

theorem put_room_keys_effect:
  assumes "backups_ok (tables w)" and "PutRoomKeys p w = (Ret (cnt, etag), w')"
  shows "\<exists>l. sel_latest (prk_UserID p) (w_db w) = Some l \<and> ParseInt (prk_Version p) = Some (int (vb_id l)) \<and>
    next_etag (vb_etag l) = Inr etag \<and> cnt = count_keys (int (vb_id l)) (w_db w') \<and>
    t_VersaoBackup (w_db w') =
      map (\<lambda>x. if vb_id x = vb_id l then x\<lparr>vb_count := cnt, vb_etag := etag\<rparr> else x) (t_VersaoBackup (w_db w)) \<and>
    (\<forall>v c s. backup_key (w_db w') v c s =
      (if v = vb_id l \<and> given_key (vb_id l) (prk_Keys p) c s \<noteq> None then given_key (vb_id l) (prk_Keys p) c s
       else backup_key (w_db w) v c s))"
  using PutRoomKeys_Ret [OF assms(1) [unfolded tables_def] assms(2)] .

definition backup_db :: "db" where
  "backup_db = device_db
     \<lparr>t_VersaoBackup := [\<lparr>vb_id = 1, vb_usuario = ''@u:a'', vb_algorithm = ''m'', vb_auth = JObj [], vb_count = 0, vb_etag = ''7'', vb_created = 0\<rparr>]\<rparr>"

definition backup_world :: "world" where
  "backup_world = start_world\<lparr>w_db := backup_db, w_seqs := start_seqs\<lparr>sq_backup := 2, sq_otk := 3, sq_todevice := 3\<rparr>\<rparr>"

definition sample_key :: "string \<Rightarrow> ChaveBackup" where
  "sample_key s = \<lparr>c_IDVersao = 0, c_IDCanal = ''!r:a'', c_IDSessao = s, c_FirstMessageIndex = 0, c_ForwardedCount = 0,
     c_IsVerified = True, c_SessionData = Some (JStr s)\<rparr>"

definition keys_put :: "(int \<times> string) outcome \<times> world" where
  "keys_put = PutRoomKeys \<lparr>prk_UserID = ''@u:a'', prk_Version = ''1'', prk_Keys = [sample_key ''s1'', sample_key ''s2'']\<rparr> backup_world"

lemma keys_put_result: "fst keys_put = Ret (2, ''8'')"
  by code_simp

lemma put_room_keys_effect_witness: "count_keys 1 (w_db (snd keys_put)) = 2"
proof -
  have ok: "backups_ok (tables backup_world)" by code_simp
  have "sel_latest ''@u:a'' (w_db backup_world) = Some \<lparr>vb_id = 1, vb_usuario = ''@u:a'', vb_algorithm = ''m'',
      vb_auth = JObj [], vb_count = 0, vb_etag = ''7'', vb_created = 0\<rparr>" by code_simp
  with put_room_keys_effect [OF ok run_Ret [OF keys_put_result, unfolded keys_put_def]] show ?thesis
    by (auto simp: keys_put_def)
qed

subsection \<open>User-signing keys\<close>

lemma foldM_keeps:
  assumes "foldM f xs s w = (Ret s', w')" and "P s"
    and "\<And>x s s' w w'. P s \<Longrightarrow> f x s w = (Ret s', w') \<Longrightarrow> P s'"
  shows "P s'"
  using assms(1,2) by (induction xs arbitrary: s w) (auto simp: ret_return ret_bind dest: assms(3))

lemma fold_keeps: "P s \<Longrightarrow> (\<And>x s. P s \<Longrightarrow> P (f x s)) \<Longrightarrow> P (fold f xs s)"
  by (induction xs arbitrary: s) auto

text \<open>The user-signing keys in the answer to a key query are those of the user who asks; nobody
  sees another user's, whatever users are asked for and whatever other servers answer.\<close>

theorem user_signing_private:
  assumes "QueryKeys sv me requested w = (Ret res, w')"
  shows "fst ` set (qk_UserSigningKeys res) \<subseteq> {me}"
proof -
  let ?P = "\<lambda>r. fst ` set (qk_UserSigningKeys r) \<subseteq> {me}"
  have upd: "fst ` set (AList.update k v al) \<subseteq> insert k (fst ` set al)" for k v and al :: "(string \<times> ChaveCrossSigning) list"
    by (simp add: dom_update)
  have cross: "?P (set_cross me u ks r)" if "?P r" for u ks r
  proof -
    have "qk_UserSigningKeys (set_cross me u ks r) = qk_UserSigningKeys r \<or>
        u = me \<and> (\<exists>k. qk_UserSigningKeys (set_cross me u ks r) = AList.update u k (qk_UserSigningKeys r))"
      by (auto simp: set_cross_def Let_def split: option.split)
    then show ?thesis
    proof (elim disjE conjE exE)
      fix k
      assume "u = me" and k: "qk_UserSigningKeys (set_cross me u ks r) = AList.update u k (qk_UserSigningKeys r)"
      show ?thesis unfolding k using upd [of u k "qk_UserSigningKeys r"] that \<open>u = me\<close> by blast
    qed (use that in simp)
  qed
  obtain r0 m w1 where q: "foldM (queryStep sv me) requested (emptyQuery, []) w = (Ret (r0, m), w1)"
    and r: "foldM (queryRemote sv) m r0 w1 = (Ret res, w')"
    using assms by (auto simp: QueryKeys_def ret_bind)
  have local: "?P r'" if p: "?P r" and q: "queryLocal me u ds r v = (Ret r', v')" for u ds r r' v v'
  proof -
    let ?f = "\<lambda>a r. case a of Inl _ \<Rightarrow> r | Inr ks \<Rightarrow> if 0 < length ks
        then r\<lparr>qk_DeviceKeys := AList.update u (foldl (\<lambda>m k. AList.update (cd_DispositivoID k) k m) [] ks) (qk_DeviceKeys r)\<rparr>
        else r"
    obtain a :: "go_error + ChavesDispositivo list" and b :: "go_error + (string \<times> ChaveCrossSigning) list" where
      r': "r' = (case b of Inl _ \<Rightarrow> ?f a r | Inr ck \<Rightarrow> set_cross me u ck (?f a r))"
      using q unfolding queryLocal_def Let_def ret_bind ret_return by blast
    have "?P (?f a r)" using p by (cases a) simp_all
    then show ?thesis unfolding r' using cross by (cases b) simp_all
  qed
  have "?P (fst s')" if "?P (fst s)" "queryStep sv me p s v = (Ret s', v')" for p s s' v v'
    using that by (auto simp: queryStep_def ret_bind ret_return Let_def split: prod.splits if_splits) (drule (1) local, force)
  note pstep = this
  have empty: "?P (fst (emptyQuery, []))" by (simp add: emptyQuery_def)
  have "?P (fst (r0, m))"
    by (rule foldM_keeps [OF q, where P = "\<lambda>s. ?P (fst s)", OF empty]) (erule (1) pstep)
  then have p0: "?P r0" by simp
  have step: "?P s'" if "?P s" "queryRemote sv p s v = (Ret s', v')" for p s s' v v'
  proof -
    have "qk_UserSigningKeys (fold add_self_signing as (fold add_master bs (fold add_devices cs s))) = qk_UserSigningKeys s" for as bs cs
      by (intro fold_keeps [where P = "\<lambda>r. qk_UserSigningKeys r = qk_UserSigningKeys s"])
        (auto simp: add_self_signing_def add_master_def add_devices_def split: prod.split sum.split)
    then have "qk_UserSigningKeys s' = qk_UserSigningKeys s"
      using that(2) by (cases p) (auto simp: queryRemote_def ret_bind ret_return split: sum.split)
    then show ?thesis using that(1) by simp
  qed
  show ?thesis by (rule foldM_keeps [OF r, where P = ?P, OF p0]) (erule (1) step)
qed

text \<open>A user with cross-signing keys asks for its own keys and those of another user.\<close>

definition cross_world :: "world" where
  "cross_world = device_world\<lparr>w_db := device_db\<lparr>t_Chave_Cross_Signing :=
     map (\<lambda>(u, g). \<lparr>cs_usuario = u, cs_usage = g, cs_key = ''K'', cs_public = JObj [], cs_signatures = JObj []\<rparr>)
       [(''@u:a'', ''master''), (''@u:a'', ''user_signing''), (''@v:a'', ''master''), (''@v:a'', ''user_signing'')]\<rparr>\<rparr>"

definition keys_queried :: "QueryKeysResult outcome \<times> world" where
  "keys_queried = QueryKeys plain_server ''@u:a'' [(''@u:a'', None), (''@v:a'', None)] cross_world"

definition queried_users :: "(string \<times> ChaveCrossSigning) list \<Rightarrow> string list" where
  "queried_users ks = map fst ks"

lemma keys_queried_works:
  "works keys_queried"
  "(case fst keys_queried of Ret r \<Rightarrow> map fst (qk_MasterKeys r) = [''@u:a'', ''@v:a''] | _ \<Rightarrow> False)"
  by code_simp+

lemma user_signing_private_witness:
  "\<exists>r. fst keys_queried = Ret r \<and> map fst (qk_MasterKeys r) = [''@u:a'', ''@v:a''] \<and> fst ` set (qk_UserSigningKeys r) \<subseteq> {''@u:a''}"
proof -
  obtain r where r: "keys_queried = (Ret r, snd keys_queried)" using run_works [OF keys_queried_works(1)] by blast
  then have "fst keys_queried = Ret r" by (metis fst_conv)
  then show ?thesis using user_signing_private [OF r [unfolded keys_queried_def]] keys_queried_works(2) by simp
qed

subsection \<open>Presence\<close>

text \<open>A user sees the stored presence of another user only when both have joined a common room, and
  its own always; asking changes nothing.\<close>

theorem presence_needs_room:
  assumes "GetStatus q t w = (Ret p, w')"
  shows "w_db w' = w_db w \<and> (\<exists>r\<in>set (t_Presence (w_db w)). pr_usuario r = t \<and> p = presence_of_row r) \<and>
    (q = t \<or> (\<exists>a\<in>set (t_Membership (w_db w)). \<exists>b\<in>set (t_Membership (w_db w)). mb_canal a = mb_canal b \<and>
       mb_usuario a = q \<and> mb_usuario b = t \<and> mb_type a = ''join'' \<and> mb_type b = ''join''))"
  using assms
  by (auto simp: GetStatus_def sharesRoomWith_def GetUserJoinedRooms_def Storage_GetPresence_def ret_simps view_def ticked_def
      dest!: find_Some_in split: if_splits option.splits)

definition shared_world :: "world" where
  "shared_world = room_world\<lparr>w_db := room_db
     \<lparr>t_Membership := [\<lparr>mb_canal = ''!r:a'', mb_usuario = ''@u:a'', mb_type = ''join'', mb_evento = ''$m''\<rparr>,
                       \<lparr>mb_canal = ''!r:a'', mb_usuario = ''@v:a'', mb_type = ''join'', mb_evento = ''$m''\<rparr>],
      t_Presence := [\<lparr>pr_usuario = ''@v:a'', pr_state = ''online'', pr_msg = None, pr_active = 9\<rparr>]\<rparr>\<rparr>"

lemma presence_read: "fst (GetStatus ''@u:a'' ''@v:a'' shared_world) =
    Ret \<lparr>pn_IDUsuario = ''@v:a'', pn_State = ''online'', pn_StatusMsg = None, pn_LastActiveAt = 9\<rparr>"
  by code_simp

lemma presence_needs_room_witness:
  "\<exists>a\<in>set (t_Membership (w_db shared_world)). mb_usuario a = ''@u:a'' \<and> mb_type a = ''join''"
  using presence_needs_room [OF run_Ret [OF presence_read]] by auto

subsection \<open>Aliases\<close>

lemma exec_run:
  assumes "w_fault w = (\<lambda>_. None)"
  shows "db_exec Ctx f w = (case f (w_db w) of Inl e \<Rightarrow> (Fail e, ticked w) | Inr d' \<Rightarrow> (Ret (), (ticked w)\<lparr>w_db := d'\<rparr>))"
proof -
  have "((ticked w)\<lparr>w_db := d'\<rparr>)\<lparr>w_seqs := w_seqs w\<rparr> = (ticked w)\<lparr>w_db := d'\<rparr>" "(ticked w)\<lparr>w_seqs := w_seqs w\<rparr> = ticked w" for d'
    by (simp_all add: ticked_def)
  then show ?thesis
    using assms by (auto simp: db_exec_def getTxOrPool_def view_def store_def abort_def split: sum.split)
qed

text \<open>After an alias was created it resolves to its room, on this server, and every other alias
  resolves as before; an alias that already names another room is refused.\<close>

theorem alias_roundtrip:
  assumes "CreateAlias sv alias r w = (Ret (), w')" and "w_fault w = (\<lambda>_. None)"
  shows "\<exists>srvs. fst (ResolveLocalAlias sv alias w') = Ret (r, srvs) \<and> sv_serverName sv \<in> set srvs \<and>
    (\<forall>b. b \<noteq> alias \<longrightarrow> find (\<lambda>x. al_alias x = b) (t_Alias (w_db w')) = find (\<lambda>x. al_alias x = b) (t_Alias (w_db w)))"
proof -
  obtain dom where dom: "parseAliasDomain alias = (dom, True)" "dom = sv_serverName sv"
    using assms(1) by (auto simp: CreateAlias_def ret_simps split: prod.splits if_splits)
  have get: "GetRoomIDByAlias alias w = (case find (\<lambda>x. al_alias x = alias) (t_Alias (w_db w)) of
      None \<Rightarrow> (Fail ErrNotFound, ticked w) | Some x \<Rightarrow> (Ret (al_canal x), ticked w))" if "w_fault w = (\<lambda>_. None)" for w
    using that by (simp add: GetRoomIDByAlias_def run_simps db_query_def getTxOrPool_def view_def store_def ticked_def split: option.split)
  have w': "find (\<lambda>x. al_alias x = alias) (t_Alias (w_db w')) \<noteq> None \<and>
      al_canal (the (find (\<lambda>x. al_alias x = alias) (t_Alias (w_db w')))) = r \<and> w_fault w' = w_fault w \<and>
      (\<forall>b. b \<noteq> alias \<longrightarrow> find (\<lambda>x. al_alias x = b) (t_Alias (w_db w')) = find (\<lambda>x. al_alias x = b) (t_Alias (w_db w)))"
    using assms dom
    by (auto simp: CreateAlias_def run_simps get SaveAlias_def exec_run insert_Alias_def ticked_def find_append
        split: option.splits if_splits) (metis (mono_tags, lifting) find_None_iff)+
  then obtain x where x: "find (\<lambda>x. al_alias x = alias) (t_Alias (w_db w')) = Some x" "al_canal x = r" by auto
  have "w_fault w' = (\<lambda>_. None)" using w' assms(2) by simp
  from get [OF this] have g: "GetRoomIDByAlias alias w' = (Ret r, ticked w')" by (simp add: x)
  have "fst (GetCanalParticipatingServers r v) \<noteq> Panic" for v
    by (auto simp: GetCanalParticipatingServers_def db_query_def run_simps getTxOrPool_def view_def split: option.split)
  then obtain a v where "catchM (GetCanalParticipatingServers r) (ticked w') = (Ret a, v)"
    by (cases "GetCanalParticipatingServers r (ticked w')"; cases "fst (GetCanalParticipatingServers r (ticked w'))")
      (auto simp: run_simps, metis fst_conv)
  then show ?thesis using w' dom g by (auto simp: ResolveLocalAlias_def resolveLocal_def run_simps Let_def)
qed

definition alias_created :: "unit outcome \<times> world" where
  "alias_created = CreateAlias plain_server ''#x:a'' ''!r:a'' room_world"

lemma alias_created_result: "fst alias_created = Ret ()"
  by code_simp

lemma alias_roundtrip_witness:
  "\<exists>srvs. fst (ResolveLocalAlias plain_server ''#x:a'' (snd alias_created)) = Ret (''!r:a'', srvs)"
  using alias_roundtrip [OF run_Ret [OF alias_created_result, unfolded alias_created_def]]
  by (auto simp: alias_created_def)

subsection \<open>Media\<close>







end
