(* ===== verification/Request_Effects.thy ===== *)
theory Request_Effects
  imports Handler_Laws
begin

text \<open>
  Which requests can change the database at all, and what the answer to a request depends on: the pattern its path
  takes, its credentials, and, for one route only, the result of checking a signature.
\<close>

subsection \<open>The pattern of a request\<close>

definition requested :: "handler \<Rightarrow> request \<Rightarrow> string option" where
  "requested h r = pattern_of (all_routes h) (hr_Method r) (hr_EscapedPath r)"

definition pattern_method :: "string \<Rightarrow> string" where
  "pattern_method s = fst (cut CHR '' '' s)"

lemma pattern_method_simps [simp]:
  "pattern_method (''GET '' @ p) = ''GET''" "pattern_method (''PUT '' @ p) = ''PUT''"
  "pattern_method (''POST '' @ p) = ''POST''" "pattern_method (''DELETE '' @ p) = ''DELETE''"
  by (simp_all add: pattern_method_def split: prod.split)

lemmas pattern_method_strings [simp] = pattern_method_simps [simplified]

lemma fst_parsePattern: "fst (parsePattern s) = pattern_method s"
  by (simp add: parsePattern_def pattern_method_def split: prod.split)

lemma of_method_pattern: "p \<in> set (of_method m (map (\<lambda>(s, a). (s, s)) rs)) \<Longrightarrow> pattern_method (snd (snd p)) = m"
  by (induction rs) (auto simp: of_method_def split_beta fst_parsePattern split: if_splits)

lemma pattern_of_method:
  assumes "pattern_of rs m path = Some s"
  shows "pattern_method s = m \<or> m = ''HEAD'' \<and> pattern_method s = ''GET''"
proof -
  obtain v e where "find_route (map (\<lambda>(s, a). (s, s)) rs) m path = Some (s, v, e)"
    using assms by (auto simp: pattern_of_def)
  then show ?thesis
    by (auto simp: find_route_def split: option.splits if_splits dest!: matchPath_in of_method_pattern)
qed

text \<open>A table without a repeated pattern: the handler is the one beside the pattern.\<close>

lemma find_route_map_of:
  assumes "distinct (map fst rs)"
  shows "find_route rs m path =
    map_option (\<lambda>(s, v, e). (the (map_of rs s), v, e)) (find_route (map (\<lambda>s. (s, s)) (map fst rs)) m path)"
proof -
  have same: "map (\<lambda>(s, a). (s, the (map_of rs (fst (s, a))))) rs = rs"
    using assms by (intro map_idI) auto
  have names: "map (\<lambda>s. (s, s)) (map fst rs) = map (\<lambda>(s, a). (s, fst (s, a))) rs" by auto
  show ?thesis
    unfolding names find_route_relabel [of fst]
    using find_route_relabel [of "\<lambda>p. the (map_of rs (fst p))" rs m path]
    unfolding same by (cases "find_route (map (\<lambda>(s, a). (s, s, a)) rs) m path") auto
qed

lemma pattern_of_names: "pattern_of rs m path = map_option fst (find_route (map (\<lambda>s. (s, s)) (map fst rs)) m path)"
proof -
  have "map (\<lambda>s. (s, s)) (map fst rs) = map (\<lambda>(s, a). (s, s)) rs" by auto
  then show ?thesis by (simp only: pattern_of_def)
qed

lemma has_route_map_fst:
  "map fst rs = map fst rs' \<Longrightarrow> has_route rs path m = has_route rs' path m"
proof -
  have *: "has_route rs path m \<longleftrightarrow> matchPath (of_method m (map (\<lambda>s. (s, s)) (map fst rs))) (path_segments path) \<noteq> None"
    for rs :: "'x routes"
  proof -
    have "map (\<lambda>s. (s, s)) (map fst rs) = map (\<lambda>(s, a). (s, fst (s, a))) rs" by auto
    then have "of_method m (map (\<lambda>s. (s, s)) (map fst rs)) = map (relabel fst) (of_method m (map (\<lambda>(s, a). (s, (s, a))) rs))"
      by (simp only: of_method_relabel)
    moreover have "map (\<lambda>(s, a). (s, snd (s, a))) rs = rs" by (induction rs) auto
    then have "of_method m rs = map (relabel snd) (of_method m (map (\<lambda>(s, a). (s, (s, a))) rs))"
      using of_method_relabel [of m snd rs] by simp
    ultimately show ?thesis by (simp add: has_route_def matchPath_relabel)
  qed
  assume "map fst rs = map fst rs'"
  then show ?thesis by (simp add: *)
qed

text \<open>Two tables with the same patterns treat a request alike when its pattern has the same handler in both.\<close>

lemma ServeMux_cong:
  assumes names: "map fst rs = map fst rs'" and d: "distinct (map fst rs)"
    and same: "\<And>s. pattern_of rs (hr_Method r) (hr_EscapedPath r) = Some s \<Longrightarrow> map_of rs s = map_of rs' s"
  shows "ServeMux rs r = ServeMux rs' r"
proof -
  have d': "distinct (map fst rs')" using names d by simp
  have exact: "exactMatch rs m path = exactMatch rs' m path" for m path
    by (auto simp: exactMatch_def find_route_map_of [OF d] find_route_map_of [OF d'] names split: option.split)
  have ms: "matchingMethods rs path = matchingMethods rs' path" for path
  proof -
    have m: "map (\<lambda>(s, a). fst (parsePattern s)) xs = map (\<lambda>s. fst (parsePattern s)) (map fst xs)" for xs :: "http_handler routes"
      by (induction xs) auto
    show ?thesis by (simp add: matchingMethods_def m names has_route_map_fst [OF names])
  qed
  have found: "find_route rs (hr_Method r) (hr_EscapedPath r) = find_route rs' (hr_Method r) (hr_EscapedPath r)"
  proof (cases "find_route (map (\<lambda>s. (s, s)) (map fst rs)) (hr_Method r) (hr_EscapedPath r)")
    case None
    then show ?thesis using names by (simp add: find_route_map_of [OF d] find_route_map_of [OF d'])
  next
    case (Some p)
    then obtain s v e where p: "p = (s, v, e)" by (cases p)
    have "map_of rs s = map_of rs' s" using same Some p by (simp add: pattern_of_names)
    then show ?thesis using Some p names by (simp add: find_route_map_of [OF d] find_route_map_of [OF d'])
  qed
  let ?path = "if hr_Method r = ''CONNECT'' then hr_EscapedPath r else cleanPath (hr_EscapedPath r)"
  show ?thesis
  proof (cases "?path = hr_EscapedPath r")
    case True
    show ?thesis unfolding ServeMux_def Let_def True exact ms found by (rule refl)
  next
    case False
    then show ?thesis by (simp add: ServeMux_def Let_def exact)
  qed
qed

text \<open>A request is silent when the handler of its pattern is.\<close>

lemma silent_ServeMux:
  assumes "\<And>s f v. (s, f) \<in> set rs \<Longrightarrow> pattern_of rs (hr_Method r) (hr_EscapedPath r) = Some s \<Longrightarrow>
      keeps silent_rel (f (r\<lparr>hr_PathValues := v\<rparr>))"
  shows "keeps silent_rel (ServeMux rs r)"
proof -
  have table: "keeps silent_rel (case find_route rs (hr_Method r) (hr_EscapedPath r) of
      Some (f, values, _) \<Rightarrow> f (r\<lparr>hr_PathValues := values\<rparr>) | None \<Rightarrow> e)" if "keeps silent_rel e" for e
  proof (cases "find_route rs (hr_Method r) (hr_EscapedPath r)")
    case (Some p)
    obtain f v x where p: "p = (f, v, x)" by (cases p)
    from find_route_pattern [OF Some [unfolded p]] obtain s
      where "(s, f) \<in> set rs" "pattern_of rs (hr_Method r) (hr_EscapedPath r) = Some s" .
    with assms Some p show ?thesis by simp
  qed (simp add: that)
  let ?path = "if hr_Method r = ''CONNECT'' then hr_EscapedPath r else cleanPath (hr_EscapedPath r)"
  show ?thesis
  proof (cases "?path = hr_EscapedPath r")
    case True
    show ?thesis
      unfolding ServeMux_def Let_def redirect_def True
      by (intro silent.keeps_if silent.keeps_return table silent_NotFound silent_textError)
  next
    case False
    then show ?thesis
      by (simp add: ServeMux_def Let_def redirect_def silent.keeps_return)
  qed
qed

subsection \<open>Requests that only read\<close>

text \<open>The function that fetches the media of other servers: none, or the client the server is built with.\<close>

definition plain_fetcher :: "handler \<Rightarrow> bool" where
  "plain_fetcher h \<longleftrightarrow> ms_remoteFetcher (h_media h) = None \<or> ms_remoteFetcher (h_media h) = Some FetchRemoteMedia"

lemma silent_Download:
  assumes "plain_fetcher h"
  shows "keeps silent_rel (Download (h_media h) srv i)"
proof -
  have "keeps silent_rel (downloadRemote (h_media h) srv i)"
    using assms unfolding plain_fetcher_def
    by (auto simp: downloadRemote_def silent.keeps_fail silent.keeps_wrap silent_FetchRemoteMedia)
  then show ?thesis unfolding Download_def downloadLocal_def by (intro silent_intros)
qed

lemma silent_downloadMedia: "plain_fetcher h \<Longrightarrow> keeps silent_rel (downloadMedia h r)"
  unfolding downloadMedia_def Let_def by (intro silent_intros silent_Download)

lemma silent_thumbnailMedia: "plain_fetcher h \<Longrightarrow> keeps silent_rel (thumbnailMedia h r)"
  unfolding thumbnailMedia_def Thumbnail_def Let_def by (intro silent_intros silent_Download)

text \<open>A property of all routes, table by table.\<close>

lemmas route_tables = auth_routes_def room_routes_def profile_routes_def account_routes_def media_routes_def
  presence_routes_def roomkeys_routes_def

definition reads_only :: "string \<times> http_handler \<Rightarrow> bool" where
  "reads_only p \<longleftrightarrow> (pattern_method (fst p) \<in> {''GET'', ''HEAD''} \<and> fst p \<noteq> ''GET /_matrix/client/v3/sync'' \<longrightarrow>
     (\<forall>r. keeps silent_rel (snd p r)))"

lemma reads_only_tables:
  assumes "plain_fetcher h"
  shows "list_all reads_only (auth_routes h (TokenBearerMiddleware h))"
    "list_all reads_only (room_routes h (TokenBearerMiddleware h))"
    "list_all reads_only (profile_routes h (TokenBearerMiddleware h))"
    "list_all reads_only (account_routes h (TokenBearerMiddleware h))"
    "list_all reads_only (media_routes h (TokenBearerMiddleware h))"
    "list_all reads_only (presence_routes h (TokenBearerMiddleware h))"
    "list_all reads_only (roomkeys_routes h (TokenBearerMiddleware h))"
    "list_all reads_only (federation_routes h)"
  by (simp_all add: route_tables federation_routes_def Let_def reads_only_def silent_handlers silent_downloadMedia [OF assms]
      silent_thumbnailMedia [OF assms] silent_TokenBearerMiddleware silent_xMatrixMiddleware)

lemma reads_only_routes: "plain_fetcher h \<Longrightarrow> list_all reads_only (all_routes h)"
  by (simp add: all_routes_def client_routes_def reads_only_tables)
    (simp add: reads_only_def silent_handlers silent_TokenBearerMiddleware)

lemma silent_get_routes:
  assumes "(s, f) \<in> set (all_routes h)" and "pattern_method s \<in> {''GET'', ''HEAD''}"
    and "s \<noteq> ''GET /_matrix/client/v3/sync''" and "plain_fetcher h"
  shows "keeps silent_rel (f r)"
  using reads_only_routes [OF assms(4)] assms(1-3) by (auto simp: list_all_iff reads_only_def dest!: bspec)

lemma silent_read_request:
  assumes "hr_Method r \<in> {''GET'', ''HEAD'', ''OPTIONS''}" and "requested h r \<noteq> Some ''GET /_matrix/client/v3/sync''"
    and "plain_fetcher h"
  shows "keeps silent_rel (RegisterRoutes h r)"
proof -
  have "keeps silent_rel (ServeMux (all_routes h) r)" if m: "hr_Method r \<noteq> ''OPTIONS''"
  proof (rule silent_ServeMux)
    fix s f v
    assume s: "(s, f) \<in> set (all_routes h)" "pattern_of (all_routes h) (hr_Method r) (hr_EscapedPath r) = Some s"
    have "pattern_method s \<in> {''GET'', ''HEAD''}" using pattern_of_method [OF s(2)] assms(1) m by auto
    moreover have "s \<noteq> ''GET /_matrix/client/v3/sync''" using assms(2) s(2) by (auto simp: requested_def)
    ultimately show "keeps silent_rel (f (r\<lparr>hr_PathValues := v\<rparr>))"
      using silent_get_routes [OF s(1)] assms(3) by blast
  qed
  then show ?thesis
    by (cases "hr_Method r = ''OPTIONS''")
      (simp_all add: RegisterRoutes_def logMiddleware_def corsMiddleware_def silent.keeps_bind silent.keeps_return silent_now)
qed

subsection \<open>Requests without credentials\<close>

text \<open>A token that the token middleware accepts at some time, or an \<open>X-Matrix\<close> header.\<close>

definition bearer_accepted :: "handler \<Rightarrow> request \<Rightarrow> int \<Rightarrow> bool" where
  "bearer_accepted h r now \<longleftrightarrow>
     has_prefix (HeaderGet r ''Authorization'') ''Bearer '' \<and>
     (case h_Parse h now (trim_prefix (HeaderGet r ''Authorization'') ''Bearer '') (jwtKey h) of
        Inl _ \<Rightarrow> False | Inr claims \<Rightarrow> jc_Valid claims)"

definition no_credentials :: "handler \<Rightarrow> request \<Rightarrow> bool" where
  "no_credentials h r \<longleftrightarrow>
     (\<forall>now. \<not> bearer_accepted h r now) \<and> \<not> has_prefix (HeaderGet r ''Authorization'') ''X-Matrix ''"

lemma no_credentials_token:
  assumes "no_credentials h r"
  shows "TokenBearerMiddleware h nxt r = TokenBearerMiddleware h nxt' r"
proof -
  have "\<not> jc_Valid c" if "has_prefix (HeaderGet r ''Authorization'') ''Bearer ''"
    "h_Parse h now (trim_prefix (HeaderGet r ''Authorization'') ''Bearer '') (jwtKey h) = Inr c" for now c
    using assms that unfolding no_credentials_def bearer_accepted_def by (metis sum.case(2))
  then show ?thesis
    by (auto simp: TokenBearerMiddleware_def Let_def run_bind nowM_def fun_eq_iff split: sum.split)
qed

lemma no_credentials_xMatrix: "no_credentials h r \<Longrightarrow> xMatrixMiddleware h nxt r = unauthorized ''missing or invalid X-Matrix authorization''"
  by (simp add: no_credentials_def xMatrixMiddleware_def parseXMatrixHeader_def)

lemma no_credentials_values [simp]: "no_credentials h (r\<lparr>hr_PathValues := v\<rparr>) = no_credentials h r"
  by (simp add: no_credentials_def bearer_accepted_def HeaderGet_def)

lemma silent_without_credentials:
  "no_credentials h r \<Longrightarrow> keeps silent_rel (TokenBearerMiddleware h nxt r)"
  "no_credentials h r \<Longrightarrow> keeps silent_rel (xMatrixMiddleware h nxt r)"
  using silent_TokenBearerMiddleware [of "\<lambda>_. panicM" h r] silent_panic
  by (auto simp: no_credentials_xMatrix silent_unauthorized no_credentials_token [of h r nxt "\<lambda>_. panicM"])

definition open_patterns :: "string set" where
  "open_patterns = {''POST /_matrix/client/v3/login'', ''POST /_matrix/client/v3/refresh'', ''POST /_matrix/client/v3/register''}"

definition shut_out :: "request \<Rightarrow> string \<times> http_handler \<Rightarrow> bool" where
  "shut_out r p \<longleftrightarrow> (fst p \<notin> open_patterns \<longrightarrow> keeps silent_rel (snd p r))"

lemma shut_out_tables:
  assumes "no_credentials h r"
  shows "list_all (shut_out r) (auth_routes h (TokenBearerMiddleware h))"
    "list_all (shut_out r) (room_routes h (TokenBearerMiddleware h))"
    "list_all (shut_out r) (profile_routes h (TokenBearerMiddleware h))"
    "list_all (shut_out r) (account_routes h (TokenBearerMiddleware h))"
    "list_all (shut_out r) (media_routes h (TokenBearerMiddleware h))"
    "list_all (shut_out r) (presence_routes h (TokenBearerMiddleware h))"
    "list_all (shut_out r) (roomkeys_routes h (TokenBearerMiddleware h))"
    "list_all (shut_out r) (federation_routes h)"
  by (simp_all add: route_tables federation_routes_def Let_def shut_out_def open_patterns_def silent_handlers
      silent_without_credentials [OF assms])

lemma shut_out_routes: "no_credentials h r \<Longrightarrow> list_all (shut_out r) (all_routes h)"
  by (simp add: all_routes_def client_routes_def shut_out_tables)
    (simp add: shut_out_def silent_handlers silent_without_credentials)

lemma silent_open_routes:
  assumes "(s, f) \<in> set (all_routes h)" and "s \<notin> open_patterns" and "no_credentials h r"
  shows "keeps silent_rel (f r)"
  using shut_out_routes [OF assms(3)] assms(1,2) by (auto simp: list_all_iff shut_out_def dest!: bspec)

lemma silent_anonymous_request:
  assumes "no_credentials h r" and "\<And>s. requested h r = Some s \<Longrightarrow> s \<notin> open_patterns"
  shows "keeps silent_rel (RegisterRoutes h r)"
proof -
  have "keeps silent_rel (ServeMux (all_routes h) r)"
  proof (rule silent_ServeMux)
    fix s f v
    assume "(s, f) \<in> set (all_routes h)" "pattern_of (all_routes h) (hr_Method r) (hr_EscapedPath r) = Some s"
    then show "keeps silent_rel (f (r\<lparr>hr_PathValues := v\<rparr>))"
      using assms by (intro silent_open_routes) (auto simp: requested_def)
  qed
  then show ?thesis
    by (simp add: RegisterRoutes_def logMiddleware_def corsMiddleware_def silent.keeps_bind silent.keeps_return silent_now)
qed

end
