(* ===== verification/Signature_Effects.thy ===== *)
theory Signature_Effects
  imports Request_Effects
begin

text \<open>
  What the answers depend on the result of \<^verbatim>\<open>ed25519.Verify\<close> for: a handler that is built with another verification
  function is the same handler, except where the leave of a user of another server is checked.
\<close>

named_theorems verify_simps "a handler that does not depend on the verification of signatures"

text \<open>A verification whose result is not used.\<close>

lemma handler_select:
  "h_sv (h\<lparr>h_verify := v\<rparr>) = h_sv h"
  "h_auth (h\<lparr>h_verify := v\<rparr>) = h_auth h"
  "h_media (h\<lparr>h_verify := v\<rparr>) = h_media h"
  "h_ro (h\<lparr>h_verify := v\<rparr>) = h_ro h"
  "h_ilike (h\<lparr>h_verify := v\<rparr>) = h_ilike h"
  "h_wait (h\<lparr>h_verify := v\<rparr>) = h_wait h"
  "h_Parse (h\<lparr>h_verify := v\<rparr>) = h_Parse h"
  "h_sha256 (h\<lparr>h_verify := v\<rparr>) = h_sha256 h"
  "h_Error (h\<lparr>h_verify := v\<rparr>) = h_Error h"
  "h_version (h\<lparr>h_verify := v\<rparr>) = h_version h"
  "h_publicKey (h\<lparr>h_verify := v\<rparr>) = h_publicKey h"
  "h_stats (h\<lparr>h_verify := v\<rparr>) = h_stats h"
  "h_static (h\<lparr>h_verify := v\<rparr>) = h_static h"
  by simp_all

lemma verify_bind [verify_simps]:
  "bindM (ed25519_Verify (h\<lparr>h_verify := v\<rparr>) k m s) (\<lambda>_. n) = bindM (ed25519_Verify h k m s) (\<lambda>_. n)"
  by (simp add: ed25519_Verify_def fun_eq_iff run_simps)

lemma verify_memberSignature [verify_simps]:
  "bindM (memberSignature (h\<lparr>h_verify := v\<rparr>) req) (\<lambda>_. n) = bindM (memberSignature h req) (\<lambda>_. n)"
  by (auto simp: memberSignature_def ed25519_Verify_def run_simps fun_eq_iff split: option.split prod.split outcome.split sum.split)

subsection \<open>Handlers\<close>

lemma verify_jwtKey [verify_simps]: "jwtKey (h\<lparr>h_verify := v\<rparr>) = jwtKey h"
  by (intro ext) (unfold jwtKey_def handler_select verify_simps, rule refl)

lemma verify_TokenBearerMiddleware [verify_simps]: "TokenBearerMiddleware (h\<lparr>h_verify := v\<rparr>) = TokenBearerMiddleware h"
  by (intro ext) (unfold TokenBearerMiddleware_def handler_select verify_simps, rule refl)

lemma verify_buildKey [verify_simps]: "buildKey (h\<lparr>h_verify := v\<rparr>) = buildKey h"
  by (intro ext) (unfold buildKey_def handler_select verify_simps, rule refl)

lemma verify_Cache_Get [verify_simps]: "Cache_Get (h\<lparr>h_verify := v\<rparr>) = Cache_Get h"
  by (intro ext) (unfold Cache_Get_def handler_select verify_simps, rule refl)

lemma verify_Cache_Set [verify_simps]: "Cache_Set (h\<lparr>h_verify := v\<rparr>) = Cache_Set h"
  by (intro ext) (unfold Cache_Set_def handler_select verify_simps, rule refl)

lemma verify_getPublicRooms [verify_simps]: "Rooms_Routes.getPublicRooms (h\<lparr>h_verify := v\<rparr>) = Rooms_Routes.getPublicRooms h"
  by (intro ext) (unfold Rooms_Routes.getPublicRooms_def handler_select verify_simps, rule refl)

lemma verify_postPublicRooms [verify_simps]: "Rooms_Routes.postPublicRooms (h\<lparr>h_verify := v\<rparr>) = Rooms_Routes.postPublicRooms h"
  by (intro ext) (unfold Rooms_Routes.postPublicRooms_def handler_select verify_simps, rule refl)

lemma verify_postCreateRoom [verify_simps]: "postCreateRoom (h\<lparr>h_verify := v\<rparr>) = postCreateRoom h"
  by (intro ext) (unfold postCreateRoom_def handler_select verify_simps, rule refl)

lemma verify_joinResolved [verify_simps]: "joinResolved (h\<lparr>h_verify := v\<rparr>) = joinResolved h"
  by (intro ext) (unfold joinResolved_def handler_select verify_simps, rule refl)

lemma verify_postJoinRoom [verify_simps]: "postJoinRoom (h\<lparr>h_verify := v\<rparr>) = postJoinRoom h"
  by (intro ext) (unfold postJoinRoom_def handler_select verify_simps, rule refl)

lemma verify_postLeaveRoom [verify_simps]: "postLeaveRoom (h\<lparr>h_verify := v\<rparr>) = postLeaveRoom h"
  by (intro ext) (unfold postLeaveRoom_def handler_select verify_simps, rule refl)

lemma verify_postInviteRoom [verify_simps]: "postInviteRoom (h\<lparr>h_verify := v\<rparr>) = postInviteRoom h"
  by (intro ext) (unfold postInviteRoom_def handler_select verify_simps, rule refl)

lemma verify_putSendEvent [verify_simps]: "putSendEvent (h\<lparr>h_verify := v\<rparr>) = putSendEvent h"
  by (intro ext) (unfold putSendEvent_def handler_select verify_simps, rule refl)

lemma verify_putStateEvent [verify_simps]: "putStateEvent (h\<lparr>h_verify := v\<rparr>) = putStateEvent h"
  by (intro ext) (unfold putStateEvent_def handler_select verify_simps, rule refl)

lemma verify_getRoomState [verify_simps]: "Rooms_Routes.getRoomState (h\<lparr>h_verify := v\<rparr>) = Rooms_Routes.getRoomState h"
  by (intro ext) (unfold Rooms_Routes.getRoomState_def handler_select verify_simps, rule refl)

lemma verify_getRoomMessages [verify_simps]: "getRoomMessages (h\<lparr>h_verify := v\<rparr>) = getRoomMessages h"
  by (intro ext) (unfold getRoomMessages_def handler_select verify_simps, rule refl)

lemma verify_postReceipt [verify_simps]: "postReceipt (h\<lparr>h_verify := v\<rparr>) = postReceipt h"
  by (intro ext) (unfold postReceipt_def handler_select verify_simps, rule refl)

lemma verify_postReadMarkers [verify_simps]: "postReadMarkers (h\<lparr>h_verify := v\<rparr>) = postReadMarkers h"
  by (intro ext) (unfold postReadMarkers_def handler_select verify_simps, rule refl)

lemma verify_getEvent [verify_simps]: "Rooms_Routes.getEvent (h\<lparr>h_verify := v\<rparr>) = Rooms_Routes.getEvent h"
  by (intro ext) (unfold Rooms_Routes.getEvent_def handler_select verify_simps, rule refl)

lemma verify_getRoomStateAll [verify_simps]: "getRoomStateAll (h\<lparr>h_verify := v\<rparr>) = getRoomStateAll h"
  by (intro ext) (unfold getRoomStateAll_def handler_select verify_simps, rule refl)

lemma verify_getJoinedMembers [verify_simps]: "getJoinedMembers (h\<lparr>h_verify := v\<rparr>) = getJoinedMembers h"
  by (intro ext) (unfold getJoinedMembers_def handler_select verify_simps, rule refl)

lemma verify_putTyping [verify_simps]: "putTyping (h\<lparr>h_verify := v\<rparr>) = putTyping h"
  by (intro ext) (unfold putTyping_def handler_select verify_simps, rule refl)

lemma verify_getRoomMembers [verify_simps]: "getRoomMembers (h\<lparr>h_verify := v\<rparr>) = getRoomMembers h"
  by (intro ext) (unfold getRoomMembers_def handler_select verify_simps, rule refl)

lemma verify_getAvailable [verify_simps]: "getAvailable (h\<lparr>h_verify := v\<rparr>) = getAvailable h"
  by (intro ext) (unfold getAvailable_def handler_select verify_simps, rule refl)

lemma verify_getLogin [verify_simps]: "getLogin (h\<lparr>h_verify := v\<rparr>) = getLogin h"
  by (intro ext) (unfold getLogin_def handler_select verify_simps, rule refl)

lemma verify_loginError [verify_simps]: "loginError (h\<lparr>h_verify := v\<rparr>) = loginError h"
  by (intro ext) (unfold loginError_def handler_select verify_simps, rule refl)

lemma verify_postLogin [verify_simps]: "postLogin (h\<lparr>h_verify := v\<rparr>) = postLogin h"
  by (intro ext) (unfold postLogin_def handler_select verify_simps, rule refl)

lemma verify_postRefresh [verify_simps]: "postRefresh (h\<lparr>h_verify := v\<rparr>) = postRefresh h"
  by (intro ext) (unfold postRefresh_def handler_select verify_simps, rule refl)

lemma verify_postLogout [verify_simps]: "postLogout (h\<lparr>h_verify := v\<rparr>) = postLogout h"
  by (intro ext) (unfold postLogout_def handler_select verify_simps, rule refl)

lemma verify_postRegister [verify_simps]: "postRegister (h\<lparr>h_verify := v\<rparr>) = postRegister h"
  by (intro ext) (unfold postRegister_def handler_select verify_simps, rule refl)

lemma verify_whoami [verify_simps]: "whoami (h\<lparr>h_verify := v\<rparr>) = whoami h"
  by (intro ext) (unfold whoami_def handler_select verify_simps, rule refl)

lemma verify_putUserAccountData [verify_simps]: "putUserAccountData (h\<lparr>h_verify := v\<rparr>) = putUserAccountData h"
  by (intro ext) (unfold putUserAccountData_def handler_select verify_simps, rule refl)

lemma verify_getUserAccountData [verify_simps]: "getUserAccountData (h\<lparr>h_verify := v\<rparr>) = getUserAccountData h"
  by (intro ext) (unfold getUserAccountData_def handler_select verify_simps, rule refl)

lemma verify_putRoomAccountData [verify_simps]: "putRoomAccountData (h\<lparr>h_verify := v\<rparr>) = putRoomAccountData h"
  by (intro ext) (unfold putRoomAccountData_def handler_select verify_simps, rule refl)

lemma verify_getRoomAccountData [verify_simps]: "getRoomAccountData (h\<lparr>h_verify := v\<rparr>) = getRoomAccountData h"
  by (intro ext) (unfold getRoomAccountData_def handler_select verify_simps, rule refl)

lemma verify_getProfile [verify_simps]: "Account_Routes.getProfile (h\<lparr>h_verify := v\<rparr>) = Account_Routes.getProfile h"
  by (intro ext) (unfold Account_Routes.getProfile_def handler_select verify_simps, rule refl)

lemma verify_getProfileKey [verify_simps]: "getProfileKey (h\<lparr>h_verify := v\<rparr>) = getProfileKey h"
  by (intro ext) (unfold getProfileKey_def handler_select verify_simps, rule refl)

lemma verify_putProfileKey [verify_simps]: "putProfileKey (h\<lparr>h_verify := v\<rparr>) = putProfileKey h"
  by (intro ext) (unfold putProfileKey_def handler_select verify_simps, rule refl)

lemma verify_deleteProfileKey [verify_simps]: "deleteProfileKey (h\<lparr>h_verify := v\<rparr>) = deleteProfileKey h"
  by (intro ext) (unfold deleteProfileKey_def handler_select verify_simps, rule refl)

lemma verify_getPresenceStatus [verify_simps]: "getPresenceStatus (h\<lparr>h_verify := v\<rparr>) = getPresenceStatus h"
  by (intro ext) (unfold getPresenceStatus_def handler_select verify_simps, rule refl)

lemma verify_putPresenceStatus [verify_simps]: "putPresenceStatus (h\<lparr>h_verify := v\<rparr>) = putPresenceStatus h"
  by (intro ext) (unfold putPresenceStatus_def handler_select verify_simps, rule refl)

lemma verify_getLatestVersion [verify_simps]: "getLatestVersion (h\<lparr>h_verify := v\<rparr>) = getLatestVersion h"
  by (intro ext) (unfold getLatestVersion_def handler_select verify_simps, rule refl)

lemma verify_createVersion [verify_simps]: "createVersion (h\<lparr>h_verify := v\<rparr>) = createVersion h"
  by (intro ext) (unfold createVersion_def handler_select verify_simps, rule refl)

lemma verify_getRoomKeys [verify_simps]: "getRoomKeys (h\<lparr>h_verify := v\<rparr>) = getRoomKeys h"
  by (intro ext) (unfold getRoomKeys_def handler_select verify_simps, rule refl)

lemma verify_putRoomKeys [verify_simps]: "putRoomKeys (h\<lparr>h_verify := v\<rparr>) = putRoomKeys h"
  by (intro ext) (unfold putRoomKeys_def handler_select verify_simps, rule refl)

lemma verify_deleteRoomKeys [verify_simps]: "deleteRoomKeys (h\<lparr>h_verify := v\<rparr>) = deleteRoomKeys h"
  by (intro ext) (unfold deleteRoomKeys_def handler_select verify_simps, rule refl)

lemma verify_uploadKeys [verify_simps]: "uploadKeys (h\<lparr>h_verify := v\<rparr>) = uploadKeys h"
  by (intro ext) (unfold uploadKeys_def handler_select verify_simps, rule refl)

lemma verify_queryKeys [verify_simps]: "queryKeys (h\<lparr>h_verify := v\<rparr>) = queryKeys h"
  by (intro ext) (unfold queryKeys_def handler_select verify_simps, rule refl)

lemma verify_claimKeys [verify_simps]: "claimKeys (h\<lparr>h_verify := v\<rparr>) = claimKeys h"
  by (intro ext) (unfold claimKeys_def handler_select verify_simps, rule refl)

lemma verify_getKeyChanges [verify_simps]: "getKeyChanges (h\<lparr>h_verify := v\<rparr>) = getKeyChanges h"
  by (intro ext) (unfold getKeyChanges_def handler_select verify_simps, rule refl)

lemma verify_uploadCrossSigningKeys [verify_simps]: "uploadCrossSigningKeys (h\<lparr>h_verify := v\<rparr>) = uploadCrossSigningKeys h"
  by (intro ext) (unfold uploadCrossSigningKeys_def handler_select verify_simps, rule refl)

lemma verify_uploadSignatures [verify_simps]: "uploadSignatures (h\<lparr>h_verify := v\<rparr>) = uploadSignatures h"
  by (intro ext) (unfold uploadSignatures_def handler_select verify_simps, rule refl)

lemma verify_uploadMedia [verify_simps]: "uploadMedia (h\<lparr>h_verify := v\<rparr>) = uploadMedia h"
  by (intro ext) (unfold uploadMedia_def handler_select verify_simps, rule refl)

lemma verify_downloadMedia [verify_simps]: "downloadMedia (h\<lparr>h_verify := v\<rparr>) = downloadMedia h"
  by (intro ext) (unfold downloadMedia_def handler_select verify_simps, rule refl)

lemma verify_thumbnailMedia [verify_simps]: "thumbnailMedia (h\<lparr>h_verify := v\<rparr>) = thumbnailMedia h"
  by (intro ext) (unfold thumbnailMedia_def handler_select verify_simps, rule refl)

lemma verify_mediaConfig [verify_simps]: "mediaConfig (h\<lparr>h_verify := v\<rparr>) = mediaConfig h"
  by (intro ext) (unfold mediaConfig_def handler_select verify_simps, rule refl)

lemma verify_federationDownloadMedia [verify_simps]: "federationDownloadMedia (h\<lparr>h_verify := v\<rparr>) = federationDownloadMedia h"
  by (intro ext) (unfold federationDownloadMedia_def handler_select verify_simps, rule refl)

lemma verify_getVersions [verify_simps]: "getVersions (h\<lparr>h_verify := v\<rparr>) = getVersions h"
  by (intro ext) (unfold getVersions_def handler_select verify_simps, rule refl)

lemma verify_getPushRules [verify_simps]: "getPushRules (h\<lparr>h_verify := v\<rparr>) = getPushRules h"
  by (intro ext) (unfold getPushRules_def handler_select verify_simps, rule refl)

lemma verify_uploadFilter [verify_simps]: "uploadFilter (h\<lparr>h_verify := v\<rparr>) = uploadFilter h"
  by (intro ext) (unfold uploadFilter_def handler_select verify_simps, rule refl)

lemma verify_getFilter [verify_simps]: "getFilter (h\<lparr>h_verify := v\<rparr>) = getFilter h"
  by (intro ext) (unfold getFilter_def handler_select verify_simps, rule refl)

lemma verify_getCapabilities [verify_simps]: "getCapabilities (h\<lparr>h_verify := v\<rparr>) = getCapabilities h"
  by (intro ext) (unfold getCapabilities_def handler_select verify_simps, rule refl)

lemma verify_getThirdPartyProtocols [verify_simps]: "getThirdPartyProtocols (h\<lparr>h_verify := v\<rparr>) = getThirdPartyProtocols h"
  by (intro ext) (unfold getThirdPartyProtocols_def handler_select verify_simps, rule refl)

lemma verify_searchUsers [verify_simps]: "searchUsers (h\<lparr>h_verify := v\<rparr>) = searchUsers h"
  by (intro ext) (unfold searchUsers_def handler_select verify_simps, rule refl)

lemma verify_getJoinedRooms [verify_simps]: "getJoinedRooms (h\<lparr>h_verify := v\<rparr>) = getJoinedRooms h"
  by (intro ext) (unfold getJoinedRooms_def handler_select verify_simps, rule refl)

lemma verify_syncClient [verify_simps]: "syncClient (h\<lparr>h_verify := v\<rparr>) = syncClient h"
  by (intro ext) (unfold syncClient_def handler_select verify_simps, rule refl)

lemma verify_sendToDevice [verify_simps]: "sendToDevice (h\<lparr>h_verify := v\<rparr>) = sendToDevice h"
  by (intro ext) (unfold sendToDevice_def handler_select verify_simps, rule refl)

lemma verify_resolveRoomAlias [verify_simps]: "resolveRoomAlias (h\<lparr>h_verify := v\<rparr>) = resolveRoomAlias h"
  by (intro ext) (unfold resolveRoomAlias_def handler_select verify_simps, rule refl)

lemma verify_setRoomAlias [verify_simps]: "setRoomAlias (h\<lparr>h_verify := v\<rparr>) = setRoomAlias h"
  by (intro ext) (unfold setRoomAlias_def handler_select verify_simps, rule refl)

lemma verify_deleteRoomAlias [verify_simps]: "deleteRoomAlias (h\<lparr>h_verify := v\<rparr>) = deleteRoomAlias h"
  by (intro ext) (unfold deleteRoomAlias_def handler_select verify_simps, rule refl)

lemma verify_xMatrixObject [verify_simps]: "xMatrixObject (h\<lparr>h_verify := v\<rparr>) = xMatrixObject h"
  by (intro ext) (unfold xMatrixObject_def handler_select verify_simps, rule refl)

lemma verify_getVersion [verify_simps]: "getVersion (h\<lparr>h_verify := v\<rparr>) = getVersion h"
  by (intro ext) (unfold getVersion_def handler_select verify_simps, rule refl)

lemma verify_serverKeyMembers [verify_simps]: "serverKeyMembers (h\<lparr>h_verify := v\<rparr>) = serverKeyMembers h"
  by (intro ext) (unfold serverKeyMembers_def handler_select verify_simps, rule refl)

lemma verify_getServerKey [verify_simps]: "getServerKey (h\<lparr>h_verify := v\<rparr>) = getServerKey h"
  by (intro ext) (unfold getServerKey_def handler_select verify_simps, rule refl)

lemma verify_fed_getProfile [verify_simps]: "Federation_Routes.getProfile (h\<lparr>h_verify := v\<rparr>) = Federation_Routes.getProfile h"
  by (intro ext) (unfold Federation_Routes.getProfile_def handler_select verify_simps, rule refl)

lemma verify_getDirectory [verify_simps]: "getDirectory (h\<lparr>h_verify := v\<rparr>) = getDirectory h"
  by (intro ext) (unfold getDirectory_def handler_select verify_simps, rule refl)

lemma verify_decodeOr400 [verify_simps]: "decodeOr400 (h\<lparr>h_verify := v\<rparr>) = decodeOr400 h"
  by (intro ext) (unfold decodeOr400_def handler_select verify_simps, rule refl)

lemma verify_postUserKeysQuery [verify_simps]: "postUserKeysQuery (h\<lparr>h_verify := v\<rparr>) = postUserKeysQuery h"
  by (intro ext) (unfold postUserKeysQuery_def handler_select verify_simps, rule refl)

lemma verify_postUserKeysClaim [verify_simps]: "postUserKeysClaim (h\<lparr>h_verify := v\<rparr>) = postUserKeysClaim h"
  by (intro ext) (unfold postUserKeysClaim_def handler_select verify_simps, rule refl)

lemma verify_receivePDU [verify_simps]: "receivePDU (h\<lparr>h_verify := v\<rparr>) = receivePDU h"
  by (intro ext) (unfold receivePDU_def handler_select verify_simps, rule refl)

lemma verify_receiveEDU [verify_simps]: "receiveEDU (h\<lparr>h_verify := v\<rparr>) = receiveEDU h"
  by (intro ext) (unfold receiveEDU_def handler_select verify_simps, rule refl)

lemma verify_putSendTxn [verify_simps]: "putSendTxn (h\<lparr>h_verify := v\<rparr>) = putSendTxn h"
  by (intro ext) (unfold putSendTxn_def handler_select verify_simps, rule refl)

lemma verify_writeTransaction [verify_simps]: "writeTransaction (h\<lparr>h_verify := v\<rparr>) = writeTransaction h"
  by (intro ext) (unfold writeTransaction_def handler_select verify_simps, rule refl)

lemma verify_fed_getEvent [verify_simps]: "Federation_Routes.getEvent (h\<lparr>h_verify := v\<rparr>) = Federation_Routes.getEvent h"
  by (intro ext) (unfold Federation_Routes.getEvent_def handler_select verify_simps, rule refl)

lemma verify_getBackfill [verify_simps]: "getBackfill (h\<lparr>h_verify := v\<rparr>) = getBackfill h"
  by (intro ext) (unfold getBackfill_def handler_select verify_simps, rule refl)

lemma verify_writePublicRooms [verify_simps]: "writePublicRooms (h\<lparr>h_verify := v\<rparr>) = writePublicRooms h"
  by (intro ext) (unfold writePublicRooms_def handler_select verify_simps, rule refl)

lemma verify_fed_getPublicRooms [verify_simps]: "Federation_Routes.getPublicRooms (h\<lparr>h_verify := v\<rparr>) = Federation_Routes.getPublicRooms h"
  by (intro ext) (unfold Federation_Routes.getPublicRooms_def handler_select verify_simps, rule refl)

lemma verify_fed_postPublicRooms [verify_simps]: "Federation_Routes.postPublicRooms (h\<lparr>h_verify := v\<rparr>) = Federation_Routes.postPublicRooms h"
  by (intro ext) (unfold Federation_Routes.postPublicRooms_def handler_select verify_simps, rule refl)

lemma verify_makeJoin [verify_simps]: "makeJoin (h\<lparr>h_verify := v\<rparr>) = makeJoin h"
  by (intro ext) (unfold makeJoin_def handler_select verify_simps, rule refl)

lemma verify_makeLeave [verify_simps]: "makeLeave (h\<lparr>h_verify := v\<rparr>) = makeLeave h"
  by (intro ext) (unfold makeLeave_def handler_select verify_simps, rule refl)

lemma verify_withMember [verify_simps]: "withMember (h\<lparr>h_verify := v\<rparr>) = withMember h"
  by (intro ext) (unfold withMember_def handler_select verify_simps, rule refl)

lemma verify_sendError [verify_simps]: "sendError (h\<lparr>h_verify := v\<rparr>) = sendError h"
  by (intro ext) (unfold sendError_def handler_select verify_simps, rule refl)

lemma verify_verifyEventSignature [verify_simps]: "verifyEventSignature (h\<lparr>h_verify := v\<rparr>) = verifyEventSignature h"
  by (intro ext) (simp only: verifyEventSignature_def if_cancel verify_memberSignature)

lemma verify_verifyRawEventSignature [verify_simps]: "verifyRawEventSignature (h\<lparr>h_verify := v\<rparr>) = verifyRawEventSignature h"
  by (intro ext) (unfold verifyRawEventSignature_def if_cancel handler_select verify_bind, rule refl)

lemma verify_sendJoin [verify_simps]: "sendJoin (h\<lparr>h_verify := v\<rparr>) = sendJoin h"
  by (intro ext) (unfold sendJoin_def handler_select verify_simps, rule refl)

lemma verify_invitedEvento [verify_simps]: "invitedEvento (h\<lparr>h_verify := v\<rparr>) = invitedEvento h"
  by (intro ext) (unfold invitedEvento_def handler_select verify_simps, rule refl)

lemma verify_acceptInvite [verify_simps]: "acceptInvite (h\<lparr>h_verify := v\<rparr>) = acceptInvite h"
  by (intro ext) (unfold acceptInvite_def handler_select verify_simps, rule refl)

lemma verify_putInvite [verify_simps]: "putInvite (h\<lparr>h_verify := v\<rparr>) = putInvite h"
  by (intro ext) (unfold putInvite_def handler_select verify_simps, rule refl)

lemma verify_fed_getRoomState [verify_simps]: "Federation_Routes.getRoomState (h\<lparr>h_verify := v\<rparr>) = Federation_Routes.getRoomState h"
  by (intro ext) (unfold Federation_Routes.getRoomState_def handler_select verify_simps, rule refl)

lemma verify_getStateIDs [verify_simps]: "getStateIDs (h\<lparr>h_verify := v\<rparr>) = getStateIDs h"
  by (intro ext) (unfold getStateIDs_def handler_select verify_simps, rule refl)

lemma verify_postGetMissingEvents [verify_simps]: "postGetMissingEvents (h\<lparr>h_verify := v\<rparr>) = postGetMissingEvents h"
  by (intro ext) (unfold postGetMissingEvents_def handler_select verify_simps, rule refl)

lemma verify_getMediaDownload [verify_simps]: "getMediaDownload (h\<lparr>h_verify := v\<rparr>) = getMediaDownload h"
  by (intro ext) (unfold getMediaDownload_def handler_select verify_simps, rule refl)

lemma verify_PingDB [verify_simps]: "PingDB (h\<lparr>h_verify := v\<rparr>) = PingDB h"
  by (intro ext) (unfold PingDB_def handler_select verify_simps, rule refl)

lemma verify_healthHandler [verify_simps]: "healthHandler (h\<lparr>h_verify := v\<rparr>) = healthHandler h"
  by (intro ext) (unfold healthHandler_def handler_select verify_simps, rule refl)

lemma verify_wellKnownMatrixHandler [verify_simps]: "wellKnownMatrixHandler (h\<lparr>h_verify := v\<rparr>) = wellKnownMatrixHandler h"
  by (intro ext) (unfold wellKnownMatrixHandler_def handler_select verify_simps, rule refl)

lemma verify_xMatrixMiddleware [verify_simps]: "xMatrixMiddleware (h\<lparr>h_verify := v\<rparr>) = xMatrixMiddleware h"
  by (intro ext) (unfold xMatrixMiddleware_def if_cancel handler_select verify_xMatrixObject verify_bind, rule refl)

subsection \<open>The whole table\<close>

definition send_leave_pattern :: string where
  "send_leave_pattern = ''PUT /_matrix/federation/v2/send_leave/{roomId}/{eventId}''"

lemma verify_client_routes: "client_routes (h\<lparr>h_verify := v\<rparr>) = client_routes h"
  by (intro ext) (unfold client_routes_def route_tables verify_simps, rule refl)

lemma verify_federation_routes:
  "s \<noteq> send_leave_pattern \<Longrightarrow> map_of (federation_routes (h\<lparr>h_verify := v\<rparr>)) s = map_of (federation_routes h) s"
  unfolding federation_routes_def Let_def verify_simps by (simp add: send_leave_pattern_def)

lemma verify_all_routes:
  "s \<noteq> send_leave_pattern \<Longrightarrow> map_of (all_routes (h\<lparr>h_verify := v\<rparr>)) s = map_of (all_routes h) s"
  by (simp add: all_routes_def map_add_def verify_client_routes verify_simps verify_federation_routes split: option.split)

lemma verify_names: "map fst (all_routes (h\<lparr>h_verify := v\<rparr>)) = map fst (all_routes h)"
  unfolding all_routes_def verify_client_routes verify_simps by (simp add: federation_routes_def Let_def)

text \<open>No pattern is registered twice, which would make the program stop when it starts.\<close>

definition client_names :: "string list" where
  "client_names =
     [''GET /_matrix/client/versions'',
      ''GET /_matrix/client/v3/login'',
      ''POST /_matrix/client/v3/login'',
      ''POST /_matrix/client/v3/refresh'',
      ''POST /_matrix/client/v3/logout'',
      ''POST /_matrix/client/v3/register'',
      ''GET /_matrix/client/v3/register/available'',
      ''GET /_matrix/client/v3/publicRooms'',
      ''POST /_matrix/client/v3/publicRooms'',
      ''GET /_matrix/client/v3/rooms/{roomId}/members'',
      ''POST /_matrix/client/v3/createRoom'',
      ''POST /_matrix/client/v3/join/{roomId}'',
      ''POST /_matrix/client/v3/rooms/{roomId}/leave'',
      ''POST /_matrix/client/v3/rooms/{roomId}/invite'',
      ''PUT /_matrix/client/v3/rooms/{roomId}/send/{eventType}/{txnId}'',
      ''PUT /_matrix/client/v3/rooms/{roomId}/state/{eventType}/{stateKey}'',
      ''PUT /_matrix/client/v3/rooms/{roomId}/state/{eventType}'',
      ''PUT /_matrix/client/v3/rooms/{roomId}/state/{eventType}/'',
      ''GET /_matrix/client/v3/rooms/{roomId}/state/{eventType}/{stateKey}'',
      ''GET /_matrix/client/v3/rooms/{roomId}/state/{eventType}'',
      ''GET /_matrix/client/v3/rooms/{roomId}/state/{eventType}/'',
      ''GET /_matrix/client/v3/rooms/{roomId}/messages'',
      ''POST /_matrix/client/v3/rooms/{roomId}/receipt/{receiptType}/{eventId}'',
      ''POST /_matrix/client/v3/rooms/{roomId}/read_markers'',
      ''GET /_matrix/client/v3/rooms/{roomId}/event/{eventId}'',
      ''GET /_matrix/client/v3/rooms/{roomId}/state'',
      ''GET /_matrix/client/v3/rooms/{roomId}/joined_members'',
      ''PUT /_matrix/client/v3/rooms/{roomId}/typing/{userId}'',
      ''GET /_matrix/client/v3/profile/{userId}'',
      ''GET /_matrix/client/v3/profile/{userId}/{keyName}'',
      ''PUT /_matrix/client/v3/profile/{userId}/{keyName}'',
      ''DELETE /_matrix/client/v3/profile/{userId}/{keyName}'',
      ''GET /_matrix/client/v3/account/whoami'',
      ''PUT /_matrix/client/v3/user/{userId}/account_data/{type}'',
      ''GET /_matrix/client/v3/user/{userId}/account_data/{type}'',
      ''PUT /_matrix/client/v3/user/{userId}/rooms/{roomId}/account_data/{type}'',
      ''GET /_matrix/client/v3/user/{userId}/rooms/{roomId}/account_data/{type}'',
      ''POST /_matrix/media/v3/upload'',
      ''GET /_matrix/client/v1/media/download/{serverName}/{mediaId}'',
      ''GET /_matrix/client/v1/media/thumbnail/{serverName}/{mediaId}'',
      ''GET /_matrix/client/v1/media/config'',
      ''GET /_matrix/federation/v1/media/download/{mediaId}'',
      ''GET /_matrix/client/v3/presence/{userId}/status'',
      ''PUT /_matrix/client/v3/presence/{userId}/status'',
      ''GET /_matrix/client/v3/room_keys/version'',
      ''POST /_matrix/client/v3/room_keys/version'',
      ''GET /_matrix/client/v3/room_keys/keys'',
      ''GET /_matrix/client/v3/room_keys/keys/{roomID}'',
      ''PUT /_matrix/client/v3/room_keys/keys'',
      ''DELETE /_matrix/client/v3/room_keys/keys'',
      ''POST /_matrix/client/v3/keys/upload'',
      ''POST /_matrix/client/v3/keys/query'',
      ''POST /_matrix/client/v3/keys/claim'',
      ''GET /_matrix/client/v3/keys/changes'',
      ''POST /_matrix/client/v3/keys/device_signing/upload'',
      ''POST /_matrix/client/v3/keys/signatures/upload'',
      ''GET /_matrix/client/v3/sync'',
      ''PUT /_matrix/client/v3/sendToDevice/{eventType}/{txnId}'',
      ''POST /_matrix/client/v3/user_directory/search'',
      ''GET /_matrix/client/v3/joined_rooms'',
      ''GET /_matrix/client/v3/pushrules/'',
      ''POST /_matrix/client/v3/user/{userId}/filter'',
      ''GET /_matrix/client/v3/user/{userId}/filter/{filterId}'',
      ''GET /_matrix/client/v3/capabilities'',
      ''GET /_matrix/client/v3/thirdparty/protocols'',
      ''GET /_matrix/client/v3/directory/room/{roomAlias}'',
      ''PUT /_matrix/client/v3/directory/room/{roomAlias}'',
      ''DELETE /_matrix/client/v3/directory/room/{roomAlias}'']"

definition federation_names :: "string list" where
  "federation_names =
     [''GET /_matrix/federation/v1/version'',
      ''GET /_matrix/key/v2/server'',
      ''GET /_matrix/federation/v1/query/profile'',
      ''GET /_matrix/federation/v1/query/directory'',
      ''POST /_matrix/federation/v1/user/keys/query'',
      ''POST /_matrix/federation/v1/user/keys/claim'',
      ''PUT /_matrix/federation/v2/invite/{roomId}/{eventId}'',
      ''PUT /_matrix/federation/v1/send/{txnId}'',
      ''GET /_matrix/federation/v1/backfill/{roomId}'',
      ''GET /_matrix/federation/v1/event/{eventId}'',
      ''GET /_matrix/federation/v1/publicRooms'',
      ''POST /_matrix/federation/v1/publicRooms'',
      ''GET /_matrix/federation/v1/make_join/{roomId}/{userId}'',
      ''PUT /_matrix/federation/v1/send_join/{roomId}/{eventId}'',
      ''GET /_matrix/federation/v1/make_leave/{roomId}/{userId}'',
      ''PUT /_matrix/federation/v2/send_leave/{roomId}/{eventId}'',
      ''GET /_matrix/federation/v1/state_ids/{roomId}'',
      ''POST /_matrix/federation/v1/get_missing_events/{roomId}'',
      ''GET /_matrix/federation/v1/state/{roomId}'']"

lemma client_routes_names: "map fst (client_routes h auth) = client_names"
  by (simp add: client_routes_def route_tables client_names_def)

lemma federation_routes_names: "map fst (federation_routes h) = federation_names"
  by (simp add: federation_routes_def Let_def federation_names_def)

lemma distinct_names: "distinct (client_names @ federation_names @ [''GET /health'', ''GET /.well-known/matrix/{fileName}''])"
  by (simp add: client_names_def federation_names_def)

lemma all_routes_names:
  "map fst (all_routes h) = client_names @ federation_names @ [''GET /health'', ''GET /.well-known/matrix/{fileName}'']"
  by (simp add: all_routes_def client_routes_names federation_routes_names)

lemma distinct_routes: "distinct (map fst (all_routes h))"
  unfolding all_routes_names by (rule distinct_names)

text \<open>Only the answer to \<open>send_leave\<close> depends on whether a signature is right.\<close>

lemma verify_RegisterRoutes:
  assumes "requested h r \<noteq> Some send_leave_pattern"
  shows "RegisterRoutes (h\<lparr>h_verify := v\<rparr>) r = RegisterRoutes h r"
proof -
  have "ServeMux (all_routes h) r = ServeMux (all_routes (h\<lparr>h_verify := v\<rparr>)) r"
    using assms
    by (intro ServeMux_cong) (auto simp: verify_names distinct_routes requested_def intro!: verify_all_routes [symmetric])
  then show ?thesis unfolding RegisterRoutes_def logMiddleware_def corsMiddleware_def by simp
qed


end
