(* ===== verification/Request_Facts.thy ===== *)
theory Request_Facts
  imports Signature_Effects Federation_Effects Account_Props
begin

text \<open>
  Runs of whole requests: where a request ends up, the access tokens that log-ins give out, events sent twice, and
  the join of a user of another server.
\<close>

subsection \<open>Dispatch\<close>

definition tick :: "world \<Rightarrow> world" where
  "tick w = w\<lparr>w_ticks := Suc (w_ticks w)\<rparr>"

lemma nowM_tick: "nowM w = (Ret (w_clock w (w_ticks w)), tick w)"
  by (simp add: nowM_def tick_def)

lemma tick_simps [simp]:
  "w_db (tick w) = w_db w" "w_tx (tick w) = w_tx w" "w_seqs (tick w) = w_seqs w" "w_calls (tick w) = w_calls w"
  "w_fault (tick w) = w_fault w" "w_ticks (tick w) = Suc (w_ticks w)" "w_clock (tick w) = w_clock w"
  "w_outbound (tick w) = w_outbound w" "w_cache (tick w) = w_cache w" "w_tasks (tick w) = w_tasks w"
  by (simp_all add: tick_def)

text \<open>A request whose pattern has a handler is redirected or refused without a look at the world, or handed to it.\<close>

definition handed_over :: "handler \<Rightarrow> request \<Rightarrow> bool" where
  "handed_over h r \<longleftrightarrow>
     hr_Method r \<noteq> ''OPTIONS'' \<and> hr_RequestURI r \<noteq> ''*'' \<and>
     (hr_Method r = ''CONNECT'' \<or> cleanPath (hr_EscapedPath r) = hr_EscapedPath r) \<and>
     (exactMatch (all_routes h) (hr_Method r) (hr_EscapedPath r) \<or> ends_in_slash (hr_EscapedPath r) \<or>
      \<not> exactMatch (all_routes h) (hr_Method r) (hr_EscapedPath r @ ''/''))"

lemma ServeMux_handed_over:
  assumes "handed_over h r" and "find_route (all_routes h) (hr_Method r) (hr_EscapedPath r) = Some (f, v, e)"
  shows "ServeMux (all_routes h) r = f (r\<lparr>hr_PathValues := v\<rparr>)"
  using assms by (auto simp: handed_over_def ServeMux_def Let_def)

lemma ServeMux_not_handed_over:
  assumes "\<not> handed_over h r" and "hr_Method r \<noteq> ''OPTIONS''" and "ServeMux (all_routes h) r w = (Ret p, w')"
  shows "rp_Status p \<noteq> 200"
  using assms by (auto simp: handed_over_def ServeMux_def Let_def redirect_def ret_return split: if_splits)

lemma ServeMux_not_handed_over_world:
  assumes "\<not> handed_over h r" and "hr_Method r \<noteq> ''OPTIONS''" and "ServeMux (all_routes h) r w = (Ret p, w')"
  shows "w' = w"
  using assms by (auto simp: handed_over_def ServeMux_def Let_def redirect_def ret_return split: if_splits)

text \<open>The handler and the path values of a pattern.\<close>

lemma requested_route:
  assumes "requested h r = Some s" and "map_of (all_routes h) s = Some f"
  obtains v e where "find_route (all_routes h) (hr_Method r) (hr_EscapedPath r) = Some (f, v, e)"
proof -
  obtain v e where "find_route (map (\<lambda>s. (s, s)) (map fst (all_routes h))) (hr_Method r) (hr_EscapedPath r) = Some (s, v, e)"
    using assms(1) by (auto simp: requested_def pattern_of_names)
  then have "find_route (all_routes h) (hr_Method r) (hr_EscapedPath r) = Some (f, v, e)"
    using assms(2) by (simp add: find_route_map_of [OF distinct_routes])
  then show thesis by (rule that)
qed

lemma RegisterRoutes_Ret:
  assumes "RegisterRoutes h r w = (Ret p, w')" and "hr_Method r \<noteq> ''OPTIONS''"
  obtains q u where "ServeMux (all_routes h) r (tick w) = (Ret q, u)" and "p = q\<lparr>rp_Header := corsHeaders @ rp_Header q\<rparr>"
    and "w' = tick u"
  using assms
  by (auto simp: RegisterRoutes_def logMiddleware_def corsMiddleware_def ret_bind ret_return nowM_tick)

text \<open>A request for the exact path of a route, by the names of the routes alone.\<close>

definition route_names :: "string routes" where
  "route_names = map (\<lambda>s. (s, s)) (client_names @ federation_names @ [''GET /health'', ''GET /.well-known/matrix/{fileName}''])"

definition asks_for :: "request \<Rightarrow> string \<Rightarrow> (string \<times> string) list \<Rightarrow> bool" where
  "asks_for r s v \<longleftrightarrow> hr_Method r \<noteq> ''OPTIONS'' \<and> hr_RequestURI r \<noteq> ''*'' \<and> cleanPath (hr_EscapedPath r) = hr_EscapedPath r \<and>
     find_route route_names (hr_Method r) (hr_EscapedPath r) = Some (s, v, True)"

lemma asks_for_requested: "asks_for r s v \<Longrightarrow> requested h r = Some s"
  unfolding requested_def pattern_of_names all_routes_names by (simp add: asks_for_def route_names_def)

lemma RegisterRoutes_at:
  assumes "asks_for r s v" and "map_of (all_routes h) s = Some f"
  shows "RegisterRoutes h r = logMiddleware (corsMiddleware (\<lambda>r. f (r\<lparr>hr_PathValues := v\<rparr>))) r"
proof -
  have f: "find_route (all_routes h) (hr_Method r) (hr_EscapedPath r) = Some (f, v, True)"
    using assms unfolding find_route_map_of [OF distinct_routes] all_routes_names by (simp add: asks_for_def route_names_def)
  have "handed_over h r" using assms(1) f by (simp add: handed_over_def asks_for_def exactMatch_def)
  from ServeMux_handed_over [OF this f] show ?thesis
    by (simp add: RegisterRoutes_def logMiddleware_def corsMiddleware_def)
qed

lemma RegisterRoutes_served:
  assumes "asks_for r s v" and "map_of (all_routes h) s = Some f" and "f (r\<lparr>hr_PathValues := v\<rparr>) (tick w) = (Ret q, u)"
  shows "RegisterRoutes h r w = (Ret (q\<lparr>rp_Header := corsHeaders @ rp_Header q\<rparr>), tick u)"
  using assms(1,3) unfolding RegisterRoutes_at [OF assms(1,2)]
  by (simp add: asks_for_def logMiddleware_def corsMiddleware_def run_bind run_return nowM_tick)

subsection \<open>Access tokens\<close>

text \<open>A computation that does not turn the clock back.\<close>

definition clock_rel :: "world \<Rightarrow> world \<Rightarrow> bool" where
  "clock_rel w w' \<longleftrightarrow> w_clock w' = w_clock w \<and> w_ticks w \<le> w_ticks w'"

interpretation clock: effect clock_rel
  by unfold_locales (auto simp: clock_rel_def)

lemma clock_now: "keeps clock_rel nowM"
  by (simp add: keeps_def clock_rel_def nowM_def)

lemma clock_random: "keeps clock_rel randomM"
  by (simp add: keeps_def clock_rel_def randomM_def)

lemma clock_stmt: "keeps clock_rel (getTxOrPool Ctx q)"
  by (auto simp: keeps_def clock_rel_def getTxOrPool_def ticked_def abort_def store_def
      split: option.split sum.split prod.split)

lemma clock_ops:
  "keeps clock_rel (GetUsuarioByID Ctx mxid)" "keeps clock_rel GenerateRefreshToken"
  "keeps clock_rel (loginDevice s i)" "keeps clock_rel (internalM (UpsertDispositivo Ctx d))"
     apply (simp add: GetUsuarioByID_def db_query_def clock.keeps_rules clock_stmt)
    apply (simp add: GenerateRefreshToken_def clock.keeps_rules clock_now clock_random split: sum.split)
   apply (simp add: loginDevice_def clock.keeps_rules clock_now clock_random)
  apply (simp add: UpsertDispositivo_def db_exec_def clock.keeps_rules clock_stmt)
  done

text \<open>
  What \<^verbatim>\<open>golang-jwt\<close> documents of a token that was signed with HMAC under a secret: with the same secret it gives its
  claims back until the second in which it expires, and afterwards the error for expired tokens.
\<close>

definition jwt_spec :: "auth_lib \<Rightarrow> (int \<Rightarrow> string \<Rightarrow> (jwt_token \<Rightarrow> go_error + string) \<Rightarrow> go_error + jwt_claims) \<Rightarrow> bool" where
  "jwt_spec lib parse \<longleftrightarrow>
     (\<forall>secret u d e i tok now key. al_sign lib secret u d e i = Inr tok \<longrightarrow>
        key \<lparr>jt_HMAC = True, jt_Alg = ''HS256''\<rparr> = Inr secret \<longrightarrow>
        (if now < 1000 * (e div 1000) then parse now tok key = Inr \<lparr>jc_UserID = u, jc_DeviceID = d, jc_Valid = True\<rparr>
         else (\<exists>err. parse now tok key = Inl err \<and> errors_is err ErrTokenExpired)))"

lemma Login_token:
  assumes "Login s lp w = (Ret ok, w')"
  shows "\<exists>n i. w_ticks w \<le> n \<and> n < w_ticks w' \<and> w_clock w' = w_clock w \<and>
    al_sign (as_lib s) (as_jwtSecret s) (ls_UserID ok) (ls_DeviceID ok) (w_clock w n + AccessTokenExpiration) i =
      Inr (ls_AccessToken ok)"
proof -
  obtain mxid user w1 token exp w2 dev w3 t w4 d u w5 acc ms w6 where
    get: "GetUsuarioByID Ctx mxid w = (Ret user, w1)"
    and gen: "GenerateRefreshToken w1 = (Ret (token, exp), w2)" and dev: "loginDevice s (lp_DeviceID lp) w2 = (Ret dev, w3)"
    and now: "nowM w3 = (Ret t, w4)" and ups: "internalM (UpsertDispositivo Ctx d) w4 = (Ret u, w5)"
    and sign: "internalM (GenerateAccessToken s (u_ID user) dev) w5 = (Ret (acc, ms), w6)" and w': "w' = w6"
    and ok: "ls_DeviceID ok = dev" "ls_AccessToken ok = acc" "ls_UserID ok = u_ID user"
    using assms
    by (auto simp: Login_def ret_bind ret_case_fail ret_catch ret_fail ret_return Let_def split: prod.splits if_splits)
  have "clock_rel w w1" by (rule keepsD [OF clock_ops(1) get])
  moreover have "clock_rel w1 w2" by (rule keepsD [OF clock_ops(2) gen])
  moreover have "clock_rel w2 w3" by (rule keepsD [OF clock_ops(3) dev])
  moreover have "clock_rel w3 w4" by (rule keepsD [OF clock_now now])
  moreover have "clock_rel w4 w5" by (rule keepsD [OF clock_ops(4) ups])
  ultimately have "clock_rel w w5" by (auto simp: clock_rel_def)
  moreover have "\<exists>i. al_sign (as_lib s) (as_jwtSecret s) (u_ID user) dev (w_clock w5 (w_ticks w5) + AccessTokenExpiration) i = Inr acc"
    "w_clock w6 = w_clock w5" "w_ticks w5 < w_ticks w6"
    using sign by (auto simp: GenerateAccessToken_def ret_simps Let_def)
  ultimately show ?thesis by (auto simp: clock_rel_def ok w')
qed

lemma token_accepted:
  assumes "jwt_spec (as_lib (h_auth h)) (h_Parse h)"
    and "al_sign (as_lib (h_auth h)) (as_jwtSecret (h_auth h)) u d e i = Inr tok"
    and "HeaderGet r ''Authorization'' = ''Bearer '' @ tok" and "w_clock v (w_ticks v) < 1000 * (e div 1000)"
  shows "TokenBearerMiddleware h nxt r v = nxt (r\<lparr>hr_UserID := Some u, hr_DeviceID := Some d\<rparr>) (tick v)"
proof -
  have "h_Parse h (w_clock v (w_ticks v)) tok (jwtKey h) = Inr \<lparr>jc_UserID = u, jc_DeviceID = d, jc_Valid = True\<rparr>"
    using assms(1,2,4) unfolding jwt_spec_def by (simp add: jwtKey_def)
  then show ?thesis
    using has_prefix_append [of "''Bearer ''" tok] trim_prefix_append [of "''Bearer ''" tok]
    by (simp add: TokenBearerMiddleware_def assms(3) run_bind nowM_tick)
qed

lemma token_expired:
  assumes "jwt_spec (as_lib (h_auth h)) (h_Parse h)"
    and "al_sign (as_lib (h_auth h)) (as_jwtSecret (h_auth h)) u d e i = Inr tok"
    and "HeaderGet r ''Authorization'' = ''Bearer '' @ tok" and "\<not> w_clock v (w_ticks v) < 1000 * (e div 1000)"
  shows "TokenBearerMiddleware h nxt r v =
    WriteMatrixErrorSoftLogout 401 ''M_UNKNOWN_TOKEN'' ''Access token has expired'' (tick v)"
proof -
  obtain err where "h_Parse h (w_clock v (w_ticks v)) tok (jwtKey h) = Inl err" "errors_is err ErrTokenExpired"
    using assms(1)[unfolded jwt_spec_def, rule_format, OF assms(2), of "jwtKey h" "w_clock v (w_ticks v)"] assms(4)
    by (auto simp: jwtKey_def)
  then show ?thesis
    using has_prefix_append [of "''Bearer ''" tok] trim_prefix_append [of "''Bearer ''" tok]
    by (simp add: TokenBearerMiddleware_def assms(3) run_bind nowM_tick)
qed

subsection \<open>An event sent twice\<close>

abbreviation "send_pattern \<equiv> ''PUT /_matrix/client/v3/rooms/{roomId}/send/{eventType}/{txnId}''"

lemma send_route: "map_of (all_routes h) send_pattern = Some (TokenBearerMiddleware h (putSendEvent h))"
  by (rule map_of_is_SomeI [OF distinct_routes]) (simp add: all_routes_def client_routes_def room_routes_def)

lemma send_method:
  assumes "requested h r = Some send_pattern"
  shows "hr_Method r = ''PUT''"
proof -
  have "pattern_method send_pattern = ''PUT''" by simp
  then show ?thesis using pattern_of_method [OF assms [unfolded requested_def]] by simp
qed

lemma ret_case_sum:
  "(case a of Inl e \<Rightarrow> f e | Inr x \<Rightarrow> g x) w = (Ret b, w') \<longleftrightarrow>
     (\<exists>e. a = Inl e \<and> f e w = (Ret b, w')) \<or> (\<exists>x. a = Inr x \<and> g x w = (Ret b, w'))"
  by (cases a) auto

lemma ret_case_option:
  "(case a of None \<Rightarrow> m | Some x \<Rightarrow> g x) w = (Ret b, w') \<longleftrightarrow>
     a = None \<and> m w = (Ret b, w') \<or> (\<exists>x. a = Some x \<and> g x w = (Ret b, w'))"
  by (cases a) auto

lemma Cache_Get_run:
  assumes "w_fault w = (\<lambda>_. None)"
  shows "Cache_Get h a e t w = (Ret (cached (buildKey h a e t) w), ticked w)"
  using assms by (simp add: Cache_Get_def redis_call_def run_simps cached_def ticked_def cong: option.case_cong)

lemma Cache_Set_run:
  assumes "w_fault w = (\<lambda>_. None)"
  shows "Cache_Set h a e t i d w =
    (Ret (), (ticked w)\<lparr>w_cache := AList.update (buildKey h a e t) (i, w_clock w (w_ticks w) + d) (w_cache w)\<rparr>)"
  using assms by (simp add: Cache_Set_def redis_call_def ticked_def)

text \<open>What the token middleware does with a request it lets through, and what a refusal leaves as it was.\<close>

lemma TokenBearer_run:
  assumes "TokenBearerMiddleware h nxt r w = (Ret p, w')"
  shows "(\<exists>u d. nxt (r\<lparr>hr_UserID := Some u, hr_DeviceID := Some d\<rparr>) (tick w) = (Ret p, w')) \<or>
    rp_Status p = 401 \<and> (w' = w \<or> w' = tick w)"
  using assms
  by (auto simp: TokenBearerMiddleware_def Let_def ret_bind ret_return nowM_tick WriteMatrixError_def WriteJSON_def
      WriteMatrixErrorSoftLogout_def split: if_splits sum.splits)

definition send_key :: "handler \<Rightarrow> request \<Rightarrow> string" where
  "send_key h r = buildKey h (ExtractBearerToken r) (hr_Path r) (PathValue r ''txnId'')"

lemma token_of_user [simp]:
  "ExtractBearerToken (r\<lparr>hr_UserID := u, hr_DeviceID := d\<rparr>) = ExtractBearerToken r"
  "PathValue (r\<lparr>hr_UserID := u, hr_DeviceID := d\<rparr>) = PathValue r"
  by (simp_all add: ExtractBearerToken_def HeaderGet_def PathValue_def fun_eq_iff)

lemma send_key_user [simp]: "send_key h (r\<lparr>hr_UserID := u, hr_DeviceID := d\<rparr>) = send_key h r"
  by (simp add: send_key_def)

text \<open>Without failures an event that was sent is remembered for a day under the token, the path and the transaction.\<close>

lemma putSendEvent_remembers:
  assumes "putSendEvent h r w = (Ret p, w')" and "rp_Status p = 200" and "w_fault w = (\<lambda>_. None)"
    and "cached (send_key h r) w = None"
  shows "\<exists>i. rp_Body p = eventIDReply i \<and> map_of (w_cache w') (send_key h r) = Some (i, w_clock w' (w_ticks w') + day)"
proof -
  obtain u where u: "hr_UserID r = Some u" "u \<noteq> ''''"
    using assms(1,2)
    by (auto simp: putSendEvent_def requireUser_def Let_def WriteMatrixError_def WriteJSON_def ret_return
        split: option.splits if_splits)
  have miss: "Cache_Get h (ExtractBearerToken r) (hr_Path r) (PathValue r ''txnId'') w = (Ret None, ticked w)"
    using assms(3,4) by (simp add: Cache_Get_run send_key_def)
  obtain q i w1 where s: "catchM (SendEvent (h_sv h) q) (ticked w) = (Ret (Inr i), w1)"
    and c: "bindM (catchM (Cache_Set h (ExtractBearerToken r) (hr_Path r) (PathValue r ''txnId'') i day)) (\<lambda>_.
        WriteJSON 200 (eventIDReply i)) w1 = (Ret p, w')"
    using assms(1,2) u
    by (auto simp: putSendEvent_def requireUser_def Let_def WriteMatrixError_def WriteJSON_def ret_bind ret_return miss
        ret_case_sum split: if_splits)
  have "call_rel (ticked w) w1"
    using keepsD [OF call_SendEvent] s by (auto simp: ret_catch)
  then have f: "w_fault w1 = (\<lambda>_. None)" using assms(3) by (simp add: call_rel_def ticked_def)
  show ?thesis
    using c by (auto simp: run_bind run_catch Cache_Set_run [OF f] WriteJSON_def run_return send_key_def update_conv' ticked_def)
qed

text \<open>A remembered event is not sent again.\<close>

lemma putSendEvent_repeats:
  assumes "putSendEvent h r w = (Ret p, w')" and "w_fault w = (\<lambda>_. None)" and "cached (send_key h r) w = Some i"
  shows "(w' = w \<or> w' = ticked w) \<and> (rp_Status p = 200 \<longrightarrow> rp_Body p = eventIDReply i)"
  using assms
  by (auto simp: putSendEvent_def requireUser_def Let_def WriteMatrixError_def WriteJSON_def ret_bind ret_return
      Cache_Get_run send_key_def split: if_splits option.splits)

text \<open>Two requests: what the second one finds.\<close>

lemma send_request_run:
  assumes "requested h r = Some send_pattern" and "RegisterRoutes h r w = (Ret p, w')"
  obtains (refused) u where "rp_Status p \<noteq> 200" and "u = w \<or> u = tick w \<or> u = tick (tick w)" and "w' = tick u"
    | (handled) v u d q w1 where "putSendEvent h (r\<lparr>hr_PathValues := v, hr_UserID := u, hr_DeviceID := d\<rparr>) (tick (tick w)) = (Ret q, w1)"
      and "rp_Status q = rp_Status p" and "rp_Body q = rp_Body p" and "w' = tick w1"
      and "find_route (all_routes h) (hr_Method r) (hr_EscapedPath r) \<noteq> None"
      and "v = fst (snd (the (find_route (all_routes h) (hr_Method r) (hr_EscapedPath r))))"
proof -
  have m: "hr_Method r \<noteq> ''OPTIONS''" using send_method [OF assms(1)] by simp
  obtain q u where q: "ServeMux (all_routes h) r (tick w) = (Ret q, u)" "p = q\<lparr>rp_Header := corsHeaders @ rp_Header q\<rparr>"
    "w' = tick u"
    using RegisterRoutes_Ret [OF assms(2) m] .
  obtain v e where v: "find_route (all_routes h) (hr_Method r) (hr_EscapedPath r) =
      Some (TokenBearerMiddleware h (putSendEvent h), v, e)"
    using requested_route [OF assms(1) send_route] .
  show thesis
  proof (cases "handed_over h r")
    case False
    then show thesis
      using ServeMux_not_handed_over [OF False m q(1)] ServeMux_not_handed_over_world [OF False m q(1)] q(2,3)
      by (intro refused) auto
  next
    case True
    then have "TokenBearerMiddleware h (putSendEvent h) (r\<lparr>hr_PathValues := v\<rparr>) (tick w) = (Ret q, u)"
      using q(1) ServeMux_handed_over [OF True v] by simp
    then consider x d where "putSendEvent h (r\<lparr>hr_PathValues := v, hr_UserID := Some x, hr_DeviceID := Some d\<rparr>) (tick (tick w)) = (Ret q, u)"
      | "rp_Status q = 401" "u = tick w \<or> u = tick (tick w)"
      by (auto dest: TokenBearer_run)
    then show thesis
    proof cases
      case 1
      then show thesis using q v by (intro handled [OF 1]) auto
    next
      case 2
      then show thesis using q by (intro refused) auto
    qed
  qed
qed

subsection \<open>The join of a user of another server\<close>

lemma withMember_Ret:
  assumes "withMember h r join m verify k w = (Ret p, w')" and "rp_Status p = 200"
  shows "\<exists>req w1. DecodeBody r (decodeMember join) = Ret (Inr req) \<and> memberFault m req = None \<and>
    verify req w = (Ret (), w1) \<and> k req w1 = (Ret p, w')"
  using assms
  by (auto simp: withMember_def decodeOr400_def WriteMatrixError_def WriteJSON_def ret_bind ret_liftO ret_return
      ret_case_sum ret_case_option ret_catch)

lemma sendError_status: "sendError h e w = (Ret p, w') \<Longrightarrow> rp_Status p \<noteq> 200"
  by (auto simp: sendError_def WriteMatrixError_def WriteJSON_def ret_return split: if_splits)

lemma sendJoin_Ret:
  assumes "sendJoin h r w = (Ret p, w')" and "rp_Status p = 200"
  shows "\<exists>req w1 res. DecodeBody r (decodeMember True) = Ret (Inr req) \<and> memberFault ''join'' req = None \<and>
    verifyEventSignature h req w = (Ret (), w1) \<and>
    ProcessSendJoin (PathValue r ''roomId'') (memberEvento (PathValue r ''roomId'') req) w1 = (Ret res, w') \<and>
    rp_Body p = JoinState (sr_StateEvents res) (sr_StateEvents res) (sr_ServersInRoom res)"
proof -
  obtain req w1 where "DecodeBody r (decodeMember True) = Ret (Inr req)" "memberFault ''join'' req = None"
    "verifyEventSignature h req w = (Ret (), w1)"
    and k: "bindM (catchM (ProcessSendJoin (PathValue r ''roomId'') (memberEvento (PathValue r ''roomId'') req))) (\<lambda>res. case res of
        Inl e \<Rightarrow> sendError h e
      | Inr result \<Rightarrow> WriteJSON 200 (JoinState (sr_StateEvents result) (sr_StateEvents result) (sr_ServersInRoom result))) w1 = (Ret p, w')"
    using withMember_Ret [OF assms(1) [unfolded sendJoin_def Let_def] assms(2)] by blast
  moreover obtain res where
    "ProcessSendJoin (PathValue r ''roomId'') (memberEvento (PathValue r ''roomId'') req) w1 = (Ret res, w')"
    "rp_Body p = JoinState (sr_StateEvents res) (sr_StateEvents res) (sr_ServersInRoom res)"
    using k assms(2) by (auto simp: ret_bind ret_case_sum ret_catch WriteJSON_def ret_return dest: sendError_status)
  ultimately show ?thesis by blast
qed

lemma sendLeave_Ret:
  assumes "sendLeave h r w = (Ret p, w')" and "rp_Status p = 200"
  shows "\<exists>req w1. DecodeBody r (decodeMember False) = Ret (Inr req) \<and> memberFault ''leave'' req = None \<and>
    verifyLeaveEventSignature h req w = (Ret (), w1) \<and>
    ProcessSendLeave (PathValue r ''roomId'') (memberEvento (PathValue r ''roomId'') req) w1 = (Ret (), w')"
proof -
  obtain req w1 where "DecodeBody r (decodeMember False) = Ret (Inr req)" "memberFault ''leave'' req = None"
    "verifyLeaveEventSignature h req w = (Ret (), w1)"
    and k: "bindM (catchM (ProcessSendLeave (PathValue r ''roomId'') (memberEvento (PathValue r ''roomId'') req))) (\<lambda>res. case res of
        Inl e \<Rightarrow> sendError h e
      | Inr _ \<Rightarrow> WriteJSON 200 emptyJSON) w1 = (Ret p, w')"
    using withMember_Ret [OF assms(1) [unfolded sendLeave_def Let_def] assms(2)] by blast
  moreover have "ProcessSendLeave (PathValue r ''roomId'') (memberEvento (PathValue r ''roomId'') req) w1 = (Ret (), w')"
    using k assms(2) by (auto simp: ret_bind ret_case_sum ret_catch WriteJSON_def ret_return dest: sendError_status)
  ultimately show ?thesis by blast
qed

text \<open>
  The origin's key \<open>pub\<close> with the name \<open>keyID\<close> is the one the server finds published, the request has a signature of
  the origin under that name, which decodes to \<open>sig\<close>, and \<open>msg\<close> is the canonical text of the event.
\<close>

definition origin_signed :: "handler \<Rightarrow> MemberRequest \<Rightarrow> world \<Rightarrow> string \<Rightarrow> string \<Rightarrow> string \<Rightarrow> json \<Rightarrow> bool" where
  "origin_signed h req w keyID pub sig msg \<longleftrightarrow>
     (\<exists>w'. FetchRemoteServerKey (mq_Origin req) w = (Ret (keyID, pub), w')) \<and>
     (\<exists>sigs text. map_of (mq_Signatures req) (mq_Origin req) = Some sigs \<and> map_of sigs keyID = Some text \<and>
        RawStdDecoding text = Inr sig) \<and>
     CanonicalJSON (sv_crypto (h_sv h)) (memberPayload req) = Inr msg"

lemma memberSignature_Ret:
  assumes "memberSignature h req w = (Ret ok, w')"
  shows "\<exists>keyID pub sig msg. origin_signed h req w keyID pub sig msg \<and> ok = h_verify h pub msg sig"
proof -
  obtain sigs keyID pub w1 s64 sig msg where
    "map_of (mq_Signatures req) (mq_Origin req) = Some sigs" "FetchRemoteServerKey (mq_Origin req) w = (Ret (keyID, pub), w1)"
    "map_of sigs keyID = Some s64" "RawStdDecoding s64 = Inr sig"
    "CanonicalJSON (sv_crypto (h_sv h)) (memberPayload req) = Inr msg" "ok = h_verify h pub msg sig"
    using assms
    by (auto simp: memberSignature_def ret_bind ret_wrap ret_fail ret_liftE ret_return ed25519_Verify_def ret_case_option ret_panic
        split: if_splits)
  then show ?thesis unfolding origin_signed_def by blast
qed

end
