(* ===== verification/Http_Props.thy ===== *)
theory Http_Props
  imports Request_Facts
begin

text \<open>The properties of whole requests, and the concrete requests their witnesses run.\<close>

subsection \<open>A server\<close>

text \<open>Tokens that carry the secret, the claims and the second of expiry, separated by slashes.\<close>

definition slash_sign :: "string \<Rightarrow> string \<Rightarrow> string \<Rightarrow> int \<Rightarrow> int \<Rightarrow> go_error + string" where
  "slash_sign secret u d e i =
     (if CHR ''/'' \<in> set (secret @ u @ d) \<or> \<not> in_int64 (e div 1000) then Inl (ExtError ''claims'')
      else Inr (secret @ CHR ''/'' # u @ CHR ''/'' # d @ CHR ''/'' # string_of_int (e div 1000)))"

definition slash_parse :: "int \<Rightarrow> string \<Rightarrow> (jwt_token \<Rightarrow> go_error + string) \<Rightarrow> go_error + jwt_claims" where
  "slash_parse now tok key =
     (case key \<lparr>jt_HMAC = True, jt_Alg = ''HS256''\<rparr> of
        Inl e \<Rightarrow> Inl e
      | Inr secret \<Rightarrow>
          (let (s, r, _) = cut CHR ''/'' tok; (u, r, _) = cut CHR ''/'' r; (d, r, _) = cut CHR ''/'' r in
           if s \<noteq> secret then Inl (ExtError ''signature is invalid'')
           else case scan_int r of
               None \<Rightarrow> Inl (ExtError ''token is malformed'')
             | Some (e, _) \<Rightarrow>
                 if now < 1000 * e then Inr \<lparr>jc_UserID = u, jc_DeviceID = d, jc_Valid = True\<rparr>
                 else Inl ErrTokenExpired))"

definition slash_auth :: auth_service where
  "slash_auth = plain_auth\<lparr>as_lib := (as_lib plain_auth)\<lparr>al_compare := (=), al_sign := slash_sign\<rparr>\<rparr>"

lemma slash_spec: "jwt_spec (as_lib slash_auth) slash_parse"
  by (auto simp: jwt_spec_def slash_auth_def slash_sign_def slash_parse_def scan_int_end split: if_splits)

definition demo :: handler where
  "demo = \<lparr>h_sv = plain_server, h_auth = slash_auth, h_media = NewMediaService ''a'' 4 None, h_ro = plain_orders,
     h_ilike = (\<lambda>_ _. False), h_wait = (\<lambda>_. returnM ()), h_Parse = slash_parse, h_sha256 = (\<lambda>s. s),
     h_verify = (\<lambda>_ _ _. False), h_Error = (\<lambda>_. ''error''), h_version = ''1'', h_publicKey = ''key'',
     h_stats = \<lparr>ps_TotalConns = 1, ps_AcquiredConns = 0, ps_IdleConns = 0, ps_ConstructingConns = 0,
       ps_EmptyAcquireWaitTime = 0, ps_EmptyAcquireWaitTime_String = ''0s'', ps_MaxIdleDestroyCount = 0,
       ps_MaxLifetimeDestroyCount = 0\<rparr>, h_static = (\<lambda>_. None)\<rparr>"

definition request_of :: "string \<Rightarrow> string \<Rightarrow> string \<Rightarrow> json \<Rightarrow> request" where
  "request_of method path credentials body =
     \<lparr>hr_Method = method, hr_Path = path, hr_EscapedPath = path, hr_RequestURI = path, hr_Query = [],
      hr_Header = [(''Authorization'', credentials)],
      hr_Body = Some \<lparr>bo_Bytes = ''{}'', bo_Error = None, bo_Json = Inr body, bo_Rest = False\<rparr>, hr_ContentLength = 2,
      hr_RemoteAddr = ''::1'', hr_PathValues = [], hr_UserID = None, hr_DeviceID = None, hr_Canceled = False\<rparr>"

definition send_request :: request where
  "send_request = request_of ''PUT'' ''/_matrix/client/v3/rooms/!r:a/send/m.room.message/t1'' (''Bearer k/@u:a/'' @ dev1 @ ''/1'')
     (JObj [(''body'', JStr ''hi'')])"

lemma send_request_asks:
  "asks_for send_request send_pattern [(''roomId'', ''!r:a''), (''eventType'', ''m.room.message''), (''txnId'', ''t1'')]"
  by code_simp

subsection \<open>Requests that change nothing\<close>

text \<open>C15. A \<open>GET\<close>, \<open>HEAD\<close> or \<open>OPTIONS\<close> request for any path but that of \<open>sync\<close>, which marks to-device messages as
  delivered, leaves every table and the transaction state as they were, whatever the answer is: a read by a client or by
  another server is safe to repeat.\<close>

theorem read_requests_change_nothing:
  assumes "hr_Method r \<in> {''GET'', ''HEAD'', ''OPTIONS''}" and "requested h r \<noteq> Some ''GET /_matrix/client/v3/sync''"
    and "plain_fetcher h"
  shows "tables (snd (RegisterRoutes h r w)) = tables w \<and> w_tx (snd (RegisterRoutes h r w)) = w_tx w"
  using keepsD [of silent_rel "RegisterRoutes h r" w "fst (RegisterRoutes h r w)" "snd (RegisterRoutes h r w)"]
    silent_read_request [OF assms] by (simp add: silent_rel_def)

definition members_request :: request where
  "members_request = request_of ''GET'' ''/_matrix/client/v3/rooms/!r:a/members'' (''Bearer k/@u:a/'' @ dev1 @ ''/1'') JNull"

lemma members_request_asks:
  "asks_for members_request ''GET /_matrix/client/v3/rooms/{roomId}/members'' [(''roomId'', ''!r:a'')]"
  by code_simp

lemma read_requests_change_nothing_witness:
  "tables (snd (RegisterRoutes demo members_request room_world)) = tables room_world"
proof -
  have "hr_Method members_request \<in> {''GET'', ''HEAD'', ''OPTIONS''}" by (simp add: members_request_def request_of_def)
  moreover have "requested demo members_request \<noteq> Some ''GET /_matrix/client/v3/sync''"
    by (simp add: asks_for_requested [OF members_request_asks])
  moreover have "plain_fetcher demo" by (simp add: plain_fetcher_def demo_def NewMediaService_def)
  ultimately show ?thesis using read_requests_change_nothing [of members_request demo room_world] by simp
qed

text \<open>C6. Without credentials, that is with no token the token middleware ever accepts and no \<open>X-Matrix\<close> header, only
  \<open>login\<close>, \<open>refresh\<close> and \<open>register\<close> can change a table: every other route refuses the request before it does anything, or
  only reads.\<close>

theorem anonymous_requests_change_nothing:
  assumes "no_credentials h r" and "\<forall>s\<in>open_patterns. requested h r \<noteq> Some s"
  shows "tables (snd (RegisterRoutes h r w)) = tables w \<and> w_tx (snd (RegisterRoutes h r w)) = w_tx w"
proof -
  have "keeps silent_rel (RegisterRoutes h r)" using assms by (intro silent_anonymous_request) auto
  then show ?thesis
    using keepsD [of silent_rel "RegisterRoutes h r" w "fst (RegisterRoutes h r w)" "snd (RegisterRoutes h r w)"]
    by (simp add: silent_rel_def)
qed

definition anonymous_request :: request where
  "anonymous_request = send_request\<lparr>hr_Header := [(''Authorization'', ''Bearer x'')]\<rparr>"

lemma anonymous_request_asks:
  "asks_for anonymous_request send_pattern [(''roomId'', ''!r:a''), (''eventType'', ''m.room.message''), (''txnId'', ''t1'')]"
  using send_request_asks by (simp add: asks_for_def anonymous_request_def)

lemma anonymous_requests_change_nothing_witness:
  "tables (snd (RegisterRoutes demo anonymous_request room_world)) = tables room_world"
proof -
  have "HeaderGet anonymous_request ''Authorization'' = ''Bearer x''"
    by (simp add: anonymous_request_def HeaderGet_def assoc_string_def)
  moreover have "h_Parse demo now (trim_prefix ''Bearer x'' ''Bearer '') (jwtKey demo) = Inl (ExtError ''signature is invalid'')" for now
    by (simp add: demo_def slash_parse_def jwtKey_def slash_auth_def plain_auth_def trim_prefix_def has_prefix_def)
  ultimately have "no_credentials demo anonymous_request"
    by (simp add: no_credentials_def bearer_accepted_def has_prefix_def)
  moreover have "\<forall>s\<in>open_patterns. requested demo anonymous_request \<noteq> Some s"
    by (simp add: asks_for_requested [OF anonymous_request_asks] open_patterns_def)
  ultimately show ?thesis using anonymous_requests_change_nothing [of demo anonymous_request room_world] by simp
qed

subsection \<open>An event sent twice\<close>

text \<open>C7. Sending an event is idempotent for a day: when a \<open>send\<close> request was answered with success and its event id was
  remembered, the same request, made again within a day and with what was remembered then still remembered, changes no
  table and queues nothing for other servers; if it is answered with success, the answer is the same. This is for runs in
  which no call to the database or to Redis fails: when Redis fails the request is carried out again.\<close>

theorem send_once:
  assumes "requested h r = Some ''PUT /_matrix/client/v3/rooms/{roomId}/send/{eventType}/{txnId}''"
    and "RegisterRoutes h r w = (Ret p, w1)" and "rp_Status p = 200" and "w_cache w1 \<noteq> w_cache w" and "w_fault w = (\<lambda>_. None)"
    and "\<forall>k v. map_of (w_cache w1) k = Some v \<longrightarrow> map_of (w_cache w2) k = Some v" and "w_fault w2 = (\<lambda>_. None)"
    and "w_clock w2 (w_ticks w2 + 2) < w_clock w1 (w_ticks w1 - 1) + day"
    and "RegisterRoutes h r w2 = (Ret q, w3)"
  shows "w_db w3 = w_db w2 \<and> w_outbound w3 = w_outbound w2 \<and> (rp_Status q = 200 \<longrightarrow> rp_Body q = rp_Body p)"
  using assms(1,2)
proof (cases rule: send_request_run)
  case (refused u)
  then show ?thesis using assms(3) by simp
next
  case (handled v u d q1 u1)
  let ?r = "r\<lparr>hr_PathValues := v, hr_UserID := u, hr_DeviceID := d\<rparr>"
  have f: "w_fault (tick (tick w)) = (\<lambda>_. None)" using assms(5) by simp
  have "cached (send_key h ?r) (tick (tick w)) = None"
  proof (rule ccontr)
    assume "cached (send_key h ?r) (tick (tick w)) \<noteq> None"
    then have "w_cache u1 = w_cache w" using putSendEvent_repeats [OF handled(1) f] by (auto simp: ticked_def)
    then show False using assms(4) handled(4) by simp
  qed
  then obtain i where b: "rp_Body p = eventIDReply i" and "map_of (w_cache w1) (send_key h ?r) = Some (i, w_clock u1 (w_ticks u1) + day)"
    using putSendEvent_remembers [OF handled(1) _ f] handled(2-4) assms(3) by auto
  with assms(6) have i: "rp_Body p = eventIDReply i" "map_of (w_cache w2) (send_key h ?r) = Some (i, w_clock u1 (w_ticks u1) + day)"
    by blast+
  from assms(1,9) show ?thesis
  proof (cases rule: send_request_run)
    case (refused u)
    then show ?thesis by auto
  next
    case handled2: (handled v' u' d' q2 u2)
    have "send_key h (r\<lparr>hr_PathValues := v', hr_UserID := u', hr_DeviceID := d'\<rparr>) = send_key h ?r"
      using handled(6) handled2(6) by simp
    moreover have "w_clock w2 (w_ticks w2 + 2) < w_clock u1 (w_ticks u1) + day" using assms(8) handled(4) by simp
    ultimately have "cached (send_key h (r\<lparr>hr_PathValues := v', hr_UserID := u', hr_DeviceID := d'\<rparr>)) (tick (tick w2)) = Some i"
      using i(2) by (simp add: cached_def)
    from putSendEvent_repeats [OF handled2(1) _ this] show ?thesis
      using assms(7) handled2(2-4) i(1) by (auto simp: ticked_def)
  qed
qed

definition sent_once :: "response outcome \<times> world" where
  "sent_once = TokenBearerMiddleware demo (putSendEvent demo)
     (send_request\<lparr>hr_PathValues := [(''roomId'', ''!r:a''), (''eventType'', ''m.room.message''), (''txnId'', ''t1'')]\<rparr>) (tick room_world)"

definition answered :: "response outcome \<times> world \<Rightarrow> bool" where
  "answered p \<longleftrightarrow> (case fst p of Ret x \<Rightarrow> rp_Status x = 200 | _ \<Rightarrow> False)"

lemma sent_once_answered:
  "answered sent_once \<and> w_cache (snd sent_once) \<noteq> [] \<and>
   w_clock (snd sent_once) (Suc (w_ticks (snd sent_once)) + 2) < w_clock (snd sent_once) (w_ticks (snd sent_once)) + day"
  by code_simp

definition sent_twice :: "response outcome \<times> world" where
  "sent_twice = TokenBearerMiddleware demo (putSendEvent demo)
     (send_request\<lparr>hr_PathValues := [(''roomId'', ''!r:a''), (''eventType'', ''m.room.message''), (''txnId'', ''t1'')]\<rparr>)
     (tick (tick (snd sent_once)))"

lemma sent_twice_answered: "answered sent_twice"
  by code_simp

lemma answeredE: "answered p \<Longrightarrow> \<exists>q. p = (Ret q, snd p) \<and> rp_Status q = 200"
  by (cases p) (auto simp: answered_def split: outcome.splits)

lemma send_once_witness:
  "\<exists>p w1 q w2. RegisterRoutes demo send_request room_world = (Ret p, w1) \<and> RegisterRoutes demo send_request w1 = (Ret q, w2) \<and>
     w_cache w1 \<noteq> [] \<and> w_db w2 = w_db w1 \<and> rp_Body q = rp_Body p"
proof -
  let ?w = "tick (snd sent_once)"
  obtain p0 q0 where p0: "sent_once = (Ret p0, snd sent_once)" "rp_Status p0 = 200"
    and q0: "sent_twice = (Ret q0, snd sent_twice)" "rp_Status q0 = 200"
    using sent_once_answered sent_twice_answered answeredE by blast
  define p where "p = p0\<lparr>rp_Header := corsHeaders @ rp_Header p0\<rparr>"
  define q where "q = q0\<lparr>rp_Header := corsHeaders @ rp_Header q0\<rparr>"
  have r: "RegisterRoutes demo send_request room_world = (Ret p, ?w)"
    using RegisterRoutes_served [OF send_request_asks send_route p0(1) [unfolded sent_once_def]] unfolding p_def sent_once_def .
  have r2: "RegisterRoutes demo send_request ?w = (Ret q, tick (snd sent_twice))"
    using RegisterRoutes_served [OF send_request_asks send_route q0(1) [unfolded sent_twice_def]] unfolding q_def sent_twice_def .
  have n: "w_cache ?w \<noteq> w_cache room_world" "w_cache ?w \<noteq> []"
    using sent_once_answered by (simp_all add: room_world_def start_world_def)
  have "w_fault ?w = w_fault room_world"
    by (rule keepsD [of call_rel "RegisterRoutes demo send_request", OF call_RegisterRoutes r, unfolded call_rel_def, THEN conjunct1])
      (simp_all add: handler_ok_def demo_def NewMediaService_def call.keeps_return)
  then have f: "w_fault ?w = (\<lambda>_. None)" by simp
  have t: "w_clock ?w (w_ticks ?w + 2) < w_clock ?w (w_ticks ?w - 1) + day" using sent_once_answered by simp
  have "rp_Status p = 200" "rp_Status q = 200" using p0(2) q0(2) by (simp_all add: p_def q_def)
  with send_once [OF asks_for_requested [OF send_request_asks] r _ n(1) room_world_fault(1) _ f t r2]
  have "w_db (tick (snd sent_twice)) = w_db ?w \<and> rp_Body q = rp_Body p" by blast
  with r r2 n(2) show ?thesis by blast
qed

subsection \<open>The joins and leaves of users of other servers\<close>

text \<open>Whether a signature is right makes no difference elsewhere than in \<open>send_leave\<close>: a server whose signature check
  accepts or refuses anything else answers every other request in the same way, and leaves the same database.\<close>

theorem signatures_not_enforced:
  assumes "requested h r \<noteq> Some ''PUT /_matrix/federation/v2/send_leave/{roomId}/{eventId}''"
  shows "RegisterRoutes (h\<lparr>h_verify := v\<rparr>) r w = RegisterRoutes h r w"
  using verify_RegisterRoutes [of h r v] assms by (simp add: send_leave_pattern_def)

text \<open>C13. \<open>send_join\<close>: an answer of 200 means that the body was a join event whose sender is its state key and belongs to
  the origin it names, that it carried, under the key the origin publishes, a signature of the origin in base64, that we
  have the room, and that the event became the member state and the membership of its sender; the forward extremities
  stay, and the answer is the new state. Whether the signature verifies is not part of the property.\<close>

theorem send_join_request:
  assumes "sendJoin h r w = (Ret p, w')" and "rp_Status p = 200"
  shows "\<exists>req keyID pub sig msg servers. DecodeBody r (decodeMember True) = Ret (Inr req) \<and>
    mq_Type req = ''m.room.member'' \<and> mc_Membership (mq_Content req) = ''join'' \<and> mq_StateKey req = mq_Sender req \<and>
    belongs_to (mq_Sender req) (mq_Origin req) \<and> origin_signed h req w keyID pub sig msg \<and>
    PathValue r ''roomId'' \<in> v_rooms (view_of (w_db w)) \<and>
    view_of (w_db w') = record_remote_member ''join'' (PathValue r ''roomId'') (memberEvento (PathValue r ''roomId'') req) (view_of (w_db w)) \<and>
    v_heads (view_of (w_db w')) = v_heads (view_of (w_db w)) \<and>
    rp_Body p = JoinState (map no_ordering (sel_state_events (PathValue r ''roomId'') (w_db w')))
      (map no_ordering (sel_state_events (PathValue r ''roomId'') (w_db w'))) servers"
proof -
  obtain req w1 res where r: "DecodeBody r (decodeMember True) = Ret (Inr req)" "memberFault ''join'' req = None"
    "verifyEventSignature h req w = (Ret (), w1)"
    "ProcessSendJoin (PathValue r ''roomId'') (memberEvento (PathValue r ''roomId'') req) w1 = (Ret res, w')"
    "rp_Body p = JoinState (sr_StateEvents res) (sr_StateEvents res) (sr_ServersInRoom res)"
    using sendJoin_Ret [OF assms] by blast
  have db: "w_db w1 = w_db w" by (rule silent_after(2) [OF silent_verifyEventSignature r(3)])
  obtain keyID pub sig msg where "origin_signed h req w keyID pub sig msg"
    using r(3) memberSignature_Ret [of h req w] by (auto simp: verifyEventSignature_def ret_bind)
  moreover note ProcessSendJoin_Ret [OF r(4)]
  moreover from this have "v_heads (view_of (w_db w')) = v_heads (view_of (w_db w1))"
    by (simp add: record_remote_member_def set_member_def set_state_def put_event_def)
  ultimately show ?thesis using r(1,2,5) unfolding db by (auto simp: memberFault_def split: if_splits)
qed

text \<open>C8. \<open>send_leave\<close>: an answer of 200 means that the body was a leave event whose sender is its state key and belongs to
  the origin it names, that the signature it carried under the key the origin publishes verifies over the canonical text
  of the event, that we have the room, and that the event became the member state and the membership of its sender; the
  forward extremities stay.\<close>

theorem send_leave_request:
  assumes "sendLeave h r w = (Ret p, w')" and "rp_Status p = 200"
  shows "\<exists>req keyID pub sig msg. DecodeBody r (decodeMember False) = Ret (Inr req) \<and>
    mq_Type req = ''m.room.member'' \<and> mc_Membership (mq_Content req) = ''leave'' \<and> mq_StateKey req = mq_Sender req \<and>
    belongs_to (mq_Sender req) (mq_Origin req) \<and> origin_signed h req w keyID pub sig msg \<and> h_verify h pub msg sig \<and>
    PathValue r ''roomId'' \<in> v_rooms (view_of (w_db w)) \<and>
    view_of (w_db w') = record_remote_member ''leave'' (PathValue r ''roomId'') (memberEvento (PathValue r ''roomId'') req) (view_of (w_db w)) \<and>
    v_heads (view_of (w_db w')) = v_heads (view_of (w_db w))"
proof -
  obtain req w1 where r: "DecodeBody r (decodeMember False) = Ret (Inr req)" "memberFault ''leave'' req = None"
    "verifyLeaveEventSignature h req w = (Ret (), w1)"
    "ProcessSendLeave (PathValue r ''roomId'') (memberEvento (PathValue r ''roomId'') req) w1 = (Ret (), w')"
    using sendLeave_Ret [OF assms] by blast
  have db: "w_db w1 = w_db w" by (rule silent_after(2) [OF silent_verifyLeaveEventSignature r(3)])
  obtain w0 where "memberSignature h req w = (Ret True, w0)"
    using r(3) by (auto simp: verifyLeaveEventSignature_def ret_bind ret_fail split: if_splits)
  then obtain keyID pub sig msg where "origin_signed h req w keyID pub sig msg" "h_verify h pub msg sig"
    using memberSignature_Ret by blast
  moreover note ProcessSendLeave_Ret [OF r(4)]
  moreover from this have "v_heads (view_of (w_db w')) = v_heads (view_of (w_db w1))"
    by (simp add: record_remote_member_def set_member_def set_state_def put_event_def)
  ultimately show ?thesis using r(1,2) unfolding db by (auto simp: memberFault_def split: if_splits)
qed

text \<open>A server that publishes a key, and requests whose signature verifies.\<close>

definition signed_members :: "string \<Rightarrow> (string \<times> json) list" where
  "signed_members m =
     [(''type'', JStr ''m.room.member''), (''content'', JObj [(''membership'', JStr m)]), (''origin'', JStr ''b:1''),
      (''sender'', JStr ''@v:b:1''), (''state_key'', JStr ''@v:b:1''), (''event_id'', JStr ''$vj''),
      (''signatures'', JObj [(''b:1'', JObj [(''ed25519:k'', JStr ''AAAA'')])])]"

definition signed_request :: "string \<Rightarrow> request" where
  "signed_request m = (request_of ''PUT'' ''/_matrix/federation'' '''' (JObj (signed_members m)))
     \<lparr>hr_PathValues := [(''roomId'', ''!r:a''), (''eventId'', ''$vj'')]\<rparr>"

definition strict_demo :: handler where
  "strict_demo = demo\<lparr>h_verify := (\<lambda>_ _ sig. sig = [CHR 0x00, CHR 0x00, CHR 0x00])\<rparr>"

definition key_world :: world where
  "key_world = room_world\<lparr>w_http := (\<lambda>_ _. Inr \<lparr>rs_status = 200, rs_ctype = ''application/json'', rs_bytes = '''',
     rs_body = Some (JObj [(''verify_keys'', JObj [(''ed25519:k'', JObj [(''key'', JStr (replicate 43 CHR ''A''))])])])\<rparr>)\<rparr>"

definition joined :: "response outcome \<times> world" where
  "joined = sendJoin strict_demo (signed_request ''join'') key_world"

definition left :: "response outcome \<times> world" where
  "left = sendLeave strict_demo (signed_request ''leave'') key_world"

lemma fold_more_names:
  "fold_name ''origin'' = ''ORIGIN''" "fold_name ''membership'' = ''MEMBERSHIP''"
  "fold_name ''join_authorised_via_users_server'' = ''JOIN_AUTHORISED_VIA_USERS_SERVER''"
  by (simp_all add: upper_def char_of_def bit_0)

lemma signed_fields:
  "field_vals ''content'' (signed_members m) = [JObj [(''membership'', JStr m)]]"
  "field_vals ''origin'' (signed_members m) = [JStr ''b:1'']" "field_vals ''origin_server_ts'' (signed_members m) = []"
  "field_vals ''sender'' (signed_members m) = [JStr ''@v:b:1'']" "field_vals ''state_key'' (signed_members m) = [JStr ''@v:b:1'']"
  "field_vals ''type'' (signed_members m) = [JStr ''m.room.member'']" "field_vals ''room_id'' (signed_members m) = []"
  "field_vals ''event_id'' (signed_members m) = [JStr ''$vj'']"
  "field_vals ''signatures'' (signed_members m) = [JObj [(''b:1'', JObj [(''ed25519:k'', JStr ''AAAA'')])]]"
  "field_vals ''depth'' (signed_members m) = []" "field_vals ''prev_events'' (signed_members m) = []" "field_vals ''auth_events'' (signed_members m) = []"
  by (simp_all add: field_vals_def signed_members_def fold_names fold_more_names del: fold_name.simps)

definition signed_member :: "string \<Rightarrow> MemberRequest" where
  "signed_member m = \<lparr>mq_Content = \<lparr>mc_JoinAuthorisedViaUsersServer = '''', mc_Membership = m\<rparr>, mq_Origin = ''b:1'',
     mq_OriginServerTS = 0, mq_Sender = ''@v:b:1'', mq_StateKey = ''@v:b:1'', mq_Type = ''m.room.member'', mq_RoomID = '''',
     mq_EventID = ''$vj'', mq_Signatures = [(''b:1'', [(''ed25519:k'', ''AAAA'')])], mq_Depth = 0, mq_PrevEvents = [],
     mq_AuthEvents = []\<rparr>"

lemma signed_content: "decodeMembershipContent [JObj [(''membership'', JStr m)]] =
    (\<lparr>mc_JoinAuthorisedViaUsersServer = '''', mc_Membership = m\<rparr>, False)"
  by (simp add: decodeMembershipContent_def struct_field_def field_vals_def fold_names fold_more_names dec_string_def del: fold_name.simps)

lemma signed_decoded: "decodeMember join (JObj (signed_members m)) = Inr (signed_member m)"
  by (simp add: decodeMember_def struct_members_def signed_fields signed_content dec_string_def dec_int64_def dec_map_def
      elem_map_def elem_string_def dec_strings_def signed_member_def)

lemma signed_body: "DecodeBody (signed_request m) (decodeMember join) = Ret (Inr (signed_member m))"
  by (simp add: DecodeBody_def signed_request_def request_of_def signed_decoded)

lemma signed_path: "PathValue (signed_request m) ''roomId'' = ''!r:a''"
  by (simp add: signed_request_def PathValue_def assoc_string_def)

lemma join_signature: "fst (verifyEventSignature strict_demo (signed_member ''join'') key_world) = Ret ()"
  by code_simp

lemma leave_signature: "fst (verifyLeaveEventSignature strict_demo (signed_member ''leave'') key_world) = Ret ()"
  by code_simp

lemma join_stored:
  "works (ProcessSendJoin ''!r:a'' (memberEvento ''!r:a'' (signed_member ''join'')) (snd (verifyEventSignature strict_demo (signed_member ''join'') key_world)))"
  by code_simp

lemma leave_stored:
  "works (ProcessSendLeave ''!r:a'' (memberEvento ''!r:a'' (signed_member ''leave'')) (snd (verifyLeaveEventSignature strict_demo (signed_member ''leave'') key_world)))"
  by code_simp

lemma joined_answered: "answered joined"
proof -
  obtain w1 where v: "verifyEventSignature strict_demo (signed_member ''join'') key_world = (Ret (), w1)"
    using run_Ret [OF join_signature] by blast
  obtain res w2 where "ProcessSendJoin ''!r:a'' (memberEvento ''!r:a'' (signed_member ''join'')) w1 = (Ret res, w2)"
    using run_works [OF join_stored] by (auto simp: v)
  moreover have "memberFault ''join'' (signed_member ''join'') = None" by code_simp
  ultimately show ?thesis
    by (simp add: answered_def joined_def sendJoin_def Let_def withMember_def decodeOr400_def signed_body signed_path run_simps v WriteJSON_def)
qed

lemma left_answered: "answered left"
proof -
  obtain w1 where v: "verifyLeaveEventSignature strict_demo (signed_member ''leave'') key_world = (Ret (), w1)"
    using run_Ret [OF leave_signature] by blast
  obtain res w2 where "ProcessSendLeave ''!r:a'' (memberEvento ''!r:a'' (signed_member ''leave'')) w1 = (Ret res, w2)"
    using run_works [OF leave_stored] by (auto simp: v)
  moreover have "memberFault ''leave'' (signed_member ''leave'') = None" by code_simp
  ultimately show ?thesis
    by (simp add: answered_def left_def sendLeave_def Let_def withMember_def decodeOr400_def signed_body signed_path run_simps v WriteJSON_def)
qed

lemma send_join_request_witness:
  "\<exists>ev. view_of (w_db (snd joined)) = record_remote_member ''join'' ''!r:a'' ev (view_of room_db)"
proof -
  obtain p where "fst joined = Ret p" "rp_Status p = 200" using joined_answered by (auto simp: answered_def split: outcome.splits)
  from send_join_request [OF run_Ret [OF this(1), unfolded joined_def] this(2)] show ?thesis
    by (auto simp: joined_def signed_path key_world_def room_world_def)
qed

lemma send_leave_request_witness:
  "\<exists>ev. view_of (w_db (snd left)) = record_remote_member ''leave'' ''!r:a'' ev (view_of room_db)"
proof -
  obtain p where "fst left = Ret p" "rp_Status p = 200" using left_answered by (auto simp: answered_def split: outcome.splits)
  from send_leave_request [OF run_Ret [OF this(1), unfolded left_def] this(2)] show ?thesis
    by (auto simp: left_def signed_path key_world_def room_world_def)
qed

subsection \<open>Access tokens\<close>

text \<open>C14. The access token of a successful login names the user and the device that logged in, in every later state of the
  database, logging out included, until half an hour after the login, in whole seconds; from then on it is refused with the
  error that asks for a soft logout.\<close>

theorem login_token_accepted:
  assumes "jwt_spec (as_lib (h_auth h)) (h_Parse h)" and "Login (h_auth h) lp w = (Ret ok, w')"
  shows "\<exists>n. w_ticks w \<le> n \<and> n < w_ticks w' \<and>
    (\<forall>r v nxt. HeaderGet r ''Authorization'' = ''Bearer '' @ ls_AccessToken ok \<longrightarrow>
       TokenBearerMiddleware h nxt r v =
         (if w_clock v (w_ticks v) < 1000 * ((w_clock w n + AccessTokenExpiration) div 1000)
          then nxt (r\<lparr>hr_UserID := Some (ls_UserID ok), hr_DeviceID := Some (ls_DeviceID ok)\<rparr>) (tick v)
          else WriteMatrixErrorSoftLogout 401 ''M_UNKNOWN_TOKEN'' ''Access token has expired'' (tick v)))"
proof -
  obtain n i where n: "w_ticks w \<le> n" "n < w_ticks w'" and
    "al_sign (as_lib (h_auth h)) (as_jwtSecret (h_auth h)) (ls_UserID ok) (ls_DeviceID ok) (w_clock w n + AccessTokenExpiration) i =
      Inr (ls_AccessToken ok)"
    using Login_token [OF assms(2)] by blast
  then show ?thesis using token_accepted [OF assms(1)] token_expired [OF assms(1)] by (intro exI [of _ n]) auto
qed

definition demo_login :: "LoginSuccess outcome \<times> world" where
  "demo_login = Login slash_auth
     \<lparr>lp_IdType = ''m.id.user'', lp_User = ''v'', lp_Password = ''pv'', lp_DeviceID = '''', lp_DeviceName = ''phone'', lp_DeviceIP = ''::1''\<rparr>
     device_world"

lemma demo_login_works: "works demo_login"
  by code_simp

lemma login_token_accepted_witness:
  "\<exists>ok. fst demo_login = Ret ok \<and> TokenBearerMiddleware demo (whoami demo)
     (send_request\<lparr>hr_Header := [(''Authorization'', ''Bearer '' @ ls_AccessToken ok)]\<rparr>) room_world = whoami demo
       (send_request\<lparr>hr_Header := [(''Authorization'', ''Bearer '' @ ls_AccessToken ok)],
         hr_UserID := Some (ls_UserID ok), hr_DeviceID := Some (ls_DeviceID ok)\<rparr>) (tick room_world)"
proof -
  obtain ok where ok: "demo_login = (Ret ok, snd demo_login)" using run_works [OF demo_login_works] by blast
  have "h_auth demo = slash_auth" "h_Parse demo = slash_parse" by (simp_all add: demo_def)
  then have "jwt_spec (as_lib (h_auth demo)) (h_Parse demo)" using slash_spec by simp
  moreover have "Login (h_auth demo)
     \<lparr>lp_IdType = ''m.id.user'', lp_User = ''v'', lp_Password = ''pv'', lp_DeviceID = '''', lp_DeviceName = ''phone'', lp_DeviceIP = ''::1''\<rparr>
     device_world = (Ret ok, snd demo_login)"
    using ok \<open>h_auth demo = slash_auth\<close> by (simp add: demo_login_def)
  moreover have "w_clock room_world (w_ticks room_world) < 1000 * ((w_clock device_world n + AccessTokenExpiration) div 1000)" for n
    by (simp add: room_world_def device_world_def start_world_def AccessTokenExpiration_def)
  moreover have "HeaderGet (send_request\<lparr>hr_Header := [(''Authorization'', a)]\<rparr>) ''Authorization'' = a" for a
    by (simp add: HeaderGet_def assoc_string_def)
  ultimately have "TokenBearerMiddleware demo (whoami demo)
     (send_request\<lparr>hr_Header := [(''Authorization'', ''Bearer '' @ ls_AccessToken ok)]\<rparr>) room_world = whoami demo
       (send_request\<lparr>hr_Header := [(''Authorization'', ''Bearer '' @ ls_AccessToken ok)],
         hr_UserID := Some (ls_UserID ok), hr_DeviceID := Some (ls_DeviceID ok)\<rparr>) (tick room_world)"
    using login_token_accepted [of demo] by fastforce
  moreover have "fst demo_login = Ret ok" using ok by (metis fst_conv)
  ultimately show ?thesis by blast
qed

end
