(* ===== verification/Config.thy ===== *)
theory Config
  imports Handler_Laws
begin

text \<open>
  \<^verbatim>\<open>infrastructure/config/config.go\<close>, \<^verbatim>\<open>GenerateServerKey\<close> of \<^verbatim>\<open>util/crypto.go\<close>, and the part of \<^verbatim>\<open>cmd/api/main.go\<close> that
  gives the services their settings. The environment is a function from names to values, the empty string for a
  variable that is not set; a key pair (or an error) comes from \<^verbatim>\<open>ed25519.GenerateKey\<close>.
\<close>

record AppConfig =
  ac_ServerName :: string
  ac_ServerPort :: int
  ac_Version :: string
  ac_JWTToken :: string
  ac_KeyID :: string
  ac_DatabaseURL :: string
  ac_RedisHost :: string
  ac_RedisPort :: int
  ac_RedisPassword :: string
  ac_RedisDB :: int
  ac_PublicKey :: string
  ac_PrivateKey :: string
  ac_MinioEndpoint :: string
  ac_MinioAccessKey :: string
  ac_MinioSecretKey :: string
  ac_MinioUseSSL :: bool
  ac_MaxUploadBytes :: int

definition GenerateServerKey :: "go_error + (string \<times> string) \<Rightarrow> string \<Rightarrow> string \<Rightarrow> go_error + (string \<times> string \<times> string)" where
  "GenerateServerKey generated serverName version = (case generated of
       Inl e \<Rightarrow> Inl (Wrapf ''failed to generate key'' e)
     | Inr (pubKey, privKey) \<Rightarrow> Inr (''ed25519:'' @ version, pubKey, privKey))"

text \<open>The first variable of the list that is not set.\<close>

definition unset :: "(string \<Rightarrow> string) \<Rightarrow> string list \<Rightarrow> string option" where
  "unset env ks = find (\<lambda>k. env k = '''') ks"

definition not_set :: "string \<Rightarrow> go_error" where
  "not_set k = Errorf (k @ '' variable is not set'')"

definition not_integer :: "string \<Rightarrow> go_error" where
  "not_integer k = Errorf (k @ '' is not a valid integer'')"

definition databaseUrl :: "(string \<Rightarrow> string) \<Rightarrow> string" where
  "databaseUrl env =
     ''user='' @ env ''DRAGONITE_DB_USERNAME'' @ '' password='' @ env ''DRAGONITE_DB_PASSWORD'' @
     '' host='' @ env ''DRAGONITE_DB_HOST'' @ '' port='' @ env ''DRAGONITE_DB_PORT'' @
     '' dbname='' @ env ''DRAGONITE_DB_DATABASE''"

definition maxUpload :: "(string \<Rightarrow> string) \<Rightarrow> int option" where
  "maxUpload env = (let raw = env ''MAX_UPLOAD_BYTES'' in if raw \<noteq> '''' then ParseInt raw else Some (50 * 1024 * 1024))"

definition LoadConfig :: "(string \<Rightarrow> string) \<Rightarrow> go_error + (string \<times> string) \<Rightarrow> go_error + AppConfig" where
  "LoadConfig env generated =
     (if env ''BACKEND_PORT'' = '''' then Inl (not_set ''BACKEND_PORT'')
      else case ParseInt (env ''BACKEND_PORT'') of
        None \<Rightarrow> Inl (not_integer ''BACKEND_PORT'')
      | Some port \<Rightarrow>
     (case unset env [''SERVER_NAME'', ''VERSION'', ''JWT_TOKEN'', ''REDIS_HOST'', ''REDIS_PORT''] of
        Some k \<Rightarrow> Inl (not_set k)
      | None \<Rightarrow>
     (case ParseInt (env ''REDIS_PORT'') of
        None \<Rightarrow> Inl (not_integer ''REDIS_PORT'')
      | Some redis_port \<Rightarrow>
     (case unset env [''REDIS_PASSWORD'', ''MINIO_ENDPOINT'', ''MINIO_ACCESS_KEY'', ''MINIO_SECRET_KEY''] of
        Some k \<Rightarrow> Inl (not_set k)
      | None \<Rightarrow>
     (case GenerateServerKey generated (env ''SERVER_NAME'') (env ''VERSION'') of
        Inl e \<Rightarrow> Inl e
      | Inr (key, pubKey, privKey) \<Rightarrow>
     (case maxUpload env of
        None \<Rightarrow> Inl (not_integer ''MAX_UPLOAD_BYTES'')
      | Some maxUploadBytes \<Rightarrow>
          Inr \<lparr>ac_ServerName = env ''SERVER_NAME'', ac_ServerPort = port, ac_Version = env ''VERSION'',
               ac_JWTToken = env ''JWT_TOKEN'', ac_KeyID = key, ac_DatabaseURL = databaseUrl env,
               ac_RedisHost = env ''REDIS_HOST'', ac_RedisPort = redis_port, ac_RedisPassword = env ''REDIS_PASSWORD'',
               ac_RedisDB = 0, ac_PublicKey = pubKey, ac_PrivateKey = privKey, ac_MinioEndpoint = env ''MINIO_ENDPOINT'',
               ac_MinioAccessKey = env ''MINIO_ACCESS_KEY'', ac_MinioSecretKey = env ''MINIO_SECRET_KEY'',
               ac_MinioUseSSL = (env ''MINIO_USE_SSL'' = ''true''), ac_MaxUploadBytes = maxUploadBytes\<rparr>))))))"

text \<open>
  What \<open>main\<close> makes of the settings: every service gets the same server name, key and secret. The foreign packages are
  those of the handler \<open>packages\<close>.
\<close>

definition serve :: "handler \<Rightarrow> AppConfig \<Rightarrow> handler" where
  "serve packages config = packages
     \<lparr>h_sv := (h_sv packages)\<lparr>sv_serverName := ac_ServerName config, sv_keyID := ac_KeyID config,
        sv_privateKey := ac_PrivateKey config\<rparr>,
      h_auth := (h_auth packages)\<lparr>as_jwtSecret := ac_JWTToken config, as_ServerName := ac_ServerName config\<rparr>,
      h_media := NewMediaService (ac_ServerName config) (ac_MaxUploadBytes config) (Some FetchRemoteMedia),
      h_version := ac_Version config, h_publicKey := ac_PublicKey config\<rparr>"

subsection \<open>What a configuration that loads is good for\<close>

lemma ParseInt_in64: "ParseInt s = Some n \<Longrightarrow> in_int64 n"
  by (auto simp: ParseInt_def Let_def split: option.splits if_splits list.splits)

text \<open>A server starts only with a name, a token secret and ports that are numbers, and always with some upload limit.\<close>

lemma LoadConfig_Inr:
  assumes "LoadConfig env generated = Inr config"
  shows "ac_ServerName config \<noteq> '''' \<and> ac_JWTToken config \<noteq> '''' \<and> in_int64 (ac_ServerPort config) \<and>
    in_int64 (ac_MaxUploadBytes config) \<and> ac_KeyID config = ''ed25519:'' @ ac_Version config"
proof -
  have "in_int64 n" if "maxUpload env = Some n" for n
    using that by (auto simp: maxUpload_def Let_def in_int64_def dest: ParseInt_in64 split: if_splits)
  then show ?thesis
    using assms
    by (auto simp: LoadConfig_def unset_def GenerateServerKey_def dest: ParseInt_in64
        split: if_splits option.splits sum.splits prod.splits)
qed

text \<open>A server that was started this way fetches remote media over HTTP only, so its calls are those of the invariants.\<close>

lemma serve_ok:
  assumes "\<And>u. keeps call_rel (h_wait packages u)"
  shows "handler_ok (serve packages config)"
  using assms silent_call [OF silent_FetchRemoteMedia] by (auto simp: handler_ok_def serve_def NewMediaService_def)

lemma serve_max_positive: "0 < ms_maxSizeBytes (h_media (serve packages config))"
  by (simp add: serve_def NewMediaService_def DefaultMaxUploadBytes_def)

end
