(* ===== verification/Notifier.thy ===== *)
theory Notifier
  imports Invariants
begin

text \<open>
  \<^verbatim>\<open>infrastructure/postgres/notifier.go\<close> and the trigger of \<^verbatim>\<open>migrations/000007_matrix_sync_client_func.up.sql\<close>: long polls
  wait on channels until the background listener, or a user who leaves a room, wakes them.

  The goroutines run concurrently, each of their critical sections is one step: calls of the service, polls that
  subscribe, receive, expire and clean up, and the listener, which takes notifications, queries the members of the
  room and wakes them row by row. A channel is its index in the list of all polls; the identity of a poll is never used
  again.
\<close>

subsection \<open>Subscribers\<close>

text \<open>What a poll does: it is blocked in the \<open>select\<close>, it has left the \<open>select\<close> with a result, or it has returned.\<close>

datatype wait_phase = Blocked | Leaving "go_error option" | Returned "go_error option"

text \<open>\<open>wt_buffer\<close> is what the channel of capacity one holds, \<open>wt_expired\<close> the error of the context once it is done.\<close>

record waiter =
  wt_user :: string
  wt_buffer :: nat
  wt_expired :: "go_error option"
  wt_phase :: wait_phase

record notifier =
  nt_subscribers :: "string \<Rightarrow> nat list option"
  nt_waiters :: "waiter list"

definition NewPostgresNotifier :: notifier where
  "NewPostgresNotifier = \<lparr>nt_subscribers = (\<lambda>_. None), nt_waiters = []\<rparr>"

definition channels :: "notifier \<Rightarrow> string \<Rightarrow> nat list" where
  "channels n u = (case nt_subscribers n u of None \<Rightarrow> [] | Some chs \<Rightarrow> chs)"

text \<open>The non-blocking send: a full channel stays as it is.\<close>

definition offer :: "nat \<Rightarrow> waiter list \<Rightarrow> waiter list" where
  "offer ch ws = ws[ch := (ws ! ch)\<lparr>wt_buffer := (if wt_buffer (ws ! ch) < 1 then wt_buffer (ws ! ch) + 1 else wt_buffer (ws ! ch))\<rparr>]"

definition wakeUp :: "string \<Rightarrow> notifier \<Rightarrow> notifier" where
  "wakeUp userID n = (case nt_subscribers n userID of
       None \<Rightarrow> n
     | Some chs \<Rightarrow>
         n\<lparr>nt_waiters := fold offer chs (nt_waiters n), nt_subscribers := (nt_subscribers n)(userID := None)\<rparr>)"

text \<open>\<open>WaitForEvents\<close>, section by section: registration, the two branches of the \<open>select\<close>, the deferred clean-up.\<close>

definition subscribe :: "string \<Rightarrow> notifier \<Rightarrow> notifier" where
  "subscribe userID n =
     n\<lparr>nt_waiters := nt_waiters n @ [\<lparr>wt_user = userID, wt_buffer = 0, wt_expired = None, wt_phase = Blocked\<rparr>],
       nt_subscribers := (nt_subscribers n)(userID := Some (channels n userID @ [length (nt_waiters n)]))\<rparr>"

definition change :: "nat \<Rightarrow> (waiter \<Rightarrow> waiter) \<Rightarrow> notifier \<Rightarrow> notifier" where
  "change ch f n = n\<lparr>nt_waiters := (nt_waiters n)[ch := f (nt_waiters n ! ch)]\<rparr>"

definition unsubscribe :: "nat \<Rightarrow> notifier \<Rightarrow> notifier" where
  "unsubscribe ch n =
     (let userID = wt_user (nt_waiters n ! ch); rest = remove1 ch (channels n userID)
      in n\<lparr>nt_subscribers := (nt_subscribers n)(userID := (if rest = [] then None else Some rest))\<rparr>)"

inductive wait_step :: "notifier \<Rightarrow> notifier \<Rightarrow> bool" where
  wait_subscribe: "wait_step n (subscribe u n)"
| wait_receive: "ch < length (nt_waiters n) \<Longrightarrow> wt_phase (nt_waiters n ! ch) = Blocked \<Longrightarrow> 0 < wt_buffer (nt_waiters n ! ch) \<Longrightarrow>
    wait_step n (change ch (\<lambda>w. w\<lparr>wt_buffer := wt_buffer w - 1, wt_phase := Leaving None\<rparr>) n)"
| wait_expire: "ch < length (nt_waiters n) \<Longrightarrow> wt_expired (nt_waiters n ! ch) = None \<Longrightarrow> e \<in> {Canceled, DeadlineExceeded} \<Longrightarrow>
    wait_step n (change ch (\<lambda>w. w\<lparr>wt_expired := Some e\<rparr>) n)"
| wait_give_up: "ch < length (nt_waiters n) \<Longrightarrow> wt_phase (nt_waiters n ! ch) = Blocked \<Longrightarrow> wt_expired (nt_waiters n ! ch) = Some e \<Longrightarrow>
    wait_step n (change ch (\<lambda>w. w\<lparr>wt_phase := Leaving (Some e)\<rparr>) n)"
| wait_return: "ch < length (nt_waiters n) \<Longrightarrow> wt_phase (nt_waiters n ! ch) = Leaving r \<Longrightarrow>
    wait_step n (change ch (\<lambda>w. w\<lparr>wt_phase := Returned r\<rparr>) (unsubscribe ch n))"

inductive_cases wait_stepE: "wait_step n n'"

subsection \<open>The listener\<close>

text \<open>
  \<open>ls_queue\<close> holds the notifications the connection has not handed out yet, \<open>ls_rows\<close> the users of the last one that were not
  woken yet; before \<open>LISTEN\<close> was executed nothing is queued.
\<close>

record listening =
  ls_world :: world
  ls_notifier :: notifier
  ls_on :: bool
  ls_queue :: "string list"
  ls_rows :: "string list"

definition listener_users :: "string \<Rightarrow> db \<Rightarrow> string list" where
  "listener_users roomID d =
     map mb_usuario (filter (\<lambda>m. mb_canal m = roomID \<and> mb_type m \<in> {''join'', ''invite''}) (t_Membership d))"

text \<open>The trigger notifies the room of each stored event; PostgreSQL may merge equal notifications of a transaction.\<close>

definition notified_rooms :: "db \<Rightarrow> db \<Rightarrow> string list" where
  "notified_rooms d d' = map ev_CanalID (drop (length (t_Evento d)) (t_Evento d'))"

text \<open>A call may wake users itself: those it added to \<open>w_woken\<close>.\<close>

definition woken_by :: "world \<Rightarrow> world \<Rightarrow> string list" where
  "woken_by w w' = drop (length (w_woken w)) (w_woken w')"

inductive listen_step :: "range_orders \<Rightarrow> server \<Rightarrow> listening \<Rightarrow> listening \<Rightarrow> bool" for ro sv where
  listen_call: "api_step ro sv (ls_world s) w' \<Longrightarrow>
    set rooms = (if ls_on s then set (notified_rooms (w_db (ls_world s)) (w_db w')) else {}) \<Longrightarrow>
    listen_step ro sv s (s\<lparr>ls_world := w', ls_notifier := fold wakeUp (woken_by (ls_world s) w') (ls_notifier s),
      ls_queue := ls_queue s @ rooms\<rparr>)"
| listen_wait: "wait_step (ls_notifier s) n' \<Longrightarrow> listen_step ro sv s (s\<lparr>ls_notifier := n'\<rparr>)"
| listen_take: "ls_on s \<Longrightarrow> ls_rows s = [] \<Longrightarrow> ls_queue s = roomID # q \<Longrightarrow>
    listen_step ro sv s (s\<lparr>ls_queue := q, ls_rows := listener_users roomID (w_db (ls_world s))\<rparr>)"
| listen_row: "ls_rows s = userID # us \<Longrightarrow>
    listen_step ro sv s (s\<lparr>ls_rows := us, ls_notifier := wakeUp userID (ls_notifier s)\<rparr>)"

text \<open>
  What can go wrong is only logged: the query for the members fails, a row does not scan, the rows end early. Starting the
  listener is a step of its own, since \<open>main\<close> does not wait for it.
\<close>

inductive listen_fault :: "listening \<Rightarrow> listening \<Rightarrow> bool" where
  fault_start: "listen_fault s (s\<lparr>ls_on := True\<rparr>)"
| fault_query: "ls_on s \<Longrightarrow> ls_rows s = [] \<Longrightarrow> ls_queue s = roomID # q \<Longrightarrow> listen_fault s (s\<lparr>ls_queue := q\<rparr>)"
| fault_scan: "ls_rows s = userID # us \<Longrightarrow> listen_fault s (s\<lparr>ls_rows := us\<rparr>)"
| fault_rows: "listen_fault s (s\<lparr>ls_rows := []\<rparr>)"

inductive_cases listen_stepE: "listen_step ro sv s s'"
inductive_cases listen_faultE: "listen_fault s s'"

definition listening_start :: "world \<Rightarrow> listening" where
  "listening_start w = \<lparr>ls_world = w, ls_notifier = NewPostgresNotifier, ls_on = False, ls_queue = [], ls_rows = []\<rparr>"

text \<open>All runs, with failures, from a server that has just been started.\<close>

definition listening_run :: "range_orders \<Rightarrow> server \<Rightarrow> listening \<Rightarrow> bool" where
  "listening_run ro sv s \<longleftrightarrow> (\<exists>w. (\<lambda>x y. listen_step ro sv x y \<or> listen_fault x y)\<^sup>*\<^sup>* (listening_start w) s)"

subsection \<open>The invariant of the subscribers\<close>

text \<open>
  Every registered channel belongs to a poll of that user which got no token and has not returned; a poll that is blocked
  without a token is registered; no list is empty or holds a channel twice.
\<close>

definition registered_ok :: "notifier \<Rightarrow> string \<Rightarrow> nat \<Rightarrow> bool" where
  "registered_ok n u ch \<longleftrightarrow> ch < length (nt_waiters n) \<and> wt_user (nt_waiters n ! ch) = u \<and> wt_buffer (nt_waiters n ! ch) = 0 \<and>
     (wt_phase (nt_waiters n ! ch) = Blocked \<or> (\<exists>e. wt_phase (nt_waiters n ! ch) = Leaving (Some e)))"

definition notifier_ok :: "notifier \<Rightarrow> bool" where
  "notifier_ok n \<longleftrightarrow>
     (\<forall>u chs. nt_subscribers n u = Some chs \<longrightarrow> chs \<noteq> [] \<and> distinct chs \<and> (\<forall>ch\<in>set chs. registered_ok n u ch)) \<and>
     (\<forall>ch<length (nt_waiters n). wt_buffer (nt_waiters n ! ch) \<le> 1 \<and>
        (wt_phase (nt_waiters n ! ch) = Blocked \<and> wt_buffer (nt_waiters n ! ch) = 0 \<longrightarrow>
           ch \<in> set (channels n (wt_user (nt_waiters n ! ch)))))"

lemma notifier_okI:
  assumes "\<And>u chs. nt_subscribers n u = Some chs \<Longrightarrow> chs \<noteq> [] \<and> distinct chs \<and> (\<forall>ch\<in>set chs. registered_ok n u ch)"
    and "\<And>ch. ch < length (nt_waiters n) \<Longrightarrow> wt_buffer (nt_waiters n ! ch) \<le> 1"
    and "\<And>ch. ch < length (nt_waiters n) \<Longrightarrow> wt_phase (nt_waiters n ! ch) = Blocked \<Longrightarrow> wt_buffer (nt_waiters n ! ch) = 0 \<Longrightarrow>
      ch \<in> set (channels n (wt_user (nt_waiters n ! ch)))"
  shows "notifier_ok n"
  using assms by (simp add: notifier_ok_def)

lemma notifier_ok_list:
  assumes "notifier_ok n" and "nt_subscribers n u = Some chs"
  shows "chs \<noteq> []" "distinct chs" "ch \<in> set chs \<Longrightarrow> registered_ok n u ch"
  using assms by (auto simp: notifier_ok_def)

lemma notifier_ok_waiter:
  assumes "notifier_ok n" and "ch < length (nt_waiters n)"
  shows "wt_buffer (nt_waiters n ! ch) \<le> 1"
    and "wt_phase (nt_waiters n ! ch) = Blocked \<Longrightarrow> wt_buffer (nt_waiters n ! ch) = 0 \<Longrightarrow>
      ch \<in> set (channels n (wt_user (nt_waiters n ! ch)))"
  using assms by (auto simp: notifier_ok_def)

lemma notifier_ok_channels:
  assumes "notifier_ok n"
  shows "distinct (channels n u)" "ch \<in> set (channels n u) \<Longrightarrow> registered_ok n u ch"
  using notifier_ok_list [OF assms] by (cases "nt_subscribers n u"; simp add: channels_def)+

text \<open>Waking: the channels of the user get a token, and nothing else changes.\<close>

lemma length_fold_offer [simp]: "length (fold offer chs ws) = length ws"
  by (induction chs arbitrary: ws) (simp_all add: offer_def)

lemma fold_offer_other [simp]: "i \<notin> set chs \<Longrightarrow> fold offer chs ws ! i = ws ! i"
  by (induction chs arbitrary: ws) (simp_all add: offer_def)

lemma offer_nth: "c < length ws \<Longrightarrow> wt_buffer (ws ! c) = 0 \<Longrightarrow> offer c ws ! c = (ws ! c)\<lparr>wt_buffer := 1\<rparr>"
  by (simp add: offer_def)

lemma offer_other: "i \<noteq> c \<Longrightarrow> offer c ws ! i = ws ! i"
  by (simp add: offer_def)

lemma length_offer [simp]: "length (offer c ws) = length ws"
  by (simp add: offer_def)

lemma fold_offer_nth:
  "distinct chs \<Longrightarrow> i \<in> set chs \<Longrightarrow> i < length ws \<Longrightarrow> wt_buffer (ws ! i) = 0 \<Longrightarrow>
     fold offer chs ws ! i = (ws ! i)\<lparr>wt_buffer := 1\<rparr>"
proof (induction chs arbitrary: ws)
  case (Cons c chs)
  then show ?case by (cases "i = c") (simp_all add: offer_nth offer_other)
qed simp

lemma length_wakeUp [simp]: "length (nt_waiters (wakeUp u n)) = length (nt_waiters n)"
  by (simp add: wakeUp_def split: option.split)

lemma wakeUp_subscribers: "nt_subscribers (wakeUp u n) = (nt_subscribers n)(u := None)"
  by (auto simp: wakeUp_def fun_eq_iff split: option.split)

lemma wakeUp_other: "i \<notin> set (channels n u) \<Longrightarrow> nt_waiters (wakeUp u n) ! i = nt_waiters n ! i"
  by (simp add: wakeUp_def channels_def split: option.splits)

lemma wakeUp_nth:
  assumes "notifier_ok n" and "i \<in> set (channels n u)"
  shows "nt_waiters (wakeUp u n) ! i = (nt_waiters n ! i)\<lparr>wt_buffer := 1\<rparr>"
proof -
  obtain chs where chs: "nt_subscribers n u = Some chs" "i \<in> set chs"
    using assms(2) by (cases "nt_subscribers n u") (simp_all add: channels_def)
  then have "registered_ok n u i" "distinct chs" using notifier_ok_list [OF assms(1)] by blast+
  then show ?thesis using chs by (simp add: wakeUp_def registered_ok_def fold_offer_nth)
qed

lemma wakeUp_phase:
  assumes "notifier_ok n"
  shows "wt_phase (nt_waiters (wakeUp u n) ! i) = wt_phase (nt_waiters n ! i)"
    "wt_user (nt_waiters (wakeUp u n) ! i) = wt_user (nt_waiters n ! i)"
  by (cases "i \<in> set (channels n u)"; simp add: wakeUp_nth [OF assms] wakeUp_other)+

lemma registered_user: "notifier_ok n \<Longrightarrow> i \<in> set (channels n u) \<Longrightarrow> wt_user (nt_waiters n ! i) = u"
  using notifier_ok_channels(2) by (auto simp: registered_ok_def)

lemma notifier_ok_wakeUp:
  assumes ok: "notifier_ok n"
  shows "notifier_ok (wakeUp u n)"
proof (rule notifier_okI)
  fix v chs
  assume "nt_subscribers (wakeUp u n) v = Some chs"
  then have v: "v \<noteq> u" "nt_subscribers n v = Some chs" by (simp_all add: wakeUp_subscribers split: if_splits)
  have "registered_ok (wakeUp u n) v ch" if "ch \<in> set chs" for ch
  proof -
    have r: "registered_ok n v ch" using notifier_ok_list(3) [OF ok v(2) that] .
    then have "ch \<notin> set (channels n u)" using registered_user [OF ok] v(1) by (auto simp: registered_ok_def)
    then show ?thesis using r by (simp add: registered_ok_def wakeUp_other)
  qed
  then show "chs \<noteq> [] \<and> distinct chs \<and> (\<forall>ch\<in>set chs. registered_ok (wakeUp u n) v ch)"
    using notifier_ok_list [OF ok v(2)] by blast
next
  fix ch
  assume ch: "ch < length (nt_waiters (wakeUp u n))"
  then show "wt_buffer (nt_waiters (wakeUp u n) ! ch) \<le> 1"
    using notifier_ok_waiter(1) [OF ok, of ch]
    by (cases "ch \<in> set (channels n u)") (simp_all add: wakeUp_nth [OF ok] wakeUp_other)
  assume b: "wt_phase (nt_waiters (wakeUp u n) ! ch) = Blocked" "wt_buffer (nt_waiters (wakeUp u n) ! ch) = 0"
  then have o: "ch \<notin> set (channels n u)" using wakeUp_nth [OF ok, of ch u] by auto
  then have in_n: "ch \<in> set (channels n (wt_user (nt_waiters n ! ch)))"
    using b ch by (intro notifier_ok_waiter(2) [OF ok]) (simp_all add: wakeUp_other)
  then have "wt_user (nt_waiters n ! ch) \<noteq> u" using o by auto
  then show "ch \<in> set (channels (wakeUp u n) (wt_user (nt_waiters (wakeUp u n) ! ch)))"
    using in_n o by (simp add: wakeUp_other channels_def wakeUp_subscribers)
qed

lemma notifier_ok_fold: "notifier_ok n \<Longrightarrow> notifier_ok (fold wakeUp us n)"
  by (induction us arbitrary: n) (simp_all add: notifier_ok_wakeUp)

text \<open>The steps of the polls.\<close>

lemma notifier_ok_subscribe:
  assumes ok: "notifier_ok n"
  shows "notifier_ok (subscribe u n)"
proof (rule notifier_okI)
  fix v chs
  assume v: "nt_subscribers (subscribe u n) v = Some chs"
  have old: "registered_ok (subscribe u n) x ch" if "registered_ok n x ch" for x ch
    using that by (simp add: registered_ok_def subscribe_def nth_append)
  have new: "registered_ok (subscribe u n) u (length (nt_waiters n))"
    by (simp add: registered_ok_def subscribe_def)
  have below: "ch < length (nt_waiters n)" if "ch \<in> set (channels n u)" for ch
    using notifier_ok_channels(2) [OF ok that] by (simp add: registered_ok_def)
  show "chs \<noteq> [] \<and> distinct chs \<and> (\<forall>ch\<in>set chs. registered_ok (subscribe u n) v ch)"
  proof (cases "v = u")
    case True
    then have "chs = channels n u @ [length (nt_waiters n)]" using v by (simp add: subscribe_def)
    then show ?thesis
      using True new below old notifier_ok_channels [OF ok] by auto
  next
    case False
    then have "nt_subscribers n v = Some chs" using v by (simp add: subscribe_def)
    then show ?thesis using notifier_ok_list [OF ok] old by blast
  qed
next
  fix ch
  assume ch: "ch < length (nt_waiters (subscribe u n))"
  then show "wt_buffer (nt_waiters (subscribe u n) ! ch) \<le> 1"
    using notifier_ok_waiter(1) [OF ok] by (auto simp: subscribe_def nth_append less_Suc_eq)
  assume "wt_phase (nt_waiters (subscribe u n) ! ch) = Blocked" "wt_buffer (nt_waiters (subscribe u n) ! ch) = 0"
  then show "ch \<in> set (channels (subscribe u n) (wt_user (nt_waiters (subscribe u n) ! ch)))"
    using ch notifier_ok_waiter(2) [OF ok] by (auto simp: subscribe_def nth_append less_Suc_eq channels_def split: if_splits)
qed

text \<open>Steps of one poll that leave the registration alone: what it is allowed to become.\<close>

definition poll_change_ok :: "waiter \<Rightarrow> waiter \<Rightarrow> bool" where
  "poll_change_ok w w' \<longleftrightarrow> wt_user w' = wt_user w \<and> wt_buffer w' \<le> 1 \<and>
     (wt_phase w' = Blocked \<longrightarrow> w' = w\<lparr>wt_expired := wt_expired w'\<rparr>) \<and>
     (wt_buffer w = 0 \<and> (wt_phase w = Blocked \<or> (\<exists>e. wt_phase w = Leaving (Some e))) \<longrightarrow>
        wt_buffer w' = 0 \<and> (wt_phase w' = Blocked \<or> (\<exists>e. wt_phase w' = Leaving (Some e))))"

lemma notifier_ok_change:
  assumes ok: "notifier_ok n" and ch: "ch < length (nt_waiters n)"
    and f: "poll_change_ok (nt_waiters n ! ch) (f (nt_waiters n ! ch))"
  shows "notifier_ok (change ch f n)"
proof (rule notifier_okI)
  have nth: "nt_waiters (change ch f n) ! i = (if i = ch then f (nt_waiters n ! ch) else nt_waiters n ! i)" for i
    using ch by (simp add: change_def nth_list_update)
  have [simp]: "nt_subscribers (change ch f n) = nt_subscribers n" "length (nt_waiters (change ch f n)) = length (nt_waiters n)"
    by (simp_all add: change_def)
  fix u chs
  assume "nt_subscribers (change ch f n) u = Some chs"
  then have "nt_subscribers n u = Some chs" by simp
  moreover have "registered_ok (change ch f n) u i" if "registered_ok n u i" for i
    using that f by (auto simp: registered_ok_def nth poll_change_ok_def)
  ultimately show "chs \<noteq> [] \<and> distinct chs \<and> (\<forall>ch'\<in>set chs. registered_ok (change ch f n) u ch')"
    using notifier_ok_list [OF ok] by blast
next
  have nth: "nt_waiters (change ch f n) ! i = (if i = ch then f (nt_waiters n ! ch) else nt_waiters n ! i)" for i
    using ch by (simp add: change_def nth_list_update)
  fix i
  assume "i < length (nt_waiters (change ch f n))"
  then have i: "i < length (nt_waiters n)" by (simp add: change_def)
  then show "wt_buffer (nt_waiters (change ch f n) ! i) \<le> 1"
    using f notifier_ok_waiter(1) [OF ok] by (simp add: nth poll_change_ok_def)
  assume b: "wt_phase (nt_waiters (change ch f n) ! i) = Blocked" "wt_buffer (nt_waiters (change ch f n) ! i) = 0"
  have old: "wt_phase (nt_waiters n ! i) = Blocked \<and> wt_buffer (nt_waiters n ! i) = 0"
  proof (cases "i = ch")
    case True
    then have "f (nt_waiters n ! ch) = (nt_waiters n ! ch)\<lparr>wt_expired := wt_expired (f (nt_waiters n ! ch))\<rparr>"
      using b f by (simp add: nth poll_change_ok_def)
    then have "wt_phase (f (nt_waiters n ! ch)) = wt_phase (nt_waiters n ! ch)" "wt_buffer (f (nt_waiters n ! ch)) = wt_buffer (nt_waiters n ! ch)"
      by (metis waiter.select_convs waiter.surjective waiter.update_convs(3))+
    then show ?thesis using b True by (simp add: nth)
  next
    case False
    then show ?thesis using b by (simp add: nth)
  qed
  then have "i \<in> set (channels n (wt_user (nt_waiters n ! i)))" using notifier_ok_waiter(2) [OF ok i] by blast
  then show "i \<in> set (channels (change ch f n) (wt_user (nt_waiters (change ch f n) ! i)))"
  proof -
    have "channels (change ch f n) = channels n" by (simp add: channels_def change_def fun_eq_iff)
    moreover have "wt_user (nt_waiters (change ch f n) ! i) = wt_user (nt_waiters n ! i)" using f by (simp add: nth poll_change_ok_def)
    ultimately show "i \<in> set (channels (change ch f n) (wt_user (nt_waiters (change ch f n) ! i)))"
      using \<open>i \<in> set (channels n (wt_user (nt_waiters n ! i)))\<close> by simp
  qed
qed

lemma notifier_ok_return:
  assumes ok: "notifier_ok n" and ch: "ch < length (nt_waiters n)" and ph: "wt_phase (nt_waiters n ! ch) = Leaving r"
  shows "notifier_ok (change ch (\<lambda>w. w\<lparr>wt_phase := Returned r\<rparr>) (unsubscribe ch n))"
    (is "notifier_ok ?n")
proof (rule notifier_okI)
  let ?u = "wt_user (nt_waiters n ! ch)"
  have nth: "nt_waiters ?n ! i = (if i = ch then (nt_waiters n ! ch)\<lparr>wt_phase := Returned r\<rparr> else nt_waiters n ! i)" for i
    using ch by (simp add: change_def unsubscribe_def Let_def nth_list_update)
  have len: "length (nt_waiters ?n) = length (nt_waiters n)" by (simp add: change_def unsubscribe_def Let_def)
  have subs: "nt_subscribers ?n v = (if v = ?u then (if remove1 ch (channels n ?u) = [] then None else Some (remove1 ch (channels n ?u)))
      else nt_subscribers n v)" for v
    by (simp add: change_def unsubscribe_def Let_def)
  have keep: "registered_ok ?n v i" if "registered_ok n v i" "i \<noteq> ch" for v i
    using that by (simp add: registered_ok_def nth len)
  {
    fix v chs
    assume v: "nt_subscribers ?n v = Some chs"
    show "chs \<noteq> [] \<and> distinct chs \<and> (\<forall>i\<in>set chs. registered_ok ?n v i)"
    proof (cases "v = ?u")
      case True
      then have chs: "chs = remove1 ch (channels n ?u)" "chs \<noteq> []" using v by (simp_all add: subs split: if_splits)
      have d: "distinct (channels n ?u)" by (rule notifier_ok_channels [OF ok])
      then have "set chs = set (channels n ?u) - {ch}" by (simp add: chs(1))
      then show ?thesis
        using chs(2) True keep notifier_ok_channels(2) [OF ok] distinct_remove1 [OF d] chs(1) by auto
    next
      case False
      then have s: "nt_subscribers n v = Some chs" using v by (simp add: subs)
      have "i \<noteq> ch" if "i \<in> set chs" for i
        using notifier_ok_list(3) [OF ok s that] False by (auto simp: registered_ok_def)
      then show ?thesis using notifier_ok_list [OF ok s] keep by blast
    qed
  }
  fix i
  assume "i < length (nt_waiters ?n)"
  then have i: "i < length (nt_waiters n)" by (simp add: len)
  then show "wt_buffer (nt_waiters ?n ! i) \<le> 1" using notifier_ok_waiter(1) [OF ok] ch by (simp add: nth)
  assume b: "wt_phase (nt_waiters ?n ! i) = Blocked" "wt_buffer (nt_waiters ?n ! i) = 0"
  then have ne: "i \<noteq> ch" by (auto simp: nth)
  then have "i \<in> set (channels n (wt_user (nt_waiters n ! i)))" using b notifier_ok_waiter(2) [OF ok i] by (simp add: nth)
  moreover have "channels ?n v = (if v = ?u then remove1 ch (channels n ?u) else channels n v)" for v
    by (simp add: channels_def [of ?n] subs) (simp add: channels_def)
  ultimately have "i \<in> set (channels ?n (wt_user (nt_waiters n ! i)))"
    using ne by (cases "wt_user (nt_waiters n ! i) = ?u") simp_all
  then show "i \<in> set (channels ?n (wt_user (nt_waiters ?n ! i)))" using ne by (simp add: nth)
qed

lemma notifier_ok_wait_step: "wait_step n n' \<Longrightarrow> notifier_ok n \<Longrightarrow> notifier_ok n'"
proof (induction rule: wait_step.induct)
  case (wait_receive ch n)
  then show ?case using notifier_ok_waiter(1) [of n ch] by (intro notifier_ok_change) (auto simp: poll_change_ok_def)
next
  case (wait_expire ch n e)
  then show ?case using notifier_ok_waiter(1) [of n ch] by (intro notifier_ok_change) (auto simp: poll_change_ok_def)
next
  case (wait_give_up ch n e)
  then show ?case using notifier_ok_waiter(1) [of n ch] by (intro notifier_ok_change) (auto simp: poll_change_ok_def)
qed (simp_all add: notifier_ok_subscribe notifier_ok_return)

lemma notifier_ok_listen_step: "listen_step ro sv s s' \<Longrightarrow> notifier_ok (ls_notifier s) \<Longrightarrow> notifier_ok (ls_notifier s')"
  by (induction rule: listen_step.induct) (simp_all add: notifier_ok_fold notifier_ok_wait_step notifier_ok_wakeUp)

lemma notifier_ok_listen_fault: "listen_fault s s' \<Longrightarrow> ls_notifier s' = ls_notifier s"
  by (induction rule: listen_fault.induct) simp_all

lemma notifier_ok_run:
  assumes "listening_run ro sv s"
  shows "notifier_ok (ls_notifier s)"
proof -
  obtain w where "(\<lambda>x y. listen_step ro sv x y \<or> listen_fault x y)\<^sup>*\<^sup>* (listening_start w) s"
    using assms by (auto simp: listening_run_def)
  then show ?thesis
  proof (induction rule: rtranclp_induct)
    case base
    then show ?case by (simp add: listening_start_def NewPostgresNotifier_def notifier_ok_def)
  next
    case (step x y)
    then show ?case using notifier_ok_listen_step notifier_ok_listen_fault by metis
  qed
qed

subsection \<open>A wake-up that is owed\<close>

text \<open>A poll of \<open>u\<close> that is not blocked any more, or has its token, or will get it from the notifications under way.\<close>

definition served_poll :: "nat \<Rightarrow> notifier \<Rightarrow> bool" where
  "served_poll ch n \<longleftrightarrow> wt_phase (nt_waiters n ! ch) \<noteq> Blocked \<or> wt_buffer (nt_waiters n ! ch) = 1"

definition owed :: "string \<Rightarrow> string \<Rightarrow> nat \<Rightarrow> listening \<Rightarrow> bool" where
  "owed u r ch s \<longleftrightarrow> notifier_ok (ls_notifier s) \<and> ch < length (nt_waiters (ls_notifier s)) \<and>
     wt_user (nt_waiters (ls_notifier s) ! ch) = u \<and>
     (served_poll ch (ls_notifier s) \<or> u \<in> set (ls_rows s) \<or> r \<in> set (ls_queue s))"

lemma served_wakeUp: "notifier_ok n \<Longrightarrow> served_poll ch n \<Longrightarrow> served_poll ch (wakeUp u n)"
  by (cases "ch \<in> set (channels n u)") (simp_all add: served_poll_def wakeUp_nth wakeUp_other)

lemma served_by_wakeUp:
  assumes "notifier_ok n" and "ch < length (nt_waiters n)" and "wt_user (nt_waiters n ! ch) = u"
  shows "served_poll ch (wakeUp u n)"
proof (cases "ch \<in> set (channels n u)")
  case False
  then have "served_poll ch n"
    using notifier_ok_waiter [OF assms(1,2)] assms(3) by (auto simp: served_poll_def le_Suc_eq)
  then show ?thesis by (rule served_wakeUp [OF assms(1)])
qed (simp add: served_poll_def wakeUp_nth [OF assms(1)])

lemma fold_wakeUp_facts:
  "notifier_ok n \<Longrightarrow> wt_user (nt_waiters (fold wakeUp us n) ! ch) = wt_user (nt_waiters n ! ch) \<and>
     length (nt_waiters (fold wakeUp us n)) = length (nt_waiters n) \<and>
     (served_poll ch n \<longrightarrow> served_poll ch (fold wakeUp us n))"
  by (induction us arbitrary: n) (auto simp: notifier_ok_wakeUp wakeUp_phase served_wakeUp)

lemma wait_step_facts:
  assumes "wait_step n n'" and "ch < length (nt_waiters n)"
  shows "ch < length (nt_waiters n') \<and> wt_user (nt_waiters n' ! ch) = wt_user (nt_waiters n ! ch) \<and>
    (served_poll ch n \<longrightarrow> served_poll ch n')"
  using assms
  by (induction rule: wait_step.induct)
    (auto simp: subscribe_def change_def unsubscribe_def Let_def served_poll_def nth_append nth_list_update)

lemma owed_step:
  assumes "listen_step ro sv s s'" and "u \<in> set (listener_users r (w_db (ls_world s)))" and "owed u r ch s"
  shows "owed u r ch s'"
  using assms
proof (induction rule: listen_step.induct)
  case (listen_call s w' rooms)
  then show ?case using notifier_ok_fold fold_wakeUp_facts [of "ls_notifier s" "woken_by (ls_world s) w'" ch] by (auto simp: owed_def)
next
  case (listen_wait s n')
  then show ?case using wait_step_facts [of "ls_notifier s" n' ch] notifier_ok_wait_step by (auto simp: owed_def)
next
  case (listen_row s userID us)
  then show ?case
    using served_by_wakeUp [of "ls_notifier s" ch u] served_wakeUp [of "ls_notifier s" ch userID]
    by (auto simp: owed_def notifier_ok_wakeUp wakeUp_phase)
qed (auto simp: owed_def)

text \<open>With \<open>LISTEN\<close> in force the listener can always work off what is queued, without a step of anybody else.\<close>

definition drained :: "listening \<Rightarrow> bool" where
  "drained s \<longleftrightarrow> ls_queue s = [] \<and> ls_rows s = []"

definition member_step :: "range_orders \<Rightarrow> server \<Rightarrow> string \<Rightarrow> string \<Rightarrow> listening \<Rightarrow> listening \<Rightarrow> bool" where
  "member_step ro sv u r x y \<longleftrightarrow> listen_step ro sv x y \<and> u \<in> set (listener_users r (w_db (ls_world x)))"

lemma owed_run: "(member_step ro sv u r)\<^sup>*\<^sup>* s s' \<Longrightarrow> owed u r ch s \<Longrightarrow> owed u r ch s'"
  by (induction rule: rtranclp_induct) (auto simp: member_step_def intro: owed_step)

lemma drain_rows:
  "u \<in> set (listener_users r (w_db (ls_world s))) \<Longrightarrow>
     \<exists>s'. (member_step ro sv u r)\<^sup>*\<^sup>* s s' \<and> ls_rows s' = [] \<and> ls_queue s' = ls_queue s \<and> ls_world s' = ls_world s \<and> ls_on s' = ls_on s"
proof (induction "ls_rows s" arbitrary: s)
  case (Cons v us)
  let ?s = "s\<lparr>ls_rows := us, ls_notifier := wakeUp v (ls_notifier s)\<rparr>"
  have "member_step ro sv u r s ?s" using Cons.prems listen_row [OF Cons.hyps(2) [symmetric]] by (simp add: member_step_def)
  moreover obtain s' where "(member_step ro sv u r)\<^sup>*\<^sup>* ?s s'" "ls_rows s' = []" "ls_queue s' = ls_queue s" "ls_world s' = ls_world s" "ls_on s' = ls_on s"
    using Cons.hyps(1) [of ?s] Cons.prems by auto
  ultimately show ?case by (meson converse_rtranclp_into_rtranclp)
qed auto

lemma drain_queue:
  "ls_on s \<Longrightarrow> u \<in> set (listener_users r (w_db (ls_world s))) \<Longrightarrow> \<exists>s'. (member_step ro sv u r)\<^sup>*\<^sup>* s s' \<and> drained s'"
proof (induction "ls_queue s" arbitrary: s)
  case Nil
  then show ?case using drain_rows [of u r s ro sv] by (auto simp: drained_def)
next
  case (Cons c q)
  obtain s1 where s1: "(member_step ro sv u r)\<^sup>*\<^sup>* s s1" "ls_rows s1 = []" "ls_queue s1 = c # q" "ls_world s1 = ls_world s" "ls_on s1"
    using drain_rows [OF Cons.prems(2)] Cons.hyps(2) Cons.prems(1) by metis
  let ?s = "s1\<lparr>ls_queue := q, ls_rows := listener_users c (w_db (ls_world s1))\<rparr>"
  have "member_step ro sv u r s1 ?s" using Cons.prems s1 listen_take [of s1 c q ro sv] by (simp add: member_step_def)
  moreover obtain s2 where "(member_step ro sv u r)\<^sup>*\<^sup>* ?s s2" "drained s2"
    using Cons.hyps(1) [of ?s] Cons.prems s1 by auto
  ultimately show ?case using s1(1) by (meson converse_rtranclp_into_rtranclp rtranclp_trans)
qed

text \<open>A stored event puts its room into the queue.\<close>

lemma notified_step:
  assumes "listen_step ro sv s s'" and "ls_on s" and "r \<in> set (notified_rooms (w_db (ls_world s)) (w_db (ls_world s')))"
  shows "r \<in> set (ls_queue s')"
  using assms by (induction rule: listen_step.induct) (auto simp: notified_rooms_def)

lemma listen_step_poll:
  assumes "listen_step ro sv s s'" and "notifier_ok (ls_notifier s)" and "ch < length (nt_waiters (ls_notifier s))"
  shows "ls_on s' = ls_on s \<and> ch < length (nt_waiters (ls_notifier s')) \<and>
    wt_user (nt_waiters (ls_notifier s') ! ch) = wt_user (nt_waiters (ls_notifier s) ! ch)"
  using assms
proof (induction rule: listen_step.induct)
  case (listen_call s w' rooms)
  then show ?case using fold_wakeUp_facts [of "ls_notifier s" "woken_by (ls_world s) w'" ch] by simp
next
  case (listen_wait s n')
  then show ?case using wait_step_facts [of "ls_notifier s" n' ch] by simp
qed (simp_all add: wakeUp_phase)

text \<open>When every poll has returned nothing is left in the map.\<close>

lemma no_leak:
  assumes "notifier_ok n" and "\<forall>w\<in>set (nt_waiters n). \<exists>e. wt_phase w = Returned e"
  shows "nt_subscribers n = (\<lambda>_. None)"
proof
  fix u
  show "nt_subscribers n u = None"
  proof (cases "nt_subscribers n u")
    case (Some chs)
    then obtain ch where "ch \<in> set chs" using notifier_ok_list(1) [OF assms(1)] by fastforce
    then have "registered_ok n u ch" using notifier_ok_list(3) [OF assms(1) Some] by blast
    then have "nt_waiters n ! ch \<in> set (nt_waiters n)" "\<nexists>e. wt_phase (nt_waiters n ! ch) = Returned e"
      by (auto simp: registered_ok_def)
    then show ?thesis using assms(2) by blast
  qed simp
qed

end
