(* ===== verification/Notifier_Props.thy ===== *)
theory Notifier_Props
  imports Notifier Examples
begin

text \<open>
  The properties of the notifier: what the map of subscribers keeps, and that a stored event reaches the polls.
\<close>

text \<open>C18. In every run of calls, long polls and the background listener, failures of the listener included,
  the registered channels are those of polls that wait and have no token yet, each poll that waits without a
  token is registered, and no channel holds two tokens. When all polls have returned the map is empty: no
  subscription leaks.\<close>

theorem notifier_invariant:
  assumes "listening_run ro sv s"
  shows "notifier_ok (ls_notifier s) \<and>
    ((\<forall>w\<in>set (nt_waiters (ls_notifier s)). \<exists>e. wt_phase w = Returned e) \<longrightarrow> nt_subscribers (ls_notifier s) = (\<lambda>_. None))"
  using notifier_ok_run [OF assms] no_leak by blast

text \<open>A run: a poll of \<open>@u:a\<close> waits, \<open>LISTEN\<close> comes into force, then the user sends a message.\<close>

definition polling :: "listening" where
  "polling = (listening_start room_world)\<lparr>ls_notifier := subscribe ''@u:a'' NewPostgresNotifier, ls_on := True\<rparr>"

definition poll_call :: "listening" where
  "poll_call = (let w' = snd (SendEvent plain_server sample_event room_world)
     in polling\<lparr>ls_world := w', ls_notifier := fold wakeUp (woken_by room_world w') (ls_notifier polling),
          ls_queue := ls_queue polling @ notified_rooms room_db (w_db w')\<rparr>)"

lemma polling_run: "listening_run ro sv polling"
proof -
  let ?R = "\<lambda>x y. listen_step ro sv x y \<or> listen_fault x y"
  let ?s = "listening_start room_world"
  let ?s1 = "?s\<lparr>ls_notifier := subscribe ''@u:a'' NewPostgresNotifier\<rparr>"
  have "ls_notifier ?s = NewPostgresNotifier" by (simp add: listening_start_def)
  then have "?R ?s ?s1" using listen_wait [of ?s "subscribe ''@u:a'' NewPostgresNotifier"] wait_subscribe by metis
  moreover have "?R ?s1 polling" using fault_start [of ?s1] by (simp add: polling_def)
  ultimately have "?R\<^sup>*\<^sup>* ?s polling" by (rule rtranclp_trans [OF r_into_rtranclp r_into_rtranclp, of ?R])
  then show ?thesis by (auto simp: listening_run_def)
qed

lemma notifier_invariant_witness:
  "notifier_ok (ls_notifier polling) \<and> nt_subscribers (ls_notifier polling) ''@u:a'' = Some [0]"
  using notifier_invariant [OF polling_run] by (simp add: polling_def subscribe_def channels_def NewPostgresNotifier_def)

text \<open>C17. No wake-up is lost as long as the listener's queries work: when a call stores an event of a room while
  \<open>LISTEN\<close> is in force, the listener can work off its queue; and however its steps interleave with other calls and
  polls, none of its queries for the members and no scan of their rows failing, once the queue is empty every poll
  that began before the call, of a user who is a member of the room at every step since, has its token or does
  not wait any more.\<close>

theorem wakeup_reaches_waiter:
  assumes "listening_run ro sv s" and "ls_on s" and "ch < length (nt_waiters (ls_notifier s))"
    and "listen_step ro sv s s1" and "r \<in> set (notified_rooms (w_db (ls_world s)) (w_db (ls_world s1)))"
    and "u = wt_user (nt_waiters (ls_notifier s) ! ch)" and "u \<in> set (listener_users r (w_db (ls_world s1)))"
  shows "(\<exists>s2. (member_step ro sv u r)\<^sup>*\<^sup>* s1 s2 \<and> drained s2) \<and>
    (\<forall>s2. (member_step ro sv u r)\<^sup>*\<^sup>* s1 s2 \<and> drained s2 \<longrightarrow> served_poll ch (ls_notifier s2))"
proof -
  have ok: "notifier_ok (ls_notifier s)" using assms(1) by (rule notifier_ok_run)
  note poll = listen_step_poll [OF assms(4) ok assms(3)]
  then have "owed u r ch s1"
    using notifier_ok_listen_step [OF assms(4) ok] notified_step [OF assms(4,2,5)] assms(6) by (simp add: owed_def)
  then have "served_poll ch (ls_notifier s2)" if "(member_step ro sv u r)\<^sup>*\<^sup>* s1 s2" "drained s2" for s2
    using owed_run [OF that(1)] that(2) by (auto simp: owed_def drained_def)
  moreover have "\<exists>s2. (member_step ro sv u r)\<^sup>*\<^sup>* s1 s2 \<and> drained s2"
    using drain_queue [OF _ assms(7)] poll assms(2) by blast
  ultimately show ?thesis by blast
qed

lemma poll_call_facts:
  "notified_rooms room_db (w_db (snd (SendEvent plain_server sample_event room_world))) = [''!r:a'']"
  "listener_users ''!r:a'' (w_db (snd (SendEvent plain_server sample_event room_world))) = [''@u:a'']"
  by code_simp+

lemma poll_call_step: "listen_step plain_orders plain_server polling poll_call"
proof -
  let ?w = "snd (SendEvent plain_server sample_event room_world)"
  have w: "ls_world polling = room_world" "ls_on polling" by (simp_all add: polling_def listening_start_def)
  have "api_step plain_orders plain_server (ls_world polling) ?w"
    unfolding w by (rule api_SendEvent) (rule prod.collapse [symmetric])
  moreover have "set (notified_rooms room_db (w_db ?w)) =
      (if ls_on polling then set (notified_rooms (w_db (ls_world polling)) (w_db ?w)) else {})"
    unfolding w by (simp add: w(2) room_world_def)
  ultimately show ?thesis using listen_call unfolding poll_call_def Let_def w(1) [symmetric] by metis
qed

lemma wakeup_reaches_waiter_witness:
  "\<exists>s2. (member_step plain_orders plain_server ''@u:a'' ''!r:a'')\<^sup>*\<^sup>* poll_call s2 \<and> drained s2 \<and> served_poll 0 (ls_notifier s2)"
proof -
  have "ls_world poll_call = snd (SendEvent plain_server sample_event room_world)" by (simp add: poll_call_def Let_def)
  moreover have "w_db (ls_world polling) = room_db" by (simp add: polling_def listening_start_def room_world_def)
  ultimately have "''!r:a'' \<in> set (notified_rooms (w_db (ls_world polling)) (w_db (ls_world poll_call)))"
    "''@u:a'' \<in> set (listener_users ''!r:a'' (w_db (ls_world poll_call)))"
    by (simp_all only: poll_call_facts) simp_all
  moreover have "ls_on polling" "0 < length (nt_waiters (ls_notifier polling))"
    "''@u:a'' = wt_user (nt_waiters (ls_notifier polling) ! 0)"
    by (simp_all add: polling_def subscribe_def NewPostgresNotifier_def)
  ultimately show ?thesis
    using wakeup_reaches_waiter [OF polling_run _ _ poll_call_step, of 0 "''!r:a''" "''@u:a''"] by blast
qed

end
