(* ===== verification/Federation_Wire.thy ===== *)
theory Federation_Wire
  imports "HOL-Library.Sublist" Request_Facts Delivery
begin

text \<open>
  What one server writes and another one reads: canonical JSON, the \<open>X-Matrix\<close> header, and the body of a
  transaction. The lemmas join \<open>fed_send\<close> of \<^verbatim>\<open>usecase/federation_service.go\<close> and \<^verbatim>\<open>util/crypto.go\<close> with the middleware
  and the handlers of \<^verbatim>\<open>delivery/http_adapter/federation/routes.go\<close>.
\<close>

declare fold_name.simps [simp del]

subsection \<open>Canonical JSON\<close>

text \<open>Values that canonical JSON can hold: integers that a \<open>float64\<close> keeps, and no fractions.\<close>

fun safe_json :: "json \<Rightarrow> bool" where
  "safe_json (JNum n) = (\<bar>n\<bar> < 2 ^ 53)"
| "safe_json (JFloat s) = False"
| "safe_json (JArr es) = list_all safe_json es"
| "safe_json (JObj ms) = list_all (\<lambda>m. safe_json (snd m)) ms"
| "safe_json v = True"

text \<open>
  What the package documents: the text depends on the value alone, that is on the value with its members sorted and
  without duplicates, and it is the text of that value.
\<close>

definition canonical_package :: "crypto \<Rightarrow> bool" where
  "canonical_package cr \<longleftrightarrow>
     (\<forall>v v'. marshal_any v = marshal_any v' \<longrightarrow> cr_canon_Marshal cr v = cr_canon_Marshal cr v') \<and>
     (\<forall>v v'. safe_json v \<longrightarrow> cr_canon_Marshal cr v = Inr v' \<longrightarrow> v' = marshal_any v)"

lemma canonical_text: "canonical_package cr \<Longrightarrow> safe_json v \<Longrightarrow> CanonicalJSON cr v = Inr v' \<Longrightarrow> v' = marshal_any v"
  unfolding canonical_package_def CanonicalJSON_def by blast

lemma canonical_same: "canonical_package cr \<Longrightarrow> marshal_any v = marshal_any v' \<Longrightarrow> CanonicalJSON cr v = CanonicalJSON cr v'"
  unfolding canonical_package_def CanonicalJSON_def by blast

lemma map_of_values: "map_of (map (\<lambda>m. (fst m, f (snd m))) ms) k = map_option f (map_of ms k)"
  by (induction ms) simp_all

lemma member_map: "member k (map (\<lambda>m. (fst m, f (snd m))) ms) = map_option f (member k ms)"
  by (simp add: member_def rev_map map_of_values)

lemma sort_members_map_cong:
  fixes f g :: "json \<Rightarrow> json"
  assumes "\<And>x. x \<in> set ms \<Longrightarrow> g (f (snd x)) = f (snd x)"
  shows "sort_members (map (\<lambda>m. (fst m, g (snd m))) (sort_members (map (\<lambda>m. (fst m, f (snd m))) ms))) =
    sort_members (map (\<lambda>m. (fst m, f (snd m))) ms)"
proof (rule sort_members_unique)
  fix k
  have "map_option g (map_option f (member k ms)) = map_option f (member k ms)"
  proof (cases "member k ms")
    case (Some v)
    then have "(k, v) \<in> set ms" by (auto simp: member_def dest: map_of_SomeD)
    then show ?thesis using assms by (auto simp: Some)
  qed simp
  then show "member k (map (\<lambda>m. (fst m, g (snd m))) (sort_members (map (\<lambda>m. (fst m, f (snd m))) ms))) =
      member k (map (\<lambda>m. (fst m, f (snd m))) ms)"
    by (simp add: member_map member_sort_members)
qed

lemma marshal_any_idem [simp]: "marshal_any (marshal_any v) = marshal_any v"
  by (induction v rule: marshal_any.induct) (simp_all add: sort_members_map_cong)

text \<open>The order of members does not matter, nor does writing parts canonically before the whole.\<close>

lemma marshal_any_obj:
  "(\<And>k. map_option marshal_any (member k ms) = map_option marshal_any (member k ms')) \<Longrightarrow>
     marshal_any (JObj ms) = marshal_any (JObj ms')"
  by (simp add: member_map sort_members_unique)

lemma any_of_safe: "safe_json v \<Longrightarrow> any_of_json v = marshal_any v"
proof (induction v rule: any_of_json.induct)
  case (1 ms)
  then have "map (\<lambda>m. (fst m, any_of_json (snd m))) ms = map (\<lambda>m. (fst m, marshal_any (snd m))) ms"
    by (auto simp: list_all_iff)
  then show ?case by (simp only: any_of_json.simps marshal_any.simps)
qed (auto simp: list_all_iff float64_exact)

text \<open>Decoding finds the same fields in an object that was written canonically, when no two names fold to the same.\<close>

definition plain_names :: "(string \<times> json) list \<Rightarrow> bool" where
  "plain_names ms \<longleftrightarrow> distinct (map (fold_name \<circ> fst) ms)"

lemma update_new: "k \<notin> fst ` set ms \<Longrightarrow> AList.update k v ms = ms @ [(k, v)]"
  by (induction ms) auto

lemma dedup_distinct: "distinct (map fst ms) \<Longrightarrow> dedup_members ms = ms"
proof -
  have "distinct (map fst (acc @ ms)) \<Longrightarrow> foldl (\<lambda>acc (k, v). AList.update k v acc) acc ms = acc @ ms" for acc
    by (induction ms arbitrary: acc) (auto simp: update_new)
  then show "distinct (map fst ms) \<Longrightarrow> dedup_members ms = ms" by (simp add: dedup_members_def)
qed

lemma filter_unique:
  assumes "distinct (map f xs)" and "mset ys = mset xs"
  shows "filter (\<lambda>x. f x = a) ys = filter (\<lambda>x. f x = a) xs"
proof -
  have "length (filter (\<lambda>x. f x = a) xs) \<le> 1"
  proof -
    have "distinct (map f (filter (\<lambda>x. f x = a) xs))" using assms(1) by (rule distinct_map_filter)
    then have "length (filter (\<lambda>x. f x = a) xs) = card (f ` set (filter (\<lambda>x. f x = a) xs))"
      by (metis distinct_card length_map list.set_map)
    also have "\<dots> \<le> card {a}" by (rule card_mono) auto
    finally show ?thesis by simp
  qed
  moreover have m: "mset (filter (\<lambda>x. f x = a) ys) = mset (filter (\<lambda>x. f x = a) xs)" using assms(2) by (simp add: mset_filter)
  ultimately have "filter (\<lambda>x. f x = a) xs = [] \<or> (\<exists>x. filter (\<lambda>x. f x = a) xs = [x])"
    by (cases "filter (\<lambda>x. f x = a) xs") (auto simp: le_Suc_eq)
  then show ?thesis using m by (metis mset_single_iff_right mset_zero_iff_right)
qed

lemma field_vals_canonical:
  assumes "plain_names ms"
  shows "field_vals n (sort_members (map (\<lambda>m. (fst m, f (snd m))) ms)) = map f (field_vals n ms)"
proof -
  let ?L = "map (\<lambda>m. (fst m, f (snd m))) ms"
  have d: "distinct (map (\<lambda>m. fold_name (fst m)) ?L)" using assms by (simp add: plain_names_def comp_def)
  then have "distinct (map fst ?L)" by (auto simp: distinct_map inj_on_def)
  then have "mset (sort_members ?L) = mset ?L" by (simp add: sort_members_def dedup_distinct)
  then have "filter (\<lambda>m. fold_name (fst m) = fold_name n) (sort_members ?L) = filter (\<lambda>m. fold_name (fst m) = fold_name n) ?L"
    by (rule filter_unique [OF d])
  then show ?thesis by (simp add: field_vals_def filter_map comp_def)
qed

subsection \<open>Events\<close>

definition received :: "evento \<Rightarrow> evento" where
  "received ev = ev\<lparr>ev_StreamOrdering := 0, ev_Content := map_option marshal_any (ev_Content ev),
     ev_Hashes := map_option marshal_any (ev_Hashes ev), ev_Signatures := map_option marshal_any (ev_Signatures ev),
     ev_Unsigned := map_option marshal_any (ev_Unsigned ev)\<rparr>"

definition wire_ok :: "evento \<Rightarrow> bool" where
  "wire_ok ev \<longleftrightarrow> ev_Content ev \<noteq> None \<and> safe_json (evento_json ev)"

lemma raw_json_map: "marshal_any (raw_json r) = raw_json (map_option marshal_any r)"
  by (cases r) (simp_all add: raw_json_def)

lemma subseq_omitempty: "subseq (map (fold_name \<circ> fst) (omitempty z m v)) [fold_name m]"
  by (simp add: omitempty_def)

lemma plain_evento: "plain_names (evento_members ev)"
proof -
  let ?n = "map (fold_name \<circ> fst)"
  have k: "subseq (?n (case k of None \<Rightarrow> [] | Some s \<Rightarrow> [(''state_key'', JStr s)])) [fold_name ''state_key'']" for k
    by (cases k) simp_all
  have "subseq (?n (evento_members ev)) (map fold_name ([''event_id'', ''type'', ''content'', ''room_id'', ''sender'', ''origin_server_ts''] @
      [''state_key''] @ [''redacts''] @ [''prev_events''] @ [''auth_events''] @ [''depth''] @ [''hashes''] @ [''signatures''] @ [''unsigned'']))"
    unfolding evento_members_def map_append list.map by (intro list_emb_append_mono subseq_omitempty k) simp_all
  moreover have "distinct (map fold_name ([''event_id'', ''type'', ''content'', ''room_id'', ''sender'', ''origin_server_ts''] @
      [''state_key''] @ [''redacts''] @ [''prev_events''] @ [''auth_events''] @ [''depth''] @ [''hashes''] @ [''signatures''] @ [''unsigned'']))"
    by (simp add: fold_names)
  ultimately show ?thesis unfolding plain_names_def by (metis subseq_conv_nths distinct_nthsI)
qed

lemma wire_int64:
  assumes "wire_ok ev"
  shows "in_int64 (ev_OrigemServidorTS ev)" "in_int64 (ev_Depth ev)" "\<bar>ev_OrigemServidorTS ev\<bar> < 2 ^ 53"
proof -
  have m: "safe_json v" if "(k, v) \<in> set (evento_members ev)" for k v
    using assms that by (auto simp: wire_ok_def evento_json_def list_all_iff)
  have "(''origin_server_ts'', JNum (ev_OrigemServidorTS ev)) \<in> set (evento_members ev)" by (simp add: evento_members_def)
  from m [OF this] show "\<bar>ev_OrigemServidorTS ev\<bar> < 2 ^ 53" by simp
  then show "in_int64 (ev_OrigemServidorTS ev)" by (auto simp: in_int64_def)
  have "ev_Depth ev = 0 \<or> (''depth'', JNum (ev_Depth ev)) \<in> set (evento_members ev)"
    by (simp add: evento_members_def omitempty_def)
  then have "\<bar>ev_Depth ev\<bar> < 2 ^ 53" using m [of "''depth''" "JNum (ev_Depth ev)"] by auto
  then show "in_int64 (ev_Depth ev)" by (auto simp: in_int64_def)
qed

lemma canonical_fields:
  assumes "wire_ok ev"
  defines "ms \<equiv> sort_members (map (\<lambda>m. (fst m, marshal_any (snd m))) (evento_members ev))"
  shows "dec_string (field_vals ''event_id'' ms) = (ev_ID ev, False)"
    and "dec_string (field_vals ''type'' ms) = (ev_Tipo ev, False)"
    and "dec_string (field_vals ''room_id'' ms) = (ev_CanalID ev, False)"
    and "dec_string (field_vals ''sender'' ms) = (ev_Sender ev, False)"
    and "dec_int64 (field_vals ''origin_server_ts'' ms) = (ev_OrigemServidorTS ev, False)"
    and "dec_string_ptr (field_vals ''state_key'' ms) = (ev_StateKey ev, False)"
    and "dec_string (field_vals ''redacts'' ms) = (ev_Redacts ev, False)"
    and "dec_strings (field_vals ''prev_events'' ms) = (ev_PrevEventos ev, False)"
    and "dec_strings (field_vals ''auth_events'' ms) = (ev_AuthEventos ev, False)"
    and "dec_int64 (field_vals ''depth'' ms) = (ev_Depth ev, False)"
    and "dec_raw (field_vals ''content'' ms) = map_option marshal_any (ev_Content ev)"
    and "dec_raw (field_vals ''hashes'' ms) = map_option marshal_any (ev_Hashes ev)"
    and "dec_raw (field_vals ''signatures'' ms) = map_option marshal_any (ev_Signatures ev)"
    and "dec_raw (field_vals ''unsigned'' ms) = map_option marshal_any (ev_Unsigned ev)"
proof -
  have i: "in_int64 (ev_OrigemServidorTS ev)" "in_int64 (ev_Depth ev)"
    using wire_int64 [OF assms(1)] by blast+
  have strings: "dec_strings [JArr (map (marshal_any \<circ> JStr) xs)] = (xs, False)" for xs
    using dec_strings_arr [of xs] by (simp add: comp_def)
  have raw: "r \<noteq> None \<Longrightarrow> dec_raw [marshal_any (raw_json r)] = map_option marshal_any r" for r
    by (auto simp: raw_json_def dec_one)
  note f = ms_def field_vals_canonical [OF plain_evento] evento_fields dec_one
  show "dec_string (field_vals ''event_id'' ms) = (ev_ID ev, False)" "dec_string (field_vals ''type'' ms) = (ev_Tipo ev, False)"
    "dec_string (field_vals ''room_id'' ms) = (ev_CanalID ev, False)" "dec_string (field_vals ''sender'' ms) = (ev_Sender ev, False)"
    "dec_string (field_vals ''redacts'' ms) = (ev_Redacts ev, False)"
    by (simp_all add: f)
  show "dec_int64 (field_vals ''origin_server_ts'' ms) = (ev_OrigemServidorTS ev, False)"
    "dec_int64 (field_vals ''depth'' ms) = (ev_Depth ev, False)" by (simp_all add: f i)
  show "dec_string_ptr (field_vals ''state_key'' ms) = (ev_StateKey ev, False)" by (simp add: f split: option.split)
  show "dec_strings (field_vals ''prev_events'' ms) = (ev_PrevEventos ev, False)"
    "dec_strings (field_vals ''auth_events'' ms) = (ev_AuthEventos ev, False)" by (simp_all add: f strings)
  have "ev_Content ev \<noteq> None" using assms(1) by (simp add: wire_ok_def)
  then show "dec_raw (field_vals ''content'' ms) = map_option marshal_any (ev_Content ev)" by (simp add: f raw del: dec_one)
  show "dec_raw (field_vals ''hashes'' ms) = map_option marshal_any (ev_Hashes ev)"
    by (cases "ev_Hashes ev") (simp_all add: f raw_json_def)
  show "dec_raw (field_vals ''signatures'' ms) = map_option marshal_any (ev_Signatures ev)"
    by (cases "ev_Signatures ev") (simp_all add: f raw_json_def)
  show "dec_raw (field_vals ''unsigned'' ms) = map_option marshal_any (ev_Unsigned ev)"
    by (cases "ev_Unsigned ev") (simp_all add: f raw_json_def)
qed

lemma evento_of_canonical:
  assumes "wire_ok ev"
  shows "evento_of_json (Some (marshal_any (evento_json ev))) = Inr (received ev)"
  by (simp add: evento_of_json_def struct_members_def evento_json_def Let_def canonical_fields [OF assms]) (cases ev, simp add: received_def)

text \<open>The hash of an event survives the way, so the receiver computes the id the sender gave it.\<close>

lemma canonical_omitempty:
  "map (\<lambda>m. (fst m, marshal_any (snd m))) (omitempty z n v) = omitempty z n (marshal_any v)"
  by (simp add: omitempty_def)

lemma canonical_evento: "marshal_any (evento_json (received ev)) = marshal_any (evento_json ev)"
proof -
  have c: "map_option marshal_any (map_option marshal_any r) = map_option marshal_any r" for r
    by (simp add: option.map_comp comp_def)
  have "map (\<lambda>m. (fst m, marshal_any (snd m))) (evento_members (received ev)) =
      map (\<lambda>m. (fst m, marshal_any (snd m))) (evento_members ev)"
    unfolding evento_members_def map_append canonical_omitempty list.map raw_json_map fst_conv snd_conv
    by (simp add: received_def c del: marshal_any.simps)
  then show ?thesis unfolding evento_json_def marshal_any.simps by (simp only:)
qed

lemma hash_received: "canonical_package cr \<Longrightarrow> HashMatrixEvent cr (received ev) = HashMatrixEvent cr ev"
  using canonical_same [OF _ canonical_evento, of cr ev] by (simp add: HashMatrixEvent_def)

subsection \<open>base64\<close>

lemma first_index_nth: "distinct s \<Longrightarrow> i < length s \<Longrightarrow> first_index (s ! i) s = Some i"
  by (auto simp: first_index_def find_Some_iff nth_eq_iff_index_eq intro!: exI [of _ i])

lemma b64_alphabet_std: "distinct (b64_alphabet False)" "length (b64_alphabet False) = 64"
  by (simp_all add: b64_alphabet_def)

lemma b64_value_char: "i < 64 \<Longrightarrow> b64_value (b64_char False i) = Some i"
  using first_index_nth [OF b64_alphabet_std(1), of i] by (simp add: b64_value_def b64_char_def b64_alphabet_std)

text \<open>No letter of the alphabet is a line end, a comma, a quote, a blank or an equals sign.\<close>

definition token_char :: "char \<Rightarrow> bool" where
  "token_char c \<longleftrightarrow> (of_char c :: nat) \<notin> {9, 10, 11, 12, 13, 32, 34, 44, 61}"

lemma token_b64_char: "token_char (b64_char False i)"
proof -
  have "list_all token_char (b64_alphabet False)" by code_simp
  then show ?thesis by (simp add: b64_char_def list_all_length b64_alphabet_std)
qed

lemma b64_encode_tokens: "list_all token_char (b64_encode False s)"
  by (induction False s rule: b64_encode.induct) (simp_all add: Let_def token_b64_char)

lemma of_char_256: "(of_char c :: nat) < 256"
  using range_nat_of_char by (metis atLeastLessThan_iff rangeI)

lemma quote_char: "char_of (34 :: nat) = CHR 0x22"
  by code_simp

lemma b64_bounds:
  "(of_char a :: nat) div 4 < 64" "of_char a mod 4 * 16 + of_char b div 16 < (64 :: nat)"
  "of_char a mod 16 * 4 + of_char b div 64 < (64 :: nat)" "of_char a mod 4 * 16 < (64 :: nat)" "of_char a mod 16 * 4 < (64 :: nat)"
proof -
  have "(of_char a :: nat) < 256" "(of_char b :: nat) < 256" by (rule of_char_256)+
  then have "(of_char a :: nat) div 4 < 64" "(of_char b :: nat) div 16 < 16" "(of_char b :: nat) div 64 < 4"
    by (intro less_mult_imp_div_less; simp)+
  moreover have "(of_char a :: nat) mod 4 < 4" "(of_char a :: nat) mod 16 < 16" by simp_all
  ultimately show "(of_char a :: nat) div 4 < 64" "of_char a mod 4 * 16 + of_char b div 16 < (64 :: nat)"
    "of_char a mod 16 * 4 + of_char b div 64 < (64 :: nat)" "of_char a mod 4 * 16 < (64 :: nat)" "of_char a mod 16 * 4 < (64 :: nat)"
    by linarith+
qed

lemma b64_parts:
  "(of_char c :: nat) div 16 div 16 = 0" "(of_char c :: nat) div 64 div 4 = 0"
  "(of_char c :: nat) div 16 mod 16 = of_char c div 16" "(of_char c :: nat) div 64 mod 4 = of_char c div 64"
proof -
  have "(of_char c :: nat) < 256" by (rule of_char_256)
  then have "(of_char c :: nat) div 16 < 16" "(of_char c :: nat) div 64 < 4" by (intro less_mult_imp_div_less; simp)+
  then show "(of_char c :: nat) div 16 div 16 = 0" "(of_char c :: nat) div 64 div 4 = 0"
    "(of_char c :: nat) div 16 mod 16 = of_char c div 16" "(of_char c :: nat) div 64 mod 4 = of_char c div 64"
    by (simp_all only: div_less mod_less)
qed

lemma b64_groups_encode:
  "b64_groups (map (the \<circ> b64_value) (b64_encode False s)) = Some s \<and> None \<notin> b64_value ` set (b64_encode False s)"
  by (induction False s rule: b64_encode.induct) (simp_all add: Let_def b64_value_char b64_bounds b64_parts)

lemma RawStd_roundtrip: "RawStdDecoding (RawStdEncoding s) = Inr s"
proof -
  have "(of_char c :: nat) \<notin> {10, 13}" if "c \<in> set (b64_encode False s)" for c
    using b64_encode_tokens [of s] that by (auto simp: list_all_iff token_char_def)
  then have f: "filter (\<lambda>c. (of_char c :: nat) \<notin> {10, 13}) (b64_encode False s) = b64_encode False s"
    by (intro filter_True) blast
  show ?thesis
    unfolding RawStdDecoding_def RawStdEncoding_def f Let_def set_map map_map
    using b64_groups_encode [of s] by simp
qed

subsection \<open>The header\<close>

text \<open>Names that a header can carry: not empty, and without commas, quotes and blanks.\<close>

definition header_name :: "string \<Rightarrow> bool" where
  "header_name s \<longleftrightarrow> s \<noteq> '''' \<and> list_all (\<lambda>c. (of_char c :: nat) \<notin> {9, 10, 11, 12, 13, 32, 34, 44}) s"

lemma split_on_join: "c \<notin> set p \<Longrightarrow> split_on c (p @ c # s) = p # split_on c s"
  by (induction p) auto

lemma split_on_single: "c \<notin> set p \<Longrightarrow> split_on c p = [p]"
  by (induction p) auto

lemma trim_both_id: "list_all (\<lambda>c. \<not> P c) s \<Longrightarrow> trim_both P s = s"
proof -
  assume "list_all (\<lambda>c. \<not> P c) s"
  then have "dropWhile P s = s" "dropWhile P (rev s) = rev s"
    by (cases s, simp_all) (cases "rev s", auto simp: list_all_iff dropWhile_eq_self_iff hd_in_set)
  then show ?thesis by (simp add: trim_both_def)
qed

lemma trim_space_id: "list_all (\<lambda>c. \<not> is_space c) s \<Longrightarrow> trim_space s = s"
  unfolding trim_space_def by (rule trim_both_id)

lemma trim_quotes_quoted:
  assumes "list_all (\<lambda>c. (of_char c :: nat) \<noteq> 34) s" and "s \<noteq> ''''"
  shows "trim_quotes (char_of (34 :: nat) # s @ [char_of (34 :: nat)]) = s"
proof -
  let ?P = "\<lambda>c. (of_char c :: nat) = 34"
  have h: "\<not> ?P (hd s)" "\<not> ?P (hd (rev s))" using assms by (auto simp: list_all_iff hd_rev)
  have "dropWhile ?P (s @ [char_of (34 :: nat)]) = s @ [char_of (34 :: nat)]" using h assms(2) by (cases s) auto
  moreover have "dropWhile ?P (rev s) = rev s" using h(2) assms(2) by (cases "rev s") auto
  ultimately show ?thesis by (simp add: trim_quotes_def trim_both_def)
qed

text \<open>One parameter of the header.\<close>

definition header_param :: "string \<Rightarrow> string \<Rightarrow> string" where
  "header_param k v = k @ CHR ''='' # char_of (34 :: nat) # v @ [char_of (34 :: nat)]"

lemma header_param_cut:
  assumes "k \<in> {''origin'', ''key'', ''sig''}" and "header_name v"
  shows "cut CHR ''='' (header_param k v) = (k, char_of (34 :: nat) # v @ [char_of (34 :: nat)], True)"
    and "trim_space k = k" and "trim_quotes (trim_space (char_of (34 :: nat) # v @ [char_of (34 :: nat)])) = v"
    and "CHR '','' \<notin> set (header_param k v)"
proof -
  have "CHR ''='' \<notin> set k" "CHR '','' \<notin> set k" using assms(1) by auto
  then show "cut CHR ''='' (header_param k v) = (k, char_of (34 :: nat) # v @ [char_of (34 :: nat)], True)"
    by (simp add: header_param_def)
  show "trim_space k = k" using assms(1) by (elim insertE emptyE; simp only:; code_simp)
  have "list_all (\<lambda>c. \<not> is_space c) (char_of (34 :: nat) # v @ [char_of (34 :: nat)])"
    using assms(2) by (auto simp: header_name_def is_space_def list_all_iff)
  then show "trim_quotes (trim_space (char_of (34 :: nat) # v @ [char_of (34 :: nat)])) = v"
    using assms(2) by (simp add: trim_space_id trim_quotes_quoted header_name_def list_all_iff)
  have "CHR '','' \<notin> set v" using assms(2) by (auto simp: header_name_def list_all_iff)
  then show "CHR '','' \<notin> set (header_param k v)" using \<open>CHR '','' \<notin> set k\<close> by (simp add: header_param_def quote_char)
qed

lemma header_sig: "s \<noteq> '''' \<Longrightarrow> header_name (RawStdEncoding s)"
proof -
  assume "s \<noteq> ''''"
  then have "b64_encode False s \<noteq> ''''" using b64_groups_encode [of s] by auto
  then show ?thesis
    using b64_encode_tokens [of s] by (auto simp: header_name_def RawStdEncoding_def token_char_def list_all_iff)
qed

text \<open>The header that is sent parses into the three values it was made of.\<close>

lemma parse_header:
  assumes "header_name nam" and "header_name key" and "header_name sig"
  shows "parseXMatrixHeader (''X-Matrix '' @ header_param ''origin'' nam @ CHR '','' # header_param ''key'' key @ CHR '','' #
      header_param ''sig'' sig) = Inr [(''origin'', nam), (''key'', key), (''sig'', sig)]"
proof -
  have k: "''origin'' \<in> {''origin'', ''key'', ''sig''}" "''key'' \<in> {''origin'', ''key'', ''sig''}" "''sig'' \<in> {''origin'', ''key'', ''sig''}"
    by simp_all
  note o = header_param_cut [OF k(1) assms(1)] and y = header_param_cut [OF k(2) assms(2)] and g = header_param_cut [OF k(3) assms(3)]
  have "split_on CHR '','' (header_param ''origin'' nam @ CHR '','' # header_param ''key'' key @ CHR '','' # header_param ''sig'' sig) =
      [header_param ''origin'' nam, header_param ''key'' key, header_param ''sig'' sig]"
    by (simp only: split_on_join [OF o(4)] split_on_join [OF y(4)] split_on_single [OF g(4)])
  then show ?thesis
    unfolding parseXMatrixHeader_def
    by (simp only: has_prefix_append trim_prefix_append not_True_eq_False if_False foldl_Cons foldl_Nil o(1-3) y(1-3) g(1-3) prod.case if_True)
      simp
qed

subsection \<open>Requests\<close>

text \<open>A request as it arrives: the method, the path after the host, the credentials and the body are those that were sent.\<close>

definition carries :: "http_request \<Rightarrow> string \<Rightarrow> request \<Rightarrow> bool" where
  "carries rq host r \<longleftrightarrow>
     hr_Method r = rq_method rq \<and> rq_url rq = buildFederationURL host (hr_RequestURI r) \<and>
     HeaderGet r ''Authorization'' = rq_auth rq \<and>
     (case hr_Body r of
        None \<Rightarrow> False
      | Some b \<Rightarrow> bo_Error b = None \<and> \<not> bo_Rest b \<and>
          (case rq_body rq of None \<Rightarrow> bo_Bytes b = '''' | Some v \<Rightarrow> bo_Bytes b \<noteq> '''' \<and> bo_Json b = Inr v))"

lemma safe_marshal: "safe_json v \<Longrightarrow> safe_json (marshal_any v)"
proof (induction v rule: marshal_any.induct)
  case (1 ms)
  have "safe_json x" if "(k, x) \<in> set (sort_members (map (\<lambda>m. (fst m, marshal_any (snd m))) ms))" for k x
  proof -
    let ?L = "map (\<lambda>m. (fst m, marshal_any (snd m))) ms"
    have "map_of (dedup_members ?L) k = Some x"
      using that distinct_dedup [of ?L] by (simp add: sort_members_def)
    then have "(k, x) \<in> set ?L" by (auto simp: member_dedup member_def dest: map_of_SomeD)
    then show ?thesis using 1 by (auto simp: list_all_iff)
  qed
  then show ?case by (auto simp: list_all_iff)
qed (auto simp: list_all_iff)

text \<open>What the origin signs is what the middleware checks.\<close>

definition sign_object :: "string \<Rightarrow> string \<Rightarrow> string \<Rightarrow> string \<Rightarrow> json option \<Rightarrow> json" where
  "sign_object mthd uri origin destination content =
     JObj ([(''method'', JStr mthd), (''uri'', JStr uri), (''origin'', JStr origin), (''destination'', JStr destination)] @
       (case content of None \<Rightarrow> [] | Some c \<Rightarrow> [(''content'', c)]))"

lemma GenerateS2SAuthHeader_Inr:
  assumes "GenerateS2SAuthHeader cr nam key priv mthd uri dest content = Inr header"
  shows "\<exists>v. CanonicalJSON cr (sign_object mthd uri nam dest content) = Inr v \<and>
    header = ''X-Matrix '' @ header_param ''origin'' nam @ CHR '','' # header_param ''key'' key @ CHR '','' #
      header_param ''sig'' (RawStdEncoding (cr_sign cr priv v))"
  using assms
  by (cases content) (auto simp: GenerateS2SAuthHeader_def sign_object_def header_param_def Let_def split: sum.splits)

lemma xMatrix_object:
  assumes "canonical_package cr" and "\<And>b. body = Some b \<Longrightarrow> safe_json b"
  shows "CanonicalJSON cr (xMatrixObject h r nam (map_option (any_of_json \<circ> marshal_any) body)) =
    CanonicalJSON cr (sign_object (hr_Method r) (hr_RequestURI r) nam (sv_serverName (h_sv h)) body)"
proof (rule canonical_same [OF assms(1)], cases body)
  case (Some b)
  then have "any_of_json (marshal_any b) = marshal_any b" using assms(2) by (simp add: any_of_safe safe_marshal)
  then show "marshal_any (xMatrixObject h r nam (map_option (any_of_json \<circ> marshal_any) body)) =
      marshal_any (sign_object (hr_Method r) (hr_RequestURI r) nam (sv_serverName (h_sv h)) body)"
    by (simp add: Some xMatrixObject_def sign_object_def)
qed (simp add: xMatrixObject_def sign_object_def)

text \<open>The checks of the middleware up to the signature, with the public key of the origin.\<close>

definition signature_checks :: "handler \<Rightarrow> string \<Rightarrow> string \<Rightarrow> string \<Rightarrow> request \<Rightarrow> bool" where
  "signature_checks h origin keyID pubKey r \<longleftrightarrow>
     (case (parseXMatrixHeader (HeaderGet r ''Authorization''), hr_Body r) of
        (Inr params, Some b) \<Rightarrow>
          assoc_string ''origin'' params = origin \<and> assoc_string ''key'' params = keyID \<and>
          assoc_string ''destination'' params \<in> {'''', sv_serverName (h_sv h)} \<and> bo_Error b = None \<and>
          (case xMatrixContent b of
             Inl e \<Rightarrow> False
           | Inr content \<Rightarrow>
               (case (CanonicalJSON (sv_crypto (h_sv h)) (xMatrixObject h r origin content), RawStdDecoding (assoc_string ''sig'' params)) of
                  (Inr canonical, Inr sig) \<Rightarrow> assoc_string ''sig'' params \<noteq> '''' \<and> h_verify h pubKey canonical sig
                | _ \<Rightarrow> False))
      | _ \<Rightarrow> False)"

text \<open>A pair of keys: what is signed with the one is not empty and verifies under the other.\<close>

definition key_pair :: "handler \<Rightarrow> string \<Rightarrow> string \<Rightarrow> bool" where
  "key_pair h priv pub \<longleftrightarrow> length pub = 32 \<and>
     (\<forall>v. cr_sign (sv_crypto (h_sv h)) priv v \<noteq> '''' \<and> h_verify h pub v (cr_sign (sv_crypto (h_sv h)) priv v))"

lemma signed_request_checks:
  assumes pkg: "canonical_package (sv_crypto sv)" and names: "header_name (sv_serverName sv)" "header_name (sv_keyID sv)"
    and safe: "\<And>b. body = Some b \<Longrightarrow> safe_json b"
    and sent: "fed_send sv mthd host (sv_serverName (h_sv h)) uri body body w = (Ret rs, w')" "w_sent w' = w_sent w @ [rq]"
    and r: "carries rq host r" and cr: "sv_crypto (h_sv h) = sv_crypto sv" and pair: "key_pair h (sv_privateKey sv) pub"
  shows "signature_checks h (sv_serverName sv) (sv_keyID sv) pub r"
proof -
  let ?cr = "sv_crypto sv"
  have rq: "rq_method rq = mthd" "rq_url rq = buildFederationURL host uri"
    "GenerateS2SAuthHeader ?cr (sv_serverName sv) (sv_keyID sv) (sv_privateKey sv) mthd uri (sv_serverName (h_sv h)) body = Inr (rq_auth rq)"
    "case body of None \<Rightarrow> rq_body rq = None | Some b \<Rightarrow> \<exists>v. CanonicalJSON ?cr b = Inr v \<and> rq_body rq = Some v"
    using fed_send_Ret [OF sent(1)] sent(2) by auto
  then have uri: "hr_RequestURI r = uri" "hr_Method r = mthd" "HeaderGet r ''Authorization'' = rq_auth rq"
    using r by (simp_all add: carries_def buildFederationURL_def)
  obtain v where v: "CanonicalJSON ?cr (sign_object mthd uri (sv_serverName sv) (sv_serverName (h_sv h)) body) = Inr v"
    and head: "rq_auth rq = ''X-Matrix '' @ header_param ''origin'' (sv_serverName sv) @ CHR '','' # header_param ''key'' (sv_keyID sv) @
      CHR '','' # header_param ''sig'' (RawStdEncoding (cr_sign ?cr (sv_privateKey sv) v))"
    using GenerateS2SAuthHeader_Inr [OF rq(3)] by blast
  have s: "header_name (RawStdEncoding (cr_sign ?cr (sv_privateKey sv) v))" "h_verify h pub v (cr_sign ?cr (sv_privateKey sv) v)"
    using pair cr by (auto simp: key_pair_def intro!: header_sig)
  note p = parse_header [OF names s(1)]
  obtain b where b: "hr_Body r = Some b" "bo_Error b = None" "xMatrixContent b = Inr (map_option (any_of_json \<circ> marshal_any) body)"
    using r rq(4) safe canonical_text [OF pkg]
    by (cases body) (auto simp: carries_def xMatrixContent_def split: option.splits)
  have c: "CanonicalJSON ?cr (xMatrixObject h r (sv_serverName sv) (map_option (any_of_json \<circ> marshal_any) body)) = Inr v"
    using xMatrix_object [OF pkg safe, of body h r "sv_serverName sv"] v uri by simp
  show ?thesis
    using s c unfolding signature_checks_def uri(3) head p
    by (simp add: b assoc_string_def cr RawStd_roundtrip header_name_def)
qed

text \<open>With the key at hand the middleware hands such a request over, and changes nothing.\<close>

lemma signature_checks_pass:
  assumes "signature_checks h origin keyID pub r" and "origin \<noteq> ''''" and "keyID \<noteq> ''''" and "length pub = 32"
    and "map_of (w_keyCache w) (origin @ CHR ''/'' # keyID) = Some pub"
  shows "xMatrixMiddleware h nxt r w = nxt r w"
  using assms
  by (auto simp: signature_checks_def xMatrixMiddleware_def Let_def originKey_def run_simps ed25519_Verify_def
      split: sum.splits option.splits)

subsection \<open>Transactions\<close>

lemma transaction_safe: "wire_ok ev \<Longrightarrow> safe_json (transaction sv ev)"
  using wire_int64(3) [of ev] by (simp add: transaction_def wire_ok_def)

lemma sendTransaction_request:
  assumes "sendTransaction sv host dest ev w = (Ret (), w')"
  obtains n rs w1 where "fed_send sv ''PUT'' host dest (''/_matrix/federation/v1/send/'' @ string_of_int n)
      (Some (transaction sv ev)) (Some (transaction sv ev)) w1 = (Ret rs, w')" and "w_sent w1 = w_sent w"
  using assms by (auto simp: sendTransaction_def transaction_def ret_bind ret_now Let_def ret_fail ret_return split: if_splits)

lemma fold_transaction_names:
  "fold_name ''origin'' = ''ORIGIN''" "fold_name ''pdus'' = ''PDUS''" "fold_name ''edus'' = ''EDUS''"
  by code_simp+

lemma decode_transaction:
  assumes "wire_ok ev"
  shows "decodeTransaction (marshal_any (transaction sv ev)) =
    Inr \<lparr>tq_Edus = [], tq_Origin = sv_serverName sv, tq_PDUs = [received ev]\<rparr>"
proof -
  let ?ms = "[(''origin'', JStr (sv_serverName sv)), (''origin_server_ts'', JNum (ev_OrigemServidorTS ev)), (''pdus'', JArr [evento_json ev])]"
  have "plain_names ?ms" by (simp add: plain_names_def fold_names fold_transaction_names)
  note g = field_vals_canonical [OF this]
  have f: "field_vals ''edus'' (sort_members (map (\<lambda>m. (fst m, marshal_any (snd m))) ?ms)) = []"
    "field_vals ''origin'' (sort_members (map (\<lambda>m. (fst m, marshal_any (snd m))) ?ms)) = [JStr (sv_serverName sv)]"
    "field_vals ''origin_server_ts'' (sort_members (map (\<lambda>m. (fst m, marshal_any (snd m))) ?ms)) = [JNum (ev_OrigemServidorTS ev)]"
    "field_vals ''pdus'' (sort_members (map (\<lambda>m. (fst m, marshal_any (snd m))) ?ms)) = [JArr [marshal_any (evento_json ev)]]"
    unfolding g by (simp_all add: field_vals_def fold_names fold_transaction_names)
  show ?thesis
    unfolding transaction_def marshal_any.simps decodeTransaction_def struct_members_def option.case json.case sum.case f
    by (simp add: dec_list_def dec_eventos_def dec_one wire_int64 [OF assms] evento_of_canonical [OF assms])
qed

text \<open>What the receiver does with such a body: it processes the one event.\<close>

lemma putSendTxn_one:
  assumes "putSendTxn h r w = (Ret p, w')" and "ParseBody r decodeTransaction = Inr \<lparr>tq_Edus = [], tq_Origin = origin, tq_PDUs = [pdu]\<rparr>"
    and "rp_Body p = Json (JObj [(''pdus'', JObj [(ev_ID pdu, JObj [])])])"
  shows "ProcessInboundPDU (h_ro h) CheckAuth (h_sv h) origin pdu w = (Ret (), w')"
proof -
  obtain res where "catchM (ProcessInboundPDU (h_ro h) CheckAuth (h_sv h) origin pdu) w = (Ret res, w')"
    and "(case res of Inl e \<Rightarrow> JObj [(''error'', JStr (h_Error h e))] | Inr _ \<Rightarrow> JObj []) = JObj []"
    using assms
    by (auto simp: putSendTxn_def receivePDU_def ret_bind ret_return WriteMatrixError_def WriteJSON_def split: if_splits)
  then show ?thesis by (cases res) (auto simp: ret_catch)
qed

text \<open>The middleware hands a request over without a step on the tables, or refuses it.\<close>

lemma xMatrix_Ret:
  assumes "xMatrixMiddleware h nxt r w = (Ret p, w')" and "rp_Status p = 200"
  shows "\<exists>w1. silent_rel w w1 \<and> nxt r w1 = (Ret p, w')"
proof -
  obtain b origin keyID w1 where "originKey origin keyID w = (b, w1)" "nxt r w1 = (Ret p, w')"
    using assms
    by (auto simp: xMatrixMiddleware_def unauthorized_def WriteMatrixError_def WriteJSON_def Let_def ret_return ret_bind ret_panic
        ed25519_Verify_def ret_case_sum ret_case_option split: if_splits)
  then show ?thesis using keepsD [OF silent_originKey] by blast
qed

abbreviation "txn_pattern \<equiv> ''PUT /_matrix/federation/v1/send/{txnId}''"

lemma txn_route: "map_of (all_routes h) txn_pattern = Some (xMatrixMiddleware h (putSendTxn h))"
  by (rule map_of_is_SomeI [OF distinct_routes]) (simp add: all_routes_def federation_routes_def Let_def)

lemma txn_request_run:
  assumes "requested h r = Some txn_pattern" and "RegisterRoutes h r w = (Ret p, w')" and "rp_Status p = 200"
  obtains v q w1 w2 where "silent_rel w w1" and "putSendTxn h (r\<lparr>hr_PathValues := v\<rparr>) w1 = (Ret q, w2)"
    and "rp_Body q = rp_Body p" and "tables w' = tables w2" and "w_tx w' = w_tx w2"
proof -
  have "pattern_method txn_pattern = ''PUT''" by simp
  then have "hr_Method r = ''PUT''" using pattern_of_method [OF assms(1) [unfolded requested_def]] by simp
  then have m: "hr_Method r \<noteq> ''OPTIONS''" by simp
  obtain q u where q: "ServeMux (all_routes h) r (tick w) = (Ret q, u)" "p = q\<lparr>rp_Header := corsHeaders @ rp_Header q\<rparr>" "w' = tick u"
    using RegisterRoutes_Ret [OF assms(2) m] .
  obtain v e where v: "find_route (all_routes h) (hr_Method r) (hr_EscapedPath r) = Some (xMatrixMiddleware h (putSendTxn h), v, e)"
    using requested_route [OF assms(1) txn_route] .
  have s: "rp_Status q = 200" using q(2) assms(3) by simp
  then have "handed_over h r" using ServeMux_not_handed_over [OF _ m q(1)] by blast
  from ServeMux_handed_over [OF this v] q(1) s
  obtain w1 where "silent_rel (tick w) w1" "putSendTxn h (r\<lparr>hr_PathValues := v\<rparr>) w1 = (Ret q, u)"
    using xMatrix_Ret [of h "putSendTxn h" "r\<lparr>hr_PathValues := v\<rparr>" "tick w" q u] by auto
  then show thesis using that [of w1 v q u] q by (simp add: silent_rel_def tables_def)
qed

end
