(* ===== verification/Payload_Json.thy ===== *)
theory Payload_Json
  imports Federation_Wire Graph_Queries Delivery
begin

text \<open>
  The JSON of the answers: \<open>payload_json\<close> is the value \<open>WriteJSON\<close> gives to the encoder, with the struct tags of
  \<^verbatim>\<open>delivery/http_adapter/client/\<close>, \<^verbatim>\<open>delivery/http_adapter/federation/schemas.go\<close> and the services; and what another
  server reads back from it. A slice without elements is written as an empty array, where the code may also write
  \<open>null\<close>: the decoders read both the same.
\<close>

declare fold_name.simps [simp del]

subsection \<open>Answers to clients\<close>

definition error_json :: "MatrixErrorResponse \<Rightarrow> json" where
  "error_json e = JObj ([(''errcode'', JStr (me_ErrCode e)), (''error'', JStr (me_Message e))] @
     omitempty (\<not> me_SoftLogout e) ''soft_logout'' (JBool (me_SoftLogout e)))"

definition opt_string :: "string \<Rightarrow> string option \<Rightarrow> (string \<times> json) list" where
  "opt_string name v = (case v of None \<Rightarrow> [] | Some s \<Rightarrow> [(name, JStr s)])"

definition room_entry_json :: "PublicRoomEntry \<Rightarrow> json" where
  "room_entry_json e = JObj ([(''room_id'', JStr (pe_RoomID e))] @ opt_string ''name'' (pe_Name e) @ opt_string ''topic'' (pe_Topic e) @
     opt_string ''avatar_url'' (pe_AvatarURL e) @ opt_string ''canonical_alias'' (pe_CanonicalAlias e) @
     [(''num_joined_members'', JNum (pe_NumJoinedMembers e)), (''world_readable'', JBool (pe_WorldReadable e)),
      (''guest_can_join'', JBool (pe_GuestCanJoin e))] @ opt_string ''join_rule'' (pe_JoinRule e))"

definition rooms_json :: "PublicRoomsChunck \<Rightarrow> json" where
  "rooms_json c = JObj ([(''chunk'', JArr (map room_entry_json (pc_Chunk c)))] @
     omitempty (pc_NextBatch c = '''') ''next_batch'' (JStr (pc_NextBatch c)) @
     omitempty (pc_PrevBatch c = '''') ''prev_batch'' (JStr (pc_PrevBatch c)) @
     omitempty (pc_TotalRoomCountEstimate c = 0) ''total_room_count_estimate'' (JNum (pc_TotalRoomCountEstimate c)))"

definition messages_page_json :: "GetMessagesResponse \<Rightarrow> json" where
  "messages_page_json g = JObj ([(''start'', JStr (gm_Start g))] @ omitempty (gm_End g = '''') ''end'' (JStr (gm_End g)) @
     [(''chunk'', JArr (map evento_json (gm_Chunk g)))])"

definition member_profile_json :: "JoinedMemberProfile \<Rightarrow> json" where
  "member_profile_json p = JObj (opt_string ''display_name'' (jm_DisplayName p) @ opt_string ''avatar_url'' (jm_AvatarURL p))"

definition profile_json :: "Profile \<Rightarrow> json" where
  "profile_json p = JObj (opt_string ''displayname'' (p_DisplayName p) @ opt_string ''avatar_url'' (p_AvatarURL p))"

definition account_data_json :: "AccountData \<Rightarrow> json" where
  "account_data_json a = JObj [(''type'', JStr (a_Tipo a)), (''content'', raw_json (a_Content a))]"

definition user_result_json :: "UserSearchResult \<Rightarrow> json" where
  "user_result_json u = JObj ([(''user_id'', JStr (ur_UserID u))] @
     omitempty (ur_DisplayName u = '''') ''display_name'' (JStr (ur_DisplayName u)) @
     omitempty (ur_AvatarURL u = '''') ''avatar_url'' (JStr (ur_AvatarURL u)))"

definition users_json :: "bool \<Rightarrow> UserSearchResult list \<Rightarrow> json" where
  "users_json limited us = JObj [(''limited'', JBool limited), (''results'', JArr (map user_result_json us))]"

text \<open>A map is an object with sorted keys; a nil map is \<open>null\<close>.\<close>

definition map_json :: "('a \<Rightarrow> json) \<Rightarrow> (string \<times> 'a) list \<Rightarrow> json" where
  "map_json f m = JObj (sort_members (map (\<lambda>(k, v). (k, f v)) m))"

definition nil_map_json :: "('a \<Rightarrow> json) \<Rightarrow> (string \<times> 'a) list option \<Rightarrow> json" where
  "nil_map_json f m = (case m of None \<Rightarrow> JNull | Some kvs \<Rightarrow> map_json f kvs)"

definition omit_map :: "string \<Rightarrow> ('a \<Rightarrow> json) \<Rightarrow> (string \<times> 'a) list \<Rightarrow> (string \<times> json) list" where
  "omit_map name f m = omitempty (m = []) name (map_json f m)"

subsection \<open>Sync\<close>

definition short_event_json :: "EventoWithoutCanalID \<Rightarrow> json" where
  "short_event_json e = JObj ([(''event_id'', JStr (ec_ID e)), (''type'', JStr (ec_Tipo e)), (''content'', raw_json (ec_Content e)),
     (''sender'', JStr (ec_Sender e)), (''origin_server_ts'', JNum (ec_OrigemServidorTS e))] @
     opt_string ''state_key'' (ec_StateKey e) @ [(''unsigned'', raw_json (ec_Unsigned e))])"

definition state_json :: "EventoWithoutCanalID list \<Rightarrow> json" where
  "state_json es = JObj (omitempty (es = []) ''events'' (JArr (map short_event_json es)))"

definition timeline_json :: "Timeline \<Rightarrow> json" where
  "timeline_json t = JObj (omitempty (tl_Events t = []) ''events'' (JArr (map short_event_json (tl_Events t))) @
     omitempty (\<not> tl_Limited t) ''limited'' (JBool (tl_Limited t)) @ [(''prev_batch'', JStr (Encode (tl_PrevBatch t)))])"

definition joined_room_json :: "JoinedRoom \<Rightarrow> json" where
  "joined_room_json r = JObj [(''account_data'', JArr (map account_data_json (jr_AccountData r))), (''state'', state_json (jr_State r)),
     (''timeline'', timeline_json (jr_Timeline r))]"

definition left_room_json :: "LeftRoom \<Rightarrow> json" where
  "left_room_json r = JObj [(''state'', state_json (lr_State r)), (''timeline'', timeline_json (lr_Timeline r))]"

definition invited_room_json :: "StrippedEvento list \<Rightarrow> json" where
  "invited_room_json es = JObj [(''invite_state'', JObj (omitempty (es = []) ''events'' (JArr (map stripped_json es))))]"

definition rooms_sync_json :: "RoomsSync \<Rightarrow> json" where
  "rooms_sync_json r = JObj [(''invite'', map_json invited_room_json (rs_Invite r)), (''join'', nil_map_json joined_room_json (rs_Join r)),
     (''leave'', nil_map_json left_room_json (rs_Leave r))]"

definition to_device_event_json :: "ToDeviceEventSync \<Rightarrow> json" where
  "to_device_event_json e = JObj [(''content'', raw_json (te_Content e)), (''sender'', JStr (te_Sender e)), (''type'', JStr (te_Type e))]"

definition sync_json :: "SyncClientResponse \<Rightarrow> json" where
  "sync_json s = JObj ([(''account_data'', JObj [(''events'', JArr (map account_data_json (sy_AccountData s)))])] @
     (case sy_DeviceOTKCount s of None \<Rightarrow> [] | Some m \<Rightarrow> omit_map ''device_one_time_keys_count'' JNum m) @
     [(''next_batch'', JStr (Encode (sy_NextBatch s))), (''rooms'', rooms_sync_json (sy_Rooms s))] @
     (case sy_ToDevice s of None \<Rightarrow> [] | Some es \<Rightarrow> [(''to_device'', JObj [(''events'', JArr (map to_device_event_json es))])]))"

subsection \<open>Keys\<close>

definition backup_data_json :: "RoomKeyBackupData \<Rightarrow> json" where
  "backup_data_json d = JObj [(''first_message_index'', JNum (bd_FirstMessageIndex d)), (''forwarded_count'', JNum (bd_ForwardedCount d)),
     (''is_verified'', JBool (bd_IsVerified d)), (''session_data'', raw_json (bd_SessionData d))]"

definition room_backup_json :: "(string \<times> RoomKeyBackupData) list \<Rightarrow> json" where
  "room_backup_json sessions = JObj [(''sessions'', map_json backup_data_json sessions)]"

definition room_keys_json :: "RoomKeyBackups \<Rightarrow> json" where
  "room_keys_json rooms = JObj [(''rooms'', map_json room_backup_json rooms)]"

text \<open>The \<open>unsigned\<close> struct of a client's answer is always written, that of another server's only with a display name.\<close>

definition display_name :: "string \<Rightarrow> json" where
  "display_name n = JObj (omitempty (n = '''') ''device_display_name'' (JStr n))"

definition device_members :: "DeviceKeysInfo \<Rightarrow> (string \<times> json) list" where
  "device_members k = [(''algorithms'', JArr (map JStr (dk_Algorithms k))), (''device_id'', JStr (dk_DeviceID k)),
     (''keys'', raw_json (dk_Keys k)), (''signatures'', raw_json (dk_Signatures k)), (''user_id'', JStr (dk_UserID k))]"

definition device_json :: "DeviceKeysInfo \<Rightarrow> json" where
  "device_json k = JObj (device_members k @ [(''unsigned'', display_name (dk_DeviceDisplayName k))])"

definition remote_device_json :: "DeviceKeysInfo \<Rightarrow> json" where
  "remote_device_json k =
     JObj (device_members k @ omitempty (dk_DeviceDisplayName k = '''') ''unsigned'' (display_name (dk_DeviceDisplayName k)))"

definition cross_key_json :: "CrossSigningKeyInfo \<Rightarrow> json" where
  "cross_key_json c = JObj ([(''keys'', raw_json (ci_Keys c))] @ omitempty (ci_Signatures c = None) ''signatures'' (raw_json (ci_Signatures c)) @
     [(''usage'', JArr (map JStr (ci_Usage c))), (''user_id'', JStr (ci_UserID c))])"

definition query_keys_json :: "QueryKeysReply \<Rightarrow> json" where
  "query_keys_json q = JObj ([(''device_keys'', map_json (map_json device_json) (qr_DeviceKeys q))] @
     omit_map ''master_keys'' cross_key_json (qr_MasterKeys q) @ omit_map ''self_signing_keys'' cross_key_json (qr_SelfSigningKeys q) @
     omit_map ''user_signing_keys'' cross_key_json (qr_UserSigningKeys q) @ [(''failures'', map_json (\<lambda>v. v) (qr_Failures q))])"

definition claim_keys_json :: "claimed_keys \<Rightarrow> (string \<times> json) list \<Rightarrow> json" where
  "claim_keys_json ks failures = JObj [(''one_time_keys'', claimed_json ks), (''failures'', map_json (\<lambda>v. v) failures)]"

definition sig_failure_json :: "string \<times> string \<Rightarrow> json" where
  "sig_failure_json p = (case p of (errcode, message) \<Rightarrow> JObj [(''errcode'', JStr errcode), (''error'', JStr message)])"

definition signature_failures_json :: "sig_failures \<Rightarrow> json" where
  "signature_failures_json fs = JObj [(''failures'', map_json (map_json sig_failure_json) fs)]"

subsection \<open>Answers to servers\<close>

definition transaction_response_json :: "string \<Rightarrow> int \<Rightarrow> evento list \<Rightarrow> json" where
  "transaction_response_json origin ts pdus =
     JObj [(''origin'', JStr origin), (''origin_server_ts'', JNum ts), (''pdus'', JArr (map evento_json pdus))]"

definition state_response_json :: "evento list \<Rightarrow> evento list \<Rightarrow> json" where
  "state_response_json pdus authChain = JObj [(''auth_chain'', JArr (map evento_json authChain)), (''pdus'', JArr (map evento_json pdus))]"

definition state_ids_json :: "string list \<Rightarrow> string list \<Rightarrow> json" where
  "state_ids_json pduIDs authIDs = JObj [(''pdu_ids'', JArr (map JStr pduIDs)), (''auth_chain_ids'', JArr (map JStr authIDs))]"

definition send_join_json :: "evento list \<Rightarrow> evento list \<Rightarrow> string list \<Rightarrow> json" where
  "send_join_json state authChain servers =
     JObj ([(''auth_chain'', JArr (map evento_json authChain)), (''state'', JArr (map evento_json state))] @
       omitempty (servers = []) ''servers_in_room'' (JArr (map JStr servers)))"

definition alias_json :: "string \<Rightarrow> string list \<Rightarrow> json" where
  "alias_json roomID servers = JObj [(''room_id'', JStr roomID), (''servers'', JArr (map JStr servers))]"

definition remote_keys_json ::
    "(string \<times> (string \<times> DeviceKeysInfo) list) list \<Rightarrow> (string \<times> CrossSigningKeyInfo) list \<Rightarrow> (string \<times> CrossSigningKeyInfo) list \<Rightarrow> json" where
  "remote_keys_json devices master self =
     JObj ([(''device_keys'', map_json (map_json remote_device_json) devices)] @
       omit_map ''master_keys'' cross_key_json master @ omit_map ''self_signing_keys'' cross_key_json self)"

definition missing_events_json :: "evento list \<Rightarrow> json" where
  "missing_events_json events = JObj [(''events'', JArr (map evento_json events))]"

definition payload_json :: "payload \<Rightarrow> json option" where
  "payload_json p = (case p of
       NoContent \<Rightarrow> None
     | Text _ \<Rightarrow> None
     | Media _ _ \<Rightarrow> None
     | MultipartMedia _ _ \<Rightarrow> None
     | Json v \<Rightarrow> Some v
     | MatrixError e \<Rightarrow> Some (error_json e)
     | Rooms c \<Rightarrow> Some (rooms_json c)
     | Event ev \<Rightarrow> Some (evento_json ev)
     | Events evs \<Rightarrow> Some (JArr (map evento_json evs))
     | Chunk evs \<Rightarrow> Some (JObj [(''chunk'', JArr (map evento_json evs))])
     | MessagePage g \<Rightarrow> Some (messages_page_json g)
     | JoinedMembers m \<Rightarrow> Some (JObj [(''joined'', map_json member_profile_json m)])
     | UserProfile pf \<Rightarrow> Some (profile_json pf)
     | UserAccountData a \<Rightarrow> Some (account_data_json a)
     | Users limited us \<Rightarrow> Some (users_json limited us)
     | SyncReply s \<Rightarrow> Some (sync_json s)
     | RoomKeys rooms \<Rightarrow> Some (room_keys_json rooms)
     | OneTimeKeyCounts m \<Rightarrow> Some (JObj [(''one_time_key_counts'', map_json JNum m)])
     | DeviceKeys q \<Rightarrow> Some (query_keys_json q)
     | ClaimedKeys ks fs \<Rightarrow> Some (claim_keys_json ks fs)
     | SignatureFailures fs \<Rightarrow> Some (signature_failures_json fs)
     | RoomIDs ids \<Rightarrow> Some (JObj [(''joined_rooms'', JArr (map JStr ids))])
     | AliasOf roomID servers \<Rightarrow> Some (alias_json roomID servers)
     | RemoteKeys ds ms ss \<Rightarrow> Some (remote_keys_json ds ms ss)
     | MissingEvents evs \<Rightarrow> Some (missing_events_json evs)
     | StateIDs ids auth \<Rightarrow> Some (state_ids_json ids auth)
     | Transaction origin ts pdus \<Rightarrow> Some (transaction_response_json origin ts pdus)
     | JoinState st auth servers \<Rightarrow> Some (send_join_json st auth servers)
     | StateSnapshot pdus auth \<Rightarrow> Some (state_response_json pdus auth))"

text \<open>\<open>WriteJSON\<close>: the body is the canonical JSON of the value; an error leaves it empty.\<close>

definition response_body :: "crypto \<Rightarrow> payload \<Rightarrow> raw" where
  "response_body cr p = (case payload_json p of
       None \<Rightarrow> None
     | Some v \<Rightarrow> (case CanonicalJSON cr v of Inl _ \<Rightarrow> None | Inr v' \<Rightarrow> Some v'))"

subsection \<open>Reading an answer\<close>

text \<open>The package writes every value it can hold.\<close>

definition canonical_writes :: "crypto \<Rightarrow> bool" where
  "canonical_writes cr \<longleftrightarrow> canonical_package cr \<and> (\<forall>v. safe_json v \<longrightarrow> (\<exists>v'. cr_canon_Marshal cr v = Inr v'))"

lemma response_body_safe:
  assumes "canonical_writes cr" and "payload_json p = Some v" and "safe_json v"
  shows "response_body cr p = Some (marshal_any v)"
proof -
  obtain v' where "CanonicalJSON cr v = Inr v'" using assms(1,3) by (auto simp: canonical_writes_def CanonicalJSON_def)
  moreover have "v' = marshal_any v" using assms(1) canonical_text [OF _ assms(3) calculation] by (simp add: canonical_writes_def)
  ultimately show ?thesis by (simp add: response_body_def assms(2))
qed

text \<open>An object written canonically has the fields of the struct it was made from.\<close>

lemma canonical_struct:
  assumes "plain_names ms"
  obtains ms' where "struct_members (Some (marshal_any (JObj ms))) = Inr ms'" and "\<And>n. field_vals n ms' = map marshal_any (field_vals n ms)"
  using field_vals_canonical [OF assms, of _ marshal_any] that by (simp add: struct_members_def)

lemma plain_subseq: "subseq (map fst ms) ns \<Longrightarrow> distinct (map fold_name ns) \<Longrightarrow> plain_names ms"
  unfolding plain_names_def map_map [symmetric] by (metis subseq_map subseq_conv_nths distinct_nthsI)

lemma subseq_opt: "subseq (map fst (opt_string n v)) [n]" "subseq (map fst (omitempty z n x)) [n]"
  by (simp_all add: opt_string_def omitempty_def split: option.split)

lemma field_vals_cons: "field_vals n ((m, v) # ms) = (if fold_name m = fold_name n then [v] else []) @ field_vals n ms"
  by (simp add: field_vals_def)

lemma field_vals_opt_string:
  "field_vals n (opt_string m s) = (if fold_name m = fold_name n then (case s of None \<Rightarrow> [] | Some t \<Rightarrow> [JStr t]) else [])"
  by (simp add: field_vals_def opt_string_def split: option.split)

lemmas field_vals_parts = field_vals_append field_vals_cons field_vals_Nil field_vals_omitempty field_vals_opt_string

lemma payload_names:
  "fold_name ''servers'' = ''SERVERS''"
  "fold_name ''events'' = ''EVENTS''"
  "fold_name ''state'' = ''STATE''"
  "fold_name ''auth_chain'' = ''AUTH_CHAIN''"
  "fold_name ''servers_in_room'' = ''SERVERS_IN_ROOM''"
  "fold_name ''displayname'' = ''DISPLAYNAME''"
  "fold_name ''avatar_url'' = ''AVATAR_URL''"
  "fold_name ''name'' = ''NAME''"
  "fold_name ''topic'' = ''TOPIC''"
  "fold_name ''canonical_alias'' = ''CANONICAL_ALIAS''"
  "fold_name ''num_joined_members'' = ''NUM_JOINED_MEMBERS''"
  "fold_name ''world_readable'' = ''WORLD_READABLE''"
  "fold_name ''guest_can_join'' = ''GUEST_CAN_JOIN''"
  "fold_name ''join_rule'' = ''JOIN_RULE''"
  "fold_name ''chunk'' = ''CHUNK''"
  "fold_name ''next_batch'' = ''NEXT_BATCH''"
  "fold_name ''prev_batch'' = ''PREV_BATCH''"
  "fold_name ''total_room_count_estimate'' = ''TOTAL_ROOM_COUNT_ESTIMATE''"
  "fold_name ''device_keys'' = ''DEVICE_KEYS''"
  "fold_name ''master_keys'' = ''MASTER_KEYS''"
  "fold_name ''self_signing_keys'' = ''SELF_SIGNING_KEYS''"
  "fold_name ''earliest_events'' = ''EARLIEST_EVENTS''"
  "fold_name ''latest_events'' = ''LATEST_EVENTS''"
  "fold_name ''limit'' = ''LIMIT''"
  "fold_name ''min_depth'' = ''MIN_DEPTH''"
  "fold_name ''room_version'' = ''ROOM_VERSION''"
  "fold_name ''event'' = ''EVENT''"
  "fold_name ''one_time_keys'' = ''ONE_TIME_KEYS''"
  by code_simp+

lemma dec_strings_canonical: "dec_strings [marshal_any (JArr (map JStr xs))] = (xs, False)"
  using dec_strings_arr [of xs] by (simp add: comp_def)

lemma dec_bool_one: "dec_bool [JBool b] = (b, False)"
  by (simp add: dec_bool_def)

lemma decode_alias: "decodeQueryDirectory (Some (marshal_any (alias_json roomID servers))) = Inr (roomID, servers)"
proof -
  have "plain_names [(''room_id'', JStr roomID), (''servers'', JArr (map JStr servers))]"
    by (simp add: plain_names_def fold_names payload_names)
  then obtain ms where "struct_members (Some (marshal_any (alias_json roomID servers))) = Inr ms"
    and "\<And>n. field_vals n ms = map marshal_any (field_vals n [(''room_id'', JStr roomID), (''servers'', JArr (map JStr servers))])"
    unfolding alias_json_def using canonical_struct by blast
  then show ?thesis
    by (simp add: decodeQueryDirectory_def field_vals_parts fold_names payload_names dec_one dec_strings_canonical del: marshal_any.simps(2))
qed

lemma safe_list: "safe_json (JArr (map f xs)) \<longleftrightarrow> (\<forall>x\<in>set xs. safe_json (f x))"
  by (simp add: list_all_iff)

lemma safe_members: "safe_json (JObj ms) \<longleftrightarrow> (\<forall>(k, v)\<in>set ms. safe_json v)"
  by (auto simp: list_all_iff)

definition all_wire_ok :: "evento list \<Rightarrow> bool" where
  "all_wire_ok es \<longleftrightarrow> (\<forall>e\<in>set es. wire_ok e)"

lemma dec_eventos_canonical:
  assumes "all_wire_ok es"
  shows "dec_eventos [marshal_any (JArr (map evento_json es))] = (map received es, False)"
  using assms
  by (auto simp: dec_eventos_def dec_one evento_of_canonical all_wire_ok_def list_ex_iff)

lemma decode_missing:
  assumes "all_wire_ok es"
  shows "decodeMissing (Some (marshal_any (missing_events_json es))) = Inr (map received es)"
proof -
  have "plain_names [(''events'', JArr (map evento_json es))]" by (simp add: plain_names_def)
  then obtain ms where "struct_members (Some (marshal_any (missing_events_json es))) = Inr ms"
    and "\<And>n. field_vals n ms = map marshal_any (field_vals n [(''events'', JArr (map evento_json es))])"
    unfolding missing_events_json_def using canonical_struct by blast
  then show ?thesis
    by (simp add: decodeMissing_def field_vals_parts dec_eventos_canonical [OF assms] del: marshal_any.simps(2))
qed

lemma decode_join_state:
  assumes "all_wire_ok st" and "all_wire_ok chain"
  shows "decodeSendJoin (Some (marshal_any (send_join_json st chain servers))) =
    Inr \<lparr>sj_StateEvents = map received st, sj_AuthChain = map received chain\<rparr>"
proof -
  let ?ms = "[(''auth_chain'', JArr (map evento_json chain)), (''state'', JArr (map evento_json st))] @
    omitempty (servers = []) ''servers_in_room'' (JArr (map JStr servers))"
  have "plain_names ?ms"
    by (rule plain_subseq [of _ "[''auth_chain'', ''state''] @ [''servers_in_room'']"])
      (simp_all add: list_emb_append_mono subseq_opt payload_names)
  then obtain ms where "struct_members (Some (marshal_any (send_join_json st chain servers))) = Inr ms"
    and "\<And>n. field_vals n ms = map marshal_any (field_vals n ?ms)"
    unfolding send_join_json_def using canonical_struct by blast
  then show ?thesis
    by (simp add: decodeSendJoin_def field_vals_parts payload_names dec_eventos_canonical assms del: marshal_any.simps(2))
qed

lemma decode_profile:
  "decodeProfile (Some (marshal_any (profile_json pf))) = Inr (pf\<lparr>p_IDUsuario := ''''\<rparr>)"
proof -
  let ?ms = "opt_string ''displayname'' (p_DisplayName pf) @ opt_string ''avatar_url'' (p_AvatarURL pf)"
  have "plain_names ?ms"
    by (rule plain_subseq [of _ "[''displayname''] @ [''avatar_url'']"])
      (simp_all only: map_append list_emb_append_mono subseq_opt, simp add: payload_names)
  then obtain ms where "struct_members (Some (marshal_any (profile_json pf))) = Inr ms"
    and "\<And>n. field_vals n ms = map marshal_any (field_vals n ?ms)"
    unfolding profile_json_def using canonical_struct by blast
  then show ?thesis
    by (cases pf) (simp add: decodeProfile_def field_vals_parts payload_names dec_one split: option.split)
qed

lemma dec_entry_canonical:
  assumes "in_int64 (pe_NumJoinedMembers e)"
  shows "dec_entry (marshal_any (room_entry_json e)) = (e, False)"
proof -
  let ?ms = "[(''room_id'', JStr (pe_RoomID e))] @ opt_string ''name'' (pe_Name e) @ opt_string ''topic'' (pe_Topic e) @
     opt_string ''avatar_url'' (pe_AvatarURL e) @ opt_string ''canonical_alias'' (pe_CanonicalAlias e) @
     [(''num_joined_members'', JNum (pe_NumJoinedMembers e)), (''world_readable'', JBool (pe_WorldReadable e)),
      (''guest_can_join'', JBool (pe_GuestCanJoin e))] @ opt_string ''join_rule'' (pe_JoinRule e)"
  have "plain_names ?ms"
    by (rule plain_subseq [of _ "[''room_id''] @ [''name''] @ [''topic''] @ [''avatar_url''] @ [''canonical_alias''] @
        [''num_joined_members'', ''world_readable'', ''guest_can_join''] @ [''join_rule'']"])
      (unfold map_append, intro list_emb_append_mono subseq_opt, simp_all add: payload_names fold_names)
  then obtain ms where "struct_members (Some (marshal_any (room_entry_json e))) = Inr ms"
    and "\<And>n. field_vals n ms = map marshal_any (field_vals n ?ms)"
    unfolding room_entry_json_def using canonical_struct by blast
  moreover have "dec_string_ptr (map marshal_any (case s of None \<Rightarrow> [] | Some t \<Rightarrow> [JStr t])) = (s, False)" for s
    by (cases s) (simp_all add: dec_one)
  ultimately show ?thesis
    using assms by (cases e) (simp add: dec_entry_def field_vals_parts payload_names fold_names dec_one dec_bool_one del: marshal_any.simps(1,2))
qed

lemma decode_rooms:
  assumes "safe_json (rooms_json c)"
  shows "decodePublicRooms (Some (marshal_any (rooms_json c))) = Inr c"
proof -
  let ?ms = "[(''chunk'', JArr (map room_entry_json (pc_Chunk c)))] @
     omitempty (pc_NextBatch c = '''') ''next_batch'' (JStr (pc_NextBatch c)) @
     omitempty (pc_PrevBatch c = '''') ''prev_batch'' (JStr (pc_PrevBatch c)) @
     omitempty (pc_TotalRoomCountEstimate c = 0) ''total_room_count_estimate'' (JNum (pc_TotalRoomCountEstimate c))"
  have "plain_names ?ms"
    by (rule plain_subseq [of _ "[''chunk''] @ [''next_batch''] @ [''prev_batch''] @ [''total_room_count_estimate'']"])
      (unfold map_append, intro list_emb_append_mono subseq_opt, simp_all add: payload_names)
  then obtain ms where ms: "struct_members (Some (marshal_any (rooms_json c))) = Inr ms"
    "\<And>n. field_vals n ms = map marshal_any (field_vals n ?ms)"
    unfolding rooms_json_def using canonical_struct by blast
  have s: "safe_json v" if "(k, v) \<in> set ?ms" for k v
    using assms that unfolding rooms_json_def safe_members by blast
  have "in_int64 (pe_NumJoinedMembers e)" if "e \<in> set (pc_Chunk c)" for e
  proof -
    have "safe_json (JArr (map room_entry_json (pc_Chunk c)))" by (rule s [of "''chunk''"]) simp
    then have "safe_json (room_entry_json e)" unfolding safe_list using that by blast
    then have "safe_json (JNum (pe_NumJoinedMembers e))" unfolding room_entry_json_def safe_members by (auto simp: Ball_def)
    then show ?thesis by (auto simp: in_int64_def)
  qed
  then have "dec_chunk [marshal_any (JArr (map room_entry_json (pc_Chunk c)))] = (pc_Chunk c, False)"
    by (auto simp: dec_chunk_def dec_one dec_entry_canonical list_ex_iff intro!: map_idI)
  moreover have "in_int64 (pc_TotalRoomCountEstimate c)"
  proof (cases "pc_TotalRoomCountEstimate c = 0")
    case False
    then have "safe_json (JNum (pc_TotalRoomCountEstimate c))"
      by (intro s [of "''total_room_count_estimate''"]) (simp add: omitempty_def)
    then show ?thesis by (auto simp: in_int64_def)
  qed (simp add: in_int64_def)
  ultimately show ?thesis
    by (simp add: ms decodePublicRooms_def field_vals_parts payload_names dec_one if_distrib [of "map marshal_any"] del: marshal_any.simps(2))
qed

text \<open>Maps: the receiver has the same keys, each with what was written for it. Of two entries of a key the later counts.\<close>

definition entry :: "string \<Rightarrow> (string \<times> 'a) list \<Rightarrow> 'a option" where
  "entry k m = map_of (rev m) k"

lemma member_entry: "member k m = entry k m"
  by (simp add: member_def entry_def)

lemma entry_values: "entry k (map (\<lambda>(k, v). (k, f v)) m) = map_option f (entry k m)"
proof -
  have "map_of (map (\<lambda>(k, v). (k, f v)) xs) k = map_option f (map_of xs k)" for xs
    by (induction xs) auto
  then show ?thesis by (simp add: entry_def rev_map)
qed

lemma map_of_dec_map: "map_of (fst (dec_map f [JObj ms])) k = map_option (fst \<circ> f) (entry k ms)"
proof -
  have "map_of (fst (foldl (\<lambda>(m, bad) (k, e). (AList.update k (fst (f e)) m, bad \<or> snd (f e))) (m, bad) ms)) k =
      (case entry k ms of None \<Rightarrow> map_of m k | Some e \<Rightarrow> Some (fst (f e)))" for m bad
  proof (induction ms arbitrary: m bad)
    case (Cons x ms)
    then show ?case by (cases x) (auto simp: entry_def update_conv' map_add_def split: option.splits)
  qed (simp add: entry_def)
  from this [of "[]" False] show ?thesis by (simp add: dec_map_def split: option.split)
qed

lemma dec_map_good: "(\<forall>x\<in>set ms. \<not> snd (f (snd x))) \<Longrightarrow> \<not> snd (dec_map f [JObj ms])"
proof -
  have "(\<forall>x\<in>set ms. \<not> snd (f (snd x))) \<Longrightarrow>
      snd (foldl (\<lambda>(m, bad) (k, e). (AList.update k (fst (f e)) m, bad \<or> snd (f e))) (m, bad) ms) = bad" for m bad
    by (induction ms arbitrary: m bad) auto
  then show "(\<forall>x\<in>set ms. \<not> snd (f (snd x))) \<Longrightarrow> \<not> snd (dec_map f [JObj ms])"
    by (simp add: dec_map_def)
qed

lemma distinct_sort_members: "distinct (map fst (sort_members ms))"
  by (simp add: sort_members_def distinct_map_sort_key distinct_dedup)

lemma canonical_map:
  "\<exists>ms. marshal_any (map_json g m) = JObj ms \<and> (\<forall>k. entry k ms = map_option (marshal_any \<circ> g) (entry k m)) \<and>
     (\<forall>x\<in>set ms. \<exists>v. snd x = marshal_any (g v))"
proof -
  let ?L = "map (\<lambda>(k, v). (k, g v)) m"
  let ?ms = "sort_members (map (\<lambda>m. (fst m, marshal_any (snd m))) (sort_members ?L))"
  have e: "entry k ?ms = map_option (marshal_any \<circ> g) (entry k m)" for k
  proof -
    have "member k ?ms = map_option marshal_any (member k ?L)" by (simp add: member_sort_members member_map)
    then show ?thesis by (simp add: member_entry entry_values option.map_comp)
  qed
  have "\<exists>v. e = marshal_any (g v)" if "(k, e) \<in> set ?ms" for k e
  proof -
    have "entry k ?ms = Some e" using that distinct_sort_members by (simp add: entry_def rev_map [symmetric])
    then show ?thesis by (auto simp: e)
  qed
  with e show ?thesis by (intro exI [of _ ?ms]) (auto simp: map_json_def)
qed

lemma dec_map_canonical:
  assumes "\<And>v. \<not> snd (f (marshal_any (g v)))"
  shows "\<exists>r. dec_map f [marshal_any (map_json g m)] = (r, False) \<and>
    (\<forall>k. map_of r k = map_option (\<lambda>v. fst (f (marshal_any (g v)))) (entry k m))"
proof -
  obtain ms where ms: "marshal_any (map_json g m) = JObj ms" "\<And>k. entry k ms = map_option (marshal_any \<circ> g) (entry k m)"
    "\<forall>x\<in>set ms. \<exists>v. snd x = marshal_any (g v)"
    using canonical_map [of g m] by blast
  have "\<not> snd (dec_map f [JObj ms])" by (rule dec_map_good) (use ms(3) assms in fastforce)
  then have "dec_map f [JObj ms] = (fst (dec_map f [JObj ms]), False)" by (simp add: prod_eq_iff)
  then show ?thesis using ms(2) by (auto simp: ms(1) map_of_dec_map option.map_comp comp_def)
qed

lemma dec_omit_map:
  assumes "\<And>v. \<not> snd (f (marshal_any (g v)))"
  shows "\<exists>r. dec_map f (if m \<noteq> [] then [marshal_any (map_json g m)] else []) = (r, False) \<and>
    (\<forall>k. map_of r k = map_option (\<lambda>v. fst (f (marshal_any (g v)))) (entry k m))"
proof (cases "m = []")
  case True
  then show ?thesis by (simp add: dec_map_def entry_def)
next
  case False
  then show ?thesis using dec_map_canonical [of f g m] assms by auto
qed

lemma decode_keys:
  "\<exists>q. decodeKeysQuery (Some (marshal_any (remote_keys_json ds ms ss))) = Inr q \<and>
     (\<forall>u d. map_of (map_at u (kq_DeviceKeys q)) d =
        Option.bind (entry u ds) (\<lambda>m. map_option (marshal_any \<circ> remote_device_json) (entry d m))) \<and>
     map_of (kq_MasterKeys q) = (\<lambda>u. map_option (marshal_any \<circ> cross_key_json) (entry u ms)) \<and>
     map_of (kq_SelfSigningKeys q) = (\<lambda>u. map_option (marshal_any \<circ> cross_key_json) (entry u ss))"
proof -
  let ?ms = "[(''device_keys'', map_json (map_json remote_device_json) ds)] @
    omit_map ''master_keys'' cross_key_json ms @ omit_map ''self_signing_keys'' cross_key_json ss"
  have "plain_names ?ms"
    by (rule plain_subseq [of _ "[''device_keys''] @ [''master_keys''] @ [''self_signing_keys'']"])
      (unfold map_append omit_map_def, intro list_emb_append_mono subseq_opt, simp_all add: payload_names)
  then obtain fs where fs: "struct_members (Some (marshal_any (remote_keys_json ds ms ss))) = Inr fs"
    "\<And>n. field_vals n fs = map marshal_any (field_vals n ?ms)"
    unfolding remote_keys_json_def using canonical_struct by blast
  have raw: "\<not> snd (elem_raw e)" "fst (elem_raw e) = e" for e by (simp_all add: elem_raw_def)
  have inner: "\<exists>r. elem_map elem_raw (marshal_any (map_json remote_device_json m)) = (r, False) \<and>
      (\<forall>d. map_of r d = map_option (marshal_any \<circ> remote_device_json) (entry d m))" for m
    using dec_map_canonical [of elem_raw remote_device_json m] by (simp add: elem_map_def raw comp_def)
  then have "\<not> snd (elem_map elem_raw (marshal_any (map_json remote_device_json m)))" for m by (metis snd_conv)
  from dec_map_canonical [of "elem_map elem_raw" "map_json remote_device_json", OF this]
  obtain r where r: "dec_map (elem_map elem_raw) [marshal_any (map_json (map_json remote_device_json) ds)] = (r, False)"
    "\<And>u. map_of r u = map_option (\<lambda>m. fst (elem_map elem_raw (marshal_any (map_json remote_device_json m)))) (entry u ds)"
    by blast
  have devices: "map_of (map_at u r) d =
      Option.bind (entry u ds) (\<lambda>m. map_option (marshal_any \<circ> remote_device_json) (entry d m))" for u d
    using inner by (cases "entry u ds") (auto simp: map_at_def r(2), metis fst_conv)
  obtain r1 where r1: "dec_map elem_raw (if ms \<noteq> [] then [marshal_any (map_json cross_key_json ms)] else []) = (r1, False)"
    "\<And>k. map_of r1 k = map_option (\<lambda>v. marshal_any (cross_key_json v)) (entry k ms)"
    using dec_omit_map [of elem_raw cross_key_json ms] by (auto simp: raw)
  obtain r2 where r2: "dec_map elem_raw (if ss \<noteq> [] then [marshal_any (map_json cross_key_json ss)] else []) = (r2, False)"
    "\<And>k. map_of r2 k = map_option (\<lambda>v. marshal_any (cross_key_json v)) (entry k ss)"
    using dec_omit_map [of elem_raw cross_key_json ss] by (auto simp: raw)
  have f: "field_vals ''device_keys'' fs = [marshal_any (map_json (map_json remote_device_json) ds)]"
    "field_vals ''master_keys'' fs = (if ms \<noteq> [] then [marshal_any (map_json cross_key_json ms)] else [])"
    "field_vals ''self_signing_keys'' fs = (if ss \<noteq> [] then [marshal_any (map_json cross_key_json ss)] else [])"
    unfolding fs(2) omit_map_def by (simp_all add: field_vals_parts payload_names)
  show ?thesis
    by (rule exI [of _ "\<lparr>kq_DeviceKeys = r, kq_MasterKeys = r1, kq_SelfSigningKeys = r2\<rparr>"])
      (simp add: decodeKeysQuery_def fs(1) f r(1) r1 r2 devices fun_eq_iff comp_def)
qed

definition template_event :: "string \<Rightarrow> MakeResult \<Rightarrow> evento" where
  "template_event membership result = zeroEvento\<lparr>ev_Tipo := ''m.room.member'', ev_CanalID := mk_RoomID result, ev_Sender := mk_Sender result,
     ev_StateKey := Some (mk_Sender result), ev_OrigemServidorTS := mk_Timestamp result,
     ev_Content := Some (JObj [(''membership'', JStr membership)])\<rparr>"

lemma decode_template:
  assumes "eventTemplate membership result = Json t" and "safe_json t"
  shows "decodeMakeJoin (Some (marshal_any t)) = Inr (template_event membership result, mk_RoomVersion result)"
proof -
  let ?ev = "[(''content'', membership_json \<lparr>mc_JoinAuthorisedViaUsersServer = '''', mc_Membership = membership\<rparr>),
     (''origin'', JStr (mk_Origin result)), (''origin_server_ts'', JNum (mk_Timestamp result)),
     (''room_id'', JStr (mk_RoomID result)), (''sender'', JStr (mk_Sender result)),
     (''state_key'', JStr (mk_Sender result)), (''type'', JStr ''m.room.member'')]"
  let ?ms = "[(''event'', JObj ?ev), (''room_version'', JStr (mk_RoomVersion result))]"
  have t: "t = JObj ?ms" using assms(1) by (simp add: eventTemplate_def)
  have "plain_names ?ms" by (simp add: plain_names_def payload_names)
  then obtain ms where ms: "struct_members (Some (marshal_any t)) = Inr ms" "\<And>n. field_vals n ms = map marshal_any (field_vals n ?ms)"
    unfolding t using canonical_struct by blast
  have "plain_names ?ev" by (simp add: plain_names_def payload_names fold_names fold_transaction_names)
  then obtain es where es: "struct_members (Some (marshal_any (JObj ?ev))) = Inr es" "\<And>n. field_vals n es = map marshal_any (field_vals n ?ev)"
    using canonical_struct by blast
  have i: "in_int64 (mk_Timestamp result)" using assms(2) by (auto simp: t in_int64_def)
  have m: "marshal_any (membership_json \<lparr>mc_JoinAuthorisedViaUsersServer = '''', mc_Membership = membership\<rparr>) =
      JObj [(''membership'', JStr membership)]"
    by (simp add: membership_json_def omitempty_def sort_members_def dedup_members_def)
  have "evento_of_json (Some (marshal_any (JObj ?ev))) = Inr (template_event membership result)"
    unfolding evento_of_json_def es(1)
    by (simp add: es(2) field_vals_parts fold_names payload_names fold_transaction_names dec_one i m template_event_def zeroEvento_def
        del: marshal_any.simps(1))
  then show ?thesis
    by (simp add: decodeMakeJoin_def ms field_vals_parts payload_names dec_one del: marshal_any.simps(1))
qed

subsection \<open>Missing events\<close>

text \<open>The request of \<open>fetchMissingEvents\<close>, as the other server reads it.\<close>

definition missing_request :: "string list \<Rightarrow> string list \<Rightarrow> json" where
  "missing_request earliest latest = JObj [(''earliest_events'', JArr (map JStr earliest)), (''latest_events'', JArr (map JStr latest)),
     (''limit'', JNum 10), (''min_depth'', JNum 0)]"

lemma missing_request_safe: "safe_json (missing_request earliest latest)"
  by (simp add: missing_request_def list_all_iff)

lemma decode_missing_request:
  "decodeGetMissing (marshal_any (missing_request earliest latest)) = Inr (earliest, latest, 10, 0)"
proof -
  let ?ms = "[(''earliest_events'', JArr (map JStr earliest)), (''latest_events'', JArr (map JStr latest)),
     (''limit'', JNum 10), (''min_depth'', JNum 0)]"
  have "plain_names ?ms" by (simp add: plain_names_def payload_names)
  then obtain ms where "struct_members (Some (marshal_any (missing_request earliest latest))) = Inr ms"
    "\<And>n. field_vals n ms = map marshal_any (field_vals n ?ms)"
    unfolding missing_request_def using canonical_struct by blast
  then show ?thesis
    by (simp add: decodeGetMissing_def field_vals_parts payload_names dec_one dec_strings_canonical in_int64_def del: marshal_any.simps(2))
qed

abbreviation "missing_pattern \<equiv> ''POST /_matrix/federation/v1/get_missing_events/{roomId}''"

lemma missing_route: "map_of (all_routes h) missing_pattern = Some (xMatrixMiddleware h (postGetMissingEvents h))"
  by (rule map_of_is_SomeI [OF distinct_routes]) (simp add: all_routes_def federation_routes_def Let_def)

text \<open>A route behind the middleware of the federation: its handler ran on a world with the same tables.\<close>

lemma fed_route_run:
  assumes "asks_for r s v" and "map_of (all_routes h) s = Some (xMatrixMiddleware h f)"
    and "RegisterRoutes h r w = (Ret p, w')" and "rp_Status p = 200"
  obtains q w1 w2 where "silent_rel w w1" and "f (r\<lparr>hr_PathValues := v\<rparr>) w1 = (Ret q, w2)" and "rp_Body q = rp_Body p"
    and "rp_Status q = rp_Status p" and "tables w' = tables w2"
proof -
  have "hr_Method r \<noteq> ''OPTIONS''" using assms(1) by (simp add: asks_for_def)
  then obtain q u where q: "xMatrixMiddleware h f (r\<lparr>hr_PathValues := v\<rparr>) (tick w) = (Ret q, u)"
    "p = q\<lparr>rp_Header := corsHeaders @ rp_Header q\<rparr>" "w' = tick u"
    using assms(3) unfolding RegisterRoutes_at [OF assms(1,2)]
    by (auto simp: logMiddleware_def corsMiddleware_def ret_bind ret_return nowM_tick)
  then have "rp_Status q = 200" using assms(4) by simp
  then obtain w1 where "silent_rel (tick w) w1" "f (r\<lparr>hr_PathValues := v\<rparr>) w1 = (Ret q, u)" using xMatrix_Ret [OF q(1)] by blast
  then show thesis using that [of w1 q u] q by (simp add: silent_rel_def tables_def)
qed

text \<open>What the handler answers with, and to whom it listens.\<close>

lemma postGetMissingEvents_Ret:
  assumes "postGetMissingEvents h r w = (Ret p, w')" and "rp_Status p = 200"
    and "ParseBody r decodeGetMissing = Inr (earliest, latest, 10, depth)"
  shows "rp_Body p = MissingEvents (take 10 (sel_missing (PathValue r ''roomId'') earliest latest 10 depth (w_db w)))"
proof -
  obtain es where "HandleGetMissingEvents (PathValue r ''roomId'') earliest latest 10 depth w = (Ret es, w')"
    and "rp_Body p = MissingEvents es"
    using assms
    by (auto simp: postGetMissingEvents_def Let_def WriteMatrixError_def WriteJSON_def ret_bind ret_return ret_catch ret_case_sum split: if_splits)
  moreover from this(1) have "es = take (nat 10) (sel_missing (PathValue r ''roomId'') earliest latest 10 depth (w_db w))"
    unfolding HandleGetMissingEvents_def ret_wrap by (blast dest: GetMissingEvents_Ret)
  ultimately show ?thesis by simp
qed

text \<open>What the asking server does.\<close>

lemma fed_send_answer:
  assumes "fed_send sv m host d uri body signed w = (Ret rs, w')"
  shows "w_http w (length (w_sent w)) (last (w_sent w')) = Inr rs"
proof -
  obtain rq where "http_do rq w = (Ret rs, w')" using assms by (auto simp: fed_send_def ret_bind ret_wrap ret_liftE)
  from http_do_Ret [OF this] show ?thesis by simp
qed

lemma extremities_run:
  "GetForwardExtremities Ctx roomID w = (o', w') \<Longrightarrow> w_http w' = w_http w \<and>
     (case o' of Ret xs \<Rightarrow> xs = sel_Extremidades roomID (w_db w) | _ \<Rightarrow> True)"
  by (auto simp: GetForwardExtremities_def db_query_def wrapM_def abort_def getTxOrPool_def view_def store_def ticked_def
      split: option.splits sum.splits prod.splits outcome.splits)

lemma fetchMissingEvents_Ret:
  assumes "fetchMissingEvents sv origin roomID missing w = (Ret evs, w')"
  obtains host earliest w1 rs where "fed_send sv ''POST'' host origin (''/_matrix/federation/v1/get_missing_events/'' @ roomID)
      (Some (missing_request earliest missing)) (Some (missing_request earliest missing)) w1 = (Ret rs, w')"
    and "w_http w1 = w_http w" and "rs_status rs = 200" and "decodeMissing (rs_body rs) = Inr evs"
    and "earliest = [] \<or> earliest = sel_Extremidades roomID (w_db w)"
proof -
  obtain host w0 r w1 rs w2 where n: "ResolveServerName origin w = (Ret host, w0)"
    and e: "catchM (GetForwardExtremities Ctx roomID) w0 = (Ret r, w1)"
    and f: "fed_send sv ''POST'' host origin (''/_matrix/federation/v1/get_missing_events/'' @ roomID)
      (Some (missing_request (case r of Inl _ \<Rightarrow> [] | Inr xs \<Rightarrow> xs) missing))
      (Some (missing_request (case r of Inl _ \<Rightarrow> [] | Inr xs \<Rightarrow> xs) missing)) w1 = (Ret rs, w2)"
    and d: "(if rs_status rs \<noteq> 200 then failM (Errorf ''servidor remoto rejeitou get_missing_events'')
      else wrapM ''falha ao decodificar a resposta de missing events'' (liftE (decodeMissing (rs_body rs)))) w2 = (Ret evs, w')"
    using assms by (auto simp: fetchMissingEvents_def missing_request_def ret_bind Let_def)
  have "w_http w0 = w_http w" using keepsD [OF net_ResolveServerName n] by (simp add: net_rel_def)
  moreover have "w_db w0 = w_db w" using keepsD [OF silent_ResolveServerName n] by (simp add: silent_rel_def tables_def)
  moreover have "w_http w1 = w_http w0 \<and> (r = Inr xs \<longrightarrow> xs = sel_Extremidades roomID (w_db w0))" for xs
    using e extremities_run [of roomID w0] by (cases r) (auto simp: ret_catch)
  moreover have "rs_status rs = 200" "decodeMissing (rs_body rs) = Inr evs" "w2 = w'"
    using d by (auto simp: ret_fail ret_wrap ret_liftE split: if_splits)
  ultimately show thesis using that [OF f [unfolded \<open>w2 = w'\<close>]] by (cases r) auto
qed

end
