(* ===== verification/Wire_Props.thy ===== *)
theory Wire_Props
  imports Payload_Json Http_Props
begin

declare fold_name.simps [simp del]

text \<open>
  The properties of two servers that talk to each other: a request that is signed is one that verifies, an event that
  is sent is the event that is stored, and an answer is read as it was meant.
\<close>

text \<open>C10. A request whose body is the content it signs (every request but the one of \<open>SendJoinCall\<close>, which signs the event
  and sends more), built by \<open>fed_send\<close> and received as it was sent by the server it is addressed to, passes all checks of the
  \<open>X-Matrix\<close> middleware, the one of the signature included, under the public key of the sender; with that key in the cache
  the middleware hands it over as it is. The body is a value canonical JSON can hold, and the signature package verifies
  what it signed.\<close>

theorem signed_requests_verify:
  assumes "canonical_package (sv_crypto sv)" and "sv_crypto (h_sv h) = sv_crypto sv" and "key_pair h (sv_privateKey sv) pub"
    and "header_name (sv_serverName sv)" and "header_name (sv_keyID sv)" and "case body of None \<Rightarrow> True | Some b \<Rightarrow> safe_json b"
    and "fed_send sv mthd host (sv_serverName (h_sv h)) uri body body w = (Ret rs, w')" and "w_sent w' = w_sent w @ [rq]"
    and "carries rq host r"
  shows "signature_checks h (sv_serverName sv) (sv_keyID sv) pub r \<and>
    (map_of (w_keyCache u) (sv_serverName sv @ CHR ''/'' # sv_keyID sv) = Some pub \<longrightarrow> xMatrixMiddleware h nxt r u = nxt r u)"
proof -
  have "signature_checks h (sv_serverName sv) (sv_keyID sv) pub r"
    using assms(6) by (intro signed_request_checks [OF assms(1,4,5) _ assms(7-9,2,3)]) simp
  then show ?thesis
    using signature_checks_pass assms(3-5) unfolding key_pair_def header_name_def by blast
qed

text \<open>C9. An event that one server sends in a transaction to another, which already has all its predecessors, arrives: when the
  receiver answers without an error for the event, the event it stored is the one that was sent, with its raw values in
  canonical form. It has the same id, which is its hash on both sides, its predecessors are no longer extremities, and it is
  the state and the membership it says. The event is one that canonical JSON can hold.\<close>

theorem event_crosses_servers:
  assumes "canonical_package (sv_crypto sv)" and "sv_crypto (h_sv h) = sv_crypto sv" and "wire_ok ev"
    and "sendTransaction sv host dest ev w = (Ret (), w')" and "w_sent w' = w_sent w @ [rq]" and "carries rq host r"
    and "requested h r = Some ''PUT /_matrix/federation/v1/send/{txnId}''"
    and "RegisterRoutes h r v = (Ret p, v')" and "rp_Status p = 200"
    and "rp_Body p = Json (JObj [(''pdus'', JObj [(ev_ID ev, JObj [])])])"
    and "\<forall>i\<in>set (ev_PrevEventos ev). i \<in> evento_ids (w_db v)"
  shows "HashMatrixEvent (sv_crypto sv) ev = Inr (ev_ID ev) \<and>
    view_of (w_db v') = (record_state (received ev) \<circ> record_event (received ev)) (view_of (w_db v)) \<and> w_tx v' = NoTx"
proof -
  obtain n rs w1 where s: "fed_send sv ''PUT'' host dest (''/_matrix/federation/v1/send/'' @ string_of_int n)
      (Some (transaction sv ev)) (Some (transaction sv ev)) w1 = (Ret rs, w')" "w_sent w1 = w_sent w"
    using sendTransaction_request [OF assms(4)] .
  obtain x where x: "CanonicalJSON (sv_crypto sv) (transaction sv ev) = Inr x" "rq_body rq = Some x"
    using fed_send_Ret [OF s(1)] s(2) assms(5) by auto
  have "x = marshal_any (transaction sv ev)" by (rule canonical_text [OF assms(1) transaction_safe [OF assms(3)] x(1)])
  then have b: "ParseBody (r\<lparr>hr_PathValues := vs\<rparr>) decodeTransaction =
      Inr \<lparr>tq_Edus = [], tq_Origin = sv_serverName sv, tq_PDUs = [received ev]\<rparr>" for vs
    using assms(6) x(2) decode_transaction [OF assms(3)] by (auto simp: carries_def ParseBody_def split: option.splits)
  obtain vs q v1 v2 where q: "silent_rel v v1" "putSendTxn h (r\<lparr>hr_PathValues := vs\<rparr>) v1 = (Ret q, v2)" "rp_Body q = rp_Body p"
    "tables v' = tables v2" "w_tx v' = w_tx v2"
    using txn_request_run [OF assms(7-9)] .
  have id: "ev_ID (received ev) = ev_ID ev" "ev_PrevEventos (received ev) = ev_PrevEventos ev" by (simp_all add: received_def)
  have "ProcessInboundPDU (h_ro h) CheckAuth (h_sv h) (sv_serverName sv) (received ev) v1 = (Ret (), v2)"
    using q(3) assms(10) by (intro putSendTxn_one [OF q(2) b]) (simp add: id)
  moreover have db: "w_db v1 = w_db v" "w_db v' = w_db v2" using q(1,4) by (simp_all add: silent_rel_def tables_def)
  ultimately show ?thesis
    using ProcessInboundPDU_Ret [of "h_ro h" CheckAuth "h_sv h" "sv_serverName sv" "received ev" v1 v2] assms(2,11) q(5)
      hash_received [OF assms(1)] by (simp add: id)
qed

subsection \<open>Two servers\<close>

text \<open>Server \<open>b\<close> sends an event of the room to server \<open>a\<close>, which knows the key of \<open>b\<close>.\<close>

definition wire_crypto :: crypto where
  "wire_crypto = plain_crypto\<lparr>cr_canon_Marshal := (\<lambda>v. Inr (marshal_any v))\<rparr>"

lemma wire_package: "canonical_package wire_crypto"
  by (simp add: canonical_package_def wire_crypto_def)

definition wire_b :: server where
  "wire_b = \<lparr>sv_crypto = wire_crypto, sv_serverName = ''b'', sv_keyID = ''ed25519:k'', sv_privateKey = ''key''\<rparr>"

definition wire_a :: handler where
  "wire_a = demo\<lparr>h_sv := plain_server\<lparr>sv_crypto := wire_crypto\<rparr>, h_verify := (\<lambda>_ _ sig. sig = ''key'')\<rparr>"

definition wire_pub :: string where
  "wire_pub = replicate 32 CHR ''p''"

definition wire_world :: world where
  "wire_world = room_world\<lparr>w_keyCache := [(''b/ed25519:k'', wire_pub)]\<rparr>"

definition topic_of_b :: evento where
  "topic_of_b = zeroEvento\<lparr>ev_Tipo := ''m.room.topic'', ev_CanalID := ''!r:a'', ev_Sender := ''@u:a'', ev_StateKey := Some '''',
     ev_Content := Some (JObj []), ev_PrevEventos := [''$j''], ev_AuthEventos := [''$c'', ''$m''], ev_Depth := 3, ev_OrigemServidorTS := 7\<rparr>"

definition wire_event :: evento where
  "wire_event = topic_of_b\<lparr>ev_ID := (case HashMatrixEvent wire_crypto topic_of_b of Inr i \<Rightarrow> i | Inl _ \<Rightarrow> '''')\<rparr>"

lemma wire_event_ok: "wire_ok wire_event"
  by code_simp

definition wire_sent :: "unit outcome \<times> world" where
  "wire_sent = sendTransaction wire_b ''a'' ''a'' wire_event online_world"

definition wire_request :: http_request where
  "wire_request = last (w_sent (snd wire_sent))"

lemma wire_sent_facts:
  "fst wire_sent = Ret ()" "w_sent (snd wire_sent) = [wire_request]" "rq_method wire_request = ''PUT''"
  "rq_url wire_request = ''http://a/_matrix/federation/v1/send/100''" "rq_body wire_request \<noteq> None"
  by code_simp+

definition wire_arrived :: request where
  "wire_arrived = request_of ''PUT'' ''/_matrix/federation/v1/send/100'' (rq_auth wire_request) (the (rq_body wire_request))"

lemma wire_carried: "carries wire_request ''a'' (wire_arrived\<lparr>hr_PathValues := vs\<rparr>)"
  using wire_sent_facts(3-5)
  by (auto simp: carries_def wire_arrived_def request_of_def HeaderGet_def assoc_string_def buildFederationURL_def)

lemma wire_names: "header_name ''b'' \<and> header_name ''ed25519:k'' \<and> key_pair wire_a ''key'' wire_pub"
  by (simp add: header_name_def key_pair_def wire_pub_def wire_a_def wire_crypto_def plain_crypto_def canon_crypto_def)

lemma wire_arrived_carried: "carries wire_request ''a'' wire_arrived"
  using wire_carried [of "[]"] by (simp add: wire_arrived_def request_of_def)

lemma wire_sent_run: "sendTransaction wire_b ''a'' ''a'' wire_event online_world = (Ret (), snd wire_sent)"
  using run_Ret [OF wire_sent_facts(1)] by (simp add: wire_sent_def)

lemma wire_online: "w_sent online_world = []"
  by (simp add: online_world_def room_world_def start_world_def)

text \<open>Any request that carries what \<open>b\<close> sent passes the checks of \<open>a\<close>.\<close>

lemma wire_signed:
  obtains uri rs u where "fed_send wire_b ''PUT'' ''a'' ''a'' uri (Some (transaction wire_b wire_event))
      (Some (transaction wire_b wire_event)) u = (Ret rs, snd wire_sent)"
    and "w_sent (snd wire_sent) = w_sent u @ [wire_request]"
proof -
  obtain n rs u where "fed_send wire_b ''PUT'' ''a'' ''a'' (''/_matrix/federation/v1/send/'' @ string_of_int n)
      (Some (transaction wire_b wire_event)) (Some (transaction wire_b wire_event)) u = (Ret rs, snd wire_sent)"
    and "w_sent u = w_sent online_world"
    using sendTransaction_request [OF wire_sent_run] .
  then show thesis using that wire_sent_facts(2) wire_online by simp
qed

lemma wire_checks: "signature_checks wire_a ''b'' ''ed25519:k'' wire_pub (wire_arrived\<lparr>hr_PathValues := vs\<rparr>)"
proof -
  have e: "sv_serverName wire_b = ''b''" "sv_keyID wire_b = ''ed25519:k''" "sv_privateKey wire_b = ''key''"
    "sv_crypto wire_b = wire_crypto" "sv_serverName (h_sv wire_a) = ''a''" "sv_crypto (h_sv wire_a) = wire_crypto"
    by (simp_all add: wire_b_def wire_a_def plain_server_def)
  obtain uri rs u where "fed_send wire_b ''PUT'' ''a'' ''a'' uri (Some (transaction wire_b wire_event))
      (Some (transaction wire_b wire_event)) u = (Ret rs, snd wire_sent)" "w_sent (snd wire_sent) = w_sent u @ [wire_request]"
    using wire_signed .
  then show ?thesis
    using signed_request_checks [of wire_b "Some (transaction wire_b wire_event)" "''PUT''" "''a''" wire_a uri u rs "snd wire_sent"
        wire_request "wire_arrived\<lparr>hr_PathValues := vs\<rparr>" wire_pub]
      wire_package wire_names transaction_safe [OF wire_event_ok] wire_carried unfolding e by blast
qed

lemma signed_requests_verify_witness:
  "signature_checks wire_a ''b'' ''ed25519:k'' wire_pub wire_arrived \<and> w_sent (snd wire_sent) = [wire_request]"
proof -
  have e: "sv_serverName wire_b = ''b''" "sv_keyID wire_b = ''ed25519:k''" "sv_privateKey wire_b = ''key''"
    "sv_crypto wire_b = wire_crypto" "sv_serverName (h_sv wire_a) = ''a''" "sv_crypto (h_sv wire_a) = wire_crypto"
    by (simp_all add: wire_b_def wire_a_def plain_server_def)
  obtain uri rs u where "fed_send wire_b ''PUT'' ''a'' ''a'' uri (Some (transaction wire_b wire_event))
      (Some (transaction wire_b wire_event)) u = (Ret rs, snd wire_sent)" "w_sent (snd wire_sent) = w_sent u @ [wire_request]"
    using wire_signed .
  then have "signature_checks wire_a ''b'' ''ed25519:k'' wire_pub wire_arrived"
    using signed_requests_verify [of wire_b wire_a wire_pub "Some (transaction wire_b wire_event)" "''PUT''" "''a''" uri u rs "snd wire_sent"
        wire_request wire_arrived undefined undefined]
      wire_package wire_names transaction_safe [OF wire_event_ok] wire_arrived_carried unfolding e by simp
  then show ?thesis using wire_sent_facts(2) by blast
qed

lemma wire_asks: "asks_for wire_arrived txn_pattern [(''txnId'', ''100'')]"
proof -
  have "asks_for (request_of ''PUT'' ''/_matrix/federation/v1/send/100'' '''' JNull) txn_pattern [(''txnId'', ''100'')]" by code_simp
  then show ?thesis by (simp add: asks_for_def wire_arrived_def request_of_def)
qed

lemma wire_processed:
  "fst (ProcessInboundPDU plain_orders CheckAuth (h_sv wire_a) ''b'' (received wire_event) (tick wire_world)) = Ret ()"
  by code_simp

lemma wire_stored:
  "\<exists>p v. RegisterRoutes wire_a wire_arrived wire_world = (Ret p, v) \<and> rp_Status p = 200 \<and>
     rp_Body p = Json (JObj [(''pdus'', JObj [(ev_ID wire_event, JObj [])])])"
proof -
  let ?r = "wire_arrived\<lparr>hr_PathValues := [(''txnId'', ''100'')]\<rparr>"
  have n: "sv_serverName wire_b = ''b''" "h_ro wire_a = plain_orders" by (simp_all add: wire_b_def wire_a_def demo_def)
  have k: "map_of (w_keyCache (tick wire_world)) (''b'' @ CHR ''/'' # ''ed25519:k'') = Some wire_pub"
    by (simp add: wire_world_def tick_def)
  have "the (rq_body wire_request) = marshal_any (transaction wire_b wire_event)"
  proof -
    obtain uri rs u where "fed_send wire_b ''PUT'' ''a'' ''a'' uri (Some (transaction wire_b wire_event))
        (Some (transaction wire_b wire_event)) u = (Ret rs, snd wire_sent)" "w_sent (snd wire_sent) = w_sent u @ [wire_request]"
      using wire_signed .
    from fed_send_Ret [OF this(1)] this(2) show ?thesis
      by (auto simp: wire_b_def wire_crypto_def CanonicalJSON_def)
  qed
  then have b: "ParseBody ?r decodeTransaction = Inr \<lparr>tq_Edus = [], tq_Origin = ''b'', tq_PDUs = [received wire_event]\<rparr>"
    using decode_transaction [OF wire_event_ok, of wire_b] by (simp add: ParseBody_def wire_arrived_def request_of_def n)
  obtain u where u: "ProcessInboundPDU plain_orders CheckAuth (h_sv wire_a) ''b'' (received wire_event) (tick wire_world) = (Ret (), u)"
    using run_Ret [OF wire_processed] by blast
  have i: "ev_ID (received wire_event) = ev_ID wire_event" by (simp add: received_def)
  have "putSendTxn wire_a ?r (tick wire_world) = (Ret \<lparr>rp_Status = 200, rp_Header = [(''Content-Type'', ''application/json'')],
      rp_Body = Json (JObj [(''pdus'', JObj [(ev_ID wire_event, JObj [])])])\<rparr>, u)"
    by (simp add: putSendTxn_def PathValue_def assoc_string_def b receivePDU_def run_simps n u WriteJSON_def i)
  then have "xMatrixMiddleware wire_a (putSendTxn wire_a) ?r (tick wire_world) = (Ret \<lparr>rp_Status = 200,
      rp_Header = [(''Content-Type'', ''application/json'')],
      rp_Body = Json (JObj [(''pdus'', JObj [(ev_ID wire_event, JObj [])])])\<rparr>, u)"
    using signature_checks_pass [OF wire_checks _ _ _ k] by (simp add: wire_pub_def)
  from RegisterRoutes_served [OF wire_asks txn_route this] show ?thesis by auto
qed

lemma event_crosses_servers_witness:
  "view_of (w_db (snd (RegisterRoutes wire_a wire_arrived wire_world))) =
     (record_state (received wire_event) \<circ> record_event (received wire_event)) (view_of room_db) \<and>
     HashMatrixEvent wire_crypto wire_event = Inr (ev_ID wire_event)"
proof -
  have e: "sv_crypto wire_b = wire_crypto" "sv_crypto (h_sv wire_a) = wire_crypto" by (simp_all add: wire_b_def wire_a_def)
  obtain p v where p: "RegisterRoutes wire_a wire_arrived wire_world = (Ret p, v)" "rp_Status p = 200"
    "rp_Body p = Json (JObj [(''pdus'', JObj [(ev_ID wire_event, JObj [])])])"
    using wire_stored by blast
  have d: "w_db wire_world = room_db" by (simp add: wire_world_def room_world_def)
  have "\<forall>i\<in>set (ev_PrevEventos wire_event). i \<in> evento_ids (w_db wire_world)"
    by (simp add: d wire_event_def topic_of_b_def evento_ids_def room_db_def empty_db_def)
  from event_crosses_servers [of wire_b wire_a, unfolded e, OF wire_package refl wire_event_ok wire_sent_run _ wire_arrived_carried
      asks_for_requested [OF wire_asks] p this] wire_sent_facts(2) wire_online
  show ?thesis by (simp add: d p(1))
qed

subsection \<open>Answers\<close>

text \<open>C12. What a server answers is what the asker reads: of every answer another server decodes -- an alias, a profile, a page of
  public rooms, the keys of users, the template of a join or a leave, missing events, the state after a join -- the
  decoder gives back the values it was made of, raw values in canonical form.\<close>

theorem answers_cross_servers:
  assumes "canonical_writes cr" and "payload_json p = Some v" and "safe_json v"
  shows "let body = response_body cr p; written = (\<lambda>es. \<forall>e\<in>set es. ev_Content e \<noteq> None) in
    (case p of
       AliasOf roomID servers \<Rightarrow> decodeQueryDirectory body = Inr (roomID, servers)
     | UserProfile pf \<Rightarrow> decodeProfile body = Inr (pf\<lparr>p_IDUsuario := ''''\<rparr>)
     | Rooms c \<Rightarrow> decodePublicRooms body = Inr c
     | RemoteKeys ds ms ss \<Rightarrow> \<exists>q. decodeKeysQuery body = Inr q \<and>
         (\<forall>u d. map_of (map_at u (kq_DeviceKeys q)) d =
            Option.bind (entry u ds) (\<lambda>m. map_option (marshal_any \<circ> remote_device_json) (entry d m))) \<and>
         map_of (kq_MasterKeys q) = (\<lambda>u. map_option (marshal_any \<circ> cross_key_json) (entry u ms)) \<and>
         map_of (kq_SelfSigningKeys q) = (\<lambda>u. map_option (marshal_any \<circ> cross_key_json) (entry u ss))
     | Json t \<Rightarrow> \<forall>m res. p = eventTemplate m res \<longrightarrow> decodeMakeJoin body = Inr (template_event m res, mk_RoomVersion res)
     | MissingEvents es \<Rightarrow> written es \<longrightarrow> decodeMissing body = Inr (map received es)
     | JoinState st chain servers \<Rightarrow> written st \<and> written chain \<longrightarrow>
         decodeSendJoin body = Inr \<lparr>sj_StateEvents = map received st, sj_AuthChain = map received chain\<rparr>
     | _ \<Rightarrow> True)"
proof -
  have b: "response_body cr p = Some (marshal_any v)" by (rule response_body_safe [OF assms])
  show ?thesis
  proof (cases p)
    case (AliasOf roomID servers)
    then show ?thesis unfolding b Let_def using assms(2) by (auto simp: payload_json_def decode_alias)
  next
    case (UserProfile pf)
    then show ?thesis unfolding b Let_def using assms(2) by (auto simp: payload_json_def decode_profile)
  next
    case (Rooms c)
    then show ?thesis unfolding b Let_def using assms(2,3) by (auto simp: payload_json_def decode_rooms)
  next
    case (RemoteKeys ds ms ss)
    then show ?thesis unfolding b Let_def using assms(2) decode_keys [of ds ms ss] by (auto simp: payload_json_def)
  next
    case (Json t)
    then show ?thesis unfolding b Let_def using assms(2,3) decode_template [of _ _ t] by (auto simp: payload_json_def)
  next
    case (MissingEvents es)
    then have "safe_json (missing_events_json es)" using assms(2,3) by (simp add: payload_json_def)
    then have "all_wire_ok es" if "\<forall>e\<in>set es. ev_Content e \<noteq> None"
      using that by (auto simp: missing_events_json_def all_wire_ok_def wire_ok_def list_all_iff)
    then show ?thesis unfolding b Let_def using MissingEvents assms(2) by (auto simp: payload_json_def decode_missing)
  next
    case (JoinState st chain servers)
    then have "safe_json (send_join_json st chain servers)" using assms(2,3) by (simp add: payload_json_def)
    then have "all_wire_ok st \<and> all_wire_ok chain" if "\<forall>e\<in>set st. ev_Content e \<noteq> None" "\<forall>e\<in>set chain. ev_Content e \<noteq> None"
      using that by (auto simp: send_join_json_def all_wire_ok_def wire_ok_def list_all_iff)
    then show ?thesis unfolding b Let_def using JoinState assms(2) by (auto simp: payload_json_def decode_join_state)
  qed simp_all
qed

lemma wire_writes: "canonical_writes wire_crypto"
  using wire_package by (simp add: canonical_writes_def wire_crypto_def)

lemma room_events_ok: "\<forall>e\<in>set (t_Evento room_db). wire_ok e"
proof -
  have "list_all wire_ok (t_Evento room_db)" by code_simp
  then show ?thesis by (simp add: list_all_iff)
qed

lemma answers_cross_servers_witness:
  "decodeMissing (response_body wire_crypto (MissingEvents (t_Evento room_db))) = Inr (map received (t_Evento room_db)) \<and>
     t_Evento room_db \<noteq> []"
proof -
  have "safe_json (missing_events_json (t_Evento room_db))"
    using room_events_ok by (auto simp: missing_events_json_def wire_ok_def list_all_iff)
  from answers_cross_servers [OF wire_writes _ this, of "MissingEvents (t_Evento room_db)"] show ?thesis
    using room_events_ok by (simp add: payload_json_def wire_ok_def room_db_def empty_db_def)
qed

text \<open>The events that lead back from \<open>latest\<close>, without those the asker has.\<close>

definition missing_between :: "string \<Rightarrow> string list \<Rightarrow> string list \<Rightarrow> db \<Rightarrow> evento \<Rightarrow> bool" where
  "missing_between c earliest latest d e \<longleftrightarrow> ev_ID e \<notin> set earliest \<and>
     within (\<lambda>e. ev_ID e \<notin> set earliest \<and> ev_Depth e \<ge> 0) 10 c latest d e"

text \<open>C11. A server that misses events gets what leads up to them from another one, whose stored events are ones that canonical
  JSON can hold: what \<open>fetchMissingEvents\<close> returns, when the other server answered its request, are events the other server
  has stored in the room, at most ten, in order of depth, none of them among the extremities the asker named, each
  reached from the events it named as missing; when there are fewer than ten, no event so reached is left out other than
  the named ones, of which the property says nothing. The other server changes nothing.\<close>

theorem history_crosses_servers:
  assumes "canonical_writes (sv_crypto sv)" and "sv_crypto (h_sv h) = sv_crypto sv"
    and "fetchMissingEvents sv origin roomID missing w = (Ret evs, w')" and "w_sent w' = sent @ [rq]"
    and "carries rq host r" and "asks_for r missing_pattern [(''roomId'', roomID)]"
    and "RegisterRoutes h r v = (Ret p, v')" and "rp_Status p = 200"
    and "w_http w (length sent) rq = Inr rs" and "rs_body rs = response_body (sv_crypto sv) (rp_Body p)"
    and "\<forall>e\<in>set (t_Evento (w_db v)). wire_ok e"
  shows "\<exists>earliest es. earliest \<in> {[], sel_Extremidades roomID (w_db w)} \<and> evs = map received es \<and> length es \<le> 10 \<and>
    sorted (map ev_Depth es) \<and> (\<forall>e\<in>set es. missing_between roomID earliest missing (w_db v) e) \<and>
    (length es < 10 \<longrightarrow> (\<forall>e. missing_between roomID earliest missing (w_db v) e \<longrightarrow> ev_ID e \<notin> set missing \<longrightarrow> e \<in> set es)) \<and>
    tables v' = tables v"
proof -
  let ?cr = "sv_crypto sv"
  have pkg: "canonical_package ?cr" using assms(1) by (simp add: canonical_writes_def)
  obtain host' earliest w1 rs' where s: "fed_send sv ''POST'' host' origin (''/_matrix/federation/v1/get_missing_events/'' @ roomID)
      (Some (missing_request earliest missing)) (Some (missing_request earliest missing)) w1 = (Ret rs', w')"
    "w_http w1 = w_http w" "rs_status rs' = 200" "decodeMissing (rs_body rs') = Inr evs"
    "earliest = [] \<or> earliest = sel_Extremidades roomID (w_db w)"
    using fetchMissingEvents_Ret [OF assms(3)] .
  obtain x where x: "w_sent w1 = sent" "CanonicalJSON ?cr (missing_request earliest missing) = Inr x" "rq_body rq = Some x"
    using fed_send_Ret [OF s(1)] assms(4) by auto
  have "rs' = rs" using fed_send_answer [OF s(1)] assms(4,9) x(1) s(2) by auto
  have "x = marshal_any (missing_request earliest missing)" by (rule canonical_text [OF pkg missing_request_safe x(2)])
  then have b: "ParseBody (r\<lparr>hr_PathValues := vs\<rparr>) decodeGetMissing = Inr (earliest, missing, 10, 0)" for vs
    using assms(5) x(3) decode_missing_request by (auto simp: carries_def ParseBody_def split: option.splits)
  obtain q v1 v2 where q: "silent_rel v v1" "postGetMissingEvents h (r\<lparr>hr_PathValues := [(''roomId'', roomID)]\<rparr>) v1 = (Ret q, v2)"
    "rp_Body q = rp_Body p" "rp_Status q = rp_Status p" "tables v' = tables v2"
    using fed_route_run [OF assms(6) missing_route assms(7,8)] .
  have t: "tables v2 = tables v1" "tables v1 = tables v" "w_db v1 = w_db v"
    using keepsD [OF silent_postGetMissingEvents q(2)] q(1) by (simp_all add: silent_rel_def tables_def)
  define es where "es = take 10 (sel_missing roomID earliest missing 10 0 (w_db v))"
  have "rp_Body p = MissingEvents es"
    using postGetMissingEvents_Ret [OF q(2) _ b] assms(8) q(3,4) by (simp add: es_def t PathValue_def assoc_string_def)
  have all: "set (sel_missing roomID earliest missing 10 0 (w_db v)) = {e. missing_between roomID earliest missing (w_db v) e}"
    by (simp add: set_sel_missing missing_between_def)
  then have es: "\<forall>e\<in>set es. missing_between roomID earliest missing (w_db v) e" by (auto simp: es_def dest: in_set_takeD)
  then have "all_wire_ok es"
    using assms(11) hops_log by (fastforce simp: all_wire_ok_def missing_between_def within_def)
  then have "safe_json (missing_events_json es)" by (auto simp: missing_events_json_def all_wire_ok_def wire_ok_def list_all_iff)
  then have "rs_body rs = Some (marshal_any (missing_events_json es))"
    using response_body_safe [OF assms(1), of "MissingEvents es"] assms(10) by (simp add: \<open>rp_Body p = MissingEvents es\<close> payload_json_def)
  then have "evs = map received es" using s(4) decode_missing [OF \<open>all_wire_ok es\<close>] by (simp add: \<open>rs' = rs\<close>)
  moreover have "sorted (map ev_Depth es)"
    unfolding es_def take_map [symmetric] by (rule sorted_wrt_take) (rule sorted_sel_missing)
  moreover have "e \<in> set es" if "length es < 10" "missing_between roomID earliest missing (w_db v) e" for e
  proof -
    have "es = sel_missing roomID earliest missing 10 0 (w_db v)" using that(1) by (simp add: es_def)
    then show ?thesis using all that(2) by simp
  qed
  ultimately show ?thesis
    using es s(5) t q(5) by (intro exI [of _ earliest] exI [of _ es]) (auto simp: es_def)
qed

text \<open>Server \<open>b\<close> misses the join of the room, and asks \<open>a\<close> for it and for what came before.\<close>

definition gap_events :: "evento list" where
  "gap_events = take 10 (sel_missing ''!r:a'' [] [''$j''] 10 0 room_db)"

definition gap_answer :: http_response where
  "gap_answer = \<lparr>rs_status = 200, rs_ctype = ''application/json'', rs_bytes = '''',
     rs_body = response_body wire_crypto (MissingEvents gap_events)\<rparr>"

definition gap_world :: world where
  "gap_world = start_world\<lparr>w_http := (\<lambda>n _. if n = 0 then Inl (ExtError ''connection refused'') else Inr gap_answer)\<rparr>"

definition gap_asked :: world where
  "gap_asked = snd (GetForwardExtremities Ctx ''!r:a'' (snd (ResolveServerName ''a'' gap_world)))"

lemma gap_steps:
  "fst (ResolveServerName ''a'' gap_world) = Ret ''a:8448''"
  "fst (GetForwardExtremities Ctx ''!r:a'' (snd (ResolveServerName ''a'' gap_world))) = Ret []"
  "length (w_sent gap_asked) = 1"
  by code_simp+

lemma gap_http: "w_http gap_asked = w_http gap_world"
proof -
  have "w_http (snd (ResolveServerName ''a'' gap_world)) = w_http gap_world"
    using keepsD [OF net_ResolveServerName run_Ret [OF gap_steps(1)]] by (simp add: net_rel_def)
  then show ?thesis using extremities_run [OF run_Ret [OF gap_steps(2)]] by (simp add: gap_asked_def)
qed

lemma gap_events_ok: "all_wire_ok gap_events" "length gap_events = 3"
proof -
  show "length gap_events = 3" by code_simp
  show "all_wire_ok gap_events"
    using room_events_ok hops_log
    by (fastforce simp: all_wire_ok_def gap_events_def set_sel_missing within_def dest: in_set_takeD)
qed

lemma gap_body: "response_body wire_crypto (MissingEvents gap_events) = Some (marshal_any (missing_events_json gap_events))"
proof -
  have "safe_json (missing_events_json gap_events)"
    using gap_events_ok(1) by (auto simp: missing_events_json_def all_wire_ok_def wire_ok_def list_all_iff)
  then show ?thesis by (rule response_body_safe [OF wire_writes, rotated]) (simp add: payload_json_def)
qed

lemma wire_fed_send:
  assumes "\<And>rq. w_http w (length (w_sent w)) rq = Inr rs"
  shows "\<exists>rq. fed_send wire_b m host d uri (Some b) (Some b) w = (Ret rs, w\<lparr>w_sent := w_sent w @ [rq]\<rparr>)"
  using assms
  by (auto simp: fed_send_def run_simps wire_b_def wire_crypto_def CanonicalJSON_def GenerateS2SAuthHeader_def Let_def http_do_def)

lemma gap_fetched:
  obtains rq where "fetchMissingEvents wire_b ''a'' ''!r:a'' [''$j''] gap_world =
      (Ret (map received gap_events), gap_asked\<lparr>w_sent := w_sent gap_asked @ [rq]\<rparr>)"
    and "fed_send wire_b ''POST'' ''a:8448'' ''a'' ''/_matrix/federation/v1/get_missing_events/!r:a''
      (Some (missing_request [] [''$j''])) (Some (missing_request [] [''$j''])) gap_asked =
      (Ret gap_answer, gap_asked\<lparr>w_sent := w_sent gap_asked @ [rq]\<rparr>)"
proof -
  have "w_http gap_asked (length (w_sent gap_asked)) rq = Inr gap_answer" for rq
    by (simp add: gap_http gap_steps(3) gap_world_def)
  from wire_fed_send [OF this] obtain rq where
    rq: "fed_send wire_b ''POST'' ''a:8448'' ''a'' ''/_matrix/federation/v1/get_missing_events/!r:a''
      (Some (missing_request [] [''$j''])) (Some (missing_request [] [''$j''])) gap_asked =
      (Ret gap_answer, gap_asked\<lparr>w_sent := w_sent gap_asked @ [rq]\<rparr>)"
    by blast
  obtain w0 where w0: "ResolveServerName ''a'' gap_world = (Ret ''a:8448'', w0)" using run_Ret [OF gap_steps(1)] by blast
  then have w1: "GetForwardExtremities Ctx ''!r:a'' w0 = (Ret [], gap_asked)"
    using run_Ret [OF gap_steps(2)] by (simp add: gap_asked_def)
  have "fetchMissingEvents wire_b ''a'' ''!r:a'' [''$j''] gap_world =
      (Ret (map received gap_events), gap_asked\<lparr>w_sent := w_sent gap_asked @ [rq]\<rparr>)"
    using rq w0 w1 decode_missing [OF gap_events_ok(1)]
    by (simp add: fetchMissingEvents_def Let_def run_simps missing_request_def gap_answer_def gap_body)
  then show thesis using that rq by blast
qed

definition gap_arrived :: "http_request \<Rightarrow> request" where
  "gap_arrived rq = request_of ''POST'' ''/_matrix/federation/v1/get_missing_events/!r:a'' (rq_auth rq) (the (rq_body rq))"

lemma gap_asks: "asks_for (gap_arrived rq) missing_pattern [(''roomId'', ''!r:a'')]"
proof -
  have "asks_for (request_of ''POST'' ''/_matrix/federation/v1/get_missing_events/!r:a'' '''' JNull) missing_pattern [(''roomId'', ''!r:a'')]"
    by code_simp
  then show ?thesis by (simp add: asks_for_def gap_arrived_def request_of_def)
qed

lemma gap_answered:
  assumes "fed_send wire_b ''POST'' ''a:8448'' ''a'' ''/_matrix/federation/v1/get_missing_events/!r:a''
      (Some (missing_request [] [''$j''])) (Some (missing_request [] [''$j''])) gap_asked =
      (Ret gap_answer, gap_asked\<lparr>w_sent := w_sent gap_asked @ [rq]\<rparr>)"
  shows "carries rq ''a:8448'' (gap_arrived rq) \<and> (\<exists>p v. RegisterRoutes wire_a (gap_arrived rq) wire_world = (Ret p, v) \<and>
    rp_Status p = 200 \<and> rp_Body p = MissingEvents gap_events)"
proof -
  let ?r = "(gap_arrived rq)\<lparr>hr_PathValues := [(''roomId'', ''!r:a'')]\<rparr>"
  have e: "sv_serverName wire_b = ''b''" "sv_keyID wire_b = ''ed25519:k''" "sv_privateKey wire_b = ''key''"
    "sv_crypto wire_b = wire_crypto" "sv_serverName (h_sv wire_a) = ''a''" "sv_crypto (h_sv wire_a) = wire_crypto"
    by (simp_all add: wire_b_def wire_a_def plain_server_def)
  obtain x where rq: "rq_method rq = ''POST''"
    "rq_url rq = buildFederationURL ''a:8448'' ''/_matrix/federation/v1/get_missing_events/!r:a''"
    "CanonicalJSON wire_crypto (missing_request [] [''$j'']) = Inr x" "rq_body rq = Some x"
    using fed_send_Ret [OF assms] by (auto simp: e)
  have c: "carries rq ''a:8448'' ((gap_arrived rq)\<lparr>hr_PathValues := vs\<rparr>)" for vs
    using rq by (simp add: carries_def gap_arrived_def request_of_def HeaderGet_def assoc_string_def)
  have s: "signature_checks wire_a ''b'' ''ed25519:k'' wire_pub ?r"
    using signed_request_checks [of wire_b "Some (missing_request [] [''$j''])" "''POST''" "''a:8448''" wire_a _ gap_asked gap_answer _ rq ?r wire_pub]
      assms wire_package wire_names missing_request_safe c unfolding e by auto
  have k: "map_of (w_keyCache (tick wire_world)) (''b'' @ CHR ''/'' # ''ed25519:k'') = Some wire_pub"
    by (simp add: wire_world_def tick_def)
  have "x = marshal_any (missing_request [] [''$j''])" by (rule canonical_text [OF wire_package missing_request_safe rq(3)])
  then have b: "ParseBody ?r decodeGetMissing = Inr ([], [''$j''], 10, 0)"
    using decode_missing_request rq(4) by (simp add: ParseBody_def gap_arrived_def request_of_def)
  have "\<exists>u. HandleGetMissingEvents ''!r:a'' [] [''$j''] 10 0 (tick wire_world) = (Ret gap_events, u)"
    by (simp add: HandleGetMissingEvents_def GetMissingEvents_def run_simps getTxOrPool_def view_def limit_offset_def tick_def wire_world_def
        room_world_def start_world_def gap_events_def)
  then obtain u where "HandleGetMissingEvents ''!r:a'' [] [''$j''] 10 0 (tick wire_world) = (Ret gap_events, u)" by blast
  then have "\<exists>u. postGetMissingEvents wire_a ?r (tick wire_world) = (Ret \<lparr>rp_Status = 200,
      rp_Header = [(''Content-Type'', ''application/json'')], rp_Body = MissingEvents gap_events\<rparr>, u)"
    by (simp add: postGetMissingEvents_def PathValue_def assoc_string_def b run_simps WriteJSON_def)
  then obtain u where "xMatrixMiddleware wire_a (postGetMissingEvents wire_a) ?r (tick wire_world) = (Ret \<lparr>rp_Status = 200,
      rp_Header = [(''Content-Type'', ''application/json'')], rp_Body = MissingEvents gap_events\<rparr>, u)"
    using signature_checks_pass [OF s _ _ _ k] by (auto simp: wire_pub_def)
  from RegisterRoutes_served [OF gap_asks missing_route this] show ?thesis using c [of "hr_PathValues (gap_arrived rq)"] by auto
qed

lemma history_crosses_servers_witness:
  "\<exists>w'. fetchMissingEvents wire_b ''a'' ''!r:a'' [''$j''] gap_world = (Ret (map received gap_events), w') \<and>
     sorted (map ev_Depth gap_events) \<and>
     (\<forall>e. missing_between ''!r:a'' [] [''$j''] room_db e \<longrightarrow> ev_ID e \<noteq> ''$j'' \<longrightarrow> received e \<in> set (map received gap_events))"
proof -
  obtain rq where f: "fetchMissingEvents wire_b ''a'' ''!r:a'' [''$j''] gap_world =
      (Ret (map received gap_events), gap_asked\<lparr>w_sent := w_sent gap_asked @ [rq]\<rparr>)"
    and s: "fed_send wire_b ''POST'' ''a:8448'' ''a'' ''/_matrix/federation/v1/get_missing_events/!r:a''
      (Some (missing_request [] [''$j''])) (Some (missing_request [] [''$j''])) gap_asked =
      (Ret gap_answer, gap_asked\<lparr>w_sent := w_sent gap_asked @ [rq]\<rparr>)"
    using gap_fetched .
  obtain p v where p: "carries rq ''a:8448'' (gap_arrived rq)" "RegisterRoutes wire_a (gap_arrived rq) wire_world = (Ret p, v)"
    "rp_Status p = 200" "rp_Body p = MissingEvents gap_events"
    using gap_answered [OF s] by blast
  have e: "sv_crypto wire_b = wire_crypto" "sv_crypto (h_sv wire_a) = wire_crypto" by (simp_all add: wire_b_def wire_a_def plain_server_def)
  have d: "w_db wire_world = room_db" by (simp add: wire_world_def room_world_def)
  have x: "sel_Extremidades ''!r:a'' (w_db gap_world) = []" by code_simp
  have h: "w_http gap_world (length (w_sent gap_asked)) rq = Inr gap_answer" by (simp add: gap_steps(3) gap_world_def)
  have b: "rs_body gap_answer = response_body wire_crypto (rp_Body p)" by (simp add: gap_answer_def p(4))
  have ok: "\<forall>e\<in>set (t_Evento (w_db wire_world)). wire_ok e" using room_events_ok by (simp add: d)
  have sent: "w_sent (gap_asked\<lparr>w_sent := w_sent gap_asked @ [rq]\<rparr>) = w_sent gap_asked @ [rq]" by simp
  obtain es where es: "map received gap_events = map received es" "sorted (map ev_Depth es)"
    "length es < 10 \<longrightarrow> (\<forall>e. missing_between ''!r:a'' [] [''$j''] room_db e \<longrightarrow> ev_ID e \<notin> set [''$j''] \<longrightarrow> e \<in> set es)"
    using history_crosses_servers [of wire_b wire_a, unfolded e, OF wire_writes refl f sent p(1) gap_asks p(2,3) h b ok]
    unfolding x d by auto
  have "map ev_Depth (map received gap_events) = map ev_Depth (map received es)" using es(1) by simp
  then have "sorted (map ev_Depth gap_events)" using es(2) by (simp add: comp_def received_def)
  moreover have "length es < 10" using arg_cong [OF es(1), of length] gap_events_ok(2) by simp
  ultimately show ?thesis using f es by auto
qed

end
