(* ===== verification/Spec2Isabelle.thy ===== *)
theory Spec2Isabelle
  imports State_Resolution_Props Data_Props Room_Props Federation_Props Clean_Failure Usuario_Storage
    Sync_Props Storage_Props Http_Props Config Notifier_Props Wire_Props
begin

text \<open>
  A verification development for Dragonite, a Matrix homeserver in Go. Sources are named relative to
  \<^verbatim>\<open>src/internal/\<close>.

  THE PROGRAM. Clients create, join and leave rooms and send events; each event is hashed, signed, linked
  to the forward extremities of its room and stored in PostgreSQL in one unit of work, then queued for the
  other servers of the room. A worker takes events from the queue and sends them with retries. Other
  servers push events, ask for joins and leaves, for history and for missing events. Conflicting room
  states are merged by state resolution, which asks the authorisation rules about each candidate.
  Around the rooms stand the accounts: users register and log in on devices with access and refresh
  tokens; devices upload encryption keys, which others query and claim, keep encrypted key backups and
  send each other messages; a client learns of all this by polling sync with a token. Room aliases, the
  public rooms, profiles, presence and media complete the service.

  THE MODEL. An operation that talks to the database, Redis, the clock or another server is a function
  \<open>world \<Rightarrow> outcome \<times> world\<close> (theory \<open>World\<close>): \<open>Ret\<close> is a return value, \<open>Fail\<close> a returned error, \<open>Panic\<close> a
  panic. The world holds the committed tables, the open transaction, the sequences, the Redis lists,
  the goroutines started, and the outside as functions: \<open>w_fault n\<close> lets the \<open>n\<close>-th database or Redis
  call fail, \<open>w_http\<close> answers requests, \<open>w_clock\<close> and \<open>w_random\<close> give time and random bytes. Nothing is assumed of
  them, so every property holds for every choice of failures and answers unless it says otherwise.
  Integers are unbounded with the range checks and the wrap-around of \<open>int64\<close> written out where the
  code decodes or adds. Loops are structural recursions; the sort and the walk through auth events
  have termination measures; the walks with a \<open>limit\<close> use it as fuel, which is enough since every
  round raises the distance by one. The five delivery attempts are fuel too: the code has five.

  THEORIES, in the order of the layers.
  \<^item> \<open>Prelude\<close>: errors, outcomes, the monad and its run rules. \<open>Go_Strings\<close>, \<open>Go_Json\<close>: what the code uses
    of \<^verbatim>\<open>strings\<close>, \<^verbatim>\<open>strconv\<close>, \<^verbatim>\<open>fmt\<close>, \<^verbatim>\<open>base64\<close> and \<^verbatim>\<open>encoding/json\<close>.
  \<^item> \<open>Domain\<close> (\<^verbatim>\<open>domain/\<close>), \<open>Matrix_Util\<close> (\<^verbatim>\<open>util/\<close>): events and their JSON, tokens, ids, hashes, signatures.
  \<^item> \<open>Auth_Rules\<close> (\<^verbatim>\<open>usecase/auth_rule_resolver.go\<close>), \<open>State_Resolution\<close> (\<^verbatim>\<open>usecase/state_res_sort.go\<close>) with its
    lemmas in \<open>State_Resolution_Sort\<close>, \<open>_Facts\<close>, \<open>_Result\<close>. Go's map iteration orders are a parameter.
  \<^item> \<open>Tables\<close>, \<open>Database\<close>, \<open>Device_Database\<close>, \<open>World\<close> (\<^verbatim>\<open>migrations/\<close>, \<^verbatim>\<open>postgres/workeunit.go\<close>): rows, constraints,
    statements, transactions. \<open>Canal_Storage\<close>, \<open>Evento_Storage\<close>, \<open>Usuario_Storage\<close>, \<open>Device_Storage\<close>,
    \<open>Keys_Storage\<close>, \<open>Backup_Storage\<close> (\<^verbatim>\<open>infrastructure/postgres/\<close>): one operation per query.
  \<^item> \<open>Event_Builder\<close> (\<^verbatim>\<open>event_builder.go\<close>, \<^verbatim>\<open>dag_manage.go\<close>), \<open>Room_Membership\<close>, \<open>Room_Interaction\<close>, \<open>Room_Admin\<close>
    (the services of the same names), \<open>Federation_Client\<close>, \<open>Federation_Service\<close> and \<open>Federation_Queries\<close>
    (\<^verbatim>\<open>federation_service.go\<close>, \<^verbatim>\<open>redis_infra/federation_cache.go\<close>).
  \<^item> \<open>Auth_Service\<close>, \<open>Keys_Service\<close>, \<open>Backup_Service\<close>, \<open>ToDevice_Service\<close>, \<open>Profile_Service\<close>,
    \<open>Directory_Service\<close>, \<open>Media_Service\<close>, \<open>Sync_Service\<close> (\<^verbatim>\<open>usecase/\<close>): the services of the same names.
  \<^item> \<open>Storage_Laws\<close>, \<open>Service_Laws\<close>: single SQL statements as a step relation, and for every operation
    whether it only reads, acts inside a transaction, or is a whole call (locale \<open>effect\<close>);
    \<open>Device_Laws\<close> does so for the services of accounts and devices.
  \<^item> \<open>Invariants\<close>: calls as a step relation, reachable worlds, and the locales \<open>table_invariant\<close> and
    \<open>table_growth\<close> that carry a condition on statements to all runs; \<open>Device_Invariants\<close> uses them for the
    device tables. \<open>Clean_Failure\<close>: failing calls.
  \<^item> \<open>Room_View\<close>: the abstract state of the rooms (log, heads, current state, members) and the
    refinement of each statement; \<open>Room_Effects\<close>, \<open>Genesis_Effects\<close>, \<open>Federation_Effects\<close>: what whole
    calls do to it. \<open>Graph_Queries\<close>: the recursive queries. \<open>Delivery\<close>: queue, retries, destinations.
    \<open>Event_Json\<close>: events through JSON.
  \<^item> \<open>Sync_Facts\<close>: calls that only read, and what two polls see. \<open>Queue_Facts\<close>: device messages pending after a
    token, and one-time keys. \<open>Signature_Facts\<close>: signature maps by user and key. \<open>Backup_Facts\<close>: what writing
    room keys does to a backup version.
  \<^item> \<open>Http\<close> (\<^verbatim>\<open>middlewares.go\<close>, \<^verbatim>\<open>httputil/\<close>, \<^verbatim>\<open>redis_infra/idempotency_cache.go\<close>): requests, responses, the token
    middleware, the cache of transaction ids. \<open>Rooms_Routes\<close>, \<open>Account_Routes\<close>, \<open>Keys_Routes\<close>, \<open>Client_Routes\<close> and
    \<open>Federation_Routes\<close> (\<^verbatim>\<open>delivery/http_adapter/\<close>): one definition per handler, with its decoding, its guards and its
    answers. \<open>Server\<close> (\<^verbatim>\<open>server.go\<close>): the tables of routes and the multiplexer. \<open>Config\<close>: the start-up.
  \<^item> \<open>Handler_Laws\<close>: the effect of each handler. \<open>Request_Effects\<close>: which requests change tables. \<open>Request_Facts\<close>,
    \<open>Signature_Effects\<close>: repeated requests, tokens, and what signature checks decide.
  \<^item> \<open>Federation_Wire\<close>: two servers that talk to each other: canonical JSON, the \<^verbatim>\<open>X-Matrix\<close> header, base64 and the body of
    a transaction, written by the one and read by the other; the assumption on the package is \<open>canonical_package\<close>.
  \<^item> \<open>Payload_Json\<close>: the JSON of every answer (the struct tags of the schemas) and what the decoders of the federation
    client read from it; the assumption on the package is \<open>canonical_writes\<close>.
  \<^item> \<open>Notifier\<close> (\<^verbatim>\<open>infrastructure/postgres/notifier.go\<close>): polls, subscribers and the background listener as steps that
    interleave with the calls; the invariant of the subscribers, and wake-ups that are owed.
  \<^item> \<open>Examples\<close>: concrete worlds for the witnesses. \<open>State_Resolution_Props\<close>, \<open>Data_Props\<close>, \<open>Room_Props\<close>,
    \<open>Federation_Props\<close>, \<open>Sync_Props\<close>, \<open>Device_Props\<close>, \<open>Account_Props\<close>, \<open>Storage_Props\<close>, \<open>Http_Props\<close>,
    \<open>Notifier_Props\<close>, \<open>Wire_Props\<close> and this theory: the properties.

  PARAMETERS. SHA-256, ed25519 and the \<^verbatim>\<open>canonicaljson\<close> package are functions of the record \<open>crypto\<close>;
  \<open>canonicaljson_spec\<close> states what the hash needs of the last one. The bcrypt, JWT and UUID packages are the
  record \<open>auth_lib\<close>. The record \<open>handler\<close> adds what the handlers need: parsing of JWT (\<open>jwt_spec\<close> states what a property
  uses of it), \<^verbatim>\<open>ed25519.Verify\<close>, texts of foreign errors, the statistics of the connection pool, the static files and
  the key pair. PostgreSQL's \<^verbatim>\<open>ILIKE\<close> is an argument of the searches, the wait for a notification an argument of the
  long poll, whose own behaviour is the theory \<open>Notifier\<close>; the fetcher of remote media is a field of the media server,
  and the object store a map of the world.

  NOT MODELLED. Calls of the service do not interleave with each other, only with polls and the listener; a statement is
  atomic. Left out are the widths of \<open>VARCHAR\<close> columns, log output, timeouts and the pauses between attempts, the
  \<^verbatim>\<open>Location\<close> of a redirect and the random boundary of a multipart answer; \<^verbatim>\<open>FederationService.FetchRemoteMedia\<close>, which
  reads such an answer and which nothing calls, since the media service is given the client of \<^verbatim>\<open>federation/client.go\<close>;
  connections to the database, Redis and the object store and the shutdown, which have no logic of their own; the
  declarations of interfaces.
\<close>

section \<open>Properties that span the components\<close>

text \<open>C3. Whatever calls the service has answered, the constraints the repositories rely on hold and no
  transaction is left open: ids are unique, the extremities and the state entries of a room name stored
  events and rooms, and there is one membership row per user and room.\<close>

theorem schema_integrity:
  assumes "reachable ro sv w"
  shows "db_ok (w_db w) \<and> w_tx w = NoTx"
  using schema.invariant_reachable [OF assms] reachable_NoTx [OF assms] by (simp add: tables_def)

definition tea_room :: "world" where
  "tea_room = snd (CreateRoom plain_server sample_room start_world)"

lemma tea_room_step: "api_step ro plain_server start_world tea_room"
  unfolding tea_room_def by (rule api_CreateRoom) (rule prod.collapse [symmetric])

lemma tea_room_reachable: "reachable ro plain_server tea_room"
  using reachable_start_world tea_room_step by (rule reachable_step)

lemma schema_integrity_witness: "db_ok (w_db tea_room) \<and> w_tx tea_room = NoTx"
  by (rule schema_integrity [OF tea_room_reachable])

text \<open>The event log of every reachable database is ordered: stream positions increase strictly along the
  log and stay below the next value of the sequence, so a position identifies an event and a later event
  never gets an earlier position.\<close>

theorem log_order:
  assumes "reachable ro sv w"
  shows "sorted_wrt (<) (map ev_StreamOrdering (t_Evento (w_db w))) \<and>
    (\<forall>e\<in>set (t_Evento (w_db w)). ev_StreamOrdering e < int (sq_stream (w_seqs w)))"
  using ordered.invariant_reachable [OF assms] by (simp add: log_ordered_def tables_def)

lemma log_order_witness: "sorted_wrt (<) (map ev_StreamOrdering (t_Evento (w_db tea_room)))"
  using log_order [OF tea_room_reachable] by blast

text \<open>C5. The log only grows: along any run of the service the events stored stay where they are, each with its
  content, new ones come after them with higher stream positions, no room goes away, and the membership
  rows and state entries keep their keys.\<close>

theorem runs_append_only:
  assumes "(api_step ro sv)\<^sup>*\<^sup>* w w'" and "w_tx w = NoTx"
  shows "log_grows (tables w) (tables w')"
  using grows.growth_run [OF assms] by blast

lemma runs_append_only_witness: "log_grows (tables start_world) (tables tea_room)"
proof -
  have "(api_step plain_orders plain_server)\<^sup>*\<^sup>* start_world tea_room"
    using tea_room_step by (rule r_into_rtranclp [of "api_step plain_orders plain_server"])
  from runs_append_only [OF this] show ?thesis by (simp add: start_world_def)
qed

text \<open>A failing call leaves the tables and closes its transaction.\<close>

definition atomic_at :: "'a op \<Rightarrow> world \<Rightarrow> bool" where
  "atomic_at m w \<longleftrightarrow>
     (case fst (m w) of Ret _ \<Rightarrow> True | _ \<Rightarrow> w_db (snd (m w)) = w_db w) \<and> w_tx (snd (m w)) = NoTx"

lemma clean_atomic: "clean m \<Longrightarrow> w_tx w = NoTx \<Longrightarrow> atomic_at m w"
  by (cases "m w") (auto simp: clean_def atomic_at_def split: outcome.split)

text \<open>C4. A call of one of these operations that fails leaves no trace in the database: sending an event or a state event,
  leaving a room, joining a local or a remote one, inviting a user, taking another server's leave or invitation, uploading
  keys, storing or deleting backed-up room keys. Started outside a transaction, whatever call of the database, of Redis or of
  a remote server breaks, when the operation returns an error or panics the tables are those it started from, and its
  transaction is closed.\<close>

theorem failed_calls_change_nothing:
  assumes "w_tx w = NoTx"
  shows "atomic_at (SendEvent sv sp) w \<and> atomic_at (SendStateEvent sv st) w \<and> atomic_at (LeaveRoom sv u r) w \<and>
    atomic_at (JoinLocalRoom sv u r) w \<and> atomic_at (JoinRemoteRoom ro CheckAuth sv u r srv) w \<and>
    atomic_at (InviteUser sv r u v why dm) w \<and> atomic_at (ProcessSendLeave r pdu) w \<and> atomic_at (ProcessInvite r u pdu evs) w \<and>
    atomic_at (UploadKeys kp) w \<and> atomic_at (PutRoomKeys bp) w \<and> atomic_at (DeleteRoomKeys v ver) w"
  using assms by (intro conjI clean_atomic clean_SendEvent clean_SendStateEvent clean_LeaveRoom
      clean_JoinLocalRoom clean_JoinRemoteRoom clean_InviteUser clean_ProcessSendLeave clean_ProcessInvite
      clean_UploadKeys clean_PutRoomKeys clean_DeleteRoomKeys)

lemma broken_leave: "\<not> works (LeaveRoom plain_server ''@u:a'' ''!r:a'' faulty_world) \<and>
    works (LeaveRoom plain_server ''@u:a'' ''!r:a'' room_world)"
  by code_simp

lemma failed_calls_change_nothing_witness:
  "\<not> works (LeaveRoom plain_server ''@u:a'' ''!r:a'' faulty_world) \<and>
   w_db (snd (LeaveRoom plain_server ''@u:a'' ''!r:a'' faulty_world)) = w_db faulty_world"
  using broken_leave failed_calls_change_nothing [of faulty_world plain_server undefined undefined "''@u:a''" "''!r:a''"]
  by (auto simp: atomic_at_def works_def split: outcome.splits)

end
